(* ===== verification/Prelude.thy ===== *)
theory Prelude imports Main "HOL-Library.Word" begin

text \<open>
  Shared vocabulary of the development: the fixed-width integer types of the C++ sources,
  the Boost error codes the sources compare against, the exceptions they throw, and the
  collections of simplification rules the component theories add to.
\<close>

section \<open>Integer types\<close>

type_synonym byte_t = "8 word"
type_synonym uint16_t = "16 word"
type_synonym uint32_t = "32 word"
type_synonym size_t = "64 word"

section \<open>Rule collections\<close>

named_theorems endpoint_defs \<open>definitions of the model's straight-line operations\<close>
named_theorems frame_simps \<open>fields an operation leaves alone\<close>

section \<open>Error codes\<close>

text \<open>
  The values of \<open>boost::system::error_code\<close> that the sources name.  The default
  constructed (success) value is \<open>no_error\<close>; every code the sources never name is
  \<open>other_error\<close>.  An error code converts to true exactly when it is not the success value.
\<close>

datatype error_code =
    no_error
  | operation_aborted
  | already_open
  | broken_pipe
  | not_connected
  | bad_descriptor
  | no_permission
  | destination_address_required
  | connection_refused
  | connection_reset
  | eof
  | timed_out
  | no_descriptors
  | would_block
  | try_again
  | interrupted
  | in_progress
  | invalid_argument
  | other_error int

definition failed :: "error_code \<Rightarrow> bool" where
  "failed ec \<longleftrightarrow> ec \<noteq> no_error"

lemma failed_simps [simp]:
  "\<not> failed no_error"
  "failed ec \<longleftrightarrow> ec \<noteq> no_error"
  by (simp_all add: failed_def)

end
