(* ===== verification/Message_Buffer.thy ===== *)
theory Message_Buffer imports Prelude begin

text \<open>
  \<open>message_buffer_t\<close> (include/buffer.h), a \<open>std::vector<byte_t>\<close> with its size and its
  capacity, and the vector operations the receive paths use.  Growing allocates; whether an
  allocation of \<open>n\<close> bytes succeeds is up to the environment (\<open>mem n\<close>), and a request beyond
  \<open>max_size\<close> throws \<open>length_error\<close>.  Capacities follow the usual library behaviour: \<open>reserve\<close>
  allocates exactly what is asked for, \<open>resize\<close> at least doubles, \<open>shrink_to_fit\<close> gives up silently
  when it cannot allocate.
\<close>

section \<open>State\<close>

record message_buffer =
  vdata :: "byte_t list"
  vcap :: nat

datatype vector_exception = length_error | bad_alloc

definition max_size :: nat where
  "max_size = 2 ^ 63 - 1"

definition vsize :: "message_buffer \<Rightarrow> nat" where
  "vsize v = length (vdata v)"

definition make_buffer :: "nat \<Rightarrow> message_buffer" where
  "make_buffer n = \<lparr>vdata = replicate n 0, vcap = n\<rparr>"

section \<open>Operations\<close>

definition reserve :: "(nat \<Rightarrow> bool) \<Rightarrow> nat \<Rightarrow> message_buffer \<Rightarrow> vector_exception + message_buffer" where
  "reserve mem n v =
     (if n > max_size then Inl length_error
      else if n \<le> vcap v then Inr v
      else if mem n then Inr (v\<lparr>vcap := n\<rparr>)
      else Inl bad_alloc)"

definition resize ::
  "(nat \<Rightarrow> bool) \<Rightarrow> nat \<Rightarrow> byte_t \<Rightarrow> message_buffer \<Rightarrow> vector_exception + message_buffer" where
  "resize mem n x v =
     (if n \<le> vsize v then Inr (v\<lparr>vdata := take n (vdata v)\<rparr>)
      else if n > max_size then Inl length_error
      else
        let data = vdata v @ replicate (n - vsize v) x
        in if n \<le> vcap v then Inr (v\<lparr>vdata := data\<rparr>)
           else
             let c = min max_size (max n (2 * vsize v))
             in if mem c then Inr \<lparr>vdata = data, vcap = c\<rparr> else Inl bad_alloc)"

definition shrink_to_fit :: "(nat \<Rightarrow> bool) \<Rightarrow> message_buffer \<Rightarrow> message_buffer" where
  "shrink_to_fit mem v =
     (if vsize v < vcap v \<and> mem (vsize v) then v\<lparr>vcap := vsize v\<rparr> else v)"

definition vclear :: "message_buffer \<Rightarrow> message_buffer" where
  "vclear v = v\<lparr>vdata := []\<rparr>"

text \<open>The kernel writes received bytes into the window that starts at \<open>off\<close>.\<close>

definition write_at :: "nat \<Rightarrow> byte_t list \<Rightarrow> message_buffer \<Rightarrow> message_buffer" where
  "write_at off bs v =
     v\<lparr>vdata := take off (vdata v) @ bs @ drop (off + length bs) (vdata v)\<rparr>"

section \<open>Well-formed vectors\<close>

definition vector_ok :: "message_buffer \<Rightarrow> bool" where
  "vector_ok v \<longleftrightarrow> vsize v \<le> vcap v \<and> vcap v \<le> max_size"

lemma vector_ok_make [simp]: "n \<le> max_size \<Longrightarrow> vector_ok (make_buffer n)"
  by (simp add: vector_ok_def make_buffer_def vsize_def)

lemma vsize_make [simp]: "vsize (make_buffer n) = n"
  and vcap_make [simp]: "vcap (make_buffer n) = n"
  by (simp_all add: vsize_def make_buffer_def)

lemma reserve_ok:
  "reserve mem n v = Inr v' \<Longrightarrow> vector_ok v \<Longrightarrow>
     vector_ok v' \<and> vdata v' = vdata v \<and> vcap v' = max n (vcap v)"
  by (auto simp: reserve_def vector_ok_def vsize_def split: if_splits)

lemma resize_ok:
  "resize mem n x v = Inr v' \<Longrightarrow> vector_ok v \<Longrightarrow>
     vector_ok v' \<and> vsize v' = n \<and> vcap v \<le> vcap v' \<and> (n \<le> vcap v \<longrightarrow> vcap v' = vcap v)"
  by (auto simp: resize_def vector_ok_def vsize_def Let_def split: if_splits)

lemma resize_data:
  "resize mem n x v = Inr v' \<Longrightarrow>
     vdata v' = take n (vdata v) @ replicate (n - vsize v) x"
  by (auto simp: resize_def vsize_def Let_def split: if_splits)

lemma resize_within_capacity:
  "vector_ok v \<Longrightarrow> n \<le> vcap v \<Longrightarrow> \<exists>v'. resize mem n x v = Inr v'"
  by (auto simp: resize_def vector_ok_def Let_def)

lemma shrink_to_fit_ok:
  "vector_ok v \<Longrightarrow> vector_ok (shrink_to_fit mem v) \<and> vdata (shrink_to_fit mem v) = vdata v"
  by (auto simp: shrink_to_fit_def vector_ok_def vsize_def)

lemma vector_ok_clear: "vector_ok v \<Longrightarrow> vector_ok (vclear v)"
  by (simp add: vector_ok_def vclear_def vsize_def)

lemma vsize_clear [simp]: "vsize (vclear v) = 0"
  by (simp add: vclear_def vsize_def)

lemma write_at_size:
  "off + length bs \<le> vsize v \<Longrightarrow> vsize (write_at off bs v) = vsize v"
  by (simp add: write_at_def vsize_def)

lemma write_at_ok:
  "vector_ok v \<Longrightarrow> off + length bs \<le> vsize v \<Longrightarrow> vector_ok (write_at off bs v)"
  using write_at_size [of off bs v] by (simp add: vector_ok_def write_at_def)

lemma write_at_window:
  "off + length bs \<le> vsize v \<Longrightarrow> take (length bs) (drop off (vdata (write_at off bs v))) = bs"
  by (simp add: write_at_def vsize_def)

end
