(* ===== verification/Endpoint_Impl.thy ===== *)
theory Endpoint_Impl imports Prelude begin

text \<open>
  \<open>endpoint_impl\<close> (src/endpoint_impl.cpp, include/endpoint_impl.h): the use count every endpoint
  carries.  The count is an unsigned 32-bit atomic; incrementing wraps, decrementing stops at zero.
  The constructor does not initialise the count, so its first value is an argument of the model.
\<close>

definition MESSAGE_SIZE_UNLIMITED :: uint32_t where
  "MESSAGE_SIZE_UNLIMITED = 4294967295"

record 'ep endpoint_impl =
  use_count :: uint32_t
  local_ep :: 'ep

definition new_endpoint_impl :: "uint32_t \<Rightarrow> 'ep \<Rightarrow> 'ep endpoint_impl" where
  "new_endpoint_impl garbage lcl = \<lparr>use_count = garbage, local_ep = lcl\<rparr>"

definition increment_use_count :: "('ep, 'a) endpoint_impl_scheme \<Rightarrow> ('ep, 'a) endpoint_impl_scheme" where
  "increment_use_count e = e\<lparr>use_count := use_count e + 1\<rparr>"

definition decrement_use_count :: "('ep, 'a) endpoint_impl_scheme \<Rightarrow> ('ep, 'a) endpoint_impl_scheme" where
  "decrement_use_count e = (if use_count e > 0 then e\<lparr>use_count := use_count e - 1\<rparr> else e)"

definition get_use_count :: "('ep, 'a) endpoint_impl_scheme \<Rightarrow> uint32_t" where
  "get_use_count e = use_count e"

lemma unat_MESSAGE_SIZE_UNLIMITED: "unat MESSAGE_SIZE_UNLIMITED = 2 ^ 32 - 1"
  by (simp add: MESSAGE_SIZE_UNLIMITED_def)

lemma MESSAGE_SIZE_UNLIMITED_max: "x \<le> MESSAGE_SIZE_UNLIMITED"
proof -
  have "unat x < 2 ^ 32" by (rule order_less_le_trans [OF unsigned_less]) simp
  then show ?thesis by (simp add: word_le_nat_alt unat_MESSAGE_SIZE_UNLIMITED)
qed

lemma unat_decrement:
  "unat (use_count (decrement_use_count e)) = unat (use_count e) - 1"
proof (cases "use_count e > 0")
  case True
  then have "1 \<le> use_count e" by (simp add: word_less_nat_alt word_le_nat_alt)
  with True show ?thesis
    by (simp add: decrement_use_count_def unat_sub word_le_nat_alt)
next
  case False
  then show ?thesis by (simp add: decrement_use_count_def word_less_nat_alt)
qed

lemma unat_increment:
  "unat (use_count (increment_use_count e)) = (unat (use_count e) + 1) mod 2 ^ 32"
  by (simp add: increment_use_count_def unat_word_ariths)

lemma local_ep_use_count [simp]:
  "local_ep (increment_use_count e) = local_ep e"
  "local_ep (decrement_use_count e) = local_ep e"
  by (simp_all add: increment_use_count_def decrement_use_count_def)

text \<open>A run of the counting operations: how the count moves under any sequence of calls.\<close>

datatype count_op = Acquire | Release

fun count_step :: "('ep, 'a) endpoint_impl_scheme \<Rightarrow> count_op \<Rightarrow> ('ep, 'a) endpoint_impl_scheme" where
  "count_step e Acquire = increment_use_count e"
| "count_step e Release = decrement_use_count e"

definition count_run :: "('ep, 'a) endpoint_impl_scheme \<Rightarrow> count_op list \<Rightarrow> ('ep, 'a) endpoint_impl_scheme" where
  "count_run e ops = foldl count_step e ops"

fun saturating_count :: "nat \<Rightarrow> count_op list \<Rightarrow> nat" where
  "saturating_count n [] = n"
| "saturating_count n (Acquire # ops) = saturating_count (Suc n) ops"
| "saturating_count n (Release # ops) = saturating_count (n - 1) ops"

end
