(* ===== verification/Stream_Format.thy ===== *)
theory Stream_Format imports Prelude "HOL-Library.Char_ord" begin

text \<open>
  The text the endpoints print: integers in base 10 (\<open>std::dec\<close>,
  \<open>std::to_string\<close>) and the hexadecimal dumps written byte by byte with
  \<open>std::hex << std::setw(2) << std::setfill('0')\<close>, together with a reader of such dumps.
\<close>

section \<open>Digits\<close>

definition digit_char :: "nat \<Rightarrow> char" where
  "digit_char n = (if n < 10 then char_of (48 + n) else char_of (87 + n))"

definition char_digit :: "char \<Rightarrow> nat option" where
  "char_digit c =
     (let k = of_char c :: nat
      in if 48 \<le> k \<and> k < 58 then Some (k - 48)
         else if 97 \<le> k \<and> k < 103 then Some (k - 87)
         else None)"

lemma char_digit_digit_char [simp]:
  assumes "n < 16"
  shows "char_digit (digit_char n) = Some n"
  using assms by (simp add: char_digit_def digit_char_def Let_def)

fun to_base :: "nat \<Rightarrow> nat \<Rightarrow> string" where
  "to_base b n =
     (if b < 2 \<or> n < b then [digit_char n]
      else to_base b (n div b) @ [digit_char (n mod b)])"

declare to_base.simps [simp del]

definition dec :: "nat \<Rightarrow> string" where
  "dec n = to_base 10 n"

definition dec_int :: "int \<Rightarrow> string" where
  "dec_int i = (if i < 0 then ''-'' @ dec (nat (- i)) else dec (nat i))"

lemma to_base_not_Nil [simp]: "to_base b n \<noteq> []"
  by (subst to_base.simps) simp

section \<open>Hexadecimal dumps\<close>

text \<open>
  \<open>setw(2)\<close> and \<open>setfill('0')\<close> pad a one-digit value on the left; a byte never
  needs more than two digits.
\<close>

definition hex_byte :: "byte_t \<Rightarrow> string" where
  "hex_byte b = (let s = to_base 16 (unat b) in replicate (2 - length s) (CHR ''0'') @ s)"

definition hex_dump :: "byte_t list \<Rightarrow> string" where
  "hex_dump bs = concat (map (\<lambda>b. hex_byte b @ '' '') bs)"

lemma unat_byte_lt: "unat (b :: byte_t) < 256"
  by (rule order_less_le_trans [OF unsigned_less]) simp

lemma to_base16_two:
  assumes "n < 256"
  shows "to_base 16 n =
    (if n < 16 then [digit_char n] else [digit_char (n div 16), digit_char (n mod 16)])"
proof (cases "n < 16")
  case True
  then show ?thesis by (simp add: to_base.simps)
next
  case False
  with assms have "n div 16 < 16" by simp
  then have "to_base 16 (n div 16) = [digit_char (n div 16)]"
    by (simp add: to_base.simps)
  with False show ?thesis by (simp add: to_base.simps [of 16 n])
qed

lemma hex_byte_digits:
  "hex_byte b = [digit_char (unat b div 16), digit_char (unat b mod 16)]"
proof -
  have z: "digit_char 0 = CHR ''0''" by code_simp
  show ?thesis
    using to_base16_two [OF unat_byte_lt, of b] z by (simp add: hex_byte_def Let_def)
qed

lemma length_hex_byte [simp]: "length (hex_byte b) = 2"
  by (simp add: hex_byte_digits)

lemma hex_dump_simps [simp]:
  "hex_dump [] = []"
  "hex_dump (b # bs) = hex_byte b @ '' '' @ hex_dump bs"
  by (simp_all add: hex_dump_def)

lemma length_hex_dump: "length (hex_dump bs) = 3 * length bs"
  by (induction bs) simp_all

section \<open>Reading a dump back\<close>

fun parse_dump :: "string \<Rightarrow> byte_t list option" where
  "parse_dump [] = Some []"
| "parse_dump (h # l # s # rest) =
     (case (char_digit h, char_digit l) of
        (Some x, Some y) \<Rightarrow>
          if s = CHR '' '' then map_option ((#) (of_nat (16 * x + y))) (parse_dump rest) else None
      | _ \<Rightarrow> None)"
| "parse_dump _ = None"

lemma parse_dump_hex_byte:
  "parse_dump (hex_byte b @ '' '' @ rest) = map_option ((#) b) (parse_dump rest)"
proof -
  have "unat b div 16 < 16" using unat_byte_lt [of b] by simp
  then show ?thesis by (simp add: hex_byte_digits)
qed

lemma parse_hex_dump: "parse_dump (hex_dump bs) = Some bs"
proof (induction bs)
  case Nil
  then show ?case by simp
next
  case (Cons b bs)
  then show ?case
    unfolding hex_dump_simps parse_dump_hex_byte by simp
qed

lemma hex_dump_inj: "hex_dump bs = hex_dump cs \<longleftrightarrow> bs = cs"
  by (metis option.inject parse_hex_dump)

end
