(* ===== verification/Receive_Window.thy ===== *)
theory Receive_Window imports Message_Buffer Endpoint_Impl Stream_Format begin

text \<open>
  The part of the TCP receive path that client and server connection share: before each
  \<open>async_receive\<close> the buffer is grown to the missing capacity, or shrunk back to its initial size
  after a long run of small messages, and the window the next bytes go to is computed.  Sizes are
  \<open>size_t\<close>, so the subtraction and the addition wrap around.
\<close>

datatype receive_plan =
    Exceeds_maximum
  | Threw vector_exception message_buffer
  | Window message_buffer size_t uint32_t bool

text \<open>\<open>Window b len sc big\<close>: receive \<open>len\<close> bytes into \<open>b\<close>; \<open>sc\<close> is the new shrink
  count; \<open>big\<close> says that the buffer grew beyond a megabyte, which the sources report.\<close>

definition prepare_receive ::
  "(nat \<Rightarrow> bool) \<Rightarrow> uint32_t \<Rightarrow> uint32_t \<Rightarrow> uint32_t \<Rightarrow> message_buffer \<Rightarrow> size_t \<Rightarrow> size_t \<Rightarrow> receive_plan" where
  "prepare_receive mem initial threshold shrink_count buf recv_buffer_size missing_capacity =
     (let capacity = of_nat (vcap buf) :: size_t;
          buffer_size = capacity - recv_buffer_size
      in if missing_capacity \<noteq> 0 then
           if missing_capacity > ucast MESSAGE_SIZE_UNLIMITED then Exceeds_maximum
           else
             let required = recv_buffer_size + missing_capacity
             in if capacity < required then
                  (case reserve mem (unat required) buf of
                     Inl e \<Rightarrow> Threw e buf
                   | Inr b1 \<Rightarrow>
                       (case resize mem (unat required) 0 b1 of
                          Inl e \<Rightarrow> Threw e b1
                        | Inr b2 \<Rightarrow> Window b2 missing_capacity shrink_count (vsize b2 > 1048576)))
                else Window buf missing_capacity shrink_count False
         else if threshold \<noteq> 0 \<and> shrink_count > threshold \<and> recv_buffer_size = 0 then
           (case resize mem (unat initial) 0 buf of
              Inl e \<Rightarrow> Threw e buf
            | Inr b1 \<Rightarrow> Window (shrink_to_fit mem b1) (ucast initial) 0 False)
         else Window buf buffer_size shrink_count False)"

text \<open>
  The bytes \<open>handle_recv_buffer_exception\<close> prints: the first up to 16 buffered bytes, and, when
  there are more than 15, the bytes with indices 15 down to 0.
\<close>

definition captured_bytes :: "size_t \<Rightarrow> message_buffer \<Rightarrow> string" where
  "captured_bytes recv_buffer_size buf =
     hex_dump (take (min (unat recv_buffer_size) 16) (vdata buf))
     @ '' Last 16 Bytes captured: ''
     @ hex_dump (if recv_buffer_size > 15 then rev (take 16 (vdata buf)) else [])"

text \<open>
  \<open>calculate_shrink_count\<close>: count the messages that leave more than half of a grown buffer
  unused, start again as soon as one does not.
\<close>

definition next_shrink_count :: "uint32_t \<Rightarrow> uint32_t \<Rightarrow> uint32_t \<Rightarrow> message_buffer \<Rightarrow> size_t \<Rightarrow> uint32_t" where
  "next_shrink_count initial threshold shrink_count buf recv_buffer_size =
     (if threshold \<noteq> 0 then
        if of_nat (vcap buf) \<noteq> (ucast initial :: size_t) then
          if recv_buffer_size < drop_bit 1 (of_nat (vcap buf)) then shrink_count + 1 else 0
        else shrink_count
      else shrink_count)"

section \<open>Bounds\<close>

definition buffer_full :: "message_buffer \<Rightarrow> bool" where
  "buffer_full b \<longleftrightarrow> vector_ok b \<and> vsize b = vcap b"

lemma unat_of_cap: "vector_ok b \<Longrightarrow> unat (of_nat (vcap b) :: size_t) = vcap b"
  by (simp add: vector_ok_def max_size_def unat_of_nat)

lemma unat_le_sizeI: "unat (a :: size_t) \<le> n \<Longrightarrow> n < 2 ^ 64 \<Longrightarrow> a \<le> of_nat n"
  by (simp add: word_le_nat_alt unat_of_nat)

lemma unat_ucast_32_64 [simp]: "unat (ucast (x :: uint32_t) :: size_t) = unat x"
  by (simp add: unsigned_ucast_eq take_bit_nat_eq_self unsigned_less order_less_trans [OF unsigned_less])

lemma unat_required:
  assumes "unat (a :: size_t) \<le> max_size" "m \<le> ucast MESSAGE_SIZE_UNLIMITED"
  shows "unat (a + m) = unat a + unat m"
proof -
  have "unat m \<le> 2 ^ 32 - 1"
    using assms(2) by (simp add: word_le_nat_alt MESSAGE_SIZE_UNLIMITED_def)
  with assms(1) have "unat a + unat m < 2 ^ 64" by (simp add: max_size_def)
  then show ?thesis by (simp add: unat_word_ariths)
qed

text \<open>The four ways a plan can be a window.\<close>

lemma prepare_receive_WindowE:
  assumes "prepare_receive mem initial threshold sc buf rbs missing = Window b len sc' big"
  obtains
    (grow) b1 where "missing \<noteq> 0" "missing \<le> ucast MESSAGE_SIZE_UNLIMITED"
      "of_nat (vcap buf) < rbs + missing" "reserve mem (unat (rbs + missing)) buf = Inr b1"
      "resize mem (unat (rbs + missing)) 0 b1 = Inr b" "len = missing" "sc' = sc"
  | (fits) "missing \<noteq> 0" "missing \<le> ucast MESSAGE_SIZE_UNLIMITED"
      "rbs + missing \<le> of_nat (vcap buf)" "b = buf" "len = missing" "sc' = sc"
  | (shrink) b1 where "missing = 0" "threshold \<noteq> 0" "sc > threshold" "rbs = 0"
      "resize mem (unat initial) 0 buf = Inr b1" "b = shrink_to_fit mem b1"
      "len = ucast initial" "sc' = 0"
  | (plain) "missing = 0" "b = buf" "len = of_nat (vcap buf) - rbs" "sc' = sc"
proof (cases "missing = 0")
  case True
  show thesis
  proof (cases "threshold \<noteq> 0 \<and> sc > threshold \<and> rbs = 0")
    case due: True
    with assms True obtain b1 where "resize mem (unat initial) 0 buf = Inr b1"
        "b = shrink_to_fit mem b1" "len = ucast initial" "sc' = 0"
      by (auto simp: prepare_receive_def Let_def split: sum.splits)
    with True due show ?thesis by (intro shrink) simp_all
  next
    case False
    with assms True show ?thesis
      by (intro plain) (auto simp: prepare_receive_def Let_def split: if_splits)
  qed
next
  case False
  with assms have lim: "missing \<le> ucast MESSAGE_SIZE_UNLIMITED"
    by (simp add: prepare_receive_def Let_def split: if_splits)
  show thesis
  proof (cases "of_nat (vcap buf) < rbs + missing")
    case True
    with assms False lim obtain b1 where
        "reserve mem (unat (rbs + missing)) buf = Inr b1"
        "resize mem (unat (rbs + missing)) 0 b1 = Inr b" "len = missing" "sc' = sc"
      by (auto simp: prepare_receive_def Let_def split: sum.splits if_splits)
    with True False lim show ?thesis by (intro grow)
  next
    case roomy: False
    with assms False lim show ?thesis
      by (intro fits) (simp_all add: prepare_receive_def Let_def leD)
  qed
qed

text \<open>The window stays inside the allocated storage whatever the allocator does.\<close>

lemma prepare_receive_window:
  assumes plan: "prepare_receive mem initial threshold sc buf rbs missing = Window b len sc' big"
    and ok: "vector_ok buf" and used: "unat rbs \<le> vcap buf"
  shows "vector_ok b \<and> unat rbs + unat len \<le> vcap b"
proof -
  have req: "unat (rbs + missing) = unat rbs + unat missing"
    if "missing \<le> ucast MESSAGE_SIZE_UNLIMITED"
    using used ok that by (intro unat_required) (simp_all add: vector_ok_def)
  from plan show ?thesis
  proof (cases rule: prepare_receive_WindowE)
    case (grow b1)
    then have "vector_ok b1" "vcap b1 = max (unat (rbs + missing)) (vcap buf)"
      using ok by (auto dest: reserve_ok)
    with grow have "vector_ok b" "vcap b1 \<le> vcap b" by (auto dest: resize_ok)
    with grow \<open>vcap b1 = _\<close> show ?thesis by (simp add: req)
  next
    case fits
    with ok req show ?thesis by (simp add: word_le_nat_alt unat_of_cap)
  next
    case (shrink b1)
    then have b1: "vector_ok b1" "vsize b1 = unat initial" using ok by (auto dest: resize_ok)
    then have "vector_ok b" "vsize b = unat initial"
      using shrink shrink_to_fit_ok [OF b1(1), of mem] by (auto simp: vsize_def)
    with shrink show ?thesis by (simp add: vector_ok_def unat_ucast_32_64)
  next
    case plain
    with ok used show ?thesis
      by (simp add: unat_sub unat_le_sizeI unat_of_cap vector_ok_def max_size_def)
  qed
qed

text \<open>
  Starting from a vector without spare capacity, the window is also inside the vector's size, and
  the vector keeps having none, as long as shrinking can allocate its small block.
\<close>

lemma prepare_receive_full:
  assumes plan: "prepare_receive mem initial threshold sc buf rbs missing = Window b len sc' big"
    and full: "buffer_full buf" and used: "unat rbs \<le> vsize buf" and small: "mem (unat initial)"
  shows "buffer_full b \<and> unat rbs + unat len \<le> vsize b"
proof -
  have ok: "vector_ok buf" and sz: "vsize buf = vcap buf" using full by (simp_all add: buffer_full_def)
  note win = prepare_receive_window [OF plan ok]
  from plan have "vsize b = vcap b"
  proof (cases rule: prepare_receive_WindowE)
    case (grow b1)
    have "vcap buf < unat (rbs + missing)"
      using grow(3) ok by (simp add: word_less_nat_alt unat_of_cap)
    then have "vector_ok b1" "vcap b1 = unat (rbs + missing)"
      using grow(4) ok reserve_ok by fastforce+
    then show ?thesis using grow(5) resize_ok by fastforce
  next
    case (shrink b1)
    then have "vector_ok b1" "vsize b1 = unat initial" using ok by (auto dest: resize_ok)
    with shrink small show ?thesis by (auto simp: shrink_to_fit_def vector_ok_def vsize_def)
  qed (simp_all add: sz)
  with win used sz show ?thesis by (simp add: buffer_full_def)
qed

text \<open>With nothing buffered, nothing missing and no shrinking due, the whole capacity is offered.\<close>

lemma prepare_receive_plain:
  "sc \<le> threshold \<Longrightarrow>
     prepare_receive mem initial threshold sc buf 0 0 = Window buf (of_nat (vcap buf)) sc False"
  by (simp add: prepare_receive_def Let_def leD)

text \<open>A request that the allocator refuses leaves the buffered bytes in place.\<close>

lemma prepare_receive_Threw:
  assumes "prepare_receive mem initial threshold sc buf rbs missing = Threw e b" and "vector_ok buf"
  shows "vdata b = vdata buf \<and> vector_ok b"
proof -
  have "vector_ok b1 \<and> vdata b1 = vdata buf" if "reserve mem n buf = Inr b1" for n b1
    using reserve_ok [OF that assms(2)] by simp
  with assms show ?thesis
    by (auto simp: prepare_receive_def Let_def split: if_splits sum.splits)
qed

end
