(* ===== verification/Base_Props.thy ===== *)
theory Base_Props imports Receive_Window begin

text \<open>
  The properties of the parts every endpoint shares: the use count, the hexadecimal dumps and the
  window the TCP endpoints receive into.
\<close>

text \<open>
  As long as the counter cannot overflow, any sequence of increments and decrements moves the use
  count like a natural number that stops at zero: it never wraps below zero, whatever the order of
  the calls.
\<close>

theorem use_count_refines_counter:
  assumes "unat (get_use_count e) + length ops < 2 ^ 32"
  shows "unat (get_use_count (count_run e ops)) = saturating_count (unat (get_use_count e)) ops"
  using assms unfolding get_use_count_def
proof (induction ops arbitrary: e)
  case Nil
  then show ?case by (simp add: count_run_def)
next
  case (Cons x ops)
  let ?e = "count_step e x"
  have step: "unat (use_count ?e) =
      (case x of Acquire \<Rightarrow> Suc (unat (use_count e)) | Release \<Rightarrow> unat (use_count e) - 1)"
    using Cons.prems by (cases x) (simp_all add: unat_increment unat_decrement)
  then have "unat (use_count ?e) + length ops < 2 ^ 32"
    using Cons.prems by (cases x) simp_all
  from Cons.IH [OF this] step show ?case
    by (cases x) (simp_all add: count_run_def)
qed

theorem use_count_refines_counter_witness:
  "unat (get_use_count (count_run (new_endpoint_impl 1 ()) [Release, Release, Acquire, Acquire])) = 2"
  using use_count_refines_counter [of "new_endpoint_impl 1 ()" "[Release, Release, Acquire, Acquire]"]
  by (simp add: new_endpoint_impl_def get_use_count_def)

text \<open>
  The hexadecimal dumps the endpoints print determine the bytes: three characters per byte, and
  a dump reads back to exactly the bytes it was made from, so two messages with the same dump are
  equal.
\<close>

theorem hex_dump_faithful:
  "parse_dump (hex_dump bs) = Some bs \<and> length (hex_dump bs) = 3 * length bs"
  by (simp add: parse_hex_dump length_hex_dump)

text \<open>
  C25: whatever capacity is asked for and whatever the allocator does, the window handed to the next
  \<open>async_receive\<close> starts behind the buffered bytes and ends inside the allocated storage, and a
  request for missing capacity is granted in full; from a vector without spare capacity the window is
  inside the vector's elements too and the vector has no spare capacity again, provided the block it
  shrinks to can be allocated.
\<close>

theorem receive_window_in_bounds:
  assumes "prepare_receive mem initial threshold sc buf rbs missing = Window b len sc' big"
    and "vector_ok buf" and "unat rbs \<le> vcap buf"
  shows "vector_ok b \<and> unat rbs + unat len \<le> vcap b \<and> (missing = 0 \<or> len = missing) \<and>
    (vsize buf = vcap buf \<and> mem (unat initial) \<longrightarrow> vsize b = vcap b \<and> unat rbs + unat len \<le> vsize b)"
proof -
  have "vsize b = vcap b \<and> unat rbs + unat len \<le> vsize b"
    if "vsize buf = vcap buf" "mem (unat initial)"
    using prepare_receive_full [OF assms(1)] assms(2,3) that by (simp add: buffer_full_def)
  moreover have "missing = 0 \<or> len = missing"
    using assms(1) by (cases rule: prepare_receive_WindowE) simp_all
  ultimately show ?thesis using prepare_receive_window [OF assms] by blast
qed

theorem receive_window_in_bounds_witness:
  "\<exists>b. prepare_receive (\<lambda>n. True) 4 1000 0 (make_buffer 4) 4 10 = Window b 10 0 False \<and>
     vsize b = 14 \<and> vcap b = 14"
proof -
  have "prepare_receive (\<lambda>n. True) 4 1000 0 (make_buffer 4) 4 10 =
      Window \<lparr>vdata = replicate 4 0 @ replicate 10 0, vcap = 14\<rparr> 10 0 False"
    by (simp add: prepare_receive_def Let_def reserve_def resize_def make_buffer_def vsize_def max_size_def
        MESSAGE_SIZE_UNLIMITED_def del: replicate_append_same)
  from receive_window_in_bounds [OF this] show ?thesis
    unfolding \<open>prepare_receive _ _ _ _ _ _ _ = _\<close>
    by (simp add: vector_ok_def vsize_def max_size_def make_buffer_def)
qed

end
