(* ===== verification/Asio_Env.thy ===== *)
theory Asio_Env
  imports Message_Buffer
begin

text \<open>
  What the endpoints use of Boost.Asio and the operating system.  The calls are parameters of the
  model, gathered in one record: a socket is an abstract value, a call returns its error code and
  the socket afterwards.  The locale \<open>asio_socket\<close> states the documented behaviour the endpoints
  rely on; it is interpreted on the socket service of include/helper in theory \<open>Basic_Socket\<close>.
\<close>

section \<open>Protocols and options\<close>

datatype address_family = AF_INET | AF_INET6 | AF_UNIX | AF_OTHER int

datatype socket_kind = SOCK_STREAM | SOCK_DGRAM | SOCK_OTHER int

datatype ip_protocol = IPPROTO_DEFAULT | IPPROTO_TCP | IPPROTO_UDP

record protocol =
  p_family :: address_family
  p_type :: socket_kind
  p_protocol :: ip_protocol

datatype 'addr socket_option =
    no_delay
  | keep_alive
  | reuse_address
  | linger_abort
  | receive_buffer_size uint32_t
  | broadcast
  | outbound_interface_v4 'addr
  | outbound_interface_v6 'addr

section \<open>The calls\<close>

record ('s, 'ep, 'addr) asio_env =
  \<comment> \<open>endpoints and addresses\<close>
  ep_protocol :: "'ep \<Rightarrow> protocol"
  ep_address :: "'ep \<Rightarrow> 'addr"
  ep_port :: "'ep \<Rightarrow> uint16_t"
  addr_to_string :: "'addr \<Rightarrow> string"
  addr_unspecified :: "'addr \<Rightarrow> bool"
  addr_is_v4 :: "'addr \<Rightarrow> bool"
  addr_is_v6 :: "'addr \<Rightarrow> bool"
  \<comment> \<open>error codes\<close>
  ec_message :: "error_code \<Rightarrow> string"
  ec_value :: "error_code \<Rightarrow> int"
  \<comment> \<open>sockets\<close>
  sk_is_open :: "'s \<Rightarrow> bool"
  sk_reset :: "'s \<Rightarrow> 's"
  sk_open :: "protocol \<Rightarrow> 's \<Rightarrow> error_code \<times> 's"
  sk_set_option :: "'addr socket_option \<Rightarrow> 's \<Rightarrow> error_code \<times> 's"
  sk_get_receive_buffer_size :: "'s \<Rightarrow> error_code \<times> int"
  sk_bind :: "'ep \<Rightarrow> 's \<Rightarrow> error_code \<times> 's"
  sk_listen :: "'s \<Rightarrow> error_code \<times> 's"
  sk_local_endpoint :: "'s \<Rightarrow> error_code \<times> 'ep"
  sk_remote_endpoint :: "'s \<Rightarrow> error_code \<times> 'ep"
  sk_shutdown :: "'s \<Rightarrow> error_code \<times> 's"
  sk_close :: "'s \<Rightarrow> error_code \<times> 's"
  sk_fcntl_error :: "'s \<Rightarrow> (string \<times> int) option"
  \<comment> \<open>memory and the executor\<close>
  mem_available :: "nat \<Rightarrow> bool"
  exception_what :: "vector_exception \<Rightarrow> string"
  post_exception :: "string option"

text \<open>
  \<open>sk_reset\<close> is \<open>socket_.reset(new socket_type(service_))\<close>; \<open>sk_fcntl_error\<close> is the pair of
  \<open>std::strerror(errno)\<close> and \<open>errno\<close> when \<open>fcntl(native_handle, F_GETFD)\<close> returns -1;
  \<open>post_exception\<close> is the \<open>what()\<close> of an exception thrown while a handler is posted.
\<close>

section \<open>The contract\<close>

locale asio_socket =
  fixes E :: "('s, 'ep, 'addr) asio_env"
  assumes reset_closed: "\<not> sk_is_open E (sk_reset E s)"
    and open_is_open: "sk_open E p s = (ec, s') \<Longrightarrow> sk_is_open E s' \<longleftrightarrow> sk_is_open E s \<or> ec = no_error"
    and open_already: "sk_open E p s = (ec, s') \<Longrightarrow> ec = already_open \<longleftrightarrow> sk_is_open E s"
    and set_option_is_open: "sk_set_option E opt s = (ec, s') \<Longrightarrow> sk_is_open E s' \<longleftrightarrow> sk_is_open E s"
    and bind_is_open: "sk_bind E ep s = (ec, s') \<Longrightarrow> sk_is_open E s' \<longleftrightarrow> sk_is_open E s"
    and listen_is_open: "sk_listen E s = (ec, s') \<Longrightarrow> sk_is_open E s' \<longleftrightarrow> sk_is_open E s"
    and shutdown_is_open: "sk_shutdown E s = (ec, s') \<Longrightarrow> sk_is_open E s' \<longleftrightarrow> sk_is_open E s"
    and close_closed: "sk_close E s = (ec, s') \<Longrightarrow> \<not> sk_is_open E s'"
begin

lemma is_open_simps [simp]:
  "\<not> sk_is_open E (sk_reset E s)"
  "sk_is_open E (snd (sk_set_option E opt s)) = sk_is_open E s"
  "sk_is_open E (snd (sk_bind E ep s)) = sk_is_open E s"
  "sk_is_open E (snd (sk_listen E s)) = sk_is_open E s"
  "sk_is_open E (snd (sk_shutdown E s)) = sk_is_open E s"
  "\<not> sk_is_open E (snd (sk_close E s))"
  by (simp_all add: reset_closed set_option_is_open [OF surjective_pairing]
      bind_is_open [OF surjective_pairing] listen_is_open [OF surjective_pairing]
      shutdown_is_open [OF surjective_pairing] close_closed [OF surjective_pairing])

text \<open>A socket that is open after \<open>open\<close> was opened by the call or was open before.\<close>

lemma open_usable:
  "sk_is_open E (snd (sk_open E p s)) \<longleftrightarrow> fst (sk_open E p s) \<in> {no_error, already_open}"
  using open_is_open [OF surjective_pairing, of p s] open_already [OF surjective_pairing, of p s]
  by auto

end

text \<open>
  Every endpoint closes a socket the same way: if it is open, shut both directions down and close
  it, ignoring the error codes.
\<close>

definition shutdown_and_close :: "('s, 'ep, 'addr) asio_env \<Rightarrow> 's \<Rightarrow> 's" where
  "shutdown_and_close E s =
     (if sk_is_open E s then snd (sk_close E (snd (sk_shutdown E s))) else s)"

context asio_socket
begin

lemma shutdown_and_close_closed [simp]: "\<not> sk_is_open E (shutdown_and_close E s)"
  by (simp add: shutdown_and_close_def)

end

chapter \<open>An environment in which everything succeeds\<close>

text \<open>
  A concrete environment in which every call succeeds, for evaluating the model on examples: a
  socket is whether it is open, an endpoint is a port, an address is 32 bits.
\<close>

definition quiet_env :: "(bool, uint16_t, uint32_t) asio_env" where
  "quiet_env =
     \<lparr>ep_protocol = (\<lambda>_. \<lparr>p_family = AF_INET, p_type = SOCK_STREAM, p_protocol = IPPROTO_TCP\<rparr>),
      ep_address = (\<lambda>_. 0), ep_port = (\<lambda>ep. ep),
      addr_to_string = (\<lambda>_. ''0.0.0.0''), addr_unspecified = (\<lambda>a. a = 0),
      addr_is_v4 = (\<lambda>_. True), addr_is_v6 = (\<lambda>_. False),
      ec_message = (\<lambda>_. ''message''), ec_value = (\<lambda>ec. if ec = no_error then 0 else 1),
      sk_is_open = (\<lambda>s. s), sk_reset = (\<lambda>_. False),
      sk_open = (\<lambda>_ s. (if s then already_open else no_error, True)),
      sk_set_option = (\<lambda>_ s. (no_error, s)),
      sk_get_receive_buffer_size = (\<lambda>_. (no_error, 1000)),
      sk_bind = (\<lambda>_ s. (no_error, s)), sk_listen = (\<lambda>s. (no_error, s)),
      sk_local_endpoint = (\<lambda>_. (no_error, 13400)), sk_remote_endpoint = (\<lambda>_. (no_error, 50000)),
      sk_shutdown = (\<lambda>s. (no_error, s)), sk_close = (\<lambda>_. (no_error, False)),
      sk_fcntl_error = (\<lambda>_. None),
      mem_available = (\<lambda>_. True), exception_what = (\<lambda>_. ''what''), post_exception = None\<rparr>"

lemma quiet_env_simps [simp]:
  "ep_port quiet_env ep = ep"
  "addr_unspecified quiet_env a = (a = 0)"
  "addr_is_v4 quiet_env a = True"
  "sk_is_open quiet_env s = s"
  "sk_reset quiet_env s = False"
  "sk_open quiet_env p s = (if s then already_open else no_error, True)"
  "sk_set_option quiet_env opt s = (no_error, s)"
  "sk_get_receive_buffer_size quiet_env s = (no_error, 1000)"
  "sk_bind quiet_env ep s = (no_error, s)"
  "sk_listen quiet_env s = (no_error, s)"
  "sk_local_endpoint quiet_env s = (no_error, 13400)"
  "sk_remote_endpoint quiet_env s = (no_error, 50000)"
  "sk_shutdown quiet_env s = (no_error, s)"
  "sk_close quiet_env s = (no_error, False)"
  "sk_fcntl_error quiet_env s = None"
  "mem_available quiet_env n = True"
  "post_exception quiet_env = None"
  by (simp_all add: quiet_env_def)

lemma asio_socket_quiet: "asio_socket quiet_env"
  by unfold_locales (auto split: if_splits)

end
