(* ===== verification/Client_Endpoint.thy ===== *)
theory Client_Endpoint imports Asio_Env Endpoint_Impl Message_Buffer Stream_Format begin

text \<open>
  \<open>client_endpoint_impl<Protocol>\<close> (src/client_endpoint_impl.cpp and its header): the state shared
  by the TCP and UDP clients, the connection state machine's guarded transitions, the completion
  handlers, closing and recreating the socket, and the connect timer.  The pure virtual functions
  the base class calls are a record of functions (\<open>client_virtuals\<close>).  Handlers given to the
  io_service, in the order they were given, are the list \<open>io\<close>; text written to \<open>std::cout\<close>
  is the list \<open>cout\<close>; \<open>escaped\<close> lists the exceptions that left an operation (the
  operations that can throw are only called last, so nothing after the throw is skipped).
  Locks are not part of the state: a call or a handler is one step.
\<close>

section \<open>State\<close>

datatype cei_state_e = CLOSED | CONNECTING | CONNECTED | ESTABLISHED

datatype timer_id = Connect_timer | Sent_timer

text \<open>
  Outstanding work.  \<open>Timer_aborted\<close> is a wait that \<open>cancel\<close> has completed with
  \<open>operation_aborted\<close> and whose handler has not run yet.
\<close>

datatype 'ep client_op =
    Post_connect_cbk error_code
  | Async_connect 'ep
  | Async_receive size_t size_t
  | Async_receive_from message_buffer
  | Async_write "byte_t list" nat
  | Async_send "byte_t list"
  | Timer_wait timer_id uint32_t
  | Timer_aborted timer_id

record ('s, 'ep) client_endpoint = "'ep endpoint_impl" +
  socket :: 's
  remote_ep :: 'ep
  connect_timeout :: uint32_t
  cei_state :: cei_state_e
  reconnect_counter :: uint32_t
  was_not_connected :: bool
  local_port :: uint16_t
  sending_blocked :: bool
  steady_clock :: nat
  io :: "'ep client_op list"
  cout :: "string list"
  escaped :: "string list"

definition FTDOIP_DEFAULT_CONNECT_TIMEOUT :: uint32_t where
  "FTDOIP_DEFAULT_CONNECT_TIMEOUT = 1000"

text \<open>
  The constructor.  \<open>use_count_\<close> and \<open>sending_blocked_\<close> are not initialised by it, so their first
  values are arguments.
\<close>

definition init_client_endpoint ::
  "uint32_t \<Rightarrow> bool \<Rightarrow> 'ep \<Rightarrow> 'ep \<Rightarrow> 's \<Rightarrow> ('s, 'ep) client_endpoint" where
  "init_client_endpoint garbage blocked lcl rmt s =
     \<lparr>use_count = garbage, local_ep = lcl,
      socket = s, remote_ep = rmt,
      connect_timeout = FTDOIP_DEFAULT_CONNECT_TIMEOUT,
      cei_state = CLOSED,
      reconnect_counter = 0,
      was_not_connected = False,
      local_port = 0,
      sending_blocked = blocked,
      steady_clock = 0, io = [], cout = [], escaped = []\<rparr>"

record 'c client_virtuals =
  v_connect :: "'c \<Rightarrow> 'c"
  v_receive :: "'c \<Rightarrow> 'c"
  v_set_local_port :: "'c \<Rightarrow> 'c"
  v_send_data :: "byte_t list \<Rightarrow> 'c \<Rightarrow> 'c"
  v_get_remote_information :: "'c \<Rightarrow> string"

section \<open>Output, handlers and timers\<close>

definition log :: "string \<Rightarrow> ('s, 'ep, 'a) client_endpoint_scheme \<Rightarrow> ('s, 'ep, 'a) client_endpoint_scheme" where
  "log t c = c\<lparr>cout := cout c @ [t]\<rparr>"

definition start_async :: "'ep client_op \<Rightarrow> ('s, 'ep, 'a) client_endpoint_scheme \<Rightarrow> ('s, 'ep, 'a) client_endpoint_scheme" where
  "start_async p c = c\<lparr>io := io c @ [p]\<rparr>"

fun abort_wait :: "timer_id \<Rightarrow> 'ep client_op \<Rightarrow> 'ep client_op" where
  "abort_wait t (Timer_wait t' ms) = (if t = t' then Timer_aborted t else Timer_wait t' ms)"
| "abort_wait t p = p"

definition cancel_timer :: "timer_id \<Rightarrow> ('s, 'ep, 'a) client_endpoint_scheme \<Rightarrow> ('s, 'ep, 'a) client_endpoint_scheme" where
  "cancel_timer t c = c\<lparr>io := map (abort_wait t) (io c)\<rparr>"

text \<open>\<open>expires_from_now\<close> cancels a pending wait; \<open>async_wait\<close> then starts a new one.\<close>

definition start_timer :: "timer_id \<Rightarrow> uint32_t \<Rightarrow> ('s, 'ep, 'a) client_endpoint_scheme \<Rightarrow> ('s, 'ep, 'a) client_endpoint_scheme" where
  "start_timer t ms c = start_async (Timer_wait t ms) (cancel_timer t c)"

section \<open>Queries\<close>

definition is_client :: "('s, 'ep, 'a) client_endpoint_scheme \<Rightarrow> bool" where
  "is_client c = True"

definition is_established :: "('s, 'ep, 'a) client_endpoint_scheme \<Rightarrow> bool" where
  "is_established c \<longleftrightarrow> cei_state c = ESTABLISHED"

definition is_established_or_connected :: "('s, 'ep, 'a) client_endpoint_scheme \<Rightarrow> bool" where
  "is_established_or_connected c \<longleftrightarrow> cei_state c = ESTABLISHED \<or> cei_state c = CONNECTED"

definition get_local_port :: "('s, 'ep, 'a) client_endpoint_scheme \<Rightarrow> uint16_t" where
  "get_local_port c = local_port c"

definition base_get_remote_address :: "('s, 'ep, 'a) client_endpoint_scheme \<Rightarrow> 'addr option" where
  "base_get_remote_address c = None"

definition base_get_remote_port :: "('s, 'ep, 'a) client_endpoint_scheme \<Rightarrow> uint16_t" where
  "base_get_remote_port c = 0"

section \<open>Transitions requested by the owner\<close>

definition set_established ::
  "('s, 'ep, 'addr) asio_env \<Rightarrow> bool \<Rightarrow> ('s, 'ep, 'a) client_endpoint_scheme \<Rightarrow> ('s, 'ep, 'a) client_endpoint_scheme" where
  "set_established E est c =
     (if est then
        if cei_state c \<noteq> CONNECTING then
          if sk_is_open E (socket c) then c\<lparr>cei_state := ESTABLISHED\<rparr>
          else c\<lparr>cei_state := CLOSED\<rparr>
        else c
      else c\<lparr>cei_state := CLOSED\<rparr>)"

definition set_connected ::
  "('s, 'ep, 'addr) asio_env \<Rightarrow> bool \<Rightarrow> ('s, 'ep, 'a) client_endpoint_scheme \<Rightarrow> ('s, 'ep, 'a) client_endpoint_scheme" where
  "set_connected E con c =
     (if con then
        if sk_is_open E (socket c) then c\<lparr>cei_state := CONNECTED\<rparr>
        else c\<lparr>cei_state := CLOSED\<rparr>
      else c\<lparr>cei_state := CLOSED\<rparr>)"

section \<open>Closing the socket\<close>

definition shutdown_and_close_socket_unlocked ::
  "('s, 'ep, 'addr) asio_env \<Rightarrow> ('s, 'ep, 'a) client_endpoint_scheme client_virtuals \<Rightarrow> bool \<Rightarrow>
     ('s, 'ep, 'a) client_endpoint_scheme \<Rightarrow> ('s, 'ep, 'a) client_endpoint_scheme" where
  "shutdown_and_close_socket_unlocked E V recreate c =
     (let c0 = c\<lparr>local_port := 0\<rparr>;
          c1 = (if sk_is_open E (socket c0) then
                  let l = (case sk_fcntl_error E (socket c0) of
                             None \<Rightarrow> c0
                           | Some (text, errno) \<Rightarrow>
                               log (''cei::shutdown_and_close_socket_unlocked: socket/handle closed already ''
                                    @ [CHR 0x27] @ text @ [CHR 0x27] @ '' ('' @ dec_int errno @ '') ''
                                    @ v_get_remote_information V c0) c0);
                      s1 = snd (sk_shutdown E (socket l));
                      s2 = snd (sk_close E s1)
                  in l\<lparr>socket := s2\<rparr>
                else c0)
      in if recreate then c1\<lparr>socket := sk_reset E (socket c1)\<rparr> else c1)"

definition shutdown_and_close_socket ::
  "('s, 'ep, 'addr) asio_env \<Rightarrow> ('s, 'ep, 'a) client_endpoint_scheme client_virtuals \<Rightarrow> bool \<Rightarrow>
     ('s, 'ep, 'a) client_endpoint_scheme \<Rightarrow> ('s, 'ep, 'a) client_endpoint_scheme" where
  "shutdown_and_close_socket E V recreate c = shutdown_and_close_socket_unlocked E V recreate c"

definition client_stop ::
  "('s, 'ep, 'addr) asio_env \<Rightarrow> ('s, 'ep, 'a) client_endpoint_scheme client_virtuals \<Rightarrow>
     ('s, 'ep, 'a) client_endpoint_scheme \<Rightarrow> ('s, 'ep, 'a) client_endpoint_scheme" where
  "client_stop E V c =
     (let c1 = cancel_timer Connect_timer c;
          c2 = c1\<lparr>connect_timeout := FTDOIP_DEFAULT_CONNECT_TIMEOUT\<rparr>
      in shutdown_and_close_socket E V False c2)"

section \<open>Sending and the completion handlers\<close>

definition client_send ::
  "('s, 'ep, 'a) client_endpoint_scheme client_virtuals \<Rightarrow> byte_t list \<Rightarrow>
     ('s, 'ep, 'a) client_endpoint_scheme \<Rightarrow> ('s, 'ep, 'a) client_endpoint_scheme" where
  "client_send V data c = v_send_data V data (log (''cei::send: '' @ hex_dump data) c)"

definition connect_cbk ::
  "('s, 'ep, 'addr) asio_env \<Rightarrow> ('s, 'ep, 'a) client_endpoint_scheme client_virtuals \<Rightarrow> error_code \<Rightarrow>
     ('s, 'ep, 'a) client_endpoint_scheme \<Rightarrow> ('s, 'ep, 'a) client_endpoint_scheme" where
  "connect_cbk E V ec c =
     (if ec = operation_aborted \<or> sending_blocked c then
        shutdown_and_close_socket E V False c
      else
        let c1 = cancel_timer Connect_timer c;
            c2 = c1\<lparr>connect_timeout := FTDOIP_DEFAULT_CONNECT_TIMEOUT, reconnect_counter := 0\<rparr>;
            c3 = v_set_local_port V c2;
            c4 = (if was_not_connected c3 then c3\<lparr>was_not_connected := False\<rparr> else c3)
        in v_receive V c4)"

definition wait_connect_cbk ::
  "('s, 'ep, 'a) client_endpoint_scheme client_virtuals \<Rightarrow> error_code \<Rightarrow>
     ('s, 'ep, 'a) client_endpoint_scheme \<Rightarrow> ('s, 'ep, 'a) client_endpoint_scheme" where
  "wait_connect_cbk V ec c =
     (if \<not> failed ec \<and> \<not> sending_blocked c then v_connect V c else c)"

definition send_cbk_text :: "('s, 'ep, 'addr) asio_env \<Rightarrow> error_code \<Rightarrow> string \<Rightarrow> string" where
  "send_cbk_text E ec info =
     ''cei::send_cbk received error: '' @ ec_message E ec @ '' ('' @ dec_int (ec_value E ec) @ '') '' @ info"

definition send_cbk ::
  "('s, 'ep, 'addr) asio_env \<Rightarrow> ('s, 'ep, 'a) client_endpoint_scheme client_virtuals \<Rightarrow> error_code \<Rightarrow>
     ('s, 'ep, 'a) client_endpoint_scheme \<Rightarrow> ('s, 'ep, 'a) client_endpoint_scheme" where
  "send_cbk E V ec c =
     (let report = (\<lambda>c. log (send_cbk_text E ec (v_get_remote_information V c)) c)
      in if ec = broken_pipe then
           let c1 = report (c\<lparr>cei_state := CLOSED\<rparr>);
               c2 = c1\<lparr>was_not_connected := True\<rparr>
           in v_connect V (shutdown_and_close_socket E V True c2)
         else if ec = not_connected \<or> ec = bad_descriptor \<or> ec = no_permission then
           let c0 = c\<lparr>cei_state := CLOSED\<rparr>;
               c1 = (if ec = no_permission then report c0 else c0);
               c2 = c1\<lparr>was_not_connected := True\<rparr>
           in v_connect V (shutdown_and_close_socket E V True c2)
         else if ec = operation_aborted then
           let c1 = log (''cei::send_cbk received error: '' @ ec_message E ec) c;
               c2 = c1\<lparr>sending_blocked := True\<rparr>
           in shutdown_and_close_socket E V False c2
         else if ec = destination_address_required then
           (report c)\<lparr>was_not_connected := True\<rparr>
         else report c)"

definition start_connect_timer ::
  "('s, 'ep, 'a) client_endpoint_scheme \<Rightarrow> ('s, 'ep, 'a) client_endpoint_scheme" where
  "start_connect_timer c = start_timer Connect_timer (connect_timeout c) c"


lemmas client_plumbing [endpoint_defs] = log_def start_async_def cancel_timer_def start_timer_def

section \<open>What closing does\<close>

lemma shutdown_and_close_socket_socket:
  "socket (shutdown_and_close_socket E V recreate c) =
     (if recreate then sk_reset E (shutdown_and_close E (socket c)) else shutdown_and_close E (socket c))"
  by (simp add: shutdown_and_close_socket_def shutdown_and_close_socket_unlocked_def
      shutdown_and_close_def Let_def log_def split: option.splits)

lemma shutdown_and_close_socket_frame [frame_simps]:
  "cei_state (shutdown_and_close_socket E V recreate c) = cei_state c"
  "local_port (shutdown_and_close_socket E V recreate c) = 0"
  "was_not_connected (shutdown_and_close_socket E V recreate c) = was_not_connected c"
  "sending_blocked (shutdown_and_close_socket E V recreate c) = sending_blocked c"
  "connect_timeout (shutdown_and_close_socket E V recreate c) = connect_timeout c"
  "reconnect_counter (shutdown_and_close_socket E V recreate c) = reconnect_counter c"
  "io (shutdown_and_close_socket E V recreate c) = io c"
  "remote_ep (shutdown_and_close_socket E V recreate c) = remote_ep c"
  "local_ep (shutdown_and_close_socket E V recreate c) = local_ep c"
  "use_count (shutdown_and_close_socket E V recreate c) = use_count c"
  "client_endpoint.more (shutdown_and_close_socket E V recreate c) = client_endpoint.more c"
  by (simp_all add: shutdown_and_close_socket_def shutdown_and_close_socket_unlocked_def
      Let_def log_def split: option.splits)

lemma abort_wait_simps [simp]:
  "abort_wait t p = Timer_wait t' ms \<longleftrightarrow> p = Timer_wait t' ms \<and> t \<noteq> t'"
  "abort_wait t p = Async_receive off len \<longleftrightarrow> p = Async_receive off len"
  "abort_wait t p = Async_receive_from b \<longleftrightarrow> p = Async_receive_from b"
  "abort_wait t p = Async_connect ep \<longleftrightarrow> p = Async_connect ep"
  "abort_wait t p = Post_connect_cbk ec \<longleftrightarrow> p = Post_connect_cbk ec"
  by (cases p; auto)+

lemma image_abort_wait [simp]:
  "Async_receive off len \<in> abort_wait t ` P \<longleftrightarrow> Async_receive off len \<in> P"
  "Async_receive_from b \<in> abort_wait t ` P \<longleftrightarrow> Async_receive_from b \<in> P"
  "Async_connect ep \<in> abort_wait t ` P \<longleftrightarrow> Async_connect ep \<in> P"
  "Timer_wait t' ms \<in> abort_wait t ` P \<longleftrightarrow> Timer_wait t' ms \<in> P \<and> t \<noteq> t'"
  by (force simp: image_iff eq_commute [of _ "abort_wait _ _"])+

lemma client_stop_timer: "Timer_wait Connect_timer ms \<notin> set (io (client_stop E V c))"
  by (simp add: client_stop_def Let_def frame_simps cancel_timer_def)

section \<open>The contract of the derived classes\<close>

text \<open>
  The base class calls the derived class through its virtual functions.  What it relies on: they
  leave the flags of the base class alone, and only \<open>connect\<close> touches the state, which it either
  keeps or sets to \<open>CONNECTING\<close>.
\<close>

locale client_vtable =
  fixes V :: "('s, 'ep, 'a) client_endpoint_scheme client_virtuals"
  assumes connect_state: "cei_state (v_connect V c) = cei_state c \<or> cei_state (v_connect V c) = CONNECTING"
    and connect_flags: "was_not_connected (v_connect V c) = was_not_connected c"
      "sending_blocked (v_connect V c) = sending_blocked c"
    and receive_state: "cei_state (v_receive V c) = cei_state c"
    and receive_flags: "was_not_connected (v_receive V c) = was_not_connected c"
      "sending_blocked (v_receive V c) = sending_blocked c"
      "reconnect_counter (v_receive V c) = reconnect_counter c"
      "local_port (v_receive V c) = local_port c"
    and set_local_port_state: "cei_state (v_set_local_port V c) = cei_state c"
    and set_local_port_flags: "was_not_connected (v_set_local_port V c) = was_not_connected c"
      "sending_blocked (v_set_local_port V c) = sending_blocked c"
      "reconnect_counter (v_set_local_port V c) = reconnect_counter c"
      "socket (v_set_local_port V c) = socket c"
    and send_data_state: "cei_state (v_send_data V d c) = cei_state c"
      "sending_blocked (v_send_data V d c) = sending_blocked c"
begin

lemmas vtable_simps =
  connect_flags receive_state receive_flags set_local_port_state set_local_port_flags send_data_state

lemma connect_cbk_state: "cei_state (connect_cbk E V ec c) = cei_state c"
  by (simp add: connect_cbk_def Let_def vtable_simps frame_simps cancel_timer_def)

lemma connect_cbk_blocked: "sending_blocked (connect_cbk E V ec c) = sending_blocked c"
  by (simp add: connect_cbk_def Let_def vtable_simps frame_simps cancel_timer_def)

lemma connect_cbk_clears:
  "ec \<noteq> operation_aborted \<Longrightarrow> \<not> sending_blocked c \<Longrightarrow>
     \<not> was_not_connected (connect_cbk E V ec c) \<and> reconnect_counter (connect_cbk E V ec c) = 0"
  by (simp add: connect_cbk_def Let_def vtable_simps cancel_timer_def)

lemma wait_connect_cbk_state:
  "cei_state (wait_connect_cbk V ec c) = cei_state c \<or> cei_state (wait_connect_cbk V ec c) = CONNECTING"
  using connect_state by (simp add: wait_connect_cbk_def)

lemma client_send_state: "cei_state (client_send V d c) = cei_state c"
  by (simp add: client_send_def vtable_simps log_def)

lemma client_send_blocked: "sending_blocked (client_send V d c) = sending_blocked c"
  by (simp add: client_send_def vtable_simps log_def)

lemma send_cbk_state:
  "cei_state (send_cbk E V ec c) \<in> {cei_state c, CLOSED, CONNECTING}"
proof -
  have "cei_state (v_connect V d) \<in> {CLOSED, CONNECTING}" if "cei_state d = CLOSED" for d
    using connect_state [of d] that by auto
  then show ?thesis
    by (simp add: send_cbk_def Let_def frame_simps log_def)
qed

lemma send_cbk_lost:
  assumes "ec \<in> {broken_pipe, not_connected, bad_descriptor, no_permission}"
  shows "was_not_connected (send_cbk E V ec c)" and "cei_state (send_cbk E V ec c) \<in> {CLOSED, CONNECTING}"
proof -
  have "cei_state (v_connect V d) \<in> {CLOSED, CONNECTING}" if "cei_state d = CLOSED" for d
    using connect_state [of d] that by auto
  then show "cei_state (send_cbk E V ec c) \<in> {CLOSED, CONNECTING}"
    using assms by (auto simp: send_cbk_def Let_def frame_simps log_def)
  show "was_not_connected (send_cbk E V ec c)"
    using assms by (auto simp: send_cbk_def Let_def frame_simps log_def vtable_simps)
qed

text \<open>Once a send was aborted the endpoint refuses every later connection.\<close>

lemma send_cbk_blocked: "sending_blocked c \<Longrightarrow> sending_blocked (send_cbk E V ec c)"
  by (simp add: send_cbk_def Let_def frame_simps log_def vtable_simps)

lemma send_cbk_aborted: "sending_blocked (send_cbk E V operation_aborted c)"
  by (simp add: send_cbk_def Let_def frame_simps log_def)

end

context asio_socket
begin

lemma shutdown_and_close_socket_closed [simp]:
  "\<not> sk_is_open E (socket (shutdown_and_close_socket E V recreate c))"
  by (simp add: shutdown_and_close_socket_socket)

lemma connect_cbk_stopped:
  "ec = operation_aborted \<or> sending_blocked c \<Longrightarrow> \<not> sk_is_open E (socket (connect_cbk E V ec c))"
  by (simp add: connect_cbk_def)

end

end
