(* ===== verification/Tcp_Client.thy ===== *)
theory Tcp_Client imports Client_Endpoint Receive_Window begin

text \<open>
  \<open>tcp_client_endpoint_impl\<close> (src/tcp_client_endpoint_impl.cpp): connecting, receiving into the
  shared buffer, writing, and the handlers, then the transition relation of an endpoint driven by
  its owner and by the completions of the work it started.
\<close>

section \<open>State\<close>

text \<open>
  The buffer is reached through a shared pointer that is never reseated, so it is a field.
  \<open>is_sending_\<close> is not initialised by the constructor.
\<close>

record ('s, 'ep, 'addr) tcp_client = "('s, 'ep) client_endpoint" +
  recv_buffer_size_initial :: uint32_t
  recv_buffer :: message_buffer
  shrink_count :: uint32_t
  buffer_shrink_threshold :: uint32_t
  tcp_connect_time_max :: uint32_t
  remote_address :: 'addr
  remote_port :: uint16_t
  send_timeout :: uint32_t
  connect_timepoint :: nat
  is_sending :: bool

definition MAX_RECONNECTS_UNLIMITED :: uint32_t where
  "MAX_RECONNECTS_UNLIMITED = 10"

definition FTDOIP_MAX_TCP_SENT_WAIT_TIME :: uint32_t where
  "FTDOIP_MAX_TCP_SENT_WAIT_TIME = 1000"

definition new_tcp_client ::
  "('s, 'ep, 'addr) asio_env \<Rightarrow> uint32_t \<Rightarrow> bool \<Rightarrow> bool \<Rightarrow> 's \<Rightarrow> 'ep \<Rightarrow> 'ep \<Rightarrow> ('s, 'ep, 'addr) tcp_client" where
  "new_tcp_client E garbage blocked sending s lcl rmt =
     client_endpoint.extend (init_client_endpoint garbage blocked lcl rmt s)
       \<lparr>recv_buffer_size_initial = 4,
        recv_buffer = make_buffer 4,
        shrink_count = 0,
        buffer_shrink_threshold = 1000,
        tcp_connect_time_max = 1000,
        remote_address = ep_address E rmt,
        remote_port = ep_port E rmt,
        send_timeout = 1000,
        connect_timepoint = 0,
        is_sending = sending\<rparr>"

section \<open>Queries\<close>

definition tcp_is_local :: "('s, 'ep, 'addr) tcp_client \<Rightarrow> bool" where
  "tcp_is_local c = False"

definition tcp_is_reliable :: "('s, 'ep, 'addr) tcp_client \<Rightarrow> bool" where
  "tcp_is_reliable c = True"

definition tcp_get_remote_address ::
  "('s, 'ep, 'addr) asio_env \<Rightarrow> ('s, 'ep, 'addr) tcp_client \<Rightarrow> 'addr option" where
  "tcp_get_remote_address E c =
     (if addr_unspecified E (remote_address c) then None else Some (remote_address c))"

definition tcp_get_remote_port :: "('s, 'ep, 'addr) tcp_client \<Rightarrow> uint16_t" where
  "tcp_get_remote_port c = remote_port c"

definition tcp_get_max_allowed_reconnects :: "('s, 'ep, 'addr) tcp_client \<Rightarrow> uint32_t" where
  "tcp_get_max_allowed_reconnects c = MAX_RECONNECTS_UNLIMITED"

definition tcp_get_address_port_remote ::
  "('s, 'ep, 'addr) asio_env \<Rightarrow> ('s, 'ep, 'addr) tcp_client \<Rightarrow> string" where
  "tcp_get_address_port_remote E c =
     (case tcp_get_remote_address E c of None \<Rightarrow> '''' | Some a \<Rightarrow> addr_to_string E a)
     @ '':'' @ dec (unat (remote_port c))"

definition tcp_get_address_port_local ::
  "('s, 'ep, 'addr) asio_env \<Rightarrow> ('s, 'ep, 'addr) tcp_client \<Rightarrow> string" where
  "tcp_get_address_port_local E c =
     (if sk_is_open E (socket c) then
        (case sk_local_endpoint E (socket c) of (ec, ep) \<Rightarrow>
           if \<not> failed ec then
             addr_to_string E (ep_address E ep) @ '':'' @ dec (unat (ep_port E ep))
           else '''')
      else '''')"

definition tcp_get_remote_information ::
  "('s, 'ep, 'addr) asio_env \<Rightarrow> ('s, 'ep, 'addr) tcp_client \<Rightarrow> string" where
  "tcp_get_remote_information E c =
     addr_to_string E (ep_address E (remote_ep c)) @ '':'' @ dec (unat (ep_port E (remote_ep c)))"

section \<open>Connecting\<close>

text \<open>
  One \<open>set_option\<close> of \<open>connect\<close> with the line it prints on failure.  The same shape is used by
  the UDP client.
\<close>

definition try_option ::
  "('s, 'ep, 'addr) asio_env \<Rightarrow> 'addr socket_option \<Rightarrow> (string \<Rightarrow> string) \<Rightarrow>
     ('s, 'ep, 'a) client_endpoint_scheme \<Rightarrow> ('s, 'ep, 'a) client_endpoint_scheme" where
  "try_option E opt text c =
     (case sk_set_option E opt (socket c) of (ec, s) \<Rightarrow>
        let c1 = c\<lparr>socket := s\<rparr>
        in if failed ec then log (text (ec_message E ec)) c1 else c1)"

text \<open>\<open>strand_.post\<close>, inside and outside a \<open>try\<close> block.\<close>

definition post_caught ::
  "('s, 'ep, 'addr) asio_env \<Rightarrow> (string \<Rightarrow> string) \<Rightarrow> error_code \<Rightarrow>
     ('s, 'ep, 'a) client_endpoint_scheme \<Rightarrow> ('s, 'ep, 'a) client_endpoint_scheme" where
  "post_caught E text ec c =
     (case post_exception E of
        None \<Rightarrow> start_async (Post_connect_cbk ec) c
      | Some what \<Rightarrow> log (text what) c)"

definition post_uncaught ::
  "('s, 'ep, 'addr) asio_env \<Rightarrow> error_code \<Rightarrow>
     ('s, 'ep, 'a) client_endpoint_scheme \<Rightarrow> ('s, 'ep, 'a) client_endpoint_scheme" where
  "post_uncaught E ec c =
     (case post_exception E of
        None \<Rightarrow> start_async (Post_connect_cbk ec) c
      | Some what \<Rightarrow> c\<lparr>escaped := escaped c @ [what]\<rparr>)"

definition tcp_connect :: "('s, 'ep, 'addr) asio_env \<Rightarrow> ('s, 'ep, 'addr) tcp_client \<Rightarrow> ('s, 'ep, 'addr) tcp_client" where
  "tcp_connect E c =
     (case sk_open E (ep_protocol E (remote_ep c)) (socket c) of (ec, s) \<Rightarrow>
        let c0 = c\<lparr>socket := s\<rparr>;
            remote = '' remote:'' @ tcp_get_address_port_remote E c0
        in if \<not> failed ec \<or> ec = already_open then
             let c1 = try_option E no_delay
                   (\<lambda>m. ''tcp_client_endpoint::connect: couldn't disable Nagle algorithm: '' @ m @ remote) c0;
                 c2 = try_option E keep_alive
                   (\<lambda>m. ''tcp_client_endpoint::connect: couldn't enable keep_alive: '' @ m @ remote) c1;
                 c3 = try_option E reuse_address
                   (\<lambda>m. ''tcp_client_endpoint::connect: couldn't enable SO_REUSEADDR: '' @ m @ remote) c2;
                 c4 = try_option E linger_abort
                   (\<lambda>m. ''tcp_client_endpoint::connect: couldn't enable SO_LINGER: '' @ m @ remote) c3
             in (case sk_bind E (local_ep c4) (socket c4) of (bind_ec, s5) \<Rightarrow>
                   let c5 = c4\<lparr>socket := s5\<rparr>
                   in if failed bind_ec then
                        post_caught E (\<lambda>w. ''tcp_client_endpoint_impl::connect: '' @ w @ remote) bind_ec
                          (log (''tcp_client_endpoint::connect: Error binding socket: ''
                                @ ec_message E bind_ec @ remote) c5)
                      else
                        start_async (Async_connect (remote_ep c5))
                          (c5\<lparr>cei_state := CONNECTING, connect_timepoint := steady_clock c5\<rparr>))
           else
             post_uncaught E ec
               (log (''tcp_client_endpoint::connect: Error opening socket: ''
                     @ ec_message E ec @ remote) c0))"

definition tcp_start :: "('s, 'ep, 'addr) asio_env \<Rightarrow> ('s, 'ep, 'addr) tcp_client \<Rightarrow> ('s, 'ep, 'addr) tcp_client" where
  "tcp_start E c = tcp_connect E c"

definition tcp_set_local_port ::
  "('s, 'ep, 'addr) asio_env \<Rightarrow> ('s, 'ep, 'addr) tcp_client \<Rightarrow> ('s, 'ep, 'addr) tcp_client" where
  "tcp_set_local_port E c =
     (if sk_is_open E (socket c) then
        (case sk_local_endpoint E (socket c) of (ec, ep) \<Rightarrow>
           if \<not> failed ec then c\<lparr>local_port := ep_port E ep\<rparr>
           else log (''tcp_client_endpoint_impl::set_local_port()  couldn't get local_endpoint: ''
                     @ ec_message E ec) c)
      else c)"

section \<open>Receiving\<close>

definition tcp_handle_recv_buffer_exception ::
  "('s, 'ep, 'addr) asio_env \<Rightarrow> vector_exception \<Rightarrow> size_t \<Rightarrow>
     ('s, 'ep, 'addr) tcp_client \<Rightarrow> ('s, 'ep, 'addr) tcp_client" where
  "tcp_handle_recv_buffer_exception E e recv_buffer_size c =
     (let c1 = log (''tcp_client_endpoint_impl::connection catched exception'' @ exception_what E e
                    @ '' local: '' @ tcp_get_address_port_local E c
                    @ '' remote: '' @ tcp_get_address_port_remote E c
                    @ '' shutting down connection. Start of buffer: ''
                    @ captured_bytes recv_buffer_size (recv_buffer c)) c;
          c2 = c1\<lparr>recv_buffer := vclear (recv_buffer c1)\<rparr>;
          c3 = cancel_timer Connect_timer c2
      in if sk_is_open E (socket c3) then
           let s1 = snd (sk_shutdown E (socket c3));
               s2 = snd (sk_close E s1)
           in c3\<lparr>socket := s2\<rparr>
         else c3)"

definition tcp_receive_from ::
  "('s, 'ep, 'addr) asio_env \<Rightarrow> size_t \<Rightarrow> size_t \<Rightarrow>
     ('s, 'ep, 'addr) tcp_client \<Rightarrow> ('s, 'ep, 'addr) tcp_client" where
  "tcp_receive_from E recv_buffer_size missing_capacity c =
     (if sk_is_open E (socket c) then
        (case prepare_receive (mem_available E) (recv_buffer_size_initial c) (buffer_shrink_threshold c)
                (shrink_count c) (recv_buffer c) recv_buffer_size missing_capacity of
           Exceeds_maximum \<Rightarrow> log ''Missing receive buffer capacity exceeds allowed maximum!'' c
         | Threw e b \<Rightarrow>
             tcp_handle_recv_buffer_exception E e recv_buffer_size (c\<lparr>recv_buffer := b\<rparr>)
         | Window b len sc big \<Rightarrow>
             let c1 = c\<lparr>recv_buffer := b, shrink_count := sc\<rparr>;
                 c2 = (if big then
                         log (''tce: recv_buffer size is: '' @ dec (vsize b)
                              @ '' local: '' @ tcp_get_address_port_local E c1
                              @ '' remote: '' @ tcp_get_address_port_remote E c1) c1
                       else c1)
             in start_async (Async_receive recv_buffer_size len) c2)
      else c)"

definition tcp_receive :: "('s, 'ep, 'addr) asio_env \<Rightarrow> ('s, 'ep, 'addr) tcp_client \<Rightarrow> ('s, 'ep, 'addr) tcp_client" where
  "tcp_receive E c = tcp_receive_from E 0 0 c"

definition tcp_receive_cbk ::
  "('s, 'ep, 'addr) asio_env \<Rightarrow> error_code \<Rightarrow> size_t \<Rightarrow> size_t \<Rightarrow>
     ('s, 'ep, 'addr) tcp_client \<Rightarrow> ('s, 'ep, 'addr) tcp_client" where
  "tcp_receive_cbk E ec bytes recv_buffer_size c =
     (if ec = operation_aborted then c
      else log (''cei::rcb ('' @ ec_message E ec @ ''): ''
                @ hex_dump (take (unat (bytes + recv_buffer_size)) (vdata (recv_buffer c)))) c)"

definition tcp_calculate_shrink_count :: "size_t \<Rightarrow> ('s, 'ep, 'addr) tcp_client \<Rightarrow> ('s, 'ep, 'addr) tcp_client" where
  "tcp_calculate_shrink_count recv_buffer_size c =
     c\<lparr>shrink_count := next_shrink_count (recv_buffer_size_initial c) (buffer_shrink_threshold c)
          (shrink_count c) (recv_buffer c) recv_buffer_size\<rparr>"

section \<open>Sending\<close>

definition tcp_send_data ::
  "('s, 'ep, 'addr) asio_env \<Rightarrow> byte_t list \<Rightarrow> ('s, 'ep, 'addr) tcp_client \<Rightarrow> ('s, 'ep, 'addr) tcp_client" where
  "tcp_send_data E data c =
     (let c1 = log (''tcei<'' @ addr_to_string E (ep_address E (remote_ep c)) @ '':''
                    @ dec (unat (ep_port E (remote_ep c))) @ ''>::sq: '' @ hex_dump data) c
      in if sk_is_open E (socket c1) then
           start_async (Async_write data (steady_clock c1)) (c1\<lparr>is_sending := True\<rparr>)
         else c1)"

text \<open>
  Called by \<open>async_write\<close> before every partial write: how much more to write, 0 to stop.
\<close>

definition tcp_write_completion_condition ::
  "('s, 'ep, 'addr) asio_env \<Rightarrow> error_code \<Rightarrow> size_t \<Rightarrow> size_t \<Rightarrow>
     ('s, 'ep, 'addr) tcp_client \<Rightarrow> size_t \<times> ('s, 'ep, 'addr) tcp_client" where
  "tcp_write_completion_condition E ec bytes_transferred bytes_to_send c =
     (if failed ec then
        (0, log (''tce::write_completion_condition: '' @ ec_message E ec @ ''('' @ dec_int (ec_value E ec)
                 @ '') bytes transferred: '' @ dec (unat bytes_transferred)
                 @ '' bytes to sent: '' @ dec (unat bytes_to_send)
                 @ '' remote:'' @ tcp_get_address_port_remote E c) c)
      else (bytes_to_send - bytes_transferred, c))"

definition tcp_wait_until_sent :: "error_code \<Rightarrow> ('s, 'ep, 'addr) tcp_client \<Rightarrow> ('s, 'ep, 'addr) tcp_client" where
  "tcp_wait_until_sent ec c =
     (if \<not> is_sending c \<or> \<not> failed ec then
        if \<not> failed ec then
          log ''wait_until_sent: Maximum wait time for send operation exceeded for tce.'' c
        else c
      else start_timer Sent_timer FTDOIP_MAX_TCP_SENT_WAIT_TIME c)"

section \<open>The virtual functions\<close>

definition tcp_virtuals ::
  "('s, 'ep, 'addr) asio_env \<Rightarrow> ('s, 'ep, 'addr) tcp_client client_virtuals" where
  "tcp_virtuals E =
     \<lparr>v_connect = tcp_connect E, v_receive = tcp_receive E, v_set_local_port = tcp_set_local_port E,
      v_send_data = tcp_send_data E, v_get_remote_information = tcp_get_remote_information E\<rparr>"

text \<open>
  The three-argument \<open>send_cbk\<close> of this class hides, and does not override, the virtual
  two-argument one, which is the one \<open>send_data\<close> binds.
\<close>

definition tcp_send_cbk ::
  "('s, 'ep, 'addr) asio_env \<Rightarrow> error_code \<Rightarrow> ('s, 'ep, 'addr) tcp_client \<Rightarrow> ('s, 'ep, 'addr) tcp_client" where
  "tcp_send_cbk E ec c =
     (let c1 = cancel_timer Sent_timer (c\<lparr>is_sending := False\<rparr>);
          text = ''tce::send_cbk received error: '' @ ec_message E ec @ '' ('' @ dec_int (ec_value E ec) @ '') ''
                 @ tcp_get_remote_information E c1
      in if ec = destination_address_required then (log text c1)\<lparr>was_not_connected := True\<rparr>
         else if ec = operation_aborted then
           shutdown_and_close_socket E (tcp_virtuals E) False c1
         else if cei_state c1 = CONNECTING then
           log text (log (''tce::send_cbk endpoint is already restarting:'' @ tcp_get_remote_information E c1) c1)
         else
           log text (shutdown_and_close_socket E (tcp_virtuals E) False (c1\<lparr>cei_state := CONNECTING\<rparr>)))"

end
