(* ===== verification/Client_Events.thy ===== *)
theory Client_Events imports Client_Endpoint begin

text \<open>
  What can happen to a client endpoint: calls of its owner, and completions of the work it started,
  which the io_service reports by running a handler.  Both clients' transition relations are built
  from these labels.
\<close>

text \<open>
  The result of a completed operation: error code, received bytes and their sender, and for a
  composed write the calls of its completion condition.
\<close>

record 'ep completion =
  c_error :: error_code
  c_bytes :: "byte_t list"
  c_sender :: 'ep
  c_calls :: "(error_code \<times> size_t) list"

datatype 'ep client_label =
    Start
  | Stop
  | Send "byte_t list"
  | Set_established bool
  | Set_connected bool
  | Ran "'ep client_op" "'ep completion"

text \<open>
  A posted handler runs with the code it was bound to, a timer that expires reports success and a
  cancelled one \<open>operation_aborted\<close>; a read delivers no more bytes than there is room for.
\<close>

fun possible :: "'ep client_op \<Rightarrow> 'ep completion \<Rightarrow> bool" where
  "possible (Post_connect_cbk ec) r \<longleftrightarrow> c_error r = ec"
| "possible (Async_receive off len) r \<longleftrightarrow> length (c_bytes r) \<le> unat len"
| "possible (Async_receive_from b) r \<longleftrightarrow> length (c_bytes r) \<le> vsize b"
| "possible (Timer_wait t ms) r \<longleftrightarrow> c_error r = no_error"
| "possible (Timer_aborted t) r \<longleftrightarrow> c_error r = operation_aborted"
| "possible (Async_connect ep) r \<longleftrightarrow> True"
| "possible (Async_write data t) r \<longleftrightarrow> True"
| "possible (Async_send data) r \<longleftrightarrow> True"

fun is_read :: "'ep client_op \<Rightarrow> bool" where
  "is_read (Async_receive off len) = True"
| "is_read (Async_receive_from b) = True"
| "is_read _ = False"

fun is_connect :: "'ep client_op \<Rightarrow> bool" where
  "is_connect (Async_connect ep) = True"
| "is_connect (Post_connect_cbk ec) = True"
| "is_connect _ = False"

lemma is_read_abort [simp]: "is_read (abort_wait t p) = is_read p"
  by (cases p) auto

lemma is_connect_abort [simp]: "is_connect (abort_wait t p) = is_connect p"
  by (cases p) auto

lemma comp_is_read_abort [simp]: "is_read \<circ> abort_wait t = is_read"
  by (rule ext) simp

definition reads :: "'ep client_op list \<Rightarrow> nat" where
  "reads ps = length (filter is_read ps)"

lemma reads_simps [simp]:
  "reads [] = 0"
  "reads (p # ps) = (if is_read p then Suc (reads ps) else reads ps)"
  "reads (ps @ qs) = reads ps + reads qs"
  "reads (map (abort_wait t) ps) = reads ps"
  by (simp_all add: reads_def filter_map)

text \<open>Labels by which the owner declares the connection usable.\<close>

fun declares_up :: "'ep client_label \<Rightarrow> bool" where
  "declares_up (Set_established b) = b"
| "declares_up (Set_connected b) = b"
| "declares_up _ = False"

fun ran_read :: "'ep client_label \<Rightarrow> bool" where
  "ran_read (Ran p r) = is_read p"
| "ran_read _ = False"

fun ran_connect :: "'ep client_label \<Rightarrow> bool" where
  "ran_connect (Ran p r) = is_connect p"
| "ran_connect _ = False"

text \<open>
  A run of a labelled step relation, latest label last.
\<close>

inductive run :: "('l \<Rightarrow> 'c \<Rightarrow> 'c \<Rightarrow> bool) \<Rightarrow> 'c \<Rightarrow> 'l list \<Rightarrow> 'c \<Rightarrow> bool" for step where
  run_Nil: "run step c [] c"
| run_snoc: "run step c ls c' \<Longrightarrow> step l c' c'' \<Longrightarrow> run step c (ls @ [l]) c''"

inductive_cases run_NilE: "run step c [] c'"

lemma run_invariant:
  assumes "run step c ls c'" and "I c" and "\<And>l x y. step l x y \<Longrightarrow> I x \<Longrightarrow> I y"
  shows "I c'"
  using assms(1,2) by (induction rule: run.induct) (auto intro: assms(3))

lemma run_label_invariant:
  assumes "run step c ls c'" and "I c" and "\<forall>l\<in>set ls. P l"
    and "\<And>l x y. step l x y \<Longrightarrow> P l \<Longrightarrow> I x \<Longrightarrow> I y"
  shows "I c'"
  using assms(1,2,3) by (induction rule: run.induct) (auto intro: assms(4))

lemma run_stepI: "step l c c' \<Longrightarrow> run step c [l] c'"
  using run_snoc [OF run_Nil] by fastforce

lemma run_append:
  assumes "run step c ls c'" and "run step c' ls' c''"
  shows "run step c (ls @ ls') c''"
  using assms(2,1)
proof (induction rule: run.induct)
  case (run_snoc c' ls' x l y)
  show ?case using run.run_snoc [OF run_snoc.IH [OF run_snoc.prems] run_snoc.hyps(2)] by simp
qed simp

end
