(* ===== verification/Tcp_Client_Runs.thy ===== *)
theory Tcp_Client_Runs imports Tcp_Client Client_Events begin

text \<open>
  The TCP client as a transition system: which handler runs when which operation completes, the
  contract of its virtual functions, and the facts about runs the properties rest on.
\<close>

section \<open>Handlers\<close>

definition tcp_run_calls ::
  "('s, 'ep, 'addr) asio_env \<Rightarrow> byte_t list \<Rightarrow> (error_code \<times> size_t) list \<Rightarrow>
     ('s, 'ep, 'addr) tcp_client \<Rightarrow> ('s, 'ep, 'addr) tcp_client" where
  "tcp_run_calls E data calls c =
     foldl (\<lambda>c (ec, n). snd (tcp_write_completion_condition E ec n (of_nat (length data)) c)) c calls"

fun tcp_handle ::
  "('s, 'ep, 'addr) asio_env \<Rightarrow> 'ep client_op \<Rightarrow> 'ep completion \<Rightarrow>
     ('s, 'ep, 'addr) tcp_client \<Rightarrow> ('s, 'ep, 'addr) tcp_client" where
  "tcp_handle E (Post_connect_cbk ec) r c = connect_cbk E (tcp_virtuals E) (c_error r) c"
| "tcp_handle E (Async_connect ep) r c = connect_cbk E (tcp_virtuals E) (c_error r) c"
| "tcp_handle E (Async_receive off len) r c =
     tcp_receive_cbk E (c_error r) (of_nat (length (c_bytes r))) off
       (c\<lparr>recv_buffer := write_at (unat off) (c_bytes r) (recv_buffer c)\<rparr>)"
| "tcp_handle E (Async_write data t) r c =
     send_cbk E (tcp_virtuals E) (c_error r) (tcp_run_calls E data (c_calls r) c)"
| "tcp_handle E (Timer_wait t ms) r c =
     (case t of Connect_timer \<Rightarrow> wait_connect_cbk (tcp_virtuals E) (c_error r) c
      | Sent_timer \<Rightarrow> tcp_wait_until_sent (c_error r) c)"
| "tcp_handle E (Timer_aborted t) r c =
     (case t of Connect_timer \<Rightarrow> wait_connect_cbk (tcp_virtuals E) (c_error r) c
      | Sent_timer \<Rightarrow> tcp_wait_until_sent (c_error r) c)"
| "tcp_handle E (Async_receive_from b) r c = c"
| "tcp_handle E (Async_send data) r c = c"

text \<open>The last two kinds of operation are never started by a TCP client (\<open>tcp_inv\<close> below).\<close>

inductive tcp_step ::
  "('s, 'ep, 'addr) asio_env \<Rightarrow> 'ep client_label \<Rightarrow>
     ('s, 'ep, 'addr) tcp_client \<Rightarrow> ('s, 'ep, 'addr) tcp_client \<Rightarrow> bool" for E where
  step_start: "tcp_step E Start c (tcp_start E c)"
| step_stop: "tcp_step E Stop c (client_stop E (tcp_virtuals E) c)"
| step_send: "tcp_step E (Send data) c (client_send (tcp_virtuals E) data c)"
| step_set_established: "tcp_step E (Set_established b) c (set_established E b c)"
| step_set_connected: "tcp_step E (Set_connected b) c (set_connected E b c)"
| step_ran: "io c = ps @ p # qs \<Longrightarrow> possible p r \<Longrightarrow>
     tcp_step E (Ran p r) c (tcp_handle E p r (c\<lparr>io := ps @ qs\<rparr>))"

inductive_cases tcp_step_StartE: "tcp_step E Start c c'"
inductive_cases tcp_step_StopE: "tcp_step E Stop c c'"
inductive_cases tcp_step_SendE: "tcp_step E (Send data) c c'"
inductive_cases tcp_step_Set_establishedE: "tcp_step E (Set_established b) c c'"
inductive_cases tcp_step_Set_connectedE: "tcp_step E (Set_connected b) c c'"
inductive_cases tcp_step_RanE: "tcp_step E (Ran p r) c c'"

lemmas tcp_step_cases =
  tcp_step_StartE tcp_step_StopE tcp_step_SendE tcp_step_Set_establishedE tcp_step_Set_connectedE
  tcp_step_RanE

abbreviation tcp_run where "tcp_run E \<equiv> run (tcp_step E)"

section \<open>What the operations leave alone\<close>

lemma try_option_frame [frame_simps]:
  "cei_state (try_option E opt text c) = cei_state c"
  "was_not_connected (try_option E opt text c) = was_not_connected c"
  "sending_blocked (try_option E opt text c) = sending_blocked c"
  "local_ep (try_option E opt text c) = local_ep c"
  "remote_ep (try_option E opt text c) = remote_ep c"
  "local_port (try_option E opt text c) = local_port c"
  "steady_clock (try_option E opt text c) = steady_clock c"
  "io (try_option E opt text c) = io c"
  "escaped (try_option E opt text c) = escaped c"
  by (simp_all add: try_option_def Let_def log_def split: prod.splits)

lemma try_option_tcp_frame [frame_simps]:
  fixes c :: "('s, 'ep, 'addr) tcp_client"
  shows "recv_buffer (try_option E opt text c) = recv_buffer c"
    "recv_buffer_size_initial (try_option E opt text c) = recv_buffer_size_initial c"
    "shrink_count (try_option E opt text c) = shrink_count c"
    "buffer_shrink_threshold (try_option E opt text c) = buffer_shrink_threshold c"
    "is_sending (try_option E opt text c) = is_sending c"
  by (simp_all add: try_option_def Let_def log_def split: prod.splits)

lemmas post_defs = post_caught_def post_uncaught_def start_async_def log_def

lemma tcp_connect_frame [frame_simps]:
  "was_not_connected (tcp_connect E c) = was_not_connected c"
  "sending_blocked (tcp_connect E c) = sending_blocked c"
  "local_ep (tcp_connect E c) = local_ep c"
  "remote_ep (tcp_connect E c) = remote_ep c"
  "recv_buffer (tcp_connect E c) = recv_buffer c"
  "recv_buffer_size_initial (tcp_connect E c) = recv_buffer_size_initial c"
  "shrink_count (tcp_connect E c) = shrink_count c"
  "buffer_shrink_threshold (tcp_connect E c) = buffer_shrink_threshold c"
  "is_sending (tcp_connect E c) = is_sending c"
  by (simp_all add: tcp_connect_def Let_def post_defs frame_simps split: prod.splits option.splits)

lemma tcp_set_local_port_frame [frame_simps]:
  "cei_state (tcp_set_local_port E c) = cei_state c"
  "was_not_connected (tcp_set_local_port E c) = was_not_connected c"
  "sending_blocked (tcp_set_local_port E c) = sending_blocked c"
  "reconnect_counter (tcp_set_local_port E c) = reconnect_counter c"
  "socket (tcp_set_local_port E c) = socket c"
  "io (tcp_set_local_port E c) = io c"
  "recv_buffer (tcp_set_local_port E c) = recv_buffer c"
  "recv_buffer_size_initial (tcp_set_local_port E c) = recv_buffer_size_initial c"
  "shrink_count (tcp_set_local_port E c) = shrink_count c"
  "buffer_shrink_threshold (tcp_set_local_port E c) = buffer_shrink_threshold c"
  "is_sending (tcp_set_local_port E c) = is_sending c"
  by (simp_all add: tcp_set_local_port_def log_def split: prod.splits)

lemma tcp_receive_from_frame [frame_simps]:
  "cei_state (tcp_receive_from E rbs missing c) = cei_state c"
  "was_not_connected (tcp_receive_from E rbs missing c) = was_not_connected c"
  "sending_blocked (tcp_receive_from E rbs missing c) = sending_blocked c"
  "reconnect_counter (tcp_receive_from E rbs missing c) = reconnect_counter c"
  "local_port (tcp_receive_from E rbs missing c) = local_port c"
  "is_sending (tcp_receive_from E rbs missing c) = is_sending c"
  by (simp_all add: tcp_receive_from_def tcp_handle_recv_buffer_exception_def Let_def
      client_plumbing split: receive_plan.splits)

lemma tcp_send_data_frame [frame_simps]:
  "cei_state (tcp_send_data E data c) = cei_state c"
  "sending_blocked (tcp_send_data E data c) = sending_blocked c"
  by (simp_all add: tcp_send_data_def Let_def client_plumbing)

lemma tcp_connect_state:
  "cei_state (tcp_connect E c) = cei_state c \<or> cei_state (tcp_connect E c) = CONNECTING"
  by (simp add: tcp_connect_def Let_def post_defs frame_simps split: prod.splits option.splits)

lemma tcp_virtuals_simps [simp]:
  "v_connect (tcp_virtuals E) = tcp_connect E"
  "v_receive (tcp_virtuals E) = tcp_receive E"
  "v_set_local_port (tcp_virtuals E) = tcp_set_local_port E"
  "v_send_data (tcp_virtuals E) = tcp_send_data E"
  by (simp_all add: tcp_virtuals_def)

interpretation tcp: client_vtable "tcp_virtuals E" for E
  by unfold_locales (simp_all add: tcp_connect_state tcp_receive_def frame_simps)

end
