(* ===== verification/Tcp_Client_Laws.thy ===== *)
theory Tcp_Client_Laws imports Tcp_Client_Runs begin

text \<open>
  Invariants of the TCP client's runs and its properties.
\<close>

section \<open>The receive window\<close>

fun tcp_op_ok :: "'ep client_op \<Rightarrow> bool" where
  "tcp_op_ok (Async_receive off len) \<longleftrightarrow> off = 0 \<and> len = 4"
| "tcp_op_ok (Async_receive_from b) \<longleftrightarrow> False"
| "tcp_op_ok (Async_send data) \<longleftrightarrow> False"
| "tcp_op_ok _ \<longleftrightarrow> True"

lemma tcp_op_ok_abort [simp]: "tcp_op_ok (abort_wait t p) = tcp_op_ok p"
  by (cases p) auto

definition tcp_inv :: "('s, 'ep, 'addr) tcp_client \<Rightarrow> bool" where
  "tcp_inv c \<longleftrightarrow>
     recv_buffer_size_initial c = 4 \<and> vsize (recv_buffer c) = 4 \<and> vcap (recv_buffer c) = 4 \<and>
     shrink_count c = 0 \<and> buffer_shrink_threshold c = 1000 \<and> (\<forall>p\<in>set (io c). tcp_op_ok p)"

lemma tcp_inv_new: "tcp_inv (new_tcp_client E garbage blocked sending s lcl rmt)"
  by (simp add: tcp_inv_def new_tcp_client_def init_client_endpoint_def client_endpoint.defs)

lemma tcp_inv_connect: "tcp_inv c \<Longrightarrow> tcp_inv (tcp_connect E c)"
  by (simp add: tcp_inv_def frame_simps)
    (simp add: tcp_connect_def Let_def post_defs frame_simps split: prod.splits option.splits)

lemma tcp_inv_receive: "tcp_inv c \<Longrightarrow> tcp_inv (tcp_receive E c)"
  by (simp add: tcp_inv_def tcp_receive_def tcp_receive_from_def prepare_receive_plain start_async_def)

lemma tcp_inv_set_local_port: "tcp_inv c \<Longrightarrow> tcp_inv (tcp_set_local_port E c)"
  by (simp add: tcp_inv_def frame_simps)

lemma tcp_inv_send_data: "tcp_inv c \<Longrightarrow> tcp_inv (tcp_send_data E data c)"
  by (simp add: tcp_inv_def tcp_send_data_def Let_def client_plumbing)

lemma tcp_inv_updates [simp]:
  "tcp_inv (c\<lparr>cei_state := a\<rparr>) = tcp_inv c"
  "tcp_inv (c\<lparr>was_not_connected := b\<rparr>) = tcp_inv c"
  "tcp_inv (c\<lparr>sending_blocked := b\<rparr>) = tcp_inv c"
  "tcp_inv (c\<lparr>connect_timeout := x\<rparr>) = tcp_inv c"
  "tcp_inv (c\<lparr>reconnect_counter := x\<rparr>) = tcp_inv c"
  "tcp_inv (c\<lparr>local_port := y\<rparr>) = tcp_inv c"
  "tcp_inv (c\<lparr>socket := s\<rparr>) = tcp_inv c"
  "tcp_inv (c\<lparr>is_sending := b\<rparr>) = tcp_inv c"
  "tcp_inv (log t c) = tcp_inv c"
  "tcp_inv (cancel_timer tid c) = tcp_inv c"
  by (simp_all add: tcp_inv_def client_plumbing)

lemma tcp_inv_shutdown [simp]:
  "tcp_inv (shutdown_and_close_socket E V recreate c) = tcp_inv c"
  by (simp add: shutdown_and_close_socket_def shutdown_and_close_socket_unlocked_def Let_def
      split: option.splits)

lemma tcp_inv_start_timer [simp]: "tcp_inv (start_timer t ms c) = tcp_inv c"
  by (auto simp: tcp_inv_def client_plumbing)

lemmas tcp_inv_virtuals = tcp_inv_connect tcp_inv_receive tcp_inv_set_local_port tcp_inv_send_data

lemma tcp_inv_connect_cbk: "tcp_inv c \<Longrightarrow> tcp_inv (connect_cbk E (tcp_virtuals E) ec c)"
  by (simp add: connect_cbk_def Let_def tcp_inv_virtuals)

lemma tcp_inv_wait_connect_cbk: "tcp_inv c \<Longrightarrow> tcp_inv (wait_connect_cbk (tcp_virtuals E) ec c)"
  by (simp add: wait_connect_cbk_def tcp_inv_virtuals)

lemma tcp_inv_send_cbk: "tcp_inv c \<Longrightarrow> tcp_inv (send_cbk E (tcp_virtuals E) ec c)"
  by (simp add: send_cbk_def Let_def tcp_inv_virtuals)

lemma tcp_inv_run_calls: "tcp_inv c \<Longrightarrow> tcp_inv (tcp_run_calls E data calls c)"
  by (induction calls arbitrary: c) (auto simp: tcp_run_calls_def tcp_write_completion_condition_def)

lemma tcp_inv_wait_until_sent: "tcp_inv c \<Longrightarrow> tcp_inv (tcp_wait_until_sent ec c)"
  by (simp add: tcp_wait_until_sent_def)

lemma tcp_inv_handle:
  assumes "tcp_inv (c\<lparr>io := p # ps\<rparr>)" "possible p r"
  shows "tcp_inv (tcp_handle E p r (c\<lparr>io := ps\<rparr>))"
proof -
  have inv: "tcp_inv (c\<lparr>io := ps\<rparr>)" and ok: "tcp_op_ok p"
    using assms(1) by (simp_all add: tcp_inv_def)
  show ?thesis
  proof (cases p)
    case (Async_receive off len)
    then have "unat off + length (c_bytes r) \<le> vsize (recv_buffer c)"
      using ok assms by (simp add: tcp_inv_def)
    then have "vsize (write_at (unat off) (c_bytes r) (recv_buffer c)) = vsize (recv_buffer c)"
      by (rule write_at_size)
    with Async_receive inv show ?thesis
      by (simp add: tcp_receive_cbk_def tcp_inv_def log_def write_at_def)
  qed (use inv in \<open>auto simp: tcp_inv_connect_cbk tcp_inv_wait_connect_cbk tcp_inv_send_cbk
        tcp_inv_run_calls tcp_inv_wait_until_sent split: timer_id.splits\<close>)
qed

lemma tcp_inv_step:
  assumes "tcp_step E l c c'" "tcp_inv c"
  shows "tcp_inv c'"
  using assms
proof (induction rule: tcp_step.induct)
  case (step_ran c ps p qs r)
  then have "tcp_inv (c\<lparr>io := p # ps @ qs\<rparr>)" by (simp add: tcp_inv_def)
  then show ?case using step_ran by (intro tcp_inv_handle)
qed (simp_all add: tcp_start_def client_stop_def client_send_def set_established_def
    set_connected_def Let_def tcp_inv_virtuals)

lemma tcp_inv_run: "tcp_run E c ls c' \<Longrightarrow> tcp_inv c \<Longrightarrow> tcp_inv c'"
  by (erule run_invariant) (auto intro: tcp_inv_step)


section \<open>The connection state\<close>

text \<open>
  No handler raises the state above \<open>CONNECTING\<close>.
\<close>

definition down :: "cei_state_e \<Rightarrow> bool" where
  "down st \<longleftrightarrow> st = CLOSED \<or> st = CONNECTING"

lemma tcp_connect_down: "down (cei_state c) \<Longrightarrow> down (cei_state (tcp_connect E c))"
  using tcp_connect_state [of E c] by (auto simp: down_def)

lemma tcp_write_completion_condition_frame [simp]:
  "cei_state (snd (tcp_write_completion_condition E ec n m c)) = cei_state c"
  "sending_blocked (snd (tcp_write_completion_condition E ec n m c)) = sending_blocked c"
  "is_sending (snd (tcp_write_completion_condition E ec n m c)) = is_sending c"
  "io (snd (tcp_write_completion_condition E ec n m c)) = io c"
  by (simp_all add: tcp_write_completion_condition_def log_def)

lemma tcp_run_calls_frame [simp]:
  "cei_state (tcp_run_calls E data calls c) = cei_state c"
  "sending_blocked (tcp_run_calls E data calls c) = sending_blocked c"
  "is_sending (tcp_run_calls E data calls c) = is_sending c"
  "io (tcp_run_calls E data calls c) = io c"
  by (induction calls arbitrary: c) (auto simp: tcp_run_calls_def)

lemma tcp_wait_until_sent_frame [simp]:
  "cei_state (tcp_wait_until_sent ec c) = cei_state c"
  "sending_blocked (tcp_wait_until_sent ec c) = sending_blocked c"
  "is_sending (tcp_wait_until_sent ec c) = is_sending c"
  "reads (io (tcp_wait_until_sent ec c)) = reads (io c)"
  by (simp_all add: tcp_wait_until_sent_def client_plumbing)

lemma tcp_handle_down:
  assumes "down (cei_state c)"
  shows "down (cei_state (tcp_handle E p r c))"
proof (cases p)
  case (Async_write data t)
  with assms show ?thesis
    using tcp.send_cbk_state [where E = E and Ea = E and ec = "c_error r" and c = "tcp_run_calls E data (c_calls r) c"]
    by (auto simp: down_def)
next
  case (Timer_wait t ms)
  with assms tcp.wait_connect_cbk_state [where E = E and ec = "c_error r" and c = c] show ?thesis
    by (auto simp: down_def split: timer_id.splits)
next
  case (Timer_aborted t)
  with assms tcp.wait_connect_cbk_state [where E = E and ec = "c_error r" and c = c] show ?thesis
    by (auto simp: down_def split: timer_id.splits)
qed (use assms in \<open>simp_all add: tcp.connect_cbk_state tcp_receive_cbk_def log_def\<close>)

lemma tcp_step_down:
  assumes "tcp_step E l c c'" "\<not> declares_up l" "down (cei_state c)"
  shows "down (cei_state c')"
  using assms
proof (induction rule: tcp_step.induct)
  case (step_start c)
  then show ?case by (simp add: tcp_start_def tcp_connect_down)
next
  case (step_ran c ps p qs r)
  then show ?case by (intro tcp_handle_down) simp
qed (simp_all add: tcp.client_send_state client_stop_def Let_def frame_simps cancel_timer_def
    set_established_def set_connected_def down_def)

section \<open>Flags that are only ever raised\<close>

lemma tcp_is_sending_ops [simp]:
  "is_sending (log t c) = is_sending c"
  "is_sending (cancel_timer tid c) = is_sending c"
  "is_sending (shutdown_and_close_socket E V recreate c) = is_sending c"
  "is_sending (tcp_receive E c) = is_sending c"
  by (simp_all add: client_plumbing shutdown_and_close_socket_def tcp_receive_def frame_simps
      shutdown_and_close_socket_unlocked_def Let_def split: option.splits)

lemma tcp_handle_is_sending [simp]: "is_sending (tcp_handle E p r c) = is_sending c"
proof (cases p)
  case (Timer_wait t ms)
  then show ?thesis by (cases t) (simp_all add: wait_connect_cbk_def frame_simps)
next
  case (Timer_aborted t)
  then show ?thesis by (cases t) (simp_all add: wait_connect_cbk_def frame_simps)
qed (simp_all add: connect_cbk_def send_cbk_def tcp_receive_cbk_def Let_def frame_simps)

lemma tcp_step_is_sending:
  assumes "tcp_step E l c c'" "is_sending c"
  shows "is_sending c'"
  using assms
  by (induction rule: tcp_step.induct)
    (simp_all add: tcp_start_def client_stop_def client_send_def set_established_def
      set_connected_def Let_def frame_simps tcp_send_data_def start_async_def)

lemma tcp_handle_blocked:
  "sending_blocked c \<Longrightarrow> sending_blocked (tcp_handle E p r c)"
  by (cases p)
    (auto simp: tcp.connect_cbk_blocked tcp.send_cbk_blocked wait_connect_cbk_def tcp_receive_cbk_def
      frame_simps log_def split: timer_id.splits)

lemma tcp_step_blocked:
  assumes "tcp_step E l c c'" "sending_blocked c"
  shows "sending_blocked c'"
  using assms
  by (induction rule: tcp_step.induct)
    (simp_all add: tcp_start_def client_stop_def tcp.client_send_blocked set_established_def
      set_connected_def Let_def frame_simps cancel_timer_def tcp_handle_blocked)

section \<open>Reads\<close>

lemma reads_tcp_connect [simp]: "reads (io (tcp_connect E c)) = reads (io c)"
  by (simp add: tcp_connect_def Let_def post_defs frame_simps split: prod.splits option.splits)

lemma reads_tcp_receive: "reads (io (tcp_receive E c)) \<le> Suc (reads (io c))"
  by (simp add: tcp_receive_def tcp_receive_from_def tcp_handle_recv_buffer_exception_def Let_def
      client_plumbing split: receive_plan.splits)

lemma reads_log_cancel [simp]:
  "reads (io (log t c)) = reads (io c)"
  "reads (io (cancel_timer tid c)) = reads (io c)"
  by (simp_all add: client_plumbing)

lemma reads_handle:
  "reads (io (tcp_handle E p r c)) \<le> reads (io c) + (if is_connect p then 1 else 0)"
proof (cases p)
  case (Timer_wait t ms)
  then show ?thesis by (cases t) (simp_all add: wait_connect_cbk_def)
next
  case (Timer_aborted t)
  then show ?thesis by (cases t) (simp_all add: wait_connect_cbk_def)
next
  case (Post_connect_cbk ec)
  then show ?thesis
    by (auto simp: connect_cbk_def Let_def frame_simps intro!: order_trans [OF reads_tcp_receive])
next
  case (Async_connect ep)
  then show ?thesis
    by (auto simp: connect_cbk_def Let_def frame_simps intro!: order_trans [OF reads_tcp_receive])
qed (simp_all add: send_cbk_def tcp_receive_cbk_def Let_def frame_simps)

definition reads_done :: "'ep client_label list \<Rightarrow> nat" where
  "reads_done ls = length (filter ran_read ls)"

definition connects_done :: "'ep client_label list \<Rightarrow> nat" where
  "connects_done ls = length (filter ran_connect ls)"

lemma tcp_step_reads:
  assumes "tcp_step E l c c'"
  shows "reads (io c') + reads_done [l] \<le> reads (io c) + connects_done [l]"
  using assms
proof (induction rule: tcp_step.induct)
  case (step_ran c ps p qs r)
  then show ?case
    using reads_handle [of E p r "c\<lparr>io := ps @ qs\<rparr>"]
    by (cases "is_read p"; cases "is_connect p") (simp_all add: reads_done_def connects_done_def)
qed (simp_all add: reads_done_def connects_done_def tcp_start_def client_stop_def client_send_def
    set_established_def set_connected_def Let_def frame_simps tcp_send_data_def client_plumbing)

lemma tcp_run_reads:
  "tcp_run E c ls c' \<Longrightarrow> reads (io c') + reads_done ls \<le> reads (io c) + connects_done ls"
proof (induction rule: run.induct)
  case (run_snoc c ls c' l c'')
  then show ?case
    using tcp_step_reads [of E l c' c''] by (simp add: reads_done_def connects_done_def)
qed (simp add: reads_done_def connects_done_def)

end
