(* ===== verification/Tcp_Client_Props.thy ===== *)
theory Tcp_Client_Props
  imports Tcp_Client_Laws Asio_Env
begin

text \<open>
  The properties of the TCP client, over the laws and the invariants of \<open>Tcp_Client_Laws\<close> and the
  socket contract \<open>asio_socket\<close>.
\<close>

section \<open>Lemmas over the socket contract\<close>

context asio_socket
begin

lemma try_option_open [simp]:
  "sk_is_open E (socket (try_option E opt text c)) = sk_is_open E (socket c)"
  using set_option_is_open [of opt "socket c"]
  by (simp add: try_option_def Let_def log_def split: prod.splits)

lemma tcp_connect_cases:
  assumes post: "post_exception E = None"
  shows "\<exists>p. io (tcp_connect E c) = io c @ [p] \<and>
    (p = Async_connect (remote_ep c) \<and> cei_state (tcp_connect E c) = CONNECTING
       \<and> sk_is_open E (socket (tcp_connect E c)) \<or>
     (\<exists>ec. p = Post_connect_cbk ec \<and> ec \<noteq> no_error \<and> cei_state (tcp_connect E c) = cei_state c))"
proof (cases "sk_open E (ep_protocol E (remote_ep c)) (socket c)")
  case (Pair ec s)
  have s: "sk_is_open E s" if "ec = no_error \<or> ec = already_open"
    using open_usable [of "ep_protocol E (remote_ep c)" "socket c"] Pair that by auto
  have b: "sk_is_open E s' = sk_is_open E t" if "sk_bind E ep t = (e, s')" for ep t e s'
    using bind_is_open that by blast
  show ?thesis
    using Pair post
    by (auto simp: tcp_connect_def Let_def post_defs frame_simps b s split: prod.splits)
qed


lemma try_option_socket: "socket (try_option E opt text c) = snd (sk_set_option E opt (socket c))"
  by (simp add: try_option_def Let_def log_def split: prod.splits)

text \<open>The socket \<open>connect\<close> has set up before it binds, from the one it starts with.\<close>

abbreviation (input) connect_options :: "'addr socket_option list" where
  "connect_options \<equiv> [no_delay, keep_alive, reuse_address, linger_abort]"

lemma tcp_connect_closed_socket:
  assumes post: "post_exception E = None" and closed: "\<not> sk_is_open E (socket c)"
  shows "case sk_open E (ep_protocol E (remote_ep c)) (socket c) of (e, s1) \<Rightarrow>
    case sk_bind E (local_ep c) (foldl (\<lambda>s opt. snd (sk_set_option E opt s)) s1 connect_options) of (b, s2) \<Rightarrow>
    if e \<noteq> no_error then
      io (tcp_connect E c) = io c @ [Post_connect_cbk e] \<and> socket (tcp_connect E c) = s1 \<and>
      cei_state (tcp_connect E c) = cei_state c
    else if b \<noteq> no_error then
      io (tcp_connect E c) = io c @ [Post_connect_cbk b] \<and> socket (tcp_connect E c) = s2 \<and>
      cei_state (tcp_connect E c) = cei_state c
    else
      io (tcp_connect E c) = io c @ [Async_connect (remote_ep c)] \<and> socket (tcp_connect E c) = s2 \<and>
      cei_state (tcp_connect E c) = CONNECTING \<and> sk_is_open E s2"
proof -
  obtain e s1 where o: "sk_open E (ep_protocol E (remote_ep c)) (socket c) = (e, s1)" by (rule prod.exhaust)
  obtain b s2 where b: "sk_bind E (local_ep c) (foldl (\<lambda>s opt. snd (sk_set_option E opt s)) s1 connect_options) = (b, s2)"
    by (rule prod.exhaust)
  have e: "e \<noteq> already_open" using open_already [OF o] closed by simp
  show ?thesis
  proof (cases "e = no_error")
    case True
    then have "sk_is_open E s1" using open_is_open [OF o] by simp
    then have "sk_is_open E s2" using bind_is_open [OF b] by simp
    then show ?thesis
      using True b post
      by (simp add: o tcp_connect_def Let_def post_defs frame_simps try_option_socket)
  next
    case False
    with e show ?thesis
      using post by (simp add: o b tcp_connect_def Let_def post_defs)
  qed
qed

lemma send_cbk_reconnects:
  assumes lost: "ec \<in> {broken_pipe, not_connected, bad_descriptor, no_permission}"
  obtains d where "send_cbk E (tcp_virtuals E) ec c = tcp_connect E d"
    and "io d = io c" "remote_ep d = remote_ep c" "local_ep d = local_ep c" "cei_state d = CLOSED"
    and "was_not_connected d" "socket d = sk_reset E (shutdown_and_close E (socket c))"
proof -
  let ?down = "\<lambda>b. (shutdown_and_close_socket E (tcp_virtuals E) True
    ((if b then log (send_cbk_text E ec (v_get_remote_information (tcp_virtuals E) (c\<lparr>cei_state := CLOSED\<rparr>)))
        (c\<lparr>cei_state := CLOSED\<rparr>) else c\<lparr>cei_state := CLOSED\<rparr>)\<lparr>was_not_connected := True\<rparr>))"
  have "send_cbk E (tcp_virtuals E) ec c = tcp_connect E (?down (ec = broken_pipe \<or> ec = no_permission))"
    using lost by (auto simp: send_cbk_def Let_def)
  then show thesis
    by (rule that) (simp_all add: frame_simps log_def shutdown_and_close_socket_socket)
qed

end


section \<open>An example run\<close>

text \<open>An endpoint to port 13400 is started, and its connection succeeds.\<close>

definition ok_completion :: "uint16_t completion" where
  "ok_completion = \<lparr>c_error = no_error, c_bytes = [], c_sender = 0, c_calls = []\<rparr>"

definition ex_new :: "(bool, uint16_t, uint32_t) tcp_client" where
  "ex_new = new_tcp_client quiet_env 0 False False False 0 13400"

definition ex_started :: "(bool, uint16_t, uint32_t) tcp_client" where
  "ex_started = tcp_start quiet_env ex_new"

definition ex_connected :: "(bool, uint16_t, uint32_t) tcp_client" where
  "ex_connected = tcp_handle quiet_env (Async_connect 13400) ok_completion (ex_started\<lparr>io := []\<rparr>)"

definition ex_labels :: "uint16_t client_label list" where
  "ex_labels = [Start, Ran (Async_connect 13400) ok_completion]"

lemma ex_new_simps [simp]:
  "socket ex_new = False" "io ex_new = []" "remote_ep ex_new = 13400" "local_ep ex_new = 0"
  "sending_blocked ex_new = False" "was_not_connected ex_new = False" "is_sending ex_new = False"
  "shrink_count ex_new = 0" "buffer_shrink_threshold ex_new = 1000" "recv_buffer ex_new = make_buffer 4"
  "cei_state ex_new = CLOSED"
  by (simp_all add: ex_new_def new_tcp_client_def init_client_endpoint_def client_endpoint.defs)

lemma try_option_quiet [simp]: "try_option quiet_env opt text c = c"
  by (simp add: try_option_def)

lemma ex_started_simps [simp]:
  "socket ex_started = True" "io ex_started = [Async_connect 13400]"
  "sending_blocked ex_started = False" "was_not_connected ex_started = False"
  "shrink_count ex_started = 0" "buffer_shrink_threshold ex_started = 1000"
  "recv_buffer ex_started = make_buffer 4" "is_sending ex_started = False"
  by (simp_all add: ex_started_def tcp_start_def tcp_connect_def Let_def start_async_def)

lemma ex_connected_simps [simp]:
  "socket ex_connected = True" "io ex_connected = [Async_receive 0 4]"
  "sending_blocked ex_connected = False" "is_sending ex_connected = False"
  by (simp_all add: ex_connected_def ok_completion_def connect_cbk_def Let_def cancel_timer_def
      tcp_set_local_port_def tcp_receive_def tcp_receive_from_def prepare_receive_plain start_async_def)

lemma ex_run: "tcp_run quiet_env ex_new ex_labels ex_connected"
proof -
  have "tcp_run quiet_env ex_new [Start] ex_started"
    unfolding ex_started_def by (intro run_stepI step_start)
  moreover have "tcp_step quiet_env (Ran (Async_connect 13400) ok_completion) ex_started ex_connected"
    unfolding ex_connected_def using step_ran [of ex_started "[]" _ "[]" ok_completion quiet_env] by simp
  ultimately show ?thesis
    using run_snoc unfolding ex_labels_def by fastforce
qed

section \<open>Properties\<close>

text \<open>
  C28: in every run of a TCP client from its construction, every outstanding read asks for exactly
  4 bytes at offset 0 of a buffer of exactly 4 bytes: the buffer never grows or shrinks, and a
  completed read never overruns it.
\<close>

theorem tcp_client_reads_four:
  assumes "tcp_run E (new_tcp_client E garbage blocked sending s lcl rmt) ls c"
    and "Async_receive off len \<in> set (io c)"
  shows "off = 0 \<and> len = 4 \<and> vsize (recv_buffer c) = 4 \<and> vcap (recv_buffer c) = 4"
proof -
  have "tcp_inv c" using assms(1) tcp_inv_new by (rule tcp_inv_run)
  then show ?thesis using assms(2) by (auto simp: tcp_inv_def)
qed

theorem tcp_client_reads_four_witness:
  "Async_receive 0 4 \<in> set (io ex_connected) \<and> vsize (recv_buffer ex_connected) = 4"
  using tcp_client_reads_four [OF ex_run [unfolded ex_new_def], of 0 4] by simp

text \<open>
  Only the owner's \<open>set_established\<close> and \<open>set_connected\<close> declare a TCP client usable: in a run
  without a raising call of them, whatever connects, sends and receives succeed, the state stays
  \<open>CLOSED\<close> or \<open>CONNECTING\<close>, so \<open>is_established_or_connected\<close> answers false.
\<close>

theorem tcp_client_never_up_by_itself:
  assumes "tcp_run E (new_tcp_client E garbage blocked sending s lcl rmt) ls c"
    and "\<forall>l\<in>set ls. \<not> declares_up l"
  shows "\<not> is_established c \<and> \<not> is_established_or_connected c"
proof -
  have "down (cei_state c)"
    using assms(1) _ assms(2)
  proof (rule run_label_invariant [where I = "\<lambda>c. down (cei_state c)"])
    show "down (cei_state (new_tcp_client E garbage blocked sending s lcl rmt))"
      by (simp add: down_def new_tcp_client_def init_client_endpoint_def client_endpoint.defs)
  qed (auto intro: tcp_step_down)
  then show ?thesis by (auto simp: down_def is_established_def is_established_or_connected_def)
qed

theorem tcp_client_never_up_by_itself_witness:
  "tcp_run quiet_env ex_new ex_labels ex_connected \<and> \<not> is_established_or_connected ex_connected"
  using tcp_client_never_up_by_itself [OF ex_run [unfolded ex_new_def]] ex_run
  by (simp add: ex_labels_def)



text \<open>
  When handlers can be posted, \<open>connect\<close> of the TCP client starts exactly one operation: either
  an asynchronous connect to the remote endpoint, with the socket open and the state \<open>CONNECTING\<close>,
  or a posted connect handler carrying the error of opening or binding, with the state unchanged.
\<close>

theorem tcp_client_connect_outcome:
  assumes "asio_socket E" and "post_exception E = None"
  shows "\<exists>p. io (tcp_connect E c) = io c @ [p] \<and>
    (p = Async_connect (remote_ep c) \<and> cei_state (tcp_connect E c) = CONNECTING
       \<and> sk_is_open E (socket (tcp_connect E c)) \<or>
     (\<exists>ec. p = Post_connect_cbk ec \<and> ec \<noteq> no_error \<and> cei_state (tcp_connect E c) = cei_state c))"
  by (rule asio_socket.tcp_connect_cases [OF assms])

theorem tcp_client_connect_outcome_witness:
  "io (tcp_connect quiet_env ex_new) = [Async_connect 13400] \<and>
   cei_state (tcp_connect quiet_env ex_new) = CONNECTING"
  using tcp_client_connect_outcome [OF asio_socket_quiet, of ex_new]
    ex_started_simps(2) [unfolded ex_started_def tcp_start_def]
  by simp

text \<open>
  C8: a write that fails with broken pipe, not connected, bad descriptor or no permission makes the TCP
  client reconnect, when handlers can be posted.  The old socket is shut down and closed and replaced by
  a new one, and exactly one connection attempt is made on the new one: it is opened, gets the four
  options and is bound to the local endpoint, and then one asynchronous connect to the remote endpoint
  is started, with the state \<open>CONNECTING\<close>; if opening or binding fails, the connect handler is posted
  with that error instead, with the state \<open>CLOSED\<close>.  The client remembers that it was not connected.
\<close>

theorem tcp_client_reconnects:
  assumes "asio_socket E" and "post_exception E = None"
    and "ec \<in> {broken_pipe, not_connected, bad_descriptor, no_permission}"
  shows "let c' = send_cbk E (tcp_virtuals E) ec c;
      (e, s1) = sk_open E (ep_protocol E (remote_ep c)) (sk_reset E (shutdown_and_close E (socket c)));
      (b, s2) = sk_bind E (local_ep c)
        (foldl (\<lambda>s opt. snd (sk_set_option E opt s)) s1 [no_delay, keep_alive, reuse_address, linger_abort])
    in was_not_connected c' \<and>
      (if e \<noteq> no_error then io c' = io c @ [Post_connect_cbk e] \<and> socket c' = s1 \<and> cei_state c' = CLOSED
       else if b \<noteq> no_error then io c' = io c @ [Post_connect_cbk b] \<and> socket c' = s2 \<and> cei_state c' = CLOSED
       else io c' = io c @ [Async_connect (remote_ep c)] \<and> socket c' = s2 \<and> cei_state c' = CONNECTING
         \<and> sk_is_open E s2)"
proof -
  obtain d where d: "send_cbk E (tcp_virtuals E) ec c = tcp_connect E d"
      "io d = io c" "remote_ep d = remote_ep c" "local_ep d = local_ep c" "cei_state d = CLOSED"
      "was_not_connected d" "socket d = sk_reset E (shutdown_and_close E (socket c))"
    by (rule asio_socket.send_cbk_reconnects [OF assms(1,3)])
  have "\<not> sk_is_open E (socket d)" using asio_socket.reset_closed [OF assms(1)] d(7) by simp
  from asio_socket.tcp_connect_closed_socket [OF assms(1,2) this] show ?thesis
    unfolding d(1) Let_def d(2-5,7) by (simp add: frame_simps d(6) split: prod.splits)
qed

theorem tcp_client_reconnects_witness:
  "let c' = send_cbk quiet_env (tcp_virtuals quiet_env) broken_pipe ex_connected
   in was_not_connected c' \<and> last (io c') = Async_connect (remote_ep ex_connected) \<and> socket c'"
  using tcp_client_reconnects [OF asio_socket_quiet, of broken_pipe ex_connected] by (simp add: Let_def)

text \<open>
  The connect handler tells failure from success only by \<open>operation_aborted\<close>: after any other
  error, a refused connection included, a client whose socket is open cancels the connect timer,
  forgets that it was not connected and starts reading, without changing the state.
\<close>

theorem tcp_client_connect_error_reads:
  assumes "ec \<noteq> operation_aborted" and "\<not> sending_blocked c" and "sk_is_open E (socket c)"
    and "shrink_count c \<le> buffer_shrink_threshold c"
  shows "io (connect_cbk E (tcp_virtuals E) ec c) =
      map (abort_wait Connect_timer) (io c) @ [Async_receive 0 (of_nat (vcap (recv_buffer c)))] \<and>
    \<not> was_not_connected (connect_cbk E (tcp_virtuals E) ec c) \<and>
    reconnect_counter (connect_cbk E (tcp_virtuals E) ec c) = 0 \<and>
    cei_state (connect_cbk E (tcp_virtuals E) ec c) = cei_state c"
  using assms tcp.connect_cbk_clears [of ec c] tcp.connect_cbk_state
  by (simp add: connect_cbk_def Let_def tcp_receive_def tcp_receive_from_def frame_simps
      prepare_receive_plain cancel_timer_def start_async_def)

theorem tcp_client_connect_error_reads_witness:
  "io (connect_cbk quiet_env (tcp_virtuals quiet_env) connection_refused ex_started) =
     [Async_connect 13400, Async_receive 0 4]"
  using tcp_client_connect_error_reads [of connection_refused ex_started quiet_env] by simp

text \<open>
  Once a TCP client has started a write it counts as sending for ever: no handler that is
  reached clears the flag, so a wait for the write to finish always ends by starting another wait
  of one second.
\<close>

theorem tcp_client_is_sending_sticks:
  assumes "tcp_run E c ls c'" and "is_sending c" and "failed ec"
  shows "is_sending c' \<and>
    io (tcp_wait_until_sent ec c') = map (abort_wait Sent_timer) (io c') @ [Timer_wait Sent_timer 1000]"
proof -
  have "is_sending c'"
    using assms(1,2) by (rule run_invariant) (rule tcp_step_is_sending)
  then show ?thesis
    using assms(3) by (simp add: tcp_wait_until_sent_def client_plumbing FTDOIP_MAX_TCP_SENT_WAIT_TIME_def)
qed

theorem tcp_client_is_sending_sticks_witness:
  "\<exists>c'. tcp_run quiet_env (tcp_send_data quiet_env [1] ex_connected) [Stop] c' \<and> is_sending c'"
proof -
  let ?c = "tcp_send_data quiet_env [1] ex_connected"
  have "is_sending ?c" by (simp add: tcp_send_data_def Let_def client_plumbing)
  moreover have "tcp_run quiet_env ?c [Stop] (client_stop quiet_env (tcp_virtuals quiet_env) ?c)"
    by (intro run_stepI step_stop)
  ultimately show ?thesis
    using tcp_client_is_sending_sticks [of quiet_env ?c "[Stop]" _ operation_aborted] by auto
qed

text \<open>
  C27: an aborted write blocks the TCP client for good: in every later state, a connection attempt
  that completes, successfully or not, ends with the socket closed and no read started.
\<close>

theorem tcp_client_blocked_for_good:
  assumes "asio_socket E"
    and "tcp_run E (send_cbk E (tcp_virtuals E) operation_aborted c) ls c'"
    and "is_connect p" and "tcp_step E (Ran p r) c' c''"
  shows "\<not> sk_is_open E (socket c'') \<and> reads (io c'') = reads (io c')"
proof -
  have blocked: "sending_blocked c'"
    using assms(2) tcp.send_cbk_aborted by (rule run_invariant) (rule tcp_step_blocked)
  note stopped = asio_socket.connect_cbk_stopped [OF assms(1)]
  from assms(4) obtain ps qs where c'': "c'' = tcp_handle E p r (c'\<lparr>io := ps @ qs\<rparr>)"
      and io: "io c' = ps @ p # qs" by (auto elim: tcp_step_RanE)
  let ?d = "c'\<lparr>io := ps @ qs\<rparr>"
  have "tcp_handle E p r ?d = connect_cbk E (tcp_virtuals E) (c_error r) ?d"
    using assms(3) by (cases p) simp_all
  moreover have "\<not> is_read p" using assms(3) by (cases p) simp_all
  ultimately show ?thesis
    using c'' io blocked stopped [where ec = "c_error r" and c = "?d"] by (simp add: connect_cbk_def frame_simps)
qed

theorem tcp_client_blocked_for_good_witness:
  "\<exists>c''. tcp_step quiet_env (Ran (Async_connect 13400) ok_completion)
      (send_cbk quiet_env (tcp_virtuals quiet_env) operation_aborted ex_started) c'' \<and>
    \<not> socket c''"
proof -
  let ?c = "send_cbk quiet_env (tcp_virtuals quiet_env) operation_aborted ex_started"
  have "io ?c = [] @ Async_connect 13400 # []"
    by (simp add: send_cbk_def Let_def frame_simps log_def)
  from step_ran [OF this, of ok_completion quiet_env]
  have s: "tcp_step quiet_env (Ran (Async_connect 13400) ok_completion) ?c
      (tcp_handle quiet_env (Async_connect 13400) ok_completion (?c\<lparr>io := [] @ []\<rparr>))" by simp
  with tcp_client_blocked_for_good [OF asio_socket_quiet run_Nil _ s] show ?thesis by auto
qed

end
