(* ===== verification/Udp_Client.thy ===== *)
theory Udp_Client imports Tcp_Client_Runs begin

text \<open>
  \<open>udp_client_endpoint_impl\<close> (src/udp_client_endpoint_impl.cpp): connecting, the receive loop,
  sending, its virtual functions, its transition relation and the facts about runs.
\<close>

section \<open>State\<close>

record ('s, 'ep, 'addr) udp_client = "('s, 'ep) client_endpoint" +
  u_remote_address :: 'addr
  u_remote_port :: uint16_t
  udp_receive_buffer_size :: uint32_t
  u_remote_overwritten :: bool

text \<open>
  \<open>u_remote_overwritten\<close> is no member: it records that the constant object \<open>remote_\<close> has been written to
  (below), from when on the behaviour of the program is undefined.
\<close>

definition new_udp_client ::
  "('s, 'ep, 'addr) asio_env \<Rightarrow> uint32_t \<Rightarrow> bool \<Rightarrow> 's \<Rightarrow> 'ep \<Rightarrow> 'ep \<Rightarrow> ('s, 'ep, 'addr) udp_client" where
  "new_udp_client E garbage blocked s lcl rmt =
     client_endpoint.extend (init_client_endpoint garbage blocked lcl rmt s)
       \<lparr>u_remote_address = ep_address E rmt, u_remote_port = ep_port E rmt,
        udp_receive_buffer_size = 1000, u_remote_overwritten = False\<rparr>"

section \<open>Queries\<close>

definition udp_is_local :: "('s, 'ep, 'addr) udp_client \<Rightarrow> bool" where
  "udp_is_local c = False"

definition udp_is_reliable :: "('s, 'ep, 'addr) udp_client \<Rightarrow> bool" where
  "udp_is_reliable c = False"

definition udp_get_remote_address ::
  "('s, 'ep, 'addr) asio_env \<Rightarrow> ('s, 'ep, 'addr) udp_client \<Rightarrow> 'addr option" where
  "udp_get_remote_address E c =
     (if addr_unspecified E (u_remote_address c) then None else Some (u_remote_address c))"

definition udp_get_remote_port :: "('s, 'ep, 'addr) udp_client \<Rightarrow> uint16_t" where
  "udp_get_remote_port c = u_remote_port c"

definition udp_get_address_port_remote ::
  "('s, 'ep, 'addr) asio_env \<Rightarrow> ('s, 'ep, 'addr) udp_client \<Rightarrow> string" where
  "udp_get_address_port_remote E c =
     (case udp_get_remote_address E c of None \<Rightarrow> '''' | Some a \<Rightarrow> addr_to_string E a)
     @ '':'' @ dec (unat (u_remote_port c))"

definition udp_get_address_port_local ::
  "('s, 'ep, 'addr) asio_env \<Rightarrow> ('s, 'ep, 'addr) udp_client \<Rightarrow> string" where
  "udp_get_address_port_local E c =
     (if sk_is_open E (socket c) then
        (case sk_local_endpoint E (socket c) of (ec, ep) \<Rightarrow>
           if \<not> failed ec then
             addr_to_string E (ep_address E ep) @ '':'' @ dec (unat (ep_port E ep))
           else '''')
      else '''')"

definition udp_get_remote_information ::
  "('s, 'ep, 'addr) asio_env \<Rightarrow> ('s, 'ep, 'addr) udp_client \<Rightarrow> string" where
  "udp_get_remote_information E c =
     addr_to_string E (ep_address E (remote_ep c)) @ '':'' @ dec (unat (ep_port E (remote_ep c)))"

section \<open>Connecting\<close>

definition udp_report_receive_buffer ::
  "('s, 'ep, 'addr) asio_env \<Rightarrow> string \<Rightarrow> ('s, 'ep, 'addr) udp_client \<Rightarrow> ('s, 'ep, 'addr) udp_client" where
  "udp_report_receive_buffer E remote c =
     (case sk_get_receive_buffer_size E (socket c) of (ec, n) \<Rightarrow>
        if failed ec then
          log (''udp_client_endpoint_impl::connect: couldn't get SO_RCVBUF: '' @ ec_message E ec @ remote) c
        else log (''udp_client_endpoint_impl::connect: SO_RCVBUF is: '' @ dec_int n) c)"

definition udp_connect :: "('s, 'ep, 'addr) asio_env \<Rightarrow> ('s, 'ep, 'addr) udp_client \<Rightarrow> ('s, 'ep, 'addr) udp_client" where
  "udp_connect E c =
     (case sk_open E (ep_protocol E (remote_ep c)) (socket c) of (ec, s) \<Rightarrow>
        let c0 = c\<lparr>socket := s\<rparr>;
            remote = '' remote:'' @ udp_get_address_port_remote E c0
        in if \<not> failed ec \<or> ec = already_open then
             let c1 = try_option E reuse_address
                   (\<lambda>m. ''udp_client_endpoint_impl::connect: couldn't enable SO_REUSEADDR: '' @ m @ remote) c0
             in (case sk_set_option E (receive_buffer_size (udp_receive_buffer_size c1)) (socket c1) of (opt_ec, s2) \<Rightarrow>
                   let c2 = c1\<lparr>socket := s2\<rparr>;
                       c3 = (if failed opt_ec then
                               log (''udp_client_endpoint_impl::connect: couldn't set SO_RCVBUF: ''
                                    @ ec_message E opt_ec @ '' to: ''
                                    @ dec (unat (udp_receive_buffer_size c2)) @ remote) c2
                             else udp_report_receive_buffer E remote c2)
                   in (case sk_bind E (local_ep c3) (socket c3) of (bind_ec, s4) \<Rightarrow>
                         let c4 = c3\<lparr>socket := s4\<rparr>
                         in if failed bind_ec then
                              post_caught E (\<lambda>w. ''udp_client_endpoint_impl::connect: '' @ w @ remote) bind_ec
                                (log (''udp_client_endpoint::connect: Error binding socket: ''
                                      @ ec_message E bind_ec @ remote) c4)
                            else
                              start_async (Async_connect (remote_ep c4)) (c4\<lparr>cei_state := CONNECTING\<rparr>)))
           else
             post_uncaught E ec
               (log (''udp_client_endpoint::connect: Error opening socket: ''
                     @ ec_message E ec @ remote) c0))"

definition udp_start :: "('s, 'ep, 'addr) asio_env \<Rightarrow> ('s, 'ep, 'addr) udp_client \<Rightarrow> ('s, 'ep, 'addr) udp_client" where
  "udp_start E c = udp_connect E c"

definition udp_set_local_port ::
  "('s, 'ep, 'addr) asio_env \<Rightarrow> ('s, 'ep, 'addr) udp_client \<Rightarrow> ('s, 'ep, 'addr) udp_client" where
  "udp_set_local_port E c =
     (if sk_is_open E (socket c) then
        (case sk_local_endpoint E (socket c) of (ec, ep) \<Rightarrow>
           if \<not> failed ec then c\<lparr>local_port := ep_port E ep\<rparr>
           else log (''udp_client_endpoint_impl::set_local_port()  couldn't get local_endpoint: ''
                     @ ec_message E ec) c)
      else c)"

section \<open>Sending and receiving\<close>

definition udp_send_data ::
  "('s, 'ep, 'addr) asio_env \<Rightarrow> byte_t list \<Rightarrow> ('s, 'ep, 'addr) udp_client \<Rightarrow> ('s, 'ep, 'addr) udp_client" where
  "udp_send_data E data c =
     start_async (Async_send data)
       (log (''ucei<'' @ addr_to_string E (ep_address E (remote_ep c)) @ '':''
             @ dec (unat (ep_port E (remote_ep c))) @ ''>::sq: '' @ hex_dump data) c)"

text \<open>Every read has a fresh buffer of 1000 bytes, which travels with its handler.\<close>

definition udp_receive :: "('s, 'ep, 'addr) asio_env \<Rightarrow> ('s, 'ep, 'addr) udp_client \<Rightarrow> ('s, 'ep, 'addr) udp_client" where
  "udp_receive E c =
     (if sk_is_open E (socket c) then start_async (Async_receive_from (make_buffer 1000)) c else c)"

definition udp_virtuals ::
  "('s, 'ep, 'addr) asio_env \<Rightarrow> ('s, 'ep, 'addr) udp_client client_virtuals" where
  "udp_virtuals E =
     \<lparr>v_connect = udp_connect E, v_receive = udp_receive E, v_set_local_port = udp_set_local_port E,
      v_send_data = udp_send_data E, v_get_remote_information = udp_get_remote_information E\<rparr>"

definition udp_receive_cbk ::
  "('s, 'ep, 'addr) asio_env \<Rightarrow> error_code \<Rightarrow> size_t \<Rightarrow> message_buffer \<Rightarrow>
     ('s, 'ep, 'addr) udp_client \<Rightarrow> ('s, 'ep, 'addr) udp_client" where
  "udp_receive_cbk E ec bytes b c =
     (if ec = operation_aborted then c
      else
        let c1 = log (''ucei::rcb('' @ ec_message E ec @ ''): '' @ hex_dump (take (unat bytes) (vdata b))) c
        in if \<not> failed ec then udp_receive E c1
           else if ec = connection_refused then
             shutdown_and_close_socket E (udp_virtuals E) False c1
           else udp_receive E c1)"

section \<open>Handlers and steps\<close>

text \<open>
  \<open>receive\<close> hands \<open>remote_\<close> itself to \<open>async_receive_from\<close>, casting its \<open>const\<close> away, so a completed read
  that delivered a datagram stores the sender there.  \<open>remote_\<close> is declared \<open>const\<close>
  (src/doipendpoint/include/client_endpoint_impl.h): the store is undefined behaviour, which the model
  records in \<open>u_remote_overwritten\<close>.  It goes on as a program compiled to plain loads and stores does, and
  nothing it says of \<open>remote_\<close> from then on is promised by the language.
\<close>

fun udp_handle ::
  "('s, 'ep, 'addr) asio_env \<Rightarrow> 'ep client_op \<Rightarrow> 'ep completion \<Rightarrow>
     ('s, 'ep, 'addr) udp_client \<Rightarrow> ('s, 'ep, 'addr) udp_client" where
  "udp_handle E (Post_connect_cbk ec) r c = connect_cbk E (udp_virtuals E) (c_error r) c"
| "udp_handle E (Async_connect ep) r c = connect_cbk E (udp_virtuals E) (c_error r) c"
| "udp_handle E (Async_receive_from b) r c =
     udp_receive_cbk E (c_error r) (of_nat (length (c_bytes r))) (write_at 0 (c_bytes r) b)
       (if failed (c_error r) then c else c\<lparr>remote_ep := c_sender r, u_remote_overwritten := True\<rparr>)"
| "udp_handle E (Async_send data) r c = send_cbk E (udp_virtuals E) (c_error r) c"
| "udp_handle E (Timer_wait t ms) r c =
     (case t of Connect_timer \<Rightarrow> wait_connect_cbk (udp_virtuals E) (c_error r) c | Sent_timer \<Rightarrow> c)"
| "udp_handle E (Timer_aborted t) r c =
     (case t of Connect_timer \<Rightarrow> wait_connect_cbk (udp_virtuals E) (c_error r) c | Sent_timer \<Rightarrow> c)"
| "udp_handle E (Async_receive off len) r c = c"
| "udp_handle E (Async_write data t) r c = c"

inductive udp_step ::
  "('s, 'ep, 'addr) asio_env \<Rightarrow> 'ep client_label \<Rightarrow>
     ('s, 'ep, 'addr) udp_client \<Rightarrow> ('s, 'ep, 'addr) udp_client \<Rightarrow> bool" for E where
  udp_start: "udp_step E Start c (udp_start E c)"
| udp_stop: "udp_step E Stop c (client_stop E (udp_virtuals E) c)"
| udp_send: "udp_step E (Send data) c (client_send (udp_virtuals E) data c)"
| udp_set_established: "udp_step E (Set_established b) c (set_established E b c)"
| udp_set_connected: "udp_step E (Set_connected b) c (set_connected E b c)"
| udp_ran: "io c = ps @ p # qs \<Longrightarrow> possible p r \<Longrightarrow>
     udp_step E (Ran p r) c (udp_handle E p r (c\<lparr>io := ps @ qs\<rparr>))"

inductive_cases udp_step_RanE: "udp_step E (Ran p r) c c'"

section \<open>The contract\<close>

lemma udp_virtuals_simps [simp]:
  "v_connect (udp_virtuals E) = udp_connect E"
  "v_receive (udp_virtuals E) = udp_receive E"
  "v_set_local_port (udp_virtuals E) = udp_set_local_port E"
  "v_send_data (udp_virtuals E) = udp_send_data E"
  by (simp_all add: udp_virtuals_def)

lemma udp_report_receive_buffer_frame [frame_simps]:
  "cei_state (udp_report_receive_buffer E t c) = cei_state c"
  "was_not_connected (udp_report_receive_buffer E t c) = was_not_connected c"
  "sending_blocked (udp_report_receive_buffer E t c) = sending_blocked c"
  "local_ep (udp_report_receive_buffer E t c) = local_ep c"
  "remote_ep (udp_report_receive_buffer E t c) = remote_ep c"
  "socket (udp_report_receive_buffer E t c) = socket c"
  "io (udp_report_receive_buffer E t c) = io c"
  by (simp_all add: udp_report_receive_buffer_def log_def split: prod.splits)

lemma udp_connect_frame [frame_simps]:
  "was_not_connected (udp_connect E c) = was_not_connected c"
  "sending_blocked (udp_connect E c) = sending_blocked c"
  "remote_ep (udp_connect E c) = remote_ep c"
  by (simp_all add: udp_connect_def Let_def post_defs frame_simps split: prod.splits option.splits)

lemma udp_connect_state:
  "cei_state (udp_connect E c) = cei_state c \<or> cei_state (udp_connect E c) = CONNECTING"
  by (simp add: udp_connect_def Let_def post_defs frame_simps split: prod.splits option.splits)

lemma udp_set_local_port_frame [frame_simps]:
  "cei_state (udp_set_local_port E c) = cei_state c"
  "was_not_connected (udp_set_local_port E c) = was_not_connected c"
  "sending_blocked (udp_set_local_port E c) = sending_blocked c"
  "reconnect_counter (udp_set_local_port E c) = reconnect_counter c"
  "socket (udp_set_local_port E c) = socket c"
  "io (udp_set_local_port E c) = io c"
  by (simp_all add: udp_set_local_port_def log_def split: prod.splits)

lemma udp_receive_frame [frame_simps]:
  "cei_state (udp_receive E c) = cei_state c"
  "was_not_connected (udp_receive E c) = was_not_connected c"
  "sending_blocked (udp_receive E c) = sending_blocked c"
  "reconnect_counter (udp_receive E c) = reconnect_counter c"
  "local_port (udp_receive E c) = local_port c"
  "socket (udp_receive E c) = socket c"
  "remote_ep (udp_receive E c) = remote_ep c"
  by (simp_all add: udp_receive_def start_async_def)

lemma udp_send_data_frame [frame_simps]:
  "cei_state (udp_send_data E data c) = cei_state c"
  "sending_blocked (udp_send_data E data c) = sending_blocked c"
  "socket (udp_send_data E data c) = socket c"
  by (simp_all add: udp_send_data_def client_plumbing)

interpretation udp: client_vtable "udp_virtuals E" for E
  by unfold_locales (simp_all add: udp_connect_state frame_simps)

end
