(* ===== verification/Udp_Client_Props.thy ===== *)
theory Udp_Client_Props imports Udp_Client Tcp_Client_Props begin

text \<open>
  The properties of the UDP client.
\<close>

section \<open>Lemmas\<close>

context asio_socket
begin

lemma udp_connect_cases:
  assumes post: "post_exception E = None"
  shows "\<exists>p. io (udp_connect E c) = io c @ [p] \<and>
    (p = Async_connect (remote_ep c) \<and> cei_state (udp_connect E c) = CONNECTING
       \<and> sk_is_open E (socket (udp_connect E c)) \<or>
     (\<exists>ec. p = Post_connect_cbk ec \<and> ec \<noteq> no_error \<and> cei_state (udp_connect E c) = cei_state c))"
proof (cases "sk_open E (ep_protocol E (remote_ep c)) (socket c)")
  case (Pair ec s)
  have s: "sk_is_open E s" if "ec = no_error \<or> ec = already_open"
    using open_usable [of "ep_protocol E (remote_ep c)" "socket c"] Pair that by auto
  have b: "sk_is_open E s' = sk_is_open E t" if "sk_bind E ep t = (e, s')" for ep t e s'
    using bind_is_open that by blast
  have o: "sk_is_open E s' = sk_is_open E t" if "sk_set_option E opt t = (e, s')" for opt t e s'
    using set_option_is_open that by blast
  show ?thesis
    using Pair post
    by (auto simp: udp_connect_def Let_def post_defs frame_simps b o s split: prod.splits)
qed

end

lemma udp_handle_down:
  assumes "down (cei_state c)"
  shows "down (cei_state (udp_handle E p r c))"
proof (cases p)
  case (Async_send data)
  with assms show ?thesis
    using udp.send_cbk_state [where E = E and Ea = E and ec = "c_error r" and c = c] by (auto simp: down_def)
next
  case (Timer_wait t ms)
  with assms udp.wait_connect_cbk_state [where E = E and ec = "c_error r" and c = c] show ?thesis
    by (auto simp: down_def split: timer_id.splits)
next
  case (Timer_aborted t)
  with assms udp.wait_connect_cbk_state [where E = E and ec = "c_error r" and c = c] show ?thesis
    by (auto simp: down_def split: timer_id.splits)
qed (use assms in \<open>simp_all add: udp.connect_cbk_state udp_receive_cbk_def Let_def frame_simps log_def\<close>)

lemma udp_step_down:
  assumes "udp_step E l c c'" "\<not> declares_up l" "down (cei_state c)"
  shows "down (cei_state c')"
  using assms
proof (induction rule: udp_step.induct)
  case (udp_start c)
  then show ?case using udp_connect_state [of E c] by (auto simp: Udp_Client.udp_start_def down_def)
next
  case (udp_ran c ps p qs r)
  then show ?case by (intro udp_handle_down) simp
qed (simp_all add: udp.client_send_state client_stop_def Let_def frame_simps cancel_timer_def
    set_established_def set_connected_def down_def)

lemma reads_udp [simp]:
  "reads (io (udp_connect E c)) = reads (io c)"
  "reads (io (udp_set_local_port E c)) = reads (io c)"
  "reads (io (udp_send_data E data c)) = reads (io c)"
  "reads (io (udp_receive E c)) = reads (io c) + (if sk_is_open E (socket c) then 1 else 0)"
  by (simp_all add: udp_connect_def udp_receive_def udp_send_data_def Let_def post_defs frame_simps
      split: prod.splits option.splits)

lemma reads_udp_handle:
  "reads (io (udp_handle E p r c)) \<le> reads (io c) + (if is_read p \<or> is_connect p then 1 else 0)"
proof (cases p)
  case (Timer_wait t ms)
  then show ?thesis by (cases t) (simp_all add: wait_connect_cbk_def)
next
  case (Timer_aborted t)
  then show ?thesis by (cases t) (simp_all add: wait_connect_cbk_def)
qed (simp_all add: send_cbk_def connect_cbk_def udp_receive_cbk_def Let_def frame_simps)

lemma udp_step_reads:
  assumes "udp_step E l c c'"
  shows "reads (io c') \<le> reads (io c) + connects_done [l]"
  using assms
proof (induction rule: udp_step.induct)
  case (udp_ran c ps p qs r)
  then show ?case
    using reads_udp_handle [of E p r "c\<lparr>io := ps @ qs\<rparr>"]
    by (cases "is_read p"; cases "is_connect p"; cases p) (simp_all add: connects_done_def)
qed (simp_all add: connects_done_def Udp_Client.udp_start_def client_stop_def client_send_def
    set_established_def set_connected_def Let_def frame_simps)

lemma udp_run_reads:
  "run (udp_step E) c ls c' \<Longrightarrow> reads (io c') \<le> reads (io c) + connects_done ls"
proof (induction rule: run.induct)
  case (run_snoc c ls c' l c'')
  then show ?case using udp_step_reads [of E l c' c''] by (simp add: connects_done_def)
qed (simp add: connects_done_def)

section \<open>The address of the peer\<close>

text \<open>
  While no read has succeeded, \<open>remote_\<close> is what the constructor stored; what the client reports of its
  peer was copied there and never changes.
\<close>

definition remote_const :: "('s, 'ep, 'addr) asio_env \<Rightarrow> 'ep \<Rightarrow> ('s, 'ep, 'addr) udp_client \<Rightarrow> bool" where
  "remote_const E rmt c \<longleftrightarrow>
     u_remote_address c = ep_address E rmt \<and> u_remote_port c = ep_port E rmt \<and>
     (\<not> u_remote_overwritten c \<longrightarrow>
        remote_ep c = rmt \<and> (\<forall>ep. Async_connect ep \<in> set (io c) \<longrightarrow> ep = rmt))"

fun overwrites_remote :: "'ep client_label \<Rightarrow> bool" where
  "overwrites_remote (Ran (Async_receive_from b) r) = (c_error r = no_error)"
| "overwrites_remote _ = False"

lemma udp_members_parts [simp]:
  fixes c :: "('s, 'ep, 'addr) udp_client"
  shows "u_remote_address (try_option E opt text c) = u_remote_address c"
    and "u_remote_port (try_option E opt text c) = u_remote_port c"
    and "u_remote_overwritten (try_option E opt text c) = u_remote_overwritten c"
    and "u_remote_address (udp_report_receive_buffer E t c) = u_remote_address c"
    and "u_remote_port (udp_report_receive_buffer E t c) = u_remote_port c"
    and "u_remote_overwritten (udp_report_receive_buffer E t c) = u_remote_overwritten c"
  by (simp_all add: try_option_def udp_report_receive_buffer_def log_def Let_def split: prod.splits)

lemma udp_members [simp]:
  "u_remote_address (udp_connect E c) = u_remote_address c"
  "u_remote_port (udp_connect E c) = u_remote_port c"
  "u_remote_overwritten (udp_connect E c) = u_remote_overwritten c"
  "u_remote_address (udp_receive E c) = u_remote_address c"
  "u_remote_port (udp_receive E c) = u_remote_port c"
  "u_remote_overwritten (udp_receive E c) = u_remote_overwritten c"
  "u_remote_address (udp_set_local_port E c) = u_remote_address c"
  "u_remote_port (udp_set_local_port E c) = u_remote_port c"
  "u_remote_overwritten (udp_set_local_port E c) = u_remote_overwritten c"
  "u_remote_address (shutdown_and_close_socket E V b c) = u_remote_address c"
  "u_remote_port (shutdown_and_close_socket E V b c) = u_remote_port c"
  "u_remote_overwritten (shutdown_and_close_socket E V b c) = u_remote_overwritten c"
proof -
  show "u_remote_address (udp_connect E c) = u_remote_address c"
    "u_remote_port (udp_connect E c) = u_remote_port c"
    "u_remote_overwritten (udp_connect E c) = u_remote_overwritten c"
    by (simp_all add: udp_connect_def Let_def post_defs split: prod.splits option.splits)
  show "u_remote_address (shutdown_and_close_socket E V b c) = u_remote_address c"
    "u_remote_port (shutdown_and_close_socket E V b c) = u_remote_port c"
    "u_remote_overwritten (shutdown_and_close_socket E V b c) = u_remote_overwritten c"
    by (simp_all add: shutdown_and_close_socket_def shutdown_and_close_socket_unlocked_def Let_def log_def
        split: option.splits)
qed (simp_all add: udp_receive_def udp_set_local_port_def client_plumbing split: prod.splits)

lemma udp_connect_io:
  "set (io (udp_connect E c)) \<subseteq> set (io c) \<union> {Async_connect (remote_ep c)} \<union> range Post_connect_cbk"
  by (auto simp: udp_connect_def Let_def post_defs frame_simps split: prod.splits option.splits)

lemma udp_set_local_port_io [simp]: "remote_ep (udp_set_local_port E c) = remote_ep c"
  by (simp add: udp_set_local_port_def log_def split: prod.splits)

lemma remote_const_calls:
  assumes "remote_const E rmt c"
  shows "remote_const E rmt (udp_connect E c)" and "remote_const E rmt (udp_receive E c)"
    and "remote_const E rmt (udp_set_local_port E c)" and "remote_const E rmt (shutdown_and_close_socket E V b c)"
    and "remote_const E rmt (log t c)" and "remote_const E rmt (cancel_timer tid c)"
    and "remote_const E rmt (start_async (Async_send data) c)"
proof -
  show "remote_const E rmt (udp_connect E c)"
    using assms udp_connect_io [of E c] by (auto simp: remote_const_def frame_simps)
qed (use assms in \<open>auto simp: remote_const_def frame_simps udp_receive_def client_plumbing\<close>)

lemma remote_const_updates [simp]:
  "remote_const E rmt (c\<lparr>cei_state := a\<rparr>) = remote_const E rmt c"
  "remote_const E rmt (c\<lparr>was_not_connected := b\<rparr>) = remote_const E rmt c"
  "remote_const E rmt (c\<lparr>sending_blocked := b\<rparr>) = remote_const E rmt c"
  "remote_const E rmt (c\<lparr>connect_timeout := x\<rparr>) = remote_const E rmt c"
  "remote_const E rmt (c\<lparr>reconnect_counter := x\<rparr>) = remote_const E rmt c"
  by (simp_all add: remote_const_def)

lemma remote_const_if [simp]:
  "remote_const E rmt (if b then x else y) = (if b then remote_const E rmt x else remote_const E rmt y)"
  by simp

lemma remote_const_connect_cbk:
  "remote_const E rmt c \<Longrightarrow> remote_const E rmt (connect_cbk E (udp_virtuals E) ec c)"
  unfolding connect_cbk_def Let_def by (simp add: remote_const_calls)

lemma remote_const_send_cbk:
  "remote_const E rmt c \<Longrightarrow> remote_const E rmt (send_cbk E (udp_virtuals E) ec c)"
  unfolding send_cbk_def Let_def by (simp add: remote_const_calls)

lemma remote_const_receive_cbk:
  "remote_const E rmt c \<Longrightarrow> remote_const E rmt (udp_receive_cbk E ec n b c)"
  unfolding udp_receive_cbk_def Let_def by (simp add: remote_const_calls)

lemma remote_const_wait_cbk:
  "remote_const E rmt c \<Longrightarrow> remote_const E rmt (wait_connect_cbk (udp_virtuals E) ec c)"
  unfolding wait_connect_cbk_def by (simp add: remote_const_calls)

lemmas remote_const_handlers =
  remote_const_connect_cbk remote_const_send_cbk remote_const_receive_cbk remote_const_wait_cbk

lemma udp_overwritten [simp]:
  "u_remote_overwritten (log t c) = u_remote_overwritten c"
  "u_remote_overwritten (cancel_timer tid c) = u_remote_overwritten c"
  "u_remote_overwritten (start_async p c) = u_remote_overwritten c"
  by (simp_all add: client_plumbing)

lemma udp_handlers_overwritten [simp]:
  "u_remote_overwritten (connect_cbk E (udp_virtuals E) ec c) = u_remote_overwritten c"
  "u_remote_overwritten (send_cbk E (udp_virtuals E) ec c) = u_remote_overwritten c"
  "u_remote_overwritten (wait_connect_cbk (udp_virtuals E) ec c) = u_remote_overwritten c"
  "u_remote_overwritten (udp_receive_cbk E ec n b c) = u_remote_overwritten c"
  by (simp_all add: connect_cbk_def send_cbk_def wait_connect_cbk_def udp_receive_cbk_def Let_def)

lemma remote_const_owner:
  assumes "remote_const E rmt c"
  shows "remote_const E rmt (udp_start E c)" and "remote_const E rmt (client_stop E V c)"
    and "remote_const E rmt (client_send (udp_virtuals E) data c)"
    and "remote_const E rmt (set_established E b c)" and "remote_const E rmt (set_connected E b c)"
  using assms
  by (simp_all add: Udp_Client.udp_start_def client_stop_def client_send_def Let_def set_established_def
      set_connected_def udp_send_data_def remote_const_calls)

lemma remote_const_step:
  assumes "udp_step E l c c'" "remote_const E rmt c"
  shows "remote_const E rmt c' \<and> (u_remote_overwritten c' \<longleftrightarrow> u_remote_overwritten c \<or> overwrites_remote l)"
  using assms
proof (induction rule: udp_step.induct)
  case (udp_ran c ps p qs r)
  let ?d = "c\<lparr>io := ps @ qs\<rparr>"
  have d: "remote_const E rmt ?d" using udp_ran by (auto simp: remote_const_def)
  show ?case
  proof (cases p)
    case (Async_receive_from b)
    have "remote_const E rmt (if failed (c_error r) then ?d else ?d\<lparr>remote_ep := c_sender r, u_remote_overwritten := True\<rparr>)"
      using d by (auto simp: remote_const_def)
    with Async_receive_from show ?thesis by (simp add: remote_const_handlers)
  next
    case (Timer_wait t ms)
    with d show ?thesis by (cases t) (simp_all add: remote_const_handlers)
  next
    case (Timer_aborted t)
    with d show ?thesis by (cases t) (simp_all add: remote_const_handlers)
  qed (use d in \<open>simp_all add: remote_const_handlers\<close>)
qed (simp_all add: remote_const_owner, simp_all add: Udp_Client.udp_start_def client_stop_def
    client_send_def Let_def set_established_def set_connected_def udp_send_data_def)

section \<open>An example\<close>

definition ex_udp :: "(bool, uint16_t, uint32_t) udp_client" where
  "ex_udp = new_udp_client quiet_env 0 False True 0 13400"

lemma ex_udp_simps [simp]:
  "socket ex_udp = True" "io ex_udp = []" "remote_ep ex_udp = 13400" "cei_state ex_udp = CLOSED"
  "sending_blocked ex_udp = False" "was_not_connected ex_udp = False"
  "u_remote_port ex_udp = 13400" "u_remote_address ex_udp = 0"
  by (simp_all add: ex_udp_def new_udp_client_def init_client_endpoint_def client_endpoint.defs
      quiet_env_def)

definition ex_datagram :: "uint16_t completion" where
  "ex_datagram = \<lparr>c_error = no_error, c_bytes = [2, 253], c_sender = 50001, c_calls = []\<rparr>"

section \<open>Properties\<close>

text \<open>
  C7: the UDP client's receive loop: when the handler of a read runs on an open socket, an aborted
  read ends the loop, a refused connection closes the socket and starts no read, and every other
  outcome, success or error, starts exactly one new read of 1000 bytes.
\<close>

theorem udp_client_receive_loop:
  assumes "asio_socket E" and "udp_step E (Ran (Async_receive_from b) r) c c'"
    and "sk_is_open E (socket c)"
  shows "if c_error r = operation_aborted then sk_is_open E (socket c') \<and> Suc (reads (io c')) = reads (io c)
    else if c_error r = connection_refused then
      \<not> sk_is_open E (socket c') \<and> Suc (reads (io c')) = reads (io c) \<and> local_port c' = 0
    else sk_is_open E (socket c') \<and> reads (io c') = reads (io c)
      \<and> last (io c') = Async_receive_from (make_buffer 1000)"
proof -
  note closed = asio_socket.shutdown_and_close_socket_closed [OF assms(1)]
  from assms(2) obtain ps qs where "io c = ps @ Async_receive_from b # qs"
      and "c' = udp_handle E (Async_receive_from b) r (c\<lparr>io := ps @ qs\<rparr>)"
    by (auto elim: udp_step_RanE)
  then show ?thesis
    using assms(3)
    by (simp add: closed udp_receive_cbk_def Let_def frame_simps log_def udp_receive_def start_async_def)
qed

theorem udp_client_receive_loop_witness:
  "\<exists>c'. udp_step quiet_env (Ran (Async_receive_from (make_buffer 1000)) ex_datagram)
      (udp_receive quiet_env ex_udp) c' \<and> last (io c') = Async_receive_from (make_buffer 1000)"
proof -
  let ?c = "udp_receive quiet_env ex_udp"
  have io: "io ?c = [] @ Async_receive_from (make_buffer 1000) # []"
    by (simp add: udp_receive_def start_async_def)
  have s: "udp_step quiet_env (Ran (Async_receive_from (make_buffer 1000)) ex_datagram) ?c
      (udp_handle quiet_env (Async_receive_from (make_buffer 1000)) ex_datagram (?c\<lparr>io := [] @ []\<rparr>))"
    by (rule udp_ran [OF io]) (simp add: ex_datagram_def)
  have "sk_is_open quiet_env (socket ?c)" by (simp add: frame_simps)
  from udp_client_receive_loop [OF asio_socket_quiet s this] s show ?thesis
    by (auto simp: ex_datagram_def)
qed

text \<open>
  C31: a UDP client has undefined behaviour as soon as a read succeeds, and only then: in every run from
  its construction, its constant member \<open>remote_\<close> has been written to exactly if some read completed
  without error.  As long as that has not happened, \<open>remote_\<close> is the endpoint the client was constructed
  with and every outstanding connection attempt goes there; and in any case the address and the port
  the client reports of its peer are those of that endpoint.
\<close>

theorem udp_client_remote_overwritten:
  assumes "run (udp_step E) (new_udp_client E garbage blocked s lcl rmt) ls c"
  shows "(u_remote_overwritten c \<longleftrightarrow>
      (\<exists>b r. Ran (Async_receive_from b) r \<in> set ls \<and> c_error r = no_error)) \<and>
    (u_remote_overwritten c \<or>
      remote_ep c = rmt \<and> (\<forall>ep. Async_connect ep \<in> set (io c) \<longrightarrow> ep = rmt)) \<and>
    udp_get_remote_address E c =
      (if addr_unspecified E (ep_address E rmt) then None else Some (ep_address E rmt)) \<and>
    udp_get_remote_port c = ep_port E rmt"
proof -
  let ?c0 = "new_udp_client E garbage blocked s lcl rmt"
  have 0: "remote_const E rmt ?c0" "\<not> u_remote_overwritten ?c0"
    by (simp_all add: remote_const_def new_udp_client_def init_client_endpoint_def client_endpoint.defs)
  have "remote_const E rmt c \<and> (u_remote_overwritten c \<longleftrightarrow> (\<exists>l\<in>set ls. overwrites_remote l))"
    using assms 0
  proof (induction rule: run.induct)
    case (run_snoc c ls c' l c'')
    then show ?case using remote_const_step [OF run_snoc.hyps(2), of rmt] by auto
  qed simp
  moreover have "overwrites_remote l \<longleftrightarrow> (\<exists>b r. l = Ran (Async_receive_from b) r \<and> c_error r = no_error)"
    for l :: "'a client_label"
    by (cases l rule: overwrites_remote.cases) auto
  ultimately show ?thesis
    by (auto simp: remote_const_def udp_get_remote_address_def udp_get_remote_port_def)
qed

theorem udp_client_remote_overwritten_witness:
  "\<exists>c'. run (udp_step quiet_env) ex_udp [Start, Ran (Async_connect 13400) ok_completion,
      Ran (Async_receive_from (make_buffer 1000)) ex_datagram] c' \<and>
    u_remote_overwritten c' \<and> udp_get_remote_port c' = 13400"
proof -
  let ?R = "run (udp_step quiet_env) ex_udp"
  let ?c1 = "udp_start quiet_env ex_udp"
  have io1: "io ?c1 = [] @ Async_connect 13400 # []"
    by (simp add: Udp_Client.udp_start_def udp_connect_def Let_def post_defs frame_simps udp_report_receive_buffer_def)
  have s1: "socket ?c1" "sending_blocked ?c1 = False"
    by (simp_all add: Udp_Client.udp_start_def frame_simps udp_connect_def Let_def post_defs
        udp_report_receive_buffer_def)
  let ?c2 = "udp_handle quiet_env (Async_connect 13400) ok_completion (?c1\<lparr>io := [] @ []\<rparr>)"
  have io2: "io ?c2 = [] @ Async_receive_from (make_buffer 1000) # []"
    using s1 by (simp add: ok_completion_def connect_cbk_def Let_def frame_simps udp_receive_def client_plumbing)
  let ?c3 = "udp_handle quiet_env (Async_receive_from (make_buffer 1000)) ex_datagram (?c2\<lparr>io := [] @ []\<rparr>)"
  have "?R [Start] ?c1" by (intro run_stepI udp_step.udp_start)
  then have "?R ([Start] @ [Ran (Async_connect 13400) ok_completion]) ?c2"
    by (rule run_snoc) (rule udp_ran [OF io1], simp)
  then have "?R (([Start] @ [Ran (Async_connect 13400) ok_completion]) @
      [Ran (Async_receive_from (make_buffer 1000)) ex_datagram]) ?c3"
    by (rule run_snoc) (rule udp_ran [OF io2], simp add: ex_datagram_def)
  then have r: "?R [Start, Ran (Async_connect 13400) ok_completion,
      Ran (Async_receive_from (make_buffer 1000)) ex_datagram] ?c3" by simp
  from udp_client_remote_overwritten [OF r [unfolded ex_udp_def], folded ex_udp_def]
  have "u_remote_overwritten ?c3 \<and> udp_get_remote_port ?c3 = 13400" by (auto simp: ex_datagram_def)
  with r show ?thesis by blast
qed

text \<open>
  In every run of a UDP client from its construction the reads outstanding never exceed the
  connect handlers that have run: each connection attempt adds at most one receive loop, and the
  loops never multiply by themselves.
\<close>

theorem udp_client_reads_bounded:
  assumes "run (udp_step E) (new_udp_client E garbage blocked s lcl rmt) ls c"
  shows "reads (io c) \<le> connects_done ls"
  using udp_run_reads [OF assms]
  by (simp add: new_udp_client_def init_client_endpoint_def client_endpoint.defs)

theorem udp_client_reads_bounded_witness:
  "reads (io (client_stop quiet_env (udp_virtuals quiet_env) ex_udp)) \<le>
     connects_done [Stop :: uint16_t client_label]"
proof -
  have "run (udp_step quiet_env) ex_udp [Stop] (client_stop quiet_env (udp_virtuals quiet_env) ex_udp)"
    by (intro run_stepI udp_stop)
  from udp_client_reads_bounded [OF this [unfolded ex_udp_def]] show ?thesis
    by (simp add: ex_udp_def)
qed

text \<open>
  Like the TCP client, a UDP client is never established or connected unless its owner says so.
\<close>

theorem udp_client_never_up_by_itself:
  assumes "run (udp_step E) (new_udp_client E garbage blocked s lcl rmt) ls c"
    and "\<forall>l\<in>set ls. \<not> declares_up l"
  shows "\<not> is_established c \<and> \<not> is_established_or_connected c"
proof -
  have "down (cei_state c)"
    using assms(1) _ assms(2)
  proof (rule run_label_invariant [where I = "\<lambda>c. down (cei_state c)"])
    show "down (cei_state (new_udp_client E garbage blocked s lcl rmt))"
      by (simp add: down_def new_udp_client_def init_client_endpoint_def client_endpoint.defs)
  qed (auto intro: udp_step_down)
  then show ?thesis by (auto simp: down_def is_established_def is_established_or_connected_def)
qed

theorem udp_client_never_up_by_itself_witness:
  "\<not> is_established (udp_start quiet_env ex_udp)"
proof -
  have "run (udp_step quiet_env) ex_udp [Start] (udp_start quiet_env ex_udp)"
    by (intro run_stepI udp_step.udp_start)
  from udp_client_never_up_by_itself [OF this [unfolded ex_udp_def]] show ?thesis
    by (simp add: ex_udp_def)
qed

end
