(* ===== verification/Server_Endpoint.thy ===== *)
theory Server_Endpoint imports Asio_Env Endpoint_Impl Stream_Format Message_Buffer begin

text \<open>
  \<open>server_endpoint_impl<Protocol>\<close> (src/server_endpoint_impl.cpp): the state and the send handler
  the TCP and UDP servers share.  A connection of the TCP server is named by its address, a number.
  \<open>server_endpoint_impl::stop\<close>, which both servers call first in \<open>stop\<close>, has no definition in the
  sources; it is an argument of the models that call it.
\<close>

datatype 'ep server_op =
    Async_accept nat
  | Accept_retry
  | Conn_receive nat size_t size_t
  | Conn_write nat "byte_t list" nat
  | Recv_from nat
  | Send_to "byte_t list" 'ep
  | Sent_wait
  | Sent_wait_aborted

record 'ep server_endpoint = "'ep endpoint_impl" +
  srv_is_sending :: bool
  srv_clock :: nat
  srv_io :: "'ep server_op list"
  srv_cout :: "string list"

definition init_server_endpoint :: "uint32_t \<Rightarrow> 'ep \<Rightarrow> 'ep server_endpoint" where
  "init_server_endpoint garbage lcl =
     \<lparr>use_count = garbage, local_ep = lcl, srv_is_sending = False, srv_clock = 0, srv_io = [], srv_cout = []\<rparr>"

definition srv_log :: "string \<Rightarrow> ('ep, 'a) server_endpoint_scheme \<Rightarrow> ('ep, 'a) server_endpoint_scheme" where
  "srv_log t c = c\<lparr>srv_cout := srv_cout c @ [t]\<rparr>"

definition srv_start_op :: "'ep server_op \<Rightarrow> ('ep, 'a) server_endpoint_scheme \<Rightarrow> ('ep, 'a) server_endpoint_scheme" where
  "srv_start_op p c = c\<lparr>srv_io := srv_io c @ [p]\<rparr>"

definition cancel_sent_timer :: "('ep, 'a) server_endpoint_scheme \<Rightarrow> ('ep, 'a) server_endpoint_scheme" where
  "cancel_sent_timer c =
     c\<lparr>srv_io := map (\<lambda>p. if p = Sent_wait then Sent_wait_aborted else p) (srv_io c)\<rparr>"

definition server_is_client :: "('ep, 'a) server_endpoint_scheme \<Rightarrow> bool" where
  "server_is_client c = False"

definition server_send ::
  "(byte_t list \<Rightarrow> ('ep, 'a) server_endpoint_scheme \<Rightarrow> ('ep, 'a) server_endpoint_scheme) \<Rightarrow>
     byte_t list \<Rightarrow> ('ep, 'a) server_endpoint_scheme \<Rightarrow> ('ep, 'a) server_endpoint_scheme" where
  "server_send send_data data c = send_data data c"

definition server_send_cbk ::
  "('s, 'ep, 'addr) asio_env \<Rightarrow> error_code \<Rightarrow>
     ('ep, 'a) server_endpoint_scheme \<Rightarrow> ('ep, 'a) server_endpoint_scheme" where
  "server_send_cbk E ec c =
     (let c1 = cancel_sent_timer (c\<lparr>srv_is_sending := False\<rparr>)
      in if failed ec then
           srv_log (''sei::send_cbk received error: '' @ ec_message E ec @ '' ('' @ dec_int (ec_value E ec)
                    @ '') '' @ [CHR 0x0A]) c1
         else c1)"

lemmas server_plumbing [endpoint_defs] = srv_log_def srv_start_op_def cancel_sent_timer_def

lemma server_send_cbk_flag: "\<not> srv_is_sending (server_send_cbk E ec c)"
  by (simp add: server_send_cbk_def Let_def server_plumbing)

end
