(* ===== verification/Udp_Server.thy ===== *)
theory Udp_Server imports Server_Endpoint Client_Events begin

text \<open>
  \<open>udp_server_endpoint_impl\<close> (src/udp_server_endpoint_impl.cpp): the constructor with its
  exceptions, the receive loop, sending, stopping, and the server's transition relation.
\<close>

section \<open>State\<close>

record ('s, 'ep, 'addr) udp_server = "'ep server_endpoint" +
  unicast_socket :: 's
  unicast_remote :: "'ep option"
  unicast_recv_buffer :: message_buffer
  multicast_socket :: "'s option"
  us_local_port :: uint16_t

text \<open>\<open>unicast_remote\<close> is \<open>None\<close> for the default-constructed endpoint.\<close>

definition FT_DOIP_MAX_UDP_MESSAGE_SIZE :: nat where
  "FT_DOIP_MAX_UDP_MESSAGE_SIZE = 4294967295"

definition UDP_RECV_BUFFER_SIZE :: uint32_t where
  "UDP_RECV_BUFFER_SIZE = 65536"

section \<open>The constructor\<close>

datatype ctor_exception = System_error string error_code | Alloc_failed

text \<open>A call followed by \<open>throw_error(ec, what)\<close>; an allocation of \<open>n\<close> bytes.\<close>

definition or_throw :: "string \<Rightarrow> error_code \<times> 's \<Rightarrow> ctor_exception + 's" where
  "or_throw what r = (case r of (ec, s) \<Rightarrow> if failed ec then Inl (System_error what ec) else Inr s)"

definition or_bad_alloc :: "(nat \<Rightarrow> bool) \<Rightarrow> nat \<Rightarrow> 's \<Rightarrow> ctor_exception + 's" where
  "or_bad_alloc mem n s = (if mem n then Inr s else Inl Alloc_failed)"

fun bind_sum :: "'e + 's \<Rightarrow> ('s \<Rightarrow> 'e + 't) \<Rightarrow> 'e + 't" where
  "bind_sum (Inl e) f = Inl e"
| "bind_sum (Inr s) f = f s"

text \<open>The members are built in order: the socket is opened, then the buffer is allocated.\<close>

definition udp_server_socket ::
  "('s, 'ep, 'addr) asio_env \<Rightarrow> 'ep \<Rightarrow> 's \<Rightarrow> ctor_exception + 's" where
  "udp_server_socket E lcl s0 =
     bind_sum (or_throw ''open'' (sk_open E (ep_protocol E lcl) s0)) (\<lambda>s1.
     bind_sum (or_bad_alloc (mem_available E) FT_DOIP_MAX_UDP_MESSAGE_SIZE s1) (\<lambda>s1.
     bind_sum (or_throw ''reuse address'' (sk_set_option E reuse_address s1)) (\<lambda>s2.
     bind_sum (or_throw ''bind'' (sk_bind E lcl s2)) (\<lambda>s3.
     bind_sum
       (if addr_is_v4 E (ep_address E lcl) then
          or_throw ''outbound interface option IPv4'' (sk_set_option E (outbound_interface_v4 (ep_address E lcl)) s3)
        else if addr_is_v6 E (ep_address E lcl) then
          or_throw ''outbound interface option IPv6'' (sk_set_option E (outbound_interface_v6 (ep_address E lcl)) s3)
        else Inr s3) (\<lambda>s4.
     or_throw ''broadcast option'' (sk_set_option E broadcast s4))))))"

text \<open>\<open>s0\<close> is the socket object before its constructor opens it.\<close>

definition new_udp_server ::
  "('s, 'ep, 'addr) asio_env \<Rightarrow> uint32_t \<Rightarrow> 'ep \<Rightarrow> 's \<Rightarrow>
     ctor_exception + ('s, 'ep, 'addr) udp_server" where
  "new_udp_server E garbage lcl s0 =
     bind_sum (udp_server_socket E lcl s0) (\<lambda>s.
       case sk_set_option E (receive_buffer_size UDP_RECV_BUFFER_SIZE) s of (ec, s1) \<Rightarrow>
         let c = server_endpoint.extend (init_server_endpoint garbage lcl)
               \<lparr>unicast_socket = s1, unicast_remote = None,
                unicast_recv_buffer = make_buffer FT_DOIP_MAX_UDP_MESSAGE_SIZE,
                multicast_socket = None, us_local_port = ep_port E lcl\<rparr>
         in Inr
           (if failed ec then
              srv_log (''udp_server_endpoint_impl:: couldn't set SO_RCVBUF: '' @ ec_message E ec @ '' to: ''
                   @ dec (unat UDP_RECV_BUFFER_SIZE) @ '' local port: '' @ dec (unat (us_local_port c))) c
            else
              (case sk_get_receive_buffer_size E s1 of (ec', n) \<Rightarrow>
                 if failed ec' then
                   srv_log (''udp_server_endpoint_impl: couldn't get SO_RCVBUF: '' @ ec_message E ec'
                        @ '' local port:'' @ dec (unat (us_local_port c))) c
                 else srv_log (''udp_server_endpoint_impl: SO_RCVBUF is: '' @ dec_int n) c)))"

section \<open>Operations\<close>

definition receive_unicast ::
  "('s, 'ep, 'addr) asio_env \<Rightarrow> ('s, 'ep, 'addr) udp_server \<Rightarrow> ('s, 'ep, 'addr) udp_server" where
  "receive_unicast E c =
     (if sk_is_open E (unicast_socket c) then srv_start_op (Recv_from FT_DOIP_MAX_UDP_MESSAGE_SIZE) c else c)"

definition us_receive ::
  "('s, 'ep, 'addr) asio_env \<Rightarrow> ('s, 'ep, 'addr) udp_server \<Rightarrow> ('s, 'ep, 'addr) udp_server" where
  "us_receive E c = receive_unicast E c"

definition us_start ::
  "('s, 'ep, 'addr) asio_env \<Rightarrow> ('s, 'ep, 'addr) udp_server \<Rightarrow> ('s, 'ep, 'addr) udp_server" where
  "us_start E c = us_receive E c"

definition us_stop ::
  "('s, 'ep, 'addr) asio_env \<Rightarrow> (('s, 'ep, 'addr) udp_server \<Rightarrow> ('s, 'ep, 'addr) udp_server) \<Rightarrow>
     ('s, 'ep, 'addr) udp_server \<Rightarrow> ('s, 'ep, 'addr) udp_server" where
  "us_stop E base_stop c =
     (let c0 = base_stop c;
          c1 = c0\<lparr>unicast_socket := shutdown_and_close E (unicast_socket c0)\<rparr>
      in case multicast_socket c1 of
           None \<Rightarrow> c1
         | Some m \<Rightarrow> c1\<lparr>multicast_socket := Some (shutdown_and_close E m)\<rparr>)"

definition on_message_received ::
  "('s, 'ep, 'addr) asio_env \<Rightarrow> error_code \<Rightarrow> size_t \<Rightarrow> 'addr \<Rightarrow> 'ep option \<Rightarrow> message_buffer \<Rightarrow>
     ('s, 'ep, 'addr) udp_server \<Rightarrow> ('s, 'ep, 'addr) udp_server" where
  "on_message_received E ec bytes destination remote buffer c =
     srv_log (''usei::rcb('' @ ec_message E ec @ ''): '' @ hex_dump (take (unat bytes) (vdata buffer))) c"

definition on_unicast_received ::
  "('s, 'ep, 'addr) asio_env \<Rightarrow> error_code \<Rightarrow> size_t \<Rightarrow> 'addr \<Rightarrow>
     ('s, 'ep, 'addr) udp_server \<Rightarrow> ('s, 'ep, 'addr) udp_server" where
  "on_unicast_received E ec bytes destination c =
     (if ec \<noteq> operation_aborted then
        receive_unicast E
          (on_message_received E ec bytes destination (unicast_remote c) (unicast_recv_buffer c) c)
      else c)"

definition us_send_data ::
  "byte_t list \<Rightarrow> 'ep \<Rightarrow> ('s, 'ep, 'addr) udp_server \<Rightarrow> ('s, 'ep, 'addr) udp_server" where
  "us_send_data data remote c = srv_start_op (Send_to data remote) c"

section \<open>Runs\<close>

datatype ('ep, 'addr) us_label =
    Us_start
  | Us_stop
  | Us_send "byte_t list" 'ep
  | Us_received error_code "byte_t list" 'ep 'addr
  | Us_sent error_code

text \<open>
  A completed read has written its bytes at the start of the buffer and, when it succeeded, the
  sender into \<open>unicast_remote_\<close>.
\<close>

definition us_deliver ::
  "error_code \<Rightarrow> byte_t list \<Rightarrow> 'ep \<Rightarrow> ('s, 'ep, 'addr) udp_server \<Rightarrow> ('s, 'ep, 'addr) udp_server" where
  "us_deliver ec bs sender c =
     (let c1 = c\<lparr>unicast_recv_buffer := write_at 0 bs (unicast_recv_buffer c)\<rparr>
      in if failed ec then c1 else c1\<lparr>unicast_remote := Some sender\<rparr>)"

inductive us_step ::
  "('s, 'ep, 'addr) asio_env \<Rightarrow> (('s, 'ep, 'addr) udp_server \<Rightarrow> ('s, 'ep, 'addr) udp_server) \<Rightarrow>
     ('ep, 'addr) us_label \<Rightarrow> ('s, 'ep, 'addr) udp_server \<Rightarrow> ('s, 'ep, 'addr) udp_server \<Rightarrow> bool"
  for E base_stop where
  us_start: "us_step E base_stop Us_start c (us_start E c)"
| us_stop: "us_step E base_stop Us_stop c (us_stop E base_stop c)"
| us_send: "us_step E base_stop (Us_send data remote) c (us_send_data data remote c)"
| us_received: "srv_io c = ps @ Recv_from n # qs \<Longrightarrow> length bs \<le> n \<Longrightarrow>
     us_step E base_stop (Us_received ec bs sender dst) c
       (on_unicast_received E ec (of_nat (length bs)) dst (us_deliver ec bs sender (c\<lparr>srv_io := ps @ qs\<rparr>)))"
| us_sent: "srv_io c = ps @ Send_to data remote # qs \<Longrightarrow>
     us_step E base_stop (Us_sent ec) c (server_send_cbk E ec (c\<lparr>srv_io := ps @ qs\<rparr>))"

inductive_cases us_step_startE: "us_step E base_stop Us_start c c'"
inductive_cases us_step_receivedE: "us_step E base_stop (Us_received ec bs sender dst) c c'"

definition listeners :: "'ep server_op list \<Rightarrow> nat" where
  "listeners ps = length (filter (\<lambda>p. case p of Recv_from n \<Rightarrow> True | _ \<Rightarrow> False) ps)"

lemma listeners_simps [simp]:
  "listeners [] = 0"
  "listeners (ps @ qs) = listeners ps + listeners qs"
  "listeners (Recv_from n # ps) = Suc (listeners ps)"
  "listeners (Send_to data remote # ps) = listeners ps"
  "listeners (map (\<lambda>p. if p = Sent_wait then Sent_wait_aborted else p) ps) = listeners ps"
proof -
  show "listeners (map (\<lambda>p. if p = Sent_wait then Sent_wait_aborted else p) ps) = listeners ps"
    by (induction ps) (auto simp: listeners_def split: server_op.splits)
qed (simp_all add: listeners_def)

text \<open>Labels that leave the receive loop running.\<close>

fun keeps_listening :: "('ep, 'addr) us_label \<Rightarrow> bool" where
  "keeps_listening (Us_send data remote) = True"
| "keeps_listening (Us_received ec bs sender dst) = (ec \<noteq> operation_aborted)"
| "keeps_listening (Us_sent ec) = True"
| "keeps_listening _ = False"

lemma us_step_listening:
  assumes "us_step E base_stop l c c'" "keeps_listening l" "sk_is_open E (unicast_socket c)"
  shows "unicast_socket c' = unicast_socket c \<and> listeners (srv_io c') = listeners (srv_io c)"
  using assms
  by (induction rule: us_step.induct)
    (auto simp: us_send_data_def on_unicast_received_def receive_unicast_def on_message_received_def
      us_deliver_def server_send_cbk_def Let_def server_plumbing)

lemma us_run_listening:
  assumes "run (us_step E base_stop) c ls c'" "\<forall>l\<in>set ls. keeps_listening l"
    "sk_is_open E (unicast_socket c)"
  shows "unicast_socket c' = unicast_socket c \<and> listeners (srv_io c') = listeners (srv_io c)"
  using assms
  by (induction rule: run.induct) (auto dest: us_step_listening)

lemma us_stop_closed:
  assumes "asio_socket E"
  shows "\<not> sk_is_open E (unicast_socket (us_stop E base_stop c)) \<and>
    (\<forall>m. multicast_socket (us_stop E base_stop c) = Some m \<longrightarrow> \<not> sk_is_open E m)"
  using asio_socket.shutdown_and_close_closed [OF assms]
  by (simp add: us_stop_def Let_def split: option.splits)


text \<open>A closed server does not listen again.\<close>

lemma us_step_closed:
  assumes "us_step E base_stop l c c'" "l \<noteq> Us_stop" "\<not> sk_is_open E (unicast_socket c)"
  shows "unicast_socket c' = unicast_socket c \<and> listeners (srv_io c') \<le> listeners (srv_io c)"
  using assms
  by (induction rule: us_step.induct)
    (auto simp: us_start_def us_receive_def us_send_data_def on_unicast_received_def receive_unicast_def
      on_message_received_def us_deliver_def server_send_cbk_def Let_def server_plumbing)

lemma us_run_closed:
  assumes "run (us_step E base_stop) c ls c'" "Us_stop \<notin> set ls" "\<not> sk_is_open E (unicast_socket c)"
  shows "unicast_socket c' = unicast_socket c \<and> listeners (srv_io c') \<le> listeners (srv_io c)"
  using assms
proof (induction rule: run.induct)
  case (run_snoc c ls c' l c'')
  then have IH: "unicast_socket c' = unicast_socket c" "listeners (srv_io c') \<le> listeners (srv_io c)"
    by auto
  then have "unicast_socket c'' = unicast_socket c' \<and> listeners (srv_io c'') \<le> listeners (srv_io c')"
    using run_snoc.prems us_step_closed [OF run_snoc.hyps(2)] by auto
  with IH show ?case by simp
qed simp

section \<open>Construction\<close>

lemma or_throw_Inr [simp]: "or_throw what r = Inr s \<longleftrightarrow> r = (no_error, s)"
  by (cases r) (auto simp: or_throw_def)

lemma or_throw_Inl [simp]:
  "or_throw what r = Inl e \<longleftrightarrow> fst r \<noteq> no_error \<and> e = System_error what (fst r)"
  by (cases r) (auto simp: or_throw_def)

lemma or_bad_alloc_iff [simp]:
  "or_bad_alloc mem n s = Inr t \<longleftrightarrow> mem n \<and> s = t"
  "or_bad_alloc mem n s = Inl e \<longleftrightarrow> \<not> mem n \<and> e = Alloc_failed"
  by (auto simp: or_bad_alloc_def)

lemma bind_sum_Inr: "bind_sum x f = Inr t \<longleftrightarrow> (\<exists>s. x = Inr s \<and> f s = Inr t)"
  by (cases x) auto

lemma bind_sum_Inl: "bind_sum x f = Inl e \<longleftrightarrow> x = Inl e \<or> (\<exists>s. x = Inr s \<and> f s = Inl e)"
  by (cases x) auto

lemma udp_server_socket_open:
  assumes "asio_socket E" "udp_server_socket E lcl s0 = Inr s"
  shows "sk_is_open E s"
proof -
  have "sk_is_open E s'" if "sk_open E p t = (no_error, s')" for p t s'
    using asio_socket.open_is_open [OF assms(1) that] by simp
  moreover have "sk_is_open E s' = sk_is_open E t" if "sk_set_option E opt t = (no_error, s')" for opt t s'
    by (rule asio_socket.set_option_is_open [OF assms(1) that])
  moreover have "sk_is_open E s' = sk_is_open E t" if "sk_bind E lcl t = (no_error, s')" for t s'
    by (rule asio_socket.bind_is_open [OF assms(1) that])
  ultimately show ?thesis
    using assms(2) by (auto simp: udp_server_socket_def bind_sum_Inr split: if_splits)
qed

lemma new_udp_server_Inr:
  assumes "new_udp_server E garbage lcl s0 = Inr c"
  obtains s where "udp_server_socket E lcl s0 = Inr s"
    and "unicast_socket c = snd (sk_set_option E (receive_buffer_size UDP_RECV_BUFFER_SIZE) s)"
    and "srv_io c = []" "multicast_socket c = None" "us_local_port c = ep_port E lcl"
    and "unicast_recv_buffer c = make_buffer FT_DOIP_MAX_UDP_MESSAGE_SIZE" "use_count c = garbage"
proof -
  from assms obtain s where "udp_server_socket E lcl s0 = Inr s"
    by (auto simp: new_udp_server_def bind_sum_Inr)
  then show thesis
    using assms
    by (intro that [of s])
      (auto simp: new_udp_server_def Let_def srv_log_def init_server_endpoint_def server_endpoint.defs
        split: prod.splits)
qed

lemma new_udp_server_open:
  assumes "asio_socket E" "new_udp_server E garbage lcl s0 = Inr c"
  shows "sk_is_open E (unicast_socket c)"
  using new_udp_server_Inr [OF assms(2)] udp_server_socket_open [OF assms(1)]
    asio_socket.is_open_simps(2) [OF assms(1)] by metis

lemma new_udp_server_Inl:
  "new_udp_server E garbage lcl s0 = Inl e \<longleftrightarrow> udp_server_socket E lcl s0 = Inl e"
  by (auto simp: new_udp_server_def bind_sum_Inl Let_def case_prod_unfold split: if_splits)

lemma udp_server_socket_Inl:
  "udp_server_socket E lcl s0 = Inl (System_error what ec) \<Longrightarrow>
     ec \<noteq> no_error \<and> what \<in> {''open'', ''reuse address'', ''bind'', ''outbound interface option IPv4'',
       ''outbound interface option IPv6'', ''broadcast option''}"
  by (auto simp: udp_server_socket_def bind_sum_Inl split: if_splits)

end
