(* ===== verification/Udp_Server_Props.thy ===== *)
theory Udp_Server_Props
  imports Udp_Server Asio_Env
begin

text \<open>
  The properties of the UDP server.
\<close>

definition ex_us :: "(bool, uint16_t, uint32_t) udp_server" where
  "ex_us =
     (case new_udp_server quiet_env 0 13400 False of Inr c \<Rightarrow> c | Inl e \<Rightarrow> undefined)"

lemma new_us_quiet: "new_udp_server quiet_env 0 13400 False = Inr ex_us"
  by (simp add: ex_us_def new_udp_server_def udp_server_socket_def or_throw_def or_bad_alloc_def Let_def)

text \<open>
  The constructor of the UDP server either throws, naming the call that failed and its error
  (or running out of memory for its receive buffer), or gives a server whose socket is open, whose
  buffer has exactly the size that reads are given, and which is not yet listening.  Failing to set
  or to read back \<open>SO_RCVBUF\<close> does not fail it.
\<close>

theorem udp_server_constructor:
  assumes "asio_socket E"
  shows "case new_udp_server E garbage lcl s0 of
      Inl (System_error what ec) \<Rightarrow> ec \<noteq> no_error \<and>
        what \<in> {''open'', ''reuse address'', ''bind'', ''outbound interface option IPv4'',
          ''outbound interface option IPv6'', ''broadcast option''}
    | Inl Alloc_failed \<Rightarrow> \<not> mem_available E FT_DOIP_MAX_UDP_MESSAGE_SIZE
    | Inr c \<Rightarrow> sk_is_open E (unicast_socket c) \<and> listeners (srv_io c) = 0
        \<and> vsize (unicast_recv_buffer c) = FT_DOIP_MAX_UDP_MESSAGE_SIZE \<and> us_local_port c = ep_port E lcl"
proof (cases "new_udp_server E garbage lcl s0")
  case (Inl e)
  then have s: "udp_server_socket E lcl s0 = Inl e" by (simp add: new_udp_server_Inl)
  show ?thesis
  proof (cases e)
    case (System_error what ec)
    with Inl s udp_server_socket_Inl [of E lcl s0 what ec] show ?thesis by simp
  next
    case Alloc_failed
    with Inl s show ?thesis by (auto simp: udp_server_socket_def bind_sum_Inl split: if_splits)
  qed
next
  case (Inr c)
  obtain s where "srv_io c = []" "us_local_port c = ep_port E lcl"
      "unicast_recv_buffer c = make_buffer FT_DOIP_MAX_UDP_MESSAGE_SIZE"
    by (rule new_udp_server_Inr [OF Inr])
  with Inr new_udp_server_open [OF assms Inr] show ?thesis by simp
qed

theorem udp_server_constructor_witness:
  "new_udp_server quiet_env 0 13400 False = Inr ex_us \<and> unicast_socket ex_us \<and> us_local_port ex_us = 13400"
  using udp_server_constructor [OF asio_socket_quiet, of 13400 0 False] new_us_quiet by simp

text \<open>
  C22: the UDP server never stops listening by itself: after it is constructed and started, whatever
  is received, sent or fails, short of a read completing with \<open>operation_aborted\<close>, exactly one read
  is outstanding and the socket is the one the constructor opened.
\<close>

theorem udp_server_keeps_listening:
  assumes "asio_socket E" and "new_udp_server E garbage lcl s0 = Inr c0"
    and "us_step E base_stop Us_start c0 c1"
    and "run (us_step E base_stop) c1 ls c" and "\<forall>l\<in>set ls. keeps_listening l"
  shows "listeners (srv_io c) = 1 \<and> unicast_socket c = unicast_socket c0 \<and> sk_is_open E (unicast_socket c)"
proof -
  have o: "sk_is_open E (unicast_socket c0)" by (rule new_udp_server_open [OF assms(1,2)])
  obtain s where io: "srv_io c0 = []" by (rule new_udp_server_Inr [OF assms(2)])
  have "c1 = us_start E c0" using assms(3) by (rule us_step_startE)
  then have "listeners (srv_io c1) = 1" "unicast_socket c1 = unicast_socket c0"
    using o io by (simp_all add: us_start_def us_receive_def receive_unicast_def srv_start_op_def)
  with us_run_listening [OF assms(4,5)] o show ?thesis by simp
qed

theorem udp_server_keeps_listening_witness:
  "\<exists>c. run (us_step quiet_env id) (us_start quiet_env ex_us)
      [Us_received (other_error 5) [] 0 0, Us_send [1] 7] c \<and> listeners (srv_io c) = 1"
proof -
  let ?c1 = "us_start quiet_env ex_us"
  obtain s where "srv_io ex_us = []" by (rule new_udp_server_Inr [OF new_us_quiet])
  moreover have "unicast_socket ex_us"
    using new_udp_server_open [OF asio_socket_quiet new_us_quiet] by simp
  ultimately have "srv_io ?c1 = [] @ Recv_from FT_DOIP_MAX_UDP_MESSAGE_SIZE # []"
    by (simp add: us_start_def us_receive_def receive_unicast_def srv_start_op_def)
  from us_received [OF this, of "[]" quiet_env id "other_error 5" 0 0]
  obtain c2 where c2: "us_step quiet_env id (Us_received (other_error 5) [] 0 0) ?c1 c2" by auto
  have "run (us_step quiet_env id) ?c1 [Us_received (other_error 5) [] 0 0] c2"
    using c2 by (rule run_stepI)
  then have "run (us_step quiet_env id) ?c1
      ([Us_received (other_error 5) [] 0 0] @ [Us_send [1] 7]) (us_send_data [1] 7 c2)"
    by (rule run_snoc) (rule us_step.us_send)
  then have r: "run (us_step quiet_env id) ?c1
      [Us_received (other_error 5) [] 0 0, Us_send [1] 7] (us_send_data [1] 7 c2)" by simp
  from udp_server_keeps_listening [OF asio_socket_quiet new_us_quiet us_step.us_start r] r
  show ?thesis by auto
qed

text \<open>
  C9: a stopped UDP server never listens again.  Stop it in any state; whatever the \<open>stop\<close> of the base
  class does, which has no definition in the sources, in every state reached afterwards, by receives that
  complete, sends and starts in any order, as long as it is not stopped a second time, the socket is
  closed and no more reads are outstanding than \<open>stop\<close> left: no handler and no \<open>start\<close> adds one.
\<close>

theorem udp_server_stop_is_final:
  assumes "asio_socket E"
    and "run (us_step E base_stop) (us_stop E base_stop c) ls c'" and "Us_stop \<notin> set ls"
  shows "\<not> sk_is_open E (unicast_socket c') \<and>
    listeners (srv_io c') \<le> listeners (srv_io (us_stop E base_stop c))"
  using us_stop_closed [OF assms(1), of base_stop c] us_run_closed [OF assms(2,3)] by simp

theorem udp_server_stop_is_final_witness:
  "run (us_step quiet_env id) (us_stop quiet_env id ex_us) [Us_start]
     (us_start quiet_env (us_stop quiet_env id ex_us)) \<and>
   \<not> unicast_socket (us_start quiet_env (us_stop quiet_env id ex_us))"
proof -
  have r: "run (us_step quiet_env id) (us_stop quiet_env id ex_us) [Us_start]
      (us_start quiet_env (us_stop quiet_env id ex_us))"
    by (rule run_stepI) (rule us_step.us_start)
  from udp_server_stop_is_final [OF asio_socket_quiet r] r show ?thesis by simp
qed

end
