(* ===== verification/Std_Map.thy ===== *)
theory Std_Map imports Prelude begin

text \<open>
  \<open>std::map\<close>: a sequence of key-value pairs in strictly increasing key order, so that iteration
  order and emptiness are those of the container.  The operations are the ones the sources call:
  \<open>find\<close>, \<open>m[k] = v\<close>, \<open>erase(key)\<close>, \<open>empty\<close> and \<open>m[k]\<close> with its default insertion.
  The locale \<open>dictionary\<close> is the contract their clients rely on.
\<close>

type_synonym ('k, 'v) std_map = "('k \<times> 'v) list"

fun map_find :: "('k, 'v) std_map \<Rightarrow> 'k \<Rightarrow> 'v option" where
  "map_find [] k = None"
| "map_find ((k', v) # m) k = (if k = k' then Some v else map_find m k)"

fun map_put :: "'k :: linorder \<Rightarrow> 'v \<Rightarrow> ('k, 'v) std_map \<Rightarrow> ('k, 'v) std_map" where
  "map_put k v [] = [(k, v)]"
| "map_put k v ((k', v') # m) =
     (if k < k' then (k, v) # (k', v') # m
      else if k = k' then (k, v) # m
      else (k', v') # map_put k v m)"

fun map_erase :: "'k \<Rightarrow> ('k, 'v) std_map \<Rightarrow> ('k, 'v) std_map" where
  "map_erase k [] = []"
| "map_erase k ((k', v') # m) = (if k = k' then m else (k', v') # map_erase k m)"

definition map_empty :: "('k, 'v) std_map \<Rightarrow> bool" where
  "map_empty m \<longleftrightarrow> m = []"

text \<open>\<open>m[k]\<close> as an lvalue: the entry, inserted with the default value when it is missing.\<close>

definition map_at :: "'v \<Rightarrow> ('k, 'v) std_map \<Rightarrow> 'k \<Rightarrow> 'v" where
  "map_at d m k = (case map_find m k of None \<Rightarrow> d | Some v \<Rightarrow> v)"

definition map_ok :: "('k :: linorder, 'v) std_map \<Rightarrow> bool" where
  "map_ok m \<longleftrightarrow> sorted_wrt (<) (map fst m)"

section \<open>Laws of the list representation\<close>

lemma map_ok_Nil [simp]: "map_ok []"
  by (simp add: map_ok_def)

lemma map_ok_Cons [simp]:
  "map_ok ((k, v) # m) \<longleftrightarrow> (\<forall>x\<in>fst ` set m. k < x) \<and> map_ok m"
  by (auto simp: map_ok_def)

lemma map_find_None: "map_find m k = None \<longleftrightarrow> k \<notin> fst ` set m"
  by (induction m k rule: map_find.induct) auto

lemma map_find_in: "map_find m k = Some v \<Longrightarrow> (k, v) \<in> set m"
  by (induction m k rule: map_find.induct) (auto split: if_splits)

lemma map_find_ok: "map_ok m \<Longrightarrow> (k, v) \<in> set m \<Longrightarrow> map_find m k = Some v"
  by (induction m k rule: map_find.induct) force+

lemma map_find_put: "map_find (map_put k v m) x = (if x = k then Some v else map_find m x)"
  by (induction k v m rule: map_put.induct) auto

lemma keys_put: "fst ` set (map_put k v m) = insert k (fst ` set m)"
  by (induction k v m rule: map_put.induct) auto

lemma map_put_not_Nil [simp]: "map_put k v m \<noteq> []"
  by (induction k v m rule: map_put.induct) auto

lemma map_ok_put: "map_ok m \<Longrightarrow> map_ok (map_put k v m)"
  by (induction k v m rule: map_put.induct) (auto simp: keys_put)

lemma set_erase: "set (map_erase k m) \<subseteq> set m"
  by (induction k m rule: map_erase.induct) auto

lemma map_ok_erase: "map_ok m \<Longrightarrow> map_ok (map_erase k m)"
proof (induction k m rule: map_erase.induct)
  case (2 k k' v' m)
  then show ?case using set_erase [of k m] by fastforce
qed simp

lemma map_find_erase:
  "map_ok m \<Longrightarrow> map_find (map_erase k m) x = (if x = k then None else map_find m x)"
proof (induction k m rule: map_erase.induct)
  case (2 k k' v' m)
  then show ?case by (force simp: map_find_None)
qed simp

lemma map_erase_id: "map_find m k = None \<Longrightarrow> map_erase k m = m"
  by (induction m k rule: map_find.induct) (auto split: if_splits)

lemma set_map_put: "set (map_put k v m) \<subseteq> insert (k, v) (set m)"
  by (induction k v m rule: map_put.induct) auto

lemma map_empty_find: "map_ok m \<Longrightarrow> map_empty m \<longleftrightarrow> (\<forall>k. map_find m k = None)"
  by (cases m) (auto simp: map_empty_def)

section \<open>The contract\<close>

locale dictionary =
  fixes empty :: 'm
    and find :: "'m \<Rightarrow> 'k \<Rightarrow> 'v option"
    and put :: "'k \<Rightarrow> 'v \<Rightarrow> 'm \<Rightarrow> 'm"
    and erase :: "'k \<Rightarrow> 'm \<Rightarrow> 'm"
    and is_empty :: "'m \<Rightarrow> bool"
    and ok :: "'m \<Rightarrow> bool"
  assumes find_empty: "find empty k = None"
    and ok_empty: "ok empty"
    and find_put: "ok m \<Longrightarrow> find (put k v m) x = (if x = k then Some v else find m x)"
    and ok_put: "ok m \<Longrightarrow> ok (put k v m)"
    and find_erase: "ok m \<Longrightarrow> find (erase k m) x = (if x = k then None else find m x)"
    and ok_erase: "ok m \<Longrightarrow> ok (erase k m)"
    and is_empty_find: "ok m \<Longrightarrow> is_empty m \<longleftrightarrow> (\<forall>k. find m k = None)"
begin

lemma put_not_empty: "ok m \<Longrightarrow> \<not> is_empty (put k v m)"
  by (auto simp: is_empty_find ok_put find_put)

lemma empty_is_empty: "is_empty empty"
  by (simp add: is_empty_find ok_empty find_empty)

lemma erase_absent: "ok m \<Longrightarrow> find m k = None \<Longrightarrow> find (erase k m) = find m"
  by (rule ext) (simp add: find_erase)

lemma erase_put: "ok m \<Longrightarrow> find (erase k (put k v m)) x = find (erase k m) x"
  by (simp add: find_erase find_put ok_put)

lemma is_empty_erase:
  "ok m \<Longrightarrow> is_empty (erase k m) \<longleftrightarrow> (\<forall>x. x \<noteq> k \<longrightarrow> find m x = None)"
  by (auto simp: is_empty_find ok_erase find_erase)

lemmas dict_simps = find_empty ok_empty find_put ok_put find_erase ok_erase

end

interpretation sm: dictionary "[]" map_find map_put map_erase map_empty map_ok
  by unfold_locales
    (simp_all add: map_find_put map_ok_put map_find_erase map_ok_erase map_empty_find)

end
