(* ===== verification/Tcp_Server.thy ===== *)
theory Tcp_Server imports Server_Endpoint Receive_Window Std_Map Udp_Server begin

text \<open>
  \<open>tcp_server_endpoint_impl\<close> and its nested class \<open>connection\<close>
  (src/tcp_server_endpoint_impl.cpp): accepting, the table of connections keyed by remote endpoint,
  and the life of a connection.  Connections are shared objects: they live in a heap, a list, and
  are named by their index; the table, the handlers and \<open>this\<close> hold indices.  A connection reaches
  the server through a weak pointer, which locks while \<open>alive\<close> holds.
  \<open>connection::wait_until_sent\<close> is declared but not defined in the sources: it is an argument.
\<close>

section \<open>State\<close>

record ('s, 'ep, 'addr) connection =
  cn_socket :: 's
  cn_max_message_size :: uint32_t
  cn_recv_buffer_size_initial :: uint32_t
  cn_recv_buffer :: message_buffer
  cn_recv_buffer_size :: size_t
  cn_missing_capacity :: uint32_t
  cn_shrink_count :: uint32_t
  cn_buffer_shrink_threshold :: uint32_t
  cn_remote :: "'ep option"
  cn_remote_port :: uint16_t
  cn_send_timeout :: uint32_t

record ('s, 'ep, 'addr) tcp_server = "'ep server_endpoint" +
  acceptor :: 's
  conn_heap :: "('s, 'ep, 'addr) connection list"
  connections :: "('ep, nat) std_map"
  ts_buffer_shrink_threshold :: uint32_t
  ts_local_port :: uint16_t
  ts_send_timeout :: uint32_t
  alive :: bool

definition FTDOIP_HEADER_SIZE :: uint32_t where
  "FTDOIP_HEADER_SIZE = 4"

section \<open>The constructor\<close>

definition tcp_server_acceptor ::
  "('s, 'ep, 'addr) asio_env \<Rightarrow> 'ep \<Rightarrow> 's \<Rightarrow> ctor_exception + 's" where
  "tcp_server_acceptor E lcl s0 =
     bind_sum (or_throw ''acceptor open'' (sk_open E (ep_protocol E lcl) s0)) (\<lambda>s1.
     bind_sum (or_throw ''acceptor set_option'' (sk_set_option E reuse_address s1)) (\<lambda>s2.
     bind_sum (or_throw ''acceptor bind'' (sk_bind E lcl s2)) (\<lambda>s3.
     or_throw ''acceptor listen'' (sk_listen E s3))))"

definition new_tcp_server ::
  "('s, 'ep, 'addr) asio_env \<Rightarrow> uint32_t \<Rightarrow> 'ep \<Rightarrow> 's \<Rightarrow>
     ctor_exception + ('s, 'ep, 'addr) tcp_server" where
  "new_tcp_server E garbage lcl s0 =
     bind_sum (tcp_server_acceptor E lcl s0) (\<lambda>s.
       Inr (server_endpoint.extend (init_server_endpoint garbage lcl)
         \<lparr>acceptor = s, conn_heap = [], connections = [], ts_buffer_shrink_threshold = 1000,
          ts_local_port = ep_port E lcl, ts_send_timeout = 2000, alive = True\<rparr>))"

section \<open>Connections\<close>

definition new_connection ::
  "'s \<Rightarrow> uint32_t \<Rightarrow> uint32_t \<Rightarrow> uint32_t \<Rightarrow> uint32_t \<Rightarrow> ('s, 'ep, 'addr) connection" where
  "new_connection s max_message_size initial threshold timeout =
     \<lparr>cn_socket = s, cn_max_message_size = max_message_size, cn_recv_buffer_size_initial = initial,
      cn_recv_buffer = make_buffer (unat initial), cn_recv_buffer_size = 0, cn_missing_capacity = 0,
      cn_shrink_count = 0, cn_buffer_shrink_threshold = threshold, cn_remote = None, cn_remote_port = 0,
      cn_send_timeout = timeout\<rparr>"

text \<open>\<open>connection::create\<close>; the object is \<open>conn_heap\<close>'s last one, its index the old length.\<close>

definition connection_create ::
  "'s \<Rightarrow> uint32_t \<Rightarrow> uint32_t \<Rightarrow> uint32_t \<Rightarrow> ('s, 'ep, 'addr) tcp_server \<Rightarrow> ('s, 'ep, 'addr) tcp_server" where
  "connection_create s max_message_size threshold timeout c =
     c\<lparr>conn_heap := conn_heap c @ [new_connection s max_message_size FTDOIP_HEADER_SIZE threshold timeout]\<rparr>"

definition conn :: "('s, 'ep, 'addr) tcp_server \<Rightarrow> nat \<Rightarrow> ('s, 'ep, 'addr) connection" where
  "conn c i = conn_heap c ! i"

definition conn_update ::
  "nat \<Rightarrow> (('s, 'ep, 'addr) connection \<Rightarrow> ('s, 'ep, 'addr) connection) \<Rightarrow>
     ('s, 'ep, 'addr) tcp_server \<Rightarrow> ('s, 'ep, 'addr) tcp_server" where
  "conn_update i f c = c\<lparr>conn_heap := (conn_heap c)[i := f (conn c i)]\<rparr>"

definition set_remote_info ::
  "('s, 'ep, 'addr) asio_env \<Rightarrow> 'ep \<Rightarrow> ('s, 'ep, 'addr) connection \<Rightarrow> ('s, 'ep, 'addr) connection" where
  "set_remote_info E ep k = k\<lparr>cn_remote := Some ep, cn_remote_port := ep_port E ep\<rparr>"

text \<open>
  \<open>remote_\<close> and \<open>remote_address_\<close> are always set together; before \<open>set_remote_info\<close> they are
  default-constructed (\<open>None\<close>), and the address prints as \<open>0.0.0.0\<close>.
\<close>

definition conn_address_port_remote ::
  "('s, 'ep, 'addr) asio_env \<Rightarrow> ('s, 'ep, 'addr) connection \<Rightarrow> string" where
  "conn_address_port_remote E k =
     (case cn_remote k of None \<Rightarrow> ''0.0.0.0'' | Some ep \<Rightarrow> addr_to_string E (ep_address E ep))
     @ '':'' @ dec (unat (cn_remote_port k))"

definition conn_address_port_local ::
  "('s, 'ep, 'addr) asio_env \<Rightarrow> ('s, 'ep, 'addr) connection \<Rightarrow> string" where
  "conn_address_port_local E k =
     (if sk_is_open E (cn_socket k) then
        (case sk_local_endpoint E (cn_socket k) of (ec, ep) \<Rightarrow>
           if \<not> failed ec then
             addr_to_string E (ep_address E ep) @ '':'' @ dec (unat (ep_port E ep))
           else '''')
      else '''')"

section \<open>The table\<close>

fun erase_connection :: "nat \<Rightarrow> ('ep, nat) std_map \<Rightarrow> ('ep, nat) std_map" where
  "erase_connection i [] = []"
| "erase_connection i ((k, j) # m) = (if j = i then m else (k, j) # erase_connection i m)"

definition remove_connection :: "nat \<Rightarrow> ('s, 'ep, 'addr) tcp_server \<Rightarrow> ('s, 'ep, 'addr) tcp_server" where
  "remove_connection i c = c\<lparr>connections := erase_connection i (connections c)\<rparr>"

section \<open>The life of a connection\<close>

definition conn_stop ::
  "('s, 'ep, 'addr) asio_env \<Rightarrow> nat \<Rightarrow> ('s, 'ep, 'addr) tcp_server \<Rightarrow> ('s, 'ep, 'addr) tcp_server" where
  "conn_stop E i c = conn_update i (\<lambda>k. k\<lparr>cn_socket := shutdown_and_close E (cn_socket k)\<rparr>) c"

definition conn_handle_recv_buffer_exception ::
  "('s, 'ep, 'addr) asio_env \<Rightarrow> vector_exception \<Rightarrow> nat \<Rightarrow>
     ('s, 'ep, 'addr) tcp_server \<Rightarrow> ('s, 'ep, 'addr) tcp_server" where
  "conn_handle_recv_buffer_exception E e i c =
     (let k = conn c i;
          c1 = srv_log (''tcp_server_endpoint_impl::connection catched exception'' @ exception_what E e
                  @ '' local: '' @ conn_address_port_local E k
                  @ '' remote: '' @ conn_address_port_remote E k
                  @ '' shutting down connection. Start of buffer: ''
                  @ captured_bytes (cn_recv_buffer_size k) (cn_recv_buffer k)) c;
          c2 = conn_update i (\<lambda>k. k\<lparr>cn_recv_buffer := vclear (cn_recv_buffer k)\<rparr>) c1;
          c3 = conn_update i (\<lambda>k. k\<lparr>cn_socket := shutdown_and_close E (cn_socket k)\<rparr>) c2
      in if alive c3 then remove_connection i c3 else c3)"

definition conn_receive ::
  "('s, 'ep, 'addr) asio_env \<Rightarrow> nat \<Rightarrow> ('s, 'ep, 'addr) tcp_server \<Rightarrow> ('s, 'ep, 'addr) tcp_server" where
  "conn_receive E i c =
     (let k = conn c i
      in if sk_is_open E (cn_socket k) then
           (case prepare_receive (mem_available E) (cn_recv_buffer_size_initial k) (cn_buffer_shrink_threshold k)
                   (cn_shrink_count k) (cn_recv_buffer k) (cn_recv_buffer_size k) (ucast (cn_missing_capacity k)) of
              Exceeds_maximum \<Rightarrow> srv_log ''Missing receive buffer capacity exceeds allowed maximum!'' c
            | Threw e b \<Rightarrow>
                conn_handle_recv_buffer_exception E e i (conn_update i (\<lambda>k. k\<lparr>cn_recv_buffer := b\<rparr>) c)
            | Window b len sc big \<Rightarrow>
                let c1 = conn_update i
                      (\<lambda>k. k\<lparr>cn_recv_buffer := b, cn_shrink_count := sc, cn_missing_capacity := 0\<rparr>) c;
                    c2 = (if big then
                            srv_log (''tse: recv_buffer size is: '' @ dec (vsize b)
                                 @ '' local: '' @ conn_address_port_local E k
                                 @ '' remote: '' @ conn_address_port_remote E k) c1
                          else c1)
                in srv_start_op (Conn_receive i (cn_recv_buffer_size k) len) c2)
         else c)"

definition conn_start ::
  "('s, 'ep, 'addr) asio_env \<Rightarrow> nat \<Rightarrow> ('s, 'ep, 'addr) tcp_server \<Rightarrow> ('s, 'ep, 'addr) tcp_server" where
  "conn_start E i c = conn_receive E i c"

definition conn_send_data :: "nat \<Rightarrow> byte_t list \<Rightarrow> ('s, 'ep, 'addr) tcp_server \<Rightarrow> ('s, 'ep, 'addr) tcp_server" where
  "conn_send_data i data c =
     (if \<not> alive c then
        srv_log ''tcp_server_endpoint_impl::connection::send_queued  couldn't lock server_'' c
      else srv_start_op (Conn_write i data (srv_clock c)) (c\<lparr>srv_is_sending := True\<rparr>))"

definition stop_and_remove_connection ::
  "('s, 'ep, 'addr) asio_env \<Rightarrow> nat \<Rightarrow> ('s, 'ep, 'addr) tcp_server \<Rightarrow> ('s, 'ep, 'addr) tcp_server" where
  "stop_and_remove_connection E i c =
     (if \<not> alive c then
        srv_log ''tse::connection::stop_and_remove_connection  couldn't lock server_'' c
      else remove_connection i (conn_stop E i c))"

definition conn_write_completion_condition ::
  "('s, 'ep, 'addr) asio_env \<Rightarrow> error_code \<Rightarrow> size_t \<Rightarrow> size_t \<Rightarrow> nat \<Rightarrow>
     ('s, 'ep, 'addr) tcp_server \<Rightarrow> size_t \<times> ('s, 'ep, 'addr) tcp_server" where
  "conn_write_completion_condition E ec bytes_transferred bytes_to_send i c =
     (if failed ec then
        (0, stop_and_remove_connection E i
              (srv_log (''tse::write_completion_condition: '' @ ec_message E ec @ ''('' @ dec_int (ec_value E ec)
                 @ '') bytes transferred: '' @ dec (unat bytes_transferred)
                 @ '' bytes to sent: '' @ dec (unat bytes_to_send)
                 @ '' remote:'' @ conn_address_port_remote E (conn c i) @ [CHR 0x0A]) c))
      else (bytes_to_send - bytes_transferred, c))"

definition conn_receive_cbk ::
  "('s, 'ep, 'addr) asio_env \<Rightarrow>
     (nat \<Rightarrow> error_code \<Rightarrow> ('s, 'ep, 'addr) tcp_server \<Rightarrow> ('s, 'ep, 'addr) tcp_server) \<Rightarrow>
     error_code \<Rightarrow> size_t \<Rightarrow> nat \<Rightarrow> ('s, 'ep, 'addr) tcp_server \<Rightarrow> ('s, 'ep, 'addr) tcp_server" where
  "conn_receive_cbk E conn_wait_until_sent ec bytes i c =
     (if ec = operation_aborted then c
      else if \<not> alive c then
        srv_log ''tcp_server_endpoint_impl::connection::receive_cbk  couldn't lock server_'' c
      else
        let k = conn c i;
            c1 = srv_log (hex_dump (take (unat (bytes + cn_recv_buffer_size k)) (vdata (cn_recv_buffer k)))) c
        in if ec = eof \<or> ec = connection_reset \<or> ec = timed_out then
             conn_wait_until_sent i operation_aborted
               (if ec = timed_out then
                  srv_log (''tcp_server_endpoint receive_cbk: '' @ ec_message E ec
                       @ '' local: '' @ conn_address_port_local E k
                       @ '' remote: '' @ conn_address_port_remote E k) c1
                else c1)
           else c1)"

section \<open>Accepting\<close>

definition ts_start ::
  "('s, 'ep, 'addr) asio_env \<Rightarrow> 's \<Rightarrow> ('s, 'ep, 'addr) tcp_server \<Rightarrow> ('s, 'ep, 'addr) tcp_server" where
  "ts_start E fresh c =
     (if sk_is_open E (acceptor c) then
        let c1 = connection_create (sk_reset E fresh) MESSAGE_SIZE_UNLIMITED (ts_buffer_shrink_threshold c)
              (ts_send_timeout c) c
        in srv_start_op (Async_accept (length (conn_heap c))) c1
      else c)"

definition ts_receive :: "('s, 'ep, 'addr) tcp_server \<Rightarrow> ('s, 'ep, 'addr) tcp_server" where
  "ts_receive c = c"

definition ts_stop ::
  "('s, 'ep, 'addr) asio_env \<Rightarrow> (('s, 'ep, 'addr) tcp_server \<Rightarrow> ('s, 'ep, 'addr) tcp_server) \<Rightarrow>
     ('s, 'ep, 'addr) tcp_server \<Rightarrow> ('s, 'ep, 'addr) tcp_server" where
  "ts_stop E base_stop c =
     (let c0 = base_stop c;
          c1 = (if sk_is_open E (acceptor c0) then c0\<lparr>acceptor := snd (sk_close E (acceptor c0))\<rparr> else c0);
          c2 = foldl (\<lambda>c (ep, i). conn_stop E i c) c1 (connections c1)
      in c2\<lparr>connections := []\<rparr>)"

text \<open>
  Configuring an accepted socket: the error variable is reused, so that of \<open>remote_endpoint\<close> and of
  \<open>no_delay\<close> are lost and only that of \<open>keep_alive\<close> counts.
\<close>

definition configure_accepted ::
  "('s, 'ep, 'addr) asio_env \<Rightarrow> nat \<Rightarrow> ('s, 'ep, 'addr) tcp_server \<Rightarrow> error_code \<times> 'ep \<times> ('s, 'ep, 'addr) tcp_server" where
  "configure_accepted E i c =
     (let remote = snd (sk_remote_endpoint E (cn_socket (conn c i)));
          c1 = conn_update i (set_remote_info E remote) c;
          s2 = snd (sk_set_option E no_delay (cn_socket (conn c1 i)))
      in case sk_set_option E keep_alive s2 of (ec, s3) \<Rightarrow>
           let c3 = conn_update i (\<lambda>k. k\<lparr>cn_socket := s3\<rparr>) c1
           in (ec, remote,
               if failed ec then
                 srv_log (''tcp_server_endpoint::connect: couldn't enable keep_alive: '' @ ec_message E ec) c3
               else c3))"

definition accept_cbk ::
  "('s, 'ep :: linorder, 'addr) asio_env \<Rightarrow> 's \<Rightarrow> error_code \<Rightarrow> nat \<Rightarrow>
     ('s, 'ep, 'addr) tcp_server \<Rightarrow> ('s, 'ep, 'addr) tcp_server" where
  "accept_cbk E fresh ec i c =
     (let c1 =
        (if \<not> failed ec then
           (case configure_accepted E i c of (its_error, remote, c') \<Rightarrow>
              if \<not> failed its_error then
                conn_start E i (c'\<lparr>connections := map_put remote i (connections c')\<rparr>)
              else c')
         else c)
      in if ec \<noteq> bad_descriptor \<and> ec \<noteq> operation_aborted \<and> ec \<noteq> no_descriptors then
           ts_start E fresh c1
         else if ec = no_descriptors then
           srv_start_op Accept_retry
             (srv_log (''tcp_server_endpoint_impl::accept_cbk: '' @ ec_message E ec @ '' ('' @ dec_int (ec_value E ec)
                 @ '') Will try to accept again in 1000ms'') c1)
         else c1)"

text \<open>The handler of the one-second retry timer.\<close>

definition accept_retry_cbk ::
  "('s, 'ep, 'addr) asio_env \<Rightarrow> 's \<Rightarrow> error_code \<Rightarrow> ('s, 'ep, 'addr) tcp_server \<Rightarrow> ('s, 'ep, 'addr) tcp_server" where
  "accept_retry_cbk E fresh ec c = (if \<not> failed ec then ts_start E fresh c else c)"

end
