(* ===== verification/Tcp_Server_Runs.thy ===== *)
theory Tcp_Server_Runs imports Tcp_Server begin

text \<open>
  The TCP server as a transition system: the completions of accepts, reads, writes and of the retry
  timer run their handlers.  Two of its labels reach a function that the sources declare or call but do
  not define: \<open>stop\<close> calls \<open>server_endpoint_impl::stop\<close>, and a read that ends because the peer closed,
  reset or lost the connection calls \<open>connection::wait_until_sent\<close>.  \<open>in_sources\<close> holds of the others; what
  is proved of runs is proved of runs of those, and nothing is assumed of the two functions.
\<close>

datatype ('s, 'ep) ts_label =
    Ts_start
  | Ts_stop
  | Ts_send nat "byte_t list"
  | Ts_accepted error_code nat 's
  | Ts_retry error_code
  | Ts_received error_code "byte_t list" nat
  | Ts_written error_code "(error_code \<times> size_t) list" nat
  | Ts_destroyed

definition conn_run_calls ::
  "('s, 'ep, 'addr) asio_env \<Rightarrow> byte_t list \<Rightarrow> nat \<Rightarrow> (error_code \<times> size_t) list \<Rightarrow>
     ('s, 'ep, 'addr) tcp_server \<Rightarrow> ('s, 'ep, 'addr) tcp_server" where
  "conn_run_calls E data i calls c =
     foldl (\<lambda>c (ec, n). snd (conn_write_completion_condition E ec n (of_nat (length data)) i c)) c calls"

inductive ts_step ::
  "('s, 'ep :: linorder, 'addr) asio_env \<Rightarrow>
     (('s, 'ep, 'addr) tcp_server \<Rightarrow> ('s, 'ep, 'addr) tcp_server) \<Rightarrow>
     (nat \<Rightarrow> error_code \<Rightarrow> ('s, 'ep, 'addr) tcp_server \<Rightarrow> ('s, 'ep, 'addr) tcp_server) \<Rightarrow>
     ('s, 'ep) ts_label \<Rightarrow> ('s, 'ep, 'addr) tcp_server \<Rightarrow> ('s, 'ep, 'addr) tcp_server \<Rightarrow> bool"
  for E base_stop wait where
  ts_start: "ts_step E base_stop wait Ts_start c (ts_start E fresh c)"
| ts_stop: "ts_step E base_stop wait Ts_stop c (ts_stop E base_stop c)"
| ts_send: "i < length (conn_heap c) \<Longrightarrow> ts_step E base_stop wait (Ts_send i data) c (conn_send_data i data c)"
| ts_accepted: "srv_io c = ps @ Async_accept i # qs \<Longrightarrow>
     c1 = (if failed ec then c\<lparr>srv_io := ps @ qs\<rparr>
           else conn_update i (\<lambda>k. k\<lparr>cn_socket := s\<rparr>) (c\<lparr>srv_io := ps @ qs\<rparr>)) \<Longrightarrow>
     ts_step E base_stop wait (Ts_accepted ec i s) c (accept_cbk E fresh ec i c1)"
| ts_retry: "srv_io c = ps @ Accept_retry # qs \<Longrightarrow>
     ts_step E base_stop wait (Ts_retry ec) c (accept_retry_cbk E fresh ec (c\<lparr>srv_io := ps @ qs\<rparr>))"
| ts_received: "srv_io c = ps @ Conn_receive i off len # qs \<Longrightarrow> length bs \<le> unat len \<Longrightarrow>
     c1 = conn_update i (\<lambda>k. k\<lparr>cn_recv_buffer := write_at (unat off) bs (cn_recv_buffer k)\<rparr>)
            (c\<lparr>srv_io := ps @ qs\<rparr>) \<Longrightarrow>
     ts_step E base_stop wait (Ts_received ec bs i) c
       (conn_receive_cbk E wait ec (of_nat (length bs)) i c1)"
| ts_written: "srv_io c = ps @ Conn_write i data t # qs \<Longrightarrow>
     ts_step E base_stop wait (Ts_written ec calls i) c
       (server_send_cbk E ec (conn_run_calls E data i calls (c\<lparr>srv_io := ps @ qs\<rparr>)))"
| ts_destroyed: "ts_step E base_stop wait Ts_destroyed c (c\<lparr>alive := False\<rparr>)"

inductive_cases ts_step_acceptedE: "ts_step E base_stop wait (Ts_accepted ec i s) c c'"
inductive_cases ts_step_stopE: "ts_step E base_stop wait Ts_stop c c'"

fun in_sources :: "('s, 'ep) ts_label \<Rightarrow> bool" where
  "in_sources Ts_stop = False"
| "in_sources (Ts_received ec bs i) = (ec \<noteq> eof \<and> ec \<noteq> connection_reset \<and> ec \<noteq> timed_out)"
| "in_sources _ = True"

text \<open>On such labels the two functions are not called: the step is the same whatever they do.\<close>

lemma ts_step_in_sources:
  "ts_step E base_stop wait l c c' \<Longrightarrow> in_sources l \<Longrightarrow> ts_step E base_stop' wait' l c c'"
proof (induction rule: ts_step.induct)
  case (ts_received c ps i off len qs bs c1 ec)
  then have "conn_receive_cbk E wait ec (of_nat (length bs)) i c1 = conn_receive_cbk E wait' ec (of_nat (length bs)) i c1"
    by (simp add: conn_receive_cbk_def Let_def)
  with ts_step.ts_received [OF ts_received(1-3), of E base_stop' wait' ec] show ?case by simp
qed (auto intro: ts_step.intros)

section \<open>Outstanding work\<close>

fun accept_of :: "'ep server_op \<Rightarrow> nat option" where
  "accept_of (Async_accept i) = Some i"
| "accept_of _ = None"

fun receive_of :: "'ep server_op \<Rightarrow> nat option" where
  "receive_of (Conn_receive i off len) = Some i"
| "receive_of _ = None"

definition claims :: "'ep server_op list \<Rightarrow> nat list" where
  "claims ps = List.map_filter accept_of ps @ List.map_filter receive_of ps"

definition accepts :: "'ep server_op list \<Rightarrow> nat list" where
  "accepts ps = List.map_filter accept_of ps"

definition accepting :: "'ep server_op list \<Rightarrow> nat" where
  "accepting ps = length (filter (\<lambda>p. p = Accept_retry \<or> accept_of p \<noteq> None) ps)"

lemma accept_of_Some [simp]: "accept_of p = Some i \<longleftrightarrow> p = Async_accept i"
  by (cases p) auto

lemma receive_of_Some [simp]: "receive_of p = Some i \<longleftrightarrow> (\<exists>off len. p = Conn_receive i off len)"
  by (cases p) auto

definition unwait :: "'ep server_op \<Rightarrow> 'ep server_op" where
  "unwait p = (if p = Sent_wait then Sent_wait_aborted else p)"

lemma unwait_simps [simp]:
  "accept_of (unwait p) = accept_of p"
  "receive_of (unwait p) = receive_of p"
  "unwait p = Accept_retry \<longleftrightarrow> p = Accept_retry"
  "unwait p = Conn_receive i off len \<longleftrightarrow> p = Conn_receive i off len"
  "unwait p = Async_accept i \<longleftrightarrow> p = Async_accept i"
  by (auto simp: unwait_def)

lemma cancel_sent_timer_io: "srv_io (cancel_sent_timer c) = map unwait (srv_io c)"
  by (simp add: cancel_sent_timer_def unwait_def [abs_def])

lemma map_filter_simps' [simp]:
  "List.map_filter f [] = []"
  "List.map_filter f (x # xs) = (case f x of None \<Rightarrow> List.map_filter f xs | Some y \<Rightarrow> y # List.map_filter f xs)"
  "List.map_filter f (xs @ ys) = List.map_filter f xs @ List.map_filter f ys"
  "List.map_filter f (map g xs) = List.map_filter (f \<circ> g) xs"
  by (auto simp: List.map_filter_def o_def filter_map split: option.splits)

lemma accept_receive_unwait [simp]:
  "accept_of \<circ> unwait = accept_of" "receive_of \<circ> unwait = receive_of"
  by (rule ext; simp)+

section \<open>The invariant\<close>

definition conn_ok :: "('s, 'ep, 'addr) connection \<Rightarrow> bool" where
  "conn_ok k \<longleftrightarrow> cn_recv_buffer_size_initial k = 4 \<and> vsize (cn_recv_buffer k) = 4 \<and> vcap (cn_recv_buffer k) = 4 \<and>
     cn_recv_buffer_size k = 0 \<and> cn_missing_capacity k = 0 \<and> cn_shrink_count k = 0 \<and>
     cn_buffer_shrink_threshold k = 1000"

definition work_ok :: "nat \<Rightarrow> ('ep :: linorder, nat) std_map \<Rightarrow> 'ep server_op list \<Rightarrow> bool" where
  "work_ok n m ops \<longleftrightarrow>
     map_ok m \<and> distinct (map snd m @ accepts ops) \<and> distinct (claims ops) \<and>
     (\<forall>i\<in>set (map snd m) \<union> set (claims ops). i < n) \<and>
     (\<forall>i off len. Conn_receive i off len \<in> set ops \<longrightarrow> off = 0 \<and> len = 4)"

definition ts_inv :: "('s, 'ep :: linorder, 'addr) tcp_server \<Rightarrow> bool" where
  "ts_inv c \<longleftrightarrow> (\<forall>k\<in>set (conn_heap c). conn_ok k) \<and> ts_buffer_shrink_threshold c = 1000 \<and>
     work_ok (length (conn_heap c)) (connections c) (srv_io c)"

lemma claims_append: "set (claims (ps @ qs)) = set (claims ps) \<union> set (claims qs)"
  by (auto simp: claims_def)

lemma accepts_claims: "set (accepts ps) \<subseteq> set (claims ps)"
  by (auto simp: accepts_def claims_def)

lemma snd_erase_connection: "set (map snd (erase_connection i m)) \<subseteq> set (map snd m)"
  by (induction i m rule: erase_connection.induct) auto

lemma map_ok_erase_connection: "map_ok m \<Longrightarrow> map_ok (erase_connection i m)"
proof (induction i m rule: erase_connection.induct)
  case (2 i k j m)
  have "set (erase_connection i m) \<subseteq> set m"
    by (induction i m rule: erase_connection.induct) auto
  then show ?case using 2 by (auto split: if_splits)
qed simp

lemma distinct_erase_connection: "distinct (map snd m) \<Longrightarrow> distinct (map snd (erase_connection i m))"
proof (induction i m rule: erase_connection.induct)
  case (2 i k j m)
  then show ?case using snd_erase_connection [of i m] by auto
qed simp

lemma erase_connection_gone: "distinct (map snd m) \<Longrightarrow> i \<notin> set (map snd (erase_connection i m))"
  by (induction i m rule: erase_connection.induct) auto

lemma erase_connection_other:
  "distinct (map snd m) \<Longrightarrow> set (map snd (erase_connection i m)) = set (map snd m) - {i}"
  by (induction i m rule: erase_connection.induct) auto

lemma snd_map_put: "set (map snd (map_put k v m)) \<subseteq> insert v (set (map snd m))"
  by (induction k v m rule: map_put.induct) auto

lemma distinct_map_put:
  "distinct (map snd m) \<Longrightarrow> v \<notin> set (map snd m) \<Longrightarrow> distinct (map snd (map_put k v m))"
proof (induction k v m rule: map_put.induct)
  case (2 k v k' v' m)
  then show ?case using snd_map_put [of k v m] by auto
qed simp

section \<open>What the operations do to the outstanding work\<close>

lemma work_ok_accept:
  "work_ok n m ops \<Longrightarrow> work_ok (Suc n) m (ops @ [Async_accept n])"
  unfolding work_ok_def claims_def accepts_def by (auto simp: less_Suc_eq)

lemma work_ok_drop: "work_ok n m (ps @ p # qs) \<Longrightarrow> work_ok n m (ps @ qs)"
  by (auto simp: work_ok_def claims_def accepts_def split: option.splits)

lemma work_ok_idle:
  "work_ok n m ops \<Longrightarrow> accept_of p = None \<Longrightarrow> receive_of p = None \<Longrightarrow> work_ok n m (ops @ [p])"
  by (auto simp: work_ok_def claims_def accepts_def)

lemma work_ok_receive:
  "work_ok n m ops \<Longrightarrow> i < n \<Longrightarrow> i \<notin> set (claims ops) \<Longrightarrow> work_ok n m (ops @ [Conn_receive i 0 4])"
  by (auto simp: work_ok_def claims_def accepts_def)

lemma work_ok_erase: "work_ok n m ops \<Longrightarrow> work_ok n (erase_connection i m) ops"
  using snd_erase_connection [of i m]
  by (auto simp: work_ok_def map_ok_erase_connection distinct_erase_connection)

lemma work_ok_unwait: "work_ok n m ops \<Longrightarrow> work_ok n m (map unwait ops)"
  by (fastforce simp: work_ok_def claims_def accepts_def eq_commute [of _ "unwait _"])

lemma work_ok_accepted:
  "work_ok n m (ps @ Async_accept i # qs) \<Longrightarrow> i < n \<and> i \<notin> set (claims (ps @ qs)) \<and> i \<notin> set (map snd m)"
  by (auto simp: work_ok_def claims_def accepts_def)

lemma work_ok_register:
  assumes "work_ok n m ops" "i < n" "i \<notin> set (claims ops)" "i \<notin> set (map snd m)"
  shows "work_ok n (map_put ep i m) ops"
proof -
  have sub: "snd x = i \<or> snd x \<in> snd ` set m" if "x \<in> set (map_put ep i m)" for x
    using that snd_map_put [of ep i m] by auto
  have "i \<notin> set (accepts ops)" using assms(3) accepts_claims by blast
  then have "snd x \<notin> set (accepts ops)" if "x \<in> set (map_put ep i m)" for x
    using sub [OF that] assms(1) by (auto simp: work_ok_def)
  moreover have "snd x < n" if "x \<in> set (map_put ep i m)" for x
    using sub [OF that] assms(1,2) by (auto simp: work_ok_def)
  ultimately show ?thesis
    using assms by (auto simp: work_ok_def map_ok_put distinct_map_put)
qed

end
