(* ===== verification/Tcp_Server_Laws.thy ===== *)
theory Tcp_Server_Laws imports Tcp_Server_Runs begin

text \<open>
  The invariant of the TCP server's runs, and the facts about accepting.
\<close>

lemma conn_update_simps [simp]:
  "srv_io (conn_update i f c) = srv_io c"
  "connections (conn_update i f c) = connections c"
  "acceptor (conn_update i f c) = acceptor c"
  "alive (conn_update i f c) = alive c"
  "ts_buffer_shrink_threshold (conn_update i f c) = ts_buffer_shrink_threshold c"
  "length (conn_heap (conn_update i f c)) = length (conn_heap c)"
  "conn_heap (conn_update i f c) = (conn_heap c)[i := f (conn c i)]"
  by (simp_all add: conn_update_def)

lemma conn_update_conn [simp]:
  "i < length (conn_heap c) \<Longrightarrow> conn (conn_update i f c) i = f (conn c i)"
  "i \<noteq> j \<Longrightarrow> conn (conn_update i f c) j = conn c j"
  by (simp_all add: conn_def)

definition heap_ok :: "('s, 'ep, 'addr) connection list \<Rightarrow> bool" where
  "heap_ok h \<longleftrightarrow> (\<forall>k\<in>set h. conn_ok k)"

lemma heap_ok_conn: "heap_ok (conn_heap c) \<Longrightarrow> i < length (conn_heap c) \<Longrightarrow> conn_ok (conn c i)"
  by (simp add: heap_ok_def conn_def)

lemma heap_ok_update:
  "heap_ok (conn_heap c) \<Longrightarrow> (i < length (conn_heap c) \<Longrightarrow> conn_ok (f (conn c i))) \<Longrightarrow>
     heap_ok ((conn_heap c)[i := f (conn c i)])"
  by (cases "i < length (conn_heap c)") (auto simp: heap_ok_def list_update_beyond dest: set_update_subset_insert [THEN subsetD])

lemma ts_inv_alt:
  "ts_inv c \<longleftrightarrow> heap_ok (conn_heap c) \<and> ts_buffer_shrink_threshold c = 1000 \<and>
     work_ok (length (conn_heap c)) (connections c) (srv_io c)"
  by (simp add: ts_inv_def heap_ok_def)

lemma conn_ok_socket [simp]: "conn_ok (k\<lparr>cn_socket := s\<rparr>) = conn_ok k"
  by (simp add: conn_ok_def)

lemma conn_ok_remote [simp]: "conn_ok (set_remote_info E ep k) = conn_ok k"
  by (simp add: conn_ok_def set_remote_info_def)

lemma conn_ok_new: "conn_ok (new_connection s m FTDOIP_HEADER_SIZE 1000 t)"
  by (simp add: conn_ok_def new_connection_def FTDOIP_HEADER_SIZE_def)

section \<open>Preservation\<close>

lemma ts_inv_conn_update:
  assumes "ts_inv c" "\<And>k. conn_ok k \<Longrightarrow> conn_ok (f k)"
  shows "ts_inv (conn_update i f c)"
proof -
  have "heap_ok ((conn_heap c)[i := f (conn c i)])"
    using assms by (intro heap_ok_update) (auto simp: ts_inv_alt heap_ok_conn)
  with assms show ?thesis by (simp add: ts_inv_alt)
qed

lemma ts_inv_plumbing [simp]:
  "ts_inv (srv_log t c) = ts_inv c"
  "ts_inv (c\<lparr>srv_is_sending := b\<rparr>) = ts_inv c"
  "ts_inv (c\<lparr>alive := b\<rparr>) = ts_inv c"
  "ts_inv (c\<lparr>acceptor := s\<rparr>) = ts_inv c"
  by (simp_all add: ts_inv_alt srv_log_def)

lemma ts_inv_remove_connection: "ts_inv c \<Longrightarrow> ts_inv (remove_connection i c)"
  by (simp add: ts_inv_alt remove_connection_def work_ok_erase)

lemma ts_inv_conn_stop: "ts_inv c \<Longrightarrow> ts_inv (conn_stop E i c)"
  unfolding conn_stop_def by (rule ts_inv_conn_update) simp_all

lemma ts_inv_stop_and_remove: "ts_inv c \<Longrightarrow> ts_inv (stop_and_remove_connection E i c)"
  by (simp add: stop_and_remove_connection_def ts_inv_remove_connection ts_inv_conn_stop)

lemma ts_inv_idle:
  "ts_inv c \<Longrightarrow> accept_of p = None \<Longrightarrow> receive_of p = None \<Longrightarrow> ts_inv (srv_start_op p c)"
  by (simp add: ts_inv_alt srv_start_op_def work_ok_idle)

lemma ts_inv_send_data: "ts_inv c \<Longrightarrow> ts_inv (conn_send_data i data c)"
  by (simp add: conn_send_data_def ts_inv_idle)

lemma ts_inv_send_cbk: "ts_inv c \<Longrightarrow> ts_inv (server_send_cbk E ec c)"
proof -
  assume "ts_inv c"
  then have "ts_inv (cancel_sent_timer (c\<lparr>srv_is_sending := False\<rparr>))"
    by (auto simp: ts_inv_alt cancel_sent_timer_io intro!: work_ok_unwait)
      (simp_all add: cancel_sent_timer_def)
  then show ?thesis by (simp add: server_send_cbk_def Let_def)
qed

lemma ts_inv_run_calls: "ts_inv c \<Longrightarrow> ts_inv (conn_run_calls E data i calls c)"
  by (induction calls arbitrary: c)
    (auto simp: conn_run_calls_def conn_write_completion_condition_def ts_inv_stop_and_remove)

lemma ts_inv_start: "ts_inv c \<Longrightarrow> ts_inv (ts_start E fresh c)"
  by (auto simp: ts_inv_alt ts_start_def connection_create_def Let_def srv_start_op_def heap_ok_def
      conn_ok_new work_ok_accept)

text \<open>
  While the invariant holds, a connection's read always asks for its 4-byte buffer.
\<close>

lemma conn_receive_ok:
  assumes "conn_ok (conn c i)"
  shows "conn_receive E i c =
    (if sk_is_open E (cn_socket (conn c i)) then
       srv_start_op (Conn_receive i 0 4)
         (conn_update i (\<lambda>k. k\<lparr>cn_recv_buffer := cn_recv_buffer (conn c i), cn_shrink_count := 0,
            cn_missing_capacity := 0\<rparr>) c)
     else c)"
  using assms by (simp add: conn_receive_def Let_def conn_ok_def prepare_receive_plain)

lemma ts_inv_conn_receive:
  assumes "ts_inv c" "i < length (conn_heap c)" "i \<notin> set (claims (srv_io c))"
  shows "ts_inv (conn_receive E i c)"
proof -
  have k: "conn_ok (conn c i)" using assms by (simp add: ts_inv_alt heap_ok_conn)
  let ?c = "conn_update i (\<lambda>k. k\<lparr>cn_recv_buffer := cn_recv_buffer (conn c i), cn_shrink_count := 0,
            cn_missing_capacity := 0\<rparr>) c"
  have "ts_inv ?c"
    using assms k by (intro ts_inv_conn_update) (auto simp: conn_ok_def)
  then have "ts_inv (srv_start_op (Conn_receive i 0 4) ?c)"
    using assms by (simp add: ts_inv_alt srv_start_op_def work_ok_receive)
  then show ?thesis using assms by (simp add: conn_receive_ok [OF k])
qed

lemma configure_accepted_simps:
  assumes "configure_accepted E i c = (ec, remote, c')"
  shows "connections c' = connections c" "srv_io c' = srv_io c" "acceptor c' = acceptor c"
    "length (conn_heap c') = length (conn_heap c)" "ts_inv c \<Longrightarrow> ts_inv c'"
proof -
  show "connections c' = connections c" "srv_io c' = srv_io c" "acceptor c' = acceptor c"
    "length (conn_heap c') = length (conn_heap c)"
    using assms by (auto simp: configure_accepted_def Let_def srv_log_def split: prod.splits if_splits)
  show "ts_inv c'" if "ts_inv c"
    using assms that
    by (auto simp: configure_accepted_def Let_def split: prod.splits if_splits
        intro!: ts_inv_conn_update)
qed

lemma ts_inv_accept:
  assumes "ts_inv c" "i < length (conn_heap c)" "i \<notin> set (claims (srv_io c))"
    "i \<notin> set (map snd (connections c))"
  shows "ts_inv (accept_cbk E fresh ec i c)"
proof -
  have reg: "ts_inv (conn_start E i (c'\<lparr>connections := map_put remote i (connections c')\<rparr>))"
    if "configure_accepted E i c = (e, remote, c')" for e remote c'
  proof -
    note conf = configure_accepted_simps [OF that]
    have "ts_inv (c'\<lparr>connections := map_put remote i (connections c')\<rparr>)"
      using conf assms by (auto simp: ts_inv_alt work_ok_register)
    then show ?thesis
      unfolding conn_start_def by (rule ts_inv_conn_receive) (simp_all add: conf assms)
  qed
  let ?c1 = "if \<not> failed ec then
      (case configure_accepted E i c of (its_error, remote, c') \<Rightarrow>
         if \<not> failed its_error then conn_start E i (c'\<lparr>connections := map_put remote i (connections c')\<rparr>)
         else c')
    else c"
  have "ts_inv ?c1"
    using reg assms(1) configure_accepted_simps(5) by (auto split: prod.splits)
  then show ?thesis
    unfolding accept_cbk_def Let_def by (auto intro: ts_inv_start ts_inv_idle)
qed

lemma ts_inv_drop_op: "ts_inv c \<Longrightarrow> srv_io c = ps @ p # qs \<Longrightarrow> ts_inv (c\<lparr>srv_io := ps @ qs\<rparr>)"
  by (auto simp: ts_inv_alt intro: work_ok_drop)

lemma ts_inv_receive_cbk:
  assumes "ec \<noteq> eof" "ec \<noteq> connection_reset" "ec \<noteq> timed_out" "ts_inv c"
  shows "ts_inv (conn_receive_cbk E wait ec bytes i c)"
  using assms by (simp add: conn_receive_cbk_def Let_def)

lemma ts_inv_step:
  assumes "ts_step E base_stop wait l c c'" "in_sources l" "ts_inv c"
  shows "ts_inv c'"
  using assms
proof (induction rule: ts_step.induct)
  case (ts_accepted c ps i qs c1 ec s fresh)
  let ?d = "c\<lparr>srv_io := ps @ qs\<rparr>"
  have d: "ts_inv ?d" using ts_accepted by (intro ts_inv_drop_op)
  have i: "i < length (conn_heap c)" "i \<notin> set (claims (ps @ qs))" "i \<notin> set (map snd (connections c))"
    using ts_accepted work_ok_accepted by (fastforce simp: ts_inv_alt)+
  have "ts_inv c1"
    using ts_accepted(2) d by (auto intro: ts_inv_conn_update)
  moreover have "length (conn_heap c1) = length (conn_heap c)" "srv_io c1 = ps @ qs"
      "connections c1 = connections c"
    using ts_accepted(2) by auto
  ultimately show ?case using i by (intro ts_inv_accept) simp_all
next
  case (ts_received c ps i off len qs bs c1 ec)
  let ?d = "c\<lparr>srv_io := ps @ qs\<rparr>"
  have d: "ts_inv ?d" using ts_received by (intro ts_inv_drop_op)
  have "off = 0 \<and> len = 4" using ts_received by (auto simp: ts_inv_alt work_ok_def)
  then have w: "vsize (write_at (unat off) bs b) = vsize b" "vcap (write_at (unat off) bs b) = vcap b"
    if "vsize b = 4" for b
    using that ts_received(2) write_at_size [of "unat off" bs b] by (simp_all add: write_at_def)
  have "ts_inv c1"
    unfolding ts_received(3) using d by (rule ts_inv_conn_update) (auto simp: conn_ok_def w)
  then show ?case using ts_received by (intro ts_inv_receive_cbk) simp_all
next
  case (ts_retry c ps qs ec fresh)
  then have "ts_inv (c\<lparr>srv_io := ps @ qs\<rparr>)" by (intro ts_inv_drop_op)
  then show ?case by (simp add: accept_retry_cbk_def ts_inv_start)
next
  case (ts_written c ps i data t qs ec calls)
  then show ?case using ts_inv_drop_op by (intro ts_inv_send_cbk ts_inv_run_calls)
qed (auto intro: ts_inv_start ts_inv_send_data)

lemma ts_inv_run:
  assumes "run (ts_step E base_stop wait) c ls c'" "\<forall>l\<in>set ls. in_sources l" "ts_inv c"
  shows "ts_inv c'"
  using assms(1,3,2) by (rule run_label_invariant) (rule ts_inv_step)

lemma new_tcp_server_Inr:
  assumes "new_tcp_server E garbage lcl s0 = Inr c"
  shows "tcp_server_acceptor E lcl s0 = Inr (acceptor c)" "conn_heap c = []" "connections c = []"
    "srv_io c = []" "alive c" "ts_inv c" "ts_local_port c = ep_port E lcl"
  using assms
  by (auto simp: new_tcp_server_def bind_sum_Inr init_server_endpoint_def server_endpoint.defs
      ts_inv_def work_ok_def claims_def accepts_def)

end
