(* ===== verification/Tcp_Server_Props.thy ===== *)
theory Tcp_Server_Props
  imports Tcp_Server_Laws Asio_Env
begin

text \<open>
  The properties of the TCP server.
\<close>

section \<open>Accepting goes on\<close>

fun keeps_accepting :: "('s, 'ep) ts_label \<Rightarrow> bool" where
  "keeps_accepting Ts_start = False"
| "keeps_accepting Ts_stop = False"
| "keeps_accepting (Ts_accepted ec i s) = (ec \<noteq> bad_descriptor \<and> ec \<noteq> operation_aborted)"
| "keeps_accepting (Ts_retry ec) = (ec = no_error)"
| "keeps_accepting l = in_sources l"

lemma accepting_simps [simp]:
  "accepting [] = 0"
  "accepting (p # ps) = (if p = Accept_retry \<or> accept_of p \<noteq> None then Suc (accepting ps) else accepting ps)"
  "accepting (ps @ qs) = accepting ps + accepting qs"
  "accepting (map unwait ps) = accepting ps"
  by (simp_all add: accepting_def filter_map o_def)

lemma accepting_ops [simp]:
  "accepting (srv_io (srv_log t c)) = accepting (srv_io c)"
  "accepting (srv_io (conn_receive E i c)) = accepting (srv_io c)"
  "accepting (srv_io (conn_send_data i data c)) = accepting (srv_io c)"
  "accepting (srv_io (server_send_cbk E ec c)) = accepting (srv_io c)"
proof -
  show "accepting (srv_io (conn_receive E i c)) = accepting (srv_io c)"
    by (simp add: conn_receive_def conn_handle_recv_buffer_exception_def remove_connection_def Let_def
        srv_log_def srv_start_op_def split: receive_plan.splits)
  show "accepting (srv_io (server_send_cbk E ec c)) = accepting (srv_io c)"
    by (simp add: server_send_cbk_def Let_def srv_log_def cancel_sent_timer_io)
qed (simp_all add: conn_send_data_def srv_log_def srv_start_op_def)

lemma acceptor_ops [simp]:
  "acceptor (srv_log t c) = acceptor c"
  "acceptor (srv_start_op p c) = acceptor c"
  "acceptor (conn_receive E i c) = acceptor c"
  "acceptor (conn_send_data i data c) = acceptor c"
  "acceptor (server_send_cbk E ec c) = acceptor c"
  "acceptor (conn_stop E i c) = acceptor c"
  "acceptor (stop_and_remove_connection E i c) = acceptor c"
  by (simp_all add: conn_receive_def conn_handle_recv_buffer_exception_def remove_connection_def Let_def
      srv_log_def srv_start_op_def conn_send_data_def server_send_cbk_def cancel_sent_timer_def
      conn_stop_def stop_and_remove_connection_def split: receive_plan.splits)

lemma conn_run_calls_frame [simp]:
  "acceptor (conn_run_calls E data i calls c) = acceptor c"
  "srv_io (conn_run_calls E data i calls c) = srv_io c"
  by (induction calls arbitrary: c)
    (auto simp: conn_run_calls_def conn_write_completion_condition_def stop_and_remove_connection_def
      remove_connection_def conn_stop_def srv_log_def)

lemma ts_start_open:
  "sk_is_open E (acceptor c) \<Longrightarrow>
     acceptor (ts_start E fresh c) = acceptor c \<and>
     srv_io (ts_start E fresh c) = srv_io c @ [Async_accept (length (conn_heap c))]"
  by (simp add: ts_start_def connection_create_def Let_def srv_start_op_def)

text \<open>\<open>accept_cbk\<close> before it accepts again: configure, register and start the connection.\<close>

definition accepted_state ::
  "('s, 'ep :: linorder, 'addr) asio_env \<Rightarrow> error_code \<Rightarrow> nat \<Rightarrow>
     ('s, 'ep, 'addr) tcp_server \<Rightarrow> ('s, 'ep, 'addr) tcp_server" where
  "accepted_state E ec i c =
     (if \<not> failed ec then
        (case configure_accepted E i c of (its_error, remote, c') \<Rightarrow>
           if \<not> failed its_error then
             conn_start E i (c'\<lparr>connections := map_put remote i (connections c')\<rparr>)
           else c')
      else c)"

lemma accepted_state_frame:
  "acceptor (accepted_state E ec i c) = acceptor c"
  "accepting (srv_io (accepted_state E ec i c)) = accepting (srv_io c)"
proof -
  obtain e r d where conf: "configure_accepted E i c = (e, r, d)" by (rule prod_cases3)
  show "acceptor (accepted_state E ec i c) = acceptor c"
    "accepting (srv_io (accepted_state E ec i c)) = accepting (srv_io c)"
    using configure_accepted_simps(2,3) [OF conf] conf
    by (auto simp: accepted_state_def conn_start_def)
qed

lemma accept_cbk_accepting:
  assumes "ec \<noteq> bad_descriptor" "ec \<noteq> operation_aborted" "sk_is_open E (acceptor c)"
  shows "acceptor (accept_cbk E fresh ec i c) = acceptor c \<and>
    accepting (srv_io (accept_cbk E fresh ec i c)) = Suc (accepting (srv_io c))"
proof (cases "ec = no_descriptors")
  case True
  then show ?thesis by (simp add: accept_cbk_def srv_start_op_def srv_log_def)
next
  case False
  then have "accept_cbk E fresh ec i c = ts_start E fresh (accepted_state E ec i c)"
    using assms by (simp add: accept_cbk_def accepted_state_def)
  then show ?thesis
    using assms ts_start_open [of E "accepted_state E ec i c" fresh] by (simp add: accepted_state_frame)
qed

lemma ts_step_accepting:
  assumes "ts_step E base_stop wait l c c'" "keeps_accepting l" "sk_is_open E (acceptor c)"
  shows "acceptor c' = acceptor c \<and> accepting (srv_io c') = accepting (srv_io c)"
  using assms
proof (induction rule: ts_step.induct)
  case (ts_accepted c ps i qs c1 ec s fresh)
  have "acceptor c1 = acceptor c" "Suc (accepting (srv_io c1)) = accepting (srv_io c)"
    using ts_accepted(1,2) by auto
  then show ?case
    using ts_accepted accept_cbk_accepting [of ec E c1 fresh i] by simp
next
  case (ts_retry c ps qs ec fresh)
  then show ?case
    using ts_start_open [of E "c\<lparr>srv_io := ps @ qs\<rparr>" fresh] by (simp add: accept_retry_cbk_def)
next
  case (ts_received c ps i off len qs bs c1 ec)
  then show ?case
    by (simp add: conn_receive_cbk_def Let_def srv_log_def)
qed auto

section \<open>Stopping\<close>

lemma conn_stop_closed_stays:
  assumes "asio_socket E" "i < length (conn_heap c)" "\<not> sk_is_open E (cn_socket (conn c i))"
  shows "\<not> sk_is_open E (cn_socket (conn (conn_stop E j c) i))"
  using assms asio_socket.shutdown_and_close_closed [OF assms(1)]
  by (cases "i = j") (simp_all add: conn_stop_def)

lemma conn_stop_closes:
  assumes "asio_socket E" "i < length (conn_heap c)"
  shows "\<not> sk_is_open E (cn_socket (conn (conn_stop E i c) i))"
  using assms asio_socket.shutdown_and_close_closed [OF assms(1)] by (simp add: conn_stop_def)

lemma conn_stop_length [simp]: "length (conn_heap (conn_stop E i c)) = length (conn_heap c)"
  by (simp add: conn_stop_def)

lemma foldl_stop_closed:
  assumes "asio_socket E" "i < length (conn_heap c)"
    "(\<exists>ep. (ep, i) \<in> set m) \<or> \<not> sk_is_open E (cn_socket (conn c i))"
  shows "\<not> sk_is_open E (cn_socket (conn (foldl (\<lambda>c (ep, i). conn_stop E i c) c m) i))"
  using assms(2,3)
proof (induction m arbitrary: c)
  case (Cons x m)
  obtain ep j where x: "x = (ep, j)" by (cases x)
  have "(\<exists>ep. (ep, i) \<in> set m) \<or> \<not> sk_is_open E (cn_socket (conn (conn_stop E j c) i))"
    using Cons.prems x conn_stop_closes [OF assms(1), of j c] conn_stop_closed_stays [OF assms(1), of i c j]
    by auto
  then show ?case using Cons.IH [of "conn_stop E j c"] Cons.prems x by simp
qed simp

lemma foldl_stop_frame [simp]:
  "acceptor (foldl (\<lambda>c (ep, i). conn_stop E i c) c m) = acceptor c"
  "srv_io (foldl (\<lambda>c (ep, i). conn_stop E i c) c m) = srv_io c"
  by (induction m arbitrary: c) (auto simp: conn_stop_def)


lemma foldl_stop_others:
  "i \<notin> snd ` set m \<Longrightarrow> conn (foldl (\<lambda>c (ep, i). conn_stop E i c) c m) i = conn c i"
  by (induction m arbitrary: c) (auto simp: conn_stop_def)

section \<open>The table\<close>

lemma distinct_snd_key: "distinct (map snd m) \<Longrightarrow> (k, v) \<in> set m \<Longrightarrow> (k', v) \<in> set m \<Longrightarrow> k = k'"
  by (induction m) (auto simp: image_iff)

lemma map_find_erase_connection:
  "map_ok m \<Longrightarrow> distinct (map snd m) \<Longrightarrow>
     map_find (erase_connection i m) ep = (if map_find m ep = Some i then None else map_find m ep)"
proof (induction i m rule: erase_connection.induct)
  case (2 i k j m)
  have "map_find m k = None" using 2(2) by (auto simp: map_find_None)
  moreover have "map_find m ep \<noteq> Some j" using 2(3) by (force dest: map_find_in)
  ultimately show ?case using 2 by auto
qed simp

lemma accept_in_accepts: "Async_accept i \<in> set ps \<Longrightarrow> i \<in> set (accepts ps)"
  by (induction ps) (auto simp: accepts_def split: option.splits)

section \<open>An example\<close>

definition ex_ts :: "(bool, uint16_t, uint32_t) tcp_server" where
  "ex_ts = (case new_tcp_server quiet_env 0 13400 False of Inr c \<Rightarrow> c | Inl e \<Rightarrow> undefined)"

lemma new_ts_quiet: "new_tcp_server quiet_env 0 13400 False = Inr ex_ts"
  by (simp add: ex_ts_def new_tcp_server_def tcp_server_acceptor_def or_throw_def)

lemma ex_ts_acceptor [simp]: "acceptor ex_ts"
  using new_tcp_server_Inr(1) [OF new_ts_quiet] by (simp add: tcp_server_acceptor_def or_throw_def)

lemmas ex_ts_simps [simp] = new_tcp_server_Inr(2-7) [OF new_ts_quiet]

definition ex_ts1 :: "(bool, uint16_t, uint32_t) tcp_server" where
  "ex_ts1 = ts_start quiet_env False ex_ts"

lemma ex_ts1_simps [simp]:
  "srv_io ex_ts1 = [Async_accept 0]" "length (conn_heap ex_ts1) = 1" "connections ex_ts1 = []"
  "acceptor ex_ts1" "alive ex_ts1"
  by (simp_all add: ex_ts1_def ts_start_def connection_create_def Let_def srv_start_op_def)

definition ex_ts2 :: "(bool, uint16_t, uint32_t) tcp_server" where
  "ex_ts2 = accept_cbk quiet_env False no_error 0
     (conn_update 0 (\<lambda>k. k\<lparr>cn_socket := True\<rparr>) (ex_ts1\<lparr>srv_io := []\<rparr>))"

lemma ex_ts_step1: "ts_step quiet_env (\<lambda>c. c) (\<lambda>i ec c. c) Ts_start ex_ts ex_ts1"
  unfolding ex_ts1_def by (rule ts_step.ts_start)

lemma ex_ts_step2:
  "ts_step quiet_env (\<lambda>c. c) (\<lambda>i ec c. c) (Ts_accepted no_error 0 True) ex_ts1 ex_ts2"
  unfolding ex_ts2_def by (rule ts_step.ts_accepted [of _ "[]" _ "[]"]) simp_all

lemma ex_ts_run1: "run (ts_step quiet_env (\<lambda>c. c) (\<lambda>i ec c. c)) ex_ts1 [Ts_accepted no_error 0 True] ex_ts2"
  using ex_ts_step2 by (rule run_stepI)

lemma ex_ts_run: "run (ts_step quiet_env (\<lambda>c. c) (\<lambda>i ec c. c)) ex_ts
    ([Ts_start] @ [Ts_accepted no_error 0 True]) ex_ts2"
proof -
  have "run (ts_step quiet_env (\<lambda>c. c) (\<lambda>i ec c. c)) ex_ts [Ts_start] ex_ts1"
    using ex_ts_step1 by (rule run_stepI)
  then show ?thesis using ex_ts_step2 by (rule run_snoc)
qed

section \<open>Properties\<close>

text \<open>
  The constructor of the TCP server throws, naming the failed call and its error, or gives a
  server that listens: its acceptor is open, it has no connection and nothing is outstanding.
\<close>

theorem tcp_server_constructor:
  fixes E :: "('s, 'ep :: linorder, 'addr) asio_env"
  assumes "asio_socket E"
  shows "case new_tcp_server E garbage lcl s0 of
      Inl e \<Rightarrow> (\<exists>what ec. e = System_error what ec \<and> ec \<noteq> no_error \<and>
        what \<in> {''acceptor open'', ''acceptor set_option'', ''acceptor bind'', ''acceptor listen''})
    | Inr c \<Rightarrow> sk_is_open E (acceptor c) \<and> connections c = [] \<and> srv_io c = [] \<and> ts_local_port c = ep_port E lcl"
proof (cases "new_tcp_server E garbage lcl s0")
  case (Inl e)
  then have "tcp_server_acceptor E lcl s0 = Inl e" by (auto simp: new_tcp_server_def bind_sum_Inl)
  with Inl show ?thesis by (auto simp: tcp_server_acceptor_def bind_sum_Inl)
next
  case (Inr c)
  have "sk_is_open E s'" if "sk_open E p t = (no_error, s')" for p t s'
    using asio_socket.open_is_open [OF assms that] by simp
  moreover have "sk_is_open E s' = sk_is_open E t" if "sk_set_option E opt t = (no_error, s')" for opt t s'
    by (rule asio_socket.set_option_is_open [OF assms that])
  moreover have "sk_is_open E s' = sk_is_open E t" if "sk_bind E lcl t = (no_error, s')" for t s'
    by (rule asio_socket.bind_is_open [OF assms that])
  moreover have "sk_is_open E s' = sk_is_open E t" if "sk_listen E t = (no_error, s')" for t s'
    by (rule asio_socket.listen_is_open [OF assms that])
  ultimately have "sk_is_open E (acceptor c)"
    using new_tcp_server_Inr(1) [OF Inr] by (auto simp: tcp_server_acceptor_def bind_sum_Inr)
  then show ?thesis using Inr new_tcp_server_Inr [OF Inr] by simp
qed

theorem tcp_server_constructor_witness:
  "new_tcp_server quiet_env 0 13400 False = Inr ex_ts \<and> acceptor ex_ts \<and> connections ex_ts = []"
  using tcp_server_constructor [OF asio_socket_quiet, of 13400 0 False] new_ts_quiet by simp

text \<open>
  C2: the TCP server accepts for ever: after it is constructed and started, as long as it is not
  stopped or started again, no accept ends with \<open>bad_descriptor\<close> or \<open>operation_aborted\<close>, the retry
  timer does not fail and no read ends with \<open>eof\<close>, \<open>connection_reset\<close> or \<open>timed_out\<close> (a read that does
  calls \<open>connection::wait_until_sent\<close>, which the sources do not define, so nothing can be said from
  there on), there is always exactly one accept or retry timer outstanding, and the acceptor is the one
  the constructor opened.
\<close>

theorem tcp_server_keeps_accepting:
  assumes "sk_is_open E (acceptor c0)" and "new_tcp_server E garbage lcl s0 = Inr c0"
    and "ts_step E base_stop wait Ts_start c0 c1"
    and "run (ts_step E base_stop wait) c1 ls c" and "\<forall>l\<in>set ls. keeps_accepting l"
  shows "accepting (srv_io c) = 1 \<and> acceptor c = acceptor c0"
proof -
  from assms(3) have "\<exists>fresh. c1 = ts_start E fresh c0" by (cases rule: ts_step.cases) auto
  then have c1: "acceptor c1 = acceptor c0" "accepting (srv_io c1) = 1"
    using ts_start_open [OF assms(1)] new_tcp_server_Inr(4) [OF assms(2)] by auto
  have "acceptor c = acceptor c0 \<and> accepting (srv_io c) = 1"
    using assms(4) _ assms(5)
  proof (rule run_label_invariant [where I = "\<lambda>c. acceptor c = acceptor c0 \<and> accepting (srv_io c) = 1"])
    show "acceptor y = acceptor c0 \<and> accepting (srv_io y) = 1"
      if "ts_step E base_stop wait l x y" "keeps_accepting l"
        "acceptor x = acceptor c0 \<and> accepting (srv_io x) = 1" for l x y
      using ts_step_accepting [OF that(1,2)] that(3) assms(1) by simp
  qed (use c1 in simp)
  then show ?thesis by simp
qed

theorem tcp_server_keeps_accepting_witness:
  "acceptor ex_ts2 \<and> accepting (srv_io ex_ts2) = 1"
  using tcp_server_keeps_accepting [OF _ new_ts_quiet ex_ts_step1 ex_ts_run1] by simp

text \<open>
  C1: \<open>stop\<close> closes everything the server holds.  From whatever state the base class's \<open>stop\<close>, which
  has no definition in the sources, leaves the server in: the acceptor is closed, the socket of every
  connection in the table is closed, the table is empty, and every connection that was not in the table
  and the outstanding operations are as they were.  (The entries of the table are connections that exist.)
\<close>

theorem tcp_server_stop_closes_all:
  assumes "asio_socket E"
    and "\<forall>(ep, i)\<in>set (connections (base_stop c)). i < length (conn_heap (base_stop c))"
  shows "\<not> sk_is_open E (acceptor (ts_stop E base_stop c)) \<and> connections (ts_stop E base_stop c) = [] \<and>
    (\<forall>(ep, i)\<in>set (connections (base_stop c)). \<not> sk_is_open E (cn_socket (conn (ts_stop E base_stop c) i))) \<and>
    (\<forall>i. i \<notin> snd ` set (connections (base_stop c)) \<longrightarrow> conn (ts_stop E base_stop c) i = conn (base_stop c) i) \<and>
    srv_io (ts_stop E base_stop c) = srv_io (base_stop c)"
proof -
  define c1 where "c1 = (if sk_is_open E (acceptor (base_stop c))
      then (base_stop c)\<lparr>acceptor := snd (sk_close E (acceptor (base_stop c)))\<rparr> else base_stop c)"
  have c1: "connections c1 = connections (base_stop c)" "conn_heap c1 = conn_heap (base_stop c)"
      "srv_io c1 = srv_io (base_stop c)" "\<not> sk_is_open E (acceptor c1)"
    using asio_socket.is_open_simps(6) [OF assms(1)] by (auto simp: c1_def)
  have st: "ts_stop E base_stop c =
      (foldl (\<lambda>c (ep, i). conn_stop E i c) c1 (connections c1))\<lparr>connections := []\<rparr>"
    by (simp add: ts_stop_def Let_def c1_def)
  have cn: "conn (d\<lparr>connections := []\<rparr>) i = conn d i" for d i by (simp add: conn_def)
  have "\<not> sk_is_open E (cn_socket (conn (ts_stop E base_stop c) i))"
    if "(ep, i) \<in> set (connections (base_stop c))" for ep i
    using that assms(2) c1 unfolding st cn by (intro foldl_stop_closed [OF assms(1)]) auto
  moreover have "conn (ts_stop E base_stop c) i = conn (base_stop c) i"
    if "i \<notin> snd ` set (connections (base_stop c))" for i
    using that c1 foldl_stop_others [of i "connections c1" E c1] by (simp add: st cn) (simp add: conn_def)
  ultimately show ?thesis using c1 by (auto simp: st)
qed

theorem tcp_server_stop_closes_all_witness:
  "let c = ex_ts2\<lparr>connections := [(50000, 0)]\<rparr>; c' = ts_stop quiet_env (\<lambda>c. c) c
   in \<not> acceptor c' \<and> connections c' = [] \<and> \<not> cn_socket (conn c' 0)"
proof -
  let ?c = "ex_ts2\<lparr>connections := [(50000, 0)]\<rparr>"
  have "0 < length (conn_heap ex_ts2)"
    by (simp add: ex_ts2_def accept_cbk_def configure_accepted_def Let_def conn_start_def conn_receive_def
        ts_start_def connection_create_def srv_start_op_def srv_log_def conn_handle_recv_buffer_exception_def
        remove_connection_def split: receive_plan.splits)
  then show ?thesis
    using tcp_server_stop_closes_all [OF asio_socket_quiet, of "\<lambda>c. c" ?c] by (simp add: Let_def)
qed



lemma ex_ts2_io: "srv_io ex_ts2 = [] @ Conn_receive 0 0 4 # [Async_accept 1]"
proof -
  let ?c = "conn_update 0 (\<lambda>k. k\<lparr>cn_socket := True\<rparr>) (ex_ts1\<lparr>srv_io := []\<rparr>)"
  have "ts_inv ex_ts1" using ts_inv_step [OF ex_ts_step1] by simp
  then have inv: "ts_inv ?c"
    using ts_inv_drop_op [of ex_ts1 "[]" "Async_accept 0" "[]"] by (intro ts_inv_conn_update) simp_all
  then have "heap_ok (conn_heap ?c)" unfolding ts_inv_alt by blast
  then have k: "conn_ok (conn ?c 0)" by (rule heap_ok_conn) simp
  have "sk_is_open quiet_env (cn_socket (conn ?c 0))" by (subst conn_update_conn) simp_all
  then show "srv_io ex_ts2 = [] @ Conn_receive 0 0 4 # [Async_accept 1]"
    using k
    by (simp add: ex_ts2_def accept_cbk_def configure_accepted_def Let_def conn_start_def
        ts_start_def connection_create_def srv_start_op_def conn_receive_ok conn_def set_remote_info_def
        conn_receive_def conn_ok_def prepare_receive_plain)
qed

text \<open>
  C16: in every run of a TCP server from its construction that stays in the code there is (no \<open>stop\<close>,
  which calls a base class function without a definition, and no read that ends with \<open>eof\<close>,
  \<open>connection_reset\<close> or \<open>timed_out\<close>, which calls another), each connection is registered under at most
  one remote endpoint, and never while its accept is still outstanding.  So removing it, after a failed
  write say, takes away exactly its entry: no key leads to it any more, and every other key leads to the
  connection it led to before.
\<close>

theorem tcp_server_connection_registered_once:
  assumes "new_tcp_server E garbage lcl s0 = Inr c0"
    and "run (ts_step E base_stop wait) c0 ls c" and "\<forall>l\<in>set ls. in_sources l"
  shows "(map_find (connections c) ep = Some i \<and> map_find (connections c) ep' = Some i \<longrightarrow> ep = ep') \<and>
    (Async_accept i \<in> set (srv_io c) \<longrightarrow> map_find (connections c) ep \<noteq> Some i) \<and>
    map_find (connections (remove_connection i c)) ep =
      (if map_find (connections c) ep = Some i then None else map_find (connections c) ep)"
proof -
  have "ts_inv c" by (rule ts_inv_run [OF assms(2,3) new_tcp_server_Inr(6) [OF assms(1)]])
  then have ok: "map_ok (connections c)" and d: "distinct (map snd (connections c) @ accepts (srv_io c))"
    by (simp_all add: ts_inv_def work_ok_def)
  from d have "ep = ep'" if "map_find (connections c) ep = Some i" "map_find (connections c) ep' = Some i"
    using distinct_snd_key [OF _ map_find_in map_find_in] that by (metis distinct_append)
  moreover from d have "map_find (connections c) ep \<noteq> Some i" if "Async_accept i \<in> set (srv_io c)"
    using accept_in_accepts [OF that] by (force dest: map_find_in)
  ultimately show ?thesis
    using d by (auto simp: remove_connection_def map_find_erase_connection [OF ok])
qed

theorem tcp_server_connection_registered_once_witness:
  "map_find (connections (remove_connection 0 ex_ts2)) 50000 \<noteq> Some 0"
  using tcp_server_connection_registered_once [OF new_ts_quiet ex_ts_run, of 50000 0 50000] by (auto split: if_splits)

text \<open>
  C29: in every run of a TCP server from its construction that stays in the code there is (no \<open>stop\<close>
  and no read that ends with \<open>eof\<close>, \<open>connection_reset\<close> or \<open>timed_out\<close>: those call functions without a
  definition), a connection has at most one read outstanding, none while it is being accepted, and
  every read is of exactly 4 bytes into the connection's 4-byte buffer.
\<close>

theorem tcp_server_connection_reads:
  assumes "new_tcp_server E garbage lcl s0 = Inr c0"
    and "run (ts_step E base_stop wait) c0 ls c" and "\<forall>l\<in>set ls. in_sources l"
    and "srv_io c = ps @ Conn_receive i off len # qs"
  shows "off = 0 \<and> len = 4 \<and> vsize (cn_recv_buffer (conn c i)) = 4 \<and>
    i \<notin> set (claims (ps @ qs)) \<and> i < length (conn_heap c)"
proof -
  have inv: "ts_inv c" by (rule ts_inv_run [OF assms(2,3) new_tcp_server_Inr(6) [OF assms(1)]])
  have "i \<in> set (claims (srv_io c))" by (simp add: assms(4) claims_def)
  with inv have i: "i < length (conn_heap c)" by (auto simp: ts_inv_def work_ok_def)
  with inv have "conn_ok (conn c i)" by (simp add: ts_inv_alt heap_ok_conn)
  moreover have "i \<notin> set (claims (ps @ qs))"
    using inv assms(4) by (auto simp: ts_inv_def work_ok_def claims_def)
  ultimately show ?thesis
    using i inv assms(4) by (auto simp: ts_inv_def work_ok_def conn_ok_def)
qed

theorem tcp_server_connection_reads_witness:
  "\<exists>ps qs. srv_io ex_ts2 = ps @ Conn_receive 0 0 4 # qs \<and> vsize (cn_recv_buffer (conn ex_ts2 0)) = 4"
  using tcp_server_connection_reads [OF new_ts_quiet ex_ts_run _ ex_ts2_io] ex_ts2_io by auto

text \<open>
  A connection whose write fails stops the write, is closed and loses its entry in the table,
  as long as the server still exists; the answer to a partial write without error is exactly what is
  left to send.
\<close>

theorem tcp_server_write_condition:
  assumes "asio_socket E" and "alive c" and "i < length (conn_heap c)"
    and "distinct (map snd (connections c))" and "unat n \<le> unat m"
  shows "case conn_write_completion_condition E ec n m i c of (k, c') \<Rightarrow>
    if ec = no_error then unat n + unat k = unat m \<and> c' = c
    else k = 0 \<and> i \<notin> set (map snd (connections c')) \<and> \<not> sk_is_open E (cn_socket (conn c' i))"
proof (cases "ec = no_error")
  case True
  with assms(5) show ?thesis by (simp add: conn_write_completion_condition_def unat_sub word_le_nat_alt)
next
  case False
  have "\<not> sk_is_open E (cn_socket (conn (conn_stop E i (srv_log t c)) i))" for t
    using assms by (intro conn_stop_closes) (simp_all add: srv_log_def)
  then show ?thesis
    using False assms erase_connection_gone [OF assms(4), of i]
    by (simp add: conn_write_completion_condition_def stop_and_remove_connection_def
        remove_connection_def conn_stop_def srv_log_def conn_def)
qed

theorem tcp_server_write_condition_witness:
  "case conn_write_completion_condition quiet_env broken_pipe 1 4 0 (ex_ts1\<lparr>connections := [(50000, 0)]\<rparr>) of
     (k, c') \<Rightarrow> k = 0 \<and> 0 \<notin> set (map snd (connections c'))"
  using tcp_server_write_condition [OF asio_socket_quiet, of "ex_ts1\<lparr>connections := [(50000, 0)]\<rparr>" 0 1 4 broken_pipe]
  by (simp split: prod.splits)

end
