(* ===== verification/Endpoint_Manager.thy ===== *)
theory Endpoint_Manager
  imports Tcp_Server Udp_Server Tcp_Client Std_Map "HOL-Library.List_Lexorder" "HOL-Library.Char_ord"
begin

text \<open>
  \<open>endpoint_manager_impl\<close> (src/endpoint_manager_impl.cpp): two registries, each a nest of three
  maps (address text, port, reliability) of shared endpoints, and the operations that create, find
  and remove endpoints.  Endpoint objects live in a store and are named by their index.
\<close>

section \<open>State\<close>

datatype ('s, 'ep, 'addr) managed =
    Tcp_server_endpoint "('s, 'ep, 'addr) tcp_server"
  | Udp_server_endpoint "('s, 'ep, 'addr) udp_server"
  | Tcp_client_endpoint "('s, 'ep, 'addr) tcp_client"

type_synonym endpoints_t = "(string, (uint16_t, (bool, nat) std_map) std_map) std_map"

record ('s, 'ep, 'addr) manager =
  objects :: "('s, 'ep, 'addr) managed list"
  server_endpoints :: endpoints_t
  client_endpoints :: endpoints_t
  m_cout :: "string list"

text \<open>
  What construction needs from the environment beside the sockets: \<open>address::from_string\<close> (\<open>None\<close>
  when it throws), the endpoint constructor, a new socket object, the value an uninitialised use
  count, \<open>sending_blocked_\<close> and \<open>is_sending_\<close> happen to have, the text of the exceptions, and
  the exception that starting a server throws when its handler cannot be allocated.
\<close>

record ('s, 'ep, 'addr) manager_env =
  from_string :: "string \<Rightarrow> 'addr option"
  from_string_what :: "string \<Rightarrow> string"
  make_endpoint :: "'addr \<Rightarrow> uint16_t \<Rightarrow> 'ep"
  fresh_socket :: 's
  garbage_count :: uint32_t
  garbage_blocked :: bool
  garbage_sending :: bool
  ctor_what :: "ctor_exception \<Rightarrow> string"
  start_exception :: "string option"

definition new_manager :: "('s, 'ep, 'addr) manager" where
  "new_manager = \<lparr>objects = [], server_endpoints = [], client_endpoints = [], m_cout = []\<rparr>"

fun managed_use_count :: "('s, 'ep, 'addr) managed \<Rightarrow> uint32_t" where
  "managed_use_count (Tcp_server_endpoint c) = get_use_count c"
| "managed_use_count (Udp_server_endpoint c) = get_use_count c"
| "managed_use_count (Tcp_client_endpoint c) = get_use_count c"

fun managed_increment :: "('s, 'ep, 'addr) managed \<Rightarrow> ('s, 'ep, 'addr) managed" where
  "managed_increment (Tcp_server_endpoint c) = Tcp_server_endpoint (increment_use_count c)"
| "managed_increment (Udp_server_endpoint c) = Udp_server_endpoint (increment_use_count c)"
| "managed_increment (Tcp_client_endpoint c) = Tcp_client_endpoint (increment_use_count c)"

fun managed_decrement :: "('s, 'ep, 'addr) managed \<Rightarrow> ('s, 'ep, 'addr) managed" where
  "managed_decrement (Tcp_server_endpoint c) = Tcp_server_endpoint (decrement_use_count c)"
| "managed_decrement (Udp_server_endpoint c) = Udp_server_endpoint (decrement_use_count c)"
| "managed_decrement (Tcp_client_endpoint c) = Tcp_client_endpoint (decrement_use_count c)"

definition object_count :: "('s, 'ep, 'addr) manager \<Rightarrow> nat \<Rightarrow> uint32_t" where
  "object_count m p = managed_use_count (objects m ! p)"

text \<open>The virtual \<open>start\<close>: the object afterwards and the exception that left it.\<close>

fun managed_start ::
  "('s, 'ep, 'addr) asio_env \<Rightarrow> ('s, 'ep, 'addr) manager_env \<Rightarrow> ('s, 'ep, 'addr) managed \<Rightarrow>
     ('s, 'ep, 'addr) managed \<times> string option" where
  "managed_start E M (Tcp_server_endpoint c) =
     (case start_exception M of
        None \<Rightarrow> (Tcp_server_endpoint (ts_start E (fresh_socket M) c), None)
      | Some what \<Rightarrow> (Tcp_server_endpoint c, Some what))"
| "managed_start E M (Udp_server_endpoint c) =
     (case start_exception M of
        None \<Rightarrow> (Udp_server_endpoint (us_start E c), None)
      | Some what \<Rightarrow> (Udp_server_endpoint c, Some what))"
| "managed_start E M (Tcp_client_endpoint c) =
     (let c' = tcp_start E c
      in (Tcp_client_endpoint c',
          if length (escaped c) < length (escaped c') then Some (last (escaped c')) else None))"

section \<open>The registry\<close>

text \<open>\<open>endpoints[ip][port][reliable]\<close> as a read, as an assignment, and its guarded removal.\<close>

definition reg_find :: "endpoints_t \<Rightarrow> string \<Rightarrow> uint16_t \<Rightarrow> bool \<Rightarrow> nat option" where
  "reg_find r ip port reliable =
     (case map_find r ip of
        None \<Rightarrow> None
      | Some ports \<Rightarrow>
          (case map_find ports port of
             None \<Rightarrow> None
           | Some flags \<Rightarrow> map_find flags reliable))"

definition reg_put :: "string \<Rightarrow> uint16_t \<Rightarrow> bool \<Rightarrow> nat \<Rightarrow> endpoints_t \<Rightarrow> endpoints_t" where
  "reg_put ip port reliable p r =
     (let ports = map_at [] r ip;
          flags = map_at [] ports port
      in map_put ip (map_put port (map_put reliable p flags) ports) r)"

definition reg_remove ::
  "(nat \<Rightarrow> uint32_t) \<Rightarrow> string \<Rightarrow> uint16_t \<Rightarrow> bool \<Rightarrow> endpoints_t \<Rightarrow> bool \<times> endpoints_t" where
  "reg_remove count ip port reliable r =
     (case map_find r ip of
        None \<Rightarrow> (False, r)
      | Some ports \<Rightarrow>
          (case map_find ports port of
             None \<Rightarrow> (False, r)
           | Some flags \<Rightarrow>
               (case map_find flags reliable of
                  None \<Rightarrow> (False, r)
                | Some p \<Rightarrow>
                    if count p = 0 then
                      let flags' = map_erase reliable flags;
                          ports' = (if map_empty flags' then map_erase port ports
                                    else map_put port flags' ports)
                      in (True, if map_empty ports' then map_erase ip r else map_put ip ports' r)
                    else (False, r))))"

section \<open>Servers\<close>

text \<open>\<open>std::make_shared<...>(...)\<close>: the object, or the text of the exception.\<close>

definition make_server ::
  "('s, 'ep, 'addr) asio_env \<Rightarrow> ('s, 'ep, 'addr) manager_env \<Rightarrow> 'addr \<Rightarrow> uint16_t \<Rightarrow> bool \<Rightarrow>
     string + ('s, 'ep, 'addr) managed" where
  "make_server E M a port reliable =
     (if reliable then
        (case new_tcp_server E (garbage_count M) (make_endpoint M a port) (fresh_socket M) of
           Inl e \<Rightarrow> Inl (ctor_what M e) | Inr c \<Rightarrow> Inr (Tcp_server_endpoint c))
      else
        (case new_udp_server E (garbage_count M) (make_endpoint M a port) (fresh_socket M) of
           Inl e \<Rightarrow> Inl (ctor_what M e) | Inr c \<Rightarrow> Inr (Udp_server_endpoint c)))"

definition creation_failed :: "string \<Rightarrow> string \<Rightarrow> uint16_t \<Rightarrow> bool \<Rightarrow>
    ('s, 'ep, 'addr) manager \<Rightarrow> ('s, 'ep, 'addr) manager" where
  "creation_failed what_failed what port reliable m =
     m\<lparr>m_cout := m_cout m @
        [what_failed @ '' Reason: '' @ what @ '' Port: '' @ dec (unat port) @ '' (reliable=''
         @ (if reliable then ''reliable'' else ''unreliable'') @ '')'']\<rparr>"

definition create_server_endpoint ::
  "('s, 'ep, 'addr) asio_env \<Rightarrow> ('s, 'ep, 'addr) manager_env \<Rightarrow> string \<Rightarrow> uint16_t \<Rightarrow> bool \<Rightarrow>
     ('s, 'ep, 'addr) manager \<Rightarrow> nat option \<times> ('s, 'ep, 'addr) manager" where
  "create_server_endpoint E M ip port reliable m =
     (let failure = creation_failed ''create_server_endpoint Server endpoint creation failed.''
      in case from_string M ip of
           None \<Rightarrow> (None, failure (from_string_what M ip) port reliable m)
         | Some a \<Rightarrow>
             (case make_server E M a port reliable of
                Inl what \<Rightarrow> (None, failure what port reliable m)
              | Inr ob \<Rightarrow>
                  let p = length (objects m);
                      m1 = m\<lparr>server_endpoints := reg_put ip port reliable p (server_endpoints m)\<rparr>
                  in case managed_start E M ob of
                       (ob', None) \<Rightarrow> (Some p, m1\<lparr>objects := objects m @ [ob']\<rparr>)
                     | (ob', Some what) \<Rightarrow>
                         (Some p, failure what port reliable (m1\<lparr>objects := objects m @ [ob']\<rparr>))))"

definition find_server_endpoint ::
  "string \<Rightarrow> uint16_t \<Rightarrow> bool \<Rightarrow> ('s, 'ep, 'addr) manager \<Rightarrow> nat option" where
  "find_server_endpoint ip port reliable m = reg_find (server_endpoints m) ip port reliable"

definition remove_server_endpoint ::
  "string \<Rightarrow> uint16_t \<Rightarrow> bool \<Rightarrow> ('s, 'ep, 'addr) manager \<Rightarrow> bool \<times> ('s, 'ep, 'addr) manager" where
  "remove_server_endpoint ip port reliable m =
     (case reg_remove (object_count m) ip port reliable (server_endpoints m) of
        (ret, r) \<Rightarrow> (ret, m\<lparr>server_endpoints := r\<rparr>))"

section \<open>Clients\<close>

text \<open>The branch for unreliable clients is compiled out: there the pointer stays null.\<close>

definition create_client_endpoint ::
  "('s, 'ep, 'addr) asio_env \<Rightarrow> ('s, 'ep, 'addr) manager_env \<Rightarrow> string \<Rightarrow> uint16_t \<Rightarrow> string \<Rightarrow> uint16_t \<Rightarrow> bool \<Rightarrow>
     ('s, 'ep, 'addr) manager \<Rightarrow> nat option \<times> ('s, 'ep, 'addr) manager" where
  "create_client_endpoint E M ip port rem_ip rem_port reliable m =
     (let failure = creation_failed ''create_client_endpoint Client endpoint creation failed.''
      in case from_string M ip of
           None \<Rightarrow> (None, failure (from_string_what M ip) port reliable m)
         | Some a \<Rightarrow>
             (case from_string M rem_ip of
                None \<Rightarrow> (None, failure (from_string_what M rem_ip) port reliable m)
              | Some b \<Rightarrow>
                  if reliable then
                    let c = new_tcp_client E (garbage_count M) (garbage_blocked M) (garbage_sending M)
                              (fresh_socket M) (make_endpoint M a port) (make_endpoint M b rem_port);
                        p = length (objects m);
                        m1 = m\<lparr>client_endpoints := reg_put ip port reliable p (client_endpoints m)\<rparr>
                    in case managed_start E M (Tcp_client_endpoint c) of
                         (ob', None) \<Rightarrow> (Some p, m1\<lparr>objects := objects m @ [ob']\<rparr>)
                       | (ob', Some what) \<Rightarrow>
                           (Some p, failure what port reliable (m1\<lparr>objects := objects m @ [ob']\<rparr>))
                  else (None, m)))"

definition find_client_endpoint ::
  "string \<Rightarrow> uint16_t \<Rightarrow> bool \<Rightarrow> ('s, 'ep, 'addr) manager \<Rightarrow> nat option" where
  "find_client_endpoint ip port reliable m = reg_find (client_endpoints m) ip port reliable"

definition remove_client_endpoint ::
  "string \<Rightarrow> uint16_t \<Rightarrow> bool \<Rightarrow> ('s, 'ep, 'addr) manager \<Rightarrow> bool \<times> ('s, 'ep, 'addr) manager" where
  "remove_client_endpoint ip port reliable m =
     (case reg_remove (object_count m) ip port reliable (client_endpoints m) of
        (ret, r) \<Rightarrow> (ret, m\<lparr>client_endpoints := r\<rparr>))"

text \<open>The owner of a returned pointer takes and gives back uses of it.\<close>

definition acquire :: "nat \<Rightarrow> ('s, 'ep, 'addr) manager \<Rightarrow> ('s, 'ep, 'addr) manager" where
  "acquire p m = m\<lparr>objects := (objects m)[p := managed_increment (objects m ! p)]\<rparr>"

definition release :: "nat \<Rightarrow> ('s, 'ep, 'addr) manager \<Rightarrow> ('s, 'ep, 'addr) manager" where
  "release p m = m\<lparr>objects := (objects m)[p := managed_decrement (objects m ! p)]\<rparr>"

end
