(* ===== verification/Manager_Laws.thy ===== *)
theory Manager_Laws imports Endpoint_Manager begin

text \<open>
  The contract of a registry of counted endpoints, its proof for the nested maps of the manager, and
  the manager as a refinement of two flat tables.
\<close>

section \<open>The contract\<close>

locale endpoint_registry =
  fixes lookup :: "'m \<Rightarrow> 'k \<Rightarrow> nat option"
    and insert_ep :: "'k \<Rightarrow> nat \<Rightarrow> 'm \<Rightarrow> 'm"
    and remove_ep :: "(nat \<Rightarrow> uint32_t) \<Rightarrow> 'k \<Rightarrow> 'm \<Rightarrow> bool \<times> 'm"
    and empty_reg :: 'm
    and ok :: "'m \<Rightarrow> bool"
  assumes ok_empty: "ok empty_reg"
    and lookup_empty: "lookup empty_reg k = None"
    and ok_insert: "ok m \<Longrightarrow> ok (insert_ep k p m)"
    and lookup_insert: "ok m \<Longrightarrow> lookup (insert_ep k p m) = (lookup m)(k \<mapsto> p)"
    and ok_remove: "ok m \<Longrightarrow> ok (snd (remove_ep count k m))"
    and remove_result: "ok m \<Longrightarrow> fst (remove_ep count k m) \<longleftrightarrow> (\<exists>p. lookup m k = Some p \<and> count p = 0)"
    and lookup_remove: "ok m \<Longrightarrow> lookup (snd (remove_ep count k m)) =
      (if fst (remove_ep count k m) then (lookup m)(k := None) else lookup m)"
begin

lemma lookup_inserted: "ok m \<Longrightarrow> lookup (insert_ep k p m) k = Some p"
  by (simp add: lookup_insert)

lemma remove_in_use: "ok m \<Longrightarrow> lookup m k = Some p \<Longrightarrow> count p \<noteq> 0 \<Longrightarrow> \<not> fst (remove_ep count k m)"
  by (simp add: remove_result)

lemma remove_twice:
  "ok m \<Longrightarrow> fst (remove_ep count k m) \<Longrightarrow> \<not> fst (remove_ep count' k (snd (remove_ep count k m)))"
  by (simp add: remove_result ok_remove lookup_remove)

lemma remove_insert:
  "ok m \<Longrightarrow> count p = 0 \<Longrightarrow>
     lookup (snd (remove_ep count k (insert_ep k p m))) = (lookup m)(k := None)"
  by (simp add: lookup_remove remove_result ok_insert lookup_insert)

lemmas registry_simps = ok_empty lookup_empty ok_insert lookup_insert ok_remove lookup_remove remove_result

end

section \<open>The nested maps\<close>

type_synonym reg_key = "string \<times> uint16_t \<times> bool"

definition reg_lookup :: "endpoints_t \<Rightarrow> reg_key \<Rightarrow> nat option" where
  "reg_lookup r k = (case k of (ip, port, reliable) \<Rightarrow> reg_find r ip port reliable)"

definition reg_insert :: "reg_key \<Rightarrow> nat \<Rightarrow> endpoints_t \<Rightarrow> endpoints_t" where
  "reg_insert k p r = (case k of (ip, port, reliable) \<Rightarrow> reg_put ip port reliable p r)"

definition reg_delete :: "(nat \<Rightarrow> uint32_t) \<Rightarrow> reg_key \<Rightarrow> endpoints_t \<Rightarrow> bool \<times> endpoints_t" where
  "reg_delete count k r = (case k of (ip, port, reliable) \<Rightarrow> reg_remove count ip port reliable r)"

text \<open>Every level is a map, and no inner map is empty.\<close>

definition ports_ok :: "(uint16_t, (bool, nat) std_map) std_map \<Rightarrow> bool" where
  "ports_ok ports \<longleftrightarrow> map_ok ports \<and>
     (\<forall>port flags. map_find ports port = Some flags \<longrightarrow> map_ok flags \<and> \<not> map_empty flags)"

definition reg_ok :: "endpoints_t \<Rightarrow> bool" where
  "reg_ok r \<longleftrightarrow> map_ok r \<and> (\<forall>ip ports. map_find r ip = Some ports \<longrightarrow> ports_ok ports \<and> \<not> map_empty ports)"

lemma reg_okD:
  "reg_ok r \<Longrightarrow> map_ok r"
  "reg_ok r \<Longrightarrow> map_find r ip = Some ports \<Longrightarrow> ports_ok ports"
  "ports_ok ports \<Longrightarrow> map_ok ports"
  "ports_ok ports \<Longrightarrow> map_find ports port = Some flags \<Longrightarrow> map_ok flags"
  by (auto simp: reg_ok_def ports_ok_def)

lemma ports_ok_Nil [simp]: "ports_ok []"
  by (simp add: ports_ok_def)

lemma ports_ok_at: "reg_ok r \<Longrightarrow> ports_ok (map_at [] r ip)"
  by (auto simp: map_at_def reg_okD split: option.splits)

lemma flags_ok_at: "ports_ok ports \<Longrightarrow> map_ok (map_at [] ports port)"
  by (auto simp: map_at_def reg_okD split: option.splits)

lemma ports_ok_put:
  "ports_ok ports \<Longrightarrow> map_ok flags \<Longrightarrow> \<not> map_empty flags \<Longrightarrow> ports_ok (map_put port flags ports)"
  by (auto simp: ports_ok_def map_ok_put map_find_put)

lemma ports_ok_erase: "ports_ok ports \<Longrightarrow> ports_ok (map_erase port ports)"
  by (auto simp: ports_ok_def map_ok_erase map_find_erase)

lemma reg_ok_put: "reg_ok r \<Longrightarrow> ports_ok ports \<Longrightarrow> \<not> map_empty ports \<Longrightarrow> reg_ok (map_put ip ports r)"
  by (auto simp: reg_ok_def map_ok_put map_find_put)

lemma reg_ok_erase: "reg_ok r \<Longrightarrow> reg_ok (map_erase ip r)"
  by (auto simp: reg_ok_def map_ok_erase map_find_erase)

lemma put_not_map_empty [simp]: "\<not> map_empty (map_put k v m)"
  by (simp add: map_empty_def)

lemma map_find_at [simp]:
  "map_find (map_at [] r ip) port = (case map_find r ip of None \<Rightarrow> None | Some ports \<Rightarrow> map_find ports port)"
  by (simp add: map_at_def split: option.splits)

lemma reg_ok_reg_put: "reg_ok r \<Longrightarrow> reg_ok (reg_put ip port reliable p r)"
  unfolding reg_put_def Let_def
  by (intro reg_ok_put ports_ok_put map_ok_put ports_ok_at flags_ok_at) simp_all

lemma reg_find_put:
  "reg_ok r \<Longrightarrow> reg_find (reg_put ip port reliable p r) ip' port' reliable' =
     (if (ip', port', reliable') = (ip, port, reliable) then Some p else reg_find r ip' port' reliable')"
  by (auto simp: reg_find_def reg_put_def Let_def map_find_put split: option.splits)

lemma reg_remove_cases:
  assumes ok: "reg_ok r"
  shows "reg_ok (snd (reg_remove count ip port reliable r)) \<and>
    (fst (reg_remove count ip port reliable r) \<longleftrightarrow> (\<exists>p. reg_find r ip port reliable = Some p \<and> count p = 0)) \<and>
    (\<forall>ip' port' reliable'. reg_find (snd (reg_remove count ip port reliable r)) ip' port' reliable' =
      (if fst (reg_remove count ip port reliable r) \<and> (ip', port', reliable') = (ip, port, reliable)
       then None else reg_find r ip' port' reliable'))"
proof (cases "\<exists>p. reg_find r ip port reliable = Some p \<and> count p = 0")
  case False
  then have "reg_remove count ip port reliable r = (False, r)"
    by (auto simp: reg_remove_def reg_find_def split: option.splits)
  with False ok show ?thesis by simp
next
  case True
  then obtain ports flags p where ip: "map_find r ip = Some ports" and port: "map_find ports port = Some flags"
      and rel: "map_find flags reliable = Some p" and z: "count p = 0"
    by (auto simp: reg_find_def split: option.splits)
  have pok: "ports_ok ports" using ok ip by (rule reg_okD)
  then have fok: "map_ok flags" using port by (rule reg_okD)
  note mok = reg_okD(1) [OF ok] reg_okD(3) [OF pok]
  define flags' where "flags' = map_erase reliable flags"
  define ports' where "ports' = (if map_empty flags' then map_erase port ports else map_put port flags' ports)"
  define r' where "r' = (if map_empty ports' then map_erase ip r else map_put ip ports' r)"
  have rem: "reg_remove count ip port reliable r = (True, r')"
    using ip port rel z by (simp add: reg_remove_def Let_def flags'_def ports'_def r'_def)
  have f': "map_find flags' x = (if x = reliable then None else map_find flags x)" for x
    using fok by (simp add: flags'_def map_find_erase)
  have fe: "map_empty flags' \<Longrightarrow> map_find flags' x = None" for x by (simp add: map_empty_def)
  have p': "map_find ports' x = (if x = port then (if map_empty flags' then None else Some flags')
      else map_find ports x)" for x
    using mok(2) by (simp add: ports'_def map_find_erase map_find_put)
  have pe: "map_empty ports' \<Longrightarrow> map_find ports' x = None" for x by (simp add: map_empty_def)
  have r': "map_find r' x = (if x = ip then (if map_empty ports' then None else Some ports')
      else map_find r x)" for x
    using mok(1) by (simp add: r'_def map_find_erase map_find_put)
  have "ports_ok ports'"
    using pok fok by (simp add: ports'_def ports_ok_erase ports_ok_put flags'_def map_ok_erase)
  then have "reg_ok r'" using ok by (simp add: r'_def reg_ok_erase reg_ok_put)
  moreover have "reg_find r' ip' port' reliable' =
      (if (ip', port', reliable') = (ip, port, reliable) then None else reg_find r ip' port' reliable')"
    for ip' port' reliable'
  proof -
    have inner: "(case map_find ports' port' of None \<Rightarrow> None | Some fl \<Rightarrow> map_find fl reliable') =
        (if port' = port \<and> reliable' = reliable then None
         else case map_find ports port' of None \<Rightarrow> None | Some fl \<Rightarrow> map_find fl reliable')"
      using f' [of reliable'] fe [of reliable'] port by (auto simp: p')
    have "(case (if map_empty ports' then None else Some ports') of None \<Rightarrow> None
        | Some ps \<Rightarrow> (case map_find ps port' of None \<Rightarrow> None | Some fl \<Rightarrow> map_find fl reliable')) =
        (case map_find ports' port' of None \<Rightarrow> None | Some fl \<Rightarrow> map_find fl reliable')"
      using pe [of port'] by simp
    then show ?thesis using inner ip by (simp add: reg_find_def r')
  qed
  ultimately show ?thesis using rem True by simp
qed

interpretation reg: endpoint_registry reg_lookup reg_insert reg_delete "[]" reg_ok
proof
  show "reg_ok []" by (simp add: reg_ok_def)
  show "reg_lookup [] k = None" for k by (simp add: reg_lookup_def reg_find_def split: prod.splits)
  show "reg_ok m \<Longrightarrow> reg_ok (reg_insert k p m)" for k p m
    by (simp add: reg_insert_def reg_ok_reg_put split: prod.splits)
  show "reg_ok m \<Longrightarrow> reg_lookup (reg_insert k p m) = (reg_lookup m)(k \<mapsto> p)" for k p m
    by (rule ext) (simp add: reg_lookup_def reg_insert_def reg_find_put split: prod.splits)
  fix m :: endpoints_t and count :: "nat \<Rightarrow> uint32_t" and k :: reg_key
  obtain ip port reliable where k: "k = (ip, port, reliable)" by (cases k)
  assume "reg_ok m"
  note cs = reg_remove_cases [OF this, of count ip port reliable]
  show "reg_ok (snd (reg_delete count k m))" using cs by (simp add: reg_delete_def k)
  show "fst (reg_delete count k m) \<longleftrightarrow> (\<exists>p. reg_lookup m k = Some p \<and> count p = 0)"
    using cs by (simp add: reg_delete_def reg_lookup_def k)
  show "reg_lookup (snd (reg_delete count k m)) =
      (if fst (reg_delete count k m) then (reg_lookup m)(k := None) else reg_lookup m)"
    using cs by (intro ext) (auto simp: reg_delete_def reg_lookup_def k split: prod.splits)
qed

end
