(* ===== verification/Manager_Props.thy ===== *)
theory Manager_Props
  imports Manager_Laws Asio_Env
begin

text \<open>
  The properties of the endpoint manager.
\<close>

section \<open>Calls\<close>

datatype manager_call =
    Create_server string uint16_t bool
  | Create_client string uint16_t string uint16_t bool
  | Remove_server string uint16_t bool
  | Remove_client string uint16_t bool
  | Acquire_object nat
  | Release_object nat

fun manager_step ::
  "('s, 'ep, 'addr) asio_env \<Rightarrow> ('s, 'ep, 'addr) manager_env \<Rightarrow>
     ('s, 'ep, 'addr) manager \<Rightarrow> manager_call \<Rightarrow> ('s, 'ep, 'addr) manager" where
  "manager_step E M m (Create_server ip port reliable) = snd (create_server_endpoint E M ip port reliable m)"
| "manager_step E M m (Create_client ip port rip rport reliable) =
     snd (create_client_endpoint E M ip port rip rport reliable m)"
| "manager_step E M m (Remove_server ip port reliable) = snd (remove_server_endpoint ip port reliable m)"
| "manager_step E M m (Remove_client ip port reliable) = snd (remove_client_endpoint ip port reliable m)"
| "manager_step E M m (Acquire_object p) = acquire p m"
| "manager_step E M m (Release_object p) = release p m"

definition manager_run ::
  "('s, 'ep, 'addr) asio_env \<Rightarrow> ('s, 'ep, 'addr) manager_env \<Rightarrow> manager_call list \<Rightarrow> ('s, 'ep, 'addr) manager" where
  "manager_run E M calls = foldl (manager_step E M) new_manager calls"

definition manager_ok :: "('s, 'ep, 'addr) manager \<Rightarrow> bool" where
  "manager_ok m \<longleftrightarrow> reg_ok (server_endpoints m) \<and> reg_ok (client_endpoints m)"

section \<open>Creation\<close>

text \<open>Whether the endpoint object of a creation call can be constructed.\<close>

definition server_constructible ::
  "('s, 'ep, 'addr) asio_env \<Rightarrow> ('s, 'ep, 'addr) manager_env \<Rightarrow> string \<Rightarrow> uint16_t \<Rightarrow> bool \<Rightarrow> bool" where
  "server_constructible E M ip port reliable =
     (case from_string M ip of None \<Rightarrow> False
      | Some a \<Rightarrow> (case make_server E M a port reliable of Inl what \<Rightarrow> False | Inr ob \<Rightarrow> True))"

definition client_constructible ::
  "('s, 'ep, 'addr) manager_env \<Rightarrow> string \<Rightarrow> string \<Rightarrow> bool \<Rightarrow> bool" where
  "client_constructible M ip rip reliable \<longleftrightarrow>
     from_string M ip \<noteq> None \<and> from_string M rip \<noteq> None \<and> reliable"

lemma creation_failed_simps [simp]:
  "objects (creation_failed t what port reliable m) = objects m"
  "server_endpoints (creation_failed t what port reliable m) = server_endpoints m"
  "client_endpoints (creation_failed t what port reliable m) = client_endpoints m"
  by (simp_all add: creation_failed_def)

lemma create_server_cases:
  "(if server_constructible E M ip port reliable then
      fst (create_server_endpoint E M ip port reliable m) = Some (length (objects m)) \<and>
      server_endpoints (snd (create_server_endpoint E M ip port reliable m)) =
        reg_put ip port reliable (length (objects m)) (server_endpoints m)
    else
      fst (create_server_endpoint E M ip port reliable m) = None \<and>
      server_endpoints (snd (create_server_endpoint E M ip port reliable m)) = server_endpoints m \<and>
      objects (snd (create_server_endpoint E M ip port reliable m)) = objects m) \<and>
   client_endpoints (snd (create_server_endpoint E M ip port reliable m)) = client_endpoints m"
  by (simp add: create_server_endpoint_def server_constructible_def Let_def
      split: option.splits sum.splits prod.splits)

lemma create_client_cases:
  "(if client_constructible M ip rip reliable then
      fst (create_client_endpoint E M ip port rip rport reliable m) = Some (length (objects m)) \<and>
      client_endpoints (snd (create_client_endpoint E M ip port rip rport reliable m)) =
        reg_put ip port reliable (length (objects m)) (client_endpoints m)
    else
      fst (create_client_endpoint E M ip port rip rport reliable m) = None \<and>
      client_endpoints (snd (create_client_endpoint E M ip port rip rport reliable m)) = client_endpoints m \<and>
      objects (snd (create_client_endpoint E M ip port rip rport reliable m)) = objects m) \<and>
   server_endpoints (snd (create_client_endpoint E M ip port rip rport reliable m)) = server_endpoints m"
  by (simp add: create_client_endpoint_def client_constructible_def Let_def
      split: option.splits prod.splits)

lemma remove_server_simps [simp]:
  "server_endpoints (snd (remove_server_endpoint ip port reliable m)) =
     snd (reg_delete (object_count m) (ip, port, reliable) (server_endpoints m))"
  "fst (remove_server_endpoint ip port reliable m) =
     fst (reg_delete (object_count m) (ip, port, reliable) (server_endpoints m))"
  "client_endpoints (snd (remove_server_endpoint ip port reliable m)) = client_endpoints m"
  "objects (snd (remove_server_endpoint ip port reliable m)) = objects m"
  by (simp_all add: remove_server_endpoint_def reg_delete_def split: prod.splits)

lemma remove_client_simps [simp]:
  "client_endpoints (snd (remove_client_endpoint ip port reliable m)) =
     snd (reg_delete (object_count m) (ip, port, reliable) (client_endpoints m))"
  "fst (remove_client_endpoint ip port reliable m) =
     fst (reg_delete (object_count m) (ip, port, reliable) (client_endpoints m))"
  "server_endpoints (snd (remove_client_endpoint ip port reliable m)) = server_endpoints m"
  "objects (snd (remove_client_endpoint ip port reliable m)) = objects m"
  by (simp_all add: remove_client_endpoint_def reg_delete_def split: prod.splits)

lemma use_simps [simp]:
  "server_endpoints (acquire p m) = server_endpoints m"
  "client_endpoints (acquire p m) = client_endpoints m"
  "server_endpoints (release p m) = server_endpoints m"
  "client_endpoints (release p m) = client_endpoints m"
  by (simp_all add: acquire_def release_def)

lemma reg_put_insert: "reg_put ip port reliable p r = reg_insert (ip, port, reliable) p r"
  by (simp add: reg_insert_def)

lemma find_server_lookup:
  "find_server_endpoint ip port reliable m = reg_lookup (server_endpoints m) (ip, port, reliable)"
  by (simp add: find_server_endpoint_def reg_lookup_def)

lemma find_client_lookup:
  "find_client_endpoint ip port reliable m = reg_lookup (client_endpoints m) (ip, port, reliable)"
  by (simp add: find_client_endpoint_def reg_lookup_def)

lemma manager_ok_step: "manager_ok m \<Longrightarrow> manager_ok (manager_step E M m call)"
proof (cases call)
  case (Create_server ip port reliable)
  assume "manager_ok m"
  then show ?thesis
    using Create_server create_server_cases [of E M ip port reliable m]
    by (auto simp: manager_ok_def reg_ok_reg_put split: if_splits)
next
  case (Create_client ip port rip rport reliable)
  assume "manager_ok m"
  then show ?thesis
    using Create_client create_client_cases [of M ip rip reliable E port rport m]
    by (auto simp: manager_ok_def reg_ok_reg_put split: if_splits)
qed (auto simp: manager_ok_def reg.ok_remove)

lemma manager_ok_run: "manager_ok (manager_run E M calls)"
proof -
  have "manager_ok m \<Longrightarrow> manager_ok (foldl (manager_step E M) m calls)" for m
    by (induction calls arbitrary: m) (simp_all add: manager_ok_step)
  moreover have "manager_ok new_manager"
    by (simp add: manager_ok_def new_manager_def reg.ok_empty)
  ultimately show ?thesis unfolding manager_run_def by blast
qed

lemma use_count_start [simp]:
  fixes E :: "('s, 'ep, 'addr) asio_env"
  shows "managed_use_count (fst (managed_start E M ob)) = managed_use_count ob"
proof -
  have [simp]: "use_count (try_option E opt t c) = use_count c" for opt t and c :: "('s, 'ep, 'addr) tcp_client"
    by (simp add: try_option_def Let_def log_def split: prod.splits)
  have "use_count (tcp_connect E c) = use_count c" for c :: "('s, 'ep, 'addr) tcp_client"
    by (simp add: tcp_connect_def Let_def post_caught_def post_uncaught_def start_async_def log_def split: prod.splits option.splits)
  then show ?thesis
    by (cases ob) (simp_all add: get_use_count_def tcp_start_def ts_start_def connection_create_def Let_def
        srv_start_op_def us_start_def us_receive_def receive_unicast_def split: option.splits)
qed

lemma use_count_make:
  assumes "make_server E M a port reliable = Inr ob"
  shows "managed_use_count ob = garbage_count M"
proof (cases reliable)
  case True
  with assms show ?thesis
    by (auto simp: make_server_def new_tcp_server_def bind_sum_Inr get_use_count_def
        init_server_endpoint_def server_endpoint.defs split: sum.splits)
next
  case False
  with assms obtain c where c: "new_udp_server E (garbage_count M) (make_endpoint M a port) (fresh_socket M) = Inr c"
      and ob: "ob = Udp_server_endpoint c"
    by (auto simp: make_server_def split: sum.splits)
  have "use_count c = garbage_count M" by (rule new_udp_server_Inr [OF c])
  then show ?thesis by (simp add: ob get_use_count_def)
qed

lemma create_server_count:
  assumes "create_server_endpoint E M ip port reliable m = (Some p, m')"
  shows "object_count m' p = garbage_count M"
  using assms use_count_start use_count_make
  by (auto simp: create_server_endpoint_def object_count_def Let_def
      split: option.splits sum.splits prod.splits dest!: arg_cong [of _ _ fst])

section \<open>The specification: two flat tables\<close>

type_synonym tables = "(reg_key \<Rightarrow> nat option) \<times> (reg_key \<Rightarrow> nat option)"

definition tables_of :: "('s, 'ep, 'addr) manager \<Rightarrow> tables" where
  "tables_of m = (reg_lookup (server_endpoints m), reg_lookup (client_endpoints m))"

definition unregister :: "(nat \<Rightarrow> uint32_t) \<Rightarrow> reg_key \<Rightarrow> (reg_key \<Rightarrow> nat option) \<Rightarrow> (reg_key \<Rightarrow> nat option)" where
  "unregister count k t = (case t k of None \<Rightarrow> t | Some p \<Rightarrow> if count p = 0 then t(k := None) else t)"

text \<open>\<open>n\<close> names the next object, \<open>count\<close> are the use counts.\<close>

fun tables_step ::
  "('s, 'ep, 'addr) asio_env \<Rightarrow> ('s, 'ep, 'addr) manager_env \<Rightarrow> nat \<Rightarrow> (nat \<Rightarrow> uint32_t) \<Rightarrow>
     manager_call \<Rightarrow> tables \<Rightarrow> tables" where
  "tables_step E M n count (Create_server ip port reliable) (S, C) =
     (if server_constructible E M ip port reliable then S((ip, port, reliable) \<mapsto> n) else S, C)"
| "tables_step E M n count (Create_client ip port rip rport reliable) (S, C) =
     (S, if client_constructible M ip rip reliable then C((ip, port, reliable) \<mapsto> n) else C)"
| "tables_step E M n count (Remove_server ip port reliable) (S, C) = (unregister count (ip, port, reliable) S, C)"
| "tables_step E M n count (Remove_client ip port reliable) (S, C) = (S, unregister count (ip, port, reliable) C)"
| "tables_step E M n count (Acquire_object p) t = t"
| "tables_step E M n count (Release_object p) t = t"

lemma unregister_delete:
  assumes "reg_ok r"
  shows "reg_lookup (snd (reg_delete count k r)) = unregister count k (reg_lookup r)"
  using reg.lookup_remove [OF assms, of count k] reg.remove_result [OF assms, of count k]
  by (auto simp: unregister_def split: option.splits)

text \<open>One call, from any well-formed manager.\<close>

lemma manager_step_refines:
  assumes "manager_ok m"
  shows "tables_of (manager_step E M m call) =
     tables_step E M (length (objects m)) (object_count m) call (tables_of m)"
proof -
  have ok: "reg_ok (server_endpoints m)" "reg_ok (client_endpoints m)"
    using assms by (simp_all add: manager_ok_def)
  show ?thesis
  proof (cases call)
    case (Create_server ip port reliable)
    then show ?thesis
      using create_server_cases [of E M ip port reliable m] ok
      by (auto simp: tables_of_def reg_put_insert reg.lookup_insert split: if_splits)
  next
    case (Create_client ip port rip rport reliable)
    then show ?thesis
      using create_client_cases [of M ip rip reliable E port rport m] ok
      by (auto simp: tables_of_def reg_put_insert reg.lookup_insert split: if_splits)
  qed (use ok in \<open>simp_all add: tables_of_def unregister_delete\<close>)
qed

section \<open>Properties\<close>

definition ex_env :: "(bool, uint16_t, uint32_t) manager_env" where
  "ex_env = \<lparr>from_string = (\<lambda>ip. if ip = ''127.0.0.1'' then Some 1 else None),
     from_string_what = (\<lambda>_. ''bad address''), make_endpoint = (\<lambda>a p. p), fresh_socket = False,
     garbage_count = 0, garbage_blocked = False, garbage_sending = False,
     ctor_what = (\<lambda>_. ''what''), start_exception = None\<rparr>"

lemma ex_server: "server_constructible quiet_env ex_env ''127.0.0.1'' 13400 True"
  by (simp add: server_constructible_def ex_env_def make_server_def new_tcp_server_def
      tcp_server_acceptor_def or_throw_def)

text \<open>
  C17: the manager implements two flat tables: whatever calls were made before, every call changes
  the nested maps exactly as it changes the table from (address, port, reliability) to endpoints,
  with creation of an endpoint entering it, and removal taking it out only when its use count is 0.
\<close>

theorem manager_refines_tables:
  "tables_of (manager_step E M (manager_run E M calls) call) =
     tables_step E M (length (objects (manager_run E M calls))) (object_count (manager_run E M calls)) call
       (tables_of (manager_run E M calls))"
  by (rule manager_step_refines [OF manager_ok_run])

text \<open>
  After any calls, both registries are well-formed: every level is a map with sorted keys and no
  address or port is left with an empty inner map, so removing the last endpoint of an address
  removes the address.
\<close>

theorem manager_registries_wf:
  "reg_ok (server_endpoints (manager_run E M calls)) \<and> reg_ok (client_endpoints (manager_run E M calls))"
  using manager_ok_run [of E M calls] by (simp add: manager_ok_def)

text \<open>
  Creating a server either fails, returning null and registering nothing, or returns a new
  endpoint that the same key then finds, every other key finding what it found before; an exception
  of \<open>start\<close> is reported but leaves the endpoint registered and returned.  Client endpoints are not
  affected.
\<close>

theorem create_server_then_find:
  assumes "create_server_endpoint E M ip port reliable (manager_run E M calls) = (ret, m')"
  shows "(\<forall>ip' port' reliable'. find_server_endpoint ip' port' reliable' m' =
      (if ret \<noteq> None \<and> (ip', port', reliable') = (ip, port, reliable) then ret
       else find_server_endpoint ip' port' reliable' (manager_run E M calls))) \<and>
    (ret \<noteq> None \<longleftrightarrow> server_constructible E M ip port reliable) \<and>
    (\<forall>ip' port' reliable'. find_client_endpoint ip' port' reliable' m' =
      find_client_endpoint ip' port' reliable' (manager_run E M calls))"
proof -
  have ok: "reg_ok (server_endpoints (manager_run E M calls))"
    using manager_ok_run [of E M calls] by (simp add: manager_ok_def)
  show ?thesis
    using assms create_server_cases [of E M ip port reliable "manager_run E M calls"] ok
    by (auto simp: find_server_lookup find_client_lookup reg_put_insert reg.lookup_insert split: if_splits)
qed

theorem create_server_then_find_witness:
  "find_server_endpoint ''127.0.0.1'' 13400 True
     (snd (create_server_endpoint quiet_env ex_env ''127.0.0.1'' 13400 True (manager_run quiet_env ex_env []))) \<noteq> None"
  using create_server_then_find [OF prod.collapse [symmetric], of quiet_env ex_env "''127.0.0.1''" 13400 True "[]"]
    ex_server
  by simp

text \<open>
  C6: \<open>remove_server_endpoint\<close> answers true exactly when the key is registered and nobody uses its
  endpoint; then, and only then, the key is no longer found.  All other keys, the client endpoints
  and the endpoint object itself, which is not stopped, stay as they are.  A second removal answers
  false.
\<close>

theorem remove_server_guarded:
  assumes "remove_server_endpoint ip port reliable (manager_run E M calls) = (ret, m')"
  shows "(ret \<longleftrightarrow> (\<exists>p. find_server_endpoint ip port reliable (manager_run E M calls) = Some p \<and>
        object_count (manager_run E M calls) p = 0)) \<and>
    (\<forall>ip' port' reliable'. find_server_endpoint ip' port' reliable' m' =
      (if ret \<and> (ip', port', reliable') = (ip, port, reliable) then None
       else find_server_endpoint ip' port' reliable' (manager_run E M calls))) \<and>
    client_endpoints m' = client_endpoints (manager_run E M calls) \<and>
    objects m' = objects (manager_run E M calls) \<and>
    (ret \<longrightarrow> \<not> fst (remove_server_endpoint ip port reliable m'))"
proof -
  let ?m = "manager_run E M calls"
  have ok: "reg_ok (server_endpoints ?m)"
    using manager_ok_run [of E M calls] by (simp add: manager_ok_def)
  have m': "m' = snd (remove_server_endpoint ip port reliable ?m)"
      "ret = fst (remove_server_endpoint ip port reliable ?m)"
    using assms by simp_all
  show ?thesis
    using reg.remove_result [OF ok, of "object_count ?m" "(ip, port, reliable)"]
      reg.lookup_remove [OF ok, of "object_count ?m" "(ip, port, reliable)"]
      reg.remove_twice [OF ok, of "object_count ?m" "(ip, port, reliable)"]
    by (auto simp: m' find_server_lookup)
qed

theorem remove_server_guarded_witness:
  "\<not> fst (remove_server_endpoint ''127.0.0.1'' 13400 True (manager_run quiet_env ex_env []))"
  using remove_server_guarded [OF prod.collapse [symmetric], of "''127.0.0.1''" 13400 True quiet_env ex_env "[]"]
  by (simp add: manager_run_def new_manager_def find_server_lookup reg.lookup_empty)

text \<open>
  The same contract for clients, and their creation: only a reliable client with two valid
  addresses is created; an unreliable one is always null and registers nothing, whatever the
  addresses.
\<close>

theorem client_endpoints_contract:
  assumes "create_client_endpoint E M ip port rip rport reliable (manager_run E M calls) = (ret, m')"
  shows "(ret \<noteq> None \<longleftrightarrow> reliable \<and> from_string M ip \<noteq> None \<and> from_string M rip \<noteq> None) \<and>
    (\<forall>ip' port' reliable'. find_client_endpoint ip' port' reliable' m' =
      (if ret \<noteq> None \<and> (ip', port', reliable') = (ip, port, reliable) then ret
       else find_client_endpoint ip' port' reliable' (manager_run E M calls))) \<and>
    (fst (remove_client_endpoint ip port reliable m') \<longleftrightarrow>
      (\<exists>p. find_client_endpoint ip port reliable m' = Some p \<and> object_count m' p = 0)) \<and>
    server_endpoints m' = server_endpoints (manager_run E M calls)"
proof -
  let ?m = "manager_run E M calls"
  have ok: "reg_ok (client_endpoints ?m)" and mok: "manager_ok ?m"
    using manager_ok_run [of E M calls] by (simp_all add: manager_ok_def)
  have m': "m' = manager_step E M ?m (Create_client ip port rip rport reliable)"
    using assms by simp
  have ok': "reg_ok (client_endpoints m')"
    using manager_ok_step [OF mok] unfolding m' manager_ok_def by blast
  show ?thesis
    using assms create_client_cases [of M ip rip reliable E port rport ?m] ok
      reg.remove_result [OF ok', of "object_count m'" "(ip, port, reliable)"]
    by (auto simp: find_client_lookup reg_put_insert reg.lookup_insert client_constructible_def split: if_splits)
qed

theorem client_endpoints_contract_witness:
  "fst (create_client_endpoint quiet_env ex_env ''127.0.0.1'' 0 ''127.0.0.1'' 13400 False
     (manager_run quiet_env ex_env [])) = None"
  using client_endpoints_contract [OF prod.collapse [symmetric],
      of quiet_env ex_env "''127.0.0.1''" 0 "''127.0.0.1''" 13400 False "[]"]
  by simp

text \<open>
  Whether a server nobody has used can be removed right after its creation depends on the value
  its use count was never initialised with: it is removed exactly if that value happens to be 0.
\<close>

theorem fresh_server_removable_iff:
  assumes "create_server_endpoint E M ip port reliable (manager_run E M calls) = (Some p, m')"
  shows "fst (remove_server_endpoint ip port reliable m') \<longleftrightarrow> garbage_count M = 0"
proof -
  let ?m = "manager_run E M calls"
  have mok: "manager_ok ?m" by (rule manager_ok_run)
  have m': "m' = manager_step E M ?m (Create_server ip port reliable)" using assms by simp
  have ok': "reg_ok (server_endpoints m')"
    using manager_ok_step [OF mok] unfolding m' manager_ok_def by blast
  have found: "reg_lookup (server_endpoints m') (ip, port, reliable) = Some p"
    using assms create_server_cases [of E M ip port reliable ?m] mok
    by (auto simp: reg_put_insert reg.lookup_insert manager_ok_def split: if_splits)
  have "object_count m' p = garbage_count M"
    by (rule create_server_count [OF assms])
  then show ?thesis
    using reg.remove_result [OF ok', of "object_count m'" "(ip, port, reliable)"] found by simp
qed


theorem fresh_server_removable_iff_witness:
  "fst (remove_server_endpoint ''127.0.0.1'' 13400 True
     (snd (create_server_endpoint quiet_env ex_env ''127.0.0.1'' 13400 True (manager_run quiet_env ex_env []))))"
proof -
  let ?r = "create_server_endpoint quiet_env ex_env ''127.0.0.1'' 13400 True (manager_run quiet_env ex_env [])"
  have "fst ?r = Some 0"
    using create_server_cases [of quiet_env ex_env "''127.0.0.1''" 13400 True "manager_run quiet_env ex_env []"] ex_server
    by (simp add: manager_run_def new_manager_def)
  then have "?r = (Some 0, snd ?r)" by (simp add: prod_eq_iff)
  from fresh_server_removable_iff [OF this] show ?thesis by (simp add: ex_env_def)
qed

end
