(* ===== verification/Manager_Typing.thy ===== *)
theory Manager_Typing imports Manager_Props begin

text \<open>
  The registries of the endpoint manager hand out base-class pointers; callers rely on the dynamic
  type that goes with the key they asked for.  Here the dynamic type of an object is a value, and
  the registries are shown to be typed by their keys, with no dangling and no shared entries.
\<close>

datatype endpoint_type = Tcp_server_type | Udp_server_type | Tcp_client_type

fun type_of :: "('s, 'ep, 'addr) managed \<Rightarrow> endpoint_type" where
  "type_of (Tcp_server_endpoint c) = Tcp_server_type"
| "type_of (Udp_server_endpoint c) = Udp_server_type"
| "type_of (Tcp_client_endpoint c) = Tcp_client_type"

fun server_type :: "bool \<Rightarrow> endpoint_type" where
  "server_type reliable = (if reliable then Tcp_server_type else Udp_server_type)"

text \<open>An entry of a table refers to an object, of the type its key promises.\<close>

definition entries_typed ::
  "('s, 'ep, 'addr) managed list \<Rightarrow> (reg_key \<Rightarrow> nat option) \<Rightarrow> (bool \<Rightarrow> endpoint_type \<Rightarrow> bool) \<Rightarrow> bool" where
  "entries_typed obs t ty \<longleftrightarrow>
     (\<forall>ip port reliable p. t (ip, port, reliable) = Some p \<longrightarrow>
        p < length obs \<and> ty reliable (type_of (obs ! p))) \<and>
     (\<forall>k k' p. t k = Some p \<longrightarrow> t k' = Some p \<longrightarrow> k = k')"

definition manager_typed :: "('s, 'ep, 'addr) manager \<Rightarrow> bool" where
  "manager_typed m \<longleftrightarrow>
     entries_typed (objects m) (fst (tables_of m)) (\<lambda>reliable ty. ty = server_type reliable) \<and>
     entries_typed (objects m) (snd (tables_of m)) (\<lambda>reliable ty. reliable \<and> ty = Tcp_client_type)"

section \<open>What the operations do to types\<close>

lemma type_of_use [simp]:
  "type_of (managed_increment ob) = type_of ob"
  "type_of (managed_decrement ob) = type_of ob"
  by (cases ob; simp)+

lemma type_of_start [simp]: "type_of (fst (managed_start E M ob)) = type_of ob"
  by (cases ob) (simp_all add: Let_def split: option.splits)

lemma type_of_make: "make_server E M a port reliable = Inr ob \<Longrightarrow> type_of ob = server_type reliable"
  by (auto simp: make_server_def split: if_splits sum.splits)

lemma entries_typedD:
  assumes "entries_typed obs t ty"
  shows "t k = Some p \<Longrightarrow> p < length obs"
    and "t k = Some p \<Longrightarrow> ty (snd (snd k)) (type_of (obs ! p))"
    and "t k = Some p \<Longrightarrow> t k' = Some p \<Longrightarrow> k = k'"
proof -
  obtain ip port reliable where k: "k = (ip, port, reliable)" by (rule prod_cases3)
  show "t k = Some p \<Longrightarrow> p < length obs" "t k = Some p \<Longrightarrow> ty (snd (snd k)) (type_of (obs ! p))"
    using assms unfolding entries_typed_def k by simp_all
  show "t k = Some p \<Longrightarrow> t k' = Some p \<Longrightarrow> k = k'"
    using assms unfolding entries_typed_def by blast
qed

lemma entries_typedI:
  assumes "\<And>k p. t k = Some p \<Longrightarrow> p < length obs \<and> ty (snd (snd k)) (type_of (obs ! p))"
    and "\<And>k k' p. t k = Some p \<Longrightarrow> t k' = Some p \<Longrightarrow> k = k'"
  shows "entries_typed obs t ty"
  using assms(1) [of "(_, _, _)"] assms(2) by (simp add: entries_typed_def)

lemma entries_typed_weaken:
  assumes t: "entries_typed obs t ty" and sub: "\<And>k p. t' k = Some p \<Longrightarrow> t k = Some p"
    and "length obs \<le> length obs'" and "\<And>p. p < length obs \<Longrightarrow> type_of (obs' ! p) = type_of (obs ! p)"
  shows "entries_typed obs' t' ty"
proof (rule entries_typedI)
  fix k p assume k: "t' k = Some p"
  from entries_typedD(1,2) [OF t sub [OF k]] assms(3,4)
  show "p < length obs' \<and> ty (snd (snd k)) (type_of (obs' ! p))" by simp
  show "t' k' = Some p \<Longrightarrow> k = k'" for k' by (rule entries_typedD(3) [OF t sub [OF k] sub])
qed

lemma entries_typed_new:
  assumes t: "entries_typed obs t ty" and ob: "ty reliable (type_of ob)"
  shows "entries_typed (obs @ [ob]) (t((ip, port, reliable) \<mapsto> length obs)) ty"
proof (rule entries_typedI)
  let ?t = "t((ip, port, reliable) \<mapsto> length obs)"
  fix k p assume k: "?t k = Some p"
  have old: "t k'' = Some p \<Longrightarrow> p < length obs" for k'' by (rule entries_typedD(1) [OF t])
  show "p < length (obs @ [ob]) \<and> ty (snd (snd k)) (type_of ((obs @ [ob]) ! p))"
    using k ob old [of k] entries_typedD(2) [OF t, of k p] by (auto simp: nth_append split: if_splits)
  show "?t k' = Some p \<Longrightarrow> k = k'" for k'
    using k old [of k] old [of k'] entries_typedD(3) [OF t, of k p k'] by (simp split: if_splits)
qed

lemma entries_typed_append: "entries_typed obs t ty \<Longrightarrow> entries_typed (obs @ [ob]) t ty"
  by (erule entries_typed_weaken) (simp_all add: nth_append)

lemma entries_typed_unregister: "entries_typed obs t ty \<Longrightarrow> entries_typed obs (unregister count k t) ty"
  by (erule entries_typed_weaken) (auto simp: unregister_def split: option.splits if_splits)

lemma entries_typed_update:
  "entries_typed obs t ty \<Longrightarrow> type_of ob = type_of (obs ! p) \<Longrightarrow> entries_typed (obs[p := ob]) t ty"
  by (erule entries_typed_weaken) (simp_all, metis nth_list_update_eq nth_list_update_neq)

lemma create_server_object:
  assumes "server_constructible E M ip port reliable"
  shows "\<exists>ob. objects (snd (create_server_endpoint E M ip port reliable m)) = objects m @ [ob] \<and>
    type_of ob = server_type reliable"
proof -
  obtain a ob where a: "from_string M ip = Some a" and mk: "make_server E M a port reliable = Inr ob"
    using assms by (auto simp: server_constructible_def split: option.splits sum.splits)
  have "objects (snd (create_server_endpoint E M ip port reliable m)) = objects m @ [fst (managed_start E M ob)]"
    using a mk by (simp add: create_server_endpoint_def Let_def split: prod.splits option.splits)
  then show ?thesis using type_of_make [OF mk] by simp
qed

lemma create_client_object:
  assumes "client_constructible M ip rip reliable"
  shows "\<exists>ob. objects (snd (create_client_endpoint E M ip port rip rport reliable m)) = objects m @ [ob] \<and>
    type_of ob = Tcp_client_type"
proof -
  obtain c where "objects (snd (create_client_endpoint E M ip port rip rport reliable m)) =
      objects m @ [fst (managed_start E M (Tcp_client_endpoint c))]"
    using assms by (auto simp: create_client_endpoint_def client_constructible_def Let_def split: prod.splits option.splits)
  then show ?thesis by (intro exI conjI) (assumption, simp only: type_of_start type_of.simps)
qed

section \<open>The registries are typed\<close>

lemma objects_use [simp]:
  "objects (acquire p m) = (objects m)[p := managed_increment (objects m ! p)]"
  "objects (release p m) = (objects m)[p := managed_decrement (objects m ! p)]"
  by (simp_all add: acquire_def release_def)

lemma manager_typed_step:
  assumes "manager_ok m" "manager_typed m"
  shows "manager_typed (manager_step E M m call)"
proof -
  obtain S C where t: "tables_of m = (S, C)" by (rule prod.exhaust)
  note t' = manager_step_refines [OF assms(1), of E M call, unfolded t]
  from assms(2) t have IH: "entries_typed (objects m) S (\<lambda>reliable ty. ty = server_type reliable)"
      "entries_typed (objects m) C (\<lambda>reliable ty. reliable \<and> ty = Tcp_client_type)"
    by (simp_all add: manager_typed_def)
  show ?thesis
  proof (cases call)
    case (Create_server ip port reliable)
    with t' IH create_server_object [of E M ip port reliable m] create_server_cases [of E M ip port reliable m] show ?thesis
      by (auto simp: manager_typed_def entries_typed_append entries_typed_new simp del: server_type.simps split: if_splits)
  next
    case (Create_client ip port rip rport reliable)
    with t' IH create_client_object [of M ip rip reliable E port rport m]
      create_client_cases [of M ip rip reliable E port rport m] show ?thesis
      by (auto simp: manager_typed_def entries_typed_append entries_typed_new client_constructible_def split: if_splits)
  qed (use t' IH in \<open>simp_all add: manager_typed_def entries_typed_unregister entries_typed_update\<close>)
qed

lemma manager_typed_run: "manager_typed (manager_run E M calls)"
proof (induction calls rule: rev_induct)
  case Nil
  then show ?case
    by (simp add: manager_typed_def manager_run_def entries_typed_def tables_of_def new_manager_def reg.lookup_empty)
next
  case (snoc call calls)
  with manager_typed_step [OF manager_ok_run] show ?case by (simp add: manager_run_def)
qed

text \<open>
  C18: the registries are typed by their keys: whatever calls were made, a reliable server key finds a
  TCP server, an unreliable one a UDP server, and a client key - which is then reliable - a TCP
  client; every entry refers to an existing object, no object is registered under two server keys, none
  under two client keys, and none under a server key and a client key.
\<close>

theorem manager_registries_typed:
  "(\<forall>ip port reliable p. find_server_endpoint ip port reliable (manager_run E M calls) = Some p \<longrightarrow>
      p < length (objects (manager_run E M calls)) \<and>
      type_of (objects (manager_run E M calls) ! p) = (if reliable then Tcp_server_type else Udp_server_type)) \<and>
   (\<forall>ip port reliable p. find_client_endpoint ip port reliable (manager_run E M calls) = Some p \<longrightarrow>
      p < length (objects (manager_run E M calls)) \<and> reliable \<and>
      type_of (objects (manager_run E M calls) ! p) = Tcp_client_type) \<and>
   (\<forall>ip port reliable ip' port' reliable' p.
      find_server_endpoint ip port reliable (manager_run E M calls) = Some p \<longrightarrow>
      find_server_endpoint ip' port' reliable' (manager_run E M calls) = Some p \<longrightarrow>
      (ip, port, reliable) = (ip', port', reliable')) \<and>
   (\<forall>ip port reliable ip' port' reliable' p.
      find_client_endpoint ip port reliable (manager_run E M calls) = Some p \<longrightarrow>
      find_client_endpoint ip' port' reliable' (manager_run E M calls) = Some p \<longrightarrow>
      (ip, port, reliable) = (ip', port', reliable')) \<and>
   (\<forall>ip port reliable ip' port' reliable' p.
      find_server_endpoint ip port reliable (manager_run E M calls) = Some p \<longrightarrow>
      find_client_endpoint ip' port' reliable' (manager_run E M calls) \<noteq> Some p)"
proof -
  have S: "entries_typed (objects (manager_run E M calls)) (reg_lookup (server_endpoints (manager_run E M calls)))
        (\<lambda>reliable ty. ty = server_type reliable)"
    and C: "entries_typed (objects (manager_run E M calls)) (reg_lookup (client_endpoints (manager_run E M calls)))
        (\<lambda>reliable ty. reliable \<and> ty = Tcp_client_type)"
    using manager_typed_run [of E M calls] by (simp_all add: manager_typed_def tables_of_def)
  show ?thesis
    unfolding find_server_lookup find_client_lookup
    by (intro conjI allI impI)
      ((erule entries_typedD(1) [OF S] entries_typedD(1) [OF C]) |
        (erule (1) entries_typedD(3) [OF S]) | (erule (1) entries_typedD(3) [OF C]) |
        (drule entries_typedD(2) [OF S], simp, rule notI, drule entries_typedD(2) [OF C], simp split: if_splits) |
        (drule entries_typedD(2) [OF S], simp; fail) | (drule entries_typedD(2) [OF C], simp; fail))+
qed

theorem manager_registries_typed_witness:
  "\<exists>p. find_server_endpoint ''127.0.0.1'' 13400 True
        (manager_run quiet_env ex_env [Create_server ''127.0.0.1'' 13400 True]) = Some p \<and>
      type_of (objects (manager_run quiet_env ex_env [Create_server ''127.0.0.1'' 13400 True]) ! p) = Tcp_server_type"
proof -
  let ?m = "manager_run quiet_env ex_env [Create_server ''127.0.0.1'' 13400 True]"
  have "find_server_endpoint ''127.0.0.1'' 13400 True ?m = Some 0"
    using create_server_cases [of quiet_env ex_env "''127.0.0.1''" 13400 True new_manager] ex_server
    by (simp add: manager_run_def find_server_lookup reg_put_insert reg.lookup_insert new_manager_def reg.ok_empty)
  moreover from this have "type_of (objects ?m ! 0) = (if True then Tcp_server_type else Udp_server_type)"
    using conjunct1 [OF manager_registries_typed [of quiet_env ex_env "[Create_server ''127.0.0.1'' 13400 True]"]]
    by blast
  ultimately show ?thesis by simp
qed

end
