(* ===== verification/Socket_Kernel.thy ===== *)
theory Socket_Kernel imports Asio_Env begin

unbundle bit_operations_syntax

text \<open>
  What the extended socket service of include/helper/1.74 stands on: Boost's \<open>socket_ops\<close> functions
  and the reactor, which are not part of this repository.  Their answers are parameters (record
  \<open>os\<close>, functions of an abstract world); what they do to descriptors, to the reactor's
  registrations and to its queues is recorded in the state \<open>kernel\<close>.
\<close>

section \<open>Socket state flags\<close>

datatype sflag =
    user_set_non_blocking
  | internal_non_blocking
  | enable_connection_aborted
  | user_set_linger
  | stream_oriented
  | datagram_oriented
  | possible_dup

type_synonym state_type = "sflag set"

text \<open>\<open>non_blocking = user_set_non_blocking | internal_non_blocking\<close>.\<close>

definition is_non_blocking :: "state_type \<Rightarrow> bool" where
  "is_non_blocking st \<longleftrightarrow> user_set_non_blocking \<in> st \<or> internal_non_blocking \<in> st"

section \<open>Error numbers\<close>

text \<open>
  The system category's codes by their Linux numbers; \<open>would_block\<close> and \<open>try_again\<close> are the same
  number there.  Codes of Boost's own categories (\<open>already_open\<close>, \<open>eof\<close>) are never among them.
\<close>

definition of_errno :: "int \<Rightarrow> error_code" where
  "of_errno n =
     (if n = 0 then no_error
      else if n = 1 then no_permission
      else if n = 4 then interrupted
      else if n = 9 then bad_descriptor
      else if n = 11 then would_block
      else if n = 22 then invalid_argument
      else if n = 24 then no_descriptors
      else if n = 32 then broken_pipe
      else if n = 89 then destination_address_required
      else if n = 104 then connection_reset
      else if n = 107 then not_connected
      else if n = 110 then timed_out
      else if n = 111 then connection_refused
      else if n = 115 then in_progress
      else if n = 125 then operation_aborted
      else other_error n)"

lemma of_errno_simps [simp]:
  "of_errno n = no_error \<longleftrightarrow> n = 0"
  "of_errno n \<noteq> already_open"
  "of_errno n \<noteq> eof"
  by (simp_all add: of_errno_def)

section \<open>Operations handed to the reactor\<close>

datatype op_type = read_op | write_op | except_op | connect_op

datatype wait_type = wait_read | wait_write | wait_error | wait_other int

datatype shutdown_type = shutdown_receive | shutdown_send | shutdown_both

type_synonym message_flags = "32 word"

definition message_out_of_band :: message_flags where
  "message_out_of_band = 1"

definition out_of_band :: "message_flags \<Rightarrow> bool" where
  "out_of_band flags \<longleftrightarrow> flags AND message_out_of_band \<noteq> 0"

text \<open>
  An operation with its buffers (the bytes to send, the sizes of the buffers to fill), the socket
  it captured and its handler, a number.  The constructors are the classes of operations; the
  \<open>_ext_local\<close> ones are started by the local service, and \<open>Send_op_stateless\<close> is the send of
  Boost 1.55, which does not capture the socket's state.
\<close>

datatype 'ep reactor_op =
    Wait_op nat
  | Null_buffers_op nat
  | Send_op "nat option" state_type "byte_t list list" message_flags nat
  | Send_op_stateless "nat option" "byte_t list list" message_flags nat
  | Sendto_op "nat option" "byte_t list list" 'ep message_flags nat
  | Recv_op_ext "nat option" state_type "nat list" message_flags nat
  | Recvmsg_op_ext "nat option" "nat list" message_flags nat
  | Recvfrom_op_ext "nat option" socket_kind "nat list" message_flags nat
  | Recv_op_ext_local "nat option" state_type "nat list" message_flags nat
  | Recvmsg_op_ext_local "nat option" "nat list" message_flags nat
  | Recvfrom_op_ext_local "nat option" socket_kind "nat list" message_flags nat
  | Accept_op "nat option" state_type protocol bool nat
  | Connect_op "nat option" nat

section \<open>Parameters and state\<close>

record ('w, 'ep, 'opt) os =
  os_socket :: "protocol \<Rightarrow> 'w \<Rightarrow> int \<times> nat \<times> 'w"
  os_close :: "nat \<Rightarrow> state_type \<Rightarrow> bool \<Rightarrow> 'w \<Rightarrow> int \<times> 'w"
  os_register :: "nat \<Rightarrow> 'w \<Rightarrow> int \<times> nat \<times> 'w"
  os_set_internal_non_blocking :: "nat option \<Rightarrow> state_type \<Rightarrow> bool \<Rightarrow> 'w \<Rightarrow> int \<times> state_type \<times> 'w"
  os_set_user_non_blocking :: "nat option \<Rightarrow> state_type \<Rightarrow> bool \<Rightarrow> 'w \<Rightarrow> int \<times> state_type \<times> 'w"
  os_connect :: "nat option \<Rightarrow> 'ep \<Rightarrow> 'w \<Rightarrow> int \<times> 'w"
  os_sync_connect :: "nat option \<Rightarrow> 'ep \<Rightarrow> 'w \<Rightarrow> int \<times> 'w"
  os_sync_accept :: "nat option \<Rightarrow> state_type \<Rightarrow> 'w \<Rightarrow> (int + nat \<times> 'ep) \<times> 'w"
  os_bind :: "nat option \<Rightarrow> 'ep \<Rightarrow> 'w \<Rightarrow> int \<times> 'w"
  os_listen :: "nat option \<Rightarrow> int \<Rightarrow> 'w \<Rightarrow> int \<times> 'w"
  os_setsockopt :: "nat option \<Rightarrow> state_type \<Rightarrow> protocol \<Rightarrow> 'opt \<Rightarrow> 'w \<Rightarrow> int \<times> state_type \<times> 'w"
  os_getsockopt :: "nat option \<Rightarrow> state_type \<Rightarrow> protocol \<Rightarrow> 'opt \<Rightarrow> 'w \<Rightarrow> int \<times> byte_t list \<times> 'w"
  os_ioctl :: "nat option \<Rightarrow> state_type \<Rightarrow> int \<Rightarrow> byte_t list \<Rightarrow> 'w \<Rightarrow> int \<times> state_type \<times> byte_t list \<times> 'w"
  os_getsockname :: "nat option \<Rightarrow> 'w \<Rightarrow> int + 'ep"
  os_getpeername :: "nat option \<Rightarrow> 'w \<Rightarrow> int + 'ep"
  os_shutdown :: "nat option \<Rightarrow> shutdown_type \<Rightarrow> 'w \<Rightarrow> int \<times> 'w"
  os_sockatmark :: "nat option \<Rightarrow> 'w \<Rightarrow> int \<times> bool"
  os_available :: "nat option \<Rightarrow> 'w \<Rightarrow> int \<times> nat"
  os_poll :: "wait_type \<Rightarrow> nat option \<Rightarrow> state_type \<Rightarrow> 'w \<Rightarrow> int \<times> 'w"
  os_sync_send :: "nat option \<Rightarrow> state_type \<Rightarrow> byte_t list list \<Rightarrow> message_flags \<Rightarrow> bool \<Rightarrow> 'w \<Rightarrow> error_code \<times> nat \<times> 'w"
  os_sync_sendto :: "nat option \<Rightarrow> state_type \<Rightarrow> byte_t list list \<Rightarrow> message_flags \<Rightarrow> 'ep \<Rightarrow> 'w \<Rightarrow> error_code \<times> nat \<times> 'w"
  os_sync_recv :: "nat option \<Rightarrow> state_type \<Rightarrow> nat list \<Rightarrow> message_flags \<Rightarrow> bool \<Rightarrow> 'w \<Rightarrow> error_code \<times> byte_t list \<times> 'w"
  os_sync_recvmsg :: "nat option \<Rightarrow> state_type \<Rightarrow> nat list \<Rightarrow> message_flags \<Rightarrow> 'w \<Rightarrow> error_code \<times> byte_t list \<times> message_flags \<times> 'w"
  os_sync_recvfrom :: "nat option \<Rightarrow> state_type \<Rightarrow> nat list \<Rightarrow> message_flags \<Rightarrow> 'w \<Rightarrow> error_code \<times> byte_t list \<times> 'ep \<times> 'w"
  os_default_ep :: 'ep
  os_ep_protocol :: "'ep \<Rightarrow> protocol"

text \<open>
  \<open>descriptors\<close> are the open file descriptors the service obtained or was given and has not closed;
  \<open>registered\<close> those known to the reactor.  \<open>started\<close> are operations queued at the reactor (kind,
  descriptor, operation, error code so far, continuation flag, whether to try at once) and \<open>posted\<close>
  those to be completed immediately.
\<close>

record ('w, 'ep) kernel =
  world :: 'w
  descriptors :: "nat set"
  registered :: "nat set"
  started :: "(op_type \<times> nat option \<times> 'ep reactor_op \<times> error_code \<times> bool \<times> bool) list"
  posted :: "('ep reactor_op \<times> error_code \<times> bool) list"
  cancelled :: "nat option list"

section \<open>The calls\<close>

definition sys_socket :: "('w, 'ep, 'opt) os \<Rightarrow> protocol \<Rightarrow> ('w, 'ep) kernel \<Rightarrow> error_code \<times> nat option \<times> ('w, 'ep) kernel" where
  "sys_socket Sys p k =
     (case os_socket Sys p (world k) of (err, fd, w) \<Rightarrow>
        if err = 0 then (no_error, Some fd, k\<lparr>world := w, descriptors := insert fd (descriptors k)\<rparr>)
        else (of_errno err, None, k\<lparr>world := w\<rparr>))"

text \<open>The operating system closes the descriptor even when it reports an error.\<close>

definition sys_close :: "('w, 'ep, 'opt) os \<Rightarrow> nat \<Rightarrow> state_type \<Rightarrow> bool \<Rightarrow> ('w, 'ep) kernel \<Rightarrow> error_code \<times> ('w, 'ep) kernel" where
  "sys_close Sys fd st destruction k =
     (case os_close Sys fd st destruction (world k) of (err, w) \<Rightarrow>
        (of_errno err, k\<lparr>world := w, descriptors := descriptors k - {fd}\<rparr>))"

definition register_descriptor :: "('w, 'ep, 'opt) os \<Rightarrow> nat \<Rightarrow> ('w, 'ep) kernel \<Rightarrow> int \<times> nat \<times> ('w, 'ep) kernel" where
  "register_descriptor Sys fd k =
     (case os_register Sys fd (world k) of (err, data, w) \<Rightarrow>
        (err, data, if err = 0 then k\<lparr>world := w, registered := insert fd (registered k)\<rparr> else k\<lparr>world := w\<rparr>))"

text \<open>
  Deregistering also takes the descriptor's queued operations out of the reactor; they complete
  with \<open>operation_aborted\<close>.
\<close>

definition deregister_descriptor :: "nat \<Rightarrow> bool \<Rightarrow> ('w, 'ep) kernel \<Rightarrow> ('w, 'ep) kernel" where
  "deregister_descriptor fd closing k =
     k\<lparr>registered := registered k - {fd},
       started := filter (\<lambda>(ty, s, p, ec, cont, now). s \<noteq> Some fd) (started k),
       posted := posted k @ map (\<lambda>(ty, s, p, ec, cont, now). (p, operation_aborted, cont))
         (filter (\<lambda>(ty, s, p, ec, cont, now). s = Some fd) (started k))\<rparr>"

definition cancel_ops :: "nat option \<Rightarrow> ('w, 'ep) kernel \<Rightarrow> ('w, 'ep) kernel" where
  "cancel_ops s k =
     k\<lparr>cancelled := cancelled k @ [s],
       started := filter (\<lambda>(ty, s', p, ec, cont, now). s' \<noteq> s) (started k),
       posted := posted k @ map (\<lambda>(ty, s', p, ec, cont, now). (p, operation_aborted, cont))
         (filter (\<lambda>(ty, s', p, ec, cont, now). s' = s) (started k))\<rparr>"

definition reactor_start_op ::
  "op_type \<Rightarrow> nat option \<Rightarrow> 'ep reactor_op \<Rightarrow> error_code \<Rightarrow> bool \<Rightarrow> bool \<Rightarrow> ('w, 'ep) kernel \<Rightarrow> ('w, 'ep) kernel" where
  "reactor_start_op ty s p ec cont now k = k\<lparr>started := started k @ [(ty, s, p, ec, cont, now)]\<rparr>"

definition post_immediate_completion ::
  "'ep reactor_op \<Rightarrow> error_code \<Rightarrow> bool \<Rightarrow> ('w, 'ep) kernel \<Rightarrow> ('w, 'ep) kernel" where
  "post_immediate_completion p ec cont k = k\<lparr>posted := posted k @ [(p, ec, cont)]\<rparr>"

lemma sys_simps [simp]:
  "descriptors (deregister_descriptor fd b k) = descriptors k"
  "registered (deregister_descriptor fd b k) = registered k - {fd}"
  "descriptors (snd (sys_close Sys fd st d k)) = descriptors k - {fd}"
  "registered (snd (sys_close Sys fd st d k)) = registered k"
  "descriptors (cancel_ops s k) = descriptors k"
  "registered (cancel_ops s k) = registered k"
  "descriptors (reactor_start_op ty s p ec cont now k) = descriptors k"
  "descriptors (post_immediate_completion p ec cont k) = descriptors k"
  by (simp_all add: deregister_descriptor_def sys_close_def cancel_ops_def reactor_start_op_def
      post_immediate_completion_def split: prod.splits)

end
