(* ===== verification/Socket_Service_Base.thy ===== *)
theory Socket_Service_Base imports Socket_Kernel begin

text \<open>
  \<open>reactive_socket_service_base_ext\<close>
  (include/helper/1.74/boost/asio/detail/impl/reactive_socket_service_base_ext.ipp and the header
  beside it): the implementation record of a socket, its life from \<open>construct\<close> to \<open>destroy\<close>, and the
  starting of operations.  \<open>None\<close> is \<open>invalid_socket\<close>.
\<close>

section \<open>State\<close>

record base_impl =
  b_socket :: "nat option"
  b_state :: state_type
  b_reactor_data :: nat

type_synonym ('w, 'ep, 'a) base_st = "'a base_impl_scheme \<times> ('w, 'ep) kernel"

definition base_is_open :: "'a base_impl_scheme \<Rightarrow> bool" where
  "base_is_open impl \<longleftrightarrow> b_socket impl \<noteq> None"

definition base_native_handle :: "'a base_impl_scheme \<Rightarrow> nat option" where
  "base_native_handle impl = b_socket impl"

definition construct :: "'a base_impl_scheme \<Rightarrow> 'a base_impl_scheme" where
  "construct impl = impl\<lparr>b_socket := None, b_state := {}\<rparr>"

text \<open>
  After a close the reactor takes its data back through a reference, and clears it.  \<open>destroy\<close> calls the
  same function, on an implementation that is gone or overwritten when it returns.
\<close>

definition cleanup_descriptor_data :: "'a base_impl_scheme \<Rightarrow> 'a base_impl_scheme" where
  [simp]: "cleanup_descriptor_data impl = impl\<lparr>b_reactor_data := 0\<rparr>"

text \<open>\<open>move_descriptor\<close> hands the reactor data over and clears the source's.\<close>

definition base_move_construct ::
  "'a base_impl_scheme \<Rightarrow> 'b base_impl_scheme \<Rightarrow> 'a base_impl_scheme \<times> 'b base_impl_scheme" where
  "base_move_construct impl other =
     (impl\<lparr>b_socket := b_socket other, b_state := b_state other, b_reactor_data := b_reactor_data other\<rparr>,
      other\<lparr>b_socket := None, b_state := {}, b_reactor_data := 0\<rparr>)"

definition destroy ::
  "('w, 'ep, 'opt) os \<Rightarrow> 'a base_impl_scheme \<Rightarrow> ('w, 'ep) kernel \<Rightarrow> ('w, 'ep) kernel" where
  "destroy Sys impl k =
     (case b_socket impl of
        None \<Rightarrow> k
      | Some fd \<Rightarrow>
          snd (sys_close Sys fd (b_state impl) True
            (deregister_descriptor fd (possible_dup \<notin> b_state impl) k)))"

definition base_move_assign ::
  "('w, 'ep, 'opt) os \<Rightarrow> 'a base_impl_scheme \<Rightarrow> 'b base_impl_scheme \<Rightarrow> ('w, 'ep) kernel \<Rightarrow>
     'a base_impl_scheme \<times> 'b base_impl_scheme \<times> ('w, 'ep) kernel" where
  "base_move_assign Sys impl other k =
     (let k1 = destroy Sys impl k
      in case base_move_construct impl other of (impl', other') \<Rightarrow> (impl', other', k1))"

definition base_close ::
  "('w, 'ep, 'opt) os \<Rightarrow> ('w, 'ep, 'a) base_st \<Rightarrow> error_code \<times> ('w, 'ep, 'a) base_st" where
  "base_close Sys st =
     (case st of (impl, k) \<Rightarrow>
        (case b_socket impl of
           None \<Rightarrow> (no_error, (construct impl, k))
         | Some fd \<Rightarrow>
             (case sys_close Sys fd (b_state impl) False
                 (deregister_descriptor fd (possible_dup \<notin> b_state impl) k) of
                (ec, k1) \<Rightarrow> (ec, (construct (cleanup_descriptor_data impl), k1)))))"

definition base_cancel :: "('w, 'ep, 'a) base_st \<Rightarrow> error_code \<times> ('w, 'ep, 'a) base_st" where
  "base_cancel st =
     (case st of (impl, k) \<Rightarrow>
        if \<not> base_is_open impl then (bad_descriptor, st)
        else (no_error, (impl, cancel_ops (b_socket impl) k)))"

definition state_of_type :: "socket_kind \<Rightarrow> state_type" where
  "state_of_type ty =
     (case ty of SOCK_STREAM \<Rightarrow> {stream_oriented} | SOCK_DGRAM \<Rightarrow> {datagram_oriented} | SOCK_OTHER n \<Rightarrow> {})"

text \<open>
  \<open>socket_holder\<close> closes the new descriptor, with state 0 and as for a destructor, unless it is
  released: the branch where registering it fails.
\<close>

definition do_open ::
  "('w, 'ep, 'opt) os \<Rightarrow> protocol \<Rightarrow> ('w, 'ep, 'a) base_st \<Rightarrow> error_code \<times> ('w, 'ep, 'a) base_st" where
  "do_open Sys p st =
     (case st of (impl, k) \<Rightarrow>
        if base_is_open impl then (already_open, st)
        else
          (case sys_socket Sys p k of
             (ec, None, k1) \<Rightarrow> (ec, (impl, k1))
           | (ec, Some fd, k1) \<Rightarrow>
               (case register_descriptor Sys fd k1 of (err, data, k2) \<Rightarrow>
                  if err \<noteq> 0 then (of_errno err, (impl\<lparr>b_reactor_data := data\<rparr>, snd (sys_close Sys fd {} True k2)))
                  else (no_error, (impl\<lparr>b_reactor_data := data, b_socket := Some fd,
                                        b_state := state_of_type (p_type p)\<rparr>, k2)))))"

definition do_assign ::
  "('w, 'ep, 'opt) os \<Rightarrow> socket_kind \<Rightarrow> nat \<Rightarrow> ('w, 'ep, 'a) base_st \<Rightarrow> error_code \<times> ('w, 'ep, 'a) base_st" where
  "do_assign Sys ty native st =
     (case st of (impl, k) \<Rightarrow>
        if base_is_open impl then (already_open, st)
        else
          (case register_descriptor Sys native k of (err, data, k1) \<Rightarrow>
             if err \<noteq> 0 then (of_errno err, (impl\<lparr>b_reactor_data := data\<rparr>, k1))
             else (no_error, (impl\<lparr>b_reactor_data := data, b_socket := Some native,
                                   b_state := insert possible_dup (state_of_type ty)\<rparr>, k1))))"

section \<open>Starting operations\<close>

text \<open>\<open>set_internal_non_blocking\<close> answers whether it succeeded and reports its error in the operation.\<close>

definition try_internal_non_blocking ::
  "('w, 'ep, 'opt) os \<Rightarrow> error_code \<Rightarrow> ('w, 'ep, 'a) base_st \<Rightarrow> bool \<times> error_code \<times> ('w, 'ep, 'a) base_st" where
  "try_internal_non_blocking Sys ec st =
     (case st of (impl, k) \<Rightarrow>
        if is_non_blocking (b_state impl) then (True, ec, st)
        else
          (case os_set_internal_non_blocking Sys (b_socket impl) (b_state impl) True (world k) of (err, s, w) \<Rightarrow>
             (err = 0, of_errno err, (impl\<lparr>b_state := s\<rparr>, k\<lparr>world := w\<rparr>))))"

definition start_op ::
  "('w, 'ep, 'opt) os \<Rightarrow> op_type \<Rightarrow> 'ep reactor_op \<Rightarrow> error_code \<Rightarrow> bool \<Rightarrow> bool \<Rightarrow> bool \<Rightarrow>
     ('w, 'ep, 'a) base_st \<Rightarrow> ('w, 'ep, 'a) base_st" where
  "start_op Sys ty p ec cont now noop st =
     (if noop then (fst st, post_immediate_completion p ec cont (snd st))
      else
        (case try_internal_non_blocking Sys ec st of (ok, ec', (impl, k)) \<Rightarrow>
           if ok then (impl, reactor_start_op ty (b_socket impl) p ec' cont now k)
           else (impl, post_immediate_completion p ec' cont k)))"

definition start_accept_op ::
  "('w, 'ep, 'opt) os \<Rightarrow> 'ep reactor_op \<Rightarrow> bool \<Rightarrow> bool \<Rightarrow> ('w, 'ep, 'a) base_st \<Rightarrow> ('w, 'ep, 'a) base_st" where
  "start_accept_op Sys p cont peer_is_open st =
     (if \<not> peer_is_open then start_op Sys read_op p no_error cont True False st
      else (fst st, post_immediate_completion p already_open cont (snd st)))"

definition start_connect_op ::
  "('w, 'ep, 'opt) os \<Rightarrow> 'ep reactor_op \<Rightarrow> bool \<Rightarrow> 'ep \<Rightarrow> ('w, 'ep, 'a) base_st \<Rightarrow> ('w, 'ep, 'a) base_st" where
  "start_connect_op Sys p cont addr st =
     (case try_internal_non_blocking Sys no_error st of (ok, ec, (impl, k)) \<Rightarrow>
        if ok then
          (case os_connect Sys (b_socket impl) addr (world k) of (err, w) \<Rightarrow>
             let k1 = k\<lparr>world := w\<rparr>
             in if err \<noteq> 0 \<and> (of_errno err = in_progress \<or> of_errno err = would_block) then
                  (impl, reactor_start_op connect_op (b_socket impl) p no_error cont False k1)
                else (impl, post_immediate_completion p (of_errno err) cont k1))
        else (impl, post_immediate_completion p ec cont k))"

section \<open>Simple calls\<close>

definition base_at_mark :: "('w, 'ep, 'opt) os \<Rightarrow> ('w, 'ep, 'a) base_st \<Rightarrow> error_code \<times> bool" where
  "base_at_mark Sys st =
     (case os_sockatmark Sys (b_socket (fst st)) (world (snd st)) of (err, b) \<Rightarrow> (of_errno err, b))"

definition base_available :: "('w, 'ep, 'opt) os \<Rightarrow> ('w, 'ep, 'a) base_st \<Rightarrow> error_code \<times> nat" where
  "base_available Sys st =
     (case os_available Sys (b_socket (fst st)) (world (snd st)) of (err, n) \<Rightarrow> (of_errno err, n))"

definition base_listen :: "('w, 'ep, 'opt) os \<Rightarrow> int \<Rightarrow> ('w, 'ep, 'a) base_st \<Rightarrow> error_code \<times> ('w, 'ep, 'a) base_st" where
  "base_listen Sys backlog st =
     (case st of (impl, k) \<Rightarrow>
        (case os_listen Sys (b_socket impl) backlog (world k) of (err, w) \<Rightarrow> (of_errno err, (impl, k\<lparr>world := w\<rparr>))))"

definition base_io_control ::
  "('w, 'ep, 'opt) os \<Rightarrow> int \<Rightarrow> byte_t list \<Rightarrow> ('w, 'ep, 'a) base_st \<Rightarrow>
     (error_code \<times> byte_t list) \<times> ('w, 'ep, 'a) base_st" where
  "base_io_control Sys name data st =
     (case st of (impl, k) \<Rightarrow>
        (case os_ioctl Sys (b_socket impl) (b_state impl) name data (world k) of (err, s, data', w) \<Rightarrow>
           ((of_errno err, data'), (impl\<lparr>b_state := s\<rparr>, k\<lparr>world := w\<rparr>))))"

definition base_non_blocking :: "'a base_impl_scheme \<Rightarrow> bool" where
  "base_non_blocking impl \<longleftrightarrow> user_set_non_blocking \<in> b_state impl"

definition base_set_non_blocking ::
  "('w, 'ep, 'opt) os \<Rightarrow> bool \<Rightarrow> ('w, 'ep, 'a) base_st \<Rightarrow> error_code \<times> ('w, 'ep, 'a) base_st" where
  "base_set_non_blocking Sys mode st =
     (case st of (impl, k) \<Rightarrow>
        (case os_set_user_non_blocking Sys (b_socket impl) (b_state impl) mode (world k) of (err, s, w) \<Rightarrow>
           (of_errno err, (impl\<lparr>b_state := s\<rparr>, k\<lparr>world := w\<rparr>))))"

definition base_native_non_blocking :: "'a base_impl_scheme \<Rightarrow> bool" where
  "base_native_non_blocking impl \<longleftrightarrow> internal_non_blocking \<in> b_state impl"

definition base_set_native_non_blocking ::
  "('w, 'ep, 'opt) os \<Rightarrow> bool \<Rightarrow> ('w, 'ep, 'a) base_st \<Rightarrow> error_code \<times> ('w, 'ep, 'a) base_st" where
  "base_set_native_non_blocking Sys mode st =
     (case st of (impl, k) \<Rightarrow>
        (case os_set_internal_non_blocking Sys (b_socket impl) (b_state impl) mode (world k) of (err, s, w) \<Rightarrow>
           (of_errno err, (impl\<lparr>b_state := s\<rparr>, k\<lparr>world := w\<rparr>))))"

definition poll_until ::
  "('w, 'ep, 'opt) os \<Rightarrow> wait_type \<Rightarrow> ('w, 'ep, 'a) base_st \<Rightarrow> error_code \<times> ('w, 'ep, 'a) base_st" where
  "poll_until Sys w st =
     (case st of (impl, k) \<Rightarrow>
        (case os_poll Sys w (b_socket impl) (b_state impl) (world k) of (err, w') \<Rightarrow>
           (of_errno err, (impl, k\<lparr>world := w'\<rparr>))))"

definition base_wait ::
  "('w, 'ep, 'opt) os \<Rightarrow> wait_type \<Rightarrow> ('w, 'ep, 'a) base_st \<Rightarrow> error_code \<times> ('w, 'ep, 'a) base_st" where
  "base_wait Sys w st =
     (case w of wait_other n \<Rightarrow> (invalid_argument, st) | _ \<Rightarrow> poll_until Sys w st)"

definition base_async_wait ::
  "('w, 'ep, 'opt) os \<Rightarrow> wait_type \<Rightarrow> nat \<Rightarrow> bool \<Rightarrow> ('w, 'ep, 'a) base_st \<Rightarrow> ('w, 'ep, 'a) base_st" where
  "base_async_wait Sys w handler cont st =
     (case w of
        wait_read \<Rightarrow> start_op Sys read_op (Wait_op handler) no_error cont False False st
      | wait_write \<Rightarrow> start_op Sys write_op (Wait_op handler) no_error cont False False st
      | wait_error \<Rightarrow> start_op Sys except_op (Wait_op handler) no_error cont False False st
      | wait_other n \<Rightarrow> (fst st, post_immediate_completion (Wait_op handler) invalid_argument cont (snd st)))"

section \<open>Sending and receiving\<close>

definition all_empty :: "byte_t list list \<Rightarrow> bool" where
  "all_empty bufs = list_all (\<lambda>b. b = []) bufs"

definition all_zero :: "nat list \<Rightarrow> bool" where
  "all_zero sizes = list_all (\<lambda>n. n = 0) sizes"

definition base_send ::
  "('w, 'ep, 'opt) os \<Rightarrow> byte_t list list \<Rightarrow> message_flags \<Rightarrow> ('w, 'ep, 'a) base_st \<Rightarrow>
     (error_code \<times> nat) \<times> ('w, 'ep, 'a) base_st" where
  "base_send Sys bufs flags st =
     (case st of (impl, k) \<Rightarrow>
        (case os_sync_send Sys (b_socket impl) (b_state impl) bufs flags (all_empty bufs) (world k) of (ec, n, w) \<Rightarrow>
           ((ec, n), (impl, k\<lparr>world := w\<rparr>))))"

definition base_send_null ::
  "('w, 'ep, 'opt) os \<Rightarrow> ('w, 'ep, 'a) base_st \<Rightarrow> (error_code \<times> nat) \<times> ('w, 'ep, 'a) base_st" where
  "base_send_null Sys st = (case poll_until Sys wait_write st of (ec, st') \<Rightarrow> ((ec, 0), st'))"

definition base_async_send ::
  "('w, 'ep, 'opt) os \<Rightarrow> byte_t list list \<Rightarrow> message_flags \<Rightarrow> nat \<Rightarrow> bool \<Rightarrow>
     ('w, 'ep, 'a) base_st \<Rightarrow> ('w, 'ep, 'a) base_st" where
  "base_async_send Sys bufs flags handler cont st =
     start_op Sys write_op (Send_op (b_socket (fst st)) (b_state (fst st)) bufs flags handler) no_error cont True
       (stream_oriented \<in> b_state (fst st) \<and> all_empty bufs) st"

definition base_async_send_null ::
  "('w, 'ep, 'opt) os \<Rightarrow> nat \<Rightarrow> bool \<Rightarrow> ('w, 'ep, 'a) base_st \<Rightarrow> ('w, 'ep, 'a) base_st" where
  "base_async_send_null Sys handler cont st =
     start_op Sys write_op (Null_buffers_op handler) no_error cont False False st"

definition base_receive ::
  "('w, 'ep, 'opt) os \<Rightarrow> nat list \<Rightarrow> message_flags \<Rightarrow> ('w, 'ep, 'a) base_st \<Rightarrow>
     (error_code \<times> byte_t list) \<times> ('w, 'ep, 'a) base_st" where
  "base_receive Sys sizes flags st =
     (case st of (impl, k) \<Rightarrow>
        (case os_sync_recv Sys (b_socket impl) (b_state impl) sizes flags (all_zero sizes) (world k) of (ec, bs, w) \<Rightarrow>
           ((ec, bs), (impl, k\<lparr>world := w\<rparr>))))"

definition base_receive_null ::
  "('w, 'ep, 'opt) os \<Rightarrow> ('w, 'ep, 'a) base_st \<Rightarrow> (error_code \<times> nat) \<times> ('w, 'ep, 'a) base_st" where
  "base_receive_null Sys st = (case poll_until Sys wait_read st of (ec, st') \<Rightarrow> ((ec, 0), st'))"

definition read_or_except :: "message_flags \<Rightarrow> op_type" where
  "read_or_except flags = (if out_of_band flags then except_op else read_op)"

definition base_async_receive ::
  "('w, 'ep, 'opt) os \<Rightarrow> nat list \<Rightarrow> message_flags \<Rightarrow> nat \<Rightarrow> bool \<Rightarrow>
     ('w, 'ep, 'a) base_st \<Rightarrow> ('w, 'ep, 'a) base_st" where
  "base_async_receive Sys sizes flags handler cont st =
     start_op Sys (read_or_except flags)
       (Recv_op_ext (b_socket (fst st)) (b_state (fst st)) sizes flags handler) no_error cont
       (\<not> out_of_band flags) (stream_oriented \<in> b_state (fst st) \<and> all_zero sizes) st"

definition base_async_receive_null ::
  "('w, 'ep, 'opt) os \<Rightarrow> message_flags \<Rightarrow> nat \<Rightarrow> bool \<Rightarrow> ('w, 'ep, 'a) base_st \<Rightarrow> ('w, 'ep, 'a) base_st" where
  "base_async_receive_null Sys flags handler cont st =
     start_op Sys (read_or_except flags) (Null_buffers_op handler) no_error cont False False st"

definition base_receive_with_flags ::
  "('w, 'ep, 'opt) os \<Rightarrow> nat list \<Rightarrow> message_flags \<Rightarrow> ('w, 'ep, 'a) base_st \<Rightarrow>
     (error_code \<times> byte_t list \<times> message_flags) \<times> ('w, 'ep, 'a) base_st" where
  "base_receive_with_flags Sys sizes in_flags st =
     (case st of (impl, k) \<Rightarrow>
        (case os_sync_recvmsg Sys (b_socket impl) (b_state impl) sizes in_flags (world k) of (ec, bs, out_flags, w) \<Rightarrow>
           ((ec, bs, out_flags), (impl, k\<lparr>world := w\<rparr>))))"

definition base_receive_with_flags_null ::
  "('w, 'ep, 'opt) os \<Rightarrow> ('w, 'ep, 'a) base_st \<Rightarrow> (error_code \<times> nat \<times> message_flags) \<times> ('w, 'ep, 'a) base_st" where
  "base_receive_with_flags_null Sys st =
     (case poll_until Sys wait_read st of (ec, st') \<Rightarrow> ((ec, 0, 0), st'))"

text \<open>
  \<open>async_receive_with_flags\<close> is no function of this model: the operation it creates,
  \<open>reactive_socket_recvmsg_op_ext\<close>, calls the constructors of its bases without their first argument
  \<open>success_ec\<close>, so no call of it compiles.  The null-buffers variant does, and answers the cleared
  \<open>out_flags\<close> at once.
\<close>

definition base_async_receive_with_flags_null ::
  "('w, 'ep, 'opt) os \<Rightarrow> message_flags \<Rightarrow> nat \<Rightarrow> bool \<Rightarrow>
     ('w, 'ep, 'a) base_st \<Rightarrow> message_flags \<times> ('w, 'ep, 'a) base_st" where
  "base_async_receive_with_flags_null Sys in_flags handler cont st =
     (0, start_op Sys (read_or_except in_flags) (Null_buffers_op handler) no_error cont False False st)"

end
