(* ===== verification/Socket_Service.thy ===== *)
theory Socket_Service imports Socket_Service_Base begin

text \<open>
  \<open>reactive_socket_service_ext<Protocol>\<close>
  (include/helper/1.74/boost/asio/detail/reactive_socket_service_ext.hpp): sockets with their
  protocol, on top of the base service.
\<close>

section \<open>State\<close>

record impl = base_impl +
  i_protocol :: protocol

type_synonym ('w, 'ep) sk = "impl \<times> ('w, 'ep) kernel"

text \<open>
  A default-constructed implementation: the protocol is that of a default endpoint, then the
  service's \<open>construct\<close> runs.
\<close>

definition new_impl :: "('w, 'ep, 'opt) os \<Rightarrow> impl" where
  "new_impl Sys = \<lparr>b_socket = None, b_state = {}, b_reactor_data = 0, i_protocol = os_ep_protocol Sys (os_default_ep Sys)\<rparr>"

definition move_construct :: "('w, 'ep, 'opt) os \<Rightarrow> impl \<Rightarrow> impl \<Rightarrow> impl \<times> impl" where
  "move_construct Sys impl other =
     (case base_move_construct impl other of (impl', other') \<Rightarrow>
        (impl'\<lparr>i_protocol := i_protocol other\<rparr>,
         other'\<lparr>i_protocol := os_ep_protocol Sys (os_default_ep Sys)\<rparr>))"

definition move_assign ::
  "('w, 'ep, 'opt) os \<Rightarrow> impl \<Rightarrow> impl \<Rightarrow> ('w, 'ep) kernel \<Rightarrow> impl \<times> impl \<times> ('w, 'ep) kernel" where
  "move_assign Sys impl other k =
     (case base_move_assign Sys impl other k of (impl', other', k') \<Rightarrow>
        (impl'\<lparr>i_protocol := i_protocol other\<rparr>,
         other'\<lparr>i_protocol := os_ep_protocol Sys (os_default_ep Sys)\<rparr>, k'))"

definition converting_move_construct ::
  "('w, 'ep, 'opt) os \<Rightarrow> (protocol \<Rightarrow> protocol) \<Rightarrow> protocol \<Rightarrow> impl \<Rightarrow> impl \<Rightarrow> impl \<times> impl" where
  "converting_move_construct Sys convert other_default impl other =
     (case base_move_construct impl other of (impl', other') \<Rightarrow>
        (impl'\<lparr>i_protocol := convert (i_protocol other)\<rparr>, other'\<lparr>i_protocol := other_default\<rparr>))"

section \<open>Opening, naming, options\<close>

definition svc_open :: "('w, 'ep, 'opt) os \<Rightarrow> protocol \<Rightarrow> ('w, 'ep) sk \<Rightarrow> error_code \<times> ('w, 'ep) sk" where
  "svc_open Sys p st =
     (case do_open Sys p st of (ec, (impl, k)) \<Rightarrow>
        (ec, (if \<not> failed ec then impl\<lparr>i_protocol := p\<rparr> else impl, k)))"

definition svc_assign :: "('w, 'ep, 'opt) os \<Rightarrow> protocol \<Rightarrow> nat \<Rightarrow> ('w, 'ep) sk \<Rightarrow> error_code \<times> ('w, 'ep) sk" where
  "svc_assign Sys p native st =
     (case do_assign Sys (p_type p) native st of (ec, (impl, k)) \<Rightarrow>
        (ec, (if \<not> failed ec then impl\<lparr>i_protocol := p\<rparr> else impl, k)))"

definition svc_native_handle :: "impl \<Rightarrow> nat option" where
  "svc_native_handle impl = b_socket impl"

definition svc_bind :: "('w, 'ep, 'opt) os \<Rightarrow> 'ep \<Rightarrow> ('w, 'ep) sk \<Rightarrow> error_code \<times> ('w, 'ep) sk" where
  "svc_bind Sys ep st =
     (case st of (impl, k) \<Rightarrow>
        (case os_bind Sys (b_socket impl) ep (world k) of (err, w) \<Rightarrow> (of_errno err, (impl, k\<lparr>world := w\<rparr>))))"

definition svc_set_option :: "('w, 'ep, 'opt) os \<Rightarrow> 'opt \<Rightarrow> ('w, 'ep) sk \<Rightarrow> error_code \<times> ('w, 'ep) sk" where
  "svc_set_option Sys opt st =
     (case st of (impl, k) \<Rightarrow>
        (case os_setsockopt Sys (b_socket impl) (b_state impl) (i_protocol impl) opt (world k) of (err, s, w) \<Rightarrow>
           (of_errno err, (impl\<lparr>b_state := s\<rparr>, k\<lparr>world := w\<rparr>))))"

text \<open>The option's new contents are used only when there is no error.\<close>

definition svc_get_option ::
  "('w, 'ep, 'opt) os \<Rightarrow> 'opt \<Rightarrow> ('w, 'ep) sk \<Rightarrow> (error_code \<times> byte_t list option) \<times> ('w, 'ep) sk" where
  "svc_get_option Sys opt st =
     (case st of (impl, k) \<Rightarrow>
        (case os_getsockopt Sys (b_socket impl) (b_state impl) (i_protocol impl) opt (world k) of (err, bs, w) \<Rightarrow>
           ((of_errno err, if \<not> failed (of_errno err) then Some bs else None), (impl, k\<lparr>world := w\<rparr>))))"

definition svc_local_endpoint :: "('w, 'ep, 'opt) os \<Rightarrow> ('w, 'ep) sk \<Rightarrow> error_code \<times> 'ep" where
  "svc_local_endpoint Sys st =
     (case os_getsockname Sys (b_socket (fst st)) (world (snd st)) of
        Inl err \<Rightarrow> (of_errno err, os_default_ep Sys) | Inr ep \<Rightarrow> (no_error, ep))"

definition svc_remote_endpoint :: "('w, 'ep, 'opt) os \<Rightarrow> ('w, 'ep) sk \<Rightarrow> error_code \<times> 'ep" where
  "svc_remote_endpoint Sys st =
     (case os_getpeername Sys (b_socket (fst st)) (world (snd st)) of
        Inl err \<Rightarrow> (of_errno err, os_default_ep Sys) | Inr ep \<Rightarrow> (no_error, ep))"

definition svc_shutdown :: "('w, 'ep, 'opt) os \<Rightarrow> shutdown_type \<Rightarrow> ('w, 'ep) sk \<Rightarrow> error_code \<times> ('w, 'ep) sk" where
  "svc_shutdown Sys what st =
     (case st of (impl, k) \<Rightarrow>
        (case os_shutdown Sys (b_socket impl) what (world k) of (err, w) \<Rightarrow> (of_errno err, (impl, k\<lparr>world := w\<rparr>))))"

section \<open>Datagrams\<close>

definition svc_send_to ::
  "('w, 'ep, 'opt) os \<Rightarrow> byte_t list list \<Rightarrow> 'ep \<Rightarrow> message_flags \<Rightarrow> ('w, 'ep) sk \<Rightarrow>
     (error_code \<times> nat) \<times> ('w, 'ep) sk" where
  "svc_send_to Sys bufs destination flags st =
     (case st of (impl, k) \<Rightarrow>
        (case os_sync_sendto Sys (b_socket impl) (b_state impl) bufs flags destination (world k) of (ec, n, w) \<Rightarrow>
           ((ec, n), (impl, k\<lparr>world := w\<rparr>))))"

definition svc_send_to_null ::
  "('w, 'ep, 'opt) os \<Rightarrow> ('w, 'ep) sk \<Rightarrow> (error_code \<times> nat) \<times> ('w, 'ep) sk" where
  "svc_send_to_null Sys st = (case poll_until Sys wait_write st of (ec, st') \<Rightarrow> ((ec, 0), st'))"

definition svc_async_send_to ::
  "('w, 'ep, 'opt) os \<Rightarrow> byte_t list list \<Rightarrow> 'ep \<Rightarrow> message_flags \<Rightarrow> nat \<Rightarrow> bool \<Rightarrow> ('w, 'ep) sk \<Rightarrow> ('w, 'ep) sk" where
  "svc_async_send_to Sys bufs destination flags handler cont st =
     start_op Sys write_op (Sendto_op (b_socket (fst st)) bufs destination flags handler) no_error cont True False st"

definition svc_async_send_to_null ::
  "('w, 'ep, 'opt) os \<Rightarrow> nat \<Rightarrow> bool \<Rightarrow> ('w, 'ep) sk \<Rightarrow> ('w, 'ep) sk" where
  "svc_async_send_to_null Sys handler cont st =
     start_op Sys write_op (Null_buffers_op handler) no_error cont False False st"

text \<open>The sender is reported only when there is no error; otherwise the caller's endpoint is kept.\<close>

definition svc_receive_from ::
  "('w, 'ep, 'opt) os \<Rightarrow> nat list \<Rightarrow> 'ep \<Rightarrow> message_flags \<Rightarrow> ('w, 'ep) sk \<Rightarrow>
     (error_code \<times> byte_t list \<times> 'ep) \<times> ('w, 'ep) sk" where
  "svc_receive_from Sys sizes sender flags st =
     (case st of (impl, k) \<Rightarrow>
        (case os_sync_recvfrom Sys (b_socket impl) (b_state impl) sizes flags (world k) of (ec, bs, ep, w) \<Rightarrow>
           ((ec, bs, if \<not> failed ec then ep else sender), (impl, k\<lparr>world := w\<rparr>))))"

definition svc_receive_from_null ::
  "('w, 'ep, 'opt) os \<Rightarrow> ('w, 'ep) sk \<Rightarrow> (error_code \<times> nat \<times> 'ep) \<times> ('w, 'ep) sk" where
  "svc_receive_from_null Sys st =
     (case poll_until Sys wait_read st of (ec, st') \<Rightarrow> ((ec, 0, os_default_ep Sys), st'))"

definition svc_async_receive_from ::
  "('w, 'ep, 'opt) os \<Rightarrow> nat list \<Rightarrow> message_flags \<Rightarrow> nat \<Rightarrow> bool \<Rightarrow> ('w, 'ep) sk \<Rightarrow> ('w, 'ep) sk" where
  "svc_async_receive_from Sys sizes flags handler cont st =
     start_op Sys (read_or_except flags)
       (Recvfrom_op_ext (b_socket (fst st)) (p_type (i_protocol (fst st))) sizes flags handler) no_error cont
       True False st"

definition svc_async_receive_from_null ::
  "('w, 'ep, 'opt) os \<Rightarrow> message_flags \<Rightarrow> nat \<Rightarrow> bool \<Rightarrow> ('w, 'ep) sk \<Rightarrow> 'ep \<times> ('w, 'ep) sk" where
  "svc_async_receive_from_null Sys flags handler cont st =
     (os_default_ep Sys,
      start_op Sys (read_or_except flags) (Null_buffers_op handler) no_error cont False False st)"

section \<open>Accepting and connecting\<close>

text \<open>
  The new descriptor is in the kernel's table from the moment it is accepted; the \<open>socket_holder\<close>
  closes it when the peer cannot take it.
\<close>

definition svc_accept ::
  "('w, 'ep, 'opt) os \<Rightarrow> impl \<Rightarrow> impl \<Rightarrow> ('w, 'ep) kernel \<Rightarrow>
     (error_code \<times> 'ep option) \<times> impl \<times> ('w, 'ep) kernel" where
  "svc_accept Sys impl peer k =
     (if base_is_open peer then ((already_open, None), (peer, k))
      else
        (case os_sync_accept Sys (b_socket impl) (b_state impl) (world k) of
           (Inl err, w) \<Rightarrow> ((of_errno err, None), (peer, k\<lparr>world := w\<rparr>))
         | (Inr (fd, ep), w) \<Rightarrow>
             (case svc_assign Sys (i_protocol impl) fd
                 (peer, k\<lparr>world := w, descriptors := insert fd (descriptors k)\<rparr>) of
                (ec, (peer', k')) \<Rightarrow>
                  if \<not> failed ec then ((ec, Some ep), (peer', k'))
                  else ((ec, Some ep), (peer', snd (sys_close Sys fd {} True k'))))))"

definition svc_async_accept ::
  "('w, 'ep, 'opt) os \<Rightarrow> bool \<Rightarrow> bool \<Rightarrow> nat \<Rightarrow> bool \<Rightarrow> ('w, 'ep) sk \<Rightarrow> ('w, 'ep) sk" where
  "svc_async_accept Sys peer_is_open wants_endpoint handler cont st =
     start_accept_op Sys
       (Accept_op (b_socket (fst st)) (b_state (fst st)) (i_protocol (fst st)) wants_endpoint handler)
       cont peer_is_open st"

definition svc_async_move_accept ::
  "('w, 'ep, 'opt) os \<Rightarrow> bool \<Rightarrow> nat \<Rightarrow> bool \<Rightarrow> ('w, 'ep) sk \<Rightarrow> ('w, 'ep) sk" where
  "svc_async_move_accept Sys wants_endpoint handler cont st =
     start_accept_op Sys
       (Accept_op (b_socket (fst st)) (b_state (fst st)) (i_protocol (fst st)) wants_endpoint handler)
       cont False st"

definition svc_connect :: "('w, 'ep, 'opt) os \<Rightarrow> 'ep \<Rightarrow> ('w, 'ep) sk \<Rightarrow> error_code \<times> ('w, 'ep) sk" where
  "svc_connect Sys ep st =
     (case st of (impl, k) \<Rightarrow>
        (case os_sync_connect Sys (b_socket impl) ep (world k) of (err, w) \<Rightarrow> (of_errno err, (impl, k\<lparr>world := w\<rparr>))))"

definition svc_async_connect ::
  "('w, 'ep, 'opt) os \<Rightarrow> 'ep \<Rightarrow> nat \<Rightarrow> bool \<Rightarrow> ('w, 'ep) sk \<Rightarrow> ('w, 'ep) sk" where
  "svc_async_connect Sys ep handler cont st =
     start_connect_op Sys (Connect_op (b_socket (fst st)) handler) cont ep st"

end
