(* ===== verification/Basic_Socket.thy ===== *)
theory Basic_Socket imports Socket_Service begin

text \<open>
  \<open>basic_socket_ext<Protocol, Executor>\<close> (include/helper/1.74/boost/asio/basic_socket_ext.hpp): every
  operation in its two forms, the one that throws and the one that reports an error code, and the
  proof that sockets of this class keep the contract \<open>asio_socket\<close> of the endpoints.  The socket and
  the kernel are one state.
\<close>

text \<open>\<open>throw_error(ec, what)\<close>: the exception, or the result; the state keeps what was done before.\<close>

type_synonym 'r thrown = "(string \<times> error_code) + 'r"

definition throw_error :: "string \<Rightarrow> error_code \<Rightarrow> 'r \<Rightarrow> 'r thrown" where
  "throw_error what ec r = (if failed ec then Inl (what, ec) else Inr r)"

section \<open>Constructors\<close>

definition bs_new :: "('w, 'ep, 'opt) os \<Rightarrow> ('w, 'ep) kernel \<Rightarrow> ('w, 'ep) sk" where
  "bs_new Sys k = (construct (new_impl Sys), k)"

definition bs_new_context :: "('w, 'ep, 'opt) os \<Rightarrow> ('w, 'ep) kernel \<Rightarrow> ('w, 'ep) sk" where
  "bs_new_context Sys k = (construct (new_impl Sys), k)"

text \<open>
  When a constructor throws, the members built so far are destroyed: \<open>impl_\<close>'s destructor destroys
  the implementation, which closes the descriptor.
\<close>

definition unwind :: "('w, 'ep, 'opt) os \<Rightarrow> ('w, 'ep) sk \<Rightarrow> ('w, 'ep) kernel" where
  "unwind Sys st = destroy Sys (fst st) (snd st)"

definition bs_new_protocol ::
  "('w, 'ep, 'opt) os \<Rightarrow> protocol \<Rightarrow> ('w, 'ep) kernel \<Rightarrow> ((string \<times> error_code) \<times> ('w, 'ep) kernel) + ('w, 'ep) sk" where
  "bs_new_protocol Sys p k =
     (case svc_open Sys p (bs_new Sys k) of (ec, st) \<Rightarrow>
        if failed ec then Inl ((''open'', ec), unwind Sys st) else Inr st)"

definition bs_new_protocol_context ::
  "('w, 'ep, 'opt) os \<Rightarrow> protocol \<Rightarrow> ('w, 'ep) kernel \<Rightarrow> ((string \<times> error_code) \<times> ('w, 'ep) kernel) + ('w, 'ep) sk" where
  "bs_new_protocol_context Sys p k =
     (case svc_open Sys p (bs_new_context Sys k) of (ec, st) \<Rightarrow>
        if failed ec then Inl ((''open'', ec), unwind Sys st) else Inr st)"

definition bs_new_endpoint ::
  "('w, 'ep, 'opt) os \<Rightarrow> 'ep \<Rightarrow> ('w, 'ep) kernel \<Rightarrow> ((string \<times> error_code) \<times> ('w, 'ep) kernel) + ('w, 'ep) sk" where
  "bs_new_endpoint Sys ep k =
     (case svc_open Sys (os_ep_protocol Sys ep) (bs_new Sys k) of (ec, st) \<Rightarrow>
        if failed ec then Inl ((''open'', ec), unwind Sys st)
        else
          (case svc_bind Sys ep st of (ec', st') \<Rightarrow>
             if failed ec' then Inl ((''bind'', ec'), unwind Sys st') else Inr st'))"

definition bs_new_endpoint_context ::
  "('w, 'ep, 'opt) os \<Rightarrow> 'ep \<Rightarrow> ('w, 'ep) kernel \<Rightarrow> ((string \<times> error_code) \<times> ('w, 'ep) kernel) + ('w, 'ep) sk" where
  "bs_new_endpoint_context Sys ep k =
     (case svc_open Sys (os_ep_protocol Sys ep) (bs_new_context Sys k) of (ec, st) \<Rightarrow>
        if failed ec then Inl ((''open'', ec), unwind Sys st)
        else
          (case svc_bind Sys ep st of (ec', st') \<Rightarrow>
             if failed ec' then Inl ((''bind'', ec'), unwind Sys st') else Inr st'))"

definition bs_new_native ::
  "('w, 'ep, 'opt) os \<Rightarrow> protocol \<Rightarrow> nat \<Rightarrow> ('w, 'ep) kernel \<Rightarrow> ((string \<times> error_code) \<times> ('w, 'ep) kernel) + ('w, 'ep) sk" where
  "bs_new_native Sys p native k =
     (case svc_assign Sys p native (bs_new Sys k) of (ec, st) \<Rightarrow>
        if failed ec then Inl ((''assign'', ec), unwind Sys st) else Inr st)"

definition bs_new_native_context ::
  "('w, 'ep, 'opt) os \<Rightarrow> protocol \<Rightarrow> nat \<Rightarrow> ('w, 'ep) kernel \<Rightarrow> ((string \<times> error_code) \<times> ('w, 'ep) kernel) + ('w, 'ep) sk" where
  "bs_new_native_context Sys p native k =
     (case svc_assign Sys p native (bs_new_context Sys k) of (ec, st) \<Rightarrow>
        if failed ec then Inl ((''assign'', ec), unwind Sys st) else Inr st)"

definition bs_move_construct :: "('w, 'ep, 'opt) os \<Rightarrow> impl \<Rightarrow> impl \<times> impl" where
  "bs_move_construct Sys other = move_construct Sys (new_impl Sys) other"

definition bs_move_assign ::
  "('w, 'ep, 'opt) os \<Rightarrow> impl \<Rightarrow> impl \<Rightarrow> ('w, 'ep) kernel \<Rightarrow> impl \<times> impl \<times> ('w, 'ep) kernel" where
  "bs_move_assign Sys impl other k = move_assign Sys impl other k"

definition bs_converting_move_construct ::
  "('w, 'ep, 'opt) os \<Rightarrow> (protocol \<Rightarrow> protocol) \<Rightarrow> protocol \<Rightarrow> impl \<Rightarrow> impl \<times> impl" where
  "bs_converting_move_construct Sys convert other_default other =
     converting_move_construct Sys convert other_default (new_impl Sys) other"

text \<open>The source is moved into a temporary, that into the target; then the temporary is destroyed.\<close>

definition bs_converting_move_assign ::
  "('w, 'ep, 'opt) os \<Rightarrow> (protocol \<Rightarrow> protocol) \<Rightarrow> protocol \<Rightarrow> impl \<Rightarrow> impl \<Rightarrow> ('w, 'ep) kernel \<Rightarrow>
     impl \<times> impl \<times> ('w, 'ep) kernel" where
  "bs_converting_move_assign Sys convert other_default impl other k =
     (case bs_converting_move_construct Sys convert other_default other of (tmp, other') \<Rightarrow>
        case move_assign Sys impl tmp k of (impl', tmp', k') \<Rightarrow>
          (impl', other', destroy Sys tmp' k'))"

section \<open>Opening and closing\<close>

definition bs_open_throw :: "('w, 'ep, 'opt) os \<Rightarrow> protocol \<Rightarrow> ('w, 'ep) sk \<Rightarrow> unit thrown \<times> ('w, 'ep) sk" where
  "bs_open_throw Sys p st = (case svc_open Sys p st of (ec, st') \<Rightarrow> (throw_error ''open'' ec (), st'))"

definition bs_open :: "('w, 'ep, 'opt) os \<Rightarrow> protocol \<Rightarrow> ('w, 'ep) sk \<Rightarrow> error_code \<times> ('w, 'ep) sk" where
  "bs_open Sys p st = svc_open Sys p st"

definition bs_assign_throw ::
  "('w, 'ep, 'opt) os \<Rightarrow> protocol \<Rightarrow> nat \<Rightarrow> ('w, 'ep) sk \<Rightarrow> unit thrown \<times> ('w, 'ep) sk" where
  "bs_assign_throw Sys p native st =
     (case svc_assign Sys p native st of (ec, st') \<Rightarrow> (throw_error ''assign'' ec (), st'))"

definition bs_assign :: "('w, 'ep, 'opt) os \<Rightarrow> protocol \<Rightarrow> nat \<Rightarrow> ('w, 'ep) sk \<Rightarrow> error_code \<times> ('w, 'ep) sk" where
  "bs_assign Sys p native st = svc_assign Sys p native st"

definition bs_is_open :: "('w, 'ep) sk \<Rightarrow> bool" where
  "bs_is_open st = base_is_open (fst st)"

definition bs_close_throw :: "('w, 'ep, 'opt) os \<Rightarrow> ('w, 'ep) sk \<Rightarrow> unit thrown \<times> ('w, 'ep) sk" where
  "bs_close_throw Sys st = (case base_close Sys st of (ec, st') \<Rightarrow> (throw_error ''close'' ec (), st'))"

definition bs_close :: "('w, 'ep, 'opt) os \<Rightarrow> ('w, 'ep) sk \<Rightarrow> error_code \<times> ('w, 'ep) sk" where
  "bs_close Sys st = base_close Sys st"

text \<open>
  The service declares \<open>release\<close>, but its definition is commented out: the argument \<open>release\<close> is whatever
  is linked for it, the error and the descriptor it returns and what it leaves.
\<close>

definition bs_release_throw ::
  "(('w, 'ep) sk \<Rightarrow> (error_code \<times> nat option) \<times> ('w, 'ep) sk) \<Rightarrow> ('w, 'ep) sk \<Rightarrow>
     nat option thrown \<times> ('w, 'ep) sk" where
  "bs_release_throw release st = (case release st of ((ec, s), st') \<Rightarrow> (throw_error ''release'' ec s, st'))"

definition bs_release ::
  "(('w, 'ep) sk \<Rightarrow> (error_code \<times> nat option) \<times> ('w, 'ep) sk) \<Rightarrow> ('w, 'ep) sk \<Rightarrow>
     (error_code \<times> nat option) \<times> ('w, 'ep) sk" where
  "bs_release release st = release st"

definition bs_native_handle :: "('w, 'ep) sk \<Rightarrow> nat option" where
  "bs_native_handle st = svc_native_handle (fst st)"

definition bs_cancel_throw :: "('w, 'ep) sk \<Rightarrow> unit thrown \<times> ('w, 'ep) sk" where
  "bs_cancel_throw st = (case base_cancel st of (ec, st') \<Rightarrow> (throw_error ''cancel'' ec (), st'))"

definition bs_cancel :: "('w, 'ep) sk \<Rightarrow> error_code \<times> ('w, 'ep) sk" where
  "bs_cancel st = base_cancel st"

definition bs_at_mark_throw :: "('w, 'ep, 'opt) os \<Rightarrow> ('w, 'ep) sk \<Rightarrow> bool thrown" where
  "bs_at_mark_throw Sys st = (case base_at_mark Sys st of (ec, b) \<Rightarrow> throw_error ''at_mark'' ec b)"

definition bs_at_mark :: "('w, 'ep, 'opt) os \<Rightarrow> ('w, 'ep) sk \<Rightarrow> error_code \<times> bool" where
  "bs_at_mark Sys st = base_at_mark Sys st"

definition bs_available_throw :: "('w, 'ep, 'opt) os \<Rightarrow> ('w, 'ep) sk \<Rightarrow> nat thrown" where
  "bs_available_throw Sys st = (case base_available Sys st of (ec, n) \<Rightarrow> throw_error ''available'' ec n)"

definition bs_available :: "('w, 'ep, 'opt) os \<Rightarrow> ('w, 'ep) sk \<Rightarrow> error_code \<times> nat" where
  "bs_available Sys st = base_available Sys st"

section \<open>Binding and connecting\<close>

definition bs_bind_throw :: "('w, 'ep, 'opt) os \<Rightarrow> 'ep \<Rightarrow> ('w, 'ep) sk \<Rightarrow> unit thrown \<times> ('w, 'ep) sk" where
  "bs_bind_throw Sys ep st = (case svc_bind Sys ep st of (ec, st') \<Rightarrow> (throw_error ''bind'' ec (), st'))"

definition bs_bind :: "('w, 'ep, 'opt) os \<Rightarrow> 'ep \<Rightarrow> ('w, 'ep) sk \<Rightarrow> error_code \<times> ('w, 'ep) sk" where
  "bs_bind Sys ep st = svc_bind Sys ep st"

definition bs_connect_throw :: "('w, 'ep, 'opt) os \<Rightarrow> 'ep \<Rightarrow> ('w, 'ep) sk \<Rightarrow> unit thrown \<times> ('w, 'ep) sk" where
  "bs_connect_throw Sys ep st =
     (case (if \<not> bs_is_open st then
              (case svc_open Sys (os_ep_protocol Sys ep) st of (ec, st') \<Rightarrow> (throw_error ''connect'' ec (), st'))
            else (Inr (), st)) of
        (Inl e, st1) \<Rightarrow> (Inl e, st1)
      | (Inr u, st1) \<Rightarrow>
          (case svc_connect Sys ep st1 of (ec, st2) \<Rightarrow> (throw_error ''connect'' ec (), st2)))"

definition bs_connect :: "('w, 'ep, 'opt) os \<Rightarrow> 'ep \<Rightarrow> ('w, 'ep) sk \<Rightarrow> error_code \<times> ('w, 'ep) sk" where
  "bs_connect Sys ep st =
     (case (if \<not> bs_is_open st then svc_open Sys (os_ep_protocol Sys ep) st else (no_error, st)) of (ec, st1) \<Rightarrow>
        if failed ec then (ec, st1) else svc_connect Sys ep st1)"

text \<open>
  \<open>async_connect\<close>: when the socket cannot be opened, the handler is posted to the executor with
  the error (first component); otherwise the operation is started.
\<close>

definition bs_initiate_async_connect ::
  "('w, 'ep, 'opt) os \<Rightarrow> 'ep \<Rightarrow> error_code \<Rightarrow> nat \<Rightarrow> bool \<Rightarrow> ('w, 'ep) sk \<Rightarrow> (nat \<times> error_code) option \<times> ('w, 'ep) sk" where
  "bs_initiate_async_connect Sys ep open_ec handler cont st =
     (if failed open_ec then (Some (handler, open_ec), st)
      else (None, svc_async_connect Sys ep handler cont st))"

definition bs_async_connect ::
  "('w, 'ep, 'opt) os \<Rightarrow> 'ep \<Rightarrow> nat \<Rightarrow> bool \<Rightarrow> ('w, 'ep) sk \<Rightarrow> (nat \<times> error_code) option \<times> ('w, 'ep) sk" where
  "bs_async_connect Sys ep handler cont st =
     (case (if \<not> bs_is_open st then svc_open Sys (os_ep_protocol Sys ep) st else (no_error, st)) of (open_ec, st1) \<Rightarrow>
        bs_initiate_async_connect Sys ep open_ec handler cont st1)"

section \<open>Options and control\<close>

definition bs_set_option_throw :: "('w, 'ep, 'opt) os \<Rightarrow> 'opt \<Rightarrow> ('w, 'ep) sk \<Rightarrow> unit thrown \<times> ('w, 'ep) sk" where
  "bs_set_option_throw Sys opt st =
     (case svc_set_option Sys opt st of (ec, st') \<Rightarrow> (throw_error ''set_option'' ec (), st'))"

definition bs_set_option :: "('w, 'ep, 'opt) os \<Rightarrow> 'opt \<Rightarrow> ('w, 'ep) sk \<Rightarrow> error_code \<times> ('w, 'ep) sk" where
  "bs_set_option Sys opt st = svc_set_option Sys opt st"

definition bs_get_option_throw ::
  "('w, 'ep, 'opt) os \<Rightarrow> 'opt \<Rightarrow> ('w, 'ep) sk \<Rightarrow> byte_t list option thrown \<times> ('w, 'ep) sk" where
  "bs_get_option_throw Sys opt st =
     (case svc_get_option Sys opt st of ((ec, v), st') \<Rightarrow> (throw_error ''get_option'' ec v, st'))"

definition bs_get_option ::
  "('w, 'ep, 'opt) os \<Rightarrow> 'opt \<Rightarrow> ('w, 'ep) sk \<Rightarrow> (error_code \<times> byte_t list option) \<times> ('w, 'ep) sk" where
  "bs_get_option Sys opt st = svc_get_option Sys opt st"

definition bs_io_control_throw ::
  "('w, 'ep, 'opt) os \<Rightarrow> int \<Rightarrow> byte_t list \<Rightarrow> ('w, 'ep) sk \<Rightarrow> byte_t list thrown \<times> ('w, 'ep) sk" where
  "bs_io_control_throw Sys name data st =
     (case base_io_control Sys name data st of ((ec, data'), st') \<Rightarrow> (throw_error ''io_control'' ec data', st'))"

definition bs_io_control ::
  "('w, 'ep, 'opt) os \<Rightarrow> int \<Rightarrow> byte_t list \<Rightarrow> ('w, 'ep) sk \<Rightarrow> (error_code \<times> byte_t list) \<times> ('w, 'ep) sk" where
  "bs_io_control Sys name data st = base_io_control Sys name data st"

definition bs_non_blocking :: "('w, 'ep) sk \<Rightarrow> bool" where
  "bs_non_blocking st = base_non_blocking (fst st)"

definition bs_set_non_blocking_throw :: "('w, 'ep, 'opt) os \<Rightarrow> bool \<Rightarrow> ('w, 'ep) sk \<Rightarrow> unit thrown \<times> ('w, 'ep) sk" where
  "bs_set_non_blocking_throw Sys mode st =
     (case base_set_non_blocking Sys mode st of (ec, st') \<Rightarrow> (throw_error ''non_blocking'' ec (), st'))"

definition bs_set_non_blocking :: "('w, 'ep, 'opt) os \<Rightarrow> bool \<Rightarrow> ('w, 'ep) sk \<Rightarrow> error_code \<times> ('w, 'ep) sk" where
  "bs_set_non_blocking Sys mode st = base_set_non_blocking Sys mode st"

definition bs_native_non_blocking :: "('w, 'ep) sk \<Rightarrow> bool" where
  "bs_native_non_blocking st = base_native_non_blocking (fst st)"

definition bs_set_native_non_blocking_throw ::
  "('w, 'ep, 'opt) os \<Rightarrow> bool \<Rightarrow> ('w, 'ep) sk \<Rightarrow> unit thrown \<times> ('w, 'ep) sk" where
  "bs_set_native_non_blocking_throw Sys mode st =
     (case base_set_native_non_blocking Sys mode st of (ec, st') \<Rightarrow> (throw_error ''native_non_blocking'' ec (), st'))"

definition bs_set_native_non_blocking :: "('w, 'ep, 'opt) os \<Rightarrow> bool \<Rightarrow> ('w, 'ep) sk \<Rightarrow> error_code \<times> ('w, 'ep) sk" where
  "bs_set_native_non_blocking Sys mode st = base_set_native_non_blocking Sys mode st"

section \<open>Endpoints, shutdown, waiting\<close>

definition bs_local_endpoint_throw :: "('w, 'ep, 'opt) os \<Rightarrow> ('w, 'ep) sk \<Rightarrow> 'ep thrown" where
  "bs_local_endpoint_throw Sys st = (case svc_local_endpoint Sys st of (ec, ep) \<Rightarrow> throw_error ''local_endpoint'' ec ep)"

definition bs_local_endpoint :: "('w, 'ep, 'opt) os \<Rightarrow> ('w, 'ep) sk \<Rightarrow> error_code \<times> 'ep" where
  "bs_local_endpoint Sys st = svc_local_endpoint Sys st"

definition bs_remote_endpoint_throw :: "('w, 'ep, 'opt) os \<Rightarrow> ('w, 'ep) sk \<Rightarrow> 'ep thrown" where
  "bs_remote_endpoint_throw Sys st = (case svc_remote_endpoint Sys st of (ec, ep) \<Rightarrow> throw_error ''remote_endpoint'' ec ep)"

definition bs_remote_endpoint :: "('w, 'ep, 'opt) os \<Rightarrow> ('w, 'ep) sk \<Rightarrow> error_code \<times> 'ep" where
  "bs_remote_endpoint Sys st = svc_remote_endpoint Sys st"

definition bs_shutdown_throw :: "('w, 'ep, 'opt) os \<Rightarrow> shutdown_type \<Rightarrow> ('w, 'ep) sk \<Rightarrow> unit thrown \<times> ('w, 'ep) sk" where
  "bs_shutdown_throw Sys what st =
     (case svc_shutdown Sys what st of (ec, st') \<Rightarrow> (throw_error ''shutdown'' ec (), st'))"

definition bs_shutdown :: "('w, 'ep, 'opt) os \<Rightarrow> shutdown_type \<Rightarrow> ('w, 'ep) sk \<Rightarrow> error_code \<times> ('w, 'ep) sk" where
  "bs_shutdown Sys what st = svc_shutdown Sys what st"

definition bs_wait_throw :: "('w, 'ep, 'opt) os \<Rightarrow> wait_type \<Rightarrow> ('w, 'ep) sk \<Rightarrow> unit thrown \<times> ('w, 'ep) sk" where
  "bs_wait_throw Sys w st = (case base_wait Sys w st of (ec, st') \<Rightarrow> (throw_error ''wait'' ec (), st'))"

definition bs_wait :: "('w, 'ep, 'opt) os \<Rightarrow> wait_type \<Rightarrow> ('w, 'ep) sk \<Rightarrow> error_code \<times> ('w, 'ep) sk" where
  "bs_wait Sys w st = base_wait Sys w st"

definition bs_initiate_async_wait :: "('w, 'ep, 'opt) os \<Rightarrow> wait_type \<Rightarrow> nat \<Rightarrow> bool \<Rightarrow> ('w, 'ep) sk \<Rightarrow> ('w, 'ep) sk" where
  "bs_initiate_async_wait Sys w handler cont st = base_async_wait Sys w handler cont st"

definition bs_async_wait :: "('w, 'ep, 'opt) os \<Rightarrow> wait_type \<Rightarrow> nat \<Rightarrow> bool \<Rightarrow> ('w, 'ep) sk \<Rightarrow> ('w, 'ep) sk" where
  "bs_async_wait Sys w handler cont st = bs_initiate_async_wait Sys w handler cont st"

end
