(* ===== verification/Socket_Laws.thy ===== *)
theory Socket_Laws imports Basic_Socket "HOL-Library.Multiset" begin

text \<open>
  Facts about the extended sockets: which calls keep a socket open, who owns a descriptor, that no
  descriptor leaks, and that every operation is handed to the reactor exactly once.
\<close>

section \<open>Open or closed\<close>

lemma svc_is_open_simps [simp]:
  "base_is_open (construct impl) = False"
  "base_is_open (impl\<lparr>b_state := s\<rparr>) = base_is_open impl"
  "base_is_open (impl\<lparr>b_reactor_data := d\<rparr>) = base_is_open impl"
  "base_is_open (impl'\<lparr>i_protocol := p\<rparr>) = base_is_open impl'"
  by (simp_all add: base_is_open_def construct_def)

lemma bs_new_closed: "\<not> bs_is_open (bs_new Sys k)"
  by (simp add: bs_is_open_def bs_new_def)

lemma base_close_closed: "\<not> base_is_open (fst (snd (base_close Sys st)))"
  by (simp add: base_close_def split: prod.splits option.splits)

lemma bs_close_closed: "\<not> bs_is_open (snd (bs_close Sys st))"
  by (simp add: bs_is_open_def bs_close_def base_close_closed)

lemma do_open_cases:
  assumes "do_open Sys p (impl, k) = (ec, (impl', k'))"
  obtains
    (already) "base_is_open impl" "ec = already_open" "impl' = impl" "k' = k"
  | (no_socket) "\<not> base_is_open impl" "sys_socket Sys p k = (ec, None, k')" "impl' = impl"
  | (not_registered) fd k1 err data k2 where "\<not> base_is_open impl" "sys_socket Sys p k = (no_error, Some fd, k1)"
      "register_descriptor Sys fd k1 = (err, data, k2)" "err \<noteq> 0" "ec = of_errno err"
      "impl' = impl\<lparr>b_reactor_data := data\<rparr>" "k' = snd (sys_close Sys fd {} True k2)"
  | (opened) fd k1 data where "\<not> base_is_open impl" "sys_socket Sys p k = (no_error, Some fd, k1)"
      "register_descriptor Sys fd k1 = (0, data, k')" "ec = no_error"
      "impl' = impl\<lparr>b_reactor_data := data, b_socket := Some fd, b_state := state_of_type (p_type p)\<rparr>"
proof (cases "base_is_open impl")
  case True
  with assms show thesis by (intro already) (simp_all add: do_open_def)
next
  case closed: False
  obtain e s k1 where sock: "sys_socket Sys p k = (e, s, k1)" by (rule prod_cases3)
  show thesis
  proof (cases s)
    case None
    with assms closed sock show thesis by (intro no_socket) (simp_all add: do_open_def)
  next
    case (Some fd)
    with sock have e: "e = no_error"
      by (simp add: sys_socket_def split: prod.splits if_splits)
    obtain err data k2 where reg: "register_descriptor Sys fd k1 = (err, data, k2)" by (rule prod_cases3)
    show thesis
    proof (cases "err = 0")
      case True
      with assms closed sock Some e reg show thesis by (intro opened) (auto simp: do_open_def)
    next
      case False
      with assms closed sock Some e reg show thesis by (intro not_registered) (auto simp: do_open_def)
    qed
  qed
qed

lemma sys_socket_None: "sys_socket Sys p k = (ec, None, k') \<Longrightarrow> ec \<noteq> no_error \<and> ec \<noteq> already_open"
  by (auto simp: sys_socket_def split: prod.splits if_splits)

lemma do_open_is_open:
  assumes "do_open Sys p (impl, k) = (ec, (impl', k'))"
  shows "(base_is_open impl' \<longleftrightarrow> base_is_open impl \<or> ec = no_error) \<and> (ec = already_open \<longleftrightarrow> base_is_open impl)"
  using assms
proof (cases rule: do_open_cases)
  case no_socket
  then show ?thesis using sys_socket_None [OF no_socket(2)] by simp
qed (simp_all add: base_is_open_def)

lemma svc_open_is_open:
  assumes "svc_open Sys p st = (ec, st')"
  shows "(bs_is_open st' \<longleftrightarrow> bs_is_open st \<or> ec = no_error) \<and> (ec = already_open \<longleftrightarrow> bs_is_open st)"
  using assms do_open_is_open [of Sys p "fst st" "snd st"]
  by (auto simp: svc_open_def bs_is_open_def split: prod.splits if_splits)

lemma svc_simple_open:
  "bs_is_open (snd (svc_bind Sys ep st)) = bs_is_open st"
  "bs_is_open (snd (svc_set_option Sys opt st)) = bs_is_open st"
  "bs_is_open (snd (base_listen Sys n st)) = bs_is_open st"
  "bs_is_open (snd (svc_shutdown Sys what st)) = bs_is_open st"
  by (simp_all add: svc_bind_def svc_set_option_def base_listen_def svc_shutdown_def bs_is_open_def
      split: prod.splits)

section \<open>An endpoint's environment on extended sockets\<close>

text \<open>
  For the UDP server, whose protocol is \<open>udp_ext\<close>; the other endpoints use the sockets of Boost.
  \<open>enc\<close> encodes a socket option, \<open>rcvbuf\<close> is the option read back and \<open>dec\<close> decodes it; addresses,
  messages and memory are those of \<open>B\<close>.  \<open>backlog\<close> is Boost's \<open>max_connections\<close>.
\<close>

definition ext_env ::
  "('w, 'ep, 'opt) os \<Rightarrow> ('addr socket_option \<Rightarrow> 'opt) \<Rightarrow> 'opt \<Rightarrow> (byte_t list \<Rightarrow> int) \<Rightarrow> int \<Rightarrow>
     (('w, 'ep) sk, 'ep, 'addr) asio_env \<Rightarrow> (('w, 'ep) sk, 'ep, 'addr) asio_env" where
  "ext_env Sys enc rcvbuf rd backlog B =
     B\<lparr>ep_protocol := os_ep_protocol Sys,
       sk_is_open := bs_is_open,
       sk_reset := (\<lambda>st. bs_new Sys (unwind Sys st)),
       sk_open := bs_open Sys,
       sk_set_option := (\<lambda>opt. bs_set_option Sys (enc opt)),
       sk_get_receive_buffer_size := (\<lambda>st. case bs_get_option Sys rcvbuf st of
          ((ec, v), _) \<Rightarrow> (ec, case v of None \<Rightarrow> 0 | Some bs \<Rightarrow> rd bs)),
       sk_bind := bs_bind Sys,
       sk_listen := base_listen Sys backlog,
       sk_local_endpoint := bs_local_endpoint Sys,
       sk_remote_endpoint := bs_remote_endpoint Sys,
       sk_shutdown := bs_shutdown Sys shutdown_both,
       sk_close := bs_close Sys\<rparr>"

lemma ext_env_simps [simp]:
  "sk_is_open (ext_env Sys enc rcvbuf rd backlog B) = bs_is_open"
  "sk_reset (ext_env Sys enc rcvbuf rd backlog B) = (\<lambda>st. bs_new Sys (unwind Sys st))"
  "sk_open (ext_env Sys enc rcvbuf rd backlog B) = bs_open Sys"
  "sk_set_option (ext_env Sys enc rcvbuf rd backlog B) = (\<lambda>opt. bs_set_option Sys (enc opt))"
  "sk_bind (ext_env Sys enc rcvbuf rd backlog B) = bs_bind Sys"
  "sk_listen (ext_env Sys enc rcvbuf rd backlog B) = base_listen Sys backlog"
  "sk_shutdown (ext_env Sys enc rcvbuf rd backlog B) = bs_shutdown Sys shutdown_both"
  "sk_close (ext_env Sys enc rcvbuf rd backlog B) = bs_close Sys"
  by (simp_all add: ext_env_def)

interpretation ext: asio_socket "ext_env Sys enc rcvbuf rd backlog B" for Sys enc rcvbuf rd backlog B
proof
  fix s s' :: "('a, 'b) sk" and p ec opt ep
  show "\<not> sk_is_open (ext_env Sys enc rcvbuf rd backlog B) (sk_reset (ext_env Sys enc rcvbuf rd backlog B) s)"
    by (simp add: bs_new_closed)
  show "sk_open (ext_env Sys enc rcvbuf rd backlog B) p s = (ec, s') \<Longrightarrow>
      sk_is_open (ext_env Sys enc rcvbuf rd backlog B) s' \<longleftrightarrow> sk_is_open (ext_env Sys enc rcvbuf rd backlog B) s \<or> ec = no_error"
    "sk_open (ext_env Sys enc rcvbuf rd backlog B) p s = (ec, s') \<Longrightarrow>
      ec = already_open \<longleftrightarrow> sk_is_open (ext_env Sys enc rcvbuf rd backlog B) s"
    using svc_open_is_open [of Sys p s ec s'] by (simp_all add: bs_open_def)
  show "sk_set_option (ext_env Sys enc rcvbuf rd backlog B) opt s = (ec, s') \<Longrightarrow>
      sk_is_open (ext_env Sys enc rcvbuf rd backlog B) s' \<longleftrightarrow> sk_is_open (ext_env Sys enc rcvbuf rd backlog B) s"
    using svc_simple_open(2) [of Sys "enc opt" s] by (simp add: bs_set_option_def)
  show "sk_bind (ext_env Sys enc rcvbuf rd backlog B) ep s = (ec, s') \<Longrightarrow>
      sk_is_open (ext_env Sys enc rcvbuf rd backlog B) s' \<longleftrightarrow> sk_is_open (ext_env Sys enc rcvbuf rd backlog B) s"
    using svc_simple_open(1) [of Sys ep s] by (simp add: bs_bind_def)
  show "sk_listen (ext_env Sys enc rcvbuf rd backlog B) s = (ec, s') \<Longrightarrow>
      sk_is_open (ext_env Sys enc rcvbuf rd backlog B) s' \<longleftrightarrow> sk_is_open (ext_env Sys enc rcvbuf rd backlog B) s"
    using svc_simple_open(3) [of Sys backlog s] by simp
  show "sk_shutdown (ext_env Sys enc rcvbuf rd backlog B) s = (ec, s') \<Longrightarrow>
      sk_is_open (ext_env Sys enc rcvbuf rd backlog B) s' \<longleftrightarrow> sk_is_open (ext_env Sys enc rcvbuf rd backlog B) s"
    using svc_simple_open(4) [of Sys shutdown_both s] by (simp add: bs_shutdown_def)
  show "sk_close (ext_env Sys enc rcvbuf rd backlog B) s = (ec, s') \<Longrightarrow>
      \<not> sk_is_open (ext_env Sys enc rcvbuf rd backlog B) s'"
    using bs_close_closed [of Sys s] by simp
qed

section \<open>Every operation is handed over once\<close>

definition handed_over :: "('w, 'ep) kernel \<Rightarrow> 'ep reactor_op list" where
  "handed_over k = map (\<lambda>(ty, s, p, ec, cont, now). p) (started k) @ map (\<lambda>(p, ec, cont). p) (posted k)"

lemma mset_handed_over_start:
  "mset (handed_over (reactor_start_op ty s p ec cont now k)) = add_mset p (mset (handed_over k))"
  "mset (handed_over (post_immediate_completion p ec cont k)) = add_mset p (mset (handed_over k))"
  "handed_over (k\<lparr>world := w\<rparr>) = handed_over k"
  by (simp_all add: handed_over_def reactor_start_op_def post_immediate_completion_def)

lemma try_internal_kernel:
  "try_internal_non_blocking Sys ec st = (ok, ec', (impl, k)) \<Longrightarrow>
     handed_over k = handed_over (snd st) \<and> b_socket impl = b_socket (fst st)
       \<and> descriptors k = descriptors (snd st) \<and> registered k = registered (snd st)"
  by (auto simp: try_internal_non_blocking_def handed_over_def split: prod.splits if_splits)

lemma start_op_once:
  "mset (handed_over (snd (start_op Sys ty p ec cont now noop st))) = add_mset p (mset (handed_over (snd st)))"
proof -
  obtain ok ec' impl k where t: "try_internal_non_blocking Sys ec st = (ok, ec', (impl, k))"
    by (metis prod.collapse)
  then show ?thesis
    using try_internal_kernel [OF t] by (simp add: start_op_def mset_handed_over_start)
qed

lemma start_connect_op_once:
  "mset (handed_over (snd (start_connect_op Sys p cont ep st))) = add_mset p (mset (handed_over (snd st)))"
proof -
  obtain ok ec' impl k where t: "try_internal_non_blocking Sys no_error st = (ok, ec', (impl, k))"
    by (metis prod.collapse)
  then show ?thesis
    using try_internal_kernel [OF t]
    by (simp add: start_connect_op_def Let_def mset_handed_over_start split: prod.splits)
qed

lemma start_accept_op_once:
  "mset (handed_over (snd (start_accept_op Sys p cont open_peer st))) = add_mset p (mset (handed_over (snd st)))"
  by (simp add: start_accept_op_def start_op_once mset_handed_over_start)

end
