(* ===== verification/Socket_Ownership.thy ===== *)
theory Socket_Ownership imports Socket_Laws begin

text \<open>
  Who owns which descriptor when many extended sockets live side by side: sockets are opened,
  accepted into, moved, closed and destroyed in any order.  The operating system's side is the
  predicate \<open>posix_descriptors\<close>.
\<close>

text \<open>
  \<open>open_in w\<close> are the descriptors open in world \<open>w\<close>: \<open>socket\<close> and \<open>accept\<close> return one that was not
  open and open it, \<open>close\<close> closes its argument whatever it reports, and the reactor's registration
  and \<open>bind\<close> do not open or close any.
\<close>

definition posix_descriptors :: "('w, 'ep, 'opt) os \<Rightarrow> ('w \<Rightarrow> nat set) \<Rightarrow> bool" where
  "posix_descriptors Sys open_in \<longleftrightarrow>
     (\<forall>p w err fd w'. os_socket Sys p w = (err, fd, w') \<longrightarrow>
        (if err = 0 then fd \<notin> open_in w \<and> open_in w' = insert fd (open_in w) else open_in w' = open_in w)) \<and>
     (\<forall>s st w fd ep w'. os_sync_accept Sys s st w = (Inr (fd, ep), w') \<longrightarrow>
        fd \<notin> open_in w \<and> open_in w' = insert fd (open_in w)) \<and>
     (\<forall>s st w err w'. os_sync_accept Sys s st w = (Inl err, w') \<longrightarrow> open_in w' = open_in w) \<and>
     (\<forall>fd st d w err w'. os_close Sys fd st d w = (err, w') \<longrightarrow> open_in w' = open_in w - {fd}) \<and>
     (\<forall>fd w err data w'. os_register Sys fd w = (err, data, w') \<longrightarrow> open_in w' = open_in w) \<and>
     (\<forall>s ep w err w'. os_bind Sys s ep w = (err, w') \<longrightarrow> open_in w' = open_in w)"

lemma posixD:
  assumes "posix_descriptors Sys open_in"
  shows "os_socket Sys p w = (0, fd, w') \<Longrightarrow> fd \<notin> open_in w \<and> open_in w' = insert fd (open_in w)"
    and "os_socket Sys p w = (err, fd, w') \<Longrightarrow> err \<noteq> 0 \<Longrightarrow> open_in w' = open_in w"
    and "os_sync_accept Sys s st w = (Inr (fd, ep), w') \<Longrightarrow> fd \<notin> open_in w \<and> open_in w' = insert fd (open_in w)"
    and "os_sync_accept Sys s st w = (Inl err, w') \<Longrightarrow> open_in w' = open_in w"
    and "os_close Sys fd st d w = (err, w') \<Longrightarrow> open_in w' = open_in w - {fd}"
    and "os_register Sys fd w = (err, data, w') \<Longrightarrow> open_in w' = open_in w"
    and "os_bind Sys sk ep' w = (err, w') \<Longrightarrow> open_in w' = open_in w"
  using assms unfolding posix_descriptors_def by metis+

definition held :: "impl list \<Rightarrow> nat set" where
  "held impls = {fd. \<exists>i<length impls. b_socket (impls ! i) = Some fd}"

definition owned :: "('w \<Rightarrow> nat set) \<Rightarrow> impl list \<Rightarrow> ('w, 'ep) kernel \<Rightarrow> bool" where
  "owned open_in impls k \<longleftrightarrow>
     descriptors k = held impls \<and> registered k = held impls \<and> open_in (world k) = held impls \<and>
     (\<forall>i<length impls. \<forall>j<length impls. b_socket (impls ! i) \<noteq> None \<longrightarrow>
        b_socket (impls ! i) = b_socket (impls ! j) \<longrightarrow> i = j)"

datatype socket_call =
    New_socket
  | Open_socket nat protocol
  | Accept_into nat nat
  | Move_assign nat nat
  | Convert_new nat "protocol \<Rightarrow> protocol" protocol
  | Convert_assign nat nat "protocol \<Rightarrow> protocol" protocol
  | Close_socket nat
  | Destroy_socket nat

text \<open>A destroyed object is replaced by a closed one, as if its storage were used again.\<close>

fun apply_call ::
  "('w, 'ep, 'opt) os \<Rightarrow> impl list \<times> ('w, 'ep) kernel \<Rightarrow> socket_call \<Rightarrow> impl list \<times> ('w, 'ep) kernel" where
  "apply_call Sys (impls, k) New_socket = (impls @ [construct (new_impl Sys)], k)"
| "apply_call Sys (impls, k) (Open_socket i p) =
     (if i < length impls then
        case svc_open Sys p (impls ! i, k) of (ec, (impl, k')) \<Rightarrow> (impls[i := impl], k')
      else (impls, k))"
| "apply_call Sys (impls, k) (Accept_into i j) =
     (if i < length impls \<and> j < length impls then
        case svc_accept Sys (impls ! i) (impls ! j) k of (r, (peer, k')) \<Rightarrow> (impls[j := peer], k')
      else (impls, k))"
| "apply_call Sys (impls, k) (Move_assign i j) =
     (if i < length impls \<and> j < length impls \<and> i \<noteq> j then
        case move_assign Sys (impls ! i) (impls ! j) k of (impl, other, k') \<Rightarrow> (impls[i := impl, j := other], k')
      else (impls, k))"
| "apply_call Sys (impls, k) (Convert_new j convert other_default) =
     (if j < length impls then
        case bs_converting_move_construct Sys convert other_default (impls ! j) of (impl, other) \<Rightarrow>
          (impls[j := other] @ [impl], k)
      else (impls, k))"
| "apply_call Sys (impls, k) (Convert_assign i j convert other_default) =
     (if i < length impls \<and> j < length impls \<and> i \<noteq> j then
        case bs_converting_move_assign Sys convert other_default (impls ! i) (impls ! j) k of (impl, other, k') \<Rightarrow>
          (impls[i := impl, j := other], k')
      else (impls, k))"
| "apply_call Sys (impls, k) (Close_socket i) =
     (if i < length impls then
        case base_close Sys (impls ! i, k) of (ec, (impl, k')) \<Rightarrow> (impls[i := impl], k')
      else (impls, k))"
| "apply_call Sys (impls, k) (Destroy_socket i) =
     (if i < length impls then (impls[i := construct (new_impl Sys)], destroy Sys (impls ! i) k)
      else (impls, k))"

section \<open>Changing one socket\<close>

lemma held_append_closed: "b_socket impl = None \<Longrightarrow> held (impls @ [impl]) = held impls"
  by (auto simp: held_def nth_append less_Suc_eq split: if_splits)

definition others :: "impl list \<Rightarrow> nat \<Rightarrow> nat set" where
  "others impls i = {fd. \<exists>j<length impls. j \<noteq> i \<and> b_socket (impls ! j) = Some fd}"

lemma held_update:
  "i < length impls \<Longrightarrow> held (impls[i := impl]) =
     (case b_socket impl of None \<Rightarrow> {} | Some fd \<Rightarrow> {fd}) \<union> others impls i"
  by (auto simp: held_def others_def nth_list_update split: option.splits)

lemma held_split:
  "i < length impls \<Longrightarrow> held impls = (case b_socket (impls ! i) of None \<Rightarrow> {} | Some fd \<Rightarrow> {fd}) \<union> others impls i"
  using held_update [of i impls "impls ! i"] by simp

lemma owned_others:
  "owned open_in impls k \<Longrightarrow> i < length impls \<Longrightarrow> b_socket (impls ! i) = Some fd \<Longrightarrow> fd \<notin> others impls i"
  by (force simp: owned_def others_def)

lemma owned_update:
  assumes "owned open_in impls k" "i < length impls"
    "held (impls[i := impl]) = descriptors k'" "registered k' = descriptors k'"
    "open_in (world k') = descriptors k'"
    "\<And>fd. b_socket impl = Some fd \<Longrightarrow> fd \<notin> others impls i"
  shows "owned open_in (impls[i := impl]) k'"
  using assms by (auto simp: owned_def nth_list_update others_def)

text \<open>Taking a descriptor away from one socket.\<close>

lemma closed_descriptor:
  assumes posix: "posix_descriptors Sys open_in"
    and own: "owned open_in impls k" "i < length impls" "b_socket (impls ! i) = Some fd"
    and impl: "b_socket impl = None"
  shows "owned open_in (impls[i := impl]) (snd (sys_close Sys fd st d (deregister_descriptor fd b k)))"
proof (rule owned_update [OF own(1,2)])
  let ?k = "snd (sys_close Sys fd st d (deregister_descriptor fd b k))"
  have o: "open_in (world ?k) = open_in (world k) - {fd}"
    using posixD(5) [OF posix] by (simp add: sys_close_def deregister_descriptor_def split: prod.splits)
  have h: "held impls = insert fd (others impls i)" "fd \<notin> others impls i"
    using held_split [OF own(2)] own(3) owned_others [OF own] by auto
  then show "held (impls[i := impl]) = descriptors ?k"
    using own impl by (simp add: held_update owned_def)
  show "registered ?k = descriptors ?k" "open_in (world ?k) = descriptors ?k"
    using own o by (simp_all add: owned_def)
qed (use impl in simp)

text \<open>Giving a new descriptor to a closed socket.\<close>

lemma new_descriptor:
  assumes own: "owned open_in impls k" "i < length impls" "b_socket (impls ! i) = None"
    and impl: "b_socket impl = Some fd" and new: "fd \<notin> open_in (world k)"
    and k': "descriptors k' = insert fd (descriptors k)" "registered k' = insert fd (registered k)"
      "open_in (world k') = insert fd (open_in (world k))"
  shows "owned open_in (impls[i := impl]) k'"
proof (rule owned_update [OF own(1,2)])
  have h: "held impls = others impls i" using held_split [OF own(2)] own(3) by simp
  show "held (impls[i := impl]) = descriptors k'" "registered k' = descriptors k'"
    "open_in (world k') = descriptors k'"
    using own impl k' h by (simp_all add: held_update owned_def)
  show "\<And>x. b_socket impl = Some x \<Longrightarrow> x \<notin> others impls i"
    using own impl new h by (simp add: owned_def)
qed

lemma same_descriptors:
  assumes own: "owned open_in impls k" "i < length impls"
    and impl: "b_socket impl = b_socket (impls ! i)"
    and k': "descriptors k' = descriptors k" "registered k' = registered k" "open_in (world k') = open_in (world k)"
  shows "owned open_in (impls[i := impl]) k'"
proof (rule owned_update [OF own])
  have "held (impls[i := impl]) = held impls"
    using held_update [OF own(2)] held_split [OF own(2)] impl by simp
  then show "held (impls[i := impl]) = descriptors k'" "registered k' = descriptors k'"
    "open_in (world k') = descriptors k'"
    using own k' by (simp_all add: owned_def)
  show "\<And>fd. b_socket impl = Some fd \<Longrightarrow> fd \<notin> others impls i"
    using impl owned_others [OF own] by simp
qed

section \<open>Opening, accepting, closing\<close>

lemma sys_socket_Some:
  assumes "posix_descriptors Sys open_in" "sys_socket Sys p k = (ec, Some fd, k')"
  shows "fd \<notin> open_in (world k)" "open_in (world k') = insert fd (open_in (world k))"
    "descriptors k' = insert fd (descriptors k)" "registered k' = registered k"
  using assms(2) posixD(1) [OF assms(1)] by (auto simp: sys_socket_def split: prod.splits if_splits)

lemma sys_socket_none:
  assumes "posix_descriptors Sys open_in" "sys_socket Sys p k = (ec, None, k')"
  shows "open_in (world k') = open_in (world k)" "descriptors k' = descriptors k" "registered k' = registered k"
  using assms(2) posixD(2) [OF assms(1)] by (auto simp: sys_socket_def split: prod.splits if_splits)

lemma register_simps:
  assumes "posix_descriptors Sys open_in" "register_descriptor Sys fd k = (err, data, k')"
  shows "open_in (world k') = open_in (world k)" "descriptors k' = descriptors k"
    "registered k' = (if err = 0 then insert fd (registered k) else registered k)"
  using assms(2) posixD(6) [OF assms(1)] by (auto simp: register_descriptor_def split: prod.splits if_splits)

lemma sys_close_world:
  assumes "posix_descriptors Sys open_in"
  shows "open_in (world (snd (sys_close Sys fd st d k))) = open_in (world k) - {fd}"
  using posixD(5) [OF assms] by (simp add: sys_close_def split: prod.splits)

lemma owned_open:
  assumes posix: "posix_descriptors Sys open_in" and own: "owned open_in impls k" "i < length impls"
    and op: "svc_open Sys p (impls ! i, k) = (ec, (impl, k'))"
  shows "owned open_in (impls[i := impl]) k'"
proof -
  obtain impl1 where d: "do_open Sys p (impls ! i, k) = (ec, (impl1, k'))"
      and b: "b_socket impl = b_socket impl1"
    using op by (auto simp: svc_open_def split: prod.splits if_splits)
  from d show ?thesis
  proof (cases rule: do_open_cases)
    case already
    then show ?thesis using own b by (intro same_descriptors) simp_all
  next
    case no_socket
    then show ?thesis
      using own b sys_socket_none [OF posix no_socket(2)] by (intro same_descriptors) simp_all
  next
    case (not_registered fd k1 err data k2)
    note s = sys_socket_Some [OF posix not_registered(2)] and r = register_simps [OF posix not_registered(3)]
    have "fd \<notin> descriptors k" using own s(1) by (simp add: owned_def)
    with s r not_registered show ?thesis
      using own b sys_close_world [OF posix, of fd "{}" True k2] by (intro same_descriptors) simp_all
  next
    case (opened fd k1 data)
    note s = sys_socket_Some [OF posix opened(2)] and r = register_simps [OF posix opened(3)]
    from opened have "b_socket (impls ! i) = None" by (simp add: base_is_open_def)
    with s r opened show ?thesis using own b by (intro new_descriptor [where fd = fd]) simp_all
  qed
qed

lemma owned_close:
  assumes "posix_descriptors Sys open_in" "owned open_in impls k" "i < length impls"
    and "base_close Sys (impls ! i, k) = (ec, (impl, k'))"
  shows "owned open_in (impls[i := impl]) k'"
proof (cases "b_socket (impls ! i)")
  case None
  with assms show ?thesis
    by (intro same_descriptors) (auto simp: base_close_def construct_def)
next
  case (Some fd)
  with assms have "impl = construct (cleanup_descriptor_data (impls ! i))"
      "k' = snd (sys_close Sys fd (b_state (impls ! i)) False
        (deregister_descriptor fd (possible_dup \<notin> b_state (impls ! i)) k))"
    by (auto simp: base_close_def split: prod.splits)
  with Some assms show ?thesis by (auto intro!: closed_descriptor simp: construct_def)
qed

lemma owned_destroy:
  assumes "posix_descriptors Sys open_in" "owned open_in impls k" "i < length impls" "b_socket impl = None"
  shows "owned open_in (impls[i := impl]) (destroy Sys (impls ! i) k)"
proof (cases "b_socket (impls ! i)")
  case None
  with assms show ?thesis by (intro same_descriptors) (auto simp: destroy_def)
next
  case (Some fd)
  with assms show ?thesis by (auto intro!: closed_descriptor simp: destroy_def)
qed

lemma owned_accept:
  assumes posix: "posix_descriptors Sys open_in" and own: "owned open_in impls k" "j < length impls"
    and acc: "svc_accept Sys listener (impls ! j) k = (r, (peer, k'))"
  shows "owned open_in (impls[j := peer]) k'"
proof (cases "base_is_open (impls ! j)")
  case True
  with acc own show ?thesis by (intro same_descriptors) (auto simp: svc_accept_def)
next
  case closed: False
  then have none: "b_socket (impls ! j) = None" by (simp add: base_is_open_def)
  obtain res w where a: "os_sync_accept Sys (b_socket listener) (b_state listener) (world k) = (res, w)"
    by (rule prod.exhaust)
  show ?thesis
  proof (cases res)
    case (Inl err)
    with a have "open_in w = open_in (world k)" using posixD(4) [OF posix] by blast
    moreover from acc closed a Inl have "peer = impls ! j" "k' = k\<lparr>world := w\<rparr>"
      by (simp_all add: svc_accept_def)
    ultimately show ?thesis using same_descriptors [OF own, of peer k'] by simp
  next
    case (Inr x)
    obtain fd ep where x: "x = (fd, ep)" by (cases x)
    define k1 where "k1 = k\<lparr>world := w, descriptors := insert fd (descriptors k)\<rparr>"
    have new: "fd \<notin> open_in (world k)" "open_in w = insert fd (open_in (world k))"
      using posixD(3) [OF posix] a Inr x by blast+
    obtain err data k2 where reg: "register_descriptor Sys fd k1 = (err, data, k2)" by (rule prod_cases3)
    note rs = register_simps [OF posix reg]
    have asn: "svc_assign Sys (i_protocol listener) fd (impls ! j, k1) =
        (if err \<noteq> 0 then (of_errno err, ((impls ! j)\<lparr>b_reactor_data := data\<rparr>, k2))
         else (no_error, ((impls ! j)\<lparr>b_reactor_data := data, b_socket := Some fd,
           b_state := insert possible_dup (state_of_type (p_type (i_protocol listener))),
           i_protocol := i_protocol listener\<rparr>, k2)))"
      using closed reg by (simp add: svc_assign_def do_assign_def)
    show ?thesis
    proof (cases "err = 0")
      case True
      with acc closed a Inr x asn have "b_socket peer = Some fd" "k' = k2"
        by (auto simp: svc_accept_def k1_def)
      with True own none new rs show ?thesis
        by (intro new_descriptor [where fd = fd]) (simp_all add: k1_def)
    next
      case False
      with acc closed a Inr x asn have "b_socket peer = None" "k' = snd (sys_close Sys fd {} True k2)"
        using none by (auto simp: svc_accept_def k1_def)
      moreover have "fd \<notin> descriptors k" using own new(1) by (simp add: owned_def)
      ultimately show ?thesis
        using False own none new rs sys_close_world [OF posix, of fd "{}" True k2]
        by (intro same_descriptors) (simp_all add: k1_def)
    qed
  qed
qed

text \<open>One socket takes the descriptor of another, after what it had is destroyed.\<close>

lemma owned_take:
  assumes posix: "posix_descriptors Sys open_in" and own: "owned open_in impls k"
    and ij: "i < length impls" "j < length impls" "i \<noteq> j"
    and m: "b_socket impl = b_socket (impls ! j)" "b_socket other = None" "k' = destroy Sys (impls ! i) k"
  shows "owned open_in (impls[i := impl, j := other]) k'"
proof -
  define blank where "blank = construct (impls ! i)"
  have blank: "b_socket blank = None" by (simp add: blank_def construct_def)
  have o: "owned open_in (impls[i := blank]) k'"
    unfolding m(3) by (rule owned_destroy [OF posix own ij(1) blank])
  define f where "f n = (if n = i then j else if n = j then i else n)" for n
  have f: "f (f n) = n" "f n < length impls \<longleftrightarrow> n < length impls" for n
    using ij by (auto simp: f_def)
  have sock: "b_socket (impls[i := impl, j := other] ! n) = b_socket (impls[i := blank] ! f n)"
    if "n < length impls" for n
    using that ij m blank by (auto simp: nth_list_update f_def)
  have "held (impls[i := impl, j := other]) \<subseteq> held (impls[i := blank])"
  proof
    fix fd assume "fd \<in> held (impls[i := impl, j := other])"
    then obtain n where n: "n < length impls" "b_socket (impls[i := impl, j := other] ! n) = Some fd"
      by (auto simp: held_def)
    then have "b_socket (impls[i := blank] ! f n) = Some fd" "f n < length impls"
      using sock [OF n(1)] f(2) by simp_all
    then show "fd \<in> held (impls[i := blank])" by (auto simp: held_def)
  qed
  moreover have "held (impls[i := blank]) \<subseteq> held (impls[i := impl, j := other])"
  proof
    fix fd assume "fd \<in> held (impls[i := blank])"
    then obtain n where "n < length impls" "b_socket (impls[i := blank] ! n) = Some fd"
      by (auto simp: held_def)
    then have "b_socket (impls[i := impl, j := other] ! f n) = Some fd" "f n < length impls"
      using sock [of "f n"] f by simp_all
    then show "fd \<in> held (impls[i := impl, j := other])" by (auto simp: held_def)
  qed
  ultimately have held_eq: "held (impls[i := impl, j := other]) = held (impls[i := blank])" by blast
  have inj: "a = b" if "a < length impls" "b < length impls" "b_socket (impls[i := blank] ! a) \<noteq> None"
      "b_socket (impls[i := blank] ! a) = b_socket (impls[i := blank] ! b)" for a b
    using o that by (auto simp: owned_def)
  have inj': "a = b" if "a < length impls" "b < length impls" "b_socket (impls[i := impl, j := other] ! a) \<noteq> None"
      "b_socket (impls[i := impl, j := other] ! a) = b_socket (impls[i := impl, j := other] ! b)" for a b
  proof -
    have "f a = f b" using that sock [OF that(1)] sock [OF that(2)] f by (intro inj) simp_all
    then show ?thesis using f(1) by metis
  qed
  have "descriptors k' = held (impls[i := blank]) \<and> registered k' = held (impls[i := blank]) \<and>
      open_in (world k') = held (impls[i := blank])"
    using o by (simp add: owned_def)
  then show ?thesis unfolding owned_def length_list_update held_eq using inj' by blast
qed

lemma owned_move:
  assumes "posix_descriptors Sys open_in" "owned open_in impls k"
    and "i < length impls" "j < length impls" "i \<noteq> j"
    and "move_assign Sys (impls ! i) (impls ! j) k = (impl, other, k')"
  shows "owned open_in (impls[i := impl, j := other]) k'"
  by (rule owned_take [OF assms(1-5)])
    (use assms(6) in \<open>auto simp: move_assign_def base_move_assign_def base_move_construct_def Let_def\<close>)

lemmas converting_moves = bs_converting_move_assign_def bs_converting_move_construct_def
  converting_move_construct_def move_assign_def base_move_assign_def base_move_construct_def

lemma owned_convert:
  assumes "posix_descriptors Sys open_in" "owned open_in impls k"
    and "i < length impls" "j < length impls" "i \<noteq> j"
    and "bs_converting_move_assign Sys convert other_default (impls ! i) (impls ! j) k = (impl, other, k')"
  shows "owned open_in (impls[i := impl, j := other]) k'"
  by (rule owned_take [OF assms(1-5)])
    (use assms(6) in \<open>auto simp: converting_moves destroy_def Let_def\<close>)

lemma owned_new:
  "owned open_in impls k \<Longrightarrow> b_socket impl = None \<Longrightarrow> owned open_in (impls @ [impl]) k"
  using held_append_closed [of impl impls]
  by (auto simp: owned_def nth_append less_Suc_eq)

lemma owned_convert_new:
  fixes Sys :: "('w, 'ep, 'opt) os" and k :: "('w, 'ep) kernel"
  assumes "posix_descriptors Sys open_in" "owned open_in impls k" "j < length impls"
    and "bs_converting_move_construct Sys convert other_default (impls ! j) = (impl, other)"
  shows "owned open_in (impls[j := other] @ [impl]) k"
proof -
  define blank where "blank = construct (new_impl Sys)"
  have blank: "b_socket blank = None" by (simp add: blank_def construct_def)
  have "owned open_in ((impls @ [blank])[length impls := impl, j := other]) k"
    by (rule owned_take [OF assms(1) owned_new [OF assms(2) blank]])
      (use assms(3,4) blank in \<open>auto simp: converting_moves nth_append destroy_def\<close>)
  moreover have "(impls @ [blank])[length impls := impl, j := other] = impls[j := other] @ [impl]"
    using assms(3) by (simp add: list_update_append)
  ultimately show ?thesis by simp
qed

lemma owned_call:
  assumes "posix_descriptors Sys open_in" "owned open_in impls k"
  shows "case apply_call Sys (impls, k) c of (impls', k') \<Rightarrow> owned open_in impls' k'"
proof (cases c)
  case New_socket
  with assms show ?thesis by (simp add: owned_new construct_def)
next
  case (Open_socket i p)
  obtain ec impl k' where "svc_open Sys p (impls ! i, k) = (ec, (impl, k'))" by (metis prod.collapse)
  with owned_open [OF assms] Open_socket assms(2) show ?thesis by simp
next
  case (Accept_into i j)
  obtain r peer k' where "svc_accept Sys (impls ! i) (impls ! j) k = (r, (peer, k'))" by (metis prod.collapse)
  with owned_accept [OF assms] Accept_into assms(2) show ?thesis by simp
next
  case (Move_assign i j)
  obtain impl other k' where "move_assign Sys (impls ! i) (impls ! j) k = (impl, other, k')" by (rule prod_cases3)
  with owned_move [OF assms] Move_assign assms(2) show ?thesis by simp
next
  case (Convert_new j convert other_default)
  obtain impl other where "bs_converting_move_construct Sys convert other_default (impls ! j) = (impl, other)"
    by (metis prod.collapse)
  with owned_convert_new [OF assms] Convert_new assms(2) show ?thesis by simp
next
  case (Convert_assign i j convert other_default)
  obtain impl other k' where
    "bs_converting_move_assign Sys convert other_default (impls ! i) (impls ! j) k = (impl, other, k')"
    by (rule prod_cases3)
  with owned_convert [OF assms] Convert_assign assms(2) show ?thesis by simp
next
  case (Close_socket i)
  obtain ec impl k' where "base_close Sys (impls ! i, k) = (ec, (impl, k'))" by (metis prod.collapse)
  with owned_close [OF assms] Close_socket assms(2) show ?thesis by simp
next
  case (Destroy_socket i)
  then show ?thesis using assms by (simp add: owned_destroy construct_def)
qed

end
