(* ===== verification/Socket_Props.thy ===== *)
theory Socket_Props imports Socket_Ownership begin

text \<open>
  The properties of the extended sockets of include/helper/1.74.
\<close>

section \<open>An example operating system\<close>

text \<open>
  The world is the list of open descriptors; a new one is larger than all of them, every other call
  succeeds.
\<close>

definition list_os :: "(nat list, nat, nat) os" where
  "list_os =
     \<lparr>os_socket = (\<lambda>p w. let fd = Suc (foldr max w 2) in (0, fd, fd # w)),
      os_close = (\<lambda>fd st d w. (0, removeAll fd w)),
      os_register = (\<lambda>fd w. (0, fd, w)),
      os_set_internal_non_blocking = (\<lambda>s st m w. (0, insert internal_non_blocking st, w)),
      os_set_user_non_blocking = (\<lambda>s st m w. (0, insert user_set_non_blocking st, w)),
      os_connect = (\<lambda>s ep w. (115, w)),
      os_sync_connect = (\<lambda>s ep w. (0, w)),
      os_sync_accept = (\<lambda>s st w. let fd = Suc (foldr max w 2) in (Inr (fd, 0), fd # w)),
      os_bind = (\<lambda>s ep w. (if ep = 80 then 1 else 0, w)),
      os_listen = (\<lambda>s n w. (0, w)),
      os_setsockopt = (\<lambda>s st p opt w. (0, st, w)),
      os_getsockopt = (\<lambda>s st p opt w. (0, [], w)),
      os_ioctl = (\<lambda>s st n bs w. (0, st, bs, w)),
      os_getsockname = (\<lambda>s w. Inr 0),
      os_getpeername = (\<lambda>s w. Inl 107),
      os_shutdown = (\<lambda>s what w. (0, w)),
      os_sockatmark = (\<lambda>s w. (0, False)),
      os_available = (\<lambda>s w. (0, 0)),
      os_poll = (\<lambda>x s st w. (0, w)),
      os_sync_send = (\<lambda>s st bufs f e w. (no_error, length (concat bufs), w)),
      os_sync_sendto = (\<lambda>s st bufs f ep w. (no_error, length (concat bufs), w)),
      os_sync_recv = (\<lambda>s st ns f e w. (eof, [], w)),
      os_sync_recvmsg = (\<lambda>s st ns f w. (no_error, [], f, w)),
      os_sync_recvfrom = (\<lambda>s st ns f w. (no_error, [], 0, w)),
      os_default_ep = 0,
      os_ep_protocol = (\<lambda>ep. \<lparr>p_family = AF_INET, p_type = SOCK_STREAM, p_protocol = IPPROTO_TCP\<rparr>)\<rparr>"

lemma foldr_max: "x \<in> set w \<Longrightarrow> x \<le> foldr max w (n :: nat)"
  by (induction w) auto

lemma foldr_max_fresh: "Suc (foldr max w 2) \<notin> set w"
  using foldr_max [of "Suc (foldr max w 2)" w 2] by auto

lemma list_os_posix: "posix_descriptors list_os set"
  by (auto simp: posix_descriptors_def list_os_def Let_def foldr_max_fresh)

definition kernel0 :: "'w \<Rightarrow> ('w, 'ep) kernel" where
  "kernel0 w = \<lparr>world = w, descriptors = {}, registered = {}, started = [], posted = [], cancelled = []\<rparr>"

definition tcp_v4 :: protocol where
  "tcp_v4 = \<lparr>p_family = AF_INET, p_type = SOCK_STREAM, p_protocol = IPPROTO_TCP\<rparr>"

section \<open>Lemmas\<close>

lemma owned_calls:
  assumes "posix_descriptors Sys open_in" "owned open_in impls k" "foldl (apply_call Sys) (impls, k) cs = (impls', k')"
  shows "owned open_in impls' k'"
  using assms(2,3)
proof (induction cs arbitrary: impls k)
  case (Cons c cs)
  obtain impls1 k1 where c: "apply_call Sys (impls, k) c = (impls1, k1)" by (rule prod.exhaust)
  with owned_call [OF assms(1) Cons.prems(1), of c] have "owned open_in impls1 k1" by simp
  with Cons.IH Cons.prems(2) c show ?case by simp
qed simp

lemma owned_none: "open_in w = {} \<Longrightarrow> owned open_in [] (kernel0 w)"
  by (simp add: owned_def kernel0_def held_def)

lemma owned_singleton:
  assumes "\<not> base_is_open impl" "descriptors k = {}" "registered k = {}" "open_in (world k) = {}"
  shows "owned open_in [impl] k"
  using assms by (simp add: owned_def held_def base_is_open_def)

text \<open>Dropping a socket that no longer matters: its descriptor is gone.\<close>

lemma unwind_world:
  assumes "posix_descriptors Sys open_in"
  shows "open_in (world (unwind Sys (impl, k))) = (case b_socket impl of None \<Rightarrow> open_in (world k) | Some fd \<Rightarrow> open_in (world k) - {fd})"
  using sys_close_world [OF assms]
  by (simp add: unwind_def destroy_def deregister_descriptor_def split: option.splits)

lemma svc_open_world:
  assumes posix: "posix_descriptors Sys open_in" and "\<not> base_is_open impl"
    and op: "svc_open Sys p (impl, k) = (ec, (impl', k'))"
  shows "if ec = no_error then \<exists>fd. b_socket impl' = Some fd \<and> fd \<notin> open_in (world k) \<and>
      open_in (world k') = insert fd (open_in (world k))
    else b_socket impl' = None \<and> open_in (world k') = open_in (world k)"
proof -
  obtain impl1 where d: "do_open Sys p (impl, k) = (ec, (impl1, k'))" and b: "b_socket impl' = b_socket impl1"
    using op by (auto simp: svc_open_def split: prod.splits if_splits)
  have none: "b_socket impl = None" using assms(2) by (simp add: base_is_open_def)
  from d show ?thesis
  proof (cases rule: do_open_cases)
    case no_socket
    then show ?thesis
      using b none sys_socket_none [OF posix no_socket(2)] sys_socket_None [OF no_socket(2)] by simp
  next
    case (not_registered fd k1 err data k2)
    note s = sys_socket_Some [OF posix not_registered(2)] and r = register_simps [OF posix not_registered(3)]
    then show ?thesis
      using b none not_registered sys_close_world [OF posix, of fd "{}" True k2] by simp
  next
    case (opened fd k1 data)
    note s = sys_socket_Some [OF posix opened(2)] and r = register_simps [OF posix opened(3)]
    then show ?thesis using b opened by simp
  qed (use assms(2) in simp)
qed

section \<open>Properties\<close>

text \<open>
  C10: no descriptor leaks and none has two owners: after any sequence of opening, accepting, move
  assignment, closing and destroying of extended sockets, whatever fails on the way, the
  descriptors open in the operating system are exactly those the sockets hold, they are exactly the
  ones registered with the reactor, and no two sockets hold the same one.
\<close>

theorem sockets_own_descriptors:
  assumes "posix_descriptors Sys open_in" and "open_in w = {}"
    and "foldl (apply_call Sys) ([], kernel0 w) cs = (impls, k)"
  shows "open_in (world k) = held impls \<and> registered k = held impls \<and>
    (\<forall>i<length impls. \<forall>j<length impls. b_socket (impls ! i) \<noteq> None \<longrightarrow>
       b_socket (impls ! i) = b_socket (impls ! j) \<longrightarrow> i = j)"
  using owned_calls [OF assms(1) owned_none [where open_in = open_in, OF assms(2)] assms(3)] unfolding owned_def by blast

theorem sockets_own_descriptors_witness:
  "set (world (snd (foldl (apply_call list_os) ([], kernel0 [])
      [New_socket, Open_socket 0 tcp_v4, New_socket, Accept_into 0 1, Close_socket 0]))) =
    held (fst (foldl (apply_call list_os) ([], kernel0 [])
      [New_socket, Open_socket 0 tcp_v4, New_socket, Accept_into 0 1, Close_socket 0]))"
  by (rule conjunct1 [OF sockets_own_descriptors [OF list_os_posix _ surjective_pairing]]) simp

text \<open>
  Constructing a socket on an endpoint gives a socket that holds a new descriptor, or throws
  and leaves the operating system with the descriptors it had: also when opening succeeded and
  binding failed.
\<close>

theorem socket_constructor_no_leak:
  assumes "posix_descriptors Sys open_in"
  shows "case bs_new_endpoint Sys ep k of
      Inl ((what, ec), k') \<Rightarrow> ec \<noteq> no_error \<and> what \<in> {''open'', ''bind''} \<and> open_in (world k') = open_in (world k)
    | Inr (impl, k') \<Rightarrow> \<exists>fd. b_socket impl = Some fd \<and> fd \<notin> open_in (world k) \<and>
        open_in (world k') = insert fd (open_in (world k))"
proof -
  define st0 where "st0 = construct (new_impl Sys)"
  obtain ec impl1 k1 where op: "svc_open Sys (os_ep_protocol Sys ep) (st0, k) = (ec, (impl1, k1))"
    by (metis prod.collapse)
  have closed: "\<not> base_is_open st0" by (simp add: st0_def)
  note w = svc_open_world [OF assms closed op]
  show ?thesis
  proof (cases "ec = no_error")
    case False
    then show ?thesis
      using w op unwind_world [OF assms, of impl1 k1]
      by (simp add: bs_new_endpoint_def bs_new_def flip: st0_def)
  next
    case True
    then obtain fd where fd: "b_socket impl1 = Some fd" "fd \<notin> open_in (world k)"
        "open_in (world k1) = insert fd (open_in (world k))"
      using w by auto
    obtain err w2 where bd: "os_bind Sys (Some fd) ep (world k1) = (err, w2)" by (rule prod.exhaust)
    have "open_in w2 = open_in (world k1)" by (rule posixD(7) [OF assms bd])
    then show ?thesis
      using True op fd bd unwind_world [OF assms, of impl1 "k1\<lparr>world := w2\<rparr>"]
      by (simp add: bs_new_endpoint_def bs_new_def svc_bind_def flip: st0_def)
  qed
qed

theorem socket_constructor_no_leak_witness:
  "case bs_new_endpoint list_os 80 (kernel0 [3]) of
     Inl ((what, ec), k') \<Rightarrow> what \<in> {''open'', ''bind''} \<and> set (world k') = {3} | Inr x \<Rightarrow> True"
  using socket_constructor_no_leak [OF list_os_posix, where ep = 80 and k = "kernel0 [3]"]
  by (auto simp: kernel0_def split: sum.splits prod.splits)

text \<open>
  Every asynchronous call hands its operation over exactly once, to the reactor or for immediate
  completion, whatever the state of the socket and whatever switching it to non-blocking reports.
\<close>

theorem async_operations_handed_over_once:
  "mset (handed_over (snd (base_async_send Sys bufs flags h cont st))) =
     add_mset (Send_op (b_socket (fst st)) (b_state (fst st)) bufs flags h) (mset (handed_over (snd st))) \<and>
   mset (handed_over (snd (base_async_receive Sys sizes flags h cont st))) =
     add_mset (Recv_op_ext (b_socket (fst st)) (b_state (fst st)) sizes flags h) (mset (handed_over (snd st))) \<and>
   mset (handed_over (snd (base_async_wait Sys w h cont st))) = add_mset (Wait_op h) (mset (handed_over (snd st))) \<and>
   mset (handed_over (snd (svc_async_send_to Sys bufs ep flags h cont sk))) =
     add_mset (Sendto_op (b_socket (fst sk)) bufs ep flags h) (mset (handed_over (snd sk))) \<and>
   mset (handed_over (snd (svc_async_receive_from Sys sizes flags h cont sk))) =
     add_mset (Recvfrom_op_ext (b_socket (fst sk)) (p_type (i_protocol (fst sk))) sizes flags h)
       (mset (handed_over (snd sk))) \<and>
   mset (handed_over (snd (svc_async_accept Sys open_peer wants h cont sk))) =
     add_mset (Accept_op (b_socket (fst sk)) (b_state (fst sk)) (i_protocol (fst sk)) wants h)
       (mset (handed_over (snd sk))) \<and>
   mset (handed_over (snd (svc_async_connect Sys ep h cont sk))) =
     add_mset (Connect_op (b_socket (fst sk)) h) (mset (handed_over (snd sk)))"
  by (simp_all add: base_async_send_def base_async_receive_def base_async_wait_def svc_async_send_to_def
      svc_async_receive_from_def svc_async_accept_def svc_async_connect_def start_op_once
      start_accept_op_once start_connect_op_once mset_handed_over_start split: wait_type.splits)

text \<open>
  The two forms of \<open>connect\<close>, which are written separately, agree: the throwing one throws
  exactly the error code the other one reports, with the same socket afterwards, also when opening
  the socket is what fails.
\<close>

theorem connect_forms_agree:
  "bs_connect_throw Sys ep st = (case bs_connect Sys ep st of (ec, st') \<Rightarrow> (throw_error ''connect'' ec (), st'))"
  by (simp add: bs_connect_throw_def bs_connect_def throw_error_def split: prod.splits)

end
