(* ===== verification/Extended_Sockets.thy ===== *)
theory Extended_Sockets imports Udp_Server Socket_Props begin

text \<open>
  The extended datagram sockets as the environment of the endpoint that uses them, the UDP server: with
  \<open>ext_env\<close> its socket is an implementation object of include/helper together with the operating system
  and the reactor.  (The other endpoints use Boost's own sockets.)  What every call of a socket keeps,
  an endpoint keeps; the descriptor a socket owns is such an invariant.
\<close>

section \<open>Invariants of a socket\<close>

locale socket_invariant =
  fixes E :: "('s, 'ep, 'addr) asio_env" and P :: "'s \<Rightarrow> bool"
  assumes reset_keeps: "P s \<Longrightarrow> P (sk_reset E s)"
    and open_keeps: "P s \<Longrightarrow> P (snd (sk_open E p s))"
    and set_option_keeps: "P s \<Longrightarrow> P (snd (sk_set_option E opt s))"
    and bind_keeps: "P s \<Longrightarrow> P (snd (sk_bind E ep s))"
    and shutdown_keeps: "P s \<Longrightarrow> P (snd (sk_shutdown E s))"
    and close_keeps: "P s \<Longrightarrow> P (snd (sk_close E s))"
begin

lemma call_keeps:
  "sk_open E p s = (ec, s') \<Longrightarrow> P s \<Longrightarrow> P s'"
  "sk_set_option E opt s = (ec, s') \<Longrightarrow> P s \<Longrightarrow> P s'"
  "sk_bind E ep s = (ec, s') \<Longrightarrow> P s \<Longrightarrow> P s'"
  using open_keeps [of s p] set_option_keeps [of s opt] bind_keeps [of s ep] by simp_all

end

section \<open>Descriptors\<close>

text \<open>
  The operating system as an endpoint uses it: \<open>posix_descriptors\<close>, and setting an option or shutting
  down opens or closes no descriptor either.
\<close>

definition posix_sockets :: "('w, 'ep, 'opt) os \<Rightarrow> ('w \<Rightarrow> nat set) \<Rightarrow> bool" where
  "posix_sockets Sys open_in \<longleftrightarrow>
     posix_descriptors Sys open_in \<and>
     (\<forall>s st p opt w err st' w'. os_setsockopt Sys s st p opt w = (err, st', w') \<longrightarrow> open_in w' = open_in w) \<and>
     (\<forall>s what w err w'. os_shutdown Sys s what w = (err, w') \<longrightarrow> open_in w' = open_in w)"

lemma posix_socketsD:
  assumes "posix_sockets Sys open_in"
  shows "posix_descriptors Sys open_in"
    and "os_setsockopt Sys s st p opt w = (err, st', w') \<Longrightarrow> open_in w' = open_in w"
    and "os_shutdown Sys s what w = (err, w') \<Longrightarrow> open_in w' = open_in w"
  using assms unfolding posix_sockets_def by metis+

definition owns :: "('w \<Rightarrow> nat set) \<Rightarrow> ('w, 'ep) sk \<Rightarrow> bool" where
  "owns open_in st \<longleftrightarrow> owned open_in [fst st] (snd st)"

lemma owns_iff:
  "owns open_in (impl, k) \<longleftrightarrow>
     (let fds = (case b_socket impl of None \<Rightarrow> {} | Some fd \<Rightarrow> {fd})
      in descriptors k = fds \<and> registered k = fds \<and> open_in (world k) = fds)"
proof -
  have "held [impl] = (case b_socket impl of None \<Rightarrow> {} | Some fd \<Rightarrow> {fd})"
    by (auto simp: held_def split: option.splits)
  then show ?thesis by (simp add: owns_def owned_def Let_def)
qed

lemma owns_same:
  "owns open_in st \<Longrightarrow> b_socket (fst st') = b_socket (fst st) \<Longrightarrow>
     descriptors (snd st') = descriptors (snd st) \<Longrightarrow> registered (snd st') = registered (snd st) \<Longrightarrow>
     open_in (world (snd st')) = open_in (world (snd st)) \<Longrightarrow> owns open_in st'"
  by (cases st; cases st') (simp add: owns_iff)

lemma owns_open:
  "posix_sockets Sys open_in \<Longrightarrow> owns open_in st \<Longrightarrow> owns open_in (snd (bs_open Sys p st))"
  using owned_open [OF posix_socketsD(1), of Sys open_in "[fst st]" "snd st" 0 p "fst (svc_open Sys p st)"
      "fst (snd (svc_open Sys p st))" "snd (snd (svc_open Sys p st))"]
  by (simp add: owns_def bs_open_def)

lemma owns_close:
  "posix_sockets Sys open_in \<Longrightarrow> owns open_in st \<Longrightarrow> owns open_in (snd (bs_close Sys st))"
  using owned_close [OF posix_socketsD(1), of Sys open_in "[fst st]" "snd st" 0 "fst (base_close Sys st)"
      "fst (snd (base_close Sys st))" "snd (snd (base_close Sys st))"]
  by (simp add: owns_def bs_close_def)

lemma owns_reset:
  "posix_sockets Sys open_in \<Longrightarrow> owns open_in st \<Longrightarrow> owns open_in (bs_new Sys (unwind Sys st))"
  using owned_destroy [OF posix_socketsD(1), of Sys open_in "[fst st]" "snd st" 0 "construct (new_impl Sys)"]
  by (simp add: owns_def bs_new_def unwind_def construct_def)

lemma owns_calls:
  assumes "posix_sockets Sys open_in" "owns open_in st"
  shows "owns open_in (snd (bs_set_option Sys opt st))" "owns open_in (snd (bs_bind Sys ep st))"
    "owns open_in (snd (bs_shutdown Sys what st))"
proof -
  obtain impl k where st: "st = (impl, k)" by (rule prod.exhaust)
  note D = posix_socketsD [OF assms(1)]
  obtain e1 s1 w1 where 1: "os_setsockopt Sys (b_socket impl) (b_state impl) (i_protocol impl) opt (world k) = (e1, s1, w1)"
    by (rule prod_cases3)
  obtain e2 w2 where 2: "os_bind Sys (b_socket impl) ep (world k) = (e2, w2)" by (rule prod.exhaust)
  obtain e3 w3 where 3: "os_shutdown Sys (b_socket impl) what (world k) = (e3, w3)" by (rule prod.exhaust)
  show "owns open_in (snd (bs_set_option Sys opt st))"
    by (rule owns_same [OF assms(2)]) (simp_all add: st bs_set_option_def svc_set_option_def 1 D(2) [OF 1])
  show "owns open_in (snd (bs_bind Sys ep st))"
    by (rule owns_same [OF assms(2)]) (simp_all add: st bs_bind_def svc_bind_def 2 posixD(7) [OF D(1) 2])
  show "owns open_in (snd (bs_shutdown Sys what st))"
    by (rule owns_same [OF assms(2)]) (simp_all add: st bs_shutdown_def svc_shutdown_def 3 D(3) [OF 3])
qed

interpretation own: socket_invariant "ext_env Sys enc rcvbuf rd backlog B"
    "\<lambda>st. posix_sockets Sys open_in \<longrightarrow> owns open_in st" for Sys enc rcvbuf rd backlog B open_in
  by unfold_locales (simp_all add: owns_reset owns_open owns_calls owns_close)

lemma owns_new: "open_in w = {} \<Longrightarrow> owns open_in (bs_new Sys (kernel0 w))"
  by (simp add: bs_new_def owns_iff kernel0_def construct_def)

lemma list_os_sockets: "posix_sockets list_os set"
  using list_os_posix by (simp add: posix_sockets_def list_os_def)

definition ex_ext_env :: "((nat list, nat) sk, nat, uint32_t) asio_env" where
  "ex_ext_env = ext_env list_os (\<lambda>_. 0) 0 (\<lambda>_. 0) 128
     \<lparr>ep_protocol = (\<lambda>_. tcp_v4), ep_address = of_nat, ep_port = of_nat,
      addr_to_string = (\<lambda>_. ''0.0.0.0''), addr_unspecified = (\<lambda>a. a = 0),
      addr_is_v4 = (\<lambda>_. True), addr_is_v6 = (\<lambda>_. False),
      ec_message = (\<lambda>_. ''message''), ec_value = (\<lambda>_. 1),
      sk_is_open = bs_is_open, sk_reset = id, sk_open = (\<lambda>_ s. (no_error, s)),
      sk_set_option = (\<lambda>_ s. (no_error, s)), sk_get_receive_buffer_size = (\<lambda>_. (no_error, 0)),
      sk_bind = (\<lambda>_ s. (no_error, s)), sk_listen = (\<lambda>s. (no_error, s)),
      sk_local_endpoint = (\<lambda>_. (no_error, 0)), sk_remote_endpoint = (\<lambda>_. (no_error, 0)),
      sk_shutdown = (\<lambda>s. (no_error, s)), sk_close = (\<lambda>s. (no_error, s)),
      sk_fcntl_error = (\<lambda>_. None), mem_available = (\<lambda>_. True),
      exception_what = (\<lambda>_. ''what''), post_exception = None\<rparr>"

lemma owns_open_socket:
  "owns open_in st \<Longrightarrow> bs_is_open st \<Longrightarrow>
     \<exists>fd. b_socket (fst st) = Some fd \<and> open_in (world (snd st)) = {fd} \<and> registered (snd st) = {fd}"
  by (cases st) (auto simp: owns_iff bs_is_open_def base_is_open_def Let_def)

lemma owns_closed_socket:
  "owns open_in st \<Longrightarrow> \<not> bs_is_open st \<Longrightarrow>
     b_socket (fst st) = None \<and> open_in (world (snd st)) = {} \<and> registered (snd st) = {}"
  by (cases st) (auto simp: owns_iff bs_is_open_def base_is_open_def Let_def)

end
