(* ===== verification/Server_Stack.thy ===== *)
theory Server_Stack imports Extended_Sockets begin

text \<open>
  The UDP server on the extended sockets: what every call of the socket keeps, the constructor and
  the runs of the server keep.
\<close>

context socket_invariant
begin

lemma or_throw_keeps:
  "or_throw what (sk_open E p s) = Inr s' \<Longrightarrow> P s \<Longrightarrow> P s'"
  "or_throw what (sk_set_option E opt s) = Inr s' \<Longrightarrow> P s \<Longrightarrow> P s'"
  "or_throw what (sk_bind E ep s) = Inr s' \<Longrightarrow> P s \<Longrightarrow> P s'"
  by (auto elim: call_keeps)

lemma udp_server_socket_keeps: "udp_server_socket E lcl s0 = Inr s \<Longrightarrow> P s0 \<Longrightarrow> P s"
  by (auto simp: udp_server_socket_def bind_sum_Inr split: if_splits elim!: call_keeps)

lemma new_udp_server_keeps:
  assumes "new_udp_server E garbage lcl s0 = Inr c" "P s0"
  shows "P (unicast_socket c)"
proof -
  obtain s where "udp_server_socket E lcl s0 = Inr s"
      "unicast_socket c = snd (sk_set_option E (receive_buffer_size UDP_RECV_BUFFER_SIZE) s)"
    by (rule new_udp_server_Inr [OF assms(1)])
  with udp_server_socket_keeps [of lcl s0 s] assms(2) show ?thesis by (simp add: set_option_keeps)
qed

lemma us_stop_keeps: "P (unicast_socket c) \<Longrightarrow> P (unicast_socket (us_stop E (\<lambda>c. c) c))"
  by (simp add: us_stop_def Let_def shutdown_and_close_def close_keeps shutdown_keeps split: option.splits)

lemma us_step_keeps:
  assumes "us_step E base_stop l c c'" "l \<noteq> Us_stop" "P (unicast_socket c)"
  shows "P (unicast_socket c')"
  using assms
  by (induction rule: us_step.induct)
    (simp_all add: us_start_def us_receive_def us_send_data_def on_unicast_received_def
      receive_unicast_def on_message_received_def us_deliver_def server_send_cbk_def Let_def server_plumbing)

lemma us_run_keeps:
  assumes "run (us_step E base_stop) c ls c'" "Us_stop \<notin> set ls" "P (unicast_socket c)"
  shows "P (unicast_socket c')"
  using assms(1,3) _
proof (rule run_label_invariant [where I = "\<lambda>c. P (unicast_socket c)" and P = "\<lambda>l. l \<noteq> Us_stop"])
  show "\<forall>l\<in>set ls. l \<noteq> Us_stop" using assms(2) by auto
qed (rule us_step_keeps)

end

text \<open>Without \<open>stop\<close> the socket of the server is left alone.\<close>

lemma us_run_socket:
  "run (us_step E base_stop) c ls c' \<Longrightarrow> Us_stop \<notin> set ls \<Longrightarrow> unicast_socket c' = unicast_socket c"
proof (induction rule: run.induct)
  case (run_snoc c ls c' l c'')
  from run_snoc.hyps(2) have "l \<noteq> Us_stop \<Longrightarrow> unicast_socket c'' = unicast_socket c'"
    by (induction rule: us_step.induct)
      (simp_all add: us_start_def us_receive_def us_send_data_def on_unicast_received_def
        receive_unicast_def on_message_received_def us_deliver_def server_send_cbk_def Let_def server_plumbing)
  with run_snoc show ?case by auto
qed simp

definition ex_udp_server :: "((nat list, nat) sk, nat, uint32_t) udp_server" where
  "ex_udp_server =
     (case new_udp_server ex_ext_env 0 13400 (bs_new list_os (kernel0 [])) of Inr c \<Rightarrow> c | Inl e \<Rightarrow> undefined)"

lemma new_udp_server_ex: "new_udp_server ex_ext_env 0 13400 (bs_new list_os (kernel0 [])) = Inr ex_udp_server"
proof -
  have "\<exists>s. udp_server_socket ex_ext_env 13400 (bs_new list_os (kernel0 [])) = Inr s"
    by (simp add: udp_server_socket_def or_throw_def or_bad_alloc_def ex_ext_env_def ext_env_def bs_open_def
        svc_open_def do_open_def bs_new_def construct_def base_is_open_def sys_socket_def register_descriptor_def
        bs_set_option_def svc_set_option_def bs_bind_def svc_bind_def list_os_def kernel0_def Let_def)
  then have "new_udp_server ex_ext_env 0 13400 (bs_new list_os (kernel0 [])) \<noteq> Inl e" for e
    by (auto simp: new_udp_server_Inl)
  then show ?thesis
    by (cases "new_udp_server ex_ext_env 0 13400 (bs_new list_os (kernel0 []))") (auto simp: ex_udp_server_def)
qed

end
