(* ===== verification/Local_Service_Base.thy ===== *)
theory Local_Service_Base imports Basic_Socket begin

text \<open>
  \<open>reactive_socket_service_base_ext_local\<close>
  (include/helper/1.74/boost/asio/detail/impl/reactive_socket_service_base_ext_local.ipp and the header
  beside it): the copy of the base service that sockets of local protocols use.  It has its own
  source, and so its own definitions; only the record of a socket and the functions of Boost are
  shared.  The receives start the local operations.
\<close>

section \<open>State\<close>

definition local_base_is_open :: "'a base_impl_scheme \<Rightarrow> bool" where
  "local_base_is_open impl \<longleftrightarrow> b_socket impl \<noteq> None"

definition local_base_native_handle :: "'a base_impl_scheme \<Rightarrow> nat option" where
  "local_base_native_handle impl = b_socket impl"

definition local_construct :: "'a base_impl_scheme \<Rightarrow> 'a base_impl_scheme" where
  "local_construct impl = impl\<lparr>b_socket := None, b_state := {}\<rparr>"

text \<open>\<open>move_descriptor\<close> hands the reactor data over and clears the source's.\<close>

definition local_base_move_construct ::
  "'a base_impl_scheme \<Rightarrow> 'b base_impl_scheme \<Rightarrow>
     'a base_impl_scheme \<times> 'b base_impl_scheme" where
  "local_base_move_construct impl other =
     (impl\<lparr>b_socket := b_socket other, b_state := b_state other, b_reactor_data := b_reactor_data other\<rparr>,
      other\<lparr>b_socket := None, b_state := {}, b_reactor_data := 0\<rparr>)"

definition local_destroy ::
  "('w, 'ep, 'opt) os \<Rightarrow> 'a base_impl_scheme \<Rightarrow>
     ('w, 'ep) kernel \<Rightarrow> ('w, 'ep) kernel" where
  "local_destroy Sys impl k =
     (case b_socket impl of
        None \<Rightarrow> k
      | Some fd \<Rightarrow>
          snd (sys_close Sys fd (b_state impl) True
            (deregister_descriptor fd (possible_dup \<notin> b_state impl) k)))"

definition local_base_move_assign ::
  "('w, 'ep, 'opt) os \<Rightarrow> 'a base_impl_scheme \<Rightarrow> 'b base_impl_scheme \<Rightarrow> ('w, 'ep) kernel \<Rightarrow>
     'a base_impl_scheme \<times> 'b base_impl_scheme \<times> ('w, 'ep) kernel" where
  "local_base_move_assign Sys impl other k =
     (let k1 = local_destroy Sys impl k
      in case local_base_move_construct impl other of (impl', other') \<Rightarrow> (impl', other', k1))"

definition local_base_close ::
  "('w, 'ep, 'opt) os \<Rightarrow> ('w, 'ep, 'a) base_st \<Rightarrow>
     error_code \<times> ('w, 'ep, 'a) base_st" where
  "local_base_close Sys st =
     (case st of (impl, k) \<Rightarrow>
        (case b_socket impl of
           None \<Rightarrow> (no_error, (local_construct impl, k))
         | Some fd \<Rightarrow>
             (case sys_close Sys fd (b_state impl) False
                 (deregister_descriptor fd (possible_dup \<notin> b_state impl) k) of
                (ec, k1) \<Rightarrow> (ec, (local_construct (cleanup_descriptor_data impl), k1)))))"

definition local_base_cancel ::
  "('w, 'ep, 'a) base_st \<Rightarrow> error_code \<times> ('w, 'ep, 'a) base_st" where
  "local_base_cancel st =
     (case st of (impl, k) \<Rightarrow>
        if \<not> local_base_is_open impl then (bad_descriptor, st)
        else (no_error, (impl, cancel_ops (b_socket impl) k)))"

text \<open>
  \<open>socket_holder\<close> closes the new descriptor, with state 0 and as for a destructor, unless it is
  released: the branch where registering it fails.
\<close>

definition local_do_open ::
  "('w, 'ep, 'opt) os \<Rightarrow> protocol \<Rightarrow> ('w, 'ep, 'a) base_st \<Rightarrow>
     error_code \<times> ('w, 'ep, 'a) base_st" where
  "local_do_open Sys p st =
     (case st of (impl, k) \<Rightarrow>
        if local_base_is_open impl then (already_open, st)
        else
          (case sys_socket Sys p k of
             (ec, None, k1) \<Rightarrow> (ec, (impl, k1))
           | (ec, Some fd, k1) \<Rightarrow>
               (case register_descriptor Sys fd k1 of (err, data, k2) \<Rightarrow>
                  if err \<noteq> 0 then (of_errno err, (impl\<lparr>b_reactor_data := data\<rparr>, snd (sys_close Sys fd {} True k2)))
                  else (no_error, (impl\<lparr>b_reactor_data := data, b_socket := Some fd,
                                        b_state := state_of_type (p_type p)\<rparr>, k2)))))"

definition local_do_assign ::
  "('w, 'ep, 'opt) os \<Rightarrow> socket_kind \<Rightarrow> nat \<Rightarrow>
     ('w, 'ep, 'a) base_st \<Rightarrow> error_code \<times> ('w, 'ep, 'a) base_st" where
  "local_do_assign Sys ty native st =
     (case st of (impl, k) \<Rightarrow>
        if local_base_is_open impl then (already_open, st)
        else
          (case register_descriptor Sys native k of (err, data, k1) \<Rightarrow>
             if err \<noteq> 0 then (of_errno err, (impl\<lparr>b_reactor_data := data\<rparr>, k1))
             else (no_error, (impl\<lparr>b_reactor_data := data, b_socket := Some native,
                                   b_state := insert possible_dup (state_of_type ty)\<rparr>, k1))))"

section \<open>Starting operations\<close>

text \<open>\<open>set_internal_non_blocking\<close> answers whether it succeeded and reports its error in the operation.\<close>

definition local_start_op ::
  "('w, 'ep, 'opt) os \<Rightarrow> op_type \<Rightarrow> 'ep reactor_op \<Rightarrow> error_code \<Rightarrow> bool \<Rightarrow> bool \<Rightarrow> bool \<Rightarrow>
     ('w, 'ep, 'a) base_st \<Rightarrow> ('w, 'ep, 'a) base_st" where
  "local_start_op Sys ty p ec cont now noop st =
     (if noop then (fst st, post_immediate_completion p ec cont (snd st))
      else
        (case try_internal_non_blocking Sys ec st of (ok, ec', (impl, k)) \<Rightarrow>
           if ok then (impl, reactor_start_op ty (b_socket impl) p ec' cont now k)
           else (impl, post_immediate_completion p ec' cont k)))"

definition local_start_accept_op ::
  "('w, 'ep, 'opt) os \<Rightarrow> 'ep reactor_op \<Rightarrow> bool \<Rightarrow>
     bool \<Rightarrow> ('w, 'ep, 'a) base_st \<Rightarrow> ('w, 'ep, 'a) base_st" where
  "local_start_accept_op Sys p cont peer_is_open st =
     (if \<not> peer_is_open then local_start_op Sys read_op p no_error cont True False st
      else (fst st, post_immediate_completion p already_open cont (snd st)))"

definition local_start_connect_op ::
  "('w, 'ep, 'opt) os \<Rightarrow> 'ep reactor_op \<Rightarrow> bool \<Rightarrow>
     'ep \<Rightarrow> ('w, 'ep, 'a) base_st \<Rightarrow> ('w, 'ep, 'a) base_st" where
  "local_start_connect_op Sys p cont addr st =
     (case try_internal_non_blocking Sys no_error st of (ok, ec, (impl, k)) \<Rightarrow>
        if ok then
          (case os_connect Sys (b_socket impl) addr (world k) of (err, w) \<Rightarrow>
             let k1 = k\<lparr>world := w\<rparr>
             in if err \<noteq> 0 \<and> (of_errno err = in_progress \<or> of_errno err = would_block) then
                  (impl, reactor_start_op connect_op (b_socket impl) p no_error cont False k1)
                else (impl, post_immediate_completion p (of_errno err) cont k1))
        else (impl, post_immediate_completion p ec cont k))"

section \<open>Simple calls\<close>

definition local_base_at_mark ::
  "('w, 'ep, 'opt) os \<Rightarrow> ('w, 'ep, 'a) base_st \<Rightarrow> error_code \<times> bool" where
  "local_base_at_mark Sys st =
     (case os_sockatmark Sys (b_socket (fst st)) (world (snd st)) of (err, b) \<Rightarrow> (of_errno err, b))"

definition local_base_available ::
  "('w, 'ep, 'opt) os \<Rightarrow> ('w, 'ep, 'a) base_st \<Rightarrow> error_code \<times> nat" where
  "local_base_available Sys st =
     (case os_available Sys (b_socket (fst st)) (world (snd st)) of (err, n) \<Rightarrow> (of_errno err, n))"

definition local_base_listen ::
  "('w, 'ep, 'opt) os \<Rightarrow> int \<Rightarrow> ('w, 'ep, 'a) base_st \<Rightarrow>
     error_code \<times> ('w, 'ep, 'a) base_st" where
  "local_base_listen Sys backlog st =
     (case st of (impl, k) \<Rightarrow>
        (case os_listen Sys (b_socket impl) backlog (world k) of (err, w) \<Rightarrow> (of_errno err, (impl, k\<lparr>world := w\<rparr>))))"

definition local_base_io_control ::
  "('w, 'ep, 'opt) os \<Rightarrow> int \<Rightarrow> byte_t list \<Rightarrow> ('w, 'ep, 'a) base_st \<Rightarrow>
     (error_code \<times> byte_t list) \<times> ('w, 'ep, 'a) base_st" where
  "local_base_io_control Sys name data st =
     (case st of (impl, k) \<Rightarrow>
        (case os_ioctl Sys (b_socket impl) (b_state impl) name data (world k) of (err, s, data', w) \<Rightarrow>
           ((of_errno err, data'), (impl\<lparr>b_state := s\<rparr>, k\<lparr>world := w\<rparr>))))"

definition local_base_non_blocking :: "'a base_impl_scheme \<Rightarrow> bool" where
  "local_base_non_blocking impl \<longleftrightarrow> user_set_non_blocking \<in> b_state impl"

definition local_base_set_non_blocking ::
  "('w, 'ep, 'opt) os \<Rightarrow> bool \<Rightarrow> ('w, 'ep, 'a) base_st \<Rightarrow>
     error_code \<times> ('w, 'ep, 'a) base_st" where
  "local_base_set_non_blocking Sys mode st =
     (case st of (impl, k) \<Rightarrow>
        (case os_set_user_non_blocking Sys (b_socket impl) (b_state impl) mode (world k) of (err, s, w) \<Rightarrow>
           (of_errno err, (impl\<lparr>b_state := s\<rparr>, k\<lparr>world := w\<rparr>))))"

definition local_base_native_non_blocking :: "'a base_impl_scheme \<Rightarrow> bool" where
  "local_base_native_non_blocking impl \<longleftrightarrow> internal_non_blocking \<in> b_state impl"

definition local_base_set_native_non_blocking ::
  "('w, 'ep, 'opt) os \<Rightarrow> bool \<Rightarrow> ('w, 'ep, 'a) base_st \<Rightarrow>
     error_code \<times> ('w, 'ep, 'a) base_st" where
  "local_base_set_native_non_blocking Sys mode st =
     (case st of (impl, k) \<Rightarrow>
        (case os_set_internal_non_blocking Sys (b_socket impl) (b_state impl) mode (world k) of (err, s, w) \<Rightarrow>
           (of_errno err, (impl\<lparr>b_state := s\<rparr>, k\<lparr>world := w\<rparr>))))"

definition local_poll_until ::
  "('w, 'ep, 'opt) os \<Rightarrow> wait_type \<Rightarrow> ('w, 'ep, 'a) base_st \<Rightarrow>
     error_code \<times> ('w, 'ep, 'a) base_st" where
  "local_poll_until Sys w st =
     (case st of (impl, k) \<Rightarrow>
        (case os_poll Sys w (b_socket impl) (b_state impl) (world k) of (err, w') \<Rightarrow>
           (of_errno err, (impl, k\<lparr>world := w'\<rparr>))))"

definition local_base_wait ::
  "('w, 'ep, 'opt) os \<Rightarrow> wait_type \<Rightarrow> ('w, 'ep, 'a) base_st \<Rightarrow>
     error_code \<times> ('w, 'ep, 'a) base_st" where
  "local_base_wait Sys w st =
     (case w of wait_other n \<Rightarrow> (invalid_argument, st) | _ \<Rightarrow> local_poll_until Sys w st)"

definition local_base_async_wait ::
  "('w, 'ep, 'opt) os \<Rightarrow> wait_type \<Rightarrow> nat \<Rightarrow> bool \<Rightarrow>
     ('w, 'ep, 'a) base_st \<Rightarrow> ('w, 'ep, 'a) base_st" where
  "local_base_async_wait Sys w handler cont st =
     (case w of
        wait_read \<Rightarrow> local_start_op Sys read_op (Wait_op handler) no_error cont False False st
      | wait_write \<Rightarrow> local_start_op Sys write_op (Wait_op handler) no_error cont False False st
      | wait_error \<Rightarrow> local_start_op Sys except_op (Wait_op handler) no_error cont False False st
      | wait_other n \<Rightarrow> (fst st, post_immediate_completion (Wait_op handler) invalid_argument cont (snd st)))"

section \<open>Sending and receiving\<close>

definition local_base_send ::
  "('w, 'ep, 'opt) os \<Rightarrow> byte_t list list \<Rightarrow> message_flags \<Rightarrow> ('w, 'ep, 'a) base_st \<Rightarrow>
     (error_code \<times> nat) \<times> ('w, 'ep, 'a) base_st" where
  "local_base_send Sys bufs flags st =
     (case st of (impl, k) \<Rightarrow>
        (case os_sync_send Sys (b_socket impl) (b_state impl) bufs flags (all_empty bufs) (world k) of (ec, n, w) \<Rightarrow>
           ((ec, n), (impl, k\<lparr>world := w\<rparr>))))"

definition local_base_send_null ::
  "('w, 'ep, 'opt) os \<Rightarrow> ('w, 'ep, 'a) base_st \<Rightarrow>
     (error_code \<times> nat) \<times> ('w, 'ep, 'a) base_st" where
  "local_base_send_null Sys st = (case local_poll_until Sys wait_write st of (ec, st') \<Rightarrow> ((ec, 0), st'))"

definition local_base_async_send ::
  "('w, 'ep, 'opt) os \<Rightarrow> byte_t list list \<Rightarrow> message_flags \<Rightarrow> nat \<Rightarrow> bool \<Rightarrow>
     ('w, 'ep, 'a) base_st \<Rightarrow> ('w, 'ep, 'a) base_st" where
  "local_base_async_send Sys bufs flags handler cont st =
     local_start_op Sys write_op (Send_op (b_socket (fst st)) (b_state (fst st)) bufs flags handler) no_error cont True
       (stream_oriented \<in> b_state (fst st) \<and> all_empty bufs) st"

definition local_base_async_send_null ::
  "('w, 'ep, 'opt) os \<Rightarrow> nat \<Rightarrow> bool \<Rightarrow>
     ('w, 'ep, 'a) base_st \<Rightarrow> ('w, 'ep, 'a) base_st" where
  "local_base_async_send_null Sys handler cont st =
     local_start_op Sys write_op (Null_buffers_op handler) no_error cont False False st"

definition local_base_receive ::
  "('w, 'ep, 'opt) os \<Rightarrow> nat list \<Rightarrow> message_flags \<Rightarrow> ('w, 'ep, 'a) base_st \<Rightarrow>
     (error_code \<times> byte_t list) \<times> ('w, 'ep, 'a) base_st" where
  "local_base_receive Sys sizes flags st =
     (case st of (impl, k) \<Rightarrow>
        (case os_sync_recv Sys (b_socket impl) (b_state impl) sizes flags (all_zero sizes) (world k) of (ec, bs, w) \<Rightarrow>
           ((ec, bs), (impl, k\<lparr>world := w\<rparr>))))"

definition local_base_receive_null ::
  "('w, 'ep, 'opt) os \<Rightarrow> ('w, 'ep, 'a) base_st \<Rightarrow>
     (error_code \<times> nat) \<times> ('w, 'ep, 'a) base_st" where
  "local_base_receive_null Sys st = (case local_poll_until Sys wait_read st of (ec, st') \<Rightarrow> ((ec, 0), st'))"

definition local_base_async_receive ::
  "('w, 'ep, 'opt) os \<Rightarrow> nat list \<Rightarrow> message_flags \<Rightarrow> nat \<Rightarrow> bool \<Rightarrow>
     ('w, 'ep, 'a) base_st \<Rightarrow> ('w, 'ep, 'a) base_st" where
  "local_base_async_receive Sys sizes flags handler cont st =
     local_start_op Sys (read_or_except flags)
       (Recv_op_ext_local (b_socket (fst st)) (b_state (fst st)) sizes flags handler) no_error cont
       (\<not> out_of_band flags) (stream_oriented \<in> b_state (fst st) \<and> all_zero sizes) st"

definition local_base_async_receive_null ::
  "('w, 'ep, 'opt) os \<Rightarrow> message_flags \<Rightarrow> nat \<Rightarrow>
     bool \<Rightarrow> ('w, 'ep, 'a) base_st \<Rightarrow> ('w, 'ep, 'a) base_st" where
  "local_base_async_receive_null Sys flags handler cont st =
     local_start_op Sys (read_or_except flags) (Null_buffers_op handler) no_error cont False False st"

definition local_base_receive_with_flags ::
  "('w, 'ep, 'opt) os \<Rightarrow> nat list \<Rightarrow> message_flags \<Rightarrow> ('w, 'ep, 'a) base_st \<Rightarrow>
     (error_code \<times> byte_t list \<times> message_flags) \<times> ('w, 'ep, 'a) base_st" where
  "local_base_receive_with_flags Sys sizes in_flags st =
     (case st of (impl, k) \<Rightarrow>
        (case os_sync_recvmsg Sys (b_socket impl) (b_state impl) sizes in_flags (world k) of (ec, bs, out_flags, w) \<Rightarrow>
           ((ec, bs, out_flags), (impl, k\<lparr>world := w\<rparr>))))"

definition local_base_receive_with_flags_null ::
  "('w, 'ep, 'opt) os \<Rightarrow> ('w, 'ep, 'a) base_st \<Rightarrow>
     (error_code \<times> nat \<times> message_flags) \<times> ('w, 'ep, 'a) base_st" where
  "local_base_receive_with_flags_null Sys st =
     (case local_poll_until Sys wait_read st of (ec, st') \<Rightarrow> ((ec, 0, 0), st'))"

definition local_base_async_receive_with_flags ::
  "('w, 'ep, 'opt) os \<Rightarrow> nat list \<Rightarrow> message_flags \<Rightarrow> nat \<Rightarrow> bool \<Rightarrow>
     ('w, 'ep, 'a) base_st \<Rightarrow> ('w, 'ep, 'a) base_st" where
  "local_base_async_receive_with_flags Sys sizes in_flags handler cont st =
     local_start_op Sys (read_or_except in_flags) (Recvmsg_op_ext_local (b_socket (fst st)) sizes in_flags handler) no_error cont
       (\<not> out_of_band in_flags) False st"

text \<open>The null-buffers variant answers the cleared \<open>out_flags\<close> at once.\<close>

definition local_base_async_receive_with_flags_null ::
  "('w, 'ep, 'opt) os \<Rightarrow> message_flags \<Rightarrow> nat \<Rightarrow> bool \<Rightarrow>
     ('w, 'ep, 'a) base_st \<Rightarrow> message_flags \<times> ('w, 'ep, 'a) base_st" where
  "local_base_async_receive_with_flags_null Sys in_flags handler cont st =
     (0, local_start_op Sys (read_or_except in_flags) (Null_buffers_op handler) no_error cont False False st)"

end
