(* ===== verification/Local_Service.thy ===== *)
theory Local_Service imports Local_Service_Base begin

text \<open>
  \<open>reactive_socket_service_ext_local<Protocol>\<close>
  (include/helper/1.74/boost/asio/detail/reactive_socket_service_ext_local.hpp): the copy of the service on top
  of the local base service.
\<close>

section \<open>State\<close>

text \<open>
  A default-constructed implementation: the protocol is that of a default endpoint, then the
  service's \<open>local_construct\<close> runs.
\<close>

definition local_new_impl :: "('w, 'ep, 'opt) os \<Rightarrow> impl" where
  "local_new_impl Sys = \<lparr>b_socket = None, b_state = {}, b_reactor_data = 0, i_protocol = os_ep_protocol Sys (os_default_ep Sys)\<rparr>"

definition local_move_construct ::
  "('w, 'ep, 'opt) os \<Rightarrow> impl \<Rightarrow> impl \<Rightarrow> impl \<times> impl" where
  "local_move_construct Sys impl other =
     (case local_base_move_construct impl other of (impl', other') \<Rightarrow>
        (impl'\<lparr>i_protocol := i_protocol other\<rparr>,
         other'\<lparr>i_protocol := os_ep_protocol Sys (os_default_ep Sys)\<rparr>))"

definition local_move_assign ::
  "('w, 'ep, 'opt) os \<Rightarrow> impl \<Rightarrow> impl \<Rightarrow>
     ('w, 'ep) kernel \<Rightarrow> impl \<times> impl \<times> ('w, 'ep) kernel" where
  "local_move_assign Sys impl other k =
     (case local_base_move_assign Sys impl other k of (impl', other', k') \<Rightarrow>
        (impl'\<lparr>i_protocol := i_protocol other\<rparr>,
         other'\<lparr>i_protocol := os_ep_protocol Sys (os_default_ep Sys)\<rparr>, k'))"

definition local_converting_move_construct ::
  "('w, 'ep, 'opt) os \<Rightarrow> (protocol \<Rightarrow> protocol) \<Rightarrow>
     protocol \<Rightarrow> impl \<Rightarrow> impl \<Rightarrow> impl \<times> impl" where
  "local_converting_move_construct Sys convert other_default impl other =
     (case local_base_move_construct impl other of (impl', other') \<Rightarrow>
        (impl'\<lparr>i_protocol := convert (i_protocol other)\<rparr>, other'\<lparr>i_protocol := other_default\<rparr>))"

section \<open>Opening, naming, options\<close>

definition local_svc_open ::
  "('w, 'ep, 'opt) os \<Rightarrow> protocol \<Rightarrow> ('w, 'ep) sk \<Rightarrow>
     error_code \<times> ('w, 'ep) sk" where
  "local_svc_open Sys p st =
     (case local_do_open Sys p st of (ec, (impl, k)) \<Rightarrow>
        (ec, (if \<not> failed ec then impl\<lparr>i_protocol := p\<rparr> else impl, k)))"

definition local_svc_assign ::
  "('w, 'ep, 'opt) os \<Rightarrow> protocol \<Rightarrow> nat \<Rightarrow>
     ('w, 'ep) sk \<Rightarrow> error_code \<times> ('w, 'ep) sk" where
  "local_svc_assign Sys p native st =
     (case local_do_assign Sys (p_type p) native st of (ec, (impl, k)) \<Rightarrow>
        (ec, (if \<not> failed ec then impl\<lparr>i_protocol := p\<rparr> else impl, k)))"

definition local_svc_native_handle :: "impl \<Rightarrow> nat option" where
  "local_svc_native_handle impl = b_socket impl"

definition local_svc_bind ::
  "('w, 'ep, 'opt) os \<Rightarrow> 'ep \<Rightarrow> ('w, 'ep) sk \<Rightarrow>
     error_code \<times> ('w, 'ep) sk" where
  "local_svc_bind Sys ep st =
     (case st of (impl, k) \<Rightarrow>
        (case os_bind Sys (b_socket impl) ep (world k) of (err, w) \<Rightarrow> (of_errno err, (impl, k\<lparr>world := w\<rparr>))))"

definition local_svc_set_option ::
  "('w, 'ep, 'opt) os \<Rightarrow> 'opt \<Rightarrow> ('w, 'ep) sk \<Rightarrow>
     error_code \<times> ('w, 'ep) sk" where
  "local_svc_set_option Sys opt st =
     (case st of (impl, k) \<Rightarrow>
        (case os_setsockopt Sys (b_socket impl) (b_state impl) (i_protocol impl) opt (world k) of (err, s, w) \<Rightarrow>
           (of_errno err, (impl\<lparr>b_state := s\<rparr>, k\<lparr>world := w\<rparr>))))"

text \<open>The option's new contents are used only when there is no error.\<close>

definition local_svc_get_option ::
  "('w, 'ep, 'opt) os \<Rightarrow> 'opt \<Rightarrow> ('w, 'ep) sk \<Rightarrow>
     (error_code \<times> byte_t list option) \<times> ('w, 'ep) sk" where
  "local_svc_get_option Sys opt st =
     (case st of (impl, k) \<Rightarrow>
        (case os_getsockopt Sys (b_socket impl) (b_state impl) (i_protocol impl) opt (world k) of (err, bs, w) \<Rightarrow>
           ((of_errno err, if \<not> failed (of_errno err) then Some bs else None), (impl, k\<lparr>world := w\<rparr>))))"

definition local_svc_local_endpoint ::
  "('w, 'ep, 'opt) os \<Rightarrow> ('w, 'ep) sk \<Rightarrow> error_code \<times> 'ep" where
  "local_svc_local_endpoint Sys st =
     (case os_getsockname Sys (b_socket (fst st)) (world (snd st)) of
        Inl err \<Rightarrow> (of_errno err, os_default_ep Sys) | Inr ep \<Rightarrow> (no_error, ep))"

definition local_svc_remote_endpoint ::
  "('w, 'ep, 'opt) os \<Rightarrow> ('w, 'ep) sk \<Rightarrow> error_code \<times> 'ep" where
  "local_svc_remote_endpoint Sys st =
     (case os_getpeername Sys (b_socket (fst st)) (world (snd st)) of
        Inl err \<Rightarrow> (of_errno err, os_default_ep Sys) | Inr ep \<Rightarrow> (no_error, ep))"

definition local_svc_shutdown ::
  "('w, 'ep, 'opt) os \<Rightarrow> shutdown_type \<Rightarrow> ('w, 'ep) sk \<Rightarrow>
     error_code \<times> ('w, 'ep) sk" where
  "local_svc_shutdown Sys what st =
     (case st of (impl, k) \<Rightarrow>
        (case os_shutdown Sys (b_socket impl) what (world k) of (err, w) \<Rightarrow> (of_errno err, (impl, k\<lparr>world := w\<rparr>))))"

section \<open>Datagrams\<close>

definition local_svc_send_to ::
  "('w, 'ep, 'opt) os \<Rightarrow> byte_t list list \<Rightarrow> 'ep \<Rightarrow> message_flags \<Rightarrow> ('w, 'ep) sk \<Rightarrow>
     (error_code \<times> nat) \<times> ('w, 'ep) sk" where
  "local_svc_send_to Sys bufs destination flags st =
     (case st of (impl, k) \<Rightarrow>
        (case os_sync_sendto Sys (b_socket impl) (b_state impl) bufs flags destination (world k) of (ec, n, w) \<Rightarrow>
           ((ec, n), (impl, k\<lparr>world := w\<rparr>))))"

definition local_svc_send_to_null ::
  "('w, 'ep, 'opt) os \<Rightarrow> ('w, 'ep) sk \<Rightarrow>
     (error_code \<times> nat) \<times> ('w, 'ep) sk" where
  "local_svc_send_to_null Sys st = (case local_poll_until Sys wait_write st of (ec, st') \<Rightarrow> ((ec, 0), st'))"

definition local_svc_async_send_to ::
  "('w, 'ep, 'opt) os \<Rightarrow> byte_t list list \<Rightarrow> 'ep \<Rightarrow>
     message_flags \<Rightarrow> nat \<Rightarrow> bool \<Rightarrow> ('w, 'ep) sk \<Rightarrow> ('w, 'ep) sk" where
  "local_svc_async_send_to Sys bufs destination flags handler cont st =
     local_start_op Sys write_op (Sendto_op (b_socket (fst st)) bufs destination flags handler) no_error cont True False st"

definition local_svc_async_send_to_null ::
  "('w, 'ep, 'opt) os \<Rightarrow> nat \<Rightarrow> bool \<Rightarrow> ('w, 'ep) sk \<Rightarrow>
     ('w, 'ep) sk" where
  "local_svc_async_send_to_null Sys handler cont st =
     local_start_op Sys write_op (Null_buffers_op handler) no_error cont False False st"

text \<open>The sender is reported only when there is no error; otherwise the caller's endpoint is kept.\<close>

definition local_svc_receive_from ::
  "('w, 'ep, 'opt) os \<Rightarrow> nat list \<Rightarrow> 'ep \<Rightarrow> message_flags \<Rightarrow> ('w, 'ep) sk \<Rightarrow>
     (error_code \<times> byte_t list \<times> 'ep) \<times> ('w, 'ep) sk" where
  "local_svc_receive_from Sys sizes sender flags st =
     (case st of (impl, k) \<Rightarrow>
        (case os_sync_recvfrom Sys (b_socket impl) (b_state impl) sizes flags (world k) of (ec, bs, ep, w) \<Rightarrow>
           ((ec, bs, if \<not> failed ec then ep else sender), (impl, k\<lparr>world := w\<rparr>))))"

definition local_svc_receive_from_null ::
  "('w, 'ep, 'opt) os \<Rightarrow> ('w, 'ep) sk \<Rightarrow>
     (error_code \<times> nat \<times> 'ep) \<times> ('w, 'ep) sk" where
  "local_svc_receive_from_null Sys st =
     (case local_poll_until Sys wait_read st of (ec, st') \<Rightarrow> ((ec, 0, os_default_ep Sys), st'))"

text \<open>
  The \<open>async_receive_from\<close> that fills a buffer is no function of this model: it hands \<open>success_ec\<close> to
  \<open>reactive_socket_recvfrom_op_ext_local\<close>, whose constructors do not take it, so no call of it compiles.
\<close>

definition local_svc_async_receive_from_null ::
  "('w, 'ep, 'opt) os \<Rightarrow> message_flags \<Rightarrow> nat \<Rightarrow>
     bool \<Rightarrow> ('w, 'ep) sk \<Rightarrow> 'ep \<times> ('w, 'ep) sk" where
  "local_svc_async_receive_from_null Sys flags handler cont st =
     (os_default_ep Sys,
      local_start_op Sys (read_or_except flags) (Null_buffers_op handler) no_error cont False False st)"

section \<open>Accepting and connecting\<close>

text \<open>
  The new descriptor is in the kernel's table from the moment it is accepted; the \<open>socket_holder\<close>
  closes it when the peer cannot take it.
\<close>

definition local_svc_accept ::
  "('w, 'ep, 'opt) os \<Rightarrow> impl \<Rightarrow> impl \<Rightarrow> ('w, 'ep) kernel \<Rightarrow>
     (error_code \<times> 'ep option) \<times> impl \<times> ('w, 'ep) kernel" where
  "local_svc_accept Sys impl peer k =
     (if local_base_is_open peer then ((already_open, None), (peer, k))
      else
        (case os_sync_accept Sys (b_socket impl) (b_state impl) (world k) of
           (Inl err, w) \<Rightarrow> ((of_errno err, None), (peer, k\<lparr>world := w\<rparr>))
         | (Inr (fd, ep), w) \<Rightarrow>
             (case local_svc_assign Sys (i_protocol impl) fd
                 (peer, k\<lparr>world := w, descriptors := insert fd (descriptors k)\<rparr>) of
                (ec, (peer', k')) \<Rightarrow>
                  if \<not> failed ec then ((ec, Some ep), (peer', k'))
                  else ((ec, Some ep), (peer', snd (sys_close Sys fd {} True k'))))))"

definition local_svc_async_accept ::
  "('w, 'ep, 'opt) os \<Rightarrow> bool \<Rightarrow> bool \<Rightarrow> nat \<Rightarrow>
     bool \<Rightarrow> ('w, 'ep) sk \<Rightarrow> ('w, 'ep) sk" where
  "local_svc_async_accept Sys peer_is_open wants_endpoint handler cont st =
     local_start_accept_op Sys
       (Accept_op (b_socket (fst st)) (b_state (fst st)) (i_protocol (fst st)) wants_endpoint handler)
       cont peer_is_open st"

definition local_svc_async_move_accept ::
  "('w, 'ep, 'opt) os \<Rightarrow> bool \<Rightarrow> nat \<Rightarrow> bool \<Rightarrow>
     ('w, 'ep) sk \<Rightarrow> ('w, 'ep) sk" where
  "local_svc_async_move_accept Sys wants_endpoint handler cont st =
     local_start_accept_op Sys
       (Accept_op (b_socket (fst st)) (b_state (fst st)) (i_protocol (fst st)) wants_endpoint handler)
       cont False st"

definition local_svc_connect ::
  "('w, 'ep, 'opt) os \<Rightarrow> 'ep \<Rightarrow> ('w, 'ep) sk \<Rightarrow>
     error_code \<times> ('w, 'ep) sk" where
  "local_svc_connect Sys ep st =
     (case st of (impl, k) \<Rightarrow>
        (case os_sync_connect Sys (b_socket impl) ep (world k) of (err, w) \<Rightarrow> (of_errno err, (impl, k\<lparr>world := w\<rparr>))))"

definition local_svc_async_connect ::
  "('w, 'ep, 'opt) os \<Rightarrow> 'ep \<Rightarrow> nat \<Rightarrow> bool \<Rightarrow>
     ('w, 'ep) sk \<Rightarrow> ('w, 'ep) sk" where
  "local_svc_async_connect Sys ep handler cont st =
     local_start_connect_op Sys (Connect_op (b_socket (fst st)) handler) cont ep st"

end
