(* ===== verification/Basic_Socket_Local.thy ===== *)
theory Basic_Socket_Local imports Local_Service begin

text \<open>
  \<open>basic_socket_ext_local<Protocol, Executor>\<close>
  (include/helper/1.74/boost/asio/basic_socket_ext_local.hpp): the copy of \<open>basic_socket_ext\<close> that
  streams and acceptors are derived from, on the local service.
\<close>

section \<open>Constructors\<close>

definition local_bs_new :: "('w, 'ep, 'opt) os \<Rightarrow> ('w, 'ep) kernel \<Rightarrow> ('w, 'ep) sk" where
  "local_bs_new Sys k = (local_construct (local_new_impl Sys), k)"

definition local_bs_new_context ::
  "('w, 'ep, 'opt) os \<Rightarrow> ('w, 'ep) kernel \<Rightarrow> ('w, 'ep) sk" where
  "local_bs_new_context Sys k = (local_construct (local_new_impl Sys), k)"

text \<open>
  When a constructor throws, the members built so far are destroyed: \<open>impl_\<close>'s destructor destroys
  the implementation, which closes the descriptor.
\<close>

definition local_unwind :: "('w, 'ep, 'opt) os \<Rightarrow> ('w, 'ep) sk \<Rightarrow> ('w, 'ep) kernel" where
  "local_unwind Sys st = local_destroy Sys (fst st) (snd st)"

definition local_bs_new_protocol ::
  "('w, 'ep, 'opt) os \<Rightarrow> protocol \<Rightarrow> ('w, 'ep) kernel \<Rightarrow>
     ((string \<times> error_code) \<times> ('w, 'ep) kernel) + ('w, 'ep) sk" where
  "local_bs_new_protocol Sys p k =
     (case local_svc_open Sys p (local_bs_new Sys k) of (ec, st) \<Rightarrow>
        if failed ec then Inl ((''open'', ec), local_unwind Sys st) else Inr st)"

definition local_bs_new_protocol_context ::
  "('w, 'ep, 'opt) os \<Rightarrow> protocol \<Rightarrow> ('w, 'ep) kernel \<Rightarrow>
     ((string \<times> error_code) \<times> ('w, 'ep) kernel) + ('w, 'ep) sk" where
  "local_bs_new_protocol_context Sys p k =
     (case local_svc_open Sys p (local_bs_new_context Sys k) of (ec, st) \<Rightarrow>
        if failed ec then Inl ((''open'', ec), local_unwind Sys st) else Inr st)"

definition local_bs_new_endpoint ::
  "('w, 'ep, 'opt) os \<Rightarrow> 'ep \<Rightarrow> ('w, 'ep) kernel \<Rightarrow>
     ((string \<times> error_code) \<times> ('w, 'ep) kernel) + ('w, 'ep) sk" where
  "local_bs_new_endpoint Sys ep k =
     (case local_svc_open Sys (os_ep_protocol Sys ep) (local_bs_new Sys k) of (ec, st) \<Rightarrow>
        if failed ec then Inl ((''open'', ec), local_unwind Sys st)
        else
          (case local_svc_bind Sys ep st of (ec', st') \<Rightarrow>
             if failed ec' then Inl ((''bind'', ec'), local_unwind Sys st') else Inr st'))"

definition local_bs_new_endpoint_context ::
  "('w, 'ep, 'opt) os \<Rightarrow> 'ep \<Rightarrow> ('w, 'ep) kernel \<Rightarrow>
     ((string \<times> error_code) \<times> ('w, 'ep) kernel) + ('w, 'ep) sk" where
  "local_bs_new_endpoint_context Sys ep k =
     (case local_svc_open Sys (os_ep_protocol Sys ep) (local_bs_new_context Sys k) of (ec, st) \<Rightarrow>
        if failed ec then Inl ((''open'', ec), local_unwind Sys st)
        else
          (case local_svc_bind Sys ep st of (ec', st') \<Rightarrow>
             if failed ec' then Inl ((''bind'', ec'), local_unwind Sys st') else Inr st'))"

definition local_bs_new_native ::
  "('w, 'ep, 'opt) os \<Rightarrow> protocol \<Rightarrow> nat \<Rightarrow>
     ('w, 'ep) kernel \<Rightarrow> ((string \<times> error_code) \<times> ('w, 'ep) kernel) + ('w, 'ep) sk" where
  "local_bs_new_native Sys p native k =
     (case local_svc_assign Sys p native (local_bs_new Sys k) of (ec, st) \<Rightarrow>
        if failed ec then Inl ((''assign'', ec), local_unwind Sys st) else Inr st)"

definition local_bs_new_native_context ::
  "('w, 'ep, 'opt) os \<Rightarrow> protocol \<Rightarrow> nat \<Rightarrow>
     ('w, 'ep) kernel \<Rightarrow> ((string \<times> error_code) \<times> ('w, 'ep) kernel) + ('w, 'ep) sk" where
  "local_bs_new_native_context Sys p native k =
     (case local_svc_assign Sys p native (local_bs_new_context Sys k) of (ec, st) \<Rightarrow>
        if failed ec then Inl ((''assign'', ec), local_unwind Sys st) else Inr st)"

definition local_bs_move_construct ::
  "('w, 'ep, 'opt) os \<Rightarrow> impl \<Rightarrow> impl \<times> impl" where
  "local_bs_move_construct Sys other = local_move_construct Sys (local_new_impl Sys) other"

definition local_bs_move_assign ::
  "('w, 'ep, 'opt) os \<Rightarrow> impl \<Rightarrow> impl \<Rightarrow>
     ('w, 'ep) kernel \<Rightarrow> impl \<times> impl \<times> ('w, 'ep) kernel" where
  "local_bs_move_assign Sys impl other k = local_move_assign Sys impl other k"

definition local_bs_converting_move_construct ::
  "('w, 'ep, 'opt) os \<Rightarrow> (protocol \<Rightarrow> protocol) \<Rightarrow> protocol \<Rightarrow> impl \<Rightarrow> impl \<times> impl" where
  "local_bs_converting_move_construct Sys convert other_default other =
     local_converting_move_construct Sys convert other_default (local_new_impl Sys) other"

text \<open>The source is moved into a temporary, that into the target; then the temporary is destroyed.\<close>

definition local_bs_converting_move_assign ::
  "('w, 'ep, 'opt) os \<Rightarrow> (protocol \<Rightarrow> protocol) \<Rightarrow> protocol \<Rightarrow> impl \<Rightarrow> impl \<Rightarrow> ('w, 'ep) kernel \<Rightarrow>
     impl \<times> impl \<times> ('w, 'ep) kernel" where
  "local_bs_converting_move_assign Sys convert other_default impl other k =
     (case local_bs_converting_move_construct Sys convert other_default other of (tmp, other') \<Rightarrow>
        case local_move_assign Sys impl tmp k of (impl', tmp', k') \<Rightarrow>
          (impl', other', local_destroy Sys tmp' k'))"

section \<open>Opening and closing\<close>

definition local_bs_open_throw ::
  "('w, 'ep, 'opt) os \<Rightarrow> protocol \<Rightarrow> ('w, 'ep) sk \<Rightarrow>
     unit thrown \<times> ('w, 'ep) sk" where
  "local_bs_open_throw Sys p st = (case local_svc_open Sys p st of (ec, st') \<Rightarrow> (throw_error ''open'' ec (), st'))"

definition local_bs_open ::
  "('w, 'ep, 'opt) os \<Rightarrow> protocol \<Rightarrow> ('w, 'ep) sk \<Rightarrow>
     error_code \<times> ('w, 'ep) sk" where
  "local_bs_open Sys p st = local_svc_open Sys p st"

definition local_bs_assign_throw ::
  "('w, 'ep, 'opt) os \<Rightarrow> protocol \<Rightarrow> nat \<Rightarrow>
     ('w, 'ep) sk \<Rightarrow> unit thrown \<times> ('w, 'ep) sk" where
  "local_bs_assign_throw Sys p native st =
     (case local_svc_assign Sys p native st of (ec, st') \<Rightarrow> (throw_error ''assign'' ec (), st'))"

definition local_bs_assign ::
  "('w, 'ep, 'opt) os \<Rightarrow> protocol \<Rightarrow> nat \<Rightarrow>
     ('w, 'ep) sk \<Rightarrow> error_code \<times> ('w, 'ep) sk" where
  "local_bs_assign Sys p native st = local_svc_assign Sys p native st"

definition local_bs_is_open :: "('w, 'ep) sk \<Rightarrow> bool" where
  "local_bs_is_open st = local_base_is_open (fst st)"

definition local_bs_close_throw ::
  "('w, 'ep, 'opt) os \<Rightarrow> ('w, 'ep) sk \<Rightarrow> unit thrown \<times> ('w, 'ep) sk" where
  "local_bs_close_throw Sys st = (case local_base_close Sys st of (ec, st') \<Rightarrow> (throw_error ''close'' ec (), st'))"

definition local_bs_close ::
  "('w, 'ep, 'opt) os \<Rightarrow> ('w, 'ep) sk \<Rightarrow> error_code \<times> ('w, 'ep) sk" where
  "local_bs_close Sys st = local_base_close Sys st"

definition local_bs_release_throw ::
  "(('w, 'ep) sk \<Rightarrow> (error_code \<times> nat option) \<times> ('w, 'ep) sk) \<Rightarrow> ('w, 'ep) sk \<Rightarrow>
     nat option thrown \<times> ('w, 'ep) sk" where
  "local_bs_release_throw release st = (case release st of ((ec, s), st') \<Rightarrow> (throw_error ''release'' ec s, st'))"

definition local_bs_release ::
  "(('w, 'ep) sk \<Rightarrow> (error_code \<times> nat option) \<times> ('w, 'ep) sk) \<Rightarrow> ('w, 'ep) sk \<Rightarrow>
     (error_code \<times> nat option) \<times> ('w, 'ep) sk" where
  "local_bs_release release st = release st"

definition local_bs_native_handle :: "('w, 'ep) sk \<Rightarrow> nat option" where
  "local_bs_native_handle st = local_svc_native_handle (fst st)"

definition local_bs_cancel_throw :: "('w, 'ep) sk \<Rightarrow> unit thrown \<times> ('w, 'ep) sk" where
  "local_bs_cancel_throw st = (case local_base_cancel st of (ec, st') \<Rightarrow> (throw_error ''cancel'' ec (), st'))"

definition local_bs_cancel :: "('w, 'ep) sk \<Rightarrow> error_code \<times> ('w, 'ep) sk" where
  "local_bs_cancel st = local_base_cancel st"

definition local_bs_at_mark_throw ::
  "('w, 'ep, 'opt) os \<Rightarrow> ('w, 'ep) sk \<Rightarrow> bool thrown" where
  "local_bs_at_mark_throw Sys st = (case local_base_at_mark Sys st of (ec, b) \<Rightarrow> throw_error ''at_mark'' ec b)"

definition local_bs_at_mark ::
  "('w, 'ep, 'opt) os \<Rightarrow> ('w, 'ep) sk \<Rightarrow> error_code \<times> bool" where
  "local_bs_at_mark Sys st = local_base_at_mark Sys st"

definition local_bs_available_throw ::
  "('w, 'ep, 'opt) os \<Rightarrow> ('w, 'ep) sk \<Rightarrow> nat thrown" where
  "local_bs_available_throw Sys st = (case local_base_available Sys st of (ec, n) \<Rightarrow> throw_error ''available'' ec n)"

definition local_bs_available ::
  "('w, 'ep, 'opt) os \<Rightarrow> ('w, 'ep) sk \<Rightarrow> error_code \<times> nat" where
  "local_bs_available Sys st = local_base_available Sys st"

section \<open>Binding and connecting\<close>

definition local_bs_bind_throw ::
  "('w, 'ep, 'opt) os \<Rightarrow> 'ep \<Rightarrow> ('w, 'ep) sk \<Rightarrow>
     unit thrown \<times> ('w, 'ep) sk" where
  "local_bs_bind_throw Sys ep st = (case local_svc_bind Sys ep st of (ec, st') \<Rightarrow> (throw_error ''bind'' ec (), st'))"

definition local_bs_bind ::
  "('w, 'ep, 'opt) os \<Rightarrow> 'ep \<Rightarrow> ('w, 'ep) sk \<Rightarrow>
     error_code \<times> ('w, 'ep) sk" where
  "local_bs_bind Sys ep st = local_svc_bind Sys ep st"

definition local_bs_connect_throw ::
  "('w, 'ep, 'opt) os \<Rightarrow> 'ep \<Rightarrow> ('w, 'ep) sk \<Rightarrow>
     unit thrown \<times> ('w, 'ep) sk" where
  "local_bs_connect_throw Sys ep st =
     (case (if \<not> local_bs_is_open st then
              (case local_svc_open Sys (os_ep_protocol Sys ep) st of (ec, st') \<Rightarrow> (throw_error ''connect'' ec (), st'))
            else (Inr (), st)) of
        (Inl e, st1) \<Rightarrow> (Inl e, st1)
      | (Inr u, st1) \<Rightarrow>
          (case local_svc_connect Sys ep st1 of (ec, st2) \<Rightarrow> (throw_error ''connect'' ec (), st2)))"

definition local_bs_connect ::
  "('w, 'ep, 'opt) os \<Rightarrow> 'ep \<Rightarrow> ('w, 'ep) sk \<Rightarrow>
     error_code \<times> ('w, 'ep) sk" where
  "local_bs_connect Sys ep st =
     (case (if \<not> local_bs_is_open st then local_svc_open Sys (os_ep_protocol Sys ep) st else (no_error, st)) of (ec, st1) \<Rightarrow>
        if failed ec then (ec, st1) else local_svc_connect Sys ep st1)"

text \<open>
  \<open>async_connect\<close>: when the socket cannot be opened, the handler is posted to the executor with
  the error (first component); otherwise the operation is started.
\<close>

definition local_bs_initiate_async_connect ::
  "('w, 'ep, 'opt) os \<Rightarrow> 'ep \<Rightarrow> error_code \<Rightarrow> nat \<Rightarrow> bool \<Rightarrow> ('w, 'ep) sk \<Rightarrow> (nat \<times> error_code) option \<times> ('w, 'ep) sk" where
  "local_bs_initiate_async_connect Sys ep open_ec handler cont st =
     (if failed open_ec then (Some (handler, open_ec), st)
      else (None, local_svc_async_connect Sys ep handler cont st))"

definition local_bs_async_connect ::
  "('w, 'ep, 'opt) os \<Rightarrow> 'ep \<Rightarrow> nat \<Rightarrow> bool \<Rightarrow>
     ('w, 'ep) sk \<Rightarrow> (nat \<times> error_code) option \<times> ('w, 'ep) sk" where
  "local_bs_async_connect Sys ep handler cont st =
     (case (if \<not> local_bs_is_open st then local_svc_open Sys (os_ep_protocol Sys ep) st else (no_error, st)) of (open_ec, st1) \<Rightarrow>
        local_bs_initiate_async_connect Sys ep open_ec handler cont st1)"

section \<open>Options and control\<close>

definition local_bs_set_option_throw ::
  "('w, 'ep, 'opt) os \<Rightarrow> 'opt \<Rightarrow> ('w, 'ep) sk \<Rightarrow>
     unit thrown \<times> ('w, 'ep) sk" where
  "local_bs_set_option_throw Sys opt st =
     (case local_svc_set_option Sys opt st of (ec, st') \<Rightarrow> (throw_error ''set_option'' ec (), st'))"

definition local_bs_set_option ::
  "('w, 'ep, 'opt) os \<Rightarrow> 'opt \<Rightarrow> ('w, 'ep) sk \<Rightarrow>
     error_code \<times> ('w, 'ep) sk" where
  "local_bs_set_option Sys opt st = local_svc_set_option Sys opt st"

definition local_bs_get_option_throw ::
  "('w, 'ep, 'opt) os \<Rightarrow> 'opt \<Rightarrow> ('w, 'ep) sk \<Rightarrow>
     byte_t list option thrown \<times> ('w, 'ep) sk" where
  "local_bs_get_option_throw Sys opt st =
     (case local_svc_get_option Sys opt st of ((ec, v), st') \<Rightarrow> (throw_error ''get_option'' ec v, st'))"

definition local_bs_get_option ::
  "('w, 'ep, 'opt) os \<Rightarrow> 'opt \<Rightarrow> ('w, 'ep) sk \<Rightarrow>
     (error_code \<times> byte_t list option) \<times> ('w, 'ep) sk" where
  "local_bs_get_option Sys opt st = local_svc_get_option Sys opt st"

definition local_bs_io_control_throw ::
  "('w, 'ep, 'opt) os \<Rightarrow> int \<Rightarrow> byte_t list \<Rightarrow>
     ('w, 'ep) sk \<Rightarrow> byte_t list thrown \<times> ('w, 'ep) sk" where
  "local_bs_io_control_throw Sys name data st =
     (case local_base_io_control Sys name data st of ((ec, data'), st') \<Rightarrow> (throw_error ''io_control'' ec data', st'))"

definition local_bs_io_control ::
  "('w, 'ep, 'opt) os \<Rightarrow> int \<Rightarrow> byte_t list \<Rightarrow>
     ('w, 'ep) sk \<Rightarrow> (error_code \<times> byte_t list) \<times> ('w, 'ep) sk" where
  "local_bs_io_control Sys name data st = local_base_io_control Sys name data st"

definition local_bs_non_blocking :: "('w, 'ep) sk \<Rightarrow> bool" where
  "local_bs_non_blocking st = local_base_non_blocking (fst st)"

definition local_bs_set_non_blocking_throw ::
  "('w, 'ep, 'opt) os \<Rightarrow> bool \<Rightarrow> ('w, 'ep) sk \<Rightarrow>
     unit thrown \<times> ('w, 'ep) sk" where
  "local_bs_set_non_blocking_throw Sys mode st =
     (case local_base_set_non_blocking Sys mode st of (ec, st') \<Rightarrow> (throw_error ''non_blocking'' ec (), st'))"

definition local_bs_set_non_blocking ::
  "('w, 'ep, 'opt) os \<Rightarrow> bool \<Rightarrow> ('w, 'ep) sk \<Rightarrow>
     error_code \<times> ('w, 'ep) sk" where
  "local_bs_set_non_blocking Sys mode st = local_base_set_non_blocking Sys mode st"

definition local_bs_native_non_blocking :: "('w, 'ep) sk \<Rightarrow> bool" where
  "local_bs_native_non_blocking st = local_base_native_non_blocking (fst st)"

definition local_bs_set_native_non_blocking_throw ::
  "('w, 'ep, 'opt) os \<Rightarrow> bool \<Rightarrow> ('w, 'ep) sk \<Rightarrow>
     unit thrown \<times> ('w, 'ep) sk" where
  "local_bs_set_native_non_blocking_throw Sys mode st =
     (case local_base_set_native_non_blocking Sys mode st of (ec, st') \<Rightarrow> (throw_error ''native_non_blocking'' ec (), st'))"

definition local_bs_set_native_non_blocking ::
  "('w, 'ep, 'opt) os \<Rightarrow> bool \<Rightarrow> ('w, 'ep) sk \<Rightarrow>
     error_code \<times> ('w, 'ep) sk" where
  "local_bs_set_native_non_blocking Sys mode st = local_base_set_native_non_blocking Sys mode st"

section \<open>Endpoints, shutdown, waiting\<close>

definition local_bs_local_endpoint_throw ::
  "('w, 'ep, 'opt) os \<Rightarrow> ('w, 'ep) sk \<Rightarrow> 'ep thrown" where
  "local_bs_local_endpoint_throw Sys st = (case local_svc_local_endpoint Sys st of (ec, ep) \<Rightarrow> throw_error ''local_endpoint'' ec ep)"

definition local_bs_local_endpoint ::
  "('w, 'ep, 'opt) os \<Rightarrow> ('w, 'ep) sk \<Rightarrow> error_code \<times> 'ep" where
  "local_bs_local_endpoint Sys st = local_svc_local_endpoint Sys st"

definition local_bs_remote_endpoint_throw ::
  "('w, 'ep, 'opt) os \<Rightarrow> ('w, 'ep) sk \<Rightarrow> 'ep thrown" where
  "local_bs_remote_endpoint_throw Sys st = (case local_svc_remote_endpoint Sys st of (ec, ep) \<Rightarrow> throw_error ''remote_endpoint'' ec ep)"

definition local_bs_remote_endpoint ::
  "('w, 'ep, 'opt) os \<Rightarrow> ('w, 'ep) sk \<Rightarrow> error_code \<times> 'ep" where
  "local_bs_remote_endpoint Sys st = local_svc_remote_endpoint Sys st"

definition local_bs_shutdown_throw ::
  "('w, 'ep, 'opt) os \<Rightarrow> shutdown_type \<Rightarrow> ('w, 'ep) sk \<Rightarrow>
     unit thrown \<times> ('w, 'ep) sk" where
  "local_bs_shutdown_throw Sys what st =
     (case local_svc_shutdown Sys what st of (ec, st') \<Rightarrow> (throw_error ''shutdown'' ec (), st'))"

definition local_bs_shutdown ::
  "('w, 'ep, 'opt) os \<Rightarrow> shutdown_type \<Rightarrow> ('w, 'ep) sk \<Rightarrow>
     error_code \<times> ('w, 'ep) sk" where
  "local_bs_shutdown Sys what st = local_svc_shutdown Sys what st"

definition local_bs_wait_throw ::
  "('w, 'ep, 'opt) os \<Rightarrow> wait_type \<Rightarrow> ('w, 'ep) sk \<Rightarrow>
     unit thrown \<times> ('w, 'ep) sk" where
  "local_bs_wait_throw Sys w st = (case local_base_wait Sys w st of (ec, st') \<Rightarrow> (throw_error ''wait'' ec (), st'))"

definition local_bs_wait ::
  "('w, 'ep, 'opt) os \<Rightarrow> wait_type \<Rightarrow> ('w, 'ep) sk \<Rightarrow>
     error_code \<times> ('w, 'ep) sk" where
  "local_bs_wait Sys w st = local_base_wait Sys w st"

definition local_bs_initiate_async_wait :: "('w, 'ep, 'opt) os \<Rightarrow> wait_type \<Rightarrow> nat \<Rightarrow> bool \<Rightarrow>
     ('w, 'ep) sk \<Rightarrow> ('w, 'ep) sk" where
  "local_bs_initiate_async_wait Sys w handler cont st = local_base_async_wait Sys w handler cont st"

definition local_bs_async_wait :: "('w, 'ep, 'opt) os \<Rightarrow> wait_type \<Rightarrow> nat \<Rightarrow> bool \<Rightarrow>
     ('w, 'ep) sk \<Rightarrow> ('w, 'ep) sk" where
  "local_bs_async_wait Sys w handler cont st = local_bs_initiate_async_wait Sys w handler cont st"

end
