(* ===== verification/Service_Requests.thy ===== *)
theory Service_Requests imports Socket_Props begin

text \<open>
  The extended service as a machine that answers requests, and how two such machines are compared: one
  behaves as the other when it gives the same answers and its kernel is a view of the other's, a
  renaming of the operations the reactor holds.  The locale \<open>kernel_view\<close> carries what the views of the
  local copies and of the older helper share.
\<close>

section \<open>Requests\<close>

text \<open>What a socket can be asked, and what it answers beside its new state.\<close>

datatype ('ep, 'opt) request =
    Open protocol
  | Assign protocol nat
  | Close
  | Cancel
  | Bind 'ep
  | Listen int
  | Set_option 'opt
  | Io_control int "byte_t list"
  | Set_non_blocking bool
  | Set_native_non_blocking bool
  | Connect 'ep
  | Async_connect 'ep nat bool
  | Shutdown shutdown_type
  | Wait wait_type
  | Async_wait wait_type nat bool
  | Send "byte_t list list" message_flags
  | Async_send "byte_t list list" message_flags nat bool
  | Receive "nat list" message_flags
  | Async_receive "nat list" message_flags nat bool
  | Async_receive_with_flags "nat list" message_flags nat bool
  | Send_datagram "byte_t list list" 'ep message_flags
  | Async_send_datagram "byte_t list list" 'ep message_flags nat bool
  | Receive_datagram "nat list" 'ep message_flags
  | Async_receive_datagram "nat list" message_flags nat bool
  | Async_accept_into bool bool nat bool
  | Async_accept_new bool nat bool
  | Renew

datatype 'ep answer = Started | Code error_code | Count error_code nat | Data error_code "byte_t list"
  | Datagram error_code "byte_t list" 'ep

text \<open>
  \<open>None\<close> for a request no call of this service answers: a receive with flags does not compile.
\<close>

fun ext_request ::
  "('w, 'ep, 'opt) os \<Rightarrow> ('ep, 'opt) request \<Rightarrow> ('w, 'ep) sk \<Rightarrow> ('ep answer \<times> ('w, 'ep) sk) option" where
  "ext_request Sys (Open p) st = Some (map_prod Code id (svc_open Sys p st))"
| "ext_request Sys (Assign p native) st = Some (map_prod Code id (svc_assign Sys p native st))"
| "ext_request Sys Close st = Some (map_prod Code id (base_close Sys st))"
| "ext_request Sys Cancel st = Some (map_prod Code id (base_cancel st))"
| "ext_request Sys (Bind ep) st = Some (map_prod Code id (svc_bind Sys ep st))"
| "ext_request Sys (Listen n) st = Some (map_prod Code id (base_listen Sys n st))"
| "ext_request Sys (Set_option opt) st = Some (map_prod Code id (svc_set_option Sys opt st))"
| "ext_request Sys (Io_control n bs) st =
     Some (map_prod (\<lambda>(ec, bs). Data ec bs) id (base_io_control Sys n bs st))"
| "ext_request Sys (Set_non_blocking m) st = Some (map_prod Code id (base_set_non_blocking Sys m st))"
| "ext_request Sys (Set_native_non_blocking m) st =
     Some (map_prod Code id (base_set_native_non_blocking Sys m st))"
| "ext_request Sys (Connect ep) st = Some (map_prod Code id (svc_connect Sys ep st))"
| "ext_request Sys (Async_connect ep h cont) st = Some (Started, svc_async_connect Sys ep h cont st)"
| "ext_request Sys (Shutdown what) st = Some (map_prod Code id (svc_shutdown Sys what st))"
| "ext_request Sys (Wait w) st = Some (map_prod Code id (base_wait Sys w st))"
| "ext_request Sys (Async_wait w h cont) st = Some (Started, base_async_wait Sys w h cont st)"
| "ext_request Sys (Send bufs flags) st =
     Some (map_prod (\<lambda>(ec, n). Count ec n) id (base_send Sys bufs flags st))"
| "ext_request Sys (Async_send bufs flags h cont) st = Some (Started, base_async_send Sys bufs flags h cont st)"
| "ext_request Sys (Receive ns flags) st =
     Some (map_prod (\<lambda>(ec, bs). Data ec bs) id (base_receive Sys ns flags st))"
| "ext_request Sys (Async_receive ns flags h cont) st = Some (Started, base_async_receive Sys ns flags h cont st)"
| "ext_request Sys (Async_receive_with_flags ns flags h cont) st = None"
| "ext_request Sys (Send_datagram bufs ep flags) st =
     Some (map_prod (\<lambda>(ec, n). Count ec n) id (svc_send_to Sys bufs ep flags st))"
| "ext_request Sys (Async_send_datagram bufs ep flags h cont) st =
     Some (Started, svc_async_send_to Sys bufs ep flags h cont st)"
| "ext_request Sys (Receive_datagram ns ep flags) st =
     Some (map_prod (\<lambda>(ec, bs, ep). Datagram ec bs ep) id (svc_receive_from Sys ns ep flags st))"
| "ext_request Sys (Async_receive_datagram ns flags h cont) st =
     Some (Started, svc_async_receive_from Sys ns flags h cont st)"
| "ext_request Sys (Async_accept_into peer_open wants h cont) st =
     Some (Started, svc_async_accept Sys peer_open wants h cont st)"
| "ext_request Sys (Async_accept_new wants h cont) st = Some (Started, svc_async_move_accept Sys wants h cont st)"
| "ext_request Sys Renew st = Some (Started, (construct (new_impl Sys), destroy Sys (fst st) (snd st)))"

fun ext_has :: "('ep, 'opt) request \<Rightarrow> bool" where
  "ext_has (Async_receive_with_flags ns flags h cont) = False"
| "ext_has r = True"

text \<open>
  A conversation: the answers and the state after the requests.  One that may fail stops at the first
  request the service has no call for.
\<close>

fun conversation ::
  "('r \<Rightarrow> 's \<Rightarrow> 'a \<times> 's) \<Rightarrow> 'r list \<Rightarrow> 's \<Rightarrow> 'a list \<times> 's" where
  "conversation f [] s = ([], s)"
| "conversation f (r # rs) s = (case f r s of (a, s') \<Rightarrow> map_prod (Cons a) id (conversation f rs s'))"

fun try_conversation ::
  "('r \<Rightarrow> 's \<Rightarrow> ('a \<times> 's) option) \<Rightarrow> 'r list \<Rightarrow> 's \<Rightarrow> ('a list \<times> 's) option" where
  "try_conversation f [] s = Some ([], s)"
| "try_conversation f (r # rs) s =
     (case f r s of None \<Rightarrow> None | Some (a, s') \<Rightarrow> map_option (map_prod (Cons a) id) (try_conversation f rs s'))"

text \<open>When each request is answered alike up to a view of the state, so is a conversation.\<close>

lemma conversation_view:
  assumes "\<And>r st. f r (v st) = map_prod id v (g r st)"
  shows "conversation f rs (v st) = map_prod id v (conversation g rs st)"
proof (induction rs arbitrary: st)
  case (Cons r rs)
  obtain a st' where "g r st = (a, st')" by (rule prod.exhaust)
  with Cons assms show ?case by (cases "conversation g rs st'") simp
qed simp

lemma try_conversation_view:
  assumes "\<And>r st. r \<in> set rs \<Longrightarrow> f r (v st) = map_option (map_prod id v) (g r st)"
  shows "try_conversation f rs (v st) = map_option (map_prod id v) (try_conversation g rs st)"
  using assms
proof (induction rs arbitrary: st)
  case (Cons r rs)
  show ?case
  proof (cases "g r st")
    case (Some x)
    obtain a st' where "x = (a, st')" by (rule prod.exhaust)
    with Some Cons show ?thesis by (cases "try_conversation g rs st'") auto
  qed (use Cons in simp)
qed simp

text \<open>A service that has all requests but some.\<close>

lemma try_conversation_total:
  assumes "\<And>r st. f r (v st) = (if ok r then Some (map_prod id v (g r st)) else None)"
  shows "try_conversation f rs (v st) =
    (if list_all ok rs then Some (map_prod id v (conversation g rs st)) else None)"
proof (induction rs arbitrary: st)
  case (Cons r rs)
  obtain a st' where "g r st = (a, st')" by (rule prod.exhaust)
  with Cons assms show ?case by (cases "conversation g rs st'") simp
qed simp

lemma try_conversation_answered:
  assumes "\<And>r st. f r st = None \<longleftrightarrow> \<not> ok r"
  shows "try_conversation f rs st = None \<longleftrightarrow> \<not> list_all ok rs"
proof (induction rs arbitrary: st)
  case (Cons r rs)
  show ?case using Cons.IH assms [of r st] by (cases "f r st") auto
qed simp

lemma ext_answered: "ext_request Sys r st = None \<longleftrightarrow> \<not> ext_has r"
  by (cases r) simp_all

lemma map_prod_swap: "map_prod f id (map_prod id g x) = map_prod id g (map_prod f id x)"
  by (cases x) simp

section \<open>Views of the kernel\<close>

type_synonym 'ep started_op = "op_type \<times> nat option \<times> 'ep reactor_op \<times> error_code \<times> bool \<times> bool"

type_synonym 'ep posted_op = "'ep reactor_op \<times> error_code \<times> bool"

definition viewed ::
  "('ep started_op \<Rightarrow> 'ep started_op) \<Rightarrow> ('ep posted_op \<Rightarrow> 'ep posted_op) \<Rightarrow> ('w, 'ep) kernel \<Rightarrow> ('w, 'ep) kernel" where
  "viewed vs vp k = k\<lparr>started := map vs (started k), posted := map vp (posted k)\<rparr>"

definition view_state ::
  "('ep started_op \<Rightarrow> 'ep started_op) \<Rightarrow> ('ep posted_op \<Rightarrow> 'ep posted_op) \<Rightarrow>
     'a base_impl_scheme \<times> ('w, 'ep) kernel \<Rightarrow> 'a base_impl_scheme \<times> ('w, 'ep) kernel" where
  "view_state vs vp st = (fst st, viewed vs vp (snd st))"

text \<open>The descriptor of a queued operation, and what becomes of it when it is aborted.\<close>

fun op_descriptor :: "'ep started_op \<Rightarrow> nat option" where
  "op_descriptor (ty, s, p, ec, cont, now) = s"

fun abort_op :: "'ep started_op \<Rightarrow> 'ep posted_op" where
  "abort_op (ty, s, p, ec, cont, now) = (p, operation_aborted, cont)"

locale kernel_view =
  fixes vs :: "'ep started_op \<Rightarrow> 'ep started_op"
    and vp :: "'ep posted_op \<Rightarrow> 'ep posted_op"
  assumes vs_descriptor: "op_descriptor (vs x) = op_descriptor x"
    and vp_abort: "vp (abort_op x) = abort_op (vs x)"
begin

lemma viewed_simps [simp]:
  "world (viewed vs vp k) = world k"
  "descriptors (viewed vs vp k) = descriptors k"
  "registered (viewed vs vp k) = registered k"
  "viewed vs vp (k\<lparr>world := w\<rparr>) = (viewed vs vp k)\<lparr>world := w\<rparr>"
  "viewed vs vp (k\<lparr>descriptors := D\<rparr>) = (viewed vs vp k)\<lparr>descriptors := D\<rparr>"
  "viewed vs vp (k\<lparr>registered := D\<rparr>) = (viewed vs vp k)\<lparr>registered := D\<rparr>"
  by (simp_all add: viewed_def)

lemma view_state_simps [simp]:
  "fst (view_state vs vp st) = fst st"
  "view_state vs vp (impl, k) = (impl, viewed vs vp k)"
  by (simp_all add: view_state_def)

lemma abort_as_tuple:
  "(\<lambda>(ty, s, p, ec, cont, now). (p, operation_aborted, cont)) = abort_op"
  "(\<lambda>(ty, s', p, ec, cont, now). s' = s) = (\<lambda>x. op_descriptor x = s)"
  "(\<lambda>(ty, s', p, ec, cont, now). s' \<noteq> s) = (\<lambda>x. op_descriptor x \<noteq> s)"
  by (auto simp: fun_eq_iff)

lemma aborts_viewed:
  "viewed vs vp (deregister_descriptor fd b k) = deregister_descriptor fd b (viewed vs vp k)"
  "viewed vs vp (cancel_ops s k) = cancel_ops s (viewed vs vp k)"
  by (simp_all add: viewed_def deregister_descriptor_def cancel_ops_def abort_as_tuple filter_map o_def
      vs_descriptor vp_abort)

lemma try_internal_viewed:
  "try_internal_non_blocking Sys ec (view_state vs vp st) =
     (case try_internal_non_blocking Sys ec st of (ok, ec', st') \<Rightarrow> (ok, ec', view_state vs vp st'))"
  by (cases st) (simp add: try_internal_non_blocking_def split: prod.splits)

text \<open>
  Starting an operation is seen as starting its image, also with other flags, when the view maps it so
  in either list.  The code \<open>already_open\<close> never comes from a system call.
\<close>

lemma start_op_viewed:
  assumes "\<And>s ec. vs (ty, s, p, ec, cont, now) = (ty, s, p', ec, cont', now')"
    and "\<And>ec. ec \<noteq> already_open \<Longrightarrow> vp (p, ec, cont) = (p', ec, cont')" and "ec \<noteq> already_open"
  shows "start_op Sys ty p' ec cont' now' noop (view_state vs vp st) =
    view_state vs vp (start_op Sys ty p ec cont now noop st)"
proof -
  obtain ok ec' impl k where tried: "try_internal_non_blocking Sys ec st = (ok, ec', (impl, k))"
    by (metis prod.exhaust)
  then have "ec' \<noteq> already_open"
    using assms(3) by (auto simp: try_internal_non_blocking_def split: prod.splits if_splits)
  with assms tried show ?thesis
    by (simp add: start_op_def try_internal_viewed)
      (simp add: view_state_def viewed_def reactor_start_op_def post_immediate_completion_def)
qed

lemma start_connect_op_viewed:
  assumes "\<And>s. vs (connect_op, s, p, no_error, cont, False) = (connect_op, s, p', no_error, cont, False)"
    and "\<And>ec. vp (p, ec, cont) = (p', ec, cont)"
  shows "start_connect_op Sys p' cont ep (view_state vs vp st) = view_state vs vp (start_connect_op Sys p cont ep st)"
proof -
  obtain ok ec impl k where tried: "try_internal_non_blocking Sys no_error st = (ok, ec, (impl, k))"
    by (metis prod.exhaust)
  show ?thesis
    using assms by (cases "os_connect Sys (b_socket impl) ep (world k)")
      (simp add: start_connect_op_def try_internal_viewed tried Let_def,
        simp add: viewed_def reactor_start_op_def post_immediate_completion_def)
qed

lemma sys_viewed:
  "sys_socket Sys p (viewed vs vp k) = (case sys_socket Sys p k of (ec, fd, k') \<Rightarrow> (ec, fd, viewed vs vp k'))"
  "sys_close Sys fd s d (viewed vs vp k) = (case sys_close Sys fd s d k of (ec, k') \<Rightarrow> (ec, viewed vs vp k'))"
  "register_descriptor Sys fd (viewed vs vp k) =
     (case register_descriptor Sys fd k of (err, data, k') \<Rightarrow> (err, data, viewed vs vp k'))"
  by (simp_all add: sys_socket_def sys_close_def register_descriptor_def split: prod.splits)

lemma open_viewed:
  "svc_open Sys p (view_state vs vp st) = map_prod id (view_state vs vp) (svc_open Sys p st)"
  "svc_assign Sys p native (view_state vs vp st) = map_prod id (view_state vs vp) (svc_assign Sys p native st)"
proof -
  obtain impl k where st: "st = (impl, k)" by (rule prod.exhaust)
  have "do_open Sys p (impl, viewed vs vp k) = map_prod id (view_state vs vp) (do_open Sys p (impl, k))"
    by (simp add: do_open_def sys_viewed split: prod.splits option.splits)
  then show "svc_open Sys p (view_state vs vp st) = map_prod id (view_state vs vp) (svc_open Sys p st)"
    by (simp add: st svc_open_def split: prod.splits)
  have "do_assign Sys ty native (impl, viewed vs vp k) =
    map_prod id (view_state vs vp) (do_assign Sys ty native (impl, k))" for ty
    by (simp add: do_assign_def sys_viewed split: prod.splits)
  then show "svc_assign Sys p native (view_state vs vp st) = map_prod id (view_state vs vp) (svc_assign Sys p native st)"
    by (simp add: st svc_assign_def split: prod.splits)
qed

lemma close_viewed:
  "base_close Sys (view_state vs vp st) = map_prod id (view_state vs vp) (base_close Sys st)"
  "destroy Sys impl (viewed vs vp k) = viewed vs vp (destroy Sys impl k)"
  by (cases st; simp add: base_close_def sys_viewed flip: aborts_viewed split: prod.splits option.splits)
    (simp add: destroy_def sys_viewed case_prod_unfold flip: aborts_viewed split: option.splits)

lemma cancel_viewed: "base_cancel (view_state vs vp st) = map_prod id (view_state vs vp) (base_cancel st)"
  by (cases st) (simp add: base_cancel_def aborts_viewed)

lemma world_viewed:
  "svc_bind Sys ep (view_state vs vp st) = map_prod id (view_state vs vp) (svc_bind Sys ep st)"
  "base_listen Sys n (view_state vs vp st) = map_prod id (view_state vs vp) (base_listen Sys n st)"
  "svc_set_option Sys opt (view_state vs vp st) = map_prod id (view_state vs vp) (svc_set_option Sys opt st)"
  "base_io_control Sys name data (view_state vs vp st) = map_prod id (view_state vs vp) (base_io_control Sys name data st)"
  "base_set_non_blocking Sys m (view_state vs vp st) = map_prod id (view_state vs vp) (base_set_non_blocking Sys m st)"
  "base_set_native_non_blocking Sys m (view_state vs vp st) =
     map_prod id (view_state vs vp) (base_set_native_non_blocking Sys m st)"
  "svc_connect Sys ep (view_state vs vp st) = map_prod id (view_state vs vp) (svc_connect Sys ep st)"
  "svc_shutdown Sys what (view_state vs vp st) = map_prod id (view_state vs vp) (svc_shutdown Sys what st)"
  "base_wait Sys w (view_state vs vp st) = map_prod id (view_state vs vp) (base_wait Sys w st)"
  "base_send Sys bufs flags (view_state vs vp st) = map_prod id (view_state vs vp) (base_send Sys bufs flags st)"
  "base_receive Sys ns flags (view_state vs vp st) = map_prod id (view_state vs vp) (base_receive Sys ns flags st)"
  "svc_send_to Sys bufs ep flags (view_state vs vp st) = map_prod id (view_state vs vp) (svc_send_to Sys bufs ep flags st)"
  "svc_receive_from Sys ns ep flags (view_state vs vp st) =
     map_prod id (view_state vs vp) (svc_receive_from Sys ns ep flags st)"
  by (cases st; simp add: svc_bind_def base_listen_def svc_set_option_def base_io_control_def
      base_set_non_blocking_def base_set_native_non_blocking_def svc_connect_def svc_shutdown_def base_wait_def
      poll_until_def base_send_def base_receive_def svc_send_to_def svc_receive_from_def
      split: prod.splits wait_type.splits)+

end

end
