(* ===== verification/Local_Copies.thy ===== *)
theory Local_Copies imports Basic_Socket_Local Service_Requests begin

text \<open>
  The local copies of the service and of \<open>basic_socket_ext\<close> have not drifted from the originals:
  all functions but those that start a receive are equal, and these start the local class of the
  operation, where both copies can be called: the receive with flags compiles in the local copy only,
  the one with a sender in the original only.
\<close>

section \<open>Equal functions\<close>

named_theorems local_copy \<open>functions of the local copies that equal the originals\<close>

lemma local_base_copies [local_copy]:
  "local_base_is_open = base_is_open"
  "local_base_native_handle = base_native_handle"
  "local_construct = construct"
  "local_base_move_construct = base_move_construct"
  "local_destroy = destroy"
  "local_base_move_assign = base_move_assign"
  "local_base_close = base_close"
  "local_base_cancel = base_cancel"
  "local_do_open = do_open"
  "local_do_assign = do_assign"
  "local_start_op = start_op"
  "local_start_accept_op = start_accept_op"
  "local_start_connect_op = start_connect_op"
  "local_base_at_mark = base_at_mark"
  "local_base_available = base_available"
  "local_base_listen = base_listen"
  "local_base_io_control = base_io_control"
  "local_base_non_blocking = base_non_blocking"
  "local_base_set_non_blocking = base_set_non_blocking"
  "local_base_native_non_blocking = base_native_non_blocking"
  "local_base_set_native_non_blocking = base_set_native_non_blocking"
  "local_poll_until = poll_until"
  "local_base_wait = base_wait"
  "local_base_async_wait = base_async_wait"
  "local_base_send = base_send"
  "local_base_send_null = base_send_null"
  "local_base_async_send = base_async_send"
  "local_base_async_send_null = base_async_send_null"
  "local_base_receive = base_receive"
  "local_base_receive_null = base_receive_null"
  "local_base_async_receive_null = base_async_receive_null"
  "local_base_receive_with_flags = base_receive_with_flags"
  "local_base_receive_with_flags_null = base_receive_with_flags_null"
  "local_base_async_receive_with_flags_null = base_async_receive_with_flags_null"
  by (unfold local_copy
      local_base_is_open_def base_is_open_def local_base_native_handle_def base_native_handle_def
      local_construct_def construct_def local_base_move_construct_def base_move_construct_def
      local_destroy_def destroy_def local_base_move_assign_def base_move_assign_def local_base_close_def
      base_close_def local_base_cancel_def base_cancel_def local_do_open_def do_open_def
      local_do_assign_def do_assign_def local_start_op_def start_op_def local_start_accept_op_def
      start_accept_op_def local_start_connect_op_def start_connect_op_def local_base_at_mark_def
      base_at_mark_def local_base_available_def base_available_def local_base_listen_def base_listen_def
      local_base_io_control_def base_io_control_def local_base_non_blocking_def base_non_blocking_def
      local_base_set_non_blocking_def base_set_non_blocking_def local_base_native_non_blocking_def
      base_native_non_blocking_def local_base_set_native_non_blocking_def
      base_set_native_non_blocking_def local_poll_until_def poll_until_def local_base_wait_def
      base_wait_def local_base_async_wait_def base_async_wait_def local_base_send_def base_send_def
      local_base_send_null_def base_send_null_def local_base_async_send_def base_async_send_def
      local_base_async_send_null_def base_async_send_null_def local_base_receive_def base_receive_def
      local_base_receive_null_def base_receive_null_def local_base_async_receive_null_def
      base_async_receive_null_def local_base_receive_with_flags_def base_receive_with_flags_def
      local_base_receive_with_flags_null_def base_receive_with_flags_null_def
      local_base_async_receive_with_flags_null_def base_async_receive_with_flags_null_def)
    (rule refl)+

lemma local_service_copies [local_copy]:
  "local_new_impl = new_impl"
  "local_move_construct = move_construct"
  "local_move_assign = move_assign"
  "local_converting_move_construct = converting_move_construct"
  "local_svc_open = svc_open"
  "local_svc_assign = svc_assign"
  "local_svc_native_handle = svc_native_handle"
  "local_svc_bind = svc_bind"
  "local_svc_set_option = svc_set_option"
  "local_svc_get_option = svc_get_option"
  "local_svc_local_endpoint = svc_local_endpoint"
  "local_svc_remote_endpoint = svc_remote_endpoint"
  "local_svc_shutdown = svc_shutdown"
  "local_svc_send_to = svc_send_to"
  "local_svc_send_to_null = svc_send_to_null"
  "local_svc_async_send_to = svc_async_send_to"
  "local_svc_async_send_to_null = svc_async_send_to_null"
  "local_svc_receive_from = svc_receive_from"
  "local_svc_receive_from_null = svc_receive_from_null"
  "local_svc_async_receive_from_null = svc_async_receive_from_null"
  "local_svc_accept = svc_accept"
  "local_svc_async_accept = svc_async_accept"
  "local_svc_async_move_accept = svc_async_move_accept"
  "local_svc_connect = svc_connect"
  "local_svc_async_connect = svc_async_connect"
  by (unfold local_copy
      local_new_impl_def new_impl_def local_move_construct_def move_construct_def local_move_assign_def
      move_assign_def local_converting_move_construct_def converting_move_construct_def
      local_svc_open_def svc_open_def local_svc_assign_def svc_assign_def local_svc_native_handle_def
      svc_native_handle_def local_svc_bind_def svc_bind_def local_svc_set_option_def svc_set_option_def
      local_svc_get_option_def svc_get_option_def local_svc_local_endpoint_def svc_local_endpoint_def
      local_svc_remote_endpoint_def svc_remote_endpoint_def local_svc_shutdown_def svc_shutdown_def
      local_svc_send_to_def svc_send_to_def local_svc_send_to_null_def svc_send_to_null_def
      local_svc_async_send_to_def svc_async_send_to_def local_svc_async_send_to_null_def
      svc_async_send_to_null_def local_svc_receive_from_def svc_receive_from_def
      local_svc_receive_from_null_def svc_receive_from_null_def local_svc_async_receive_from_null_def
      svc_async_receive_from_null_def local_svc_accept_def svc_accept_def local_svc_async_accept_def
      svc_async_accept_def local_svc_async_move_accept_def svc_async_move_accept_def
      local_svc_connect_def svc_connect_def local_svc_async_connect_def svc_async_connect_def)
    (rule refl)+

lemma local_socket_copies [local_copy]:
  "local_bs_new = bs_new"
  "local_bs_new_context = bs_new_context"
  "local_unwind = unwind"
  "local_bs_new_protocol = bs_new_protocol"
  "local_bs_new_protocol_context = bs_new_protocol_context"
  "local_bs_new_endpoint = bs_new_endpoint"
  "local_bs_new_endpoint_context = bs_new_endpoint_context"
  "local_bs_new_native = bs_new_native"
  "local_bs_new_native_context = bs_new_native_context"
  "local_bs_move_construct = bs_move_construct"
  "local_bs_move_assign = bs_move_assign"
  "local_bs_open_throw = bs_open_throw"
  "local_bs_open = bs_open"
  "local_bs_assign_throw = bs_assign_throw"
  "local_bs_assign = bs_assign"
  "local_bs_is_open = bs_is_open"
  "local_bs_close_throw = bs_close_throw"
  "local_bs_close = bs_close"
  "local_bs_native_handle = bs_native_handle"
  "local_bs_cancel_throw = bs_cancel_throw"
  "local_bs_cancel = bs_cancel"
  "local_bs_at_mark_throw = bs_at_mark_throw"
  "local_bs_at_mark = bs_at_mark"
  "local_bs_available_throw = bs_available_throw"
  "local_bs_available = bs_available"
  "local_bs_bind_throw = bs_bind_throw"
  "local_bs_bind = bs_bind"
  "local_bs_connect_throw = bs_connect_throw"
  "local_bs_connect = bs_connect"
  "local_bs_async_connect = bs_async_connect"
  "local_bs_set_option_throw = bs_set_option_throw"
  "local_bs_set_option = bs_set_option"
  "local_bs_get_option_throw = bs_get_option_throw"
  "local_bs_get_option = bs_get_option"
  "local_bs_io_control_throw = bs_io_control_throw"
  "local_bs_io_control = bs_io_control"
  "local_bs_non_blocking = bs_non_blocking"
  "local_bs_set_non_blocking_throw = bs_set_non_blocking_throw"
  "local_bs_set_non_blocking = bs_set_non_blocking"
  "local_bs_native_non_blocking = bs_native_non_blocking"
  "local_bs_set_native_non_blocking_throw = bs_set_native_non_blocking_throw"
  "local_bs_set_native_non_blocking = bs_set_native_non_blocking"
  "local_bs_local_endpoint_throw = bs_local_endpoint_throw"
  "local_bs_local_endpoint = bs_local_endpoint"
  "local_bs_remote_endpoint_throw = bs_remote_endpoint_throw"
  "local_bs_remote_endpoint = bs_remote_endpoint"
  "local_bs_shutdown_throw = bs_shutdown_throw"
  "local_bs_shutdown = bs_shutdown"
  "local_bs_wait_throw = bs_wait_throw"
  "local_bs_wait = bs_wait"
  "local_bs_async_wait = bs_async_wait"
  by (unfold local_copy
      local_bs_new_def bs_new_def local_bs_new_context_def bs_new_context_def local_unwind_def
      unwind_def local_bs_new_protocol_def bs_new_protocol_def local_bs_new_protocol_context_def
      bs_new_protocol_context_def local_bs_new_endpoint_def bs_new_endpoint_def
      local_bs_new_endpoint_context_def bs_new_endpoint_context_def local_bs_new_native_def
      bs_new_native_def local_bs_new_native_context_def bs_new_native_context_def
      local_bs_move_construct_def bs_move_construct_def local_bs_move_assign_def bs_move_assign_def
      local_bs_open_throw_def bs_open_throw_def local_bs_open_def bs_open_def local_bs_assign_throw_def
      bs_assign_throw_def local_bs_assign_def bs_assign_def local_bs_is_open_def bs_is_open_def
      local_bs_close_throw_def bs_close_throw_def local_bs_close_def bs_close_def
      local_bs_native_handle_def bs_native_handle_def local_bs_cancel_throw_def bs_cancel_throw_def
      local_bs_cancel_def bs_cancel_def local_bs_at_mark_throw_def bs_at_mark_throw_def
      local_bs_at_mark_def bs_at_mark_def local_bs_available_throw_def bs_available_throw_def
      local_bs_available_def bs_available_def local_bs_bind_throw_def bs_bind_throw_def
      local_bs_bind_def bs_bind_def local_bs_connect_throw_def bs_connect_throw_def local_bs_connect_def
      bs_connect_def local_bs_async_connect_def local_bs_initiate_async_connect_def bs_async_connect_def bs_initiate_async_connect_def local_bs_set_option_throw_def
      bs_set_option_throw_def local_bs_set_option_def bs_set_option_def local_bs_get_option_throw_def
      bs_get_option_throw_def local_bs_get_option_def bs_get_option_def local_bs_io_control_throw_def
      bs_io_control_throw_def local_bs_io_control_def bs_io_control_def local_bs_non_blocking_def
      bs_non_blocking_def local_bs_set_non_blocking_throw_def bs_set_non_blocking_throw_def
      local_bs_set_non_blocking_def bs_set_non_blocking_def local_bs_native_non_blocking_def
      bs_native_non_blocking_def local_bs_set_native_non_blocking_throw_def
      bs_set_native_non_blocking_throw_def local_bs_set_native_non_blocking_def
      bs_set_native_non_blocking_def local_bs_local_endpoint_throw_def bs_local_endpoint_throw_def
      local_bs_local_endpoint_def bs_local_endpoint_def local_bs_remote_endpoint_throw_def
      bs_remote_endpoint_throw_def local_bs_remote_endpoint_def bs_remote_endpoint_def
      local_bs_shutdown_throw_def bs_shutdown_throw_def local_bs_shutdown_def bs_shutdown_def
      local_bs_wait_throw_def bs_wait_throw_def local_bs_wait_def bs_wait_def local_bs_async_wait_def local_bs_initiate_async_wait_def
      bs_async_wait_def bs_initiate_async_wait_def)
    (rule refl)+

lemma local_converting_moves [local_copy]:
  "local_bs_converting_move_construct = bs_converting_move_construct"
  "local_bs_converting_move_assign = bs_converting_move_assign"
  by (simp_all add: fun_eq_iff local_copy local_bs_converting_move_construct_def bs_converting_move_construct_def
      local_bs_converting_move_assign_def bs_converting_move_assign_def)

section \<open>The receives\<close>

text \<open>The same kernel, with every receive operation of the local class.\<close>

fun as_local_op :: "'ep reactor_op \<Rightarrow> 'ep reactor_op" where
  "as_local_op (Recv_op_ext s st sizes flags h) = Recv_op_ext_local s st sizes flags h"
| "as_local_op (Recvmsg_op_ext s sizes flags h) = Recvmsg_op_ext_local s sizes flags h"
| "as_local_op (Recvfrom_op_ext s ty sizes flags h) = Recvfrom_op_ext_local s ty sizes flags h"
| "as_local_op p = p"

fun local_started :: "'ep started_op \<Rightarrow> 'ep started_op" where
  "local_started (ty, s, p, ec, cont, now) = (ty, s, as_local_op p, ec, cont, now)"

fun local_posted :: "'ep posted_op \<Rightarrow> 'ep posted_op" where
  "local_posted (p, ec, cont) = (as_local_op p, ec, cont)"

definition localised :: "('w, 'ep, 'a) base_st \<Rightarrow> ('w, 'ep, 'a) base_st" where
  "localised = view_state local_started local_posted"

interpretation local_view: kernel_view local_started local_posted
  by unfold_locales auto

section \<open>Requests\<close>

fun local_request ::
  "('w, 'ep, 'opt) os \<Rightarrow> ('ep, 'opt) request \<Rightarrow> ('w, 'ep) sk \<Rightarrow> ('ep answer \<times> ('w, 'ep) sk) option" where
  "local_request Sys (Open p) st = Some (map_prod Code id (local_svc_open Sys p st))"
| "local_request Sys (Assign p native) st = Some (map_prod Code id (local_svc_assign Sys p native st))"
| "local_request Sys Close st = Some (map_prod Code id (local_base_close Sys st))"
| "local_request Sys Cancel st = Some (map_prod Code id (local_base_cancel st))"
| "local_request Sys (Bind ep) st = Some (map_prod Code id (local_svc_bind Sys ep st))"
| "local_request Sys (Listen n) st = Some (map_prod Code id (local_base_listen Sys n st))"
| "local_request Sys (Set_option opt) st = Some (map_prod Code id (local_svc_set_option Sys opt st))"
| "local_request Sys (Io_control n bs) st =
     Some (map_prod (\<lambda>(ec, bs). Data ec bs) id (local_base_io_control Sys n bs st))"
| "local_request Sys (Set_non_blocking m) st = Some (map_prod Code id (local_base_set_non_blocking Sys m st))"
| "local_request Sys (Set_native_non_blocking m) st =
     Some (map_prod Code id (local_base_set_native_non_blocking Sys m st))"
| "local_request Sys (Connect ep) st = Some (map_prod Code id (local_svc_connect Sys ep st))"
| "local_request Sys (Async_connect ep h cont) st = Some (Started, local_svc_async_connect Sys ep h cont st)"
| "local_request Sys (Shutdown what) st = Some (map_prod Code id (local_svc_shutdown Sys what st))"
| "local_request Sys (Wait w) st = Some (map_prod Code id (local_base_wait Sys w st))"
| "local_request Sys (Async_wait w h cont) st = Some (Started, local_base_async_wait Sys w h cont st)"
| "local_request Sys (Send bufs flags) st =
     Some (map_prod (\<lambda>(ec, n). Count ec n) id (local_base_send Sys bufs flags st))"
| "local_request Sys (Async_send bufs flags h cont) st =
     Some (Started, local_base_async_send Sys bufs flags h cont st)"
| "local_request Sys (Receive ns flags) st =
     Some (map_prod (\<lambda>(ec, bs). Data ec bs) id (local_base_receive Sys ns flags st))"
| "local_request Sys (Async_receive ns flags h cont) st =
     Some (Started, local_base_async_receive Sys ns flags h cont st)"
| "local_request Sys (Async_receive_with_flags ns flags h cont) st =
     Some (Started, local_base_async_receive_with_flags Sys ns flags h cont st)"
| "local_request Sys (Send_datagram bufs ep flags) st =
     Some (map_prod (\<lambda>(ec, n). Count ec n) id (local_svc_send_to Sys bufs ep flags st))"
| "local_request Sys (Async_send_datagram bufs ep flags h cont) st =
     Some (Started, local_svc_async_send_to Sys bufs ep flags h cont st)"
| "local_request Sys (Receive_datagram ns ep flags) st =
     Some (map_prod (\<lambda>(ec, bs, ep). Datagram ec bs ep) id (local_svc_receive_from Sys ns ep flags st))"
| "local_request Sys (Async_receive_datagram ns flags h cont) st = None"
| "local_request Sys (Async_accept_into peer_open wants h cont) st =
     Some (Started, local_svc_async_accept Sys peer_open wants h cont st)"
| "local_request Sys (Async_accept_new wants h cont) st =
     Some (Started, local_svc_async_move_accept Sys wants h cont st)"
| "local_request Sys Renew st =
     Some (Started, (local_construct (local_new_impl Sys), local_destroy Sys (fst st) (snd st)))"

fun local_has :: "('ep, 'opt) request \<Rightarrow> bool" where
  "local_has (Async_receive_datagram ns flags h cont) = False"
| "local_has r = True"

lemma local_answered: "local_request Sys r st = None \<longleftrightarrow> \<not> local_has r"
  by (cases r) simp_all

lemmas localised_fold = localised_def [symmetric]

lemmas state_localised =
  local_view.open_viewed [folded localised_def] local_view.close_viewed [folded localised_def]
  local_view.cancel_viewed [folded localised_def] local_view.world_viewed [folded localised_def]

lemmas start_localised = local_view.start_op_viewed [folded localised_def]

lemmas connect_localised = local_view.start_connect_op_viewed [folded localised_def]

lemma fst_localised [simp]: "fst (localised st) = fst st"
  by (simp add: localised_def)

lemma post_localised:
  "(fst st, post_immediate_completion (as_local_op p) ec cont (snd (localised st))) =
     localised (fst st, post_immediate_completion p ec cont (snd st))"
  by (simp add: localised_def view_state_def viewed_def post_immediate_completion_def)

text \<open>An operation of no class that receives is its own image.\<close>

lemma start_same_localised:
  "as_local_op p = p \<Longrightarrow>
     start_op Sys ty p no_error cont now noop (localised st) = localised (start_op Sys ty p no_error cont now noop st)"
  by (rule start_localised) simp_all

lemma async_localised:
  "base_async_send Sys bufs flags h cont (localised st) = localised (base_async_send Sys bufs flags h cont st)"
  "base_async_wait Sys w h cont (localised st) = localised (base_async_wait Sys w h cont st)"
  "svc_async_send_to Sys bufs ep flags h cont (localised st) = localised (svc_async_send_to Sys bufs ep flags h cont st)"
  "svc_async_accept Sys peer_open wants h cont (localised st) = localised (svc_async_accept Sys peer_open wants h cont st)"
  "svc_async_move_accept Sys wants h cont (localised st) = localised (svc_async_move_accept Sys wants h cont st)"
  "svc_async_connect Sys ep h cont (localised st) = localised (svc_async_connect Sys ep h cont st)"
  using post_localised [of st "Wait_op h" invalid_argument cont]
    post_localised [of st "Accept_op (b_socket (fst st)) (b_state (fst st)) (i_protocol (fst st)) wants h" already_open cont]
  by (simp_all add: base_async_send_def base_async_wait_def svc_async_send_to_def svc_async_accept_def
      svc_async_move_accept_def svc_async_connect_def start_accept_op_def start_same_localised connect_localised
      split: wait_type.split)

text \<open>The one that both have and that differs.\<close>

lemma async_receive_localised:
  "local_base_async_receive Sys ns flags h cont (localised st) = localised (base_async_receive Sys ns flags h cont st)"
  by (simp add: local_base_async_receive_def base_async_receive_def local_copy start_localised)

lemma request_localised:
  assumes "ext_has r" and "local_has r"
  shows "local_request Sys r (localised st) = map_option (map_prod id localised) (ext_request Sys r st)"
proof (cases r)
  case Renew
  then show ?thesis by (simp add: local_copy localised_def view_state_def local_view.close_viewed)
qed (use assms in \<open>simp_all add: local_copy state_localised map_prod_swap async_localised async_receive_localised\<close>)

section \<open>Properties\<close>

lemma localised_new:
  "localised (construct (new_impl Sys), kernel0 w) = (local_construct (local_new_impl Sys), kernel0 w)"
  by (simp add: local_copy localised_def view_state_def viewed_def kernel0_def)

text \<open>
  C13: on the requests (of the type \<open>request\<close>) for which calls of both compile, the local service and the
  extended service of Boost 1.74 are the same program.  Their sources are separate copies; asked the same of these requests in any
  order, on any operating system, both answer all of them, with the same answers, leave the socket, the
  descriptors and the world in the same state, and hand the reactor operations of the same classes with
  the same arguments in the same order, the plain receives being of the local class (what that does when
  it is performed differs).  The conversations are those without the two other requests, the asynchronous
  receive with flags, which the extended service cannot compile, and the one with a sender, which the
  local service cannot.
\<close>

theorem local_service_equivalent:
  assumes "list_all ext_has rs" and "list_all local_has rs"
  shows "\<exists>answers st.
    try_conversation (ext_request Sys) rs (construct (new_impl Sys), kernel0 w) = Some (answers, st) \<and>
    try_conversation (local_request Sys) rs (local_construct (local_new_impl Sys), kernel0 w) =
      Some (answers, localised st)"
proof -
  let ?s = "(construct (new_impl Sys), kernel0 w)"
  have "try_conversation (local_request Sys) rs (localised ?s) =
      map_option (map_prod id localised) (try_conversation (ext_request Sys) rs ?s)"
    by (rule try_conversation_view, rule request_localised) (use assms in \<open>auto simp: list_all_iff\<close>)
  moreover obtain x where "try_conversation (ext_request Sys) rs ?s = Some x"
    using try_conversation_answered [of "ext_request Sys" ext_has, OF ext_answered] assms(1)
    by (metis not_Some_eq)
  ultimately show ?thesis by (cases x) (simp add: localised_new)
qed

text \<open>A socket is opened and starts a plain receive, which is of the local class in the copy.\<close>

theorem local_service_equivalent_witness:
  "\<exists>st. try_conversation (local_request list_os) [Open tcp_v4, Async_receive [8] 0 7 False, Cancel]
      (local_construct (local_new_impl list_os), kernel0 []) = Some ([Code no_error, Started, Code no_error], localised st)"
proof -
  let ?rs = "[Open tcp_v4, Async_receive [8] 0 7 False, Cancel]"
  let ?start = "(construct (new_impl list_os), kernel0 [])"
  have "map_option fst (try_conversation (ext_request list_os) ?rs ?start) = Some [Code no_error, Started, Code no_error]"
    by code_simp
  moreover have has: "list_all ext_has ?rs" "list_all local_has ?rs" by simp_all
  obtain answers st where
    "try_conversation (ext_request list_os) ?rs ?start = Some (answers, st)"
    "try_conversation (local_request list_os) ?rs (local_construct (local_new_impl list_os), kernel0 []) =
       Some (answers, localised st)"
    using local_service_equivalent [OF has, of list_os "[]"] by blast
  ultimately show ?thesis by (metis fst_conv option.inject option.simps(9))
qed

end
