(* ===== verification/Protocols_Ext.thy ===== *)
theory Protocols_Ext
  imports Local_Copies
begin

text \<open>
  The protocols of the extended sockets: \<open>udp_ext\<close>
  (include/helper/1.74/boost/asio/ip/udp_ext.hpp) and \<open>stream_protocol_ext\<close>
  (include/helper/1.74/boost/asio/local/stream_protocol_ext.hpp).  A service reads a protocol
  through \<open>family\<close>, \<open>type\<close> and \<open>protocol\<close> only.
\<close>

record udp_ext =
  ue_family :: address_family

definition udp_ext_v4 :: udp_ext where
  "udp_ext_v4 = \<lparr>ue_family = AF_INET\<rparr>"

definition udp_ext_v6 :: udp_ext where
  "udp_ext_v6 = \<lparr>ue_family = AF_INET6\<rparr>"

definition udp_ext_type :: "udp_ext \<Rightarrow> socket_kind" where
  "udp_ext_type p = SOCK_DGRAM"

definition udp_ext_protocol :: "udp_ext \<Rightarrow> ip_protocol" where
  "udp_ext_protocol p = IPPROTO_UDP"

definition udp_ext_family :: "udp_ext \<Rightarrow> address_family" where
  "udp_ext_family p = ue_family p"

definition udp_ext_eq :: "udp_ext \<Rightarrow> udp_ext \<Rightarrow> bool" where
  "udp_ext_eq p q \<longleftrightarrow> ue_family p = ue_family q"

definition udp_ext_neq :: "udp_ext \<Rightarrow> udp_ext \<Rightarrow> bool" where
  "udp_ext_neq p q \<longleftrightarrow> ue_family p \<noteq> ue_family q"

definition of_udp_ext :: "udp_ext \<Rightarrow> protocol" where
  "of_udp_ext p = \<lparr>p_family = udp_ext_family p, p_type = udp_ext_type p, p_protocol = udp_ext_protocol p\<rparr>"

text \<open>\<open>stream_protocol_ext\<close> has no state.\<close>

definition stream_ext_type :: socket_kind where
  "stream_ext_type = SOCK_STREAM"

definition stream_ext_protocol :: ip_protocol where
  "stream_ext_protocol = IPPROTO_DEFAULT"

definition stream_ext_family :: address_family where
  "stream_ext_family = AF_UNIX"

definition of_stream_ext :: protocol where
  "of_stream_ext = \<lparr>p_family = stream_ext_family, p_type = stream_ext_type, p_protocol = stream_ext_protocol\<rparr>"

lemmas protocol_ext_defs =
  udp_ext_v4_def udp_ext_v6_def udp_ext_type_def udp_ext_protocol_def udp_ext_family_def of_udp_ext_def
  stream_ext_type_def stream_ext_protocol_def stream_ext_family_def of_stream_ext_def

text \<open>Two \<open>udp_ext\<close> compare equal exactly when a service cannot tell them apart.\<close>

lemma udp_ext_eq_protocol: "udp_ext_eq p q \<longleftrightarrow> of_udp_ext p = of_udp_ext q"
  by (simp add: udp_ext_eq_def protocol_ext_defs)

text \<open>What a socket opened for one of them is marked as.\<close>

lemma do_open_state:
  "local_do_open Sys p (impl, k) = (no_error, (impl', k')) \<Longrightarrow> b_state impl' = state_of_type (p_type p)"
  by (auto simp: local_do_open_def dest!: sys_socket_None split: if_splits prod.splits option.splits)

lemma opened_stream_ext:
  "local_svc_open Sys of_stream_ext st = (no_error, (impl, k)) \<Longrightarrow> b_state impl = {stream_oriented}"
  by (cases st) (auto simp: local_svc_open_def protocol_ext_defs state_of_type_def dest: do_open_state split: prod.splits if_splits)

chapter \<open>The protocol headers of the older helpers\<close>

text \<open>
  The protocols \<open>udp_ext\<close> and \<open>stream_protocol_ext\<close> of the helpers for Boost 1.55, 1.66 and 1.70
  (include/helper/<version>/boost/asio/ip/udp_ext.hpp and local/stream_protocol_ext.hpp), and that a
  service cannot tell them from those for 1.74.
\<close>

section \<open>Boost 1.55\<close>

record v155_udp_ext =
  v155_ue_family :: address_family

definition v155_udp_ext_v4 :: v155_udp_ext where
  "v155_udp_ext_v4 = \<lparr>v155_ue_family = AF_INET\<rparr>"

definition v155_udp_ext_v6 :: v155_udp_ext where
  "v155_udp_ext_v6 = \<lparr>v155_ue_family = AF_INET6\<rparr>"

definition v155_udp_ext_type :: "v155_udp_ext \<Rightarrow> socket_kind" where
  "v155_udp_ext_type p = SOCK_DGRAM"

definition v155_udp_ext_protocol :: "v155_udp_ext \<Rightarrow> ip_protocol" where
  "v155_udp_ext_protocol p = IPPROTO_UDP"

definition v155_udp_ext_family :: "v155_udp_ext \<Rightarrow> address_family" where
  "v155_udp_ext_family p = v155_ue_family p"

definition v155_udp_ext_eq :: "v155_udp_ext \<Rightarrow> v155_udp_ext \<Rightarrow> bool" where
  "v155_udp_ext_eq p q \<longleftrightarrow> v155_ue_family p = v155_ue_family q"

definition v155_udp_ext_neq :: "v155_udp_ext \<Rightarrow> v155_udp_ext \<Rightarrow> bool" where
  "v155_udp_ext_neq p q \<longleftrightarrow> v155_ue_family p \<noteq> v155_ue_family q"

definition v155_stream_ext_type :: socket_kind where
  "v155_stream_ext_type = SOCK_STREAM"

definition v155_stream_ext_protocol :: ip_protocol where
  "v155_stream_ext_protocol = IPPROTO_DEFAULT"

definition v155_stream_ext_family :: address_family where
  "v155_stream_ext_family = AF_UNIX"

definition of_v155_udp_ext :: "v155_udp_ext \<Rightarrow> protocol" where
  "of_v155_udp_ext p =
     \<lparr>p_family = v155_udp_ext_family p, p_type = v155_udp_ext_type p, p_protocol = v155_udp_ext_protocol p\<rparr>"

definition of_v155_stream_ext :: protocol where
  "of_v155_stream_ext =
     \<lparr>p_family = v155_stream_ext_family, p_type = v155_stream_ext_type, p_protocol = v155_stream_ext_protocol\<rparr>"

text \<open>The conversion to the protocol of 1.74 keeps what a service and a comparison see.\<close>

definition v155_udp_ext_as :: "v155_udp_ext \<Rightarrow> udp_ext" where
  "v155_udp_ext_as p = \<lparr>ue_family = v155_ue_family p\<rparr>"

lemma v155_protocols_same:
  "of_udp_ext (v155_udp_ext_as p) = of_v155_udp_ext p"
  "udp_ext_eq (v155_udp_ext_as p) (v155_udp_ext_as q) = v155_udp_ext_eq p q"
  "udp_ext_neq (v155_udp_ext_as p) (v155_udp_ext_as q) = v155_udp_ext_neq p q"
  "v155_udp_ext_as v155_udp_ext_v4 = udp_ext_v4"
  "v155_udp_ext_as v155_udp_ext_v6 = udp_ext_v6"
  "of_v155_stream_ext = of_stream_ext"
  by (simp_all add: v155_udp_ext_as_def of_v155_udp_ext_def v155_udp_ext_family_def v155_udp_ext_type_def
      v155_udp_ext_protocol_def udp_ext_eq_def v155_udp_ext_eq_def udp_ext_neq_def v155_udp_ext_neq_def
      v155_udp_ext_v4_def v155_udp_ext_v6_def of_v155_stream_ext_def v155_stream_ext_family_def
      v155_stream_ext_type_def v155_stream_ext_protocol_def protocol_ext_defs)

section \<open>Boost 1.66\<close>

record v166_udp_ext =
  v166_ue_family :: address_family

definition v166_udp_ext_v4 :: v166_udp_ext where
  "v166_udp_ext_v4 = \<lparr>v166_ue_family = AF_INET\<rparr>"

definition v166_udp_ext_v6 :: v166_udp_ext where
  "v166_udp_ext_v6 = \<lparr>v166_ue_family = AF_INET6\<rparr>"

definition v166_udp_ext_type :: "v166_udp_ext \<Rightarrow> socket_kind" where
  "v166_udp_ext_type p = SOCK_DGRAM"

definition v166_udp_ext_protocol :: "v166_udp_ext \<Rightarrow> ip_protocol" where
  "v166_udp_ext_protocol p = IPPROTO_UDP"

definition v166_udp_ext_family :: "v166_udp_ext \<Rightarrow> address_family" where
  "v166_udp_ext_family p = v166_ue_family p"

definition v166_udp_ext_eq :: "v166_udp_ext \<Rightarrow> v166_udp_ext \<Rightarrow> bool" where
  "v166_udp_ext_eq p q \<longleftrightarrow> v166_ue_family p = v166_ue_family q"

definition v166_udp_ext_neq :: "v166_udp_ext \<Rightarrow> v166_udp_ext \<Rightarrow> bool" where
  "v166_udp_ext_neq p q \<longleftrightarrow> v166_ue_family p \<noteq> v166_ue_family q"

definition v166_stream_ext_type :: socket_kind where
  "v166_stream_ext_type = SOCK_STREAM"

definition v166_stream_ext_protocol :: ip_protocol where
  "v166_stream_ext_protocol = IPPROTO_DEFAULT"

definition v166_stream_ext_family :: address_family where
  "v166_stream_ext_family = AF_UNIX"

definition of_v166_udp_ext :: "v166_udp_ext \<Rightarrow> protocol" where
  "of_v166_udp_ext p =
     \<lparr>p_family = v166_udp_ext_family p, p_type = v166_udp_ext_type p, p_protocol = v166_udp_ext_protocol p\<rparr>"

definition of_v166_stream_ext :: protocol where
  "of_v166_stream_ext =
     \<lparr>p_family = v166_stream_ext_family, p_type = v166_stream_ext_type, p_protocol = v166_stream_ext_protocol\<rparr>"

text \<open>The conversion to the protocol of 1.74 keeps what a service and a comparison see.\<close>

definition v166_udp_ext_as :: "v166_udp_ext \<Rightarrow> udp_ext" where
  "v166_udp_ext_as p = \<lparr>ue_family = v166_ue_family p\<rparr>"

lemma v166_protocols_same:
  "of_udp_ext (v166_udp_ext_as p) = of_v166_udp_ext p"
  "udp_ext_eq (v166_udp_ext_as p) (v166_udp_ext_as q) = v166_udp_ext_eq p q"
  "udp_ext_neq (v166_udp_ext_as p) (v166_udp_ext_as q) = v166_udp_ext_neq p q"
  "v166_udp_ext_as v166_udp_ext_v4 = udp_ext_v4"
  "v166_udp_ext_as v166_udp_ext_v6 = udp_ext_v6"
  "of_v166_stream_ext = of_stream_ext"
  by (simp_all add: v166_udp_ext_as_def of_v166_udp_ext_def v166_udp_ext_family_def v166_udp_ext_type_def
      v166_udp_ext_protocol_def udp_ext_eq_def v166_udp_ext_eq_def udp_ext_neq_def v166_udp_ext_neq_def
      v166_udp_ext_v4_def v166_udp_ext_v6_def of_v166_stream_ext_def v166_stream_ext_family_def
      v166_stream_ext_type_def v166_stream_ext_protocol_def protocol_ext_defs)

section \<open>Boost 1.70\<close>

record v170_udp_ext =
  v170_ue_family :: address_family

definition v170_udp_ext_v4 :: v170_udp_ext where
  "v170_udp_ext_v4 = \<lparr>v170_ue_family = AF_INET\<rparr>"

definition v170_udp_ext_v6 :: v170_udp_ext where
  "v170_udp_ext_v6 = \<lparr>v170_ue_family = AF_INET6\<rparr>"

definition v170_udp_ext_type :: "v170_udp_ext \<Rightarrow> socket_kind" where
  "v170_udp_ext_type p = SOCK_DGRAM"

definition v170_udp_ext_protocol :: "v170_udp_ext \<Rightarrow> ip_protocol" where
  "v170_udp_ext_protocol p = IPPROTO_UDP"

definition v170_udp_ext_family :: "v170_udp_ext \<Rightarrow> address_family" where
  "v170_udp_ext_family p = v170_ue_family p"

definition v170_udp_ext_eq :: "v170_udp_ext \<Rightarrow> v170_udp_ext \<Rightarrow> bool" where
  "v170_udp_ext_eq p q \<longleftrightarrow> v170_ue_family p = v170_ue_family q"

definition v170_udp_ext_neq :: "v170_udp_ext \<Rightarrow> v170_udp_ext \<Rightarrow> bool" where
  "v170_udp_ext_neq p q \<longleftrightarrow> v170_ue_family p \<noteq> v170_ue_family q"

definition v170_stream_ext_type :: socket_kind where
  "v170_stream_ext_type = SOCK_STREAM"

definition v170_stream_ext_protocol :: ip_protocol where
  "v170_stream_ext_protocol = IPPROTO_DEFAULT"

definition v170_stream_ext_family :: address_family where
  "v170_stream_ext_family = AF_UNIX"

definition of_v170_udp_ext :: "v170_udp_ext \<Rightarrow> protocol" where
  "of_v170_udp_ext p =
     \<lparr>p_family = v170_udp_ext_family p, p_type = v170_udp_ext_type p, p_protocol = v170_udp_ext_protocol p\<rparr>"

definition of_v170_stream_ext :: protocol where
  "of_v170_stream_ext =
     \<lparr>p_family = v170_stream_ext_family, p_type = v170_stream_ext_type, p_protocol = v170_stream_ext_protocol\<rparr>"

text \<open>The conversion to the protocol of 1.74 keeps what a service and a comparison see.\<close>

definition v170_udp_ext_as :: "v170_udp_ext \<Rightarrow> udp_ext" where
  "v170_udp_ext_as p = \<lparr>ue_family = v170_ue_family p\<rparr>"

lemma v170_protocols_same:
  "of_udp_ext (v170_udp_ext_as p) = of_v170_udp_ext p"
  "udp_ext_eq (v170_udp_ext_as p) (v170_udp_ext_as q) = v170_udp_ext_eq p q"
  "udp_ext_neq (v170_udp_ext_as p) (v170_udp_ext_as q) = v170_udp_ext_neq p q"
  "v170_udp_ext_as v170_udp_ext_v4 = udp_ext_v4"
  "v170_udp_ext_as v170_udp_ext_v6 = udp_ext_v6"
  "of_v170_stream_ext = of_stream_ext"
  by (simp_all add: v170_udp_ext_as_def of_v170_udp_ext_def v170_udp_ext_family_def v170_udp_ext_type_def
      v170_udp_ext_protocol_def udp_ext_eq_def v170_udp_ext_eq_def udp_ext_neq_def v170_udp_ext_neq_def
      v170_udp_ext_v4_def v170_udp_ext_v6_def of_v170_stream_ext_def v170_stream_ext_family_def
      v170_stream_ext_type_def v170_stream_ext_protocol_def protocol_ext_defs)

end
