(* ===== verification/Datagram_Socket.thy ===== *)
theory Datagram_Socket imports Basic_Socket begin

text \<open>
  \<open>basic_datagram_socket_ext<Protocol, Executor>\<close>
  (include/helper/1.74/boost/asio/basic_datagram_socket_ext.hpp), the socket of the UDP server: its
  constructors and every form of sending and receiving, over \<open>Basic_Socket\<close> and \<open>Socket_Service\<close>.
  The caller's endpoint of an asynchronous receive-from belongs to the operation.
\<close>

section \<open>Constructors\<close>

definition ds_new ::
  "('w, 'ep, 'opt) os \<Rightarrow> ('w, 'ep) kernel \<Rightarrow> ('w, 'ep) sk" where
  "ds_new Sys k = bs_new Sys k"

definition ds_new_context ::
  "('w, 'ep, 'opt) os \<Rightarrow> ('w, 'ep) kernel \<Rightarrow> ('w, 'ep) sk" where
  "ds_new_context Sys k = bs_new_context Sys k"

definition ds_new_protocol ::
  "('w, 'ep, 'opt) os \<Rightarrow> protocol \<Rightarrow> ('w, 'ep) kernel \<Rightarrow> ((string \<times> error_code) \<times> ('w, 'ep) kernel) + ('w, 'ep) sk" where
  "ds_new_protocol Sys p k = bs_new_protocol Sys p k"

definition ds_new_protocol_context ::
  "('w, 'ep, 'opt) os \<Rightarrow> protocol \<Rightarrow> ('w, 'ep) kernel \<Rightarrow> ((string \<times> error_code) \<times> ('w, 'ep) kernel) + ('w, 'ep) sk" where
  "ds_new_protocol_context Sys p k = bs_new_protocol_context Sys p k"

definition ds_new_endpoint ::
  "('w, 'ep, 'opt) os \<Rightarrow> 'ep \<Rightarrow> ('w, 'ep) kernel \<Rightarrow> ((string \<times> error_code) \<times> ('w, 'ep) kernel) + ('w, 'ep) sk" where
  "ds_new_endpoint Sys ep k = bs_new_endpoint Sys ep k"

definition ds_new_endpoint_context ::
  "('w, 'ep, 'opt) os \<Rightarrow> 'ep \<Rightarrow> ('w, 'ep) kernel \<Rightarrow> ((string \<times> error_code) \<times> ('w, 'ep) kernel) + ('w, 'ep) sk" where
  "ds_new_endpoint_context Sys ep k = bs_new_endpoint_context Sys ep k"

definition ds_new_native ::
  "('w, 'ep, 'opt) os \<Rightarrow> protocol \<Rightarrow> nat \<Rightarrow> ('w, 'ep) kernel \<Rightarrow> ((string \<times> error_code) \<times> ('w, 'ep) kernel) + ('w, 'ep) sk" where
  "ds_new_native Sys p native k = bs_new_native Sys p native k"

definition ds_new_native_context ::
  "('w, 'ep, 'opt) os \<Rightarrow> protocol \<Rightarrow> nat \<Rightarrow> ('w, 'ep) kernel \<Rightarrow> ((string \<times> error_code) \<times> ('w, 'ep) kernel) + ('w, 'ep) sk" where
  "ds_new_native_context Sys p native k = bs_new_native_context Sys p native k"

definition ds_move_construct ::
  "('w, 'ep, 'opt) os \<Rightarrow> impl \<Rightarrow> impl \<times> impl" where
  "ds_move_construct Sys other = bs_move_construct Sys other"

definition ds_move_assign ::
  "('w, 'ep, 'opt) os \<Rightarrow> impl \<Rightarrow> impl \<Rightarrow> ('w, 'ep) kernel \<Rightarrow> impl \<times> impl \<times> ('w, 'ep) kernel" where
  "ds_move_assign Sys impl other k = bs_move_assign Sys impl other k"

definition ds_converting_move_construct ::
  "('w, 'ep, 'opt) os \<Rightarrow> (protocol \<Rightarrow> protocol) \<Rightarrow> protocol \<Rightarrow> impl \<Rightarrow> impl \<times> impl" where
  "ds_converting_move_construct Sys convert other_default other =
     bs_converting_move_construct Sys convert other_default other"

definition ds_converting_move_assign ::
  "('w, 'ep, 'opt) os \<Rightarrow> (protocol \<Rightarrow> protocol) \<Rightarrow> protocol \<Rightarrow> impl \<Rightarrow> impl \<Rightarrow> ('w, 'ep) kernel \<Rightarrow>
     impl \<times> impl \<times> ('w, 'ep) kernel" where
  "ds_converting_move_assign Sys convert other_default impl other k =
     bs_converting_move_assign Sys convert other_default impl other k"

section \<open>Sending\<close>

definition ds_send_throw ::
  "('w, 'ep, 'opt) os \<Rightarrow> byte_t list list \<Rightarrow> ('w, 'ep) sk \<Rightarrow> nat thrown \<times> ('w, 'ep) sk" where
  "ds_send_throw Sys bufs st =
     (case base_send Sys bufs 0 st of ((ec, s), st') \<Rightarrow> (throw_error ''send'' ec s, st'))"

definition ds_send_flags_throw ::
  "('w, 'ep, 'opt) os \<Rightarrow> byte_t list list \<Rightarrow> message_flags \<Rightarrow> ('w, 'ep) sk \<Rightarrow> nat thrown \<times> ('w, 'ep) sk" where
  "ds_send_flags_throw Sys bufs flags st =
     (case base_send Sys bufs flags st of ((ec, s), st') \<Rightarrow> (throw_error ''send'' ec s, st'))"

definition ds_send ::
  "('w, 'ep, 'opt) os \<Rightarrow> byte_t list list \<Rightarrow> message_flags \<Rightarrow> ('w, 'ep) sk \<Rightarrow> (error_code \<times> nat) \<times> ('w, 'ep) sk" where
  "ds_send Sys bufs flags st = base_send Sys bufs flags st"

definition ds_initiate_async_send ::
  "('w, 'ep, 'opt) os \<Rightarrow> byte_t list list \<Rightarrow> message_flags \<Rightarrow> nat \<Rightarrow> bool \<Rightarrow> ('w, 'ep) sk \<Rightarrow> ('w, 'ep) sk" where
  "ds_initiate_async_send Sys bufs flags handler cont st = base_async_send Sys bufs flags handler cont st"

definition ds_async_send ::
  "('w, 'ep, 'opt) os \<Rightarrow> byte_t list list \<Rightarrow> nat \<Rightarrow> bool \<Rightarrow> ('w, 'ep) sk \<Rightarrow> ('w, 'ep) sk" where
  "ds_async_send Sys bufs handler cont st = ds_initiate_async_send Sys bufs 0 handler cont st"

definition ds_async_send_flags ::
  "('w, 'ep, 'opt) os \<Rightarrow> byte_t list list \<Rightarrow> message_flags \<Rightarrow> nat \<Rightarrow> bool \<Rightarrow> ('w, 'ep) sk \<Rightarrow> ('w, 'ep) sk" where
  "ds_async_send_flags Sys bufs flags handler cont st =
     ds_initiate_async_send Sys bufs flags handler cont st"

definition ds_send_to_throw ::
  "('w, 'ep, 'opt) os \<Rightarrow> byte_t list list \<Rightarrow> 'ep \<Rightarrow> ('w, 'ep) sk \<Rightarrow> nat thrown \<times> ('w, 'ep) sk" where
  "ds_send_to_throw Sys bufs destination st =
     (case svc_send_to Sys bufs destination 0 st of ((ec, s), st') \<Rightarrow> (throw_error ''send_to'' ec s, st'))"

definition ds_send_to_flags_throw ::
  "('w, 'ep, 'opt) os \<Rightarrow> byte_t list list \<Rightarrow> 'ep \<Rightarrow> message_flags \<Rightarrow> ('w, 'ep) sk \<Rightarrow> nat thrown \<times> ('w, 'ep) sk" where
  "ds_send_to_flags_throw Sys bufs destination flags st =
     (case svc_send_to Sys bufs destination flags st of ((ec, s), st') \<Rightarrow> (throw_error ''send_to'' ec s, st'))"

definition ds_send_to ::
  "('w, 'ep, 'opt) os \<Rightarrow> byte_t list list \<Rightarrow> 'ep \<Rightarrow> message_flags \<Rightarrow> ('w, 'ep) sk \<Rightarrow> (error_code \<times> nat) \<times> ('w, 'ep) sk" where
  "ds_send_to Sys bufs destination flags st = svc_send_to Sys bufs destination flags st"

definition ds_initiate_async_send_to ::
  "('w, 'ep, 'opt) os \<Rightarrow> byte_t list list \<Rightarrow> 'ep \<Rightarrow> message_flags \<Rightarrow> nat \<Rightarrow> bool \<Rightarrow> ('w, 'ep) sk \<Rightarrow> ('w, 'ep) sk" where
  "ds_initiate_async_send_to Sys bufs destination flags handler cont st =
     svc_async_send_to Sys bufs destination flags handler cont st"

definition ds_async_send_to ::
  "('w, 'ep, 'opt) os \<Rightarrow> byte_t list list \<Rightarrow> 'ep \<Rightarrow> nat \<Rightarrow> bool \<Rightarrow> ('w, 'ep) sk \<Rightarrow> ('w, 'ep) sk" where
  "ds_async_send_to Sys bufs destination handler cont st =
     ds_initiate_async_send_to Sys bufs destination 0 handler cont st"

definition ds_async_send_to_flags ::
  "('w, 'ep, 'opt) os \<Rightarrow> byte_t list list \<Rightarrow> 'ep \<Rightarrow> message_flags \<Rightarrow> nat \<Rightarrow> bool \<Rightarrow> ('w, 'ep) sk \<Rightarrow> ('w, 'ep) sk" where
  "ds_async_send_to_flags Sys bufs destination flags handler cont st =
     ds_initiate_async_send_to Sys bufs destination flags handler cont st"

section \<open>Receiving\<close>

definition ds_receive_throw ::
  "('w, 'ep, 'opt) os \<Rightarrow> nat list \<Rightarrow> ('w, 'ep) sk \<Rightarrow> byte_t list thrown \<times> ('w, 'ep) sk" where
  "ds_receive_throw Sys sizes st =
     (case base_receive Sys sizes 0 st of ((ec, bs), st') \<Rightarrow> (throw_error ''receive'' ec bs, st'))"

definition ds_receive_flags_throw ::
  "('w, 'ep, 'opt) os \<Rightarrow> nat list \<Rightarrow> message_flags \<Rightarrow> ('w, 'ep) sk \<Rightarrow> byte_t list thrown \<times> ('w, 'ep) sk" where
  "ds_receive_flags_throw Sys sizes flags st =
     (case base_receive Sys sizes flags st of ((ec, bs), st') \<Rightarrow> (throw_error ''receive'' ec bs, st'))"

definition ds_receive ::
  "('w, 'ep, 'opt) os \<Rightarrow> nat list \<Rightarrow> message_flags \<Rightarrow> ('w, 'ep) sk \<Rightarrow> (error_code \<times> byte_t list) \<times> ('w, 'ep) sk" where
  "ds_receive Sys sizes flags st = base_receive Sys sizes flags st"

definition ds_initiate_async_receive ::
  "('w, 'ep, 'opt) os \<Rightarrow> nat list \<Rightarrow> message_flags \<Rightarrow> nat \<Rightarrow> bool \<Rightarrow> ('w, 'ep) sk \<Rightarrow> ('w, 'ep) sk" where
  "ds_initiate_async_receive Sys sizes flags handler cont st =
     base_async_receive Sys sizes flags handler cont st"

definition ds_async_receive ::
  "('w, 'ep, 'opt) os \<Rightarrow> nat list \<Rightarrow> nat \<Rightarrow> bool \<Rightarrow> ('w, 'ep) sk \<Rightarrow> ('w, 'ep) sk" where
  "ds_async_receive Sys sizes handler cont st = ds_initiate_async_receive Sys sizes 0 handler cont st"

definition ds_async_receive_flags ::
  "('w, 'ep, 'opt) os \<Rightarrow> nat list \<Rightarrow> message_flags \<Rightarrow> nat \<Rightarrow> bool \<Rightarrow> ('w, 'ep) sk \<Rightarrow> ('w, 'ep) sk" where
  "ds_async_receive_flags Sys sizes flags handler cont st =
     ds_initiate_async_receive Sys sizes flags handler cont st"

text \<open>
  \<open>receive_from\<close> writes the sender into the caller's endpoint, also when it then throws; the endpoint
  after the call is part of the answer.
\<close>

definition ds_receive_from_throw ::
  "('w, 'ep, 'opt) os \<Rightarrow> nat list \<Rightarrow> 'ep \<Rightarrow> ('w, 'ep) sk \<Rightarrow> byte_t list thrown \<times> 'ep \<times> ('w, 'ep) sk" where
  "ds_receive_from_throw Sys sizes sender st =
     (case svc_receive_from Sys sizes sender 0 st of ((ec, bs, sender'), st') \<Rightarrow>
        (throw_error ''receive_from'' ec bs, sender', st'))"

definition ds_receive_from_flags_throw ::
  "('w, 'ep, 'opt) os \<Rightarrow> nat list \<Rightarrow> 'ep \<Rightarrow> message_flags \<Rightarrow> ('w, 'ep) sk \<Rightarrow> byte_t list thrown \<times> 'ep \<times> ('w, 'ep) sk" where
  "ds_receive_from_flags_throw Sys sizes sender flags st =
     (case svc_receive_from Sys sizes sender flags st of ((ec, bs, sender'), st') \<Rightarrow>
        (throw_error ''receive_from'' ec bs, sender', st'))"

definition ds_receive_from ::
  "('w, 'ep, 'opt) os \<Rightarrow> nat list \<Rightarrow> 'ep \<Rightarrow> message_flags \<Rightarrow> ('w, 'ep) sk \<Rightarrow> (error_code \<times> byte_t list \<times> 'ep) \<times> ('w, 'ep) sk" where
  "ds_receive_from Sys sizes sender flags st = svc_receive_from Sys sizes sender flags st"

definition ds_initiate_async_receive_from ::
  "('w, 'ep, 'opt) os \<Rightarrow> nat list \<Rightarrow> message_flags \<Rightarrow> nat \<Rightarrow> bool \<Rightarrow> ('w, 'ep) sk \<Rightarrow> ('w, 'ep) sk" where
  "ds_initiate_async_receive_from Sys sizes flags handler cont st =
     svc_async_receive_from Sys sizes flags handler cont st"

definition ds_async_receive_from ::
  "('w, 'ep, 'opt) os \<Rightarrow> nat list \<Rightarrow> nat \<Rightarrow> bool \<Rightarrow> ('w, 'ep) sk \<Rightarrow> ('w, 'ep) sk" where
  "ds_async_receive_from Sys sizes handler cont st = ds_initiate_async_receive_from Sys sizes 0 handler cont st"

definition ds_async_receive_from_flags ::
  "('w, 'ep, 'opt) os \<Rightarrow> nat list \<Rightarrow> message_flags \<Rightarrow> nat \<Rightarrow> bool \<Rightarrow> ('w, 'ep) sk \<Rightarrow> ('w, 'ep) sk" where
  "ds_async_receive_from_flags Sys sizes flags handler cont st =
     ds_initiate_async_receive_from Sys sizes flags handler cont st"

end
