(* ===== verification/Stream_Socket.thy ===== *)
theory Stream_Socket imports Basic_Socket_Local begin

text \<open>
  \<open>basic_stream_socket_ext<Protocol, Executor>\<close>
  (include/helper/1.74/boost/asio/basic_stream_socket_ext.hpp), the socket of local streams: its
  constructors and every form of sending, writing, receiving and reading, on basic_socket_ext_local
  and the local service.
\<close>

section \<open>Constructors\<close>

definition ss_new ::
  "('w, 'ep, 'opt) os \<Rightarrow> ('w, 'ep) kernel \<Rightarrow> ('w, 'ep) sk" where
  "ss_new Sys k = local_bs_new Sys k"

definition ss_new_context ::
  "('w, 'ep, 'opt) os \<Rightarrow> ('w, 'ep) kernel \<Rightarrow> ('w, 'ep) sk" where
  "ss_new_context Sys k = local_bs_new_context Sys k"

definition ss_new_protocol ::
  "('w, 'ep, 'opt) os \<Rightarrow> protocol \<Rightarrow> ('w, 'ep) kernel \<Rightarrow> ((string \<times> error_code) \<times> ('w, 'ep) kernel) + ('w, 'ep) sk" where
  "ss_new_protocol Sys p k = local_bs_new_protocol Sys p k"

definition ss_new_protocol_context ::
  "('w, 'ep, 'opt) os \<Rightarrow> protocol \<Rightarrow> ('w, 'ep) kernel \<Rightarrow> ((string \<times> error_code) \<times> ('w, 'ep) kernel) + ('w, 'ep) sk" where
  "ss_new_protocol_context Sys p k = local_bs_new_protocol_context Sys p k"

definition ss_new_endpoint ::
  "('w, 'ep, 'opt) os \<Rightarrow> 'ep \<Rightarrow> ('w, 'ep) kernel \<Rightarrow> ((string \<times> error_code) \<times> ('w, 'ep) kernel) + ('w, 'ep) sk" where
  "ss_new_endpoint Sys ep k = local_bs_new_endpoint Sys ep k"

definition ss_new_endpoint_context ::
  "('w, 'ep, 'opt) os \<Rightarrow> 'ep \<Rightarrow> ('w, 'ep) kernel \<Rightarrow> ((string \<times> error_code) \<times> ('w, 'ep) kernel) + ('w, 'ep) sk" where
  "ss_new_endpoint_context Sys ep k = local_bs_new_endpoint_context Sys ep k"

definition ss_new_native ::
  "('w, 'ep, 'opt) os \<Rightarrow> protocol \<Rightarrow> nat \<Rightarrow> ('w, 'ep) kernel \<Rightarrow> ((string \<times> error_code) \<times> ('w, 'ep) kernel) + ('w, 'ep) sk" where
  "ss_new_native Sys p native k = local_bs_new_native Sys p native k"

definition ss_new_native_context ::
  "('w, 'ep, 'opt) os \<Rightarrow> protocol \<Rightarrow> nat \<Rightarrow> ('w, 'ep) kernel \<Rightarrow> ((string \<times> error_code) \<times> ('w, 'ep) kernel) + ('w, 'ep) sk" where
  "ss_new_native_context Sys p native k = local_bs_new_native_context Sys p native k"

definition ss_move_construct ::
  "('w, 'ep, 'opt) os \<Rightarrow> impl \<Rightarrow> impl \<times> impl" where
  "ss_move_construct Sys other = local_bs_move_construct Sys other"

definition ss_move_assign ::
  "('w, 'ep, 'opt) os \<Rightarrow> impl \<Rightarrow> impl \<Rightarrow> ('w, 'ep) kernel \<Rightarrow> impl \<times> impl \<times> ('w, 'ep) kernel" where
  "ss_move_assign Sys impl other k = local_bs_move_assign Sys impl other k"

definition ss_converting_move_construct ::
  "('w, 'ep, 'opt) os \<Rightarrow> (protocol \<Rightarrow> protocol) \<Rightarrow> protocol \<Rightarrow> impl \<Rightarrow> impl \<times> impl" where
  "ss_converting_move_construct Sys convert other_default other =
     local_bs_converting_move_construct Sys convert other_default other"

definition ss_converting_move_assign ::
  "('w, 'ep, 'opt) os \<Rightarrow> (protocol \<Rightarrow> protocol) \<Rightarrow> protocol \<Rightarrow> impl \<Rightarrow> impl \<Rightarrow> ('w, 'ep) kernel \<Rightarrow>
     impl \<times> impl \<times> ('w, 'ep) kernel" where
  "ss_converting_move_assign Sys convert other_default impl other k =
     local_bs_converting_move_assign Sys convert other_default impl other k"

section \<open>Sending and writing\<close>

definition ss_send_throw ::
  "('w, 'ep, 'opt) os \<Rightarrow> byte_t list list \<Rightarrow> ('w, 'ep) sk \<Rightarrow> nat thrown \<times> ('w, 'ep) sk" where
  "ss_send_throw Sys bufs st =
     (case local_base_send Sys bufs 0 st of ((ec, s), st') \<Rightarrow> (throw_error ''send'' ec s, st'))"

definition ss_send_flags_throw ::
  "('w, 'ep, 'opt) os \<Rightarrow> byte_t list list \<Rightarrow> message_flags \<Rightarrow> ('w, 'ep) sk \<Rightarrow> nat thrown \<times> ('w, 'ep) sk" where
  "ss_send_flags_throw Sys bufs flags st =
     (case local_base_send Sys bufs flags st of ((ec, s), st') \<Rightarrow> (throw_error ''send'' ec s, st'))"

definition ss_send ::
  "('w, 'ep, 'opt) os \<Rightarrow> byte_t list list \<Rightarrow> message_flags \<Rightarrow> ('w, 'ep) sk \<Rightarrow> (error_code \<times> nat) \<times> ('w, 'ep) sk" where
  "ss_send Sys bufs flags st = local_base_send Sys bufs flags st"

definition ss_initiate_async_send ::
  "('w, 'ep, 'opt) os \<Rightarrow> byte_t list list \<Rightarrow> message_flags \<Rightarrow> nat \<Rightarrow> bool \<Rightarrow> ('w, 'ep) sk \<Rightarrow> ('w, 'ep) sk" where
  "ss_initiate_async_send Sys bufs flags handler cont st = local_base_async_send Sys bufs flags handler cont st"

definition ss_async_send ::
  "('w, 'ep, 'opt) os \<Rightarrow> byte_t list list \<Rightarrow> nat \<Rightarrow> bool \<Rightarrow> ('w, 'ep) sk \<Rightarrow> ('w, 'ep) sk" where
  "ss_async_send Sys bufs handler cont st = ss_initiate_async_send Sys bufs 0 handler cont st"

definition ss_async_send_flags ::
  "('w, 'ep, 'opt) os \<Rightarrow> byte_t list list \<Rightarrow> message_flags \<Rightarrow> nat \<Rightarrow> bool \<Rightarrow> ('w, 'ep) sk \<Rightarrow> ('w, 'ep) sk" where
  "ss_async_send_flags Sys bufs flags handler cont st =
     ss_initiate_async_send Sys bufs flags handler cont st"

definition ss_write_some_throw ::
  "('w, 'ep, 'opt) os \<Rightarrow> byte_t list list \<Rightarrow> ('w, 'ep) sk \<Rightarrow> nat thrown \<times> ('w, 'ep) sk" where
  "ss_write_some_throw Sys bufs st =
     (case local_base_send Sys bufs 0 st of ((ec, s), st') \<Rightarrow> (throw_error ''write_some'' ec s, st'))"

definition ss_write_some ::
  "('w, 'ep, 'opt) os \<Rightarrow> byte_t list list \<Rightarrow> ('w, 'ep) sk \<Rightarrow> (error_code \<times> nat) \<times> ('w, 'ep) sk" where
  "ss_write_some Sys bufs st = local_base_send Sys bufs 0 st"

definition ss_async_write_some ::
  "('w, 'ep, 'opt) os \<Rightarrow> byte_t list list \<Rightarrow> nat \<Rightarrow> bool \<Rightarrow> ('w, 'ep) sk \<Rightarrow> ('w, 'ep) sk" where
  "ss_async_write_some Sys bufs handler cont st = ss_initiate_async_send Sys bufs 0 handler cont st"

section \<open>Receiving and reading\<close>

definition ss_receive_throw ::
  "('w, 'ep, 'opt) os \<Rightarrow> nat list \<Rightarrow> ('w, 'ep) sk \<Rightarrow> byte_t list thrown \<times> ('w, 'ep) sk" where
  "ss_receive_throw Sys sizes st =
     (case local_base_receive Sys sizes 0 st of ((ec, bs), st') \<Rightarrow> (throw_error ''receive'' ec bs, st'))"

definition ss_receive_flags_throw ::
  "('w, 'ep, 'opt) os \<Rightarrow> nat list \<Rightarrow> message_flags \<Rightarrow> ('w, 'ep) sk \<Rightarrow> byte_t list thrown \<times> ('w, 'ep) sk" where
  "ss_receive_flags_throw Sys sizes flags st =
     (case local_base_receive Sys sizes flags st of ((ec, bs), st') \<Rightarrow> (throw_error ''receive'' ec bs, st'))"

definition ss_receive ::
  "('w, 'ep, 'opt) os \<Rightarrow> nat list \<Rightarrow> message_flags \<Rightarrow> ('w, 'ep) sk \<Rightarrow> (error_code \<times> byte_t list) \<times> ('w, 'ep) sk" where
  "ss_receive Sys sizes flags st = local_base_receive Sys sizes flags st"

definition ss_initiate_async_receive ::
  "('w, 'ep, 'opt) os \<Rightarrow> nat list \<Rightarrow> message_flags \<Rightarrow> nat \<Rightarrow> bool \<Rightarrow> ('w, 'ep) sk \<Rightarrow> ('w, 'ep) sk" where
  "ss_initiate_async_receive Sys sizes flags handler cont st =
     local_base_async_receive Sys sizes flags handler cont st"

definition ss_async_receive ::
  "('w, 'ep, 'opt) os \<Rightarrow> nat list \<Rightarrow> nat \<Rightarrow> bool \<Rightarrow> ('w, 'ep) sk \<Rightarrow> ('w, 'ep) sk" where
  "ss_async_receive Sys sizes handler cont st = ss_initiate_async_receive Sys sizes 0 handler cont st"

definition ss_async_receive_flags ::
  "('w, 'ep, 'opt) os \<Rightarrow> nat list \<Rightarrow> message_flags \<Rightarrow> nat \<Rightarrow> bool \<Rightarrow> ('w, 'ep) sk \<Rightarrow> ('w, 'ep) sk" where
  "ss_async_receive_flags Sys sizes flags handler cont st =
     ss_initiate_async_receive Sys sizes flags handler cont st"

definition ss_read_some_throw ::
  "('w, 'ep, 'opt) os \<Rightarrow> nat list \<Rightarrow> ('w, 'ep) sk \<Rightarrow> byte_t list thrown \<times> ('w, 'ep) sk" where
  "ss_read_some_throw Sys sizes st =
     (case local_base_receive Sys sizes 0 st of ((ec, bs), st') \<Rightarrow> (throw_error ''read_some'' ec bs, st'))"

definition ss_read_some ::
  "('w, 'ep, 'opt) os \<Rightarrow> nat list \<Rightarrow> ('w, 'ep) sk \<Rightarrow> (error_code \<times> byte_t list) \<times> ('w, 'ep) sk" where
  "ss_read_some Sys sizes st = local_base_receive Sys sizes 0 st"

definition ss_async_read_some ::
  "('w, 'ep, 'opt) os \<Rightarrow> nat list \<Rightarrow> nat \<Rightarrow> bool \<Rightarrow> ('w, 'ep) sk \<Rightarrow> ('w, 'ep) sk" where
  "ss_async_read_some Sys sizes handler cont st = ss_initiate_async_receive Sys sizes 0 handler cont st"

end
