(* ===== verification/Socket_Acceptor.thy ===== *)
theory Socket_Acceptor imports Basic_Socket_Local begin

text \<open>
  \<open>basic_socket_acceptor_ext<Protocol, Executor>\<close>
  (include/helper/1.74/boost/asio/basic_socket_acceptor_ext.hpp), on the local service.
  A socket that is accepted into and the acceptor share the kernel.
\<close>

section \<open>Constructors\<close>

type_synonym ('w, 'ep) constructed = "((string \<times> error_code) \<times> ('w, 'ep) kernel) + ('w, 'ep) sk"

text \<open>A call inside a constructor followed by \<open>throw_error\<close>: throwing destroys what was built.\<close>

definition or_unwind ::
  "('w, 'ep, 'opt) os \<Rightarrow> string \<Rightarrow> error_code \<times> ('w, 'ep) sk \<Rightarrow> ('w, 'ep) constructed" where
  "or_unwind Sys what r =
     (case r of (ec, st) \<Rightarrow> if failed ec then Inl ((what, ec), local_unwind Sys st) else Inr st)"

fun and_then ::
  "('w, 'ep) constructed \<Rightarrow> (('w, 'ep) sk \<Rightarrow> ('w, 'ep) constructed) \<Rightarrow> ('w, 'ep) constructed" where
  "and_then (Inl e) f = Inl e"
| "and_then (Inr st) f = f st"

definition sa_new :: "('w, 'ep, 'opt) os \<Rightarrow> ('w, 'ep) kernel \<Rightarrow> ('w, 'ep) sk" where
  "sa_new Sys k = (local_construct (local_new_impl Sys), k)"

definition sa_new_context :: "('w, 'ep, 'opt) os \<Rightarrow> ('w, 'ep) kernel \<Rightarrow> ('w, 'ep) sk" where
  "sa_new_context Sys k = (local_construct (local_new_impl Sys), k)"

definition sa_new_protocol ::
  "('w, 'ep, 'opt) os \<Rightarrow> protocol \<Rightarrow> ('w, 'ep) kernel \<Rightarrow> ('w, 'ep) constructed" where
  "sa_new_protocol Sys p k = or_unwind Sys ''open'' (local_svc_open Sys p (sa_new Sys k))"

definition sa_new_protocol_context ::
  "('w, 'ep, 'opt) os \<Rightarrow> protocol \<Rightarrow> ('w, 'ep) kernel \<Rightarrow> ('w, 'ep) constructed" where
  "sa_new_protocol_context Sys p k = or_unwind Sys ''open'' (local_svc_open Sys p (sa_new_context Sys k))"

text \<open>
  \<open>reuse\<close> is \<open>socket_base::reuse_address(true)\<close> and \<open>backlog\<close> Boost's \<open>max_listen_connections\<close>.
\<close>

definition sa_new_endpoint ::
  "('w, 'ep, 'opt) os \<Rightarrow> 'opt \<Rightarrow> int \<Rightarrow> 'ep \<Rightarrow> bool \<Rightarrow> ('w, 'ep) kernel \<Rightarrow> ('w, 'ep) constructed" where
  "sa_new_endpoint Sys reuse backlog ep reuse_addr k =
     and_then (or_unwind Sys ''open'' (local_svc_open Sys (os_ep_protocol Sys ep) (sa_new Sys k))) (\<lambda>st1.
     and_then (if reuse_addr then or_unwind Sys ''set_option'' (local_svc_set_option Sys reuse st1) else Inr st1) (\<lambda>st2.
     and_then (or_unwind Sys ''bind'' (local_svc_bind Sys ep st2)) (\<lambda>st3.
     or_unwind Sys ''listen'' (local_base_listen Sys backlog st3))))"

definition sa_new_endpoint_context ::
  "('w, 'ep, 'opt) os \<Rightarrow> 'opt \<Rightarrow> int \<Rightarrow> 'ep \<Rightarrow> bool \<Rightarrow> ('w, 'ep) kernel \<Rightarrow> ('w, 'ep) constructed" where
  "sa_new_endpoint_context Sys reuse backlog ep reuse_addr k =
     and_then (or_unwind Sys ''open'' (local_svc_open Sys (os_ep_protocol Sys ep) (sa_new_context Sys k))) (\<lambda>st1.
     and_then (if reuse_addr then or_unwind Sys ''set_option'' (local_svc_set_option Sys reuse st1) else Inr st1) (\<lambda>st2.
     and_then (or_unwind Sys ''bind'' (local_svc_bind Sys ep st2)) (\<lambda>st3.
     or_unwind Sys ''listen'' (local_base_listen Sys backlog st3))))"

definition sa_new_native ::
  "('w, 'ep, 'opt) os \<Rightarrow> protocol \<Rightarrow> nat \<Rightarrow> ('w, 'ep) kernel \<Rightarrow> ('w, 'ep) constructed" where
  "sa_new_native Sys p native k = or_unwind Sys ''assign'' (local_svc_assign Sys p native (sa_new Sys k))"

definition sa_new_native_context ::
  "('w, 'ep, 'opt) os \<Rightarrow> protocol \<Rightarrow> nat \<Rightarrow> ('w, 'ep) kernel \<Rightarrow> ('w, 'ep) constructed" where
  "sa_new_native_context Sys p native k = or_unwind Sys ''assign'' (local_svc_assign Sys p native (sa_new_context Sys k))"

definition sa_move_construct :: "('w, 'ep, 'opt) os \<Rightarrow> impl \<Rightarrow> impl \<times> impl" where
  "sa_move_construct Sys other = local_move_construct Sys (local_new_impl Sys) other"

definition sa_move_assign ::
  "('w, 'ep, 'opt) os \<Rightarrow> impl \<Rightarrow> impl \<Rightarrow> ('w, 'ep) kernel \<Rightarrow> impl \<times> impl \<times> ('w, 'ep) kernel" where
  "sa_move_assign Sys impl other k = local_move_assign Sys impl other k"

definition sa_converting_move_construct ::
  "('w, 'ep, 'opt) os \<Rightarrow> (protocol \<Rightarrow> protocol) \<Rightarrow> protocol \<Rightarrow> impl \<Rightarrow> impl \<times> impl" where
  "sa_converting_move_construct Sys convert other_default other =
     local_converting_move_construct Sys convert other_default (local_new_impl Sys) other"

text \<open>The source is moved into a temporary, that into the target; then the temporary is destroyed.\<close>

definition sa_converting_move_assign ::
  "('w, 'ep, 'opt) os \<Rightarrow> (protocol \<Rightarrow> protocol) \<Rightarrow> protocol \<Rightarrow> impl \<Rightarrow> impl \<Rightarrow> ('w, 'ep) kernel \<Rightarrow>
     impl \<times> impl \<times> ('w, 'ep) kernel" where
  "sa_converting_move_assign Sys convert other_default impl other k =
     (case sa_converting_move_construct Sys convert other_default other of (tmp, other') \<Rightarrow>
        case local_move_assign Sys impl tmp k of (impl', tmp', k') \<Rightarrow>
          (impl', other', local_destroy Sys tmp' k'))"

section \<open>Opening, listening, closing\<close>

definition sa_open_throw :: "('w, 'ep, 'opt) os \<Rightarrow> protocol \<Rightarrow> ('w, 'ep) sk \<Rightarrow> unit thrown \<times> ('w, 'ep) sk" where
  "sa_open_throw Sys p st = (case local_svc_open Sys p st of (ec, st') \<Rightarrow> (throw_error ''open'' ec (), st'))"

definition sa_open :: "('w, 'ep, 'opt) os \<Rightarrow> protocol \<Rightarrow> ('w, 'ep) sk \<Rightarrow> error_code \<times> ('w, 'ep) sk" where
  "sa_open Sys p st = local_svc_open Sys p st"

definition sa_assign_throw ::
  "('w, 'ep, 'opt) os \<Rightarrow> protocol \<Rightarrow> nat \<Rightarrow> ('w, 'ep) sk \<Rightarrow> unit thrown \<times> ('w, 'ep) sk" where
  "sa_assign_throw Sys p native st =
     (case local_svc_assign Sys p native st of (ec, st') \<Rightarrow> (throw_error ''assign'' ec (), st'))"

definition sa_assign :: "('w, 'ep, 'opt) os \<Rightarrow> protocol \<Rightarrow> nat \<Rightarrow> ('w, 'ep) sk \<Rightarrow> error_code \<times> ('w, 'ep) sk" where
  "sa_assign Sys p native st = local_svc_assign Sys p native st"

definition sa_is_open :: "('w, 'ep) sk \<Rightarrow> bool" where
  "sa_is_open st = local_base_is_open (fst st)"

definition sa_bind_throw :: "('w, 'ep, 'opt) os \<Rightarrow> 'ep \<Rightarrow> ('w, 'ep) sk \<Rightarrow> unit thrown \<times> ('w, 'ep) sk" where
  "sa_bind_throw Sys ep st = (case local_svc_bind Sys ep st of (ec, st') \<Rightarrow> (throw_error ''bind'' ec (), st'))"

definition sa_bind :: "('w, 'ep, 'opt) os \<Rightarrow> 'ep \<Rightarrow> ('w, 'ep) sk \<Rightarrow> error_code \<times> ('w, 'ep) sk" where
  "sa_bind Sys ep st = local_svc_bind Sys ep st"

definition sa_listen_throw :: "('w, 'ep, 'opt) os \<Rightarrow> int \<Rightarrow> ('w, 'ep) sk \<Rightarrow> unit thrown \<times> ('w, 'ep) sk" where
  "sa_listen_throw Sys backlog st =
     (case local_base_listen Sys backlog st of (ec, st') \<Rightarrow> (throw_error ''listen'' ec (), st'))"

definition sa_listen :: "('w, 'ep, 'opt) os \<Rightarrow> int \<Rightarrow> ('w, 'ep) sk \<Rightarrow> error_code \<times> ('w, 'ep) sk" where
  "sa_listen Sys backlog st = local_base_listen Sys backlog st"

definition sa_close_throw :: "('w, 'ep, 'opt) os \<Rightarrow> ('w, 'ep) sk \<Rightarrow> unit thrown \<times> ('w, 'ep) sk" where
  "sa_close_throw Sys st = (case local_base_close Sys st of (ec, st') \<Rightarrow> (throw_error ''close'' ec (), st'))"

definition sa_close :: "('w, 'ep, 'opt) os \<Rightarrow> ('w, 'ep) sk \<Rightarrow> error_code \<times> ('w, 'ep) sk" where
  "sa_close Sys st = local_base_close Sys st"

definition sa_release_throw ::
  "(('w, 'ep) sk \<Rightarrow> (error_code \<times> nat option) \<times> ('w, 'ep) sk) \<Rightarrow> ('w, 'ep) sk \<Rightarrow>
     nat option thrown \<times> ('w, 'ep) sk" where
  "sa_release_throw release st = (case release st of ((ec, s), st') \<Rightarrow> (throw_error ''release'' ec s, st'))"

definition sa_release ::
  "(('w, 'ep) sk \<Rightarrow> (error_code \<times> nat option) \<times> ('w, 'ep) sk) \<Rightarrow> ('w, 'ep) sk \<Rightarrow>
     (error_code \<times> nat option) \<times> ('w, 'ep) sk" where
  "sa_release release st = release st"

definition sa_native_handle :: "('w, 'ep) sk \<Rightarrow> nat option" where
  "sa_native_handle st = local_svc_native_handle (fst st)"

definition sa_cancel_throw :: "('w, 'ep) sk \<Rightarrow> unit thrown \<times> ('w, 'ep) sk" where
  "sa_cancel_throw st = (case local_base_cancel st of (ec, st') \<Rightarrow> (throw_error ''cancel'' ec (), st'))"

definition sa_cancel :: "('w, 'ep) sk \<Rightarrow> error_code \<times> ('w, 'ep) sk" where
  "sa_cancel st = local_base_cancel st"

section \<open>Options, modes, waiting\<close>

definition sa_set_option_throw :: "('w, 'ep, 'opt) os \<Rightarrow> 'opt \<Rightarrow> ('w, 'ep) sk \<Rightarrow> unit thrown \<times> ('w, 'ep) sk" where
  "sa_set_option_throw Sys opt st =
     (case local_svc_set_option Sys opt st of (ec, st') \<Rightarrow> (throw_error ''set_option'' ec (), st'))"

definition sa_set_option :: "('w, 'ep, 'opt) os \<Rightarrow> 'opt \<Rightarrow> ('w, 'ep) sk \<Rightarrow> error_code \<times> ('w, 'ep) sk" where
  "sa_set_option Sys opt st = local_svc_set_option Sys opt st"

definition sa_get_option_throw ::
  "('w, 'ep, 'opt) os \<Rightarrow> 'opt \<Rightarrow> ('w, 'ep) sk \<Rightarrow> byte_t list option thrown \<times> ('w, 'ep) sk" where
  "sa_get_option_throw Sys opt st =
     (case local_svc_get_option Sys opt st of ((ec, v), st') \<Rightarrow> (throw_error ''get_option'' ec v, st'))"

definition sa_get_option ::
  "('w, 'ep, 'opt) os \<Rightarrow> 'opt \<Rightarrow> ('w, 'ep) sk \<Rightarrow> (error_code \<times> byte_t list option) \<times> ('w, 'ep) sk" where
  "sa_get_option Sys opt st = local_svc_get_option Sys opt st"

definition sa_io_control_throw ::
  "('w, 'ep, 'opt) os \<Rightarrow> int \<Rightarrow> byte_t list \<Rightarrow> ('w, 'ep) sk \<Rightarrow> byte_t list thrown \<times> ('w, 'ep) sk" where
  "sa_io_control_throw Sys name data st =
     (case local_base_io_control Sys name data st of ((ec, data'), st') \<Rightarrow> (throw_error ''io_control'' ec data', st'))"

definition sa_io_control ::
  "('w, 'ep, 'opt) os \<Rightarrow> int \<Rightarrow> byte_t list \<Rightarrow> ('w, 'ep) sk \<Rightarrow> (error_code \<times> byte_t list) \<times> ('w, 'ep) sk" where
  "sa_io_control Sys name data st = local_base_io_control Sys name data st"

definition sa_non_blocking :: "('w, 'ep) sk \<Rightarrow> bool" where
  "sa_non_blocking st = local_base_non_blocking (fst st)"

definition sa_set_non_blocking_throw :: "('w, 'ep, 'opt) os \<Rightarrow> bool \<Rightarrow> ('w, 'ep) sk \<Rightarrow> unit thrown \<times> ('w, 'ep) sk" where
  "sa_set_non_blocking_throw Sys mode st =
     (case local_base_set_non_blocking Sys mode st of (ec, st') \<Rightarrow> (throw_error ''non_blocking'' ec (), st'))"

definition sa_set_non_blocking :: "('w, 'ep, 'opt) os \<Rightarrow> bool \<Rightarrow> ('w, 'ep) sk \<Rightarrow> error_code \<times> ('w, 'ep) sk" where
  "sa_set_non_blocking Sys mode st = local_base_set_non_blocking Sys mode st"

definition sa_native_non_blocking :: "('w, 'ep) sk \<Rightarrow> bool" where
  "sa_native_non_blocking st = local_base_native_non_blocking (fst st)"

definition sa_set_native_non_blocking_throw ::
  "('w, 'ep, 'opt) os \<Rightarrow> bool \<Rightarrow> ('w, 'ep) sk \<Rightarrow> unit thrown \<times> ('w, 'ep) sk" where
  "sa_set_native_non_blocking_throw Sys mode st =
     (case local_base_set_native_non_blocking Sys mode st of (ec, st') \<Rightarrow> (throw_error ''native_non_blocking'' ec (), st'))"

definition sa_set_native_non_blocking :: "('w, 'ep, 'opt) os \<Rightarrow> bool \<Rightarrow> ('w, 'ep) sk \<Rightarrow> error_code \<times> ('w, 'ep) sk" where
  "sa_set_native_non_blocking Sys mode st = local_base_set_native_non_blocking Sys mode st"

definition sa_local_endpoint_throw :: "('w, 'ep, 'opt) os \<Rightarrow> ('w, 'ep) sk \<Rightarrow> 'ep thrown" where
  "sa_local_endpoint_throw Sys st = (case local_svc_local_endpoint Sys st of (ec, ep) \<Rightarrow> throw_error ''local_endpoint'' ec ep)"

definition sa_local_endpoint :: "('w, 'ep, 'opt) os \<Rightarrow> ('w, 'ep) sk \<Rightarrow> error_code \<times> 'ep" where
  "sa_local_endpoint Sys st = local_svc_local_endpoint Sys st"

definition sa_wait_throw :: "('w, 'ep, 'opt) os \<Rightarrow> wait_type \<Rightarrow> ('w, 'ep) sk \<Rightarrow> unit thrown \<times> ('w, 'ep) sk" where
  "sa_wait_throw Sys w st = (case local_base_wait Sys w st of (ec, st') \<Rightarrow> (throw_error ''wait'' ec (), st'))"

definition sa_wait :: "('w, 'ep, 'opt) os \<Rightarrow> wait_type \<Rightarrow> ('w, 'ep) sk \<Rightarrow> error_code \<times> ('w, 'ep) sk" where
  "sa_wait Sys w st = local_base_wait Sys w st"

definition sa_initiate_async_wait :: "('w, 'ep, 'opt) os \<Rightarrow> wait_type \<Rightarrow> nat \<Rightarrow> bool \<Rightarrow> ('w, 'ep) sk \<Rightarrow> ('w, 'ep) sk" where
  "sa_initiate_async_wait Sys w handler cont st = local_base_async_wait Sys w handler cont st"

definition sa_async_wait :: "('w, 'ep, 'opt) os \<Rightarrow> wait_type \<Rightarrow> nat \<Rightarrow> bool \<Rightarrow> ('w, 'ep) sk \<Rightarrow> ('w, 'ep) sk" where
  "sa_async_wait Sys w handler cont st = sa_initiate_async_wait Sys w handler cont st"

section \<open>Accepting into a socket\<close>

text \<open>
  With a caller's endpoint, a null pointer or a reference to it; the peer's endpoint is part of the
  answer only for the forms that take one.
\<close>

definition sa_accept_throw ::
  "('w, 'ep, 'opt) os \<Rightarrow> impl \<Rightarrow> impl \<Rightarrow> ('w, 'ep) kernel \<Rightarrow> unit thrown \<times> impl \<times> ('w, 'ep) kernel" where
  "sa_accept_throw Sys impl peer k =
     (case local_svc_accept Sys impl peer k of ((ec, ep), st') \<Rightarrow> (throw_error ''accept'' ec (), st'))"

definition sa_accept ::
  "('w, 'ep, 'opt) os \<Rightarrow> impl \<Rightarrow> impl \<Rightarrow> ('w, 'ep) kernel \<Rightarrow> error_code \<times> impl \<times> ('w, 'ep) kernel" where
  "sa_accept Sys impl peer k = (case local_svc_accept Sys impl peer k of ((ec, ep), st') \<Rightarrow> (ec, st'))"

definition sa_accept_endpoint_throw ::
  "('w, 'ep, 'opt) os \<Rightarrow> impl \<Rightarrow> impl \<Rightarrow> ('w, 'ep) kernel \<Rightarrow> unit thrown \<times> 'ep option \<times> impl \<times> ('w, 'ep) kernel" where
  "sa_accept_endpoint_throw Sys impl peer k =
     (case local_svc_accept Sys impl peer k of ((ec, ep), st') \<Rightarrow> (throw_error ''accept'' ec (), ep, st'))"

definition sa_accept_endpoint ::
  "('w, 'ep, 'opt) os \<Rightarrow> impl \<Rightarrow> impl \<Rightarrow> ('w, 'ep) kernel \<Rightarrow> (error_code \<times> 'ep option) \<times> impl \<times> ('w, 'ep) kernel" where
  "sa_accept_endpoint Sys impl peer k = local_svc_accept Sys impl peer k"

definition sa_initiate_async_accept ::
  "('w, 'ep, 'opt) os \<Rightarrow> bool \<Rightarrow> bool \<Rightarrow> nat \<Rightarrow> bool \<Rightarrow> ('w, 'ep) sk \<Rightarrow> ('w, 'ep) sk" where
  "sa_initiate_async_accept Sys peer_is_open wants_endpoint handler cont st =
     local_svc_async_accept Sys peer_is_open wants_endpoint handler cont st"

definition sa_async_accept ::
  "('w, 'ep, 'opt) os \<Rightarrow> bool \<Rightarrow> nat \<Rightarrow> bool \<Rightarrow> ('w, 'ep) sk \<Rightarrow> ('w, 'ep) sk" where
  "sa_async_accept Sys peer_is_open handler cont st =
     sa_initiate_async_accept Sys peer_is_open False handler cont st"

definition sa_async_accept_endpoint ::
  "('w, 'ep, 'opt) os \<Rightarrow> bool \<Rightarrow> nat \<Rightarrow> bool \<Rightarrow> ('w, 'ep) sk \<Rightarrow> ('w, 'ep) sk" where
  "sa_async_accept_endpoint Sys peer_is_open handler cont st =
     sa_initiate_async_accept Sys peer_is_open True handler cont st"

section \<open>Accepting a new socket\<close>

text \<open>
  The forms that return the socket: a local \<open>peer\<close> is constructed, accepted into and returned; when
  the call throws, \<open>peer\<close> is destroyed.  They differ in the peer's executor, which the model does not
  have, and in whether the peer's endpoint is wanted.
\<close>

definition sa_accept_new_throw ::
  "('w, 'ep, 'opt) os \<Rightarrow> impl \<Rightarrow> ('w, 'ep) kernel \<Rightarrow> impl thrown \<times> ('w, 'ep) kernel" where
  "sa_accept_new_throw Sys impl k =
     (case local_svc_accept Sys impl (local_construct (local_new_impl Sys)) k of ((ec, ep), (peer, k')) \<Rightarrow>
        if failed ec then (Inl (''accept'', ec), local_destroy Sys peer k') else (Inr peer, k'))"

definition sa_accept_new ::
  "('w, 'ep, 'opt) os \<Rightarrow> impl \<Rightarrow> ('w, 'ep) kernel \<Rightarrow> error_code \<times> impl \<times> ('w, 'ep) kernel" where
  "sa_accept_new Sys impl k =
     (case local_svc_accept Sys impl (local_construct (local_new_impl Sys)) k of ((ec, ep), st') \<Rightarrow> (ec, st'))"

definition sa_accept_new_endpoint_throw ::
  "('w, 'ep, 'opt) os \<Rightarrow> impl \<Rightarrow> ('w, 'ep) kernel \<Rightarrow> impl thrown \<times> 'ep option \<times> ('w, 'ep) kernel" where
  "sa_accept_new_endpoint_throw Sys impl k =
     (case local_svc_accept Sys impl (local_construct (local_new_impl Sys)) k of ((ec, ep), (peer, k')) \<Rightarrow>
        if failed ec then (Inl (''accept'', ec), ep, local_destroy Sys peer k') else (Inr peer, ep, k'))"

definition sa_accept_new_endpoint ::
  "('w, 'ep, 'opt) os \<Rightarrow> impl \<Rightarrow> ('w, 'ep) kernel \<Rightarrow> (error_code \<times> 'ep option) \<times> impl \<times> ('w, 'ep) kernel" where
  "sa_accept_new_endpoint Sys impl k = local_svc_accept Sys impl (local_construct (local_new_impl Sys)) k"

definition sa_initiate_async_move_accept ::
  "('w, 'ep, 'opt) os \<Rightarrow> bool \<Rightarrow> nat \<Rightarrow> bool \<Rightarrow> ('w, 'ep) sk \<Rightarrow> ('w, 'ep) sk" where
  "sa_initiate_async_move_accept Sys wants_endpoint handler cont st =
     local_svc_async_move_accept Sys wants_endpoint handler cont st"

definition sa_async_move_accept :: "('w, 'ep, 'opt) os \<Rightarrow> nat \<Rightarrow> bool \<Rightarrow> ('w, 'ep) sk \<Rightarrow> ('w, 'ep) sk" where
  "sa_async_move_accept Sys handler cont st = sa_initiate_async_move_accept Sys False handler cont st"

definition sa_async_move_accept_endpoint :: "('w, 'ep, 'opt) os \<Rightarrow> nat \<Rightarrow> bool \<Rightarrow> ('w, 'ep) sk \<Rightarrow> ('w, 'ep) sk" where
  "sa_async_move_accept_endpoint Sys handler cont st = sa_initiate_async_move_accept Sys True handler cont st"

section \<open>Accepting a new socket with an executor\<close>

text \<open>
  The forms that take the executor, or the context whose executor it is, that the new socket gets
  instead of the acceptor's: a socket with its executor.
\<close>

type_synonym 'x placed_socket = "impl \<times> 'x"

definition sa_accept_new_executor_throw ::
  "('w, 'ep, 'opt) os \<Rightarrow> impl \<Rightarrow> 'x \<Rightarrow> ('w, 'ep) kernel \<Rightarrow>
     'x placed_socket thrown \<times> ('w, 'ep) kernel" where
  "sa_accept_new_executor_throw Sys impl ex k =
     (case local_svc_accept Sys impl (local_construct (local_new_impl Sys)) k of ((ec, ep), (peer, k')) \<Rightarrow>
        if failed ec then (Inl (''accept'', ec), local_destroy Sys peer k') else (Inr (peer, ex), k'))"

definition sa_accept_new_context_throw ::
  "('w, 'ep, 'opt) os \<Rightarrow> impl \<Rightarrow> ('c \<Rightarrow> 'x) \<Rightarrow> 'c \<Rightarrow> ('w, 'ep) kernel \<Rightarrow>
     'x placed_socket thrown \<times> ('w, 'ep) kernel" where
  "sa_accept_new_context_throw Sys impl executor_of context k =
     (case local_svc_accept Sys impl (local_construct (local_new_impl Sys)) k of ((ec, ep), (peer, k')) \<Rightarrow>
        if failed ec then (Inl (''accept'', ec), local_destroy Sys peer k') else (Inr (peer, executor_of context), k'))"

definition sa_accept_new_executor ::
  "('w, 'ep, 'opt) os \<Rightarrow> impl \<Rightarrow> 'x \<Rightarrow> ('w, 'ep) kernel \<Rightarrow>
     error_code \<times> 'x placed_socket \<times> ('w, 'ep) kernel" where
  "sa_accept_new_executor Sys impl ex k =
     (case local_svc_accept Sys impl (local_construct (local_new_impl Sys)) k of ((ec, ep), (peer, k')) \<Rightarrow>
        (ec, (peer, ex), k'))"

definition sa_accept_new_context ::
  "('w, 'ep, 'opt) os \<Rightarrow> impl \<Rightarrow> ('c \<Rightarrow> 'x) \<Rightarrow> 'c \<Rightarrow> ('w, 'ep) kernel \<Rightarrow>
     error_code \<times> 'x placed_socket \<times> ('w, 'ep) kernel" where
  "sa_accept_new_context Sys impl executor_of context k =
     (case local_svc_accept Sys impl (local_construct (local_new_impl Sys)) k of ((ec, ep), (peer, k')) \<Rightarrow>
        (ec, (peer, executor_of context), k'))"

definition sa_accept_new_endpoint_executor_throw ::
  "('w, 'ep, 'opt) os \<Rightarrow> impl \<Rightarrow> 'x \<Rightarrow> ('w, 'ep) kernel \<Rightarrow>
     'x placed_socket thrown \<times> 'ep option \<times> ('w, 'ep) kernel" where
  "sa_accept_new_endpoint_executor_throw Sys impl ex k =
     (case local_svc_accept Sys impl (local_construct (local_new_impl Sys)) k of ((ec, ep), (peer, k')) \<Rightarrow>
        if failed ec then (Inl (''accept'', ec), ep, local_destroy Sys peer k') else (Inr (peer, ex), ep, k'))"

definition sa_accept_new_endpoint_context_throw ::
  "('w, 'ep, 'opt) os \<Rightarrow> impl \<Rightarrow> ('c \<Rightarrow> 'x) \<Rightarrow> 'c \<Rightarrow> ('w, 'ep) kernel \<Rightarrow>
     'x placed_socket thrown \<times> 'ep option \<times> ('w, 'ep) kernel" where
  "sa_accept_new_endpoint_context_throw Sys impl executor_of context k =
     (case local_svc_accept Sys impl (local_construct (local_new_impl Sys)) k of ((ec, ep), (peer, k')) \<Rightarrow>
        if failed ec then (Inl (''accept'', ec), ep, local_destroy Sys peer k') else (Inr (peer, executor_of context), ep, k'))"

definition sa_accept_new_endpoint_executor ::
  "('w, 'ep, 'opt) os \<Rightarrow> impl \<Rightarrow> 'x \<Rightarrow> ('w, 'ep) kernel \<Rightarrow>
     (error_code \<times> 'ep option) \<times> 'x placed_socket \<times> ('w, 'ep) kernel" where
  "sa_accept_new_endpoint_executor Sys impl ex k =
     (case local_svc_accept Sys impl (local_construct (local_new_impl Sys)) k of ((ec, ep), (peer, k')) \<Rightarrow>
        ((ec, ep), (peer, ex), k'))"

definition sa_accept_new_endpoint_context ::
  "('w, 'ep, 'opt) os \<Rightarrow> impl \<Rightarrow> ('c \<Rightarrow> 'x) \<Rightarrow> 'c \<Rightarrow> ('w, 'ep) kernel \<Rightarrow>
     (error_code \<times> 'ep option) \<times> 'x placed_socket \<times> ('w, 'ep) kernel" where
  "sa_accept_new_endpoint_context Sys impl executor_of context k =
     (case local_svc_accept Sys impl (local_construct (local_new_impl Sys)) k of ((ec, ep), (peer, k')) \<Rightarrow>
        ((ec, ep), (peer, executor_of context), k'))"

text \<open>Asynchronously, the operation keeps the executor; the reactor sees the same operation.\<close>

definition sa_async_move_accept_executor ::
  "('w, 'ep, 'opt) os \<Rightarrow> 'x \<Rightarrow> nat \<Rightarrow> bool \<Rightarrow> ('w, 'ep) sk \<Rightarrow> ('w, 'ep) sk" where
  "sa_async_move_accept_executor Sys ex handler cont st =
     sa_initiate_async_move_accept Sys False handler cont st"

definition sa_async_move_accept_context ::
  "('w, 'ep, 'opt) os \<Rightarrow> 'x \<Rightarrow> nat \<Rightarrow> bool \<Rightarrow> ('w, 'ep) sk \<Rightarrow> ('w, 'ep) sk" where
  "sa_async_move_accept_context Sys context handler cont st =
     sa_initiate_async_move_accept Sys False handler cont st"

definition sa_async_move_accept_endpoint_executor ::
  "('w, 'ep, 'opt) os \<Rightarrow> 'x \<Rightarrow> nat \<Rightarrow> bool \<Rightarrow> ('w, 'ep) sk \<Rightarrow> ('w, 'ep) sk" where
  "sa_async_move_accept_endpoint_executor Sys ex handler cont st =
     sa_initiate_async_move_accept Sys True handler cont st"

definition sa_async_move_accept_endpoint_context ::
  "('w, 'ep, 'opt) os \<Rightarrow> 'x \<Rightarrow> nat \<Rightarrow> bool \<Rightarrow> ('w, 'ep) sk \<Rightarrow> ('w, 'ep) sk" where
  "sa_async_move_accept_endpoint_context Sys context handler cont st =
     sa_initiate_async_move_accept Sys True handler cont st"

end
