(* ===== verification/Socket_Front_Props.thy ===== *)
theory Socket_Front_Props imports Datagram_Socket Stream_Socket Socket_Acceptor Local_Copies Extended_Sockets begin

text \<open>
  The properties of the front ends basic_stream_socket_ext, basic_datagram_socket_ext and
  basic_socket_acceptor_ext: what they leak when a call fails half way, and which transfers never
  reach the reactor.
\<close>

section \<open>Acceptors\<close>

text \<open>
  \<open>posix_sockets\<close>, listening opens or closes no descriptor, and \<open>accept\<close> without a descriptor
  reports an error.
\<close>

definition posix_acceptors :: "('w, 'ep, 'opt) os \<Rightarrow> ('w \<Rightarrow> nat set) \<Rightarrow> bool" where
  "posix_acceptors Sys open_in \<longleftrightarrow>
     posix_sockets Sys open_in \<and>
     (\<forall>s n w err w'. os_listen Sys s n w = (err, w') \<longrightarrow> open_in w' = open_in w) \<and>
     (\<forall>s st w. fst (os_sync_accept Sys s st w) \<noteq> Inl 0)"

lemma posix_acceptorsD:
  assumes "posix_acceptors Sys open_in"
  shows "posix_sockets Sys open_in" and "posix_descriptors Sys open_in"
    and "os_listen Sys s n w = (err, w') \<Longrightarrow> open_in w' = open_in w"
    and "os_sync_accept Sys s st w \<noteq> (Inl 0, w')"
  using assms posix_socketsD(1) unfolding posix_acceptors_def by (blast, blast, blast, metis fst_conv)

lemma list_os_acceptors: "posix_acceptors list_os set"
  using list_os_sockets by (simp add: posix_acceptors_def list_os_def Let_def)

text \<open>
  A construction in progress that started with the descriptors \<open>D\<close>: either one new descriptor is held
  by the object, or an error was thrown, the object is gone and so is its descriptor.
\<close>

definition holds_one :: "('w \<Rightarrow> nat set) \<Rightarrow> nat set \<Rightarrow> ('w, 'ep) sk \<Rightarrow> bool" where
  "holds_one open_in D st \<longleftrightarrow>
     (\<exists>fd. b_socket (fst st) = Some fd \<and> fd \<notin> D \<and> open_in (world (snd st)) = insert fd D)"

definition all_or_nothing ::
  "string set \<Rightarrow> ('w \<Rightarrow> nat set) \<Rightarrow> nat set \<Rightarrow> ('w, 'ep) constructed \<Rightarrow> bool" where
  "all_or_nothing calls open_in D r \<longleftrightarrow>
     (case r of Inl ((what, ec), k) \<Rightarrow> what \<in> calls \<and> ec \<noteq> no_error \<and> open_in (world k) = D
      | Inr st \<Rightarrow> holds_one open_in D st)"

lemma all_or_nothing_simps [simp]:
  "all_or_nothing calls open_in D (Inl ((what, ec), k)) \<longleftrightarrow> what \<in> calls \<and> ec \<noteq> no_error \<and> open_in (world k) = D"
  "all_or_nothing calls open_in D (Inr st) \<longleftrightarrow> holds_one open_in D st"
  by (simp_all add: all_or_nothing_def)

lemma all_or_nothing_then:
  "all_or_nothing calls open_in D r \<Longrightarrow> (\<And>st. holds_one open_in D st \<Longrightarrow> all_or_nothing calls open_in D (f st)) \<Longrightarrow>
     all_or_nothing calls open_in D (and_then r f)"
  by (cases r) simp_all

lemma all_or_nothing_call:
  assumes posix: "posix_descriptors Sys open_in" and "what \<in> calls" "holds_one open_in D st"
    and "call st = (ec, st')" "b_socket (fst st') = b_socket (fst st)"
    and "open_in (world (snd st')) = open_in (world (snd st))"
  shows "all_or_nothing calls open_in D (or_unwind Sys what (call st))"
  using assms unwind_world [OF posix, of "fst st'" "snd st'"]
  by (auto simp: or_unwind_def holds_one_def local_copy)

lemma all_or_nothing_open:
  assumes posix: "posix_descriptors Sys open_in" and "''open'' \<in> calls" "D = open_in (world k)"
  shows "all_or_nothing calls open_in D (or_unwind Sys ''open'' (svc_open Sys p (sa_new Sys k)))"
proof -
  obtain ec impl' k' where op: "svc_open Sys p (construct (new_impl Sys), k) = (ec, (impl', k'))"
    by (metis prod.collapse)
  have "\<not> base_is_open (construct (new_impl Sys))" by simp
  from svc_open_world [OF posix this op] show ?thesis
    using assms op unwind_world [OF posix, of impl' k']
    by (auto simp: or_unwind_def sa_new_def holds_one_def local_copy split: if_splits)
qed

lemma all_or_nothing_calls:
  assumes "posix_acceptors Sys open_in" "holds_one open_in D st"
  shows "''set_option'' \<in> calls \<Longrightarrow> all_or_nothing calls open_in D (or_unwind Sys ''set_option'' (svc_set_option Sys opt st))"
    and "''bind'' \<in> calls \<Longrightarrow> all_or_nothing calls open_in D (or_unwind Sys ''bind'' (svc_bind Sys ep st))"
    and "''listen'' \<in> calls \<Longrightarrow> all_or_nothing calls open_in D (or_unwind Sys ''listen'' (base_listen Sys backlog st))"
proof -
  note D = posix_acceptorsD [OF assms(1)]
  obtain impl k where st: "st = (impl, k)" by (rule prod.exhaust)
  obtain e1 s1 w1 where 1: "os_setsockopt Sys (b_socket impl) (b_state impl) (i_protocol impl) opt (world k) = (e1, s1, w1)"
    by (rule prod_cases3)
  obtain e2 w2 where 2: "os_bind Sys (b_socket impl) ep (world k) = (e2, w2)" by (rule prod.exhaust)
  obtain e3 w3 where 3: "os_listen Sys (b_socket impl) backlog (world k) = (e3, w3)" by (rule prod.exhaust)
  show "''set_option'' \<in> calls \<Longrightarrow> all_or_nothing calls open_in D (or_unwind Sys ''set_option'' (svc_set_option Sys opt st))"
    by (rule all_or_nothing_call [OF D(2) _ assms(2), where ec = "of_errno e1" and
        st' = "(impl\<lparr>b_state := s1\<rparr>, k\<lparr>world := w1\<rparr>)"])
      (simp_all add: st svc_set_option_def 1 posix_socketsD(2) [OF D(1) 1])
  show "''bind'' \<in> calls \<Longrightarrow> all_or_nothing calls open_in D (or_unwind Sys ''bind'' (svc_bind Sys ep st))"
    by (rule all_or_nothing_call [OF D(2) _ assms(2), where ec = "of_errno e2" and
        st' = "(impl, k\<lparr>world := w2\<rparr>)"])
      (simp_all add: st svc_bind_def 2 posixD(7) [OF D(2) 2])
  show "''listen'' \<in> calls \<Longrightarrow> all_or_nothing calls open_in D (or_unwind Sys ''listen'' (base_listen Sys backlog st))"
    by (rule all_or_nothing_call [OF D(2) _ assms(2), where ec = "of_errno e3" and
        st' = "(impl, k\<lparr>world := w3\<rparr>)"])
      (simp_all add: st base_listen_def 3 D(3) [OF 3])
qed

text \<open>
  Calls in sequence: each has a name and answers an error code with the state; the first that fails
  ends the sequence and is reported, with the state it left.
\<close>

fun run_calls :: "(string \<times> ('s \<Rightarrow> error_code \<times> 's)) list \<Rightarrow> 's \<Rightarrow> (string \<times> error_code) option \<times> 's" where
  "run_calls [] st = (None, st)"
| "run_calls ((what, f) # cs) st =
     (case f st of (ec, st') \<Rightarrow> if ec \<noteq> no_error then (Some (what, ec), st') else run_calls cs st')"

lemma sa_new_endpoint_calls:
  "sa_new_endpoint Sys reuse backlog ep reuse_addr k =
     (case run_calls ([(''open'', local_svc_open Sys (os_ep_protocol Sys ep))] @
         (if reuse_addr then [(''set_option'', local_svc_set_option Sys reuse)] else []) @
         [(''bind'', local_svc_bind Sys ep), (''listen'', local_base_listen Sys backlog)]) (sa_new Sys k) of
       (Some failure, st) \<Rightarrow> Inl (failure, local_unwind Sys st) | (None, st) \<Rightarrow> Inr st)"
  by (simp add: sa_new_endpoint_def or_unwind_def split: prod.splits)

text \<open>
  C32: the constructor of an acceptor from an endpoint opens, sets the reuse option if asked to, binds
  and listens, in this order.  If all of these succeed it gives the socket they leave, which holds
  exactly one new descriptor.  At the first that fails it throws the error of that call under that
  call's name, and leaves the operating system with exactly the descriptors it had.
\<close>

theorem acceptor_constructor_no_leak:
  assumes "posix_acceptors Sys open_in"
  shows "case run_calls ([(''open'', local_svc_open Sys (os_ep_protocol Sys ep))] @
         (if reuse_addr then [(''set_option'', local_svc_set_option Sys reuse)] else []) @
         [(''bind'', local_svc_bind Sys ep), (''listen'', local_base_listen Sys backlog)]) (sa_new Sys k) of
      (Some failure, st) \<Rightarrow> \<exists>k'. sa_new_endpoint Sys reuse backlog ep reuse_addr k = Inl (failure, k') \<and>
        open_in (world k') = open_in (world k)
    | (None, st) \<Rightarrow> sa_new_endpoint Sys reuse backlog ep reuse_addr k = Inr st \<and>
        (\<exists>fd. b_socket (fst st) = Some fd \<and> fd \<notin> open_in (world k) \<and>
          open_in (world (snd st)) = insert fd (open_in (world k)))"
proof -
  have "all_or_nothing {''open'', ''set_option'', ''bind'', ''listen''} open_in (open_in (world k))
      (sa_new_endpoint Sys reuse backlog ep reuse_addr k)"
    unfolding sa_new_endpoint_def local_copy
    by (intro all_or_nothing_then all_or_nothing_open [OF posix_acceptorsD(2) [OF assms]])
      (simp_all add: all_or_nothing_calls [OF assms])
  then show ?thesis
    unfolding sa_new_endpoint_calls [of Sys reuse]
    by (auto simp: all_or_nothing_def holds_one_def simp del: run_calls.simps split: prod.splits option.splits)
qed

text \<open>An endpoint of port 80 may not be bound: the new descriptor is closed and the error thrown.\<close>

theorem acceptor_constructor_no_leak_witness:
  "\<exists>k'. sa_new_endpoint list_os 2 128 80 True (kernel0 [3]) = Inl ((''bind'', of_errno 1), k') \<and> set (world k') = {3}"
proof -
  have "fst (run_calls ([(''open'', local_svc_open list_os (os_ep_protocol list_os 80))] @
      (if True then [(''set_option'', local_svc_set_option list_os 2)] else []) @
      [(''bind'', local_svc_bind list_os 80), (''listen'', local_base_listen list_os 128)])
      (sa_new list_os (kernel0 [3]))) = Some (''bind'', of_errno 1)"
    by code_simp
  with acceptor_constructor_no_leak [OF list_os_acceptors, where ep = 80 and reuse_addr = True and reuse = 2 and
      backlog = 128 and k = "kernel0 [3]"] show ?thesis
    by (auto simp: kernel0_def simp del: run_calls.simps split: prod.splits)
qed

lemma svc_assign_world:
  assumes posix: "posix_descriptors Sys open_in" and closed: "\<not> base_is_open impl"
    and asn: "svc_assign Sys p fd (impl, k) = (ec, (impl', k'))"
  shows "open_in (world k') = open_in (world k) \<and>
    (if ec = no_error then b_socket impl' = Some fd \<and> i_protocol impl' = p else b_socket impl' = None)"
proof -
  obtain err data k2 where reg: "register_descriptor Sys fd k = (err, data, k2)" by (rule prod_cases3)
  note r = register_simps [OF posix reg]
  have none: "b_socket impl = None" using closed by (simp add: base_is_open_def)
  show ?thesis
  proof (cases "err = 0")
    case True
    then have "(ec, (impl', k')) = (no_error, (impl\<lparr>b_reactor_data := data, b_socket := Some fd,
        b_state := insert possible_dup (state_of_type (p_type p)), i_protocol := p\<rparr>, k2))"
      using asn closed reg by (simp add: svc_assign_def do_assign_def)
    with r(1) show ?thesis by simp
  next
    case False
    then have "(ec, (impl', k')) = (of_errno err, (impl\<lparr>b_reactor_data := data\<rparr>, k2))"
      using asn closed reg by (simp add: svc_assign_def do_assign_def)
    with r(1) none False show ?thesis by simp
  qed
qed

lemma svc_accept_world:
  assumes acceptors: "posix_acceptors Sys open_in" and closed: "\<not> base_is_open peer"
    and acc: "svc_accept Sys listener peer k = ((ec, ep), (peer', k'))"
  shows "if ec = no_error
    then holds_one open_in (open_in (world k)) (peer', k') \<and> i_protocol peer' = i_protocol listener \<and> ep \<noteq> None
    else b_socket peer' = None \<and> open_in (world k') = open_in (world k)"
proof -
  note posix = posix_acceptorsD(2) [OF acceptors]
  have none: "b_socket peer = None" using closed by (simp add: base_is_open_def)
  obtain res w where a: "os_sync_accept Sys (b_socket listener) (b_state listener) (world k) = (res, w)"
    by (rule prod.exhaust)
  show ?thesis
  proof (cases res)
    case (Inl err)
    note a' = a [unfolded Inl]
    have "open_in w = open_in (world k)" by (rule posixD(4) [OF posix a'])
    moreover have "err \<noteq> 0" using posix_acceptorsD(4) [OF acceptors] a' by metis
    moreover from acc closed a' have "ec = of_errno err" "peer' = peer" "k' = k\<lparr>world := w\<rparr>"
      by (simp_all add: svc_accept_def)
    ultimately show ?thesis using none by simp
  next
    case (Inr x)
    obtain fd e where x: "x = (fd, e)" by (cases x)
    define k1 where "k1 = k\<lparr>world := w, descriptors := insert fd (descriptors k)\<rparr>"
    have new: "fd \<notin> open_in (world k)" "open_in (world k1) = insert fd (open_in (world k))"
      using posixD(3) [OF posix] a Inr x by (auto simp: k1_def)
    obtain ec1 p k2 where asn: "svc_assign Sys (i_protocol listener) fd (peer, k1) = (ec1, (p, k2))"
      by (metis prod.collapse)
    note sa = svc_assign_world [OF posix closed asn]
    show ?thesis
      using acc closed a Inr x asn sa new sys_close_world [OF posix, of fd "{}" True k2]
      by (auto simp: svc_accept_def holds_one_def simp flip: k1_def split: if_splits)
  qed
qed

text \<open>
  Accepting into a new socket gives a socket that holds exactly the one descriptor the accept
  opened and speaks the acceptor's protocol, or throws and leaves no descriptor behind - also when
  the connection was accepted but its descriptor could not be registered with the reactor.
\<close>

theorem accept_new_no_leak:
  assumes "posix_acceptors Sys open_in"
  shows "case sa_accept_new_throw Sys listener k of
      (Inl (what, ec), k') \<Rightarrow> what = ''accept'' \<and> ec \<noteq> no_error \<and> open_in (world k') = open_in (world k)
    | (Inr peer, k') \<Rightarrow> i_protocol peer = i_protocol listener \<and>
        (\<exists>fd. b_socket peer = Some fd \<and> fd \<notin> open_in (world k) \<and>
           open_in (world k') = insert fd (open_in (world k)))"
proof -
  obtain ec ep peer k' where acc: "svc_accept Sys listener (construct (new_impl Sys)) k = ((ec, ep), (peer, k'))"
    by (metis prod.collapse)
  have "\<not> base_is_open (construct (new_impl Sys))" by simp
  from svc_accept_world [OF assms this acc] show ?thesis
    using acc by (auto simp: sa_accept_new_throw_def holds_one_def destroy_def local_copy split: if_splits)
qed

theorem accept_new_no_leak_witness:
  "case sa_accept_new_throw list_os \<lparr>b_socket = Some 3, b_state = {}, b_reactor_data = 3, i_protocol = tcp_v4\<rparr>
      (kernel0 [3]) of
     (Inl e, k') \<Rightarrow> set (world k') = {3} | (Inr peer, k') \<Rightarrow> i_protocol peer = tcp_v4"
  using accept_new_no_leak [OF list_os_acceptors, where k = "kernel0 [3]"
      and listener = "\<lparr>b_socket = Some 3, b_state = {}, b_reactor_data = 3, i_protocol = tcp_v4\<rparr>"]
  by (auto simp: kernel0_def split: sum.splits prod.splits)

section \<open>Empty transfers\<close>

lemmas front_ends =
  ss_async_write_some_def ss_initiate_async_send_def ss_async_read_some_def ss_initiate_async_receive_def
  ds_async_send_def ds_initiate_async_send_def ds_async_receive_def ds_initiate_async_receive_def

text \<open>One more operation waits in the reactor, or one completes with an error.\<close>

definition reaches_reactor :: "bool \<Rightarrow> ('w, 'ep) kernel \<Rightarrow> ('w, 'ep) kernel \<Rightarrow> bool" where
  "reaches_reactor cont k k' \<longleftrightarrow>
     (\<exists>q. started k' = started k @ [q]) \<and> posted k' = posted k \<or>
     started k' = started k \<and> (\<exists>p ec. posted k' = posted k @ [(p, ec, cont)] \<and> ec \<noteq> no_error)"

lemma start_op_reaches_reactor:
  "reaches_reactor cont k (snd (start_op Sys ty p no_error cont now False (impl, k)))"
  by (auto simp: reaches_reactor_def start_op_def try_internal_non_blocking_def reactor_start_op_def
      post_immediate_completion_def split: prod.splits)

text \<open>
  What the reactor sees of an empty transfer depends on the kind of socket.  On a stream socket
  an asynchronous send or read with nothing but empty buffers completes at once and without error,
  and neither the socket nor the reactor is touched, so it completes also when the socket is closed
  or the peer is gone.  On every other socket it becomes an operation of the reactor (or, when the
  socket cannot be made non-blocking, completes with that error).
\<close>

theorem empty_transfers:
  assumes "all_empty bufs" and "all_zero sizes"
  shows "if stream_oriented \<in> b_state impl then
      ss_async_write_some Sys bufs h cont (impl, k) =
        (impl, k\<lparr>posted := posted k @ [(Send_op (b_socket impl) (b_state impl) bufs 0 h, no_error, cont)]\<rparr>) \<and>
      ss_async_read_some Sys sizes h cont (impl, k) =
        (impl, k\<lparr>posted := posted k @ [(Recv_op_ext_local (b_socket impl) (b_state impl) sizes 0 h, no_error, cont)]\<rparr>)
    else
      reaches_reactor cont k (snd (ds_async_send Sys bufs h cont (impl, k))) \<and>
      reaches_reactor cont k (snd (ds_async_receive Sys sizes h cont (impl, k)))"
proof (cases "stream_oriented \<in> b_state impl")
  case True
  with assms show ?thesis
    by (simp add: front_ends base_async_send_def local_base_async_receive_def local_copy start_op_def
        post_immediate_completion_def)
next
  case False
  with assms show ?thesis
    by (simp add: front_ends base_async_send_def base_async_receive_def start_op_reaches_reactor)
qed

theorem empty_transfers_witness:
  "ss_async_write_some list_os [[]] 7 True
      (\<lparr>b_socket = None, b_state = {stream_oriented}, b_reactor_data = 0, i_protocol = tcp_v4\<rparr>, kernel0 []) =
    (\<lparr>b_socket = None, b_state = {stream_oriented}, b_reactor_data = 0, i_protocol = tcp_v4\<rparr>,
     (kernel0 [])\<lparr>posted := [(Send_op None {stream_oriented} [[]] 0 7, no_error, True)]\<rparr>)"
  using empty_transfers [of "[[]]" "[0]"
      "\<lparr>b_socket = None, b_state = {stream_oriented}, b_reactor_data = 0, i_protocol = tcp_v4\<rparr>"
      list_os 7 True "kernel0 []"]
  by (simp add: all_empty_def all_zero_def kernel0_def)

end
