(* ===== verification/Socket_Ops_Ext.thy ===== *)
theory Socket_Ops_Ext
  imports Socket_Kernel
begin

text \<open>
  The receive functions added to \<open>socket_ops\<close>
  (include/helper/1.74/boost/asio/detail/impl/socket_ops_ext.ipp and socket_ops_ext_local.ipp, POSIX
  branches) and the operations that call them: receiving a datagram together with the address it
  was sent to, and receiving from a local socket together with the sender's credentials.
  \<open>recvmsg\<close> itself and \<open>poll\<close> are parameters.
\<close>

section \<open>Control messages\<close>

datatype cmsg_level = IPPROTO_IP | IPPROTO_IPV6 | SOL_SOCKET | Level_other int

datatype cmsg_type = IP_PKTINFO | IPV6_PKTINFO | SCM_CREDENTIALS | Type_other int

record cmsg =
  cmsg_level :: cmsg_level
  cmsg_type :: cmsg_type
  cmsg_data :: "byte_t list"

datatype ip_address = Address_v4 uint32_t | Address_v6 "byte_t list"

text \<open>Network byte order is most significant byte first, \<open>struct ucred\<close> is in host order.\<close>

definition ntohl :: "byte_t list \<Rightarrow> uint32_t" where
  "ntohl bs = foldl (\<lambda>x b. push_bit 8 x OR ucast b) 0 bs"

definition little_endian :: "byte_t list \<Rightarrow> uint32_t" where
  "little_endian bs = foldr (\<lambda>b x. push_bit 8 x OR ucast b) bs 0"

text \<open>
  \<open>in_pktinfo\<close> holds an interface index, the local address and, at offset 8, the destination
  address; \<open>in6_pktinfo\<close> starts with the destination address.  \<open>ucred\<close> holds pid, uid and gid.
\<close>

fun destination_step :: "ip_address \<Rightarrow> cmsg \<Rightarrow> ip_address" where
  "destination_step da m =
     (if cmsg_level m = IPPROTO_IP \<and> cmsg_type m = IP_PKTINFO then
        Address_v4 (ntohl (take 4 (drop 8 (cmsg_data m))))
      else if cmsg_level m = IPPROTO_IPV6 \<and> cmsg_type m = IPV6_PKTINFO then
        Address_v6 (take 16 (cmsg_data m))
      else da)"

definition find_destination :: "ip_address \<Rightarrow> cmsg list \<Rightarrow> ip_address" where
  "find_destination da ms = foldl destination_step da ms"

fun credentials_step :: "uint32_t \<times> uint32_t \<Rightarrow> cmsg \<Rightarrow> uint32_t \<times> uint32_t" where
  "credentials_step ug m =
     (if cmsg_level m \<noteq> SOL_SOCKET \<or> cmsg_type m \<noteq> SCM_CREDENTIALS \<or> length (cmsg_data m) \<noteq> 12 then ug
      else (little_endian (take 4 (drop 4 (cmsg_data m))), little_endian (take 4 (drop 8 (cmsg_data m)))))"

definition ANY_ID :: uint32_t where
  "ANY_ID = 0xFFFFFFFF"

definition find_credentials :: "cmsg list \<Rightarrow> uint32_t \<times> uint32_t" where
  "find_credentials ms = foldl credentials_step (ANY_ID, ANY_ID) ms"

section \<open>One call\<close>

text \<open>What \<open>recvmsg\<close> gives: an error number, or the bytes, the sender and the control messages.\<close>

record 'ep recvmsg_result =
  r_errno :: int
  r_bytes :: "byte_t list"
  r_addr :: 'ep
  r_cmsgs :: "cmsg list"

record ('w, 'ep) recv_os =
  ro_recvmsg :: "nat option \<Rightarrow> nat list \<Rightarrow> message_flags \<Rightarrow> 'w \<Rightarrow> 'ep recvmsg_result \<times> 'w"
  ro_poll_read :: "nat option \<Rightarrow> 'w \<Rightarrow> int \<times> 'w"

text \<open>
  The outcome of \<open>recvfrom\<close>: the bytes (\<open>None\<close> for -1), the error, the sender's address, the
  destination.
\<close>

record ('ep, 'x) received =
  rc_bytes :: "byte_t list option"
  rc_error :: error_code
  rc_addr :: 'ep
  rc_extra :: 'x

definition recvfrom_ext ::
  "('w, 'ep) recv_os \<Rightarrow> nat option \<Rightarrow> nat list \<Rightarrow> message_flags \<Rightarrow> ip_address \<Rightarrow> 'w \<Rightarrow>
     ('ep, ip_address) received \<times> 'w" where
  "recvfrom_ext R s sizes flags da w =
     (case ro_recvmsg R s sizes flags w of (r, w') \<Rightarrow>
        if r_errno r = 0 then
          (\<lparr>rc_bytes = Some (r_bytes r), rc_error = no_error, rc_addr = r_addr r,
            rc_extra = find_destination da (r_cmsgs r)\<rparr>, w')
        else
          (\<lparr>rc_bytes = None, rc_error = of_errno (r_errno r), rc_addr = r_addr r, rc_extra = da\<rparr>, w'))"

definition recv_local ::
  "('w, 'ep) recv_os \<Rightarrow> nat option \<Rightarrow> nat list \<Rightarrow> message_flags \<Rightarrow> uint32_t \<times> uint32_t \<Rightarrow> 'w \<Rightarrow>
     ('ep, uint32_t \<times> uint32_t) received \<times> 'w" where
  "recv_local R s sizes flags ug w =
     (case ro_recvmsg R s sizes flags w of (r, w') \<Rightarrow>
        if r_errno r = 0 then
          (\<lparr>rc_bytes = Some (r_bytes r), rc_error = no_error, rc_addr = r_addr r,
            rc_extra = find_credentials (r_cmsgs r)\<rparr>, w')
        else
          (\<lparr>rc_bytes = None, rc_error = of_errno (r_errno r), rc_addr = r_addr r, rc_extra = (ANY_ID, ANY_ID)\<rparr>, w'))"

definition recvfrom_local ::
  "('w, 'ep) recv_os \<Rightarrow> nat option \<Rightarrow> nat list \<Rightarrow> message_flags \<Rightarrow> uint32_t \<times> uint32_t \<Rightarrow> 'w \<Rightarrow>
     ('ep, uint32_t \<times> uint32_t) received \<times> 'w" where
  "recvfrom_local R s sizes flags ug w =
     (case ro_recvmsg R s sizes flags w of (r, w') \<Rightarrow>
        if r_errno r = 0 then
          (\<lparr>rc_bytes = Some (r_bytes r), rc_error = no_error, rc_addr = r_addr r,
            rc_extra = find_credentials (r_cmsgs r)\<rparr>, w')
        else
          (\<lparr>rc_bytes = None, rc_error = of_errno (r_errno r), rc_addr = r_addr r, rc_extra = (ANY_ID, ANY_ID)\<rparr>, w'))"

section \<open>The loops\<close>

text \<open>
  \<open>None\<close> is a loop that never ends.  The blocking loop polls without a timeout while the socket
  would block; the non-blocking ones call again while a signal interrupts them.
\<close>

partial_function (option) sync_recvfrom_loop ::
  "('x \<Rightarrow> 'w \<Rightarrow> ('ep, 'x) received \<times> 'w) \<Rightarrow> ('w \<Rightarrow> int \<times> 'w) \<Rightarrow> state_type \<Rightarrow> 'x \<Rightarrow> 'w \<Rightarrow>
     (byte_t list \<times> error_code \<times> 'ep \<times> 'x \<times> 'w) option" where
  "sync_recvfrom_loop recv poll st x w =
     (case recv x w of (r, w1) \<Rightarrow>
        (case rc_bytes r of
           Some bs \<Rightarrow> Some (bs, rc_error r, rc_addr r, rc_extra r, w1)
         | None \<Rightarrow>
             if user_set_non_blocking \<in> st \<or> (rc_error r \<noteq> would_block \<and> rc_error r \<noteq> try_again) then
               Some ([], rc_error r, rc_addr r, rc_extra r, w1)
             else
               (case poll w1 of (err, w2) \<Rightarrow>
                  if err \<noteq> 0 then Some ([], of_errno err, rc_addr r, rc_extra r, w2)
                  else sync_recvfrom_loop recv poll st (rc_extra r) w2)))"

definition sync_recvfrom_ext ::
  "('w, 'ep) recv_os \<Rightarrow> nat option \<Rightarrow> state_type \<Rightarrow> nat list \<Rightarrow> message_flags \<Rightarrow> 'ep \<Rightarrow> ip_address \<Rightarrow> 'w \<Rightarrow>
     (byte_t list \<times> error_code \<times> 'ep \<times> ip_address \<times> 'w) option" where
  "sync_recvfrom_ext R s st sizes flags addr da w =
     (if s = None then Some ([], bad_descriptor, addr, da, w)
      else sync_recvfrom_loop (recvfrom_ext R s sizes flags) (ro_poll_read R s) st da w)"

definition sync_recvfrom_local ::
  "('w, 'ep) recv_os \<Rightarrow> nat option \<Rightarrow> state_type \<Rightarrow> nat list \<Rightarrow> message_flags \<Rightarrow> 'ep \<Rightarrow> uint32_t \<times> uint32_t \<Rightarrow> 'w \<Rightarrow>
     (byte_t list \<times> error_code \<times> 'ep \<times> (uint32_t \<times> uint32_t) \<times> 'w) option" where
  "sync_recvfrom_local R s st sizes flags addr ug w =
     (if s = None then Some ([], bad_descriptor, addr, ug, w)
      else sync_recvfrom_loop (recvfrom_local R s sizes flags) (ro_poll_read R s) st ug w)"

text \<open>
  \<open>Again\<close>: the operation has to be run again when the socket is ready.  A finished operation has its
  error and its bytes; at the end of a stream \<open>bytes_transferred\<close> is not written, so it keeps the
  operation's value.
\<close>

datatype ('ep, 'x) attempt =
    Again error_code 'x
  | Finished error_code "byte_t list" 'ep 'x
  | End_of_stream 'x

definition classify :: "bool \<Rightarrow> ('ep, 'x) received \<Rightarrow> ('ep, 'x) attempt" where
  "classify is_stream r =
     (if is_stream \<and> rc_bytes r = Some [] then End_of_stream (rc_extra r)
      else if rc_error r = would_block \<or> rc_error r = try_again then Again (rc_error r) (rc_extra r)
      else
        (case rc_bytes r of
           Some bs \<Rightarrow> Finished no_error bs (rc_addr r) (rc_extra r)
         | None \<Rightarrow> Finished (rc_error r) [] (rc_addr r) (rc_extra r)))"

partial_function (option) non_blocking_loop ::
  "('x \<Rightarrow> 'w \<Rightarrow> ('ep, 'x) received \<times> 'w) \<Rightarrow> bool \<Rightarrow> 'x \<Rightarrow> 'w \<Rightarrow> (('ep, 'x) attempt \<times> 'w) option" where
  "non_blocking_loop recv is_stream x w =
     (case recv x w of (r, w1) \<Rightarrow>
        if \<not> (is_stream \<and> rc_bytes r = Some []) \<and> rc_error r = interrupted then
          non_blocking_loop recv is_stream (rc_extra r) w1
        else Some (classify is_stream r, w1))"

definition non_blocking_recvfrom_ext ::
  "('w, 'ep) recv_os \<Rightarrow> nat option \<Rightarrow> nat list \<Rightarrow> message_flags \<Rightarrow> ip_address \<Rightarrow> 'w \<Rightarrow>
     (('ep, ip_address) attempt \<times> 'w) option" where
  "non_blocking_recvfrom_ext R s sizes flags da w =
     non_blocking_loop (recvfrom_ext R s sizes flags) False da w"

definition non_blocking_recv_local ::
  "('w, 'ep) recv_os \<Rightarrow> nat option \<Rightarrow> nat list \<Rightarrow> message_flags \<Rightarrow> bool \<Rightarrow> uint32_t \<times> uint32_t \<Rightarrow> 'w \<Rightarrow>
     (('ep, uint32_t \<times> uint32_t) attempt \<times> 'w) option" where
  "non_blocking_recv_local R s sizes flags is_stream ug w =
     non_blocking_loop (recv_local R s sizes flags) is_stream ug w"

definition non_blocking_recvfrom_local ::
  "('w, 'ep) recv_os \<Rightarrow> nat option \<Rightarrow> nat list \<Rightarrow> message_flags \<Rightarrow> uint32_t \<times> uint32_t \<Rightarrow> 'w \<Rightarrow>
     (('ep, uint32_t \<times> uint32_t) attempt \<times> 'w) option" where
  "non_blocking_recvfrom_local R s sizes flags ug w =
     non_blocking_loop (recvfrom_local R s sizes flags) False ug w"

section \<open>The operations\<close>

datatype status = status_not_done | status_done | status_done_and_exhausted

text \<open>
  \<open>reactive_socket_recvfrom_op_ext\<close>: the operation's state, one try by the reactor, and the
  arguments its handler is called with: error, bytes transferred, destination.  A failed
  \<open>recvmsg\<close> writes no address.
\<close>

record 'ep recvfrom_op =
  op_socket :: "nat option"
  op_sizes :: "nat list"
  op_flags :: message_flags
  op_sender :: 'ep
  op_ec :: error_code
  op_bytes :: "byte_t list"
  op_da :: ip_address

definition new_recvfrom_op ::
  "ip_address \<Rightarrow> nat option \<Rightarrow> nat list \<Rightarrow> message_flags \<Rightarrow> 'ep \<Rightarrow> 'ep recvfrom_op" where
  "new_recvfrom_op unset s sizes flags sender =
     \<lparr>op_socket = s, op_sizes = sizes, op_flags = flags, op_sender = sender, op_ec = no_error,
      op_bytes = [], op_da = unset\<rparr>"

definition recvfrom_do_perform ::
  "('w, 'ep) recv_os \<Rightarrow> 'ep recvfrom_op \<Rightarrow> 'w \<Rightarrow> (status \<times> 'ep recvfrom_op \<times> 'w) option" where
  "recvfrom_do_perform R p w =
     (case non_blocking_recvfrom_ext R (op_socket p) (op_sizes p) (op_flags p) (op_da p) w of
        None \<Rightarrow> None
      | Some (Again ec da, w') \<Rightarrow> Some (status_not_done, p\<lparr>op_ec := ec, op_da := da\<rparr>, w')
      | Some (Finished ec bs addr da, w') \<Rightarrow>
          Some (status_done, p\<lparr>op_ec := ec, op_bytes := bs,
                 op_sender := (if failed ec then op_sender p else addr), op_da := da\<rparr>, w')
      | Some (End_of_stream da, w') \<Rightarrow> Some (status_done, p\<lparr>op_ec := eof, op_da := da\<rparr>, w'))"

definition recvfrom_do_complete :: "'ep recvfrom_op \<Rightarrow> error_code \<times> nat \<times> ip_address" where
  "recvfrom_do_complete p = (op_ec p, length (op_bytes p), op_da p)"

chapter \<open>The other receive operations\<close>

text \<open>
  The remaining receive operations of include/helper/1.74/boost/asio/detail: plain receive
  (reactive_socket_recv_op_ext.hpp and its local variant), receive with flags
  (reactive_socket_recvmsg_op_ext.hpp and its local variant) and receive-from for local sockets
  (reactive_socket_recvfrom_op_ext_local.hpp).  The first two call functions of Boost's own
  \<open>socket_ops\<close>, which are parameters.
\<close>

section \<open>Boost's receive functions\<close>

text \<open>
  Each answers whether the operation is complete, the error code afterwards, and the bytes received
  (\<open>None\<close> when \<open>bytes_transferred\<close> is not written, as at the end of a stream).
\<close>

type_synonym 'w recv_answer = "bool \<times> error_code \<times> byte_t list option \<times> 'w"

record 'w boost_recv =
  br_recv1 :: "nat option \<Rightarrow> nat \<Rightarrow> message_flags \<Rightarrow> bool \<Rightarrow> 'w \<Rightarrow> 'w recv_answer"
  br_recv :: "nat option \<Rightarrow> nat list \<Rightarrow> message_flags \<Rightarrow> bool \<Rightarrow> 'w \<Rightarrow> 'w recv_answer"
  br_recvmsg :: "nat option \<Rightarrow> nat list \<Rightarrow> message_flags \<Rightarrow> 'w \<Rightarrow> bool \<times> error_code \<times> byte_t list \<times> message_flags \<times> 'w"

section \<open>What every operation carries\<close>

text \<open>
  \<open>reactor_op_ext\<close> adds the destination address, default-constructed (\<open>unset\<close>); \<open>reactor_op_ext_local\<close>
  adds user and group, which its constructor does not initialise: their first values are arguments.
\<close>

record reactor_op_base =
  ro_ec :: error_code
  ro_bytes :: "byte_t list"

record reactor_op_ext = reactor_op_base +
  ro_da :: ip_address

record reactor_op_ext_local = reactor_op_base +
  ro_uid :: uint32_t
  ro_gid :: uint32_t

definition new_reactor_op_ext :: "ip_address \<Rightarrow> error_code \<Rightarrow> reactor_op_ext" where
  "new_reactor_op_ext unset success_ec = \<lparr>ro_ec = success_ec, ro_bytes = [], ro_da = unset\<rparr>"

definition new_reactor_op_ext_local :: "uint32_t \<Rightarrow> uint32_t \<Rightarrow> error_code \<Rightarrow> reactor_op_ext_local" where
  "new_reactor_op_ext_local uid gid success_ec =
     \<lparr>ro_ec = success_ec, ro_bytes = [], ro_uid = uid, ro_gid = gid\<rparr>"

section \<open>Plain receive\<close>

text \<open>\<open>single\<close>: the type of the buffer sequence is a single buffer.\<close>

record recv_args =
  ra_socket :: "nat option"
  ra_state :: state_type
  ra_single :: bool
  ra_sizes :: "nat list"
  ra_flags :: message_flags

definition perform_recv ::
  "'w boost_recv \<Rightarrow> recv_args \<Rightarrow> 'a reactor_op_base_scheme \<Rightarrow> 'w \<Rightarrow> status \<times> 'a reactor_op_base_scheme \<times> 'w" where
  "perform_recv B a p w =
     (let stream = stream_oriented \<in> ra_state a
      in case (if ra_single a then br_recv1 B (ra_socket a) (hd (ra_sizes a)) (ra_flags a) stream w
               else br_recv B (ra_socket a) (ra_sizes a) (ra_flags a) stream w) of
           (complete, ec, bs, w') \<Rightarrow>
             let p' = p\<lparr>ro_ec := ec, ro_bytes := (case bs of None \<Rightarrow> ro_bytes p | Some x \<Rightarrow> x)\<rparr>
             in (if complete then
                   (if stream \<and> ro_bytes p' = [] then status_done_and_exhausted else status_done)
                 else status_not_done, p', w'))"

definition recv_do_perform ::
  "'w boost_recv \<Rightarrow> recv_args \<Rightarrow> reactor_op_ext \<Rightarrow> 'w \<Rightarrow> status \<times> reactor_op_ext \<times> 'w" where
  "recv_do_perform B a p w = perform_recv B a p w"

definition recv_do_complete :: "reactor_op_ext \<Rightarrow> error_code \<times> nat \<times> ip_address" where
  "recv_do_complete p = (ro_ec p, length (ro_bytes p), ro_da p)"

definition local_recv_do_perform ::
  "'w boost_recv \<Rightarrow> recv_args \<Rightarrow> reactor_op_ext_local \<Rightarrow> 'w \<Rightarrow> status \<times> reactor_op_ext_local \<times> 'w" where
  "local_recv_do_perform B a p w = perform_recv B a p w"

definition local_recv_do_complete :: "reactor_op_ext_local \<Rightarrow> error_code \<times> nat \<times> uint32_t \<times> uint32_t" where
  "local_recv_do_complete p = (ro_ec p, length (ro_bytes p), ro_uid p, ro_gid p)"

section \<open>Receive with flags\<close>

text \<open>\<open>out_flags\<close> is a reference to the caller's variable: the flags are part of the answer.\<close>

definition perform_recvmsg ::
  "'w boost_recv \<Rightarrow> recv_args \<Rightarrow> 'a reactor_op_base_scheme \<Rightarrow> 'w \<Rightarrow>
     status \<times> 'a reactor_op_base_scheme \<times> message_flags \<times> 'w" where
  "perform_recvmsg B a p w =
     (case br_recvmsg B (ra_socket a) (ra_sizes a) (ra_flags a) w of (complete, ec, bs, out_flags, w') \<Rightarrow>
        (if complete then status_done else status_not_done, p\<lparr>ro_ec := ec, ro_bytes := bs\<rparr>, out_flags, w'))"

definition recvmsg_do_perform ::
  "'w boost_recv \<Rightarrow> recv_args \<Rightarrow> reactor_op_ext \<Rightarrow> 'w \<Rightarrow> status \<times> reactor_op_ext \<times> message_flags \<times> 'w" where
  "recvmsg_do_perform B a p w = perform_recvmsg B a p w"

definition recvmsg_do_complete :: "reactor_op_ext \<Rightarrow> error_code \<times> nat \<times> ip_address" where
  "recvmsg_do_complete p = (ro_ec p, length (ro_bytes p), ro_da p)"

definition local_recvmsg_do_perform ::
  "'w boost_recv \<Rightarrow> recv_args \<Rightarrow> reactor_op_ext_local \<Rightarrow> 'w \<Rightarrow> status \<times> reactor_op_ext_local \<times> message_flags \<times> 'w" where
  "local_recvmsg_do_perform B a p w = perform_recvmsg B a p w"

definition local_recvmsg_do_complete :: "reactor_op_ext_local \<Rightarrow> error_code \<times> nat \<times> uint32_t \<times> uint32_t" where
  "local_recvmsg_do_complete p = (ro_ec p, length (ro_bytes p), ro_uid p, ro_gid p)"

section \<open>Receive-from on local sockets\<close>

record 'ep local_recvfrom_op = reactor_op_ext_local +
  lo_socket :: "nat option"
  lo_sizes :: "nat list"
  lo_flags :: message_flags
  lo_sender :: 'ep

definition local_recvfrom_do_perform ::
  "('w, 'ep) recv_os \<Rightarrow> 'ep local_recvfrom_op \<Rightarrow> 'w \<Rightarrow> (status \<times> 'ep local_recvfrom_op \<times> 'w) option" where
  "local_recvfrom_do_perform R p w =
     (case non_blocking_recvfrom_local R (lo_socket p) (lo_sizes p) (lo_flags p) (ro_uid p, ro_gid p) w of
        None \<Rightarrow> None
      | Some (Again ec (uid, gid), w') \<Rightarrow>
          Some (status_not_done, p\<lparr>ro_ec := ec, ro_uid := uid, ro_gid := gid\<rparr>, w')
      | Some (Finished ec bs addr (uid, gid), w') \<Rightarrow>
          Some (status_done, p\<lparr>ro_ec := ec, ro_bytes := bs, ro_uid := uid, ro_gid := gid,
                 lo_sender := (if failed ec then lo_sender p else addr)\<rparr>, w')
      | Some (End_of_stream (uid, gid), w') \<Rightarrow>
          Some (status_done, p\<lparr>ro_ec := eof, ro_uid := uid, ro_gid := gid\<rparr>, w'))"

definition local_recvfrom_do_complete ::
  "'ep local_recvfrom_op \<Rightarrow> error_code \<times> nat \<times> uint32_t \<times> uint32_t" where
  "local_recvfrom_do_complete p = (ro_ec p, length (ro_bytes p), ro_uid p, ro_gid p)"

section \<open>A waiting operation\<close>

text \<open>
  The reactor tries a queued operation each time the descriptor is ready, until it is done: up to
  \<open>n\<close> tries.
\<close>

fun tries :: "('p \<Rightarrow> 'w \<Rightarrow> (status \<times> 'p \<times> 'w) option) \<Rightarrow> nat \<Rightarrow> 'p \<Rightarrow> 'w \<Rightarrow> (status \<times> 'p \<times> 'w) option" where
  "tries perform 0 p w = Some (status_not_done, p, w)"
| "tries perform (Suc n) p w =
     (case perform p w of
        None \<Rightarrow> None
      | Some (s, p', w') \<Rightarrow> if s = status_not_done then tries perform n p' w' else Some (s, p', w'))"

lemma tries_invariant:
  assumes "tries perform n p w = Some (s, p', w')"
    and "\<And>p w s p' w'. perform p w = Some (s, p', w') \<Longrightarrow> P p \<Longrightarrow> P p'" and "P p"
  shows "P p'"
  using assms(1,3)
proof (induction n arbitrary: p w)
  case (Suc n)
  then show ?case using assms(2) by (auto split: option.splits prod.splits if_splits)
qed simp

end
