(* ===== verification/Socket_Ops_Props.thy ===== *)
theory Socket_Ops_Props
  imports Socket_Ops_Ext
begin

text \<open>
  The properties of receiving with destination address and credentials.
\<close>

definition pktinfo :: "cmsg \<Rightarrow> ip_address option" where
  "pktinfo m =
     (if cmsg_level m = IPPROTO_IP \<and> cmsg_type m = IP_PKTINFO then
        Some (Address_v4 (ntohl (take 4 (drop 8 (cmsg_data m)))))
      else if cmsg_level m = IPPROTO_IPV6 \<and> cmsg_type m = IPV6_PKTINFO then
        Some (Address_v6 (take 16 (cmsg_data m)))
      else None)"

definition ucred :: "cmsg \<Rightarrow> (uint32_t \<times> uint32_t) option" where
  "ucred m =
     (if cmsg_level m = SOL_SOCKET \<and> cmsg_type m = SCM_CREDENTIALS \<and> length (cmsg_data m) = 12 then
        Some (little_endian (take 4 (drop 4 (cmsg_data m))), little_endian (take 4 (drop 8 (cmsg_data m))))
      else None)"

text \<open>A loop that lets every match overwrite the previous one keeps the last.\<close>

lemma foldl_last:
  assumes "\<And>x m. step x m = (case f m of None \<Rightarrow> x | Some a \<Rightarrow> a)"
  shows "foldl step x ms = last (x # List.map_filter f ms)"
proof (induction ms arbitrary: x)
  case (Cons m ms)
  then show ?case by (cases "f m") (simp_all add: assms List.map_filter_simps)
qed simp

lemma find_destination_last: "find_destination da ms = last (da # List.map_filter pktinfo ms)"
  unfolding find_destination_def by (rule foldl_last) (simp add: pktinfo_def)

lemma find_credentials_last: "find_credentials ms = last ((ANY_ID, ANY_ID) # List.map_filter ucred ms)"
  unfolding find_credentials_def by (rule foldl_last) (simp add: ucred_def)

definition ex_recv_os :: "(nat, nat) recv_os" where
  "ex_recv_os =
     \<lparr>ro_recvmsg = (\<lambda>s sizes flags w.
        (\<lparr>r_errno = (if w < 2 then 4 else 0), r_bytes = [1, 2], r_addr = 9,
          r_cmsgs = [\<lparr>cmsg_level = IPPROTO_IP, cmsg_type = IP_PKTINFO,
                      cmsg_data = [1, 0, 0, 0, 10, 0, 0, 2, 10, 0, 0, 1]\<rparr>]\<rparr>, Suc w)),
      ro_poll_read = (\<lambda>s w. (0, w))\<rparr>"

text \<open>The two byte orders of a 32 bit value.\<close>

definition big_endian_bytes :: "uint32_t \<Rightarrow> byte_t list" where
  "big_endian_bytes x = map (\<lambda>n. ucast (drop_bit n x)) [24, 16, 8, 0]"

lemma ntohl_big_endian: "ntohl (big_endian_bytes x) = x"
proof (rule bit_word_eqI)
  fix n assume "n < LENGTH(32)"
  then consider "n < 8" | "8 \<le> n" "n < 16" | "16 \<le> n" "n < 24" | "24 \<le> n" "n < 32"
    by (simp add: not_less) linarith
  then show "bit (ntohl (big_endian_bytes x)) n \<longleftrightarrow> bit x n"
    by cases (auto simp: ntohl_def big_endian_bytes_def bit_simps)
qed

lemma little_endian_rev: "little_endian bs = ntohl (rev bs)"
  by (simp add: little_endian_def ntohl_def foldl_conv_foldr)

lemma length_big_endian [simp]: "length (big_endian_bytes x) = 4"
  by (simp add: big_endian_bytes_def)

lemma map_filter_middle:
  "f m = Some y \<Longrightarrow> List.map_filter f (ms @ m # ms') = List.map_filter f ms @ y # List.map_filter f ms'"
  by (induction ms) (simp_all add: List.map_filter_simps split: option.splits)

text \<open>The control messages the kernel makes.\<close>

definition pktinfo_cmsg :: "byte_t list \<Rightarrow> uint32_t \<Rightarrow> cmsg" where
  "pktinfo_cmsg ifindex_local a =
     \<lparr>cmsg_level = IPPROTO_IP, cmsg_type = IP_PKTINFO, cmsg_data = ifindex_local @ big_endian_bytes a\<rparr>"

definition ucred_cmsg :: "uint32_t \<Rightarrow> uint32_t \<Rightarrow> uint32_t \<Rightarrow> cmsg" where
  "ucred_cmsg pid uid gid =
     \<lparr>cmsg_level = SOL_SOCKET, cmsg_type = SCM_CREDENTIALS,
      cmsg_data = rev (big_endian_bytes pid) @ rev (big_endian_bytes uid) @ rev (big_endian_bytes gid)\<rparr>"

text \<open>
  What a datagram or a local peer can carry: a destination of either family, in \<open>in_pktinfo\<close> and
  \<open>in6_pktinfo\<close> beside the interface, credentials, and any other control message; and the control
  message it is written as.
\<close>

datatype carried =
    Destination_v4 "byte_t list" uint32_t
  | Destination_v6 "byte_t list" "byte_t list"
  | Credentials uint32_t uint32_t uint32_t
  | Other_message cmsg

fun written :: "carried \<Rightarrow> cmsg" where
  "written (Destination_v4 ifindex_local a) = pktinfo_cmsg ifindex_local a"
| "written (Destination_v6 a ifindex) =
     \<lparr>cmsg_level = IPPROTO_IPV6, cmsg_type = IPV6_PKTINFO, cmsg_data = a @ ifindex\<rparr>"
| "written (Credentials pid uid gid) = ucred_cmsg pid uid gid"
| "written (Other_message m) = m"

fun carriable :: "carried \<Rightarrow> bool" where
  "carriable (Destination_v4 ifindex_local a) \<longleftrightarrow> length ifindex_local = 8"
| "carriable (Destination_v6 a ifindex) \<longleftrightarrow> length a = 16"
| "carriable (Credentials pid uid gid) \<longleftrightarrow> True"
| "carriable (Other_message m) \<longleftrightarrow>
     (cmsg_level m, cmsg_type m) \<notin> {(IPPROTO_IP, IP_PKTINFO), (IPPROTO_IPV6, IPV6_PKTINFO)} \<and>
     ((cmsg_level m, cmsg_type m) = (SOL_SOCKET, SCM_CREDENTIALS) \<longrightarrow> length (cmsg_data m) \<noteq> 12)"

fun carried_destination :: "carried \<Rightarrow> ip_address option" where
  "carried_destination (Destination_v4 ifindex_local a) = Some (Address_v4 a)"
| "carried_destination (Destination_v6 a ifindex) = Some (Address_v6 a)"
| "carried_destination c = None"

fun carried_peer :: "carried \<Rightarrow> (uint32_t \<times> uint32_t) option" where
  "carried_peer (Credentials pid uid gid) = Some (uid, gid)"
| "carried_peer c = None"

lemma read_written:
  "carriable c \<Longrightarrow> pktinfo (written c) = carried_destination c"
  "carriable c \<Longrightarrow> ucred (written c) = carried_peer c"
  by (cases c; auto simp: pktinfo_def pktinfo_cmsg_def ucred_def ucred_cmsg_def ntohl_big_endian little_endian_rev)+

lemma map_filter_written:
  assumes "list_all carriable cs"
  shows "List.map_filter pktinfo (map written cs) = List.map_filter carried_destination cs"
    and "List.map_filter ucred (map written cs) = List.map_filter carried_peer cs"
  using assms by (induction cs) (auto simp: List.map_filter_simps read_written split: option.splits)

text \<open>
  C40: the control messages of a successful receive are read back as they were written.  Whatever
  messages of whatever kinds arrive, in any order, \<open>recvfrom\<close> reports the address carried by the last
  packet-info message, of IPv4 in network byte order or of IPv6, and what it was called with when there
  is none; both local receives report user and group of the last credentials message of the right
  length, and -1 for both when there is none, whatever they were called with.  A receive that fails
  reports no address and no credentials.
\<close>

theorem control_messages_read_back:
  assumes "ro_recvmsg R s sizes flags w = (r, w')" and "r_cmsgs r = map written cs" and "list_all carriable cs"
  shows "rc_extra (fst (recvfrom_ext R s sizes flags da w)) =
      (if r_errno r = 0 then last (da # List.map_filter carried_destination cs) else da) \<and>
    rc_extra (fst (recv_local R s sizes flags ug w)) =
      (if r_errno r = 0 then last ((ANY_ID, ANY_ID) # List.map_filter carried_peer cs) else (ANY_ID, ANY_ID)) \<and>
    rc_extra (fst (recvfrom_local R s sizes flags ug w)) =
      (if r_errno r = 0 then last ((ANY_ID, ANY_ID) # List.map_filter carried_peer cs) else (ANY_ID, ANY_ID))"
  using assms by (simp add: recvfrom_ext_def recv_local_def recvfrom_local_def find_destination_last
      find_credentials_last map_filter_written)

text \<open>An IPv4 destination, credentials, an IPv6 destination and a message of another kind.\<close>

definition ex_carried :: "carried list" where
  "ex_carried =
     [Destination_v4 [1, 0, 0, 0, 10, 0, 0, 2] 0x0A000001, Credentials 1 1000 100,
      Destination_v6 (replicate 15 0 @ [1]) [1, 0, 0, 0],
      Other_message \<lparr>cmsg_level = SOL_SOCKET, cmsg_type = Type_other 1, cmsg_data = []\<rparr>]"

theorem control_messages_read_back_witness:
  "let R = ex_recv_os\<lparr>ro_recvmsg := (\<lambda>s sizes flags w.
        (\<lparr>r_errno = 0, r_bytes = [1, 2], r_addr = 9, r_cmsgs = map written ex_carried\<rparr>, w))\<rparr>
   in rc_extra (fst (recvfrom_ext R (Some 3) [8] 0 (Address_v4 0) 0)) = Address_v6 (replicate 15 0 @ [1]) \<and>
     rc_extra (fst (recv_local R (Some 3) [8] 0 (5, 6) 0)) = (1000, 100)"
proof -
  let ?r = "\<lparr>r_errno = 0, r_bytes = [1, 2], r_addr = 9, r_cmsgs = map written ex_carried\<rparr>"
  let ?R = "ex_recv_os\<lparr>ro_recvmsg := (\<lambda>s sizes flags w. (?r, w))\<rparr>"
  have "ro_recvmsg ?R (Some 3) [8] 0 0 = (?r, 0)" by simp
  moreover have "list_all carriable ex_carried" by (simp add: ex_carried_def)
  moreover have "r_cmsgs ?r = map written ex_carried" by simp
  ultimately show ?thesis
    using control_messages_read_back [of ?R "Some 3" "[8]" 0 0 ?r 0 ex_carried "Address_v4 0" "(5, 6)"]
    by (simp add: ex_carried_def List.map_filter_simps)
qed

text \<open>The calls a loop makes: the result of the \<open>n\<close>-th one and the world after it.\<close>

fun nth_call :: "('x \<Rightarrow> 'w \<Rightarrow> ('ep, 'x) received \<times> 'w) \<Rightarrow> 'x \<Rightarrow> 'w \<Rightarrow> nat \<Rightarrow> ('ep, 'x) received \<times> 'w" where
  "nth_call recv x w 0 = recv x w"
| "nth_call recv x w (Suc n) = (case recv x w of (r, w') \<Rightarrow> nth_call recv (rc_extra r) w' n)"

definition retried :: "bool \<Rightarrow> ('ep, 'x) received \<Rightarrow> bool" where
  "retried is_stream r \<longleftrightarrow> \<not> (is_stream \<and> rc_bytes r = Some []) \<and> rc_error r = interrupted"

lemma non_blocking_loop_nth:
  assumes "\<forall>i<n. retried is_stream (fst (nth_call recv x w i))"
    and "\<not> retried is_stream (fst (nth_call recv x w n))"
  shows "non_blocking_loop recv is_stream x w =
    Some (classify is_stream (fst (nth_call recv x w n)), snd (nth_call recv x w n))"
  using assms
proof (induction n arbitrary: x w)
  case 0
  then show ?case
    by (subst non_blocking_loop.simps) (auto simp: retried_def split: prod.splits)
next
  case (Suc n)
  obtain r w1 where r: "recv x w = (r, w1)" by (rule prod.exhaust)
  have "retried is_stream r" using Suc.prems(1) r by force
  then have "non_blocking_loop recv is_stream x w = non_blocking_loop recv is_stream (rc_extra r) w1"
    by (subst non_blocking_loop.simps) (simp add: r retried_def)
  also have "\<dots> = Some (classify is_stream (fst (nth_call recv (rc_extra r) w1 n)),
      snd (nth_call recv (rc_extra r) w1 n))"
  proof (rule Suc.IH)
    show "\<forall>i<n. retried is_stream (fst (nth_call recv (rc_extra r) w1 i))"
      using Suc.prems(1) r by fastforce
    show "\<not> retried is_stream (fst (nth_call recv (rc_extra r) w1 n))"
      using Suc.prems(2) r by simp
  qed
  finally show ?case by (simp add: r)
qed

section \<open>When the loops end\<close>

lemmas non_blocking_loop_induct =
  non_blocking_loop.raw_induct [where xa = "(((recv, is_stream), x), w)" for recv is_stream x w, unfolded prod.case]

lemmas sync_recvfrom_loop_induct =
  sync_recvfrom_loop.raw_induct [where xa = "((((recv, poll), st), x), w)" for recv poll st x w, unfolded prod.case]

lemma non_blocking_loop_Some:
  assumes "non_blocking_loop recv is_stream x w = Some y"
  shows "\<exists>n. \<not> retried is_stream (fst (nth_call recv x w n))"
proof (rule non_blocking_loop_induct [OF _ assms])
  fix loop recv is_stream x w y
  assume 1: "\<And>recv is_stream x w y. loop recv is_stream x w = Some y \<Longrightarrow>
      \<exists>n. \<not> retried is_stream (fst (nth_call recv x w n))"
    "(case recv x w of (r, w1) \<Rightarrow>
        if \<not> (is_stream \<and> rc_bytes r = Some []) \<and> rc_error r = interrupted then
          loop recv is_stream (rc_extra r) w1
        else Some (classify is_stream r, w1)) = Some y"
  obtain r w1 where r: "recv x w = (r, w1)" by (rule prod.exhaust)
  show "\<exists>n. \<not> retried is_stream (fst (nth_call recv x w n))"
  proof (cases "retried is_stream r")
    case True
    with 1 r have "loop recv is_stream (rc_extra r) w1 = Some y" by (simp add: retried_def)
    then obtain n where "\<not> retried is_stream (fst (nth_call recv (rc_extra r) w1 n))" using 1 by blast
    then show ?thesis using r by (intro exI [of _ "Suc n"]) simp
  next
    case False
    then show ?thesis using r by (intro exI [of _ 0]) simp
  qed
qed

lemma non_blocking_loop_iff:
  "non_blocking_loop recv is_stream x w \<noteq> None \<longleftrightarrow> (\<exists>n. \<not> retried is_stream (fst (nth_call recv x w n)))"
proof
  assume "\<exists>n. \<not> retried is_stream (fst (nth_call recv x w n))"
  then obtain n where n: "\<not> retried is_stream (fst (nth_call recv x w n))"
      "\<forall>i<n. retried is_stream (fst (nth_call recv x w i))"
    using exists_least_iff [of "\<lambda>n. \<not> retried is_stream (fst (nth_call recv x w n))"] by auto
  from non_blocking_loop_nth [OF n(2,1)] show "non_blocking_loop recv is_stream x w \<noteq> None" by simp
qed (auto dest: non_blocking_loop_Some)

text \<open>
  One round of the blocking loop: the next round's argument and world when the socket would block
  and polling for it succeeds, \<open>None\<close> when the loop returns.
\<close>

definition sync_round ::
  "('x \<Rightarrow> 'w \<Rightarrow> ('ep, 'x) received \<times> 'w) \<Rightarrow> ('w \<Rightarrow> int \<times> 'w) \<Rightarrow> state_type \<Rightarrow> 'x \<times> 'w \<Rightarrow> ('x \<times> 'w) option" where
  "sync_round recv poll st xw =
     (case recv (fst xw) (snd xw) of (r, w1) \<Rightarrow>
        if rc_bytes r = None \<and> user_set_non_blocking \<notin> st \<and> rc_error r \<in> {would_block, try_again} \<and> fst (poll w1) = 0
        then Some (rc_extra r, snd (poll w1)) else None)"

fun rounds ::
  "('x \<Rightarrow> 'w \<Rightarrow> ('ep, 'x) received \<times> 'w) \<Rightarrow> ('w \<Rightarrow> int \<times> 'w) \<Rightarrow> state_type \<Rightarrow> nat \<Rightarrow> 'x \<times> 'w \<Rightarrow> ('x \<times> 'w) option" where
  "rounds recv poll st 0 xw = Some xw"
| "rounds recv poll st (Suc n) xw =
     (case sync_round recv poll st xw of None \<Rightarrow> None | Some xw' \<Rightarrow> rounds recv poll st n xw')"

lemma sync_recvfrom_loop_next:
  "sync_round recv poll st (x, w) = Some (x', w') \<Longrightarrow>
     sync_recvfrom_loop recv poll st x w = sync_recvfrom_loop recv poll st x' w'"
  by (subst sync_recvfrom_loop.simps) (auto simp: sync_round_def split: prod.splits option.splits if_splits)

lemma sync_recvfrom_loop_returns:
  "sync_round recv poll st (x, w) = None \<Longrightarrow> sync_recvfrom_loop recv poll st x w \<noteq> None"
  by (subst sync_recvfrom_loop.simps) (auto simp: sync_round_def split: prod.splits option.splits if_splits)

lemma sync_recvfrom_loop_Some:
  assumes "sync_recvfrom_loop recv poll st x w = Some y"
  shows "\<exists>n. rounds recv poll st n (x, w) = None"
proof (rule sync_recvfrom_loop_induct [OF _ assms])
  fix loop recv poll st x w y
  assume 1: "\<And>recv poll st x w y. loop recv poll st x w = Some y \<Longrightarrow> \<exists>n. rounds recv poll st n (x, w) = None"
    "(case recv x w of (r, w1) \<Rightarrow>
        (case rc_bytes r of
           Some bs \<Rightarrow> Some (bs, rc_error r, rc_addr r, rc_extra r, w1)
         | None \<Rightarrow>
             if user_set_non_blocking \<in> st \<or> (rc_error r \<noteq> would_block \<and> rc_error r \<noteq> try_again) then
               Some ([], rc_error r, rc_addr r, rc_extra r, w1)
             else
               (case poll w1 of (err, w2) \<Rightarrow>
                  if err \<noteq> 0 then Some ([], of_errno err, rc_addr r, rc_extra r, w2)
                  else loop recv poll st (rc_extra r) w2))) = Some y"
  show "\<exists>n. rounds recv poll st n (x, w) = None"
  proof (cases "sync_round recv poll st (x, w)")
    case None
    then show ?thesis by (intro exI [of _ "Suc 0"]) simp
  next
    case (Some xw')
    obtain x' w' where xw': "xw' = (x', w')" by (rule prod.exhaust)
    from 1(2) Some xw' have "loop recv poll st x' w' = Some y"
      by (auto simp: sync_round_def split: prod.splits option.splits if_splits)
    then obtain n where "rounds recv poll st n (x', w') = None" using 1(1) by blast
    then show ?thesis using Some xw' by (intro exI [of _ "Suc n"]) simp
  qed
qed

lemma rounds_sync_recvfrom_loop:
  "rounds recv poll st n (x, w) = None \<Longrightarrow> sync_recvfrom_loop recv poll st x w \<noteq> None"
proof (induction n arbitrary: x w)
  case (Suc n)
  show ?case
  proof (cases "sync_round recv poll st (x, w)")
    case None
    then show ?thesis by (rule sync_recvfrom_loop_returns)
  next
    case (Some xw')
    obtain x' w' where xw': "xw' = (x', w')" by (rule prod.exhaust)
    with Some Suc have "sync_recvfrom_loop recv poll st x' w' \<noteq> None" by simp
    then show ?thesis using sync_recvfrom_loop_next Some xw' by metis
  qed
qed simp

lemma sync_recvfrom_loop_iff:
  "sync_recvfrom_loop recv poll st x w \<noteq> None \<longleftrightarrow> (\<exists>n. rounds recv poll st n (x, w) = None)"
proof
  assume "sync_recvfrom_loop recv poll st x w \<noteq> None"
  then obtain y where "sync_recvfrom_loop recv poll st x w = Some y" by blast
  then show "\<exists>n. rounds recv poll st n (x, w) = None" by (rule sync_recvfrom_loop_Some)
qed (blast dest: rounds_sync_recvfrom_loop)

section \<open>A waiting receive-from operation\<close>

lemma recvfrom_ext_failed:
  "recvfrom_ext R s sizes flags da w = (r, w') \<Longrightarrow> rc_error r \<noteq> no_error \<Longrightarrow> rc_extra r = da \<and> rc_bytes r = None"
  by (auto simp: recvfrom_ext_def split: prod.splits if_splits)

lemma do_perform_first:
  assumes r: "recvfrom_ext R (op_socket p) (op_sizes p) (op_flags p) (op_da p) w = (r, w1)"
  shows "rc_error r = interrupted \<Longrightarrow> recvfrom_do_perform R p w = recvfrom_do_perform R p w1"
    and "rc_error r \<in> {would_block, try_again} \<Longrightarrow>
      recvfrom_do_perform R p w = Some (status_not_done, p\<lparr>op_ec := rc_error r\<rparr>, w1)"
    and "rc_bytes r = Some bs \<Longrightarrow> recvfrom_do_perform R p w =
      Some (status_done, p\<lparr>op_ec := no_error, op_bytes := bs, op_sender := rc_addr r, op_da := rc_extra r\<rparr>, w1)"
proof -
  note failed = recvfrom_ext_failed [OF r]
  show "rc_error r = interrupted \<Longrightarrow> recvfrom_do_perform R p w = recvfrom_do_perform R p w1"
    using failed unfolding recvfrom_do_perform_def non_blocking_recvfrom_ext_def
    by (subst non_blocking_loop.simps) (simp add: r)
  show "rc_error r \<in> {would_block, try_again} \<Longrightarrow>
      recvfrom_do_perform R p w = Some (status_not_done, p\<lparr>op_ec := rc_error r\<rparr>, w1)"
    using failed unfolding recvfrom_do_perform_def non_blocking_recvfrom_ext_def
    by (subst non_blocking_loop.simps) (auto simp: r classify_def)
  have "rc_bytes r = Some bs \<Longrightarrow> rc_error r = no_error"
    using r by (auto simp: recvfrom_ext_def split: prod.splits if_splits)
  then show "rc_bytes r = Some bs \<Longrightarrow> recvfrom_do_perform R p w =
      Some (status_done, p\<lparr>op_ec := no_error, op_bytes := bs, op_sender := rc_addr r, op_da := rc_extra r\<rparr>, w1)"
    unfolding recvfrom_do_perform_def non_blocking_recvfrom_ext_def
    by (subst non_blocking_loop.simps) (auto simp: r classify_def)
qed

section \<open>Properties\<close>

text \<open>
  A try to receive a datagram ends as soon as \<open>recvmsg\<close> is not interrupted: if the first \<open>n\<close> calls
  are interrupted by signals and the next one is not, exactly that call's outcome is reported,
  the destination being that of its last packet-info control message (or unset when it has none).
\<close>

theorem recvfrom_retries_interrupts:
  assumes "\<forall>i<n. rc_error (fst (nth_call (recvfrom_ext R s sizes flags) da w i)) = interrupted"
    and "nth_call (recvfrom_ext R s sizes flags) da w n = (r, w')" and "rc_error r \<noteq> interrupted"
    and "rc_bytes r = Some bs"
  shows "non_blocking_recvfrom_ext R s sizes flags da w =
      Some (Finished no_error bs (rc_addr r) (rc_extra r), w') \<and>
    (\<exists>ms. rc_extra r = last (da # List.map_filter pktinfo ms))"
proof -
  let ?recv = "recvfrom_ext R s sizes flags"
  have loop: "non_blocking_loop ?recv False da w =
      Some (classify False (fst (nth_call ?recv da w n)), snd (nth_call ?recv da w n))"
    using assms by (intro non_blocking_loop_nth) (auto simp: retried_def)
  have one: "rc_bytes (fst (?recv x v)) \<noteq> None \<Longrightarrow> rc_error (fst (?recv x v)) = no_error \<and>
      (\<exists>ms. rc_extra (fst (?recv x v)) = last (x # List.map_filter pktinfo ms))" for x v
    by (auto simp: recvfrom_ext_def find_destination_last split: prod.splits)
  have keep: "rc_error (fst (?recv x v)) = interrupted \<Longrightarrow> rc_extra (fst (?recv x v)) = x" for x v
    by (auto simp: recvfrom_ext_def split: prod.splits if_splits)
  have "rc_error (fst (nth_call ?recv x v m)) = no_error \<and>
      (\<exists>ms. rc_extra (fst (nth_call ?recv x v m)) = last (x # List.map_filter pktinfo ms))"
    if "\<forall>i<m. rc_error (fst (nth_call ?recv x v i)) = interrupted"
      "rc_bytes (fst (nth_call ?recv x v m)) \<noteq> None" for m x v
    using that
  proof (induction m arbitrary: x v)
    case 0
    then show ?case using one by simp
  next
    case (Suc m)
    obtain q v1 where q: "?recv x v = (q, v1)" by (rule prod.exhaust)
    have "rc_extra q = x" using keep [of x v] Suc.prems(1) q by force
    moreover have "\<forall>i<m. rc_error (fst (nth_call ?recv x v1 i)) = interrupted"
      using Suc.prems(1) q \<open>rc_extra q = x\<close> by fastforce
    ultimately show ?case using Suc.IH [of x v1] Suc.prems(2) q by simp
  qed
  from this [OF assms(1)] assms(2,4) loop show ?thesis
    by (simp add: non_blocking_recvfrom_ext_def classify_def)
qed

theorem recvfrom_retries_interrupts_witness:
  "non_blocking_recvfrom_ext ex_recv_os (Some 3) [1000] 0 (Address_v4 0) 0 =
     Some (Finished no_error [1, 2] 9 (Address_v4 0x0A000001), 3)"
proof -
  let ?recv = "recvfrom_ext ex_recv_os (Some 3) [1000] 0"
  let ?busy = "\<lparr>rc_bytes = None, rc_error = interrupted, rc_addr = 9, rc_extra = Address_v4 0\<rparr>"
  let ?got = "\<lparr>rc_bytes = Some [1, 2], rc_error = no_error, rc_addr = 9, rc_extra = Address_v4 0x0A000001\<rparr>"
  have s0: "?recv (Address_v4 0) 0 = (?busy, 1)" by code_simp
  have s1: "?recv (Address_v4 0) 1 = (?busy, 2)" by code_simp
  have s2: "?recv (Address_v4 0) 2 = (?got, 3)" by code_simp
  have c: "nth_call ?recv (Address_v4 0) 0 2 = (?got, 3)" using s0 s1 s2 by (simp add: numeral_2_eq_2)
  have i: "\<forall>i<2. rc_error (fst (nth_call ?recv (Address_v4 0) 0 i)) = interrupted"
    using s0 s1 by (simp add: less_2_cases_iff)
  show ?thesis using recvfrom_retries_interrupts [OF i c] by simp
qed

text \<open>
  C38: when receiving returns. The try to receive a datagram comes back if and only if some call of
  \<open>recvmsg\<close> in the sequence it makes is not interrupted; the blocking form comes back if and only if
  the socket is invalid, or after finitely many rounds one does not both find that it would block and
  poll successfully.
\<close>

theorem receive_loops_terminate_iff:
  "(non_blocking_recvfrom_ext R s sizes flags da w \<noteq> None \<longleftrightarrow>
     (\<exists>n. rc_error (fst (nth_call (recvfrom_ext R s sizes flags) da w n)) \<noteq> interrupted)) \<and>
   (sync_recvfrom_ext R s st sizes flags addr da w \<noteq> None \<longleftrightarrow>
     s = None \<or> (\<exists>n. rounds (recvfrom_ext R s sizes flags) (ro_poll_read R s) st n (da, w) = None))"
proof
  show "non_blocking_recvfrom_ext R s sizes flags da w \<noteq> None \<longleftrightarrow>
      (\<exists>n. rc_error (fst (nth_call (recvfrom_ext R s sizes flags) da w n)) \<noteq> interrupted)"
    unfolding non_blocking_recvfrom_ext_def non_blocking_loop_iff by (simp add: retried_def)
  show "sync_recvfrom_ext R s st sizes flags addr da w \<noteq> None \<longleftrightarrow>
      s = None \<or> (\<exists>n. rounds (recvfrom_ext R s sizes flags) (ro_poll_read R s) st n (da, w) = None)"
    unfolding sync_recvfrom_loop_iff [symmetric] by (cases s) (simp_all add: sync_recvfrom_ext_def)
qed

text \<open>
  C33: an asynchronous receive-from completes, and completes right: if the first \<open>k\<close> calls of \<open>recvmsg\<close>
  are interrupted or would block and the next one delivers a datagram, then the operation is done
  after at most \<open>k + 1\<close> tries, and its handler gets no error, the number of bytes of that datagram and
  its destination, with the bytes in the caller's buffers and the sender in the caller's endpoint.
\<close>

theorem receive_from_operation_completes:
  assumes "\<forall>i<k. rc_error (fst (nth_call (recvfrom_ext R (op_socket p) (op_sizes p) (op_flags p)) (op_da p) w i))
      \<in> {interrupted, would_block, try_again}"
    and "nth_call (recvfrom_ext R (op_socket p) (op_sizes p) (op_flags p)) (op_da p) w k = (r, w')"
    and "rc_bytes r = Some bs"
  shows "\<exists>n\<le>Suc k. \<exists>p'. tries (recvfrom_do_perform R) n p w = Some (status_done, p', w') \<and>
    recvfrom_do_complete p' = (no_error, length bs, rc_extra r) \<and> op_bytes p' = bs \<and> op_sender p' = rc_addr r"
  using assms(1,2)
proof (induction k arbitrary: p w)
  case 0
  note first = do_perform_first(3) [of R p w r w' bs, OF _ assms(3)]
  from 0 first show ?case
    by (intro exI [of _ "Suc 0"]) (simp add: recvfrom_do_complete_def)
next
  case (Suc k)
  let ?recv = "\<lambda>p. recvfrom_ext R (op_socket p) (op_sizes p) (op_flags p)"
  obtain r0 w1 where r0: "?recv p (op_da p) w = (r0, w1)" by (rule prod.exhaust)
  have e0: "rc_error r0 \<in> {interrupted, would_block, try_again}" using Suc.prems(1) r0 by force
  then have x0: "rc_extra r0 = op_da p" using recvfrom_ext_failed [OF r0] by auto
  have rest: "\<forall>i<k. rc_error (fst (nth_call (?recv p) (op_da p) w1 i)) \<in> {interrupted, would_block, try_again}"
      "nth_call (?recv p) (op_da p) w1 k = (r, w')"
    using Suc.prems r0 x0 by fastforce+
  show ?case
  proof (cases "rc_error r0 = interrupted")
    case True
    obtain n p' where n: "n \<le> Suc k" "tries (recvfrom_do_perform R) n p w1 = Some (status_done, p', w')"
        "recvfrom_do_complete p' = (no_error, length bs, rc_extra r)" "op_bytes p' = bs" "op_sender p' = rc_addr r"
      using Suc.IH [OF rest] by blast
    then obtain m where "n = Suc m" by (cases n) auto
    with n True do_perform_first(1) [OF r0] show ?thesis by (intro exI [of _ n]) simp
  next
    case False
    let ?p = "p\<lparr>op_ec := rc_error r0\<rparr>"
    obtain n p' where n: "n \<le> Suc k" "tries (recvfrom_do_perform R) n ?p w1 = Some (status_done, p', w')"
        "recvfrom_do_complete p' = (no_error, length bs, rc_extra r)" "op_bytes p' = bs" "op_sender p' = rc_addr r"
      using Suc.IH [of ?p w1] rest by auto
    with False e0 do_perform_first(2) [OF r0] show ?thesis by (intro exI [of _ "Suc n"]) simp
  qed
qed

definition ex_wait_os :: "(nat, nat) recv_os" where
  "ex_wait_os = ex_recv_os\<lparr>ro_recvmsg := (\<lambda>s sizes flags w.
     case ro_recvmsg ex_recv_os s sizes flags w of (r, w') \<Rightarrow> (if w = 1 then r\<lparr>r_errno := 11\<rparr> else r, w'))\<rparr>"

theorem receive_from_operation_completes_witness:
  "\<exists>n\<le>3. \<exists>p'. tries (recvfrom_do_perform ex_wait_os) n (new_recvfrom_op (Address_v4 0) (Some 3) [1000] 0 7) 0 =
       Some (status_done, p', 3) \<and>
     recvfrom_do_complete p' = (no_error, 2, Address_v4 0x0A000001) \<and> op_bytes p' = [1, 2] \<and> op_sender p' = 9"
proof -
  let ?p = "new_recvfrom_op (Address_v4 0) (Some 3) [1000] 0 (7 :: nat)"
  let ?recv = "recvfrom_ext ex_wait_os (Some 3) [1000] 0"
  let ?busy = "\<lambda>e. \<lparr>rc_bytes = None, rc_error = e, rc_addr = 9, rc_extra = Address_v4 0\<rparr>"
  let ?got = "\<lparr>rc_bytes = Some [1, 2], rc_error = no_error, rc_addr = 9, rc_extra = Address_v4 0x0A000001\<rparr>"
  have s0: "?recv (Address_v4 0) 0 = (?busy interrupted, 1)" by code_simp
  have s1: "?recv (Address_v4 0) 1 = (?busy would_block, 2)" by code_simp
  have s2: "?recv (Address_v4 0) 2 = (?got, 3)" by code_simp
  have p: "op_socket ?p = Some 3" "op_sizes ?p = [1000]" "op_flags ?p = 0" "op_da ?p = Address_v4 0"
    by (simp_all add: new_recvfrom_op_def)
  have c: "nth_call ?recv (Address_v4 0) 0 2 = (?got, 3)" using s0 s1 s2 by (simp add: numeral_2_eq_2)
  have i: "\<forall>i<2. rc_error (fst (nth_call ?recv (Address_v4 0) 0 i)) \<in> {interrupted, would_block, try_again}"
    using s0 s1 by (simp add: less_2_cases_iff)
  show ?thesis
    using receive_from_operation_completes [where p = ?p and k = 2, unfolded p, OF i c, of "[1, 2]"]
    by (simp add: numeral_3_eq_3 numeral_2_eq_2)
qed

text \<open>
  What the plain receive operations tell their handlers beside error and length is never received:
  after any number of tries, the destination is the default-constructed one and, for local sockets,
  user and group are the uninitialised values the operation was allocated with, because the functions
  that receive are not given them.
\<close>

theorem plain_receive_reports_nothing:
  assumes "tries (\<lambda>p w. Some (recv_do_perform B a p w)) n (new_reactor_op_ext unset ok) w = Some (s1, p1, w1)"
    and "tries (\<lambda>p w. Some (local_recv_do_perform B a p w)) n (new_reactor_op_ext_local uid gid ok) w = Some (s2, p2, w2)"
  shows "snd (snd (recv_do_complete p1)) = unset \<and> snd (snd (local_recv_do_complete p2)) = (uid, gid)"
proof -
  have "ro_da p1 = unset"
    by (rule tries_invariant [OF assms(1)])
      (auto simp: recv_do_perform_def perform_recv_def Let_def new_reactor_op_ext_def split: prod.splits)
  moreover have "ro_uid p2 = uid \<and> ro_gid p2 = gid"
    by (rule tries_invariant [OF assms(2)])
      (auto simp: local_recv_do_perform_def perform_recv_def Let_def new_reactor_op_ext_local_def split: prod.splits)
  ultimately show ?thesis by (simp add: recv_do_complete_def local_recv_do_complete_def)
qed

definition ex_boost_recv :: "nat boost_recv" where
  "ex_boost_recv =
     \<lparr>br_recv1 = (\<lambda>s n flags stream w. (True, no_error, Some [1, 2], Suc w)),
      br_recv = (\<lambda>s ns flags stream w. (True, no_error, Some [1, 2], Suc w)),
      br_recvmsg = (\<lambda>s ns flags w. (True, no_error, [1, 2], flags, Suc w))\<rparr>"

theorem plain_receive_reports_nothing_witness:
  "let a = \<lparr>ra_socket = Some 3, ra_state = {stream_oriented}, ra_single = True, ra_sizes = [4], ra_flags = 0\<rparr>;
       p = fst (snd (local_recv_do_perform ex_boost_recv a (new_reactor_op_ext_local 77 88 no_error) 0))
   in local_recv_do_complete p = (no_error, 2, 77, 88)"
proof -
  let ?a = "\<lparr>ra_socket = Some 3, ra_state = {stream_oriented}, ra_single = True, ra_sizes = [4], ra_flags = 0\<rparr>"
  let ?p1 = "\<lparr>ro_ec = no_error, ro_bytes = [1, 2], ro_da = Address_v4 0\<rparr>"
  let ?p2 = "\<lparr>ro_ec = no_error, ro_bytes = [1, 2], ro_uid = 77, ro_gid = 88\<rparr>"
  have 1: "tries (\<lambda>p w. Some (recv_do_perform ex_boost_recv ?a p w)) (Suc 0) (new_reactor_op_ext (Address_v4 0) no_error) 0 =
      Some (status_done, ?p1, 1)"
    by (simp add: recv_do_perform_def perform_recv_def Let_def ex_boost_recv_def new_reactor_op_ext_def)
  have 2: "tries (\<lambda>p w. Some (local_recv_do_perform ex_boost_recv ?a p w)) (Suc 0)
      (new_reactor_op_ext_local 77 88 no_error) 0 = Some (status_done, ?p2, 1)"
    by (simp add: local_recv_do_perform_def perform_recv_def Let_def ex_boost_recv_def new_reactor_op_ext_local_def)
  have "local_recv_do_perform ex_boost_recv ?a (new_reactor_op_ext_local 77 88 no_error) 0 = (status_done, ?p2, 1)"
    by (simp add: local_recv_do_perform_def perform_recv_def Let_def ex_boost_recv_def new_reactor_op_ext_local_def)
  moreover have "snd (snd (local_recv_do_complete ?p2)) = (77, 88)"
    using plain_receive_reports_nothing [OF 1 2] by simp
  ultimately show ?thesis by (simp add: Let_def local_recv_do_complete_def)
qed

end
