(* ===== verification/Boost155_Local.thy ===== *)
theory Boost155_Local
  imports Boost155_Base
begin

text \<open>
  The copies for local sockets of the helper for Boost 1.55: \<open>reactive_socket_service_base_ext_local\<close>
  (include/helper/1.55/boost/asio/detail/impl/reactive_socket_service_base_ext_local.ipp and the
  header beside it) and \<open>reactive_socket_service_ext_local\<close>.  The receives start the local operations.
\<close>

section \<open>The base service\<close>

definition v155_local_base_is_open :: "'a base_impl_scheme \<Rightarrow> bool" where
  "v155_local_base_is_open impl \<longleftrightarrow> b_socket impl \<noteq> None"

definition v155_local_base_native_handle :: "'a base_impl_scheme \<Rightarrow> nat option" where
  "v155_local_base_native_handle impl = b_socket impl"

definition v155_local_construct :: "'a base_impl_scheme \<Rightarrow> 'a base_impl_scheme" where
  "v155_local_construct impl = impl\<lparr>b_socket := None, b_state := {}\<rparr>"

text \<open>\<open>move_descriptor\<close> hands the reactor data over and clears the source's.\<close>

definition v155_local_base_move_construct ::
  "'a base_impl_scheme \<Rightarrow> 'b base_impl_scheme \<Rightarrow> 'a base_impl_scheme \<times> 'b base_impl_scheme" where
  "v155_local_base_move_construct impl other =
     (impl\<lparr>b_socket := b_socket other, b_state := b_state other, b_reactor_data := b_reactor_data other\<rparr>,
      other\<lparr>b_socket := None, b_state := {}, b_reactor_data := 0\<rparr>)"

definition v155_local_destroy ::
  "('w, 'ep, 'opt) os \<Rightarrow> 'a base_impl_scheme \<Rightarrow> ('w, 'ep) kernel \<Rightarrow> ('w, 'ep) kernel" where
  "v155_local_destroy Sys impl k =
     (case b_socket impl of
        None \<Rightarrow> k
      | Some fd \<Rightarrow>
          snd (sys_close Sys fd (b_state impl) True
            (deregister_descriptor fd (possible_dup \<notin> b_state impl) k)))"

definition v155_local_base_move_assign ::
  "('w, 'ep, 'opt) os \<Rightarrow> 'a base_impl_scheme \<Rightarrow> 'b base_impl_scheme \<Rightarrow> ('w, 'ep) kernel \<Rightarrow>
     'a base_impl_scheme \<times> 'b base_impl_scheme \<times> ('w, 'ep) kernel" where
  "v155_local_base_move_assign Sys impl other k =
     (let k1 = v155_local_destroy Sys impl k
      in case v155_local_base_move_construct impl other of (impl', other') \<Rightarrow> (impl', other', k1))"

text \<open>
  \<open>close_invalid\<close> is Boost's \<open>socket_ops::close\<close> called with \<open>invalid_socket\<close>: the state, the world, and
  the error number it answers.
\<close>

definition v155_local_base_close ::
  "('w, 'ep, 'opt) os \<Rightarrow> (state_type \<Rightarrow> 'w \<Rightarrow> int \<times> 'w) \<Rightarrow> ('w, 'ep, 'a) base_st \<Rightarrow>
     error_code \<times> ('w, 'ep, 'a) base_st" where
  "v155_local_base_close Sys close_invalid st =
     (case st of (impl, k) \<Rightarrow>
        (case b_socket impl of
           None \<Rightarrow>
             (case close_invalid (b_state impl) (world k) of (err, w) \<Rightarrow>
                (of_errno err, (v155_local_construct impl, k\<lparr>world := w\<rparr>)))
         | Some fd \<Rightarrow>
             (case sys_close Sys fd (b_state impl) False
                 (deregister_descriptor fd (possible_dup \<notin> b_state impl) k) of
                (ec, k1) \<Rightarrow> (ec, (v155_local_construct (cleanup_descriptor_data impl), k1)))))"

definition v155_local_base_cancel :: "('w, 'ep, 'a) base_st \<Rightarrow> error_code \<times> ('w, 'ep, 'a) base_st" where
  "v155_local_base_cancel st =
     (case st of (impl, k) \<Rightarrow>
        if \<not> v155_local_base_is_open impl then (bad_descriptor, st)
        else (no_error, (impl, cancel_ops (b_socket impl) k)))"

text \<open>
  \<open>socket_holder\<close> closes the new descriptor, with state 0 and as for a destructor, unless it is
  released: the branch where registering it fails.
\<close>

definition v155_local_do_open ::
  "('w, 'ep, 'opt) os \<Rightarrow> protocol \<Rightarrow> ('w, 'ep, 'a) base_st \<Rightarrow> error_code \<times> ('w, 'ep, 'a) base_st" where
  "v155_local_do_open Sys p st =
     (case st of (impl, k) \<Rightarrow>
        if v155_local_base_is_open impl then (already_open, st)
        else
          (case sys_socket Sys p k of
             (ec, None, k1) \<Rightarrow> (ec, (impl, k1))
           | (ec, Some fd, k1) \<Rightarrow>
               (case register_descriptor Sys fd k1 of (err, data, k2) \<Rightarrow>
                  if err \<noteq> 0 then (of_errno err, (impl\<lparr>b_reactor_data := data\<rparr>, snd (sys_close Sys fd {} True k2)))
                  else (no_error, (impl\<lparr>b_reactor_data := data, b_socket := Some fd,
                                        b_state := state_of_type (p_type p)\<rparr>, k2)))))"

definition v155_local_do_assign ::
  "('w, 'ep, 'opt) os \<Rightarrow> socket_kind \<Rightarrow> nat \<Rightarrow> ('w, 'ep, 'a) base_st \<Rightarrow> error_code \<times> ('w, 'ep, 'a) base_st" where
  "v155_local_do_assign Sys ty native st =
     (case st of (impl, k) \<Rightarrow>
        if v155_local_base_is_open impl then (already_open, st)
        else
          (case register_descriptor Sys native k of (err, data, k1) \<Rightarrow>
             if err \<noteq> 0 then (of_errno err, (impl\<lparr>b_reactor_data := data\<rparr>, k1))
             else (no_error, (impl\<lparr>b_reactor_data := data, b_socket := Some native,
                                   b_state := insert possible_dup (state_of_type ty)\<rparr>, k1))))"

section \<open>Starting operations\<close>

text \<open>\<open>set_internal_non_blocking\<close> answers whether it succeeded and reports its error in the operation.\<close>

definition v155_local_start_op ::
  "('w, 'ep, 'opt) os \<Rightarrow> op_type \<Rightarrow> 'ep reactor_op \<Rightarrow> error_code \<Rightarrow> bool \<Rightarrow> bool \<Rightarrow> bool \<Rightarrow>
     ('w, 'ep, 'a) base_st \<Rightarrow> ('w, 'ep, 'a) base_st" where
  "v155_local_start_op Sys ty p ec cont now noop st =
     (if noop then (fst st, post_immediate_completion p ec cont (snd st))
      else
        (case try_internal_non_blocking Sys ec st of (ok, ec', (impl, k)) \<Rightarrow>
           if ok then (impl, reactor_start_op ty (b_socket impl) p ec' cont now k)
           else (impl, post_immediate_completion p ec' cont k)))"

text \<open>The arguments of \<open>start_op\<close> are the continuation flag and whether to try at once, in this order.\<close>

definition v155_local_start_accept_op ::
  "('w, 'ep, 'opt) os \<Rightarrow> 'ep reactor_op \<Rightarrow> bool \<Rightarrow> bool \<Rightarrow> ('w, 'ep, 'a) base_st \<Rightarrow> ('w, 'ep, 'a) base_st" where
  "v155_local_start_accept_op Sys p cont peer_is_open st =
     (if \<not> peer_is_open then v155_local_start_op Sys read_op p no_error True cont False st
      else (fst st, post_immediate_completion p already_open cont (snd st)))"

definition v155_local_start_connect_op ::
  "('w, 'ep, 'opt) os \<Rightarrow> 'ep reactor_op \<Rightarrow> bool \<Rightarrow> 'ep \<Rightarrow> ('w, 'ep, 'a) base_st \<Rightarrow> ('w, 'ep, 'a) base_st" where
  "v155_local_start_connect_op Sys p cont addr st =
     (case try_internal_non_blocking Sys no_error st of (ok, ec, (impl, k)) \<Rightarrow>
        if ok then
          (case os_connect Sys (b_socket impl) addr (world k) of (err, w) \<Rightarrow>
             let k1 = k\<lparr>world := w\<rparr>
             in if err \<noteq> 0 \<and> (of_errno err = in_progress \<or> of_errno err = would_block) then
                  (impl, reactor_start_op connect_op (b_socket impl) p no_error cont False k1)
                else (impl, post_immediate_completion p (of_errno err) cont k1))
        else (impl, post_immediate_completion p ec cont k))"

section \<open>Simple calls\<close>

definition v155_local_base_at_mark :: "('w, 'ep, 'opt) os \<Rightarrow> ('w, 'ep, 'a) base_st \<Rightarrow> error_code \<times> bool" where
  "v155_local_base_at_mark Sys st =
     (case os_sockatmark Sys (b_socket (fst st)) (world (snd st)) of (err, b) \<Rightarrow> (of_errno err, b))"

definition v155_local_base_available :: "('w, 'ep, 'opt) os \<Rightarrow> ('w, 'ep, 'a) base_st \<Rightarrow> error_code \<times> nat" where
  "v155_local_base_available Sys st =
     (case os_available Sys (b_socket (fst st)) (world (snd st)) of (err, n) \<Rightarrow> (of_errno err, n))"

definition v155_local_base_listen :: "('w, 'ep, 'opt) os \<Rightarrow> int \<Rightarrow> ('w, 'ep, 'a) base_st \<Rightarrow> error_code \<times> ('w, 'ep, 'a) base_st" where
  "v155_local_base_listen Sys backlog st =
     (case st of (impl, k) \<Rightarrow>
        (case os_listen Sys (b_socket impl) backlog (world k) of (err, w) \<Rightarrow> (of_errno err, (impl, k\<lparr>world := w\<rparr>))))"

definition v155_local_base_io_control ::
  "('w, 'ep, 'opt) os \<Rightarrow> int \<Rightarrow> byte_t list \<Rightarrow> ('w, 'ep, 'a) base_st \<Rightarrow>
     (error_code \<times> byte_t list) \<times> ('w, 'ep, 'a) base_st" where
  "v155_local_base_io_control Sys name data st =
     (case st of (impl, k) \<Rightarrow>
        (case os_ioctl Sys (b_socket impl) (b_state impl) name data (world k) of (err, s, data', w) \<Rightarrow>
           ((of_errno err, data'), (impl\<lparr>b_state := s\<rparr>, k\<lparr>world := w\<rparr>))))"

definition v155_local_base_non_blocking :: "'a base_impl_scheme \<Rightarrow> bool" where
  "v155_local_base_non_blocking impl \<longleftrightarrow> user_set_non_blocking \<in> b_state impl"

definition v155_local_base_set_non_blocking ::
  "('w, 'ep, 'opt) os \<Rightarrow> bool \<Rightarrow> ('w, 'ep, 'a) base_st \<Rightarrow> error_code \<times> ('w, 'ep, 'a) base_st" where
  "v155_local_base_set_non_blocking Sys mode st =
     (case st of (impl, k) \<Rightarrow>
        (case os_set_user_non_blocking Sys (b_socket impl) (b_state impl) mode (world k) of (err, s, w) \<Rightarrow>
           (of_errno err, (impl\<lparr>b_state := s\<rparr>, k\<lparr>world := w\<rparr>))))"

definition v155_local_base_native_non_blocking :: "'a base_impl_scheme \<Rightarrow> bool" where
  "v155_local_base_native_non_blocking impl \<longleftrightarrow> internal_non_blocking \<in> b_state impl"

definition v155_local_base_set_native_non_blocking ::
  "('w, 'ep, 'opt) os \<Rightarrow> bool \<Rightarrow> ('w, 'ep, 'a) base_st \<Rightarrow> error_code \<times> ('w, 'ep, 'a) base_st" where
  "v155_local_base_set_native_non_blocking Sys mode st =
     (case st of (impl, k) \<Rightarrow>
        (case os_set_internal_non_blocking Sys (b_socket impl) (b_state impl) mode (world k) of (err, s, w) \<Rightarrow>
           (of_errno err, (impl\<lparr>b_state := s\<rparr>, k\<lparr>world := w\<rparr>))))"

definition v155_local_poll_until ::
  "('w, 'ep, 'opt) os \<Rightarrow> wait_type \<Rightarrow> ('w, 'ep, 'a) base_st \<Rightarrow> error_code \<times> ('w, 'ep, 'a) base_st" where
  "v155_local_poll_until Sys w st =
     (case st of (impl, k) \<Rightarrow>
        (case os_poll Sys w (b_socket impl) (b_state impl) (world k) of (err, w') \<Rightarrow>
           (of_errno err, (impl, k\<lparr>world := w'\<rparr>))))"

definition v155_local_base_shutdown ::
  "('w, 'ep, 'opt) os \<Rightarrow> shutdown_type \<Rightarrow> ('w, 'ep, 'a) base_st \<Rightarrow> error_code \<times> ('w, 'ep, 'a) base_st" where
  "v155_local_base_shutdown Sys what st =
     (case st of (impl, k) \<Rightarrow>
        (case os_shutdown Sys (b_socket impl) what (world k) of (err, w) \<Rightarrow> (of_errno err, (impl, k\<lparr>world := w\<rparr>))))"

section \<open>Sending and receiving\<close>

definition v155_local_base_send ::
  "('w, 'ep, 'opt) os \<Rightarrow> byte_t list list \<Rightarrow> message_flags \<Rightarrow> ('w, 'ep, 'a) base_st \<Rightarrow>
     (error_code \<times> nat) \<times> ('w, 'ep, 'a) base_st" where
  "v155_local_base_send Sys bufs flags st =
     (case st of (impl, k) \<Rightarrow>
        (case os_sync_send Sys (b_socket impl) (b_state impl) bufs flags (all_empty bufs) (world k) of (ec, n, w) \<Rightarrow>
           ((ec, n), (impl, k\<lparr>world := w\<rparr>))))"

definition v155_local_base_send_null ::
  "('w, 'ep, 'opt) os \<Rightarrow> ('w, 'ep, 'a) base_st \<Rightarrow> (error_code \<times> nat) \<times> ('w, 'ep, 'a) base_st" where
  "v155_local_base_send_null Sys st = (case v155_local_poll_until Sys wait_write st of (ec, st') \<Rightarrow> ((ec, 0), st'))"

definition v155_local_base_async_send ::
  "('w, 'ep, 'opt) os \<Rightarrow> byte_t list list \<Rightarrow> message_flags \<Rightarrow> nat \<Rightarrow> bool \<Rightarrow>
     ('w, 'ep, 'a) base_st \<Rightarrow> ('w, 'ep, 'a) base_st" where
  "v155_local_base_async_send Sys bufs flags handler cont st =
     v155_local_start_op Sys write_op (Send_op_stateless (b_socket (fst st)) bufs flags handler) no_error cont True
       (stream_oriented \<in> b_state (fst st) \<and> all_empty bufs) st"

definition v155_local_base_async_send_null ::
  "('w, 'ep, 'opt) os \<Rightarrow> nat \<Rightarrow> bool \<Rightarrow> ('w, 'ep, 'a) base_st \<Rightarrow> ('w, 'ep, 'a) base_st" where
  "v155_local_base_async_send_null Sys handler cont st =
     v155_local_start_op Sys write_op (Null_buffers_op handler) no_error cont False False st"

definition v155_local_base_receive ::
  "('w, 'ep, 'opt) os \<Rightarrow> nat list \<Rightarrow> message_flags \<Rightarrow> ('w, 'ep, 'a) base_st \<Rightarrow>
     (error_code \<times> byte_t list) \<times> ('w, 'ep, 'a) base_st" where
  "v155_local_base_receive Sys sizes flags st =
     (case st of (impl, k) \<Rightarrow>
        (case os_sync_recv Sys (b_socket impl) (b_state impl) sizes flags (all_zero sizes) (world k) of (ec, bs, w) \<Rightarrow>
           ((ec, bs), (impl, k\<lparr>world := w\<rparr>))))"

definition v155_local_base_receive_null ::
  "('w, 'ep, 'opt) os \<Rightarrow> ('w, 'ep, 'a) base_st \<Rightarrow> (error_code \<times> nat) \<times> ('w, 'ep, 'a) base_st" where
  "v155_local_base_receive_null Sys st = (case v155_local_poll_until Sys wait_read st of (ec, st') \<Rightarrow> ((ec, 0), st'))"

definition v155_local_base_async_receive ::
  "('w, 'ep, 'opt) os \<Rightarrow> nat list \<Rightarrow> message_flags \<Rightarrow> nat \<Rightarrow> bool \<Rightarrow>
     ('w, 'ep, 'a) base_st \<Rightarrow> ('w, 'ep, 'a) base_st" where
  "v155_local_base_async_receive Sys sizes flags handler cont st =
     v155_local_start_op Sys (read_or_except flags)
       (Recv_op_ext_local (b_socket (fst st)) (b_state (fst st)) sizes flags handler) no_error cont
       (\<not> out_of_band flags) (stream_oriented \<in> b_state (fst st) \<and> all_zero sizes) st"

definition v155_local_base_async_receive_null ::
  "('w, 'ep, 'opt) os \<Rightarrow> message_flags \<Rightarrow> nat \<Rightarrow> bool \<Rightarrow> ('w, 'ep, 'a) base_st \<Rightarrow> ('w, 'ep, 'a) base_st" where
  "v155_local_base_async_receive_null Sys flags handler cont st =
     v155_local_start_op Sys (read_or_except flags) (Null_buffers_op handler) no_error cont False False st"

definition v155_local_base_receive_with_flags ::
  "('w, 'ep, 'opt) os \<Rightarrow> nat list \<Rightarrow> message_flags \<Rightarrow> ('w, 'ep, 'a) base_st \<Rightarrow>
     (error_code \<times> byte_t list \<times> message_flags) \<times> ('w, 'ep, 'a) base_st" where
  "v155_local_base_receive_with_flags Sys sizes in_flags st =
     (case st of (impl, k) \<Rightarrow>
        (case os_sync_recvmsg Sys (b_socket impl) (b_state impl) sizes in_flags (world k) of (ec, bs, out_flags, w) \<Rightarrow>
           ((ec, bs, out_flags), (impl, k\<lparr>world := w\<rparr>))))"

definition v155_local_base_receive_with_flags_null ::
  "('w, 'ep, 'opt) os \<Rightarrow> ('w, 'ep, 'a) base_st \<Rightarrow> (error_code \<times> nat \<times> message_flags) \<times> ('w, 'ep, 'a) base_st" where
  "v155_local_base_receive_with_flags_null Sys st =
     (case v155_local_poll_until Sys wait_read st of (ec, st') \<Rightarrow> ((ec, 0, 0), st'))"

definition v155_local_base_async_receive_with_flags ::
  "('w, 'ep, 'opt) os \<Rightarrow> nat list \<Rightarrow> message_flags \<Rightarrow> nat \<Rightarrow> bool \<Rightarrow>
     ('w, 'ep, 'a) base_st \<Rightarrow> ('w, 'ep, 'a) base_st" where
  "v155_local_base_async_receive_with_flags Sys sizes in_flags handler cont st =
     v155_local_start_op Sys (read_or_except in_flags) (Recvmsg_op_ext_local (b_socket (fst st)) sizes in_flags handler) no_error cont
       (\<not> out_of_band in_flags) False st"

text \<open>The null-buffers variant answers the cleared \<open>out_flags\<close> at once.\<close>

definition v155_local_base_async_receive_with_flags_null ::
  "('w, 'ep, 'opt) os \<Rightarrow> message_flags \<Rightarrow> nat \<Rightarrow> bool \<Rightarrow>
     ('w, 'ep, 'a) base_st \<Rightarrow> message_flags \<times> ('w, 'ep, 'a) base_st" where
  "v155_local_base_async_receive_with_flags_null Sys in_flags handler cont st =
     (0, v155_local_start_op Sys (read_or_except in_flags) (Null_buffers_op handler) no_error cont False False st)"

section \<open>The service\<close>

definition v155_local_new_impl :: "('w, 'ep, 'opt) os \<Rightarrow> impl" where
  "v155_local_new_impl Sys = \<lparr>b_socket = None, b_state = {}, b_reactor_data = 0, i_protocol = os_ep_protocol Sys (os_default_ep Sys)\<rparr>"

definition v155_local_move_construct :: "('w, 'ep, 'opt) os \<Rightarrow> impl \<Rightarrow> impl \<Rightarrow> impl \<times> impl" where
  "v155_local_move_construct Sys impl other =
     (case v155_local_base_move_construct impl other of (impl', other') \<Rightarrow>
        (impl'\<lparr>i_protocol := i_protocol other\<rparr>,
         other'\<lparr>i_protocol := os_ep_protocol Sys (os_default_ep Sys)\<rparr>))"

definition v155_local_move_assign ::
  "('w, 'ep, 'opt) os \<Rightarrow> impl \<Rightarrow> impl \<Rightarrow> ('w, 'ep) kernel \<Rightarrow> impl \<times> impl \<times> ('w, 'ep) kernel" where
  "v155_local_move_assign Sys impl other k =
     (case v155_local_base_move_assign Sys impl other k of (impl', other', k') \<Rightarrow>
        (impl'\<lparr>i_protocol := i_protocol other\<rparr>,
         other'\<lparr>i_protocol := os_ep_protocol Sys (os_default_ep Sys)\<rparr>, k'))"

definition v155_local_converting_move_construct ::
  "('w, 'ep, 'opt) os \<Rightarrow> (protocol \<Rightarrow> protocol) \<Rightarrow> protocol \<Rightarrow> impl \<Rightarrow> impl \<Rightarrow> impl \<times> impl" where
  "v155_local_converting_move_construct Sys convert other_default impl other =
     (case v155_local_base_move_construct impl other of (impl', other') \<Rightarrow>
        (impl'\<lparr>i_protocol := convert (i_protocol other)\<rparr>, other'\<lparr>i_protocol := other_default\<rparr>))"

section \<open>Opening, naming, options\<close>

definition v155_local_svc_open :: "('w, 'ep, 'opt) os \<Rightarrow> protocol \<Rightarrow> ('w, 'ep) sk \<Rightarrow> error_code \<times> ('w, 'ep) sk" where
  "v155_local_svc_open Sys p st =
     (case v155_local_do_open Sys p st of (ec, (impl, k)) \<Rightarrow>
        (ec, (if \<not> failed ec then impl\<lparr>i_protocol := p\<rparr> else impl, k)))"

definition v155_local_svc_assign :: "('w, 'ep, 'opt) os \<Rightarrow> protocol \<Rightarrow> nat \<Rightarrow> ('w, 'ep) sk \<Rightarrow> error_code \<times> ('w, 'ep) sk" where
  "v155_local_svc_assign Sys p native st =
     (case v155_local_do_assign Sys (p_type p) native st of (ec, (impl, k)) \<Rightarrow>
        (ec, (if \<not> failed ec then impl\<lparr>i_protocol := p\<rparr> else impl, k)))"

definition v155_local_svc_native_handle :: "impl \<Rightarrow> nat option" where
  "v155_local_svc_native_handle impl = b_socket impl"

definition v155_local_svc_bind :: "('w, 'ep, 'opt) os \<Rightarrow> 'ep \<Rightarrow> ('w, 'ep) sk \<Rightarrow> error_code \<times> ('w, 'ep) sk" where
  "v155_local_svc_bind Sys ep st =
     (case st of (impl, k) \<Rightarrow>
        (case os_bind Sys (b_socket impl) ep (world k) of (err, w) \<Rightarrow> (of_errno err, (impl, k\<lparr>world := w\<rparr>))))"

definition v155_local_svc_set_option :: "('w, 'ep, 'opt) os \<Rightarrow> 'opt \<Rightarrow> ('w, 'ep) sk \<Rightarrow> error_code \<times> ('w, 'ep) sk" where
  "v155_local_svc_set_option Sys opt st =
     (case st of (impl, k) \<Rightarrow>
        (case os_setsockopt Sys (b_socket impl) (b_state impl) (i_protocol impl) opt (world k) of (err, s, w) \<Rightarrow>
           (of_errno err, (impl\<lparr>b_state := s\<rparr>, k\<lparr>world := w\<rparr>))))"

text \<open>The option's new contents are used only when there is no error.\<close>

definition v155_local_svc_get_option ::
  "('w, 'ep, 'opt) os \<Rightarrow> 'opt \<Rightarrow> ('w, 'ep) sk \<Rightarrow> (error_code \<times> byte_t list option) \<times> ('w, 'ep) sk" where
  "v155_local_svc_get_option Sys opt st =
     (case st of (impl, k) \<Rightarrow>
        (case os_getsockopt Sys (b_socket impl) (b_state impl) (i_protocol impl) opt (world k) of (err, bs, w) \<Rightarrow>
           ((of_errno err, if \<not> failed (of_errno err) then Some bs else None), (impl, k\<lparr>world := w\<rparr>))))"

definition v155_local_svc_local_endpoint :: "('w, 'ep, 'opt) os \<Rightarrow> ('w, 'ep) sk \<Rightarrow> error_code \<times> 'ep" where
  "v155_local_svc_local_endpoint Sys st =
     (case os_getsockname Sys (b_socket (fst st)) (world (snd st)) of
        Inl err \<Rightarrow> (of_errno err, os_default_ep Sys) | Inr ep \<Rightarrow> (no_error, ep))"

definition v155_local_svc_remote_endpoint :: "('w, 'ep, 'opt) os \<Rightarrow> ('w, 'ep) sk \<Rightarrow> error_code \<times> 'ep" where
  "v155_local_svc_remote_endpoint Sys st =
     (case os_getpeername Sys (b_socket (fst st)) (world (snd st)) of
        Inl err \<Rightarrow> (of_errno err, os_default_ep Sys) | Inr ep \<Rightarrow> (no_error, ep))"

section \<open>Datagrams\<close>

definition v155_local_svc_send_to ::
  "('w, 'ep, 'opt) os \<Rightarrow> byte_t list list \<Rightarrow> 'ep \<Rightarrow> message_flags \<Rightarrow> ('w, 'ep) sk \<Rightarrow>
     (error_code \<times> nat) \<times> ('w, 'ep) sk" where
  "v155_local_svc_send_to Sys bufs destination flags st =
     (case st of (impl, k) \<Rightarrow>
        (case os_sync_sendto Sys (b_socket impl) (b_state impl) bufs flags destination (world k) of (ec, n, w) \<Rightarrow>
           ((ec, n), (impl, k\<lparr>world := w\<rparr>))))"

definition v155_local_svc_send_to_null ::
  "('w, 'ep, 'opt) os \<Rightarrow> ('w, 'ep) sk \<Rightarrow> (error_code \<times> nat) \<times> ('w, 'ep) sk" where
  "v155_local_svc_send_to_null Sys st = (case v155_local_poll_until Sys wait_write st of (ec, st') \<Rightarrow> ((ec, 0), st'))"

definition v155_local_svc_async_send_to ::
  "('w, 'ep, 'opt) os \<Rightarrow> byte_t list list \<Rightarrow> 'ep \<Rightarrow> message_flags \<Rightarrow> nat \<Rightarrow> bool \<Rightarrow> ('w, 'ep) sk \<Rightarrow> ('w, 'ep) sk" where
  "v155_local_svc_async_send_to Sys bufs destination flags handler cont st =
     v155_local_start_op Sys write_op (Sendto_op (b_socket (fst st)) bufs destination flags handler) no_error cont True False st"

definition v155_local_svc_async_send_to_null ::
  "('w, 'ep, 'opt) os \<Rightarrow> nat \<Rightarrow> bool \<Rightarrow> ('w, 'ep) sk \<Rightarrow> ('w, 'ep) sk" where
  "v155_local_svc_async_send_to_null Sys handler cont st =
     v155_local_start_op Sys write_op (Null_buffers_op handler) no_error cont False False st"

text \<open>The sender is reported only when there is no error; otherwise the caller's endpoint is kept.\<close>

definition v155_local_svc_receive_from ::
  "('w, 'ep, 'opt) os \<Rightarrow> nat list \<Rightarrow> 'ep \<Rightarrow> message_flags \<Rightarrow> ('w, 'ep) sk \<Rightarrow>
     (error_code \<times> byte_t list \<times> 'ep) \<times> ('w, 'ep) sk" where
  "v155_local_svc_receive_from Sys sizes sender flags st =
     (case st of (impl, k) \<Rightarrow>
        (case os_sync_recvfrom Sys (b_socket impl) (b_state impl) sizes flags (world k) of (ec, bs, ep, w) \<Rightarrow>
           ((ec, bs, if \<not> failed ec then ep else sender), (impl, k\<lparr>world := w\<rparr>))))"

definition v155_local_svc_receive_from_null ::
  "('w, 'ep, 'opt) os \<Rightarrow> ('w, 'ep) sk \<Rightarrow> (error_code \<times> nat \<times> 'ep) \<times> ('w, 'ep) sk" where
  "v155_local_svc_receive_from_null Sys st =
     (case v155_local_poll_until Sys wait_read st of (ec, st') \<Rightarrow> ((ec, 0, os_default_ep Sys), st'))"

definition v155_local_svc_async_receive_from ::
  "('w, 'ep, 'opt) os \<Rightarrow> nat list \<Rightarrow> message_flags \<Rightarrow> nat \<Rightarrow> bool \<Rightarrow> ('w, 'ep) sk \<Rightarrow> ('w, 'ep) sk" where
  "v155_local_svc_async_receive_from Sys sizes flags handler cont st =
     v155_local_start_op Sys (read_or_except flags)
       (Recvfrom_op_ext_local (b_socket (fst st)) (p_type (i_protocol (fst st))) sizes flags handler) no_error cont
       True False st"

definition v155_local_svc_async_receive_from_null ::
  "('w, 'ep, 'opt) os \<Rightarrow> message_flags \<Rightarrow> nat \<Rightarrow> bool \<Rightarrow> ('w, 'ep) sk \<Rightarrow> 'ep \<times> ('w, 'ep) sk" where
  "v155_local_svc_async_receive_from_null Sys flags handler cont st =
     (os_default_ep Sys,
      v155_local_start_op Sys (read_or_except flags) (Null_buffers_op handler) no_error cont False False st)"

section \<open>Accepting and connecting\<close>

text \<open>
  The new descriptor is in the kernel's table from the moment it is accepted; the \<open>socket_holder\<close>
  closes it when the peer cannot take it.
\<close>

definition v155_local_svc_accept ::
  "('w, 'ep, 'opt) os \<Rightarrow> impl \<Rightarrow> impl \<Rightarrow> ('w, 'ep) kernel \<Rightarrow>
     (error_code \<times> 'ep option) \<times> impl \<times> ('w, 'ep) kernel" where
  "v155_local_svc_accept Sys impl peer k =
     (if v155_local_base_is_open peer then ((already_open, None), (peer, k))
      else
        (case os_sync_accept Sys (b_socket impl) (b_state impl) (world k) of
           (Inl err, w) \<Rightarrow> ((of_errno err, None), (peer, k\<lparr>world := w\<rparr>))
         | (Inr (fd, ep), w) \<Rightarrow>
             (case v155_local_svc_assign Sys (i_protocol impl) fd
                 (peer, k\<lparr>world := w, descriptors := insert fd (descriptors k)\<rparr>) of
                (ec, (peer', k')) \<Rightarrow>
                  if \<not> failed ec then ((ec, Some ep), (peer', k'))
                  else ((ec, Some ep), (peer', snd (sys_close Sys fd {} True k'))))))"

definition v155_local_svc_async_accept ::
  "('w, 'ep, 'opt) os \<Rightarrow> bool \<Rightarrow> bool \<Rightarrow> nat \<Rightarrow> bool \<Rightarrow> ('w, 'ep) sk \<Rightarrow> ('w, 'ep) sk" where
  "v155_local_svc_async_accept Sys peer_is_open wants_endpoint handler cont st =
     v155_local_start_accept_op Sys
       (Accept_op (b_socket (fst st)) (b_state (fst st)) (i_protocol (fst st)) wants_endpoint handler)
       cont peer_is_open st"

definition v155_local_svc_connect :: "('w, 'ep, 'opt) os \<Rightarrow> 'ep \<Rightarrow> ('w, 'ep) sk \<Rightarrow> error_code \<times> ('w, 'ep) sk" where
  "v155_local_svc_connect Sys ep st =
     (case st of (impl, k) \<Rightarrow>
        (case os_sync_connect Sys (b_socket impl) ep (world k) of (err, w) \<Rightarrow> (of_errno err, (impl, k\<lparr>world := w\<rparr>))))"

definition v155_local_svc_async_connect ::
  "('w, 'ep, 'opt) os \<Rightarrow> 'ep \<Rightarrow> nat \<Rightarrow> bool \<Rightarrow> ('w, 'ep) sk \<Rightarrow> ('w, 'ep) sk" where
  "v155_local_svc_async_connect Sys ep handler cont st =
     v155_local_start_connect_op Sys (Connect_op (b_socket (fst st)) handler) cont ep st"

end
