(* ===== verification/Boost155_Wrappers.thy ===== *)
theory Boost155_Wrappers imports Boost155_Local begin

text \<open>
  The services a socket object of Boost 1.55 holds: \<open>datagram_socket_service_ext\<close>,
  \<open>stream_socket_service_ext\<close> (over the local service) and \<open>socket_acceptor_service_ext\<close>, files of the same
  names in include/helper/1.55/boost/asio.  Each hands its calls to the reactive service;
  the first two open sockets of their own type only.
\<close>

section \<open>Datagram sockets\<close>

definition v155_dss_construct :: "impl \<Rightarrow> impl" where
  "v155_dss_construct impl = v155_construct impl"

definition v155_dss_move_construct ::
  "('w, 'ep, 'opt) os \<Rightarrow> impl \<Rightarrow> impl \<Rightarrow> impl \<times> impl" where
  "v155_dss_move_construct Sys impl other = v155_move_construct Sys impl other"

definition v155_dss_move_assign ::
  "('w, 'ep, 'opt) os \<Rightarrow> impl \<Rightarrow> impl \<Rightarrow> ('w, 'ep) kernel \<Rightarrow> impl \<times> impl \<times> ('w, 'ep) kernel" where
  "v155_dss_move_assign Sys impl other k = v155_move_assign Sys impl other k"

definition v155_dss_converting_move_construct ::
  "('w, 'ep, 'opt) os \<Rightarrow> (protocol \<Rightarrow> protocol) \<Rightarrow> protocol \<Rightarrow> impl \<Rightarrow> impl \<Rightarrow> impl \<times> impl" where
  "v155_dss_converting_move_construct Sys convert other_default impl other =
     v155_converting_move_construct Sys convert other_default impl other"

definition v155_dss_destroy ::
  "('w, 'ep, 'opt) os \<Rightarrow> impl \<Rightarrow> ('w, 'ep) kernel \<Rightarrow> ('w, 'ep) kernel" where
  "v155_dss_destroy Sys impl k = v155_destroy Sys impl k"

definition v155_dss_open ::
  "('w, 'ep, 'opt) os \<Rightarrow> protocol \<Rightarrow> ('w, 'ep) sk \<Rightarrow> error_code \<times> ('w, 'ep) sk" where
  "v155_dss_open Sys p st = (if p_type p = SOCK_DGRAM then v155_svc_open Sys p st else (invalid_argument, st))"

definition v155_dss_assign ::
  "('w, 'ep, 'opt) os \<Rightarrow> protocol \<Rightarrow> nat \<Rightarrow> ('w, 'ep) sk \<Rightarrow> error_code \<times> ('w, 'ep) sk" where
  "v155_dss_assign Sys p native st = v155_svc_assign Sys p native st"

definition v155_dss_is_open :: "impl \<Rightarrow> bool" where
  "v155_dss_is_open impl = v155_base_is_open impl"

definition v155_dss_close ::
  "('w, 'ep, 'opt) os \<Rightarrow> (state_type \<Rightarrow> 'w \<Rightarrow> int \<times> 'w) \<Rightarrow> ('w, 'ep) sk \<Rightarrow> error_code \<times> ('w, 'ep) sk" where
  "v155_dss_close Sys close_invalid st = v155_base_close Sys close_invalid st"

definition v155_dss_native_handle :: "impl \<Rightarrow> nat option" where
  "v155_dss_native_handle impl = v155_svc_native_handle impl"

definition v155_dss_cancel :: "('w, 'ep) sk \<Rightarrow> error_code \<times> ('w, 'ep) sk" where
  "v155_dss_cancel st = v155_base_cancel st"

definition v155_dss_at_mark ::
  "('w, 'ep, 'opt) os \<Rightarrow> ('w, 'ep) sk \<Rightarrow> error_code \<times> bool" where
  "v155_dss_at_mark Sys st = v155_base_at_mark Sys st"

definition v155_dss_available ::
  "('w, 'ep, 'opt) os \<Rightarrow> ('w, 'ep) sk \<Rightarrow> error_code \<times> nat" where
  "v155_dss_available Sys st = v155_base_available Sys st"

definition v155_dss_bind ::
  "('w, 'ep, 'opt) os \<Rightarrow> 'ep \<Rightarrow> ('w, 'ep) sk \<Rightarrow> error_code \<times> ('w, 'ep) sk" where
  "v155_dss_bind Sys ep st = v155_svc_bind Sys ep st"

definition v155_dss_connect ::
  "('w, 'ep, 'opt) os \<Rightarrow> 'ep \<Rightarrow> ('w, 'ep) sk \<Rightarrow> error_code \<times> ('w, 'ep) sk" where
  "v155_dss_connect Sys ep st = v155_svc_connect Sys ep st"

definition v155_dss_async_connect ::
  "('w, 'ep, 'opt) os \<Rightarrow> 'ep \<Rightarrow> nat \<Rightarrow> bool \<Rightarrow> ('w, 'ep) sk \<Rightarrow> ('w, 'ep) sk" where
  "v155_dss_async_connect Sys ep handler cont st = v155_svc_async_connect Sys ep handler cont st"

definition v155_dss_set_option ::
  "('w, 'ep, 'opt) os \<Rightarrow> 'opt \<Rightarrow> ('w, 'ep) sk \<Rightarrow> error_code \<times> ('w, 'ep) sk" where
  "v155_dss_set_option Sys opt st = v155_svc_set_option Sys opt st"

definition v155_dss_get_option ::
  "('w, 'ep, 'opt) os \<Rightarrow> 'opt \<Rightarrow> ('w, 'ep) sk \<Rightarrow> (error_code \<times> byte_t list option) \<times> ('w, 'ep) sk" where
  "v155_dss_get_option Sys opt st = v155_svc_get_option Sys opt st"

definition v155_dss_io_control ::
  "('w, 'ep, 'opt) os \<Rightarrow> int \<Rightarrow> byte_t list \<Rightarrow> ('w, 'ep) sk \<Rightarrow> (error_code \<times> byte_t list) \<times> ('w, 'ep) sk" where
  "v155_dss_io_control Sys name data st = v155_base_io_control Sys name data st"

definition v155_dss_non_blocking :: "impl \<Rightarrow> bool" where
  "v155_dss_non_blocking impl = v155_base_non_blocking impl"

definition v155_dss_set_non_blocking ::
  "('w, 'ep, 'opt) os \<Rightarrow> bool \<Rightarrow> ('w, 'ep) sk \<Rightarrow> error_code \<times> ('w, 'ep) sk" where
  "v155_dss_set_non_blocking Sys mode st = v155_base_set_non_blocking Sys mode st"

definition v155_dss_native_non_blocking :: "impl \<Rightarrow> bool" where
  "v155_dss_native_non_blocking impl = v155_base_native_non_blocking impl"

definition v155_dss_set_native_non_blocking ::
  "('w, 'ep, 'opt) os \<Rightarrow> bool \<Rightarrow> ('w, 'ep) sk \<Rightarrow> error_code \<times> ('w, 'ep) sk" where
  "v155_dss_set_native_non_blocking Sys mode st = v155_base_set_native_non_blocking Sys mode st"

definition v155_dss_local_endpoint ::
  "('w, 'ep, 'opt) os \<Rightarrow> ('w, 'ep) sk \<Rightarrow> error_code \<times> 'ep" where
  "v155_dss_local_endpoint Sys st = v155_svc_local_endpoint Sys st"

definition v155_dss_remote_endpoint ::
  "('w, 'ep, 'opt) os \<Rightarrow> ('w, 'ep) sk \<Rightarrow> error_code \<times> 'ep" where
  "v155_dss_remote_endpoint Sys st = v155_svc_remote_endpoint Sys st"

definition v155_dss_shutdown ::
  "('w, 'ep, 'opt) os \<Rightarrow> shutdown_type \<Rightarrow> ('w, 'ep) sk \<Rightarrow> error_code \<times> ('w, 'ep) sk" where
  "v155_dss_shutdown Sys what st = v155_base_shutdown Sys what st"

definition v155_dss_send ::
  "('w, 'ep, 'opt) os \<Rightarrow> byte_t list list \<Rightarrow> message_flags \<Rightarrow> ('w, 'ep) sk \<Rightarrow> (error_code \<times> nat) \<times> ('w, 'ep) sk" where
  "v155_dss_send Sys bufs flags st = v155_base_send Sys bufs flags st"

definition v155_dss_async_send ::
  "('w, 'ep, 'opt) os \<Rightarrow> byte_t list list \<Rightarrow> message_flags \<Rightarrow> nat \<Rightarrow> bool \<Rightarrow> ('w, 'ep) sk \<Rightarrow> ('w, 'ep) sk" where
  "v155_dss_async_send Sys bufs flags handler cont st = v155_base_async_send Sys bufs flags handler cont st"

definition v155_dss_send_to ::
  "('w, 'ep, 'opt) os \<Rightarrow> byte_t list list \<Rightarrow> 'ep \<Rightarrow> message_flags \<Rightarrow> ('w, 'ep) sk \<Rightarrow> (error_code \<times> nat) \<times> ('w, 'ep) sk" where
  "v155_dss_send_to Sys bufs ep flags st = v155_svc_send_to Sys bufs ep flags st"

definition v155_dss_async_send_to ::
  "('w, 'ep, 'opt) os \<Rightarrow> byte_t list list \<Rightarrow> 'ep \<Rightarrow> message_flags \<Rightarrow> nat \<Rightarrow> bool \<Rightarrow> ('w, 'ep) sk \<Rightarrow> ('w, 'ep) sk" where
  "v155_dss_async_send_to Sys bufs ep flags handler cont st =
     v155_svc_async_send_to Sys bufs ep flags handler cont st"

definition v155_dss_receive ::
  "('w, 'ep, 'opt) os \<Rightarrow> nat list \<Rightarrow> message_flags \<Rightarrow> ('w, 'ep) sk \<Rightarrow> (error_code \<times> byte_t list) \<times> ('w, 'ep) sk" where
  "v155_dss_receive Sys sizes flags st = v155_base_receive Sys sizes flags st"

definition v155_dss_async_receive ::
  "('w, 'ep, 'opt) os \<Rightarrow> nat list \<Rightarrow> message_flags \<Rightarrow> nat \<Rightarrow> bool \<Rightarrow> ('w, 'ep) sk \<Rightarrow> ('w, 'ep) sk" where
  "v155_dss_async_receive Sys sizes flags handler cont st =
     v155_base_async_receive Sys sizes flags handler cont st"

definition v155_dss_receive_from ::
  "('w, 'ep, 'opt) os \<Rightarrow> nat list \<Rightarrow> 'ep \<Rightarrow> message_flags \<Rightarrow> ('w, 'ep) sk \<Rightarrow> (error_code \<times> byte_t list \<times> 'ep) \<times> ('w, 'ep) sk" where
  "v155_dss_receive_from Sys sizes sender flags st = v155_svc_receive_from Sys sizes sender flags st"

definition v155_dss_async_receive_from ::
  "('w, 'ep, 'opt) os \<Rightarrow> nat list \<Rightarrow> message_flags \<Rightarrow> nat \<Rightarrow> bool \<Rightarrow> ('w, 'ep) sk \<Rightarrow> ('w, 'ep) sk" where
  "v155_dss_async_receive_from Sys sizes flags handler cont st =
     v155_svc_async_receive_from Sys sizes flags handler cont st"

section \<open>Stream sockets\<close>

definition v155_sss_construct :: "impl \<Rightarrow> impl" where
  "v155_sss_construct impl = v155_local_construct impl"

definition v155_sss_move_construct ::
  "('w, 'ep, 'opt) os \<Rightarrow> impl \<Rightarrow> impl \<Rightarrow> impl \<times> impl" where
  "v155_sss_move_construct Sys impl other = v155_local_move_construct Sys impl other"

definition v155_sss_move_assign ::
  "('w, 'ep, 'opt) os \<Rightarrow> impl \<Rightarrow> impl \<Rightarrow> ('w, 'ep) kernel \<Rightarrow> impl \<times> impl \<times> ('w, 'ep) kernel" where
  "v155_sss_move_assign Sys impl other k = v155_local_move_assign Sys impl other k"

definition v155_sss_converting_move_construct ::
  "('w, 'ep, 'opt) os \<Rightarrow> (protocol \<Rightarrow> protocol) \<Rightarrow> protocol \<Rightarrow> impl \<Rightarrow> impl \<Rightarrow> impl \<times> impl" where
  "v155_sss_converting_move_construct Sys convert other_default impl other =
     v155_local_converting_move_construct Sys convert other_default impl other"

definition v155_sss_destroy ::
  "('w, 'ep, 'opt) os \<Rightarrow> impl \<Rightarrow> ('w, 'ep) kernel \<Rightarrow> ('w, 'ep) kernel" where
  "v155_sss_destroy Sys impl k = v155_local_destroy Sys impl k"

definition v155_sss_open ::
  "('w, 'ep, 'opt) os \<Rightarrow> protocol \<Rightarrow> ('w, 'ep) sk \<Rightarrow> error_code \<times> ('w, 'ep) sk" where
  "v155_sss_open Sys p st =
     (if p_type p = SOCK_STREAM then v155_local_svc_open Sys p st else (invalid_argument, st))"

definition v155_sss_assign ::
  "('w, 'ep, 'opt) os \<Rightarrow> protocol \<Rightarrow> nat \<Rightarrow> ('w, 'ep) sk \<Rightarrow> error_code \<times> ('w, 'ep) sk" where
  "v155_sss_assign Sys p native st = v155_local_svc_assign Sys p native st"

definition v155_sss_is_open :: "impl \<Rightarrow> bool" where
  "v155_sss_is_open impl = v155_local_base_is_open impl"

definition v155_sss_close ::
  "('w, 'ep, 'opt) os \<Rightarrow> (state_type \<Rightarrow> 'w \<Rightarrow> int \<times> 'w) \<Rightarrow> ('w, 'ep) sk \<Rightarrow> error_code \<times> ('w, 'ep) sk" where
  "v155_sss_close Sys close_invalid st = v155_local_base_close Sys close_invalid st"

definition v155_sss_native_handle :: "impl \<Rightarrow> nat option" where
  "v155_sss_native_handle impl = v155_local_svc_native_handle impl"

definition v155_sss_cancel :: "('w, 'ep) sk \<Rightarrow> error_code \<times> ('w, 'ep) sk" where
  "v155_sss_cancel st = v155_local_base_cancel st"

definition v155_sss_at_mark ::
  "('w, 'ep, 'opt) os \<Rightarrow> ('w, 'ep) sk \<Rightarrow> error_code \<times> bool" where
  "v155_sss_at_mark Sys st = v155_local_base_at_mark Sys st"

definition v155_sss_available ::
  "('w, 'ep, 'opt) os \<Rightarrow> ('w, 'ep) sk \<Rightarrow> error_code \<times> nat" where
  "v155_sss_available Sys st = v155_local_base_available Sys st"

definition v155_sss_bind ::
  "('w, 'ep, 'opt) os \<Rightarrow> 'ep \<Rightarrow> ('w, 'ep) sk \<Rightarrow> error_code \<times> ('w, 'ep) sk" where
  "v155_sss_bind Sys ep st = v155_local_svc_bind Sys ep st"

definition v155_sss_connect ::
  "('w, 'ep, 'opt) os \<Rightarrow> 'ep \<Rightarrow> ('w, 'ep) sk \<Rightarrow> error_code \<times> ('w, 'ep) sk" where
  "v155_sss_connect Sys ep st = v155_local_svc_connect Sys ep st"

definition v155_sss_async_connect ::
  "('w, 'ep, 'opt) os \<Rightarrow> 'ep \<Rightarrow> nat \<Rightarrow> bool \<Rightarrow> ('w, 'ep) sk \<Rightarrow> ('w, 'ep) sk" where
  "v155_sss_async_connect Sys ep handler cont st = v155_local_svc_async_connect Sys ep handler cont st"

definition v155_sss_set_option ::
  "('w, 'ep, 'opt) os \<Rightarrow> 'opt \<Rightarrow> ('w, 'ep) sk \<Rightarrow> error_code \<times> ('w, 'ep) sk" where
  "v155_sss_set_option Sys opt st = v155_local_svc_set_option Sys opt st"

definition v155_sss_get_option ::
  "('w, 'ep, 'opt) os \<Rightarrow> 'opt \<Rightarrow> ('w, 'ep) sk \<Rightarrow> (error_code \<times> byte_t list option) \<times> ('w, 'ep) sk" where
  "v155_sss_get_option Sys opt st = v155_local_svc_get_option Sys opt st"

definition v155_sss_io_control ::
  "('w, 'ep, 'opt) os \<Rightarrow> int \<Rightarrow> byte_t list \<Rightarrow> ('w, 'ep) sk \<Rightarrow> (error_code \<times> byte_t list) \<times> ('w, 'ep) sk" where
  "v155_sss_io_control Sys name data st = v155_local_base_io_control Sys name data st"

definition v155_sss_non_blocking :: "impl \<Rightarrow> bool" where
  "v155_sss_non_blocking impl = v155_local_base_non_blocking impl"

definition v155_sss_set_non_blocking ::
  "('w, 'ep, 'opt) os \<Rightarrow> bool \<Rightarrow> ('w, 'ep) sk \<Rightarrow> error_code \<times> ('w, 'ep) sk" where
  "v155_sss_set_non_blocking Sys mode st = v155_local_base_set_non_blocking Sys mode st"

definition v155_sss_native_non_blocking :: "impl \<Rightarrow> bool" where
  "v155_sss_native_non_blocking impl = v155_local_base_native_non_blocking impl"

definition v155_sss_set_native_non_blocking ::
  "('w, 'ep, 'opt) os \<Rightarrow> bool \<Rightarrow> ('w, 'ep) sk \<Rightarrow> error_code \<times> ('w, 'ep) sk" where
  "v155_sss_set_native_non_blocking Sys mode st = v155_local_base_set_native_non_blocking Sys mode st"

definition v155_sss_local_endpoint ::
  "('w, 'ep, 'opt) os \<Rightarrow> ('w, 'ep) sk \<Rightarrow> error_code \<times> 'ep" where
  "v155_sss_local_endpoint Sys st = v155_local_svc_local_endpoint Sys st"

definition v155_sss_remote_endpoint ::
  "('w, 'ep, 'opt) os \<Rightarrow> ('w, 'ep) sk \<Rightarrow> error_code \<times> 'ep" where
  "v155_sss_remote_endpoint Sys st = v155_local_svc_remote_endpoint Sys st"

definition v155_sss_shutdown ::
  "('w, 'ep, 'opt) os \<Rightarrow> shutdown_type \<Rightarrow> ('w, 'ep) sk \<Rightarrow> error_code \<times> ('w, 'ep) sk" where
  "v155_sss_shutdown Sys what st = v155_local_base_shutdown Sys what st"

definition v155_sss_send ::
  "('w, 'ep, 'opt) os \<Rightarrow> byte_t list list \<Rightarrow> message_flags \<Rightarrow> ('w, 'ep) sk \<Rightarrow> (error_code \<times> nat) \<times> ('w, 'ep) sk" where
  "v155_sss_send Sys bufs flags st = v155_local_base_send Sys bufs flags st"

definition v155_sss_async_send ::
  "('w, 'ep, 'opt) os \<Rightarrow> byte_t list list \<Rightarrow> message_flags \<Rightarrow> nat \<Rightarrow> bool \<Rightarrow> ('w, 'ep) sk \<Rightarrow> ('w, 'ep) sk" where
  "v155_sss_async_send Sys bufs flags handler cont st = v155_local_base_async_send Sys bufs flags handler cont st"

definition v155_sss_receive ::
  "('w, 'ep, 'opt) os \<Rightarrow> nat list \<Rightarrow> message_flags \<Rightarrow> ('w, 'ep) sk \<Rightarrow> (error_code \<times> byte_t list) \<times> ('w, 'ep) sk" where
  "v155_sss_receive Sys sizes flags st = v155_local_base_receive Sys sizes flags st"

definition v155_sss_async_receive ::
  "('w, 'ep, 'opt) os \<Rightarrow> nat list \<Rightarrow> message_flags \<Rightarrow> nat \<Rightarrow> bool \<Rightarrow> ('w, 'ep) sk \<Rightarrow> ('w, 'ep) sk" where
  "v155_sss_async_receive Sys sizes flags handler cont st =
     v155_local_base_async_receive Sys sizes flags handler cont st"

section \<open>Acceptors\<close>

definition v155_ass_construct :: "impl \<Rightarrow> impl" where
  "v155_ass_construct impl = v155_construct impl"

definition v155_ass_move_construct ::
  "('w, 'ep, 'opt) os \<Rightarrow> impl \<Rightarrow> impl \<Rightarrow> impl \<times> impl" where
  "v155_ass_move_construct Sys impl other = v155_move_construct Sys impl other"

definition v155_ass_move_assign ::
  "('w, 'ep, 'opt) os \<Rightarrow> impl \<Rightarrow> impl \<Rightarrow> ('w, 'ep) kernel \<Rightarrow> impl \<times> impl \<times> ('w, 'ep) kernel" where
  "v155_ass_move_assign Sys impl other k = v155_move_assign Sys impl other k"

definition v155_ass_converting_move_construct ::
  "('w, 'ep, 'opt) os \<Rightarrow> (protocol \<Rightarrow> protocol) \<Rightarrow> protocol \<Rightarrow> impl \<Rightarrow> impl \<Rightarrow> impl \<times> impl" where
  "v155_ass_converting_move_construct Sys convert other_default impl other =
     v155_converting_move_construct Sys convert other_default impl other"

definition v155_ass_destroy ::
  "('w, 'ep, 'opt) os \<Rightarrow> impl \<Rightarrow> ('w, 'ep) kernel \<Rightarrow> ('w, 'ep) kernel" where
  "v155_ass_destroy Sys impl k = v155_destroy Sys impl k"

definition v155_ass_open ::
  "('w, 'ep, 'opt) os \<Rightarrow> protocol \<Rightarrow> ('w, 'ep) sk \<Rightarrow> error_code \<times> ('w, 'ep) sk" where
  "v155_ass_open Sys p st = v155_svc_open Sys p st"

definition v155_ass_assign ::
  "('w, 'ep, 'opt) os \<Rightarrow> protocol \<Rightarrow> nat \<Rightarrow> ('w, 'ep) sk \<Rightarrow> error_code \<times> ('w, 'ep) sk" where
  "v155_ass_assign Sys p native st = v155_svc_assign Sys p native st"

definition v155_ass_is_open :: "impl \<Rightarrow> bool" where
  "v155_ass_is_open impl = v155_base_is_open impl"

definition v155_ass_cancel :: "('w, 'ep) sk \<Rightarrow> error_code \<times> ('w, 'ep) sk" where
  "v155_ass_cancel st = v155_base_cancel st"

definition v155_ass_bind ::
  "('w, 'ep, 'opt) os \<Rightarrow> 'ep \<Rightarrow> ('w, 'ep) sk \<Rightarrow> error_code \<times> ('w, 'ep) sk" where
  "v155_ass_bind Sys ep st = v155_svc_bind Sys ep st"

definition v155_ass_listen ::
  "('w, 'ep, 'opt) os \<Rightarrow> int \<Rightarrow> ('w, 'ep) sk \<Rightarrow> error_code \<times> ('w, 'ep) sk" where
  "v155_ass_listen Sys backlog st = v155_base_listen Sys backlog st"

definition v155_ass_close ::
  "('w, 'ep, 'opt) os \<Rightarrow> (state_type \<Rightarrow> 'w \<Rightarrow> int \<times> 'w) \<Rightarrow> ('w, 'ep) sk \<Rightarrow> error_code \<times> ('w, 'ep) sk" where
  "v155_ass_close Sys close_invalid st = v155_base_close Sys close_invalid st"

definition v155_ass_native_handle :: "impl \<Rightarrow> nat option" where
  "v155_ass_native_handle impl = v155_svc_native_handle impl"

definition v155_ass_set_option ::
  "('w, 'ep, 'opt) os \<Rightarrow> 'opt \<Rightarrow> ('w, 'ep) sk \<Rightarrow> error_code \<times> ('w, 'ep) sk" where
  "v155_ass_set_option Sys opt st = v155_svc_set_option Sys opt st"

definition v155_ass_get_option ::
  "('w, 'ep, 'opt) os \<Rightarrow> 'opt \<Rightarrow> ('w, 'ep) sk \<Rightarrow> (error_code \<times> byte_t list option) \<times> ('w, 'ep) sk" where
  "v155_ass_get_option Sys opt st = v155_svc_get_option Sys opt st"

definition v155_ass_io_control ::
  "('w, 'ep, 'opt) os \<Rightarrow> int \<Rightarrow> byte_t list \<Rightarrow> ('w, 'ep) sk \<Rightarrow> (error_code \<times> byte_t list) \<times> ('w, 'ep) sk" where
  "v155_ass_io_control Sys name data st = v155_base_io_control Sys name data st"

definition v155_ass_non_blocking :: "impl \<Rightarrow> bool" where
  "v155_ass_non_blocking impl = v155_base_non_blocking impl"

definition v155_ass_set_non_blocking ::
  "('w, 'ep, 'opt) os \<Rightarrow> bool \<Rightarrow> ('w, 'ep) sk \<Rightarrow> error_code \<times> ('w, 'ep) sk" where
  "v155_ass_set_non_blocking Sys mode st = v155_base_set_non_blocking Sys mode st"

definition v155_ass_native_non_blocking :: "impl \<Rightarrow> bool" where
  "v155_ass_native_non_blocking impl = v155_base_native_non_blocking impl"

definition v155_ass_set_native_non_blocking ::
  "('w, 'ep, 'opt) os \<Rightarrow> bool \<Rightarrow> ('w, 'ep) sk \<Rightarrow> error_code \<times> ('w, 'ep) sk" where
  "v155_ass_set_native_non_blocking Sys mode st = v155_base_set_native_non_blocking Sys mode st"

definition v155_ass_local_endpoint ::
  "('w, 'ep, 'opt) os \<Rightarrow> ('w, 'ep) sk \<Rightarrow> error_code \<times> 'ep" where
  "v155_ass_local_endpoint Sys st = v155_svc_local_endpoint Sys st"

definition v155_ass_accept ::
  "('w, 'ep, 'opt) os \<Rightarrow> impl \<Rightarrow> impl \<Rightarrow> ('w, 'ep) kernel \<Rightarrow> (error_code \<times> 'ep option) \<times> impl \<times> ('w, 'ep) kernel" where
  "v155_ass_accept Sys impl peer k = v155_svc_accept Sys impl peer k"

definition v155_ass_async_accept ::
  "('w, 'ep, 'opt) os \<Rightarrow> bool \<Rightarrow> bool \<Rightarrow> nat \<Rightarrow> bool \<Rightarrow> ('w, 'ep) sk \<Rightarrow> ('w, 'ep) sk" where
  "v155_ass_async_accept Sys peer_is_open wants_endpoint handler cont st =
     v155_svc_async_accept Sys peer_is_open wants_endpoint handler cont st"

end
