(* ===== verification/Boost155_Fronts.thy ===== *)
theory Boost155_Fronts imports Boost155_Wrappers Socket_Acceptor begin

text \<open>
  The socket objects of the helper for Boost 1.55 (include/helper/1.55/boost/asio):
  basic_datagram_socket_ext.hpp, basic_stream_socket_ext.hpp and basic_socket_acceptor_ext.hpp.  The
  base class of the first two is Boost's own \<open>basic_socket\<close>, which is not in this repository: a
  parameter, the record \<open>boost_socket\<close>.
\<close>

section \<open>The base class\<close>

text \<open>
  What the constructors and assignments of the sockets call.  A constructor can throw what failed and
  the error code.  The converting moves take a socket of another protocol, whose protocol the first
  argument converts and the second is the default of.
\<close>

type_synonym ('w, 'ep) new_socket = "((string \<times> error_code) \<times> ('w, 'ep) kernel) + ('w, 'ep) sk"

record ('w, 'ep) boost_socket =
  bk_new :: "('w, 'ep) kernel \<Rightarrow> ('w, 'ep) sk"
  bk_new_protocol :: "protocol \<Rightarrow> ('w, 'ep) kernel \<Rightarrow> ('w, 'ep) new_socket"
  bk_new_endpoint :: "'ep \<Rightarrow> ('w, 'ep) kernel \<Rightarrow> ('w, 'ep) new_socket"
  bk_new_native :: "protocol \<Rightarrow> nat \<Rightarrow> ('w, 'ep) kernel \<Rightarrow> ('w, 'ep) new_socket"
  bk_move_construct :: "impl \<Rightarrow> impl \<times> impl"
  bk_move_assign :: "impl \<Rightarrow> impl \<Rightarrow> ('w, 'ep) kernel \<Rightarrow> impl \<times> impl \<times> ('w, 'ep) kernel"
  bk_converting_move_construct :: "(protocol \<Rightarrow> protocol) \<Rightarrow> protocol \<Rightarrow> impl \<Rightarrow> impl \<times> impl"
  bk_converting_move_assign ::
    "(protocol \<Rightarrow> protocol) \<Rightarrow> protocol \<Rightarrow> impl \<Rightarrow> impl \<Rightarrow> ('w, 'ep) kernel \<Rightarrow> impl \<times> impl \<times> ('w, 'ep) kernel"

section \<open>Datagram sockets\<close>

subsection \<open>Construction and moves\<close>

definition v155_ds_new ::
  "('w, 'ep) boost_socket \<Rightarrow> ('w, 'ep) kernel \<Rightarrow> ('w, 'ep) sk" where
  "v155_ds_new Bs k = bk_new Bs k"

definition v155_ds_new_protocol ::
  "('w, 'ep) boost_socket \<Rightarrow> protocol \<Rightarrow> ('w, 'ep) kernel \<Rightarrow> ('w, 'ep) new_socket" where
  "v155_ds_new_protocol Bs p k = bk_new_protocol Bs p k"

definition v155_ds_new_endpoint ::
  "('w, 'ep) boost_socket \<Rightarrow> 'ep \<Rightarrow> ('w, 'ep) kernel \<Rightarrow> ('w, 'ep) new_socket" where
  "v155_ds_new_endpoint Bs ep k = bk_new_endpoint Bs ep k"

definition v155_ds_new_native ::
  "('w, 'ep) boost_socket \<Rightarrow> protocol \<Rightarrow> nat \<Rightarrow> ('w, 'ep) kernel \<Rightarrow> ('w, 'ep) new_socket" where
  "v155_ds_new_native Bs p native k = bk_new_native Bs p native k"

definition v155_ds_move_construct ::
  "('w, 'ep) boost_socket \<Rightarrow> impl \<Rightarrow> impl \<times> impl" where
  "v155_ds_move_construct Bs other = bk_move_construct Bs other"

definition v155_ds_move_assign ::
  "('w, 'ep) boost_socket \<Rightarrow> impl \<Rightarrow> impl \<Rightarrow> ('w, 'ep) kernel \<Rightarrow> impl \<times> impl \<times> ('w, 'ep) kernel" where
  "v155_ds_move_assign Bs impl other k = bk_move_assign Bs impl other k"

definition v155_ds_converting_move_construct ::
  "('w, 'ep) boost_socket \<Rightarrow> (protocol \<Rightarrow> protocol) \<Rightarrow> protocol \<Rightarrow> impl \<Rightarrow> impl \<times> impl" where
  "v155_ds_converting_move_construct Bs convert other_default other = bk_converting_move_construct Bs convert other_default other"

definition v155_ds_converting_move_assign ::
  "('w, 'ep) boost_socket \<Rightarrow> (protocol \<Rightarrow> protocol) \<Rightarrow> protocol \<Rightarrow> impl \<Rightarrow> impl \<Rightarrow> ('w, 'ep) kernel \<Rightarrow>
     impl \<times> impl \<times> ('w, 'ep) kernel" where
  "v155_ds_converting_move_assign Bs convert other_default impl other k = bk_converting_move_assign Bs convert other_default impl other k"

subsection \<open>Sending\<close>

definition v155_ds_send_throw ::
  "('w, 'ep, 'opt) os \<Rightarrow> byte_t list list \<Rightarrow> ('w, 'ep) sk \<Rightarrow> nat thrown \<times> ('w, 'ep) sk" where
  "v155_ds_send_throw Sys bufs st =
     (case v155_dss_send Sys bufs 0 st of ((ec, s), st') \<Rightarrow> (throw_error ''send'' ec s, st'))"

definition v155_ds_send_flags_throw ::
  "('w, 'ep, 'opt) os \<Rightarrow> byte_t list list \<Rightarrow> message_flags \<Rightarrow> ('w, 'ep) sk \<Rightarrow> nat thrown \<times> ('w, 'ep) sk" where
  "v155_ds_send_flags_throw Sys bufs flags st =
     (case v155_dss_send Sys bufs flags st of ((ec, s), st') \<Rightarrow> (throw_error ''send'' ec s, st'))"

definition v155_ds_send ::
  "('w, 'ep, 'opt) os \<Rightarrow> byte_t list list \<Rightarrow> message_flags \<Rightarrow> ('w, 'ep) sk \<Rightarrow> (error_code \<times> nat) \<times> ('w, 'ep) sk" where
  "v155_ds_send Sys bufs flags st = v155_dss_send Sys bufs flags st"

definition v155_ds_async_send ::
  "('w, 'ep, 'opt) os \<Rightarrow> byte_t list list \<Rightarrow> nat \<Rightarrow> bool \<Rightarrow> ('w, 'ep) sk \<Rightarrow> ('w, 'ep) sk" where
  "v155_ds_async_send Sys bufs handler cont st = v155_dss_async_send Sys bufs 0 handler cont st"

definition v155_ds_async_send_flags ::
  "('w, 'ep, 'opt) os \<Rightarrow> byte_t list list \<Rightarrow> message_flags \<Rightarrow> nat \<Rightarrow> bool \<Rightarrow> ('w, 'ep) sk \<Rightarrow> ('w, 'ep) sk" where
  "v155_ds_async_send_flags Sys bufs flags handler cont st =
     v155_dss_async_send Sys bufs flags handler cont st"

definition v155_ds_send_to_throw ::
  "('w, 'ep, 'opt) os \<Rightarrow> byte_t list list \<Rightarrow> 'ep \<Rightarrow> ('w, 'ep) sk \<Rightarrow> nat thrown \<times> ('w, 'ep) sk" where
  "v155_ds_send_to_throw Sys bufs destination st =
     (case v155_dss_send_to Sys bufs destination 0 st of ((ec, s), st') \<Rightarrow> (throw_error ''send_to'' ec s, st'))"

definition v155_ds_send_to_flags_throw ::
  "('w, 'ep, 'opt) os \<Rightarrow> byte_t list list \<Rightarrow> 'ep \<Rightarrow> message_flags \<Rightarrow> ('w, 'ep) sk \<Rightarrow> nat thrown \<times> ('w, 'ep) sk" where
  "v155_ds_send_to_flags_throw Sys bufs destination flags st =
     (case v155_dss_send_to Sys bufs destination flags st of ((ec, s), st') \<Rightarrow> (throw_error ''send_to'' ec s, st'))"

definition v155_ds_send_to ::
  "('w, 'ep, 'opt) os \<Rightarrow> byte_t list list \<Rightarrow> 'ep \<Rightarrow> message_flags \<Rightarrow> ('w, 'ep) sk \<Rightarrow> (error_code \<times> nat) \<times> ('w, 'ep) sk" where
  "v155_ds_send_to Sys bufs destination flags st = v155_dss_send_to Sys bufs destination flags st"

definition v155_ds_async_send_to ::
  "('w, 'ep, 'opt) os \<Rightarrow> byte_t list list \<Rightarrow> 'ep \<Rightarrow> nat \<Rightarrow> bool \<Rightarrow> ('w, 'ep) sk \<Rightarrow> ('w, 'ep) sk" where
  "v155_ds_async_send_to Sys bufs destination handler cont st =
     v155_dss_async_send_to Sys bufs destination 0 handler cont st"

definition v155_ds_async_send_to_flags ::
  "('w, 'ep, 'opt) os \<Rightarrow> byte_t list list \<Rightarrow> 'ep \<Rightarrow> message_flags \<Rightarrow> nat \<Rightarrow> bool \<Rightarrow> ('w, 'ep) sk \<Rightarrow> ('w, 'ep) sk" where
  "v155_ds_async_send_to_flags Sys bufs destination flags handler cont st =
     v155_dss_async_send_to Sys bufs destination flags handler cont st"

subsection \<open>Receiving\<close>

definition v155_ds_receive_throw ::
  "('w, 'ep, 'opt) os \<Rightarrow> nat list \<Rightarrow> ('w, 'ep) sk \<Rightarrow> byte_t list thrown \<times> ('w, 'ep) sk" where
  "v155_ds_receive_throw Sys sizes st =
     (case v155_dss_receive Sys sizes 0 st of ((ec, bs), st') \<Rightarrow> (throw_error ''receive'' ec bs, st'))"

definition v155_ds_receive_flags_throw ::
  "('w, 'ep, 'opt) os \<Rightarrow> nat list \<Rightarrow> message_flags \<Rightarrow> ('w, 'ep) sk \<Rightarrow> byte_t list thrown \<times> ('w, 'ep) sk" where
  "v155_ds_receive_flags_throw Sys sizes flags st =
     (case v155_dss_receive Sys sizes flags st of ((ec, bs), st') \<Rightarrow> (throw_error ''receive'' ec bs, st'))"

definition v155_ds_receive ::
  "('w, 'ep, 'opt) os \<Rightarrow> nat list \<Rightarrow> message_flags \<Rightarrow> ('w, 'ep) sk \<Rightarrow> (error_code \<times> byte_t list) \<times> ('w, 'ep) sk" where
  "v155_ds_receive Sys sizes flags st = v155_dss_receive Sys sizes flags st"

definition v155_ds_async_receive ::
  "('w, 'ep, 'opt) os \<Rightarrow> nat list \<Rightarrow> nat \<Rightarrow> bool \<Rightarrow> ('w, 'ep) sk \<Rightarrow> ('w, 'ep) sk" where
  "v155_ds_async_receive Sys sizes handler cont st = v155_dss_async_receive Sys sizes 0 handler cont st"

definition v155_ds_async_receive_flags ::
  "('w, 'ep, 'opt) os \<Rightarrow> nat list \<Rightarrow> message_flags \<Rightarrow> nat \<Rightarrow> bool \<Rightarrow> ('w, 'ep) sk \<Rightarrow> ('w, 'ep) sk" where
  "v155_ds_async_receive_flags Sys sizes flags handler cont st =
     v155_dss_async_receive Sys sizes flags handler cont st"

text \<open>
  \<open>receive_from\<close> writes the sender into the caller's endpoint, also when it then throws; the endpoint
  after the call is part of the answer.
\<close>

definition v155_ds_receive_from_throw ::
  "('w, 'ep, 'opt) os \<Rightarrow> nat list \<Rightarrow> 'ep \<Rightarrow> ('w, 'ep) sk \<Rightarrow> byte_t list thrown \<times> 'ep \<times> ('w, 'ep) sk" where
  "v155_ds_receive_from_throw Sys sizes sender st =
     (case v155_dss_receive_from Sys sizes sender 0 st of ((ec, bs, sender'), st') \<Rightarrow>
        (throw_error ''receive_from'' ec bs, sender', st'))"

definition v155_ds_receive_from_flags_throw ::
  "('w, 'ep, 'opt) os \<Rightarrow> nat list \<Rightarrow> 'ep \<Rightarrow> message_flags \<Rightarrow> ('w, 'ep) sk \<Rightarrow> byte_t list thrown \<times> 'ep \<times> ('w, 'ep) sk" where
  "v155_ds_receive_from_flags_throw Sys sizes sender flags st =
     (case v155_dss_receive_from Sys sizes sender flags st of ((ec, bs, sender'), st') \<Rightarrow>
        (throw_error ''receive_from'' ec bs, sender', st'))"

definition v155_ds_receive_from ::
  "('w, 'ep, 'opt) os \<Rightarrow> nat list \<Rightarrow> 'ep \<Rightarrow> message_flags \<Rightarrow> ('w, 'ep) sk \<Rightarrow> (error_code \<times> byte_t list \<times> 'ep) \<times> ('w, 'ep) sk" where
  "v155_ds_receive_from Sys sizes sender flags st = v155_dss_receive_from Sys sizes sender flags st"

definition v155_ds_async_receive_from ::
  "('w, 'ep, 'opt) os \<Rightarrow> nat list \<Rightarrow> nat \<Rightarrow> bool \<Rightarrow> ('w, 'ep) sk \<Rightarrow> ('w, 'ep) sk" where
  "v155_ds_async_receive_from Sys sizes handler cont st = v155_dss_async_receive_from Sys sizes 0 handler cont st"

definition v155_ds_async_receive_from_flags ::
  "('w, 'ep, 'opt) os \<Rightarrow> nat list \<Rightarrow> message_flags \<Rightarrow> nat \<Rightarrow> bool \<Rightarrow> ('w, 'ep) sk \<Rightarrow> ('w, 'ep) sk" where
  "v155_ds_async_receive_from_flags Sys sizes flags handler cont st =
     v155_dss_async_receive_from Sys sizes flags handler cont st"

section \<open>Stream sockets\<close>

subsection \<open>Construction and moves\<close>

definition v155_ss_new ::
  "('w, 'ep) boost_socket \<Rightarrow> ('w, 'ep) kernel \<Rightarrow> ('w, 'ep) sk" where
  "v155_ss_new Bs k = bk_new Bs k"

definition v155_ss_new_protocol ::
  "('w, 'ep) boost_socket \<Rightarrow> protocol \<Rightarrow> ('w, 'ep) kernel \<Rightarrow> ('w, 'ep) new_socket" where
  "v155_ss_new_protocol Bs p k = bk_new_protocol Bs p k"

definition v155_ss_new_endpoint ::
  "('w, 'ep) boost_socket \<Rightarrow> 'ep \<Rightarrow> ('w, 'ep) kernel \<Rightarrow> ('w, 'ep) new_socket" where
  "v155_ss_new_endpoint Bs ep k = bk_new_endpoint Bs ep k"

definition v155_ss_new_native ::
  "('w, 'ep) boost_socket \<Rightarrow> protocol \<Rightarrow> nat \<Rightarrow> ('w, 'ep) kernel \<Rightarrow> ('w, 'ep) new_socket" where
  "v155_ss_new_native Bs p native k = bk_new_native Bs p native k"

definition v155_ss_move_construct ::
  "('w, 'ep) boost_socket \<Rightarrow> impl \<Rightarrow> impl \<times> impl" where
  "v155_ss_move_construct Bs other = bk_move_construct Bs other"

definition v155_ss_move_assign ::
  "('w, 'ep) boost_socket \<Rightarrow> impl \<Rightarrow> impl \<Rightarrow> ('w, 'ep) kernel \<Rightarrow> impl \<times> impl \<times> ('w, 'ep) kernel" where
  "v155_ss_move_assign Bs impl other k = bk_move_assign Bs impl other k"

definition v155_ss_converting_move_construct ::
  "('w, 'ep) boost_socket \<Rightarrow> (protocol \<Rightarrow> protocol) \<Rightarrow> protocol \<Rightarrow> impl \<Rightarrow> impl \<times> impl" where
  "v155_ss_converting_move_construct Bs convert other_default other = bk_converting_move_construct Bs convert other_default other"

definition v155_ss_converting_move_assign ::
  "('w, 'ep) boost_socket \<Rightarrow> (protocol \<Rightarrow> protocol) \<Rightarrow> protocol \<Rightarrow> impl \<Rightarrow> impl \<Rightarrow> ('w, 'ep) kernel \<Rightarrow>
     impl \<times> impl \<times> ('w, 'ep) kernel" where
  "v155_ss_converting_move_assign Bs convert other_default impl other k = bk_converting_move_assign Bs convert other_default impl other k"

subsection \<open>Sending and writing\<close>

definition v155_ss_send_throw ::
  "('w, 'ep, 'opt) os \<Rightarrow> byte_t list list \<Rightarrow> ('w, 'ep) sk \<Rightarrow> nat thrown \<times> ('w, 'ep) sk" where
  "v155_ss_send_throw Sys bufs st =
     (case v155_sss_send Sys bufs 0 st of ((ec, s), st') \<Rightarrow> (throw_error ''send'' ec s, st'))"

definition v155_ss_send_flags_throw ::
  "('w, 'ep, 'opt) os \<Rightarrow> byte_t list list \<Rightarrow> message_flags \<Rightarrow> ('w, 'ep) sk \<Rightarrow> nat thrown \<times> ('w, 'ep) sk" where
  "v155_ss_send_flags_throw Sys bufs flags st =
     (case v155_sss_send Sys bufs flags st of ((ec, s), st') \<Rightarrow> (throw_error ''send'' ec s, st'))"

definition v155_ss_send ::
  "('w, 'ep, 'opt) os \<Rightarrow> byte_t list list \<Rightarrow> message_flags \<Rightarrow> ('w, 'ep) sk \<Rightarrow> (error_code \<times> nat) \<times> ('w, 'ep) sk" where
  "v155_ss_send Sys bufs flags st = v155_sss_send Sys bufs flags st"

definition v155_ss_async_send ::
  "('w, 'ep, 'opt) os \<Rightarrow> byte_t list list \<Rightarrow> nat \<Rightarrow> bool \<Rightarrow> ('w, 'ep) sk \<Rightarrow> ('w, 'ep) sk" where
  "v155_ss_async_send Sys bufs handler cont st = v155_sss_async_send Sys bufs 0 handler cont st"

definition v155_ss_async_send_flags ::
  "('w, 'ep, 'opt) os \<Rightarrow> byte_t list list \<Rightarrow> message_flags \<Rightarrow> nat \<Rightarrow> bool \<Rightarrow> ('w, 'ep) sk \<Rightarrow> ('w, 'ep) sk" where
  "v155_ss_async_send_flags Sys bufs flags handler cont st =
     v155_sss_async_send Sys bufs flags handler cont st"

definition v155_ss_write_some_throw ::
  "('w, 'ep, 'opt) os \<Rightarrow> byte_t list list \<Rightarrow> ('w, 'ep) sk \<Rightarrow> nat thrown \<times> ('w, 'ep) sk" where
  "v155_ss_write_some_throw Sys bufs st =
     (case v155_sss_send Sys bufs 0 st of ((ec, s), st') \<Rightarrow> (throw_error ''write_some'' ec s, st'))"

definition v155_ss_write_some ::
  "('w, 'ep, 'opt) os \<Rightarrow> byte_t list list \<Rightarrow> ('w, 'ep) sk \<Rightarrow> (error_code \<times> nat) \<times> ('w, 'ep) sk" where
  "v155_ss_write_some Sys bufs st = v155_sss_send Sys bufs 0 st"

definition v155_ss_async_write_some ::
  "('w, 'ep, 'opt) os \<Rightarrow> byte_t list list \<Rightarrow> nat \<Rightarrow> bool \<Rightarrow> ('w, 'ep) sk \<Rightarrow> ('w, 'ep) sk" where
  "v155_ss_async_write_some Sys bufs handler cont st = v155_sss_async_send Sys bufs 0 handler cont st"

subsection \<open>Receiving and reading\<close>

definition v155_ss_receive_throw ::
  "('w, 'ep, 'opt) os \<Rightarrow> nat list \<Rightarrow> ('w, 'ep) sk \<Rightarrow> byte_t list thrown \<times> ('w, 'ep) sk" where
  "v155_ss_receive_throw Sys sizes st =
     (case v155_sss_receive Sys sizes 0 st of ((ec, bs), st') \<Rightarrow> (throw_error ''receive'' ec bs, st'))"

definition v155_ss_receive_flags_throw ::
  "('w, 'ep, 'opt) os \<Rightarrow> nat list \<Rightarrow> message_flags \<Rightarrow> ('w, 'ep) sk \<Rightarrow> byte_t list thrown \<times> ('w, 'ep) sk" where
  "v155_ss_receive_flags_throw Sys sizes flags st =
     (case v155_sss_receive Sys sizes flags st of ((ec, bs), st') \<Rightarrow> (throw_error ''receive'' ec bs, st'))"

definition v155_ss_receive ::
  "('w, 'ep, 'opt) os \<Rightarrow> nat list \<Rightarrow> message_flags \<Rightarrow> ('w, 'ep) sk \<Rightarrow> (error_code \<times> byte_t list) \<times> ('w, 'ep) sk" where
  "v155_ss_receive Sys sizes flags st = v155_sss_receive Sys sizes flags st"

definition v155_ss_async_receive ::
  "('w, 'ep, 'opt) os \<Rightarrow> nat list \<Rightarrow> nat \<Rightarrow> bool \<Rightarrow> ('w, 'ep) sk \<Rightarrow> ('w, 'ep) sk" where
  "v155_ss_async_receive Sys sizes handler cont st = v155_sss_async_receive Sys sizes 0 handler cont st"

definition v155_ss_async_receive_flags ::
  "('w, 'ep, 'opt) os \<Rightarrow> nat list \<Rightarrow> message_flags \<Rightarrow> nat \<Rightarrow> bool \<Rightarrow> ('w, 'ep) sk \<Rightarrow> ('w, 'ep) sk" where
  "v155_ss_async_receive_flags Sys sizes flags handler cont st =
     v155_sss_async_receive Sys sizes flags handler cont st"

definition v155_ss_read_some_throw ::
  "('w, 'ep, 'opt) os \<Rightarrow> nat list \<Rightarrow> ('w, 'ep) sk \<Rightarrow> byte_t list thrown \<times> ('w, 'ep) sk" where
  "v155_ss_read_some_throw Sys sizes st =
     (case v155_sss_receive Sys sizes 0 st of ((ec, bs), st') \<Rightarrow> (throw_error ''read_some'' ec bs, st'))"

definition v155_ss_read_some ::
  "('w, 'ep, 'opt) os \<Rightarrow> nat list \<Rightarrow> ('w, 'ep) sk \<Rightarrow> (error_code \<times> byte_t list) \<times> ('w, 'ep) sk" where
  "v155_ss_read_some Sys sizes st = v155_sss_receive Sys sizes 0 st"

definition v155_ss_async_read_some ::
  "('w, 'ep, 'opt) os \<Rightarrow> nat list \<Rightarrow> nat \<Rightarrow> bool \<Rightarrow> ('w, 'ep) sk \<Rightarrow> ('w, 'ep) sk" where
  "v155_ss_async_read_some Sys sizes handler cont st = v155_sss_async_receive Sys sizes 0 handler cont st"

section \<open>Acceptors\<close>

text \<open>
  \<open>basic_io_object\<close> constructs the implementation, and destroys it when a constructor throws or the
  object dies.
\<close>

definition v155_unwind :: "('w, 'ep, 'opt) os \<Rightarrow> ('w, 'ep) sk \<Rightarrow> ('w, 'ep) kernel" where
  "v155_unwind Sys st = v155_ass_destroy Sys (fst st) (snd st)"

definition v155_or_unwind ::
  "('w, 'ep, 'opt) os \<Rightarrow> string \<Rightarrow> error_code \<times> ('w, 'ep) sk \<Rightarrow> ('w, 'ep) constructed" where
  "v155_or_unwind Sys what r =
     (case r of (ec, st) \<Rightarrow> if failed ec then Inl ((what, ec), v155_unwind Sys st) else Inr st)"

definition v155_sa_new :: "('w, 'ep, 'opt) os \<Rightarrow> ('w, 'ep) kernel \<Rightarrow> ('w, 'ep) sk" where
  "v155_sa_new Sys k = (v155_ass_construct (v155_new_impl Sys), k)"

definition v155_sa_new_protocol ::
  "('w, 'ep, 'opt) os \<Rightarrow> protocol \<Rightarrow> ('w, 'ep) kernel \<Rightarrow> ('w, 'ep) constructed" where
  "v155_sa_new_protocol Sys p k = v155_or_unwind Sys ''open'' (v155_ass_open Sys p (v155_sa_new Sys k))"

text \<open>
  \<open>reuse\<close> is \<open>socket_base::reuse_address(true)\<close> and \<open>backlog\<close> Boost's \<open>max_connections\<close>.
\<close>

definition v155_sa_new_endpoint ::
  "('w, 'ep, 'opt) os \<Rightarrow> 'opt \<Rightarrow> int \<Rightarrow> 'ep \<Rightarrow> bool \<Rightarrow> ('w, 'ep) kernel \<Rightarrow> ('w, 'ep) constructed" where
  "v155_sa_new_endpoint Sys reuse backlog ep reuse_addr k =
     and_then (v155_or_unwind Sys ''open'' (v155_ass_open Sys (os_ep_protocol Sys ep) (v155_sa_new Sys k))) (\<lambda>st1.
     and_then (if reuse_addr then v155_or_unwind Sys ''set_option'' (v155_ass_set_option Sys reuse st1) else Inr st1) (\<lambda>st2.
     and_then (v155_or_unwind Sys ''bind'' (v155_ass_bind Sys ep st2)) (\<lambda>st3.
     v155_or_unwind Sys ''listen'' (v155_ass_listen Sys backlog st3))))"

definition v155_sa_new_native ::
  "('w, 'ep, 'opt) os \<Rightarrow> protocol \<Rightarrow> nat \<Rightarrow> ('w, 'ep) kernel \<Rightarrow> ('w, 'ep) constructed" where
  "v155_sa_new_native Sys p native k = v155_or_unwind Sys ''assign'' (v155_ass_assign Sys p native (v155_sa_new Sys k))"

definition v155_sa_move_construct :: "('w, 'ep, 'opt) os \<Rightarrow> impl \<Rightarrow> impl \<times> impl" where
  "v155_sa_move_construct Sys other = v155_ass_move_construct Sys (v155_new_impl Sys) other"

definition v155_sa_move_assign ::
  "('w, 'ep, 'opt) os \<Rightarrow> impl \<Rightarrow> impl \<Rightarrow> ('w, 'ep) kernel \<Rightarrow> impl \<times> impl \<times> ('w, 'ep) kernel" where
  "v155_sa_move_assign Sys impl other k = v155_ass_move_assign Sys impl other k"

text \<open>The new acceptor is constructed and then takes the converted implementation of the other.\<close>

definition v155_sa_converting_move_construct ::
  "('w, 'ep, 'opt) os \<Rightarrow> (protocol \<Rightarrow> protocol) \<Rightarrow> protocol \<Rightarrow> impl \<Rightarrow> impl \<times> impl" where
  "v155_sa_converting_move_construct Sys convert other_default other =
     v155_ass_converting_move_construct Sys convert other_default (v155_ass_construct (v155_new_impl Sys)) other"

definition v155_sa_converting_move_assign ::
  "('w, 'ep, 'opt) os \<Rightarrow> (protocol \<Rightarrow> protocol) \<Rightarrow> protocol \<Rightarrow> impl \<Rightarrow> impl \<Rightarrow> ('w, 'ep) kernel \<Rightarrow>
     impl \<times> impl \<times> ('w, 'ep) kernel" where
  "v155_sa_converting_move_assign Sys convert other_default impl other k =
     (case v155_sa_converting_move_construct Sys convert other_default other of (tmp, other') \<Rightarrow>
        case v155_sa_move_assign Sys impl tmp k of (impl', tmp', k') \<Rightarrow>
          (impl', other', v155_ass_destroy Sys tmp' k'))"

subsection \<open>Opening, listening, closing\<close>

definition v155_sa_open_throw :: "('w, 'ep, 'opt) os \<Rightarrow> protocol \<Rightarrow> ('w, 'ep) sk \<Rightarrow> unit thrown \<times> ('w, 'ep) sk" where
  "v155_sa_open_throw Sys p st = (case v155_ass_open Sys p st of (ec, st') \<Rightarrow> (throw_error ''open'' ec (), st'))"

definition v155_sa_open :: "('w, 'ep, 'opt) os \<Rightarrow> protocol \<Rightarrow> ('w, 'ep) sk \<Rightarrow> error_code \<times> ('w, 'ep) sk" where
  "v155_sa_open Sys p st = v155_ass_open Sys p st"

definition v155_sa_assign_throw ::
  "('w, 'ep, 'opt) os \<Rightarrow> protocol \<Rightarrow> nat \<Rightarrow> ('w, 'ep) sk \<Rightarrow> unit thrown \<times> ('w, 'ep) sk" where
  "v155_sa_assign_throw Sys p native st =
     (case v155_ass_assign Sys p native st of (ec, st') \<Rightarrow> (throw_error ''assign'' ec (), st'))"

definition v155_sa_assign :: "('w, 'ep, 'opt) os \<Rightarrow> protocol \<Rightarrow> nat \<Rightarrow> ('w, 'ep) sk \<Rightarrow> error_code \<times> ('w, 'ep) sk" where
  "v155_sa_assign Sys p native st = v155_ass_assign Sys p native st"

definition v155_sa_is_open :: "('w, 'ep) sk \<Rightarrow> bool" where
  "v155_sa_is_open st = v155_ass_is_open (fst st)"

definition v155_sa_bind_throw :: "('w, 'ep, 'opt) os \<Rightarrow> 'ep \<Rightarrow> ('w, 'ep) sk \<Rightarrow> unit thrown \<times> ('w, 'ep) sk" where
  "v155_sa_bind_throw Sys ep st = (case v155_ass_bind Sys ep st of (ec, st') \<Rightarrow> (throw_error ''bind'' ec (), st'))"

definition v155_sa_bind :: "('w, 'ep, 'opt) os \<Rightarrow> 'ep \<Rightarrow> ('w, 'ep) sk \<Rightarrow> error_code \<times> ('w, 'ep) sk" where
  "v155_sa_bind Sys ep st = v155_ass_bind Sys ep st"

definition v155_sa_listen_throw :: "('w, 'ep, 'opt) os \<Rightarrow> int \<Rightarrow> ('w, 'ep) sk \<Rightarrow> unit thrown \<times> ('w, 'ep) sk" where
  "v155_sa_listen_throw Sys backlog st =
     (case v155_ass_listen Sys backlog st of (ec, st') \<Rightarrow> (throw_error ''listen'' ec (), st'))"

definition v155_sa_listen :: "('w, 'ep, 'opt) os \<Rightarrow> int \<Rightarrow> ('w, 'ep) sk \<Rightarrow> error_code \<times> ('w, 'ep) sk" where
  "v155_sa_listen Sys backlog st = v155_ass_listen Sys backlog st"

definition v155_sa_close_throw ::
  "('w, 'ep, 'opt) os \<Rightarrow> (state_type \<Rightarrow> 'w \<Rightarrow> int \<times> 'w) \<Rightarrow> ('w, 'ep) sk \<Rightarrow> unit thrown \<times> ('w, 'ep) sk" where
  "v155_sa_close_throw Sys close_invalid st =
     (case v155_ass_close Sys close_invalid st of (ec, st') \<Rightarrow> (throw_error ''close'' ec (), st'))"

definition v155_sa_close ::
  "('w, 'ep, 'opt) os \<Rightarrow> (state_type \<Rightarrow> 'w \<Rightarrow> int \<times> 'w) \<Rightarrow> ('w, 'ep) sk \<Rightarrow> error_code \<times> ('w, 'ep) sk" where
  "v155_sa_close Sys close_invalid st = v155_ass_close Sys close_invalid st"

definition v155_sa_native_handle :: "('w, 'ep) sk \<Rightarrow> nat option" where
  "v155_sa_native_handle st = v155_ass_native_handle (fst st)"

definition v155_sa_cancel_throw :: "('w, 'ep) sk \<Rightarrow> unit thrown \<times> ('w, 'ep) sk" where
  "v155_sa_cancel_throw st = (case v155_ass_cancel st of (ec, st') \<Rightarrow> (throw_error ''cancel'' ec (), st'))"

definition v155_sa_cancel :: "('w, 'ep) sk \<Rightarrow> error_code \<times> ('w, 'ep) sk" where
  "v155_sa_cancel st = v155_ass_cancel st"

subsection \<open>Options and modes\<close>

definition v155_sa_set_option_throw :: "('w, 'ep, 'opt) os \<Rightarrow> 'opt \<Rightarrow> ('w, 'ep) sk \<Rightarrow> unit thrown \<times> ('w, 'ep) sk" where
  "v155_sa_set_option_throw Sys opt st =
     (case v155_ass_set_option Sys opt st of (ec, st') \<Rightarrow> (throw_error ''set_option'' ec (), st'))"

definition v155_sa_set_option :: "('w, 'ep, 'opt) os \<Rightarrow> 'opt \<Rightarrow> ('w, 'ep) sk \<Rightarrow> error_code \<times> ('w, 'ep) sk" where
  "v155_sa_set_option Sys opt st = v155_ass_set_option Sys opt st"

definition v155_sa_get_option_throw ::
  "('w, 'ep, 'opt) os \<Rightarrow> 'opt \<Rightarrow> ('w, 'ep) sk \<Rightarrow> byte_t list option thrown \<times> ('w, 'ep) sk" where
  "v155_sa_get_option_throw Sys opt st =
     (case v155_ass_get_option Sys opt st of ((ec, v), st') \<Rightarrow> (throw_error ''get_option'' ec v, st'))"

definition v155_sa_get_option ::
  "('w, 'ep, 'opt) os \<Rightarrow> 'opt \<Rightarrow> ('w, 'ep) sk \<Rightarrow> (error_code \<times> byte_t list option) \<times> ('w, 'ep) sk" where
  "v155_sa_get_option Sys opt st = v155_ass_get_option Sys opt st"

definition v155_sa_io_control_throw ::
  "('w, 'ep, 'opt) os \<Rightarrow> int \<Rightarrow> byte_t list \<Rightarrow> ('w, 'ep) sk \<Rightarrow> byte_t list thrown \<times> ('w, 'ep) sk" where
  "v155_sa_io_control_throw Sys name data st =
     (case v155_ass_io_control Sys name data st of ((ec, data'), st') \<Rightarrow> (throw_error ''io_control'' ec data', st'))"

definition v155_sa_io_control ::
  "('w, 'ep, 'opt) os \<Rightarrow> int \<Rightarrow> byte_t list \<Rightarrow> ('w, 'ep) sk \<Rightarrow> (error_code \<times> byte_t list) \<times> ('w, 'ep) sk" where
  "v155_sa_io_control Sys name data st = v155_ass_io_control Sys name data st"

definition v155_sa_non_blocking :: "('w, 'ep) sk \<Rightarrow> bool" where
  "v155_sa_non_blocking st = v155_ass_non_blocking (fst st)"

definition v155_sa_set_non_blocking_throw :: "('w, 'ep, 'opt) os \<Rightarrow> bool \<Rightarrow> ('w, 'ep) sk \<Rightarrow> unit thrown \<times> ('w, 'ep) sk" where
  "v155_sa_set_non_blocking_throw Sys mode st =
     (case v155_ass_set_non_blocking Sys mode st of (ec, st') \<Rightarrow> (throw_error ''non_blocking'' ec (), st'))"

definition v155_sa_set_non_blocking :: "('w, 'ep, 'opt) os \<Rightarrow> bool \<Rightarrow> ('w, 'ep) sk \<Rightarrow> error_code \<times> ('w, 'ep) sk" where
  "v155_sa_set_non_blocking Sys mode st = v155_ass_set_non_blocking Sys mode st"

definition v155_sa_native_non_blocking :: "('w, 'ep) sk \<Rightarrow> bool" where
  "v155_sa_native_non_blocking st = v155_ass_native_non_blocking (fst st)"

definition v155_sa_set_native_non_blocking_throw ::
  "('w, 'ep, 'opt) os \<Rightarrow> bool \<Rightarrow> ('w, 'ep) sk \<Rightarrow> unit thrown \<times> ('w, 'ep) sk" where
  "v155_sa_set_native_non_blocking_throw Sys mode st =
     (case v155_ass_set_native_non_blocking Sys mode st of (ec, st') \<Rightarrow> (throw_error ''native_non_blocking'' ec (), st'))"

definition v155_sa_set_native_non_blocking :: "('w, 'ep, 'opt) os \<Rightarrow> bool \<Rightarrow> ('w, 'ep) sk \<Rightarrow> error_code \<times> ('w, 'ep) sk" where
  "v155_sa_set_native_non_blocking Sys mode st = v155_ass_set_native_non_blocking Sys mode st"

definition v155_sa_local_endpoint_throw :: "('w, 'ep, 'opt) os \<Rightarrow> ('w, 'ep) sk \<Rightarrow> 'ep thrown" where
  "v155_sa_local_endpoint_throw Sys st = (case v155_ass_local_endpoint Sys st of (ec, ep) \<Rightarrow> throw_error ''local_endpoint'' ec ep)"

definition v155_sa_local_endpoint :: "('w, 'ep, 'opt) os \<Rightarrow> ('w, 'ep) sk \<Rightarrow> error_code \<times> 'ep" where
  "v155_sa_local_endpoint Sys st = v155_ass_local_endpoint Sys st"

subsection \<open>Accepting into a socket\<close>

text \<open>
  With a caller's endpoint, a null pointer or a reference to it; the peer's endpoint is part of the
  answer only for the forms that take one.
\<close>

definition v155_sa_accept_throw ::
  "('w, 'ep, 'opt) os \<Rightarrow> impl \<Rightarrow> impl \<Rightarrow> ('w, 'ep) kernel \<Rightarrow> unit thrown \<times> impl \<times> ('w, 'ep) kernel" where
  "v155_sa_accept_throw Sys impl peer k =
     (case v155_ass_accept Sys impl peer k of ((ec, ep), st') \<Rightarrow> (throw_error ''accept'' ec (), st'))"

definition v155_sa_accept ::
  "('w, 'ep, 'opt) os \<Rightarrow> impl \<Rightarrow> impl \<Rightarrow> ('w, 'ep) kernel \<Rightarrow> error_code \<times> impl \<times> ('w, 'ep) kernel" where
  "v155_sa_accept Sys impl peer k = (case v155_ass_accept Sys impl peer k of ((ec, ep), st') \<Rightarrow> (ec, st'))"

definition v155_sa_accept_endpoint_throw ::
  "('w, 'ep, 'opt) os \<Rightarrow> impl \<Rightarrow> impl \<Rightarrow> ('w, 'ep) kernel \<Rightarrow> unit thrown \<times> 'ep option \<times> impl \<times> ('w, 'ep) kernel" where
  "v155_sa_accept_endpoint_throw Sys impl peer k =
     (case v155_ass_accept Sys impl peer k of ((ec, ep), st') \<Rightarrow> (throw_error ''accept'' ec (), ep, st'))"

definition v155_sa_accept_endpoint ::
  "('w, 'ep, 'opt) os \<Rightarrow> impl \<Rightarrow> impl \<Rightarrow> ('w, 'ep) kernel \<Rightarrow> (error_code \<times> 'ep option) \<times> impl \<times> ('w, 'ep) kernel" where
  "v155_sa_accept_endpoint Sys impl peer k = v155_ass_accept Sys impl peer k"

definition v155_sa_async_accept ::
  "('w, 'ep, 'opt) os \<Rightarrow> bool \<Rightarrow> nat \<Rightarrow> bool \<Rightarrow> ('w, 'ep) sk \<Rightarrow> ('w, 'ep) sk" where
  "v155_sa_async_accept Sys peer_is_open handler cont st =
     v155_ass_async_accept Sys peer_is_open False handler cont st"

definition v155_sa_async_accept_endpoint ::
  "('w, 'ep, 'opt) os \<Rightarrow> bool \<Rightarrow> nat \<Rightarrow> bool \<Rightarrow> ('w, 'ep) sk \<Rightarrow> ('w, 'ep) sk" where
  "v155_sa_async_accept_endpoint Sys peer_is_open handler cont st =
     v155_ass_async_accept Sys peer_is_open True handler cont st"

end
