(* ===== verification/Boost155_Copies.thy ===== *)
theory Boost155_Copies imports Boost155_Fronts Local_Copies begin

text \<open>
  The helper for Boost 1.55 against the one for 1.74: which functions are the same, and in what the
  services differ.
\<close>

section \<open>Equal functions\<close>

named_theorems v155_same \<open>functions of the helper for Boost 1.55 that equal those of the helper for 1.74\<close>

lemma v155_base_same [v155_same]:
  "v155_base_is_open = base_is_open"
  "v155_base_native_handle = base_native_handle"
  "v155_construct = construct"
  "v155_base_move_construct = base_move_construct"
  "v155_destroy = destroy"
  "v155_base_move_assign = base_move_assign"
  "v155_base_cancel = base_cancel"
  "v155_do_open = do_open"
  "v155_do_assign = do_assign"
  "v155_start_op = start_op"
  "v155_start_connect_op = start_connect_op"
  "v155_base_at_mark = base_at_mark"
  "v155_base_available = base_available"
  "v155_base_listen = base_listen"
  "v155_base_io_control = base_io_control"
  "v155_base_non_blocking = base_non_blocking"
  "v155_base_set_non_blocking = base_set_non_blocking"
  "v155_base_native_non_blocking = base_native_non_blocking"
  "v155_base_set_native_non_blocking = base_set_native_non_blocking"
  "v155_poll_until = poll_until"
  "v155_base_send = base_send"
  "v155_base_send_null = base_send_null"
  "v155_base_async_send_null = base_async_send_null"
  "v155_base_receive = base_receive"
  "v155_base_receive_null = base_receive_null"
  "v155_base_async_receive = base_async_receive"
  "v155_base_async_receive_null = base_async_receive_null"
  "v155_base_receive_with_flags = base_receive_with_flags"
  "v155_base_receive_with_flags_null = base_receive_with_flags_null"
  "v155_base_async_receive_with_flags_null = base_async_receive_with_flags_null"
  by (unfold v155_same
      v155_base_is_open_def base_is_open_def v155_base_native_handle_def base_native_handle_def
      v155_construct_def construct_def v155_base_move_construct_def base_move_construct_def
      v155_destroy_def destroy_def v155_base_move_assign_def base_move_assign_def v155_base_cancel_def
      base_cancel_def v155_do_open_def do_open_def v155_do_assign_def do_assign_def v155_start_op_def
      start_op_def v155_start_connect_op_def start_connect_op_def v155_base_at_mark_def base_at_mark_def
      v155_base_available_def base_available_def v155_base_listen_def base_listen_def
      v155_base_io_control_def base_io_control_def v155_base_non_blocking_def base_non_blocking_def
      v155_base_set_non_blocking_def base_set_non_blocking_def v155_base_native_non_blocking_def
      base_native_non_blocking_def v155_base_set_native_non_blocking_def
      base_set_native_non_blocking_def v155_poll_until_def poll_until_def v155_base_send_def
      base_send_def v155_base_send_null_def base_send_null_def v155_base_async_send_null_def
      base_async_send_null_def v155_base_receive_def base_receive_def v155_base_receive_null_def
      base_receive_null_def v155_base_async_receive_def base_async_receive_def
      v155_base_async_receive_null_def base_async_receive_null_def v155_base_receive_with_flags_def
      base_receive_with_flags_def v155_base_receive_with_flags_null_def base_receive_with_flags_null_def
      v155_base_async_receive_with_flags_null_def base_async_receive_with_flags_null_def)
    (rule refl)+

lemma v155_service_same [v155_same]:
  "v155_new_impl = new_impl"
  "v155_move_construct = move_construct"
  "v155_move_assign = move_assign"
  "v155_converting_move_construct = converting_move_construct"
  "v155_svc_open = svc_open"
  "v155_svc_assign = svc_assign"
  "v155_svc_native_handle = svc_native_handle"
  "v155_svc_bind = svc_bind"
  "v155_svc_set_option = svc_set_option"
  "v155_svc_get_option = svc_get_option"
  "v155_svc_local_endpoint = svc_local_endpoint"
  "v155_svc_remote_endpoint = svc_remote_endpoint"
  "v155_svc_send_to = svc_send_to"
  "v155_svc_send_to_null = svc_send_to_null"
  "v155_svc_async_send_to = svc_async_send_to"
  "v155_svc_async_send_to_null = svc_async_send_to_null"
  "v155_svc_receive_from = svc_receive_from"
  "v155_svc_receive_from_null = svc_receive_from_null"
  "v155_svc_async_receive_from = svc_async_receive_from"
  "v155_svc_async_receive_from_null = svc_async_receive_from_null"
  "v155_svc_accept = svc_accept"
  "v155_svc_connect = svc_connect"
  "v155_svc_async_connect = svc_async_connect"
  by (unfold v155_same
      v155_new_impl_def new_impl_def v155_move_construct_def move_construct_def v155_move_assign_def
      move_assign_def v155_converting_move_construct_def converting_move_construct_def v155_svc_open_def
      svc_open_def v155_svc_assign_def svc_assign_def v155_svc_native_handle_def svc_native_handle_def
      v155_svc_bind_def svc_bind_def v155_svc_set_option_def svc_set_option_def v155_svc_get_option_def
      svc_get_option_def v155_svc_local_endpoint_def svc_local_endpoint_def v155_svc_remote_endpoint_def
      svc_remote_endpoint_def v155_svc_send_to_def svc_send_to_def v155_svc_send_to_null_def
      svc_send_to_null_def v155_svc_async_send_to_def svc_async_send_to_def
      v155_svc_async_send_to_null_def svc_async_send_to_null_def v155_svc_receive_from_def
      svc_receive_from_def v155_svc_receive_from_null_def svc_receive_from_null_def
      v155_svc_async_receive_from_def svc_async_receive_from_def v155_svc_async_receive_from_null_def
      svc_async_receive_from_null_def v155_svc_accept_def svc_accept_def v155_svc_connect_def
      svc_connect_def v155_svc_async_connect_def svc_async_connect_def)
    (rule refl)+

lemma v155_shutdown_same [v155_same]: "v155_base_shutdown Sys what st = svc_shutdown Sys what st"
  by (simp add: v155_base_shutdown_def svc_shutdown_def)

section \<open>The local copies\<close>

named_theorems v155_local_same \<open>functions of the 1.55 local copies that equal the originals\<close>

lemma v155_local_base_same [v155_local_same]:
  "v155_local_base_is_open = v155_base_is_open"
  "v155_local_base_native_handle = v155_base_native_handle"
  "v155_local_construct = v155_construct"
  "v155_local_base_move_construct = v155_base_move_construct"
  "v155_local_destroy = v155_destroy"
  "v155_local_base_move_assign = v155_base_move_assign"
  "v155_local_base_close = v155_base_close"
  "v155_local_base_cancel = v155_base_cancel"
  "v155_local_do_open = v155_do_open"
  "v155_local_do_assign = v155_do_assign"
  "v155_local_start_op = v155_start_op"
  "v155_local_start_accept_op = v155_start_accept_op"
  "v155_local_start_connect_op = v155_start_connect_op"
  "v155_local_base_at_mark = v155_base_at_mark"
  "v155_local_base_available = v155_base_available"
  "v155_local_base_listen = v155_base_listen"
  "v155_local_base_io_control = v155_base_io_control"
  "v155_local_base_non_blocking = v155_base_non_blocking"
  "v155_local_base_set_non_blocking = v155_base_set_non_blocking"
  "v155_local_base_native_non_blocking = v155_base_native_non_blocking"
  "v155_local_base_set_native_non_blocking = v155_base_set_native_non_blocking"
  "v155_local_poll_until = v155_poll_until"
  "v155_local_base_shutdown = v155_base_shutdown"
  "v155_local_base_send = v155_base_send"
  "v155_local_base_send_null = v155_base_send_null"
  "v155_local_base_async_send = v155_base_async_send"
  "v155_local_base_async_send_null = v155_base_async_send_null"
  "v155_local_base_receive = v155_base_receive"
  "v155_local_base_receive_null = v155_base_receive_null"
  "v155_local_base_async_receive_null = v155_base_async_receive_null"
  "v155_local_base_receive_with_flags = v155_base_receive_with_flags"
  "v155_local_base_receive_with_flags_null = v155_base_receive_with_flags_null"
  "v155_local_base_async_receive_with_flags_null = v155_base_async_receive_with_flags_null"
  by (unfold v155_local_same
      v155_local_base_is_open_def v155_base_is_open_def v155_local_base_native_handle_def
      v155_base_native_handle_def v155_local_construct_def v155_construct_def
      v155_local_base_move_construct_def v155_base_move_construct_def v155_local_destroy_def
      v155_destroy_def v155_local_base_move_assign_def v155_base_move_assign_def
      v155_local_base_close_def v155_base_close_def v155_local_base_cancel_def v155_base_cancel_def
      v155_local_do_open_def v155_do_open_def v155_local_do_assign_def v155_do_assign_def
      v155_local_start_op_def v155_start_op_def v155_local_start_accept_op_def v155_start_accept_op_def
      v155_local_start_connect_op_def v155_start_connect_op_def v155_local_base_at_mark_def
      v155_base_at_mark_def v155_local_base_available_def v155_base_available_def
      v155_local_base_listen_def v155_base_listen_def v155_local_base_io_control_def
      v155_base_io_control_def v155_local_base_non_blocking_def v155_base_non_blocking_def
      v155_local_base_set_non_blocking_def v155_base_set_non_blocking_def
      v155_local_base_native_non_blocking_def v155_base_native_non_blocking_def
      v155_local_base_set_native_non_blocking_def v155_base_set_native_non_blocking_def
      v155_local_poll_until_def v155_poll_until_def v155_local_base_shutdown_def v155_base_shutdown_def
      v155_local_base_send_def v155_base_send_def v155_local_base_send_null_def v155_base_send_null_def
      v155_local_base_async_send_def v155_base_async_send_def v155_local_base_async_send_null_def
      v155_base_async_send_null_def v155_local_base_receive_def v155_base_receive_def
      v155_local_base_receive_null_def v155_base_receive_null_def v155_local_base_async_receive_null_def
      v155_base_async_receive_null_def v155_local_base_receive_with_flags_def
      v155_base_receive_with_flags_def v155_local_base_receive_with_flags_null_def
      v155_base_receive_with_flags_null_def v155_local_base_async_receive_with_flags_null_def
      v155_base_async_receive_with_flags_null_def)
    (rule refl)+

lemma v155_local_service_same [v155_local_same]:
  "v155_local_new_impl = v155_new_impl"
  "v155_local_move_construct = v155_move_construct"
  "v155_local_move_assign = v155_move_assign"
  "v155_local_converting_move_construct = v155_converting_move_construct"
  "v155_local_svc_open = v155_svc_open"
  "v155_local_svc_assign = v155_svc_assign"
  "v155_local_svc_native_handle = v155_svc_native_handle"
  "v155_local_svc_bind = v155_svc_bind"
  "v155_local_svc_set_option = v155_svc_set_option"
  "v155_local_svc_get_option = v155_svc_get_option"
  "v155_local_svc_local_endpoint = v155_svc_local_endpoint"
  "v155_local_svc_remote_endpoint = v155_svc_remote_endpoint"
  "v155_local_svc_send_to = v155_svc_send_to"
  "v155_local_svc_send_to_null = v155_svc_send_to_null"
  "v155_local_svc_async_send_to = v155_svc_async_send_to"
  "v155_local_svc_async_send_to_null = v155_svc_async_send_to_null"
  "v155_local_svc_receive_from = v155_svc_receive_from"
  "v155_local_svc_receive_from_null = v155_svc_receive_from_null"
  "v155_local_svc_async_receive_from_null = v155_svc_async_receive_from_null"
  "v155_local_svc_accept = v155_svc_accept"
  "v155_local_svc_async_accept = v155_svc_async_accept"
  "v155_local_svc_connect = v155_svc_connect"
  "v155_local_svc_async_connect = v155_svc_async_connect"
  by (unfold v155_local_same
      v155_local_new_impl_def v155_new_impl_def v155_local_move_construct_def v155_move_construct_def
      v155_local_move_assign_def v155_move_assign_def v155_local_converting_move_construct_def
      v155_converting_move_construct_def v155_local_svc_open_def v155_svc_open_def
      v155_local_svc_assign_def v155_svc_assign_def v155_local_svc_native_handle_def
      v155_svc_native_handle_def v155_local_svc_bind_def v155_svc_bind_def v155_local_svc_set_option_def
      v155_svc_set_option_def v155_local_svc_get_option_def v155_svc_get_option_def
      v155_local_svc_local_endpoint_def v155_svc_local_endpoint_def v155_local_svc_remote_endpoint_def
      v155_svc_remote_endpoint_def v155_local_svc_send_to_def v155_svc_send_to_def
      v155_local_svc_send_to_null_def v155_svc_send_to_null_def v155_local_svc_async_send_to_def
      v155_svc_async_send_to_def v155_local_svc_async_send_to_null_def v155_svc_async_send_to_null_def
      v155_local_svc_receive_from_def v155_svc_receive_from_def v155_local_svc_receive_from_null_def
      v155_svc_receive_from_null_def v155_local_svc_async_receive_from_null_def
      v155_svc_async_receive_from_null_def v155_local_svc_accept_def v155_svc_accept_def
      v155_local_svc_async_accept_def v155_svc_async_accept_def v155_local_svc_connect_def
      v155_svc_connect_def v155_local_svc_async_connect_def v155_svc_async_connect_def)
    (rule refl)+

section \<open>Converting moves of the acceptor\<close>

lemma v155_sa_converting_moves:
  "v155_sa_converting_move_construct = bs_converting_move_construct"
  "v155_sa_converting_move_assign = bs_converting_move_assign"
  by (simp_all add: fun_eq_iff v155_sa_converting_move_construct_def v155_sa_converting_move_assign_def
      bs_converting_move_construct_def bs_converting_move_assign_def v155_sa_move_assign_def
      v155_ass_move_assign_def v155_ass_destroy_def v155_ass_construct_def v155_ass_converting_move_construct_def
      v155_same converting_move_construct_def base_move_construct_def construct_def)

end
