(* ===== verification/Boost155_Requests.thy ===== *)
theory Boost155_Requests imports Boost155_Copies begin

text \<open>
  The helper for Boost 1.55 answers requests as the one for 1.74 does, where both have a call for them,
  but for the operation of a send and the flags of an accept.
\<close>

section \<open>The view\<close>

fun stateless_op :: "'ep reactor_op \<Rightarrow> 'ep reactor_op" where
  "stateless_op (Send_op s st bufs flags h) = Send_op_stateless s bufs flags h"
| "stateless_op p = p"

fun accepts :: "'ep reactor_op \<Rightarrow> bool" where
  "accepts (Accept_op s st p wants h) = True"
| "accepts p = False"

text \<open>
  An accept is queued as a continuation, and tried at once only when its handler is one.  An accept
  that is refused because its peer is open never reaches the queue.
\<close>

fun v155_started :: "'ep started_op \<Rightarrow> 'ep started_op" where
  "v155_started (ty, s, p, ec, cont, now) =
     (ty, s, stateless_op p, ec, accepts p \<or> cont, if accepts p then cont else now)"

fun v155_posted :: "'ep posted_op \<Rightarrow> 'ep posted_op" where
  "v155_posted (p, ec, cont) = (stateless_op p, ec, accepts p \<and> ec \<noteq> already_open \<or> cont)"

definition as_v155 :: "('w, 'ep, 'a) base_st \<Rightarrow> ('w, 'ep, 'a) base_st" where
  "as_v155 = view_state v155_started v155_posted"

interpretation v155_view: kernel_view v155_started v155_posted
  by unfold_locales auto

section \<open>Requests\<close>

text \<open>\<open>None\<close> for a request this service has no function for.\<close>

fun v155_request ::
  "('w, 'ep, 'opt) os \<Rightarrow> (state_type \<Rightarrow> 'w \<Rightarrow> int \<times> 'w) \<Rightarrow> ('ep, 'opt) request \<Rightarrow> ('w, 'ep) sk \<Rightarrow>
     ('ep answer \<times> ('w, 'ep) sk) option" where
  "v155_request Sys ci (Open p) st = Some (map_prod Code id (v155_svc_open Sys p st))"
| "v155_request Sys ci (Assign p native) st = Some (map_prod Code id (v155_svc_assign Sys p native st))"
| "v155_request Sys ci Close st = Some (map_prod Code id (v155_base_close Sys ci st))"
| "v155_request Sys ci Cancel st = Some (map_prod Code id (v155_base_cancel st))"
| "v155_request Sys ci (Bind ep) st = Some (map_prod Code id (v155_svc_bind Sys ep st))"
| "v155_request Sys ci (Listen n) st = Some (map_prod Code id (v155_base_listen Sys n st))"
| "v155_request Sys ci (Set_option opt) st = Some (map_prod Code id (v155_svc_set_option Sys opt st))"
| "v155_request Sys ci (Io_control n bs) st =
     Some (map_prod (\<lambda>(ec, bs). Data ec bs) id (v155_base_io_control Sys n bs st))"
| "v155_request Sys ci (Set_non_blocking m) st = Some (map_prod Code id (v155_base_set_non_blocking Sys m st))"
| "v155_request Sys ci (Set_native_non_blocking m) st =
     Some (map_prod Code id (v155_base_set_native_non_blocking Sys m st))"
| "v155_request Sys ci (Connect ep) st = Some (map_prod Code id (v155_svc_connect Sys ep st))"
| "v155_request Sys ci (Async_connect ep h cont) st = Some (Started, v155_svc_async_connect Sys ep h cont st)"
| "v155_request Sys ci (Shutdown what) st = Some (map_prod Code id (v155_base_shutdown Sys what st))"
| "v155_request Sys ci (Wait w) st = None"
| "v155_request Sys ci (Async_wait w h cont) st = None"
| "v155_request Sys ci (Send bufs flags) st =
     Some (map_prod (\<lambda>(ec, n). Count ec n) id (v155_base_send Sys bufs flags st))"
| "v155_request Sys ci (Async_send bufs flags h cont) st =
     Some (Started, v155_base_async_send Sys bufs flags h cont st)"
| "v155_request Sys ci (Receive ns flags) st =
     Some (map_prod (\<lambda>(ec, bs). Data ec bs) id (v155_base_receive Sys ns flags st))"
| "v155_request Sys ci (Async_receive ns flags h cont) st =
     Some (Started, v155_base_async_receive Sys ns flags h cont st)"
| "v155_request Sys ci (Async_receive_with_flags ns flags h cont) st =
     Some (Started, v155_base_async_receive_with_flags Sys ns flags h cont st)"
| "v155_request Sys ci (Send_datagram bufs ep flags) st =
     Some (map_prod (\<lambda>(ec, n). Count ec n) id (v155_svc_send_to Sys bufs ep flags st))"
| "v155_request Sys ci (Async_send_datagram bufs ep flags h cont) st =
     Some (Started, v155_svc_async_send_to Sys bufs ep flags h cont st)"
| "v155_request Sys ci (Receive_datagram ns ep flags) st =
     Some (map_prod (\<lambda>(ec, bs, ep). Datagram ec bs ep) id (v155_svc_receive_from Sys ns ep flags st))"
| "v155_request Sys ci (Async_receive_datagram ns flags h cont) st =
     Some (Started, v155_svc_async_receive_from Sys ns flags h cont st)"
| "v155_request Sys ci (Async_accept_into peer_open wants h cont) st =
     Some (Started, v155_svc_async_accept Sys peer_open wants h cont st)"
| "v155_request Sys ci (Async_accept_new wants h cont) st = None"
| "v155_request Sys ci Renew st =
     Some (Started, (v155_construct (v155_new_impl Sys), v155_destroy Sys (fst st) (snd st)))"

fun v155_local_request ::
  "('w, 'ep, 'opt) os \<Rightarrow> (state_type \<Rightarrow> 'w \<Rightarrow> int \<times> 'w) \<Rightarrow> ('ep, 'opt) request \<Rightarrow> ('w, 'ep) sk \<Rightarrow>
     ('ep answer \<times> ('w, 'ep) sk) option" where
  "v155_local_request Sys ci (Open p) st = Some (map_prod Code id (v155_local_svc_open Sys p st))"
| "v155_local_request Sys ci (Assign p native) st = Some (map_prod Code id (v155_local_svc_assign Sys p native st))"
| "v155_local_request Sys ci Close st = Some (map_prod Code id (v155_local_base_close Sys ci st))"
| "v155_local_request Sys ci Cancel st = Some (map_prod Code id (v155_local_base_cancel st))"
| "v155_local_request Sys ci (Bind ep) st = Some (map_prod Code id (v155_local_svc_bind Sys ep st))"
| "v155_local_request Sys ci (Listen n) st = Some (map_prod Code id (v155_local_base_listen Sys n st))"
| "v155_local_request Sys ci (Set_option opt) st = Some (map_prod Code id (v155_local_svc_set_option Sys opt st))"
| "v155_local_request Sys ci (Io_control n bs) st =
     Some (map_prod (\<lambda>(ec, bs). Data ec bs) id (v155_local_base_io_control Sys n bs st))"
| "v155_local_request Sys ci (Set_non_blocking m) st = Some (map_prod Code id (v155_local_base_set_non_blocking Sys m st))"
| "v155_local_request Sys ci (Set_native_non_blocking m) st =
     Some (map_prod Code id (v155_local_base_set_native_non_blocking Sys m st))"
| "v155_local_request Sys ci (Connect ep) st = Some (map_prod Code id (v155_local_svc_connect Sys ep st))"
| "v155_local_request Sys ci (Async_connect ep h cont) st = Some (Started, v155_local_svc_async_connect Sys ep h cont st)"
| "v155_local_request Sys ci (Shutdown what) st = Some (map_prod Code id (v155_local_base_shutdown Sys what st))"
| "v155_local_request Sys ci (Wait w) st = None"
| "v155_local_request Sys ci (Async_wait w h cont) st = None"
| "v155_local_request Sys ci (Send bufs flags) st =
     Some (map_prod (\<lambda>(ec, n). Count ec n) id (v155_local_base_send Sys bufs flags st))"
| "v155_local_request Sys ci (Async_send bufs flags h cont) st =
     Some (Started, v155_local_base_async_send Sys bufs flags h cont st)"
| "v155_local_request Sys ci (Receive ns flags) st =
     Some (map_prod (\<lambda>(ec, bs). Data ec bs) id (v155_local_base_receive Sys ns flags st))"
| "v155_local_request Sys ci (Async_receive ns flags h cont) st =
     Some (Started, v155_local_base_async_receive Sys ns flags h cont st)"
| "v155_local_request Sys ci (Async_receive_with_flags ns flags h cont) st =
     Some (Started, v155_local_base_async_receive_with_flags Sys ns flags h cont st)"
| "v155_local_request Sys ci (Send_datagram bufs ep flags) st =
     Some (map_prod (\<lambda>(ec, n). Count ec n) id (v155_local_svc_send_to Sys bufs ep flags st))"
| "v155_local_request Sys ci (Async_send_datagram bufs ep flags h cont) st =
     Some (Started, v155_local_svc_async_send_to Sys bufs ep flags h cont st)"
| "v155_local_request Sys ci (Receive_datagram ns ep flags) st =
     Some (map_prod (\<lambda>(ec, bs, ep). Datagram ec bs ep) id (v155_local_svc_receive_from Sys ns ep flags st))"
| "v155_local_request Sys ci (Async_receive_datagram ns flags h cont) st =
     Some (Started, v155_local_svc_async_receive_from Sys ns flags h cont st)"
| "v155_local_request Sys ci (Async_accept_into peer_open wants h cont) st =
     Some (Started, v155_local_svc_async_accept Sys peer_open wants h cont st)"
| "v155_local_request Sys ci (Async_accept_new wants h cont) st = None"
| "v155_local_request Sys ci Renew st =
     Some (Started, (v155_local_construct (v155_local_new_impl Sys), v155_local_destroy Sys (fst st) (snd st)))"

fun v155_has :: "('ep, 'opt) request \<Rightarrow> bool" where
  "v155_has (Wait w) = False"
| "v155_has (Async_wait w h cont) = False"
| "v155_has (Async_accept_new wants h cont) = False"
| "v155_has r = True"

lemma v155_answered: "v155_request Sys ci r st = None \<longleftrightarrow> \<not> v155_has r"
  by (cases r) simp_all

section \<open>The services compared\<close>

lemmas v155_state =
  v155_view.open_viewed [folded as_v155_def] v155_view.close_viewed [folded as_v155_def]
  v155_view.cancel_viewed [folded as_v155_def] v155_view.world_viewed [folded as_v155_def]

lemmas v155_start = v155_view.start_op_viewed [folded as_v155_def]

lemmas v155_connect = v155_view.start_connect_op_viewed [folded as_v155_def]

lemma fst_as_v155 [simp]: "fst (as_v155 st) = fst st"
  by (simp add: as_v155_def)

lemma v155_start_same:
  "stateless_op p = p \<Longrightarrow> \<not> accepts p \<Longrightarrow>
     start_op Sys ty p no_error cont now noop (as_v155 st) = as_v155 (start_op Sys ty p no_error cont now noop st)"
  by (rule v155_start) simp_all

lemma v155_start_accept:
  "start_op Sys read_op (Accept_op s a p wants h) no_error True cont False (as_v155 st) =
     as_v155 (start_op Sys read_op (Accept_op s a p wants h) no_error cont True False st)"
  by (rule v155_start) simp_all

lemma v155_start_send:
  "start_op Sys write_op (Send_op_stateless s bufs flags h) no_error cont True noop (as_v155 st) =
     as_v155 (start_op Sys write_op (Send_op s a bufs flags h) no_error cont True noop st)"
  by (rule v155_start) simp_all

lemma v155_refused:
  "(fst st, post_immediate_completion (Accept_op s a p wants h) already_open cont (snd (as_v155 st))) =
     as_v155 (fst st, post_immediate_completion (Accept_op s a p wants h) already_open cont (snd st))"
  by (simp add: as_v155_def view_state_def viewed_def post_immediate_completion_def)

lemma v155_async_send:
  "v155_base_async_send Sys bufs flags h cont (as_v155 st) = as_v155 (base_async_send Sys bufs flags h cont st)"
  by (simp add: v155_same v155_base_async_send_def base_async_send_def v155_start_send)

lemma v155_async:
  "v155_base_async_receive Sys ns flags h cont (as_v155 st) = as_v155 (base_async_receive Sys ns flags h cont st)"
  "v155_svc_async_send_to Sys bufs ep flags h cont (as_v155 st) = as_v155 (svc_async_send_to Sys bufs ep flags h cont st)"
  "v155_svc_async_receive_from Sys ns flags h cont (as_v155 st) = as_v155 (svc_async_receive_from Sys ns flags h cont st)"
  "v155_svc_async_accept Sys peer_open wants h cont (as_v155 st) = as_v155 (svc_async_accept Sys peer_open wants h cont st)"
  "v155_svc_async_connect Sys ep h cont (as_v155 st) = as_v155 (svc_async_connect Sys ep h cont st)"
  by (simp_all add: v155_same base_async_receive_def svc_async_send_to_def svc_async_receive_from_def v155_svc_async_accept_def
      svc_async_accept_def v155_start_accept_op_def start_accept_op_def svc_async_connect_def
      v155_start_same v155_start_accept v155_refused v155_connect)

lemma v155_close:
  assumes "\<And>s w. ci s w = (0, w)"
  shows "v155_base_close Sys ci st = base_close Sys st"
  by (cases st) (simp add: v155_base_close_def base_close_def v155_same assms split: option.splits)

lemma request_v155:
  assumes "\<And>s w. ci s w = (0, w)" and "v155_has r" and "ext_has r"
  shows "v155_request Sys ci r (as_v155 st) = map_option (map_prod id as_v155) (ext_request Sys r st)"
proof (cases r)
  case Renew
  then show ?thesis by (simp add: v155_same as_v155_def view_state_def v155_view.close_viewed)
qed (use assms in \<open>simp_all add: v155_same v155_close [OF assms(1)] v155_state map_prod_swap v155_async_send
    v155_async [unfolded v155_same] v155_async\<close>)

section \<open>The local service\<close>

lemma v155_local_close_view:
  "v155_base_close Sys ci (localised st) = map_prod id localised (v155_base_close Sys ci st)"
  by (cases st) (simp add: localised_def v155_base_close_def v155_same local_view.sys_viewed
      flip: local_view.aborts_viewed split: prod.splits option.splits)

lemma v155_local_async:
  "v155_base_async_send Sys bufs flags h cont (localised st) = localised (v155_base_async_send Sys bufs flags h cont st)"
  "v155_svc_async_accept Sys peer_open wants h cont (localised st) =
     localised (v155_svc_async_accept Sys peer_open wants h cont st)"
  using post_localised [of st "Accept_op (b_socket (fst st)) (b_state (fst st)) (i_protocol (fst st)) wants h" already_open cont]
  by (simp_all add: v155_same v155_base_async_send_def v155_svc_async_accept_def v155_start_accept_op_def
      start_same_localised)

lemma v155_local_receive: "v155_local_base_async_receive = local_base_async_receive"
  by (simp add: fun_eq_iff v155_local_base_async_receive_def local_base_async_receive_def v155_local_same v155_same
      local_copy)

lemma v155_receives_localised:
  "v155_local_base_async_receive_with_flags Sys ns flags h cont (localised st) =
     localised (v155_base_async_receive_with_flags Sys ns flags h cont st)"
  "v155_local_svc_async_receive_from Sys ns flags h cont (localised st) =
     localised (svc_async_receive_from Sys ns flags h cont st)"
  by (simp_all add: v155_local_base_async_receive_with_flags_def v155_base_async_receive_with_flags_def
      v155_local_svc_async_receive_from_def svc_async_receive_from_def v155_local_same v155_same start_localised)

lemma request_v155_local:
  "v155_local_request Sys ci r (localised st) = map_option (map_prod id localised) (v155_request Sys ci r st)"
proof (cases r)
  case Renew
  then show ?thesis by (simp add: v155_local_same v155_same localised_def view_state_def local_view.close_viewed)
qed (simp_all add: v155_local_same v155_local_receive v155_local_close_view v155_local_async v155_same state_localised
    map_prod_swap async_localised async_receive_localised v155_receives_localised)

section \<open>Properties\<close>

lemma new_views:
  "as_v155 (construct (new_impl Sys), kernel0 w) = (v155_construct (v155_new_impl Sys), kernel0 w)"
  "localised (v155_construct (v155_new_impl Sys), kernel0 w) = (v155_local_construct (v155_local_new_impl Sys), kernel0 w)"
  by (simp_all add: v155_same v155_local_same as_v155_def localised_def view_state_def viewed_def kernel0_def)



text \<open>
  The local service of Boost 1.55 is its extended service but for the classes of the receives, as
  in Boost 1.74: any conversation, refused calls included, gives the same answers and state.
\<close>

theorem boost155_local_equivalent:
  "try_conversation (v155_local_request Sys close_invalid) rs
      (v155_local_construct (v155_local_new_impl Sys), kernel0 w) =
     map_option (map_prod id localised)
       (try_conversation (v155_request Sys close_invalid) rs (v155_construct (v155_new_impl Sys), kernel0 w))"
  unfolding new_views(2) [symmetric] by (rule try_conversation_view, rule request_v155_local)

end
