(* ===== verification/Boost155_Props.thy ===== *)
theory Boost155_Props imports Boost155_Requests Socket_Front_Props begin

text \<open>
  The socket objects of the helper for Boost 1.55 against those for 1.74.
\<close>

section \<open>Equal functions\<close>

text \<open>The services of the socket objects only hand on, but for the type check of \<open>open\<close>.\<close>

lemmas v155_wrappers =
  v155_dss_construct_def v155_dss_move_construct_def v155_dss_move_assign_def
  v155_dss_converting_move_construct_def v155_dss_destroy_def v155_dss_open_def v155_dss_assign_def
  v155_dss_is_open_def v155_dss_close_def v155_dss_native_handle_def v155_dss_cancel_def
  v155_dss_at_mark_def v155_dss_available_def v155_dss_bind_def v155_dss_connect_def
  v155_dss_async_connect_def v155_dss_set_option_def v155_dss_get_option_def v155_dss_io_control_def
  v155_dss_non_blocking_def v155_dss_set_non_blocking_def v155_dss_native_non_blocking_def
  v155_dss_set_native_non_blocking_def v155_dss_local_endpoint_def v155_dss_remote_endpoint_def
  v155_dss_shutdown_def v155_dss_send_def v155_dss_async_send_def v155_dss_send_to_def
  v155_dss_async_send_to_def v155_dss_receive_def v155_dss_async_receive_def v155_dss_receive_from_def
  v155_dss_async_receive_from_def v155_sss_construct_def v155_sss_move_construct_def
  v155_sss_move_assign_def v155_sss_converting_move_construct_def v155_sss_destroy_def v155_sss_open_def
  v155_sss_assign_def v155_sss_is_open_def v155_sss_close_def v155_sss_native_handle_def
  v155_sss_cancel_def v155_sss_at_mark_def v155_sss_available_def v155_sss_bind_def v155_sss_connect_def
  v155_sss_async_connect_def v155_sss_set_option_def v155_sss_get_option_def v155_sss_io_control_def
  v155_sss_non_blocking_def v155_sss_set_non_blocking_def v155_sss_native_non_blocking_def
  v155_sss_set_native_non_blocking_def v155_sss_local_endpoint_def v155_sss_remote_endpoint_def
  v155_sss_shutdown_def v155_sss_send_def v155_sss_async_send_def v155_sss_receive_def
  v155_sss_async_receive_def v155_ass_construct_def v155_ass_move_construct_def v155_ass_move_assign_def
  v155_ass_converting_move_construct_def v155_ass_destroy_def v155_ass_open_def v155_ass_assign_def
  v155_ass_is_open_def v155_ass_cancel_def v155_ass_bind_def v155_ass_listen_def v155_ass_close_def
  v155_ass_native_handle_def v155_ass_set_option_def v155_ass_get_option_def v155_ass_io_control_def
  v155_ass_non_blocking_def v155_ass_set_non_blocking_def v155_ass_native_non_blocking_def
  v155_ass_set_native_non_blocking_def v155_ass_local_endpoint_def v155_ass_accept_def
  v155_ass_async_accept_def

lemmas v155_all_same = v155_wrappers v155_local_same v155_local_receive v155_same

lemma v155_datagram_same [v155_same]:
  "v155_ds_send_throw = ds_send_throw"
  "v155_ds_send_flags_throw = ds_send_flags_throw"
  "v155_ds_send = ds_send"
  "v155_ds_send_to_throw = ds_send_to_throw"
  "v155_ds_send_to_flags_throw = ds_send_to_flags_throw"
  "v155_ds_send_to = ds_send_to"
  "v155_ds_receive_throw = ds_receive_throw"
  "v155_ds_receive_flags_throw = ds_receive_flags_throw"
  "v155_ds_receive = ds_receive"
  "v155_ds_async_receive = ds_async_receive"
  "v155_ds_async_receive_flags = ds_async_receive_flags"
  "v155_ds_receive_from_throw = ds_receive_from_throw"
  "v155_ds_receive_from_flags_throw = ds_receive_from_flags_throw"
  "v155_ds_receive_from = ds_receive_from"
  "v155_ds_async_receive_from = ds_async_receive_from"
  "v155_ds_async_receive_from_flags = ds_async_receive_from_flags"
  by (simp_all add: fun_eq_iff v155_all_same ds_initiate_async_receive_def ds_initiate_async_receive_from_def
      v155_ds_send_throw_def ds_send_throw_def v155_ds_send_flags_throw_def ds_send_flags_throw_def
      v155_ds_send_def ds_send_def v155_ds_send_to_throw_def ds_send_to_throw_def
      v155_ds_send_to_flags_throw_def ds_send_to_flags_throw_def v155_ds_send_to_def ds_send_to_def
      v155_ds_receive_throw_def ds_receive_throw_def v155_ds_receive_flags_throw_def
      ds_receive_flags_throw_def v155_ds_receive_def ds_receive_def v155_ds_async_receive_def
      ds_async_receive_def v155_ds_async_receive_flags_def ds_async_receive_flags_def
      v155_ds_receive_from_throw_def ds_receive_from_throw_def v155_ds_receive_from_flags_throw_def
      ds_receive_from_flags_throw_def v155_ds_receive_from_def ds_receive_from_def
      v155_ds_async_receive_from_def ds_async_receive_from_def v155_ds_async_receive_from_flags_def
      ds_async_receive_from_flags_def)

lemma v155_stream_same [v155_same]:
  "v155_ss_send_throw = ss_send_throw"
  "v155_ss_send_flags_throw = ss_send_flags_throw"
  "v155_ss_send = ss_send"
  "v155_ss_write_some_throw = ss_write_some_throw"
  "v155_ss_write_some = ss_write_some"
  "v155_ss_receive_throw = ss_receive_throw"
  "v155_ss_receive_flags_throw = ss_receive_flags_throw"
  "v155_ss_receive = ss_receive"
  "v155_ss_async_receive = ss_async_receive"
  "v155_ss_async_receive_flags = ss_async_receive_flags"
  "v155_ss_read_some_throw = ss_read_some_throw"
  "v155_ss_read_some = ss_read_some"
  "v155_ss_async_read_some = ss_async_read_some"
  by (simp_all add: fun_eq_iff v155_all_same local_copy [symmetric] ss_initiate_async_receive_def
      v155_ss_send_throw_def ss_send_throw_def v155_ss_send_flags_throw_def ss_send_flags_throw_def
      v155_ss_send_def ss_send_def v155_ss_write_some_throw_def ss_write_some_throw_def
      v155_ss_write_some_def ss_write_some_def v155_ss_receive_throw_def ss_receive_throw_def
      v155_ss_receive_flags_throw_def ss_receive_flags_throw_def v155_ss_receive_def ss_receive_def
      v155_ss_async_receive_def ss_async_receive_def v155_ss_async_receive_flags_def
      ss_async_receive_flags_def v155_ss_read_some_throw_def ss_read_some_throw_def
      v155_ss_read_some_def ss_read_some_def v155_ss_async_read_some_def ss_async_read_some_def)

lemma v155_unwind_same: "v155_or_unwind = or_unwind"
  by (simp add: fun_eq_iff v155_or_unwind_def or_unwind_def v155_unwind_def local_unwind_def unwind_def
      v155_all_same local_copy)

lemma v155_acceptor_same [v155_same]:
  "v155_sa_new = sa_new"
  "v155_sa_new_protocol = sa_new_protocol"
  "v155_sa_new_endpoint = sa_new_endpoint"
  "v155_sa_new_native = sa_new_native"
  "v155_sa_move_construct = sa_move_construct"
  "v155_sa_move_assign = sa_move_assign"
  "v155_sa_open_throw = sa_open_throw"
  "v155_sa_open = sa_open"
  "v155_sa_assign_throw = sa_assign_throw"
  "v155_sa_assign = sa_assign"
  "v155_sa_is_open = sa_is_open"
  "v155_sa_bind_throw = sa_bind_throw"
  "v155_sa_bind = sa_bind"
  "v155_sa_listen_throw = sa_listen_throw"
  "v155_sa_listen = sa_listen"
  "v155_sa_native_handle = sa_native_handle"
  "v155_sa_cancel_throw = sa_cancel_throw"
  "v155_sa_cancel = sa_cancel"
  "v155_sa_set_option_throw = sa_set_option_throw"
  "v155_sa_set_option = sa_set_option"
  "v155_sa_get_option_throw = sa_get_option_throw"
  "v155_sa_get_option = sa_get_option"
  "v155_sa_io_control_throw = sa_io_control_throw"
  "v155_sa_io_control = sa_io_control"
  "v155_sa_non_blocking = sa_non_blocking"
  "v155_sa_set_non_blocking_throw = sa_set_non_blocking_throw"
  "v155_sa_set_non_blocking = sa_set_non_blocking"
  "v155_sa_native_non_blocking = sa_native_non_blocking"
  "v155_sa_set_native_non_blocking_throw = sa_set_native_non_blocking_throw"
  "v155_sa_set_native_non_blocking = sa_set_native_non_blocking"
  "v155_sa_local_endpoint_throw = sa_local_endpoint_throw"
  "v155_sa_local_endpoint = sa_local_endpoint"
  "v155_sa_accept_throw = sa_accept_throw"
  "v155_sa_accept = sa_accept"
  "v155_sa_accept_endpoint_throw = sa_accept_endpoint_throw"
  "v155_sa_accept_endpoint = sa_accept_endpoint"
  by (simp_all add: fun_eq_iff v155_all_same local_copy v155_unwind_same
      v155_sa_new_def sa_new_def v155_sa_new_protocol_def sa_new_protocol_def v155_sa_new_endpoint_def
      sa_new_endpoint_def v155_sa_new_native_def sa_new_native_def v155_sa_move_construct_def
      sa_move_construct_def v155_sa_move_assign_def sa_move_assign_def v155_sa_open_throw_def
      sa_open_throw_def v155_sa_open_def sa_open_def v155_sa_assign_throw_def sa_assign_throw_def
      v155_sa_assign_def sa_assign_def v155_sa_is_open_def sa_is_open_def v155_sa_bind_throw_def
      sa_bind_throw_def v155_sa_bind_def sa_bind_def v155_sa_listen_throw_def sa_listen_throw_def
      v155_sa_listen_def sa_listen_def v155_sa_native_handle_def sa_native_handle_def
      v155_sa_cancel_throw_def sa_cancel_throw_def v155_sa_cancel_def sa_cancel_def
      v155_sa_set_option_throw_def sa_set_option_throw_def v155_sa_set_option_def sa_set_option_def
      v155_sa_get_option_throw_def sa_get_option_throw_def v155_sa_get_option_def sa_get_option_def
      v155_sa_io_control_throw_def sa_io_control_throw_def v155_sa_io_control_def sa_io_control_def
      v155_sa_non_blocking_def sa_non_blocking_def v155_sa_set_non_blocking_throw_def
      sa_set_non_blocking_throw_def v155_sa_set_non_blocking_def sa_set_non_blocking_def
      v155_sa_native_non_blocking_def sa_native_non_blocking_def
      v155_sa_set_native_non_blocking_throw_def sa_set_native_non_blocking_throw_def
      v155_sa_set_native_non_blocking_def sa_set_native_non_blocking_def
      v155_sa_local_endpoint_throw_def sa_local_endpoint_throw_def v155_sa_local_endpoint_def
      sa_local_endpoint_def v155_sa_accept_throw_def sa_accept_throw_def v155_sa_accept_def
      sa_accept_def v155_sa_accept_endpoint_throw_def sa_accept_endpoint_throw_def
      v155_sa_accept_endpoint_def sa_accept_endpoint_def
      cong: if_cong)

section \<open>Construction\<close>

text \<open>
  Were Boost's \<open>basic_socket\<close> the one the helper for 1.74 has in its place, the sockets would be
  constructed and moved as in 1.74.
\<close>

definition helper_base :: "('w, 'ep, 'opt) os \<Rightarrow> ('w, 'ep) boost_socket" where
  "helper_base Sys =
     \<lparr>bk_new = bs_new Sys,
      bk_new_protocol = bs_new_protocol Sys,
      bk_new_endpoint = bs_new_endpoint Sys,
      bk_new_native = bs_new_native Sys,
      bk_move_construct = bs_move_construct Sys,
      bk_move_assign = bs_move_assign Sys,
      bk_converting_move_construct = bs_converting_move_construct Sys,
      bk_converting_move_assign = bs_converting_move_assign Sys\<rparr>"

lemma v155_datagram_construction:
  "v155_ds_new (helper_base Sys) = ds_new Sys"
  "v155_ds_new_protocol (helper_base Sys) = ds_new_protocol Sys"
  "v155_ds_new_endpoint (helper_base Sys) = ds_new_endpoint Sys"
  "v155_ds_new_native (helper_base Sys) = ds_new_native Sys"
  "v155_ds_move_construct (helper_base Sys) = ds_move_construct Sys"
  "v155_ds_move_assign (helper_base Sys) = ds_move_assign Sys"
  "v155_ds_converting_move_construct (helper_base Sys) = ds_converting_move_construct Sys"
  "v155_ds_converting_move_assign (helper_base Sys) = ds_converting_move_assign Sys"
  by (simp_all add: fun_eq_iff helper_base_def v155_ds_new_def ds_new_def
      v155_ds_new_protocol_def ds_new_protocol_def
      v155_ds_new_endpoint_def ds_new_endpoint_def
      v155_ds_new_native_def ds_new_native_def
      v155_ds_move_construct_def ds_move_construct_def
      v155_ds_move_assign_def ds_move_assign_def
      v155_ds_converting_move_construct_def ds_converting_move_construct_def
      v155_ds_converting_move_assign_def ds_converting_move_assign_def)

lemma v155_stream_construction:
  "v155_ss_new (helper_base Sys) = ss_new Sys"
  "v155_ss_new_protocol (helper_base Sys) = ss_new_protocol Sys"
  "v155_ss_new_endpoint (helper_base Sys) = ss_new_endpoint Sys"
  "v155_ss_new_native (helper_base Sys) = ss_new_native Sys"
  "v155_ss_move_construct (helper_base Sys) = ss_move_construct Sys"
  "v155_ss_move_assign (helper_base Sys) = ss_move_assign Sys"
  "v155_ss_converting_move_construct (helper_base Sys) = ss_converting_move_construct Sys"
  "v155_ss_converting_move_assign (helper_base Sys) = ss_converting_move_assign Sys"
  by (simp_all add: fun_eq_iff helper_base_def local_copy v155_ss_new_def ss_new_def
      v155_ss_new_protocol_def ss_new_protocol_def
      v155_ss_new_endpoint_def ss_new_endpoint_def
      v155_ss_new_native_def ss_new_native_def
      v155_ss_move_construct_def ss_move_construct_def
      v155_ss_move_assign_def ss_move_assign_def
      v155_ss_converting_move_construct_def ss_converting_move_construct_def
      v155_ss_converting_move_assign_def ss_converting_move_assign_def)

end
