(* ===== verification/Boost166_Basic.thy ===== *)
theory Boost166_Basic imports Boost166_Local begin

text \<open>
  \<open>basic_socket_ext\<close> and \<open>basic_socket_ext_local\<close> of the helper for Boost 1.66
  (include/helper/1.66/boost/asio/basic_socket_ext.hpp and basic_socket_ext_local.hpp), without
  \<open>BOOST_ASIO_ENABLE_OLD_SERVICES\<close>.  A socket is constructed on an \<open>io_context\<close>.
\<close>

section \<open>Constructors\<close>

definition v166_bs_new :: "('w, 'ep, 'opt) os \<Rightarrow> ('w, 'ep) kernel \<Rightarrow> ('w, 'ep) sk" where
  "v166_bs_new Sys k = (v166_construct (v166_new_impl Sys), k)"

text \<open>
  When a constructor throws, the base \<open>basic_io_object\<close> is destroyed: its destructor destroys
  the implementation, which closes the descriptor.
\<close>

definition v166_unwind :: "('w, 'ep, 'opt) os \<Rightarrow> ('w, 'ep) sk \<Rightarrow> ('w, 'ep) kernel" where
  "v166_unwind Sys st = v166_destroy Sys (fst st) (snd st)"

definition v166_bs_new_protocol ::
  "('w, 'ep, 'opt) os \<Rightarrow> protocol \<Rightarrow> ('w, 'ep) kernel \<Rightarrow> ((string \<times> error_code) \<times> ('w, 'ep) kernel) + ('w, 'ep) sk" where
  "v166_bs_new_protocol Sys p k =
     (case v166_svc_open Sys p (v166_bs_new Sys k) of (ec, st) \<Rightarrow>
        if failed ec then Inl ((''open'', ec), v166_unwind Sys st) else Inr st)"

definition v166_bs_new_endpoint ::
  "('w, 'ep, 'opt) os \<Rightarrow> 'ep \<Rightarrow> ('w, 'ep) kernel \<Rightarrow> ((string \<times> error_code) \<times> ('w, 'ep) kernel) + ('w, 'ep) sk" where
  "v166_bs_new_endpoint Sys ep k =
     (case v166_svc_open Sys (os_ep_protocol Sys ep) (v166_bs_new Sys k) of (ec, st) \<Rightarrow>
        if failed ec then Inl ((''open'', ec), v166_unwind Sys st)
        else
          (case v166_svc_bind Sys ep st of (ec', st') \<Rightarrow>
             if failed ec' then Inl ((''bind'', ec'), v166_unwind Sys st') else Inr st'))"

definition v166_bs_new_native ::
  "('w, 'ep, 'opt) os \<Rightarrow> protocol \<Rightarrow> nat \<Rightarrow> ('w, 'ep) kernel \<Rightarrow> ((string \<times> error_code) \<times> ('w, 'ep) kernel) + ('w, 'ep) sk" where
  "v166_bs_new_native Sys p native k =
     (case v166_svc_assign Sys p native (v166_bs_new Sys k) of (ec, st) \<Rightarrow>
        if failed ec then Inl ((''assign'', ec), v166_unwind Sys st) else Inr st)"

definition v166_bs_move_construct :: "('w, 'ep, 'opt) os \<Rightarrow> impl \<Rightarrow> impl \<times> impl" where
  "v166_bs_move_construct Sys other = v166_move_construct Sys (v166_new_impl Sys) other"

definition v166_bs_move_assign ::
  "('w, 'ep, 'opt) os \<Rightarrow> impl \<Rightarrow> impl \<Rightarrow> ('w, 'ep) kernel \<Rightarrow> impl \<times> impl \<times> ('w, 'ep) kernel" where
  "v166_bs_move_assign Sys impl other k = v166_move_assign Sys impl other k"

text \<open>
  The converting moves: what their bodies say.  They need the other socket's implementation, but the
  friend declared for them is \<open>basic_socket\<close>, so they compile only with that declaration corrected.
  The assignment moves into a temporary, that into the target, and destroys the temporary.
\<close>

definition v166_bs_converting_move_construct ::
  "('w, 'ep, 'opt) os \<Rightarrow> (protocol \<Rightarrow> protocol) \<Rightarrow> protocol \<Rightarrow> impl \<Rightarrow> impl \<times> impl" where
  "v166_bs_converting_move_construct Sys convert other_default other =
     v166_converting_move_construct Sys convert other_default (v166_new_impl Sys) other"

definition v166_bs_converting_move_assign ::
  "('w, 'ep, 'opt) os \<Rightarrow> (protocol \<Rightarrow> protocol) \<Rightarrow> protocol \<Rightarrow> impl \<Rightarrow> impl \<Rightarrow> ('w, 'ep) kernel \<Rightarrow>
     impl \<times> impl \<times> ('w, 'ep) kernel" where
  "v166_bs_converting_move_assign Sys convert other_default impl other k =
     (case v166_bs_converting_move_construct Sys convert other_default other of (tmp, other') \<Rightarrow>
        case v166_move_assign Sys impl tmp k of (impl', tmp', k') \<Rightarrow>
          (impl', other', v166_destroy Sys tmp' k'))"

section \<open>Opening and closing\<close>

definition v166_bs_open_throw :: "('w, 'ep, 'opt) os \<Rightarrow> protocol \<Rightarrow> ('w, 'ep) sk \<Rightarrow> unit thrown \<times> ('w, 'ep) sk" where
  "v166_bs_open_throw Sys p st = (case v166_svc_open Sys p st of (ec, st') \<Rightarrow> (throw_error ''open'' ec (), st'))"

definition v166_bs_open :: "('w, 'ep, 'opt) os \<Rightarrow> protocol \<Rightarrow> ('w, 'ep) sk \<Rightarrow> error_code \<times> ('w, 'ep) sk" where
  "v166_bs_open Sys p st = v166_svc_open Sys p st"

definition v166_bs_assign_throw ::
  "('w, 'ep, 'opt) os \<Rightarrow> protocol \<Rightarrow> nat \<Rightarrow> ('w, 'ep) sk \<Rightarrow> unit thrown \<times> ('w, 'ep) sk" where
  "v166_bs_assign_throw Sys p native st =
     (case v166_svc_assign Sys p native st of (ec, st') \<Rightarrow> (throw_error ''assign'' ec (), st'))"

definition v166_bs_assign :: "('w, 'ep, 'opt) os \<Rightarrow> protocol \<Rightarrow> nat \<Rightarrow> ('w, 'ep) sk \<Rightarrow> error_code \<times> ('w, 'ep) sk" where
  "v166_bs_assign Sys p native st = v166_svc_assign Sys p native st"

definition v166_bs_is_open :: "('w, 'ep) sk \<Rightarrow> bool" where
  "v166_bs_is_open st = v166_base_is_open (fst st)"

definition v166_bs_close_throw :: "('w, 'ep, 'opt) os \<Rightarrow> ('w, 'ep) sk \<Rightarrow> unit thrown \<times> ('w, 'ep) sk" where
  "v166_bs_close_throw Sys st = (case v166_base_close Sys st of (ec, st') \<Rightarrow> (throw_error ''close'' ec (), st'))"

definition v166_bs_close :: "('w, 'ep, 'opt) os \<Rightarrow> ('w, 'ep) sk \<Rightarrow> error_code \<times> ('w, 'ep) sk" where
  "v166_bs_close Sys st = v166_base_close Sys st"

definition v166_bs_release_throw ::
  "(('w, 'ep) sk \<Rightarrow> (error_code \<times> nat option) \<times> ('w, 'ep) sk) \<Rightarrow> ('w, 'ep) sk \<Rightarrow>
     nat option thrown \<times> ('w, 'ep) sk" where
  "v166_bs_release_throw release st = (case release st of ((ec, s), st') \<Rightarrow> (throw_error ''release'' ec s, st'))"

definition v166_bs_release ::
  "(('w, 'ep) sk \<Rightarrow> (error_code \<times> nat option) \<times> ('w, 'ep) sk) \<Rightarrow> ('w, 'ep) sk \<Rightarrow>
     (error_code \<times> nat option) \<times> ('w, 'ep) sk" where
  "v166_bs_release release st = release st"

definition v166_bs_native_handle :: "('w, 'ep) sk \<Rightarrow> nat option" where
  "v166_bs_native_handle st = v166_svc_native_handle (fst st)"

definition v166_bs_cancel_throw :: "('w, 'ep) sk \<Rightarrow> unit thrown \<times> ('w, 'ep) sk" where
  "v166_bs_cancel_throw st = (case v166_base_cancel st of (ec, st') \<Rightarrow> (throw_error ''cancel'' ec (), st'))"

definition v166_bs_cancel :: "('w, 'ep) sk \<Rightarrow> error_code \<times> ('w, 'ep) sk" where
  "v166_bs_cancel st = v166_base_cancel st"

definition v166_bs_at_mark_throw :: "('w, 'ep, 'opt) os \<Rightarrow> ('w, 'ep) sk \<Rightarrow> bool thrown" where
  "v166_bs_at_mark_throw Sys st = (case v166_base_at_mark Sys st of (ec, b) \<Rightarrow> throw_error ''at_mark'' ec b)"

definition v166_bs_at_mark :: "('w, 'ep, 'opt) os \<Rightarrow> ('w, 'ep) sk \<Rightarrow> error_code \<times> bool" where
  "v166_bs_at_mark Sys st = v166_base_at_mark Sys st"

definition v166_bs_available_throw :: "('w, 'ep, 'opt) os \<Rightarrow> ('w, 'ep) sk \<Rightarrow> nat thrown" where
  "v166_bs_available_throw Sys st = (case v166_base_available Sys st of (ec, n) \<Rightarrow> throw_error ''available'' ec n)"

definition v166_bs_available :: "('w, 'ep, 'opt) os \<Rightarrow> ('w, 'ep) sk \<Rightarrow> error_code \<times> nat" where
  "v166_bs_available Sys st = v166_base_available Sys st"

section \<open>Binding and connecting\<close>

definition v166_bs_bind_throw :: "('w, 'ep, 'opt) os \<Rightarrow> 'ep \<Rightarrow> ('w, 'ep) sk \<Rightarrow> unit thrown \<times> ('w, 'ep) sk" where
  "v166_bs_bind_throw Sys ep st = (case v166_svc_bind Sys ep st of (ec, st') \<Rightarrow> (throw_error ''bind'' ec (), st'))"

definition v166_bs_bind :: "('w, 'ep, 'opt) os \<Rightarrow> 'ep \<Rightarrow> ('w, 'ep) sk \<Rightarrow> error_code \<times> ('w, 'ep) sk" where
  "v166_bs_bind Sys ep st = v166_svc_bind Sys ep st"

definition v166_bs_connect_throw :: "('w, 'ep, 'opt) os \<Rightarrow> 'ep \<Rightarrow> ('w, 'ep) sk \<Rightarrow> unit thrown \<times> ('w, 'ep) sk" where
  "v166_bs_connect_throw Sys ep st =
     (case (if \<not> v166_bs_is_open st then
              (case v166_svc_open Sys (os_ep_protocol Sys ep) st of (ec, st') \<Rightarrow> (throw_error ''connect'' ec (), st'))
            else (Inr (), st)) of
        (Inl e, st1) \<Rightarrow> (Inl e, st1)
      | (Inr u, st1) \<Rightarrow>
          (case v166_svc_connect Sys ep st1 of (ec, st2) \<Rightarrow> (throw_error ''connect'' ec (), st2)))"

definition v166_bs_connect :: "('w, 'ep, 'opt) os \<Rightarrow> 'ep \<Rightarrow> ('w, 'ep) sk \<Rightarrow> error_code \<times> ('w, 'ep) sk" where
  "v166_bs_connect Sys ep st =
     (case (if \<not> v166_bs_is_open st then v166_svc_open Sys (os_ep_protocol Sys ep) st else (no_error, st)) of (ec, st1) \<Rightarrow>
        if failed ec then (ec, st1) else v166_svc_connect Sys ep st1)"

text \<open>
  \<open>async_connect\<close>: when the socket cannot be opened, the handler is posted to the executor with
  the error (first component); otherwise the operation is started.
\<close>

text \<open>A failed open is posted to the handler here; nothing is handed to the service.\<close>

definition v166_bs_async_connect ::
  "('w, 'ep, 'opt) os \<Rightarrow> 'ep \<Rightarrow> nat \<Rightarrow> bool \<Rightarrow> ('w, 'ep) sk \<Rightarrow> (nat \<times> error_code) option \<times> ('w, 'ep) sk" where
  "v166_bs_async_connect Sys ep handler cont st =
     (if \<not> v166_bs_is_open st then
        (case v166_svc_open Sys (os_ep_protocol Sys ep) st of (ec, st1) \<Rightarrow>
           if failed ec then (Some (handler, ec), st1)
           else (None, v166_svc_async_connect Sys ep handler cont st1))
      else (None, v166_svc_async_connect Sys ep handler cont st))"

section \<open>Options and control\<close>

definition v166_bs_set_option_throw :: "('w, 'ep, 'opt) os \<Rightarrow> 'opt \<Rightarrow> ('w, 'ep) sk \<Rightarrow> unit thrown \<times> ('w, 'ep) sk" where
  "v166_bs_set_option_throw Sys opt st =
     (case v166_svc_set_option Sys opt st of (ec, st') \<Rightarrow> (throw_error ''set_option'' ec (), st'))"

definition v166_bs_set_option :: "('w, 'ep, 'opt) os \<Rightarrow> 'opt \<Rightarrow> ('w, 'ep) sk \<Rightarrow> error_code \<times> ('w, 'ep) sk" where
  "v166_bs_set_option Sys opt st = v166_svc_set_option Sys opt st"

definition v166_bs_get_option_throw ::
  "('w, 'ep, 'opt) os \<Rightarrow> 'opt \<Rightarrow> ('w, 'ep) sk \<Rightarrow> byte_t list option thrown \<times> ('w, 'ep) sk" where
  "v166_bs_get_option_throw Sys opt st =
     (case v166_svc_get_option Sys opt st of ((ec, v), st') \<Rightarrow> (throw_error ''get_option'' ec v, st'))"

definition v166_bs_get_option ::
  "('w, 'ep, 'opt) os \<Rightarrow> 'opt \<Rightarrow> ('w, 'ep) sk \<Rightarrow> (error_code \<times> byte_t list option) \<times> ('w, 'ep) sk" where
  "v166_bs_get_option Sys opt st = v166_svc_get_option Sys opt st"

definition v166_bs_io_control_throw ::
  "('w, 'ep, 'opt) os \<Rightarrow> int \<Rightarrow> byte_t list \<Rightarrow> ('w, 'ep) sk \<Rightarrow> byte_t list thrown \<times> ('w, 'ep) sk" where
  "v166_bs_io_control_throw Sys name data st =
     (case v166_base_io_control Sys name data st of ((ec, data'), st') \<Rightarrow> (throw_error ''io_control'' ec data', st'))"

definition v166_bs_io_control ::
  "('w, 'ep, 'opt) os \<Rightarrow> int \<Rightarrow> byte_t list \<Rightarrow> ('w, 'ep) sk \<Rightarrow> (error_code \<times> byte_t list) \<times> ('w, 'ep) sk" where
  "v166_bs_io_control Sys name data st = v166_base_io_control Sys name data st"

definition v166_bs_non_blocking :: "('w, 'ep) sk \<Rightarrow> bool" where
  "v166_bs_non_blocking st = v166_base_non_blocking (fst st)"

definition v166_bs_set_non_blocking_throw :: "('w, 'ep, 'opt) os \<Rightarrow> bool \<Rightarrow> ('w, 'ep) sk \<Rightarrow> unit thrown \<times> ('w, 'ep) sk" where
  "v166_bs_set_non_blocking_throw Sys mode st =
     (case v166_base_set_non_blocking Sys mode st of (ec, st') \<Rightarrow> (throw_error ''non_blocking'' ec (), st'))"

definition v166_bs_set_non_blocking :: "('w, 'ep, 'opt) os \<Rightarrow> bool \<Rightarrow> ('w, 'ep) sk \<Rightarrow> error_code \<times> ('w, 'ep) sk" where
  "v166_bs_set_non_blocking Sys mode st = v166_base_set_non_blocking Sys mode st"

definition v166_bs_native_non_blocking :: "('w, 'ep) sk \<Rightarrow> bool" where
  "v166_bs_native_non_blocking st = v166_base_native_non_blocking (fst st)"

definition v166_bs_set_native_non_blocking_throw ::
  "('w, 'ep, 'opt) os \<Rightarrow> bool \<Rightarrow> ('w, 'ep) sk \<Rightarrow> unit thrown \<times> ('w, 'ep) sk" where
  "v166_bs_set_native_non_blocking_throw Sys mode st =
     (case v166_base_set_native_non_blocking Sys mode st of (ec, st') \<Rightarrow> (throw_error ''native_non_blocking'' ec (), st'))"

definition v166_bs_set_native_non_blocking :: "('w, 'ep, 'opt) os \<Rightarrow> bool \<Rightarrow> ('w, 'ep) sk \<Rightarrow> error_code \<times> ('w, 'ep) sk" where
  "v166_bs_set_native_non_blocking Sys mode st = v166_base_set_native_non_blocking Sys mode st"

section \<open>Endpoints, shutdown, waiting\<close>

definition v166_bs_local_endpoint_throw :: "('w, 'ep, 'opt) os \<Rightarrow> ('w, 'ep) sk \<Rightarrow> 'ep thrown" where
  "v166_bs_local_endpoint_throw Sys st = (case v166_svc_local_endpoint Sys st of (ec, ep) \<Rightarrow> throw_error ''local_endpoint'' ec ep)"

definition v166_bs_local_endpoint :: "('w, 'ep, 'opt) os \<Rightarrow> ('w, 'ep) sk \<Rightarrow> error_code \<times> 'ep" where
  "v166_bs_local_endpoint Sys st = v166_svc_local_endpoint Sys st"

definition v166_bs_remote_endpoint_throw :: "('w, 'ep, 'opt) os \<Rightarrow> ('w, 'ep) sk \<Rightarrow> 'ep thrown" where
  "v166_bs_remote_endpoint_throw Sys st = (case v166_svc_remote_endpoint Sys st of (ec, ep) \<Rightarrow> throw_error ''remote_endpoint'' ec ep)"

definition v166_bs_remote_endpoint :: "('w, 'ep, 'opt) os \<Rightarrow> ('w, 'ep) sk \<Rightarrow> error_code \<times> 'ep" where
  "v166_bs_remote_endpoint Sys st = v166_svc_remote_endpoint Sys st"

definition v166_bs_shutdown_throw :: "('w, 'ep, 'opt) os \<Rightarrow> shutdown_type \<Rightarrow> ('w, 'ep) sk \<Rightarrow> unit thrown \<times> ('w, 'ep) sk" where
  "v166_bs_shutdown_throw Sys what st =
     (case v166_svc_shutdown Sys what st of (ec, st') \<Rightarrow> (throw_error ''shutdown'' ec (), st'))"

definition v166_bs_shutdown :: "('w, 'ep, 'opt) os \<Rightarrow> shutdown_type \<Rightarrow> ('w, 'ep) sk \<Rightarrow> error_code \<times> ('w, 'ep) sk" where
  "v166_bs_shutdown Sys what st = v166_svc_shutdown Sys what st"

definition v166_bs_wait_throw :: "('w, 'ep, 'opt) os \<Rightarrow> wait_type \<Rightarrow> ('w, 'ep) sk \<Rightarrow> unit thrown \<times> ('w, 'ep) sk" where
  "v166_bs_wait_throw Sys w st = (case v166_base_wait Sys w st of (ec, st') \<Rightarrow> (throw_error ''wait'' ec (), st'))"

definition v166_bs_wait :: "('w, 'ep, 'opt) os \<Rightarrow> wait_type \<Rightarrow> ('w, 'ep) sk \<Rightarrow> error_code \<times> ('w, 'ep) sk" where
  "v166_bs_wait Sys w st = v166_base_wait Sys w st"

definition v166_bs_async_wait :: "('w, 'ep, 'opt) os \<Rightarrow> wait_type \<Rightarrow> nat \<Rightarrow> bool \<Rightarrow> ('w, 'ep) sk \<Rightarrow> ('w, 'ep) sk" where
  "v166_bs_async_wait Sys w handler cont st = v166_base_async_wait Sys w handler cont st"

section \<open>Local sockets: Constructors\<close>

definition v166_local_bs_new :: "('w, 'ep, 'opt) os \<Rightarrow> ('w, 'ep) kernel \<Rightarrow> ('w, 'ep) sk" where
  "v166_local_bs_new Sys k = (v166_local_construct (v166_local_new_impl Sys), k)"

text \<open>
  When a constructor throws, the base \<open>basic_io_object\<close> is destroyed: its destructor destroys
  the implementation, which closes the descriptor.
\<close>

definition v166_local_unwind :: "('w, 'ep, 'opt) os \<Rightarrow> ('w, 'ep) sk \<Rightarrow> ('w, 'ep) kernel" where
  "v166_local_unwind Sys st = v166_local_destroy Sys (fst st) (snd st)"

definition v166_local_bs_new_protocol ::
  "('w, 'ep, 'opt) os \<Rightarrow> protocol \<Rightarrow> ('w, 'ep) kernel \<Rightarrow>
     ((string \<times> error_code) \<times> ('w, 'ep) kernel) + ('w, 'ep) sk" where
  "v166_local_bs_new_protocol Sys p k =
     (case v166_local_svc_open Sys p (v166_local_bs_new Sys k) of (ec, st) \<Rightarrow>
        if failed ec then Inl ((''open'', ec), v166_local_unwind Sys st) else Inr st)"

definition v166_local_bs_new_endpoint ::
  "('w, 'ep, 'opt) os \<Rightarrow> 'ep \<Rightarrow> ('w, 'ep) kernel \<Rightarrow>
     ((string \<times> error_code) \<times> ('w, 'ep) kernel) + ('w, 'ep) sk" where
  "v166_local_bs_new_endpoint Sys ep k =
     (case v166_local_svc_open Sys (os_ep_protocol Sys ep) (v166_local_bs_new Sys k) of (ec, st) \<Rightarrow>
        if failed ec then Inl ((''open'', ec), v166_local_unwind Sys st)
        else
          (case v166_local_svc_bind Sys ep st of (ec', st') \<Rightarrow>
             if failed ec' then Inl ((''bind'', ec'), v166_local_unwind Sys st') else Inr st'))"

definition v166_local_bs_new_native ::
  "('w, 'ep, 'opt) os \<Rightarrow> protocol \<Rightarrow> nat \<Rightarrow>
     ('w, 'ep) kernel \<Rightarrow> ((string \<times> error_code) \<times> ('w, 'ep) kernel) + ('w, 'ep) sk" where
  "v166_local_bs_new_native Sys p native k =
     (case v166_local_svc_assign Sys p native (v166_local_bs_new Sys k) of (ec, st) \<Rightarrow>
        if failed ec then Inl ((''assign'', ec), v166_local_unwind Sys st) else Inr st)"

definition v166_local_bs_move_construct ::
  "('w, 'ep, 'opt) os \<Rightarrow> impl \<Rightarrow> impl \<times> impl" where
  "v166_local_bs_move_construct Sys other = v166_local_move_construct Sys (v166_local_new_impl Sys) other"

definition v166_local_bs_move_assign ::
  "('w, 'ep, 'opt) os \<Rightarrow> impl \<Rightarrow> impl \<Rightarrow>
     ('w, 'ep) kernel \<Rightarrow> impl \<times> impl \<times> ('w, 'ep) kernel" where
  "v166_local_bs_move_assign Sys impl other k = v166_local_move_assign Sys impl other k"

definition v166_local_bs_converting_move_construct ::
  "('w, 'ep, 'opt) os \<Rightarrow> (protocol \<Rightarrow> protocol) \<Rightarrow> protocol \<Rightarrow> impl \<Rightarrow> impl \<times> impl" where
  "v166_local_bs_converting_move_construct Sys convert other_default other =
     v166_local_converting_move_construct Sys convert other_default (v166_local_new_impl Sys) other"

definition v166_local_bs_converting_move_assign ::
  "('w, 'ep, 'opt) os \<Rightarrow> (protocol \<Rightarrow> protocol) \<Rightarrow> protocol \<Rightarrow> impl \<Rightarrow> impl \<Rightarrow> ('w, 'ep) kernel \<Rightarrow>
     impl \<times> impl \<times> ('w, 'ep) kernel" where
  "v166_local_bs_converting_move_assign Sys convert other_default impl other k =
     (case v166_local_bs_converting_move_construct Sys convert other_default other of (tmp, other') \<Rightarrow>
        case v166_local_move_assign Sys impl tmp k of (impl', tmp', k') \<Rightarrow>
          (impl', other', v166_local_destroy Sys tmp' k'))"

section \<open>Opening and closing\<close>

definition v166_local_bs_open_throw ::
  "('w, 'ep, 'opt) os \<Rightarrow> protocol \<Rightarrow> ('w, 'ep) sk \<Rightarrow>
     unit thrown \<times> ('w, 'ep) sk" where
  "v166_local_bs_open_throw Sys p st = (case v166_local_svc_open Sys p st of (ec, st') \<Rightarrow> (throw_error ''open'' ec (), st'))"

definition v166_local_bs_open ::
  "('w, 'ep, 'opt) os \<Rightarrow> protocol \<Rightarrow> ('w, 'ep) sk \<Rightarrow>
     error_code \<times> ('w, 'ep) sk" where
  "v166_local_bs_open Sys p st = v166_local_svc_open Sys p st"

definition v166_local_bs_assign_throw ::
  "('w, 'ep, 'opt) os \<Rightarrow> protocol \<Rightarrow> nat \<Rightarrow>
     ('w, 'ep) sk \<Rightarrow> unit thrown \<times> ('w, 'ep) sk" where
  "v166_local_bs_assign_throw Sys p native st =
     (case v166_local_svc_assign Sys p native st of (ec, st') \<Rightarrow> (throw_error ''assign'' ec (), st'))"

definition v166_local_bs_assign ::
  "('w, 'ep, 'opt) os \<Rightarrow> protocol \<Rightarrow> nat \<Rightarrow>
     ('w, 'ep) sk \<Rightarrow> error_code \<times> ('w, 'ep) sk" where
  "v166_local_bs_assign Sys p native st = v166_local_svc_assign Sys p native st"

definition v166_local_bs_is_open :: "('w, 'ep) sk \<Rightarrow> bool" where
  "v166_local_bs_is_open st = v166_local_base_is_open (fst st)"

definition v166_local_bs_close_throw ::
  "('w, 'ep, 'opt) os \<Rightarrow> ('w, 'ep) sk \<Rightarrow> unit thrown \<times> ('w, 'ep) sk" where
  "v166_local_bs_close_throw Sys st = (case v166_local_base_close Sys st of (ec, st') \<Rightarrow> (throw_error ''close'' ec (), st'))"

definition v166_local_bs_close ::
  "('w, 'ep, 'opt) os \<Rightarrow> ('w, 'ep) sk \<Rightarrow> error_code \<times> ('w, 'ep) sk" where
  "v166_local_bs_close Sys st = v166_local_base_close Sys st"

definition v166_local_bs_release_throw ::
  "(('w, 'ep) sk \<Rightarrow> (error_code \<times> nat option) \<times> ('w, 'ep) sk) \<Rightarrow> ('w, 'ep) sk \<Rightarrow>
     nat option thrown \<times> ('w, 'ep) sk" where
  "v166_local_bs_release_throw release st = (case release st of ((ec, s), st') \<Rightarrow> (throw_error ''release'' ec s, st'))"

definition v166_local_bs_release ::
  "(('w, 'ep) sk \<Rightarrow> (error_code \<times> nat option) \<times> ('w, 'ep) sk) \<Rightarrow> ('w, 'ep) sk \<Rightarrow>
     (error_code \<times> nat option) \<times> ('w, 'ep) sk" where
  "v166_local_bs_release release st = release st"

definition v166_local_bs_native_handle :: "('w, 'ep) sk \<Rightarrow> nat option" where
  "v166_local_bs_native_handle st = v166_local_svc_native_handle (fst st)"

definition v166_local_bs_cancel_throw :: "('w, 'ep) sk \<Rightarrow> unit thrown \<times> ('w, 'ep) sk" where
  "v166_local_bs_cancel_throw st = (case v166_local_base_cancel st of (ec, st') \<Rightarrow> (throw_error ''cancel'' ec (), st'))"

definition v166_local_bs_cancel :: "('w, 'ep) sk \<Rightarrow> error_code \<times> ('w, 'ep) sk" where
  "v166_local_bs_cancel st = v166_local_base_cancel st"

definition v166_local_bs_at_mark_throw ::
  "('w, 'ep, 'opt) os \<Rightarrow> ('w, 'ep) sk \<Rightarrow> bool thrown" where
  "v166_local_bs_at_mark_throw Sys st = (case v166_local_base_at_mark Sys st of (ec, b) \<Rightarrow> throw_error ''at_mark'' ec b)"

definition v166_local_bs_at_mark ::
  "('w, 'ep, 'opt) os \<Rightarrow> ('w, 'ep) sk \<Rightarrow> error_code \<times> bool" where
  "v166_local_bs_at_mark Sys st = v166_local_base_at_mark Sys st"

definition v166_local_bs_available_throw ::
  "('w, 'ep, 'opt) os \<Rightarrow> ('w, 'ep) sk \<Rightarrow> nat thrown" where
  "v166_local_bs_available_throw Sys st = (case v166_local_base_available Sys st of (ec, n) \<Rightarrow> throw_error ''available'' ec n)"

definition v166_local_bs_available ::
  "('w, 'ep, 'opt) os \<Rightarrow> ('w, 'ep) sk \<Rightarrow> error_code \<times> nat" where
  "v166_local_bs_available Sys st = v166_local_base_available Sys st"

section \<open>Binding and connecting\<close>

definition v166_local_bs_bind_throw ::
  "('w, 'ep, 'opt) os \<Rightarrow> 'ep \<Rightarrow> ('w, 'ep) sk \<Rightarrow>
     unit thrown \<times> ('w, 'ep) sk" where
  "v166_local_bs_bind_throw Sys ep st = (case v166_local_svc_bind Sys ep st of (ec, st') \<Rightarrow> (throw_error ''bind'' ec (), st'))"

definition v166_local_bs_bind ::
  "('w, 'ep, 'opt) os \<Rightarrow> 'ep \<Rightarrow> ('w, 'ep) sk \<Rightarrow>
     error_code \<times> ('w, 'ep) sk" where
  "v166_local_bs_bind Sys ep st = v166_local_svc_bind Sys ep st"

definition v166_local_bs_connect_throw ::
  "('w, 'ep, 'opt) os \<Rightarrow> 'ep \<Rightarrow> ('w, 'ep) sk \<Rightarrow>
     unit thrown \<times> ('w, 'ep) sk" where
  "v166_local_bs_connect_throw Sys ep st =
     (case (if \<not> v166_local_bs_is_open st then
              (case v166_local_svc_open Sys (os_ep_protocol Sys ep) st of (ec, st') \<Rightarrow> (throw_error ''connect'' ec (), st'))
            else (Inr (), st)) of
        (Inl e, st1) \<Rightarrow> (Inl e, st1)
      | (Inr u, st1) \<Rightarrow>
          (case v166_local_svc_connect Sys ep st1 of (ec, st2) \<Rightarrow> (throw_error ''connect'' ec (), st2)))"

definition v166_local_bs_connect ::
  "('w, 'ep, 'opt) os \<Rightarrow> 'ep \<Rightarrow> ('w, 'ep) sk \<Rightarrow>
     error_code \<times> ('w, 'ep) sk" where
  "v166_local_bs_connect Sys ep st =
     (case (if \<not> v166_local_bs_is_open st then v166_local_svc_open Sys (os_ep_protocol Sys ep) st else (no_error, st)) of (ec, st1) \<Rightarrow>
        if failed ec then (ec, st1) else v166_local_svc_connect Sys ep st1)"

text \<open>
  \<open>async_connect\<close>: when the socket cannot be opened, the handler is posted to the executor with
  the error (first component); otherwise the operation is started.
\<close>

text \<open>A failed open is posted to the handler here; nothing is handed to the service.\<close>

definition v166_local_bs_async_connect ::
  "('w, 'ep, 'opt) os \<Rightarrow> 'ep \<Rightarrow> nat \<Rightarrow> bool \<Rightarrow> ('w, 'ep) sk \<Rightarrow> (nat \<times> error_code) option \<times> ('w, 'ep) sk" where
  "v166_local_bs_async_connect Sys ep handler cont st =
     (if \<not> v166_local_bs_is_open st then
        (case v166_local_svc_open Sys (os_ep_protocol Sys ep) st of (ec, st1) \<Rightarrow>
           if failed ec then (Some (handler, ec), st1)
           else (None, v166_local_svc_async_connect Sys ep handler cont st1))
      else (None, v166_local_svc_async_connect Sys ep handler cont st))"

section \<open>Options and control\<close>

definition v166_local_bs_set_option_throw ::
  "('w, 'ep, 'opt) os \<Rightarrow> 'opt \<Rightarrow> ('w, 'ep) sk \<Rightarrow>
     unit thrown \<times> ('w, 'ep) sk" where
  "v166_local_bs_set_option_throw Sys opt st =
     (case v166_local_svc_set_option Sys opt st of (ec, st') \<Rightarrow> (throw_error ''set_option'' ec (), st'))"

definition v166_local_bs_set_option ::
  "('w, 'ep, 'opt) os \<Rightarrow> 'opt \<Rightarrow> ('w, 'ep) sk \<Rightarrow>
     error_code \<times> ('w, 'ep) sk" where
  "v166_local_bs_set_option Sys opt st = v166_local_svc_set_option Sys opt st"

definition v166_local_bs_get_option_throw ::
  "('w, 'ep, 'opt) os \<Rightarrow> 'opt \<Rightarrow> ('w, 'ep) sk \<Rightarrow>
     byte_t list option thrown \<times> ('w, 'ep) sk" where
  "v166_local_bs_get_option_throw Sys opt st =
     (case v166_local_svc_get_option Sys opt st of ((ec, v), st') \<Rightarrow> (throw_error ''get_option'' ec v, st'))"

definition v166_local_bs_get_option ::
  "('w, 'ep, 'opt) os \<Rightarrow> 'opt \<Rightarrow> ('w, 'ep) sk \<Rightarrow>
     (error_code \<times> byte_t list option) \<times> ('w, 'ep) sk" where
  "v166_local_bs_get_option Sys opt st = v166_local_svc_get_option Sys opt st"

definition v166_local_bs_io_control_throw ::
  "('w, 'ep, 'opt) os \<Rightarrow> int \<Rightarrow> byte_t list \<Rightarrow>
     ('w, 'ep) sk \<Rightarrow> byte_t list thrown \<times> ('w, 'ep) sk" where
  "v166_local_bs_io_control_throw Sys name data st =
     (case v166_local_base_io_control Sys name data st of ((ec, data'), st') \<Rightarrow> (throw_error ''io_control'' ec data', st'))"

definition v166_local_bs_io_control ::
  "('w, 'ep, 'opt) os \<Rightarrow> int \<Rightarrow> byte_t list \<Rightarrow>
     ('w, 'ep) sk \<Rightarrow> (error_code \<times> byte_t list) \<times> ('w, 'ep) sk" where
  "v166_local_bs_io_control Sys name data st = v166_local_base_io_control Sys name data st"

definition v166_local_bs_non_blocking :: "('w, 'ep) sk \<Rightarrow> bool" where
  "v166_local_bs_non_blocking st = v166_local_base_non_blocking (fst st)"

definition v166_local_bs_set_non_blocking_throw ::
  "('w, 'ep, 'opt) os \<Rightarrow> bool \<Rightarrow> ('w, 'ep) sk \<Rightarrow>
     unit thrown \<times> ('w, 'ep) sk" where
  "v166_local_bs_set_non_blocking_throw Sys mode st =
     (case v166_local_base_set_non_blocking Sys mode st of (ec, st') \<Rightarrow> (throw_error ''non_blocking'' ec (), st'))"

definition v166_local_bs_set_non_blocking ::
  "('w, 'ep, 'opt) os \<Rightarrow> bool \<Rightarrow> ('w, 'ep) sk \<Rightarrow>
     error_code \<times> ('w, 'ep) sk" where
  "v166_local_bs_set_non_blocking Sys mode st = v166_local_base_set_non_blocking Sys mode st"

definition v166_local_bs_native_non_blocking :: "('w, 'ep) sk \<Rightarrow> bool" where
  "v166_local_bs_native_non_blocking st = v166_local_base_native_non_blocking (fst st)"

definition v166_local_bs_set_native_non_blocking_throw ::
  "('w, 'ep, 'opt) os \<Rightarrow> bool \<Rightarrow> ('w, 'ep) sk \<Rightarrow>
     unit thrown \<times> ('w, 'ep) sk" where
  "v166_local_bs_set_native_non_blocking_throw Sys mode st =
     (case v166_local_base_set_native_non_blocking Sys mode st of (ec, st') \<Rightarrow> (throw_error ''native_non_blocking'' ec (), st'))"

definition v166_local_bs_set_native_non_blocking ::
  "('w, 'ep, 'opt) os \<Rightarrow> bool \<Rightarrow> ('w, 'ep) sk \<Rightarrow>
     error_code \<times> ('w, 'ep) sk" where
  "v166_local_bs_set_native_non_blocking Sys mode st = v166_local_base_set_native_non_blocking Sys mode st"

section \<open>Endpoints, shutdown, waiting\<close>

definition v166_local_bs_local_endpoint_throw ::
  "('w, 'ep, 'opt) os \<Rightarrow> ('w, 'ep) sk \<Rightarrow> 'ep thrown" where
  "v166_local_bs_local_endpoint_throw Sys st = (case v166_local_svc_local_endpoint Sys st of (ec, ep) \<Rightarrow> throw_error ''local_endpoint'' ec ep)"

definition v166_local_bs_local_endpoint ::
  "('w, 'ep, 'opt) os \<Rightarrow> ('w, 'ep) sk \<Rightarrow> error_code \<times> 'ep" where
  "v166_local_bs_local_endpoint Sys st = v166_local_svc_local_endpoint Sys st"

definition v166_local_bs_remote_endpoint_throw ::
  "('w, 'ep, 'opt) os \<Rightarrow> ('w, 'ep) sk \<Rightarrow> 'ep thrown" where
  "v166_local_bs_remote_endpoint_throw Sys st = (case v166_local_svc_remote_endpoint Sys st of (ec, ep) \<Rightarrow> throw_error ''remote_endpoint'' ec ep)"

definition v166_local_bs_remote_endpoint ::
  "('w, 'ep, 'opt) os \<Rightarrow> ('w, 'ep) sk \<Rightarrow> error_code \<times> 'ep" where
  "v166_local_bs_remote_endpoint Sys st = v166_local_svc_remote_endpoint Sys st"

definition v166_local_bs_shutdown_throw ::
  "('w, 'ep, 'opt) os \<Rightarrow> shutdown_type \<Rightarrow> ('w, 'ep) sk \<Rightarrow>
     unit thrown \<times> ('w, 'ep) sk" where
  "v166_local_bs_shutdown_throw Sys what st =
     (case v166_local_svc_shutdown Sys what st of (ec, st') \<Rightarrow> (throw_error ''shutdown'' ec (), st'))"

definition v166_local_bs_shutdown ::
  "('w, 'ep, 'opt) os \<Rightarrow> shutdown_type \<Rightarrow> ('w, 'ep) sk \<Rightarrow>
     error_code \<times> ('w, 'ep) sk" where
  "v166_local_bs_shutdown Sys what st = v166_local_svc_shutdown Sys what st"

definition v166_local_bs_wait_throw ::
  "('w, 'ep, 'opt) os \<Rightarrow> wait_type \<Rightarrow> ('w, 'ep) sk \<Rightarrow>
     unit thrown \<times> ('w, 'ep) sk" where
  "v166_local_bs_wait_throw Sys w st = (case v166_local_base_wait Sys w st of (ec, st') \<Rightarrow> (throw_error ''wait'' ec (), st'))"

definition v166_local_bs_wait ::
  "('w, 'ep, 'opt) os \<Rightarrow> wait_type \<Rightarrow> ('w, 'ep) sk \<Rightarrow>
     error_code \<times> ('w, 'ep) sk" where
  "v166_local_bs_wait Sys w st = v166_local_base_wait Sys w st"

definition v166_local_bs_async_wait ::
  "('w, 'ep, 'opt) os \<Rightarrow> wait_type \<Rightarrow> nat \<Rightarrow> bool \<Rightarrow>
     ('w, 'ep) sk \<Rightarrow> ('w, 'ep) sk" where
  "v166_local_bs_async_wait Sys w handler cont st = v166_local_base_async_wait Sys w handler cont st"

end
