(* ===== verification/Boost166_Stream_Service.thy ===== *)
theory Boost166_Stream_Service imports Boost166_Local begin

text \<open>
  \<open>stream_socket_service_ext\<close> of the helper for Boost 1.66
  (include/helper/1.66/boost/asio/stream_socket_service_ext.hpp), which stands between stream sockets
  and the local service when \<open>BOOST_ASIO_ENABLE_OLD_SERVICES\<close> is defined.
\<close>

section \<open>Stream sockets\<close>

definition v166_sss_construct :: "impl \<Rightarrow> impl" where
  "v166_sss_construct impl = v166_local_construct impl"

definition v166_sss_move_construct ::
  "('w, 'ep, 'opt) os \<Rightarrow> impl \<Rightarrow> impl \<Rightarrow> impl \<times> impl" where
  "v166_sss_move_construct Sys impl other = v166_local_move_construct Sys impl other"

definition v166_sss_move_assign ::
  "('w, 'ep, 'opt) os \<Rightarrow> impl \<Rightarrow> impl \<Rightarrow> ('w, 'ep) kernel \<Rightarrow> impl \<times> impl \<times> ('w, 'ep) kernel" where
  "v166_sss_move_assign Sys impl other k = v166_local_move_assign Sys impl other k"

definition v166_sss_converting_move_construct ::
  "('w, 'ep, 'opt) os \<Rightarrow> (protocol \<Rightarrow> protocol) \<Rightarrow> protocol \<Rightarrow> impl \<Rightarrow> impl \<Rightarrow> impl \<times> impl" where
  "v166_sss_converting_move_construct Sys convert other_default impl other =
     v166_local_converting_move_construct Sys convert other_default impl other"

definition v166_sss_destroy ::
  "('w, 'ep, 'opt) os \<Rightarrow> impl \<Rightarrow> ('w, 'ep) kernel \<Rightarrow> ('w, 'ep) kernel" where
  "v166_sss_destroy Sys impl k = v166_local_destroy Sys impl k"

definition v166_sss_open ::
  "('w, 'ep, 'opt) os \<Rightarrow> protocol \<Rightarrow> ('w, 'ep) sk \<Rightarrow> error_code \<times> ('w, 'ep) sk" where
  "v166_sss_open Sys p st =
     (if p_type p = SOCK_STREAM then v166_local_svc_open Sys p st else (invalid_argument, st))"

definition v166_sss_assign ::
  "('w, 'ep, 'opt) os \<Rightarrow> protocol \<Rightarrow> nat \<Rightarrow> ('w, 'ep) sk \<Rightarrow> error_code \<times> ('w, 'ep) sk" where
  "v166_sss_assign Sys p native st = v166_local_svc_assign Sys p native st"

definition v166_sss_is_open :: "impl \<Rightarrow> bool" where
  "v166_sss_is_open impl = v166_local_base_is_open impl"

definition v166_sss_close ::
  "('w, 'ep, 'opt) os \<Rightarrow> ('w, 'ep) sk \<Rightarrow> error_code \<times> ('w, 'ep) sk" where
  "v166_sss_close Sys st = v166_local_base_close Sys st"

definition v166_sss_release ::
  "(('w, 'ep) sk \<Rightarrow> (error_code \<times> nat option) \<times> ('w, 'ep) sk) \<Rightarrow> ('w, 'ep) sk \<Rightarrow>
     (error_code \<times> nat option) \<times> ('w, 'ep) sk" where
  "v166_sss_release release st = release st"

definition v166_sss_native_handle :: "impl \<Rightarrow> nat option" where
  "v166_sss_native_handle impl = v166_local_svc_native_handle impl"

definition v166_sss_cancel :: "('w, 'ep) sk \<Rightarrow> error_code \<times> ('w, 'ep) sk" where
  "v166_sss_cancel st = v166_local_base_cancel st"

definition v166_sss_at_mark ::
  "('w, 'ep, 'opt) os \<Rightarrow> ('w, 'ep) sk \<Rightarrow> error_code \<times> bool" where
  "v166_sss_at_mark Sys st = v166_local_base_at_mark Sys st"

definition v166_sss_available ::
  "('w, 'ep, 'opt) os \<Rightarrow> ('w, 'ep) sk \<Rightarrow> error_code \<times> nat" where
  "v166_sss_available Sys st = v166_local_base_available Sys st"

definition v166_sss_bind ::
  "('w, 'ep, 'opt) os \<Rightarrow> 'ep \<Rightarrow> ('w, 'ep) sk \<Rightarrow> error_code \<times> ('w, 'ep) sk" where
  "v166_sss_bind Sys ep st = v166_local_svc_bind Sys ep st"

definition v166_sss_connect ::
  "('w, 'ep, 'opt) os \<Rightarrow> 'ep \<Rightarrow> ('w, 'ep) sk \<Rightarrow> error_code \<times> ('w, 'ep) sk" where
  "v166_sss_connect Sys ep st = v166_local_svc_connect Sys ep st"

definition v166_sss_async_connect ::
  "('w, 'ep, 'opt) os \<Rightarrow> 'ep \<Rightarrow> nat \<Rightarrow> bool \<Rightarrow> ('w, 'ep) sk \<Rightarrow> ('w, 'ep) sk" where
  "v166_sss_async_connect Sys ep handler cont st = v166_local_svc_async_connect Sys ep handler cont st"

definition v166_sss_set_option ::
  "('w, 'ep, 'opt) os \<Rightarrow> 'opt \<Rightarrow> ('w, 'ep) sk \<Rightarrow> error_code \<times> ('w, 'ep) sk" where
  "v166_sss_set_option Sys opt st = v166_local_svc_set_option Sys opt st"

definition v166_sss_get_option ::
  "('w, 'ep, 'opt) os \<Rightarrow> 'opt \<Rightarrow> ('w, 'ep) sk \<Rightarrow> (error_code \<times> byte_t list option) \<times> ('w, 'ep) sk" where
  "v166_sss_get_option Sys opt st = v166_local_svc_get_option Sys opt st"

definition v166_sss_io_control ::
  "('w, 'ep, 'opt) os \<Rightarrow> int \<Rightarrow> byte_t list \<Rightarrow> ('w, 'ep) sk \<Rightarrow> (error_code \<times> byte_t list) \<times> ('w, 'ep) sk" where
  "v166_sss_io_control Sys name data st = v166_local_base_io_control Sys name data st"

definition v166_sss_non_blocking :: "impl \<Rightarrow> bool" where
  "v166_sss_non_blocking impl = v166_local_base_non_blocking impl"

definition v166_sss_set_non_blocking ::
  "('w, 'ep, 'opt) os \<Rightarrow> bool \<Rightarrow> ('w, 'ep) sk \<Rightarrow> error_code \<times> ('w, 'ep) sk" where
  "v166_sss_set_non_blocking Sys mode st = v166_local_base_set_non_blocking Sys mode st"

definition v166_sss_native_non_blocking :: "impl \<Rightarrow> bool" where
  "v166_sss_native_non_blocking impl = v166_local_base_native_non_blocking impl"

definition v166_sss_set_native_non_blocking ::
  "('w, 'ep, 'opt) os \<Rightarrow> bool \<Rightarrow> ('w, 'ep) sk \<Rightarrow> error_code \<times> ('w, 'ep) sk" where
  "v166_sss_set_native_non_blocking Sys mode st = v166_local_base_set_native_non_blocking Sys mode st"

definition v166_sss_local_endpoint ::
  "('w, 'ep, 'opt) os \<Rightarrow> ('w, 'ep) sk \<Rightarrow> error_code \<times> 'ep" where
  "v166_sss_local_endpoint Sys st = v166_local_svc_local_endpoint Sys st"

definition v166_sss_remote_endpoint ::
  "('w, 'ep, 'opt) os \<Rightarrow> ('w, 'ep) sk \<Rightarrow> error_code \<times> 'ep" where
  "v166_sss_remote_endpoint Sys st = v166_local_svc_remote_endpoint Sys st"

definition v166_sss_shutdown ::
  "('w, 'ep, 'opt) os \<Rightarrow> shutdown_type \<Rightarrow> ('w, 'ep) sk \<Rightarrow> error_code \<times> ('w, 'ep) sk" where
  "v166_sss_shutdown Sys what st = v166_local_svc_shutdown Sys what st"

definition v166_sss_wait ::
  "('w, 'ep, 'opt) os \<Rightarrow> wait_type \<Rightarrow> ('w, 'ep) sk \<Rightarrow> error_code \<times> ('w, 'ep) sk" where
  "v166_sss_wait Sys w st = v166_local_base_wait Sys w st"

definition v166_sss_async_wait ::
  "('w, 'ep, 'opt) os \<Rightarrow> wait_type \<Rightarrow> nat \<Rightarrow> bool \<Rightarrow> ('w, 'ep) sk \<Rightarrow> ('w, 'ep) sk" where
  "v166_sss_async_wait Sys w handler cont st = v166_local_base_async_wait Sys w handler cont st"

definition v166_sss_send ::
  "('w, 'ep, 'opt) os \<Rightarrow> byte_t list list \<Rightarrow> message_flags \<Rightarrow> ('w, 'ep) sk \<Rightarrow> (error_code \<times> nat) \<times> ('w, 'ep) sk" where
  "v166_sss_send Sys bufs flags st = v166_local_base_send Sys bufs flags st"

definition v166_sss_async_send ::
  "('w, 'ep, 'opt) os \<Rightarrow> byte_t list list \<Rightarrow> message_flags \<Rightarrow> nat \<Rightarrow> bool \<Rightarrow> ('w, 'ep) sk \<Rightarrow> ('w, 'ep) sk" where
  "v166_sss_async_send Sys bufs flags handler cont st = v166_local_base_async_send Sys bufs flags handler cont st"

definition v166_sss_receive ::
  "('w, 'ep, 'opt) os \<Rightarrow> nat list \<Rightarrow> message_flags \<Rightarrow> ('w, 'ep) sk \<Rightarrow> (error_code \<times> byte_t list) \<times> ('w, 'ep) sk" where
  "v166_sss_receive Sys sizes flags st = v166_local_base_receive Sys sizes flags st"

definition v166_sss_async_receive ::
  "('w, 'ep, 'opt) os \<Rightarrow> nat list \<Rightarrow> message_flags \<Rightarrow> nat \<Rightarrow> bool \<Rightarrow> ('w, 'ep) sk \<Rightarrow> ('w, 'ep) sk" where
  "v166_sss_async_receive Sys sizes flags handler cont st =
     v166_local_base_async_receive Sys sizes flags handler cont st"

end
