(* ===== verification/Boost155_Ops.thy ===== *)
theory Boost155_Ops imports Socket_Ops_Props begin

text \<open>
  The receive functions and operations of the helper for Boost 1.55
  (include/helper/1.55/boost/asio/detail: impl/socket_ops_ext.ipp, impl/socket_ops_ext_local.ipp and
  the reactive_socket_*_op_ext headers), over the control messages and loops of \<open>Socket_Ops_Ext\<close>.
  \<open>do_perform\<close> answers whether the operation is done.  Unlike in 1.74, the plain receive of local sockets
  calls the function that reads the sender's credentials.
\<close>

section \<open>One call\<close>

definition v155_recvfrom_ext ::
  "('w, 'ep) recv_os \<Rightarrow> nat option \<Rightarrow> nat list \<Rightarrow> message_flags \<Rightarrow> ip_address \<Rightarrow> 'w \<Rightarrow>
     ('ep, ip_address) received \<times> 'w" where
  "v155_recvfrom_ext R s sizes flags da w =
     (case ro_recvmsg R s sizes flags w of (r, w') \<Rightarrow>
        if r_errno r = 0 then
          (\<lparr>rc_bytes = Some (r_bytes r), rc_error = no_error, rc_addr = r_addr r,
            rc_extra = find_destination da (r_cmsgs r)\<rparr>, w')
        else
          (\<lparr>rc_bytes = None, rc_error = of_errno (r_errno r), rc_addr = r_addr r, rc_extra = da\<rparr>, w'))"

definition v155_recv_local ::
  "('w, 'ep) recv_os \<Rightarrow> nat option \<Rightarrow> nat list \<Rightarrow> message_flags \<Rightarrow> uint32_t \<times> uint32_t \<Rightarrow> 'w \<Rightarrow>
     ('ep, uint32_t \<times> uint32_t) received \<times> 'w" where
  "v155_recv_local R s sizes flags ug w =
     (case ro_recvmsg R s sizes flags w of (r, w') \<Rightarrow>
        if r_errno r = 0 then
          (\<lparr>rc_bytes = Some (r_bytes r), rc_error = no_error, rc_addr = r_addr r,
            rc_extra = find_credentials (r_cmsgs r)\<rparr>, w')
        else
          (\<lparr>rc_bytes = None, rc_error = of_errno (r_errno r), rc_addr = r_addr r, rc_extra = (ANY_ID, ANY_ID)\<rparr>, w'))"

definition v155_recvfrom_local ::
  "('w, 'ep) recv_os \<Rightarrow> nat option \<Rightarrow> nat list \<Rightarrow> message_flags \<Rightarrow> uint32_t \<times> uint32_t \<Rightarrow> 'w \<Rightarrow>
     ('ep, uint32_t \<times> uint32_t) received \<times> 'w" where
  "v155_recvfrom_local R s sizes flags ug w =
     (case ro_recvmsg R s sizes flags w of (r, w') \<Rightarrow>
        if r_errno r = 0 then
          (\<lparr>rc_bytes = Some (r_bytes r), rc_error = no_error, rc_addr = r_addr r,
            rc_extra = find_credentials (r_cmsgs r)\<rparr>, w')
        else
          (\<lparr>rc_bytes = None, rc_error = of_errno (r_errno r), rc_addr = r_addr r, rc_extra = (ANY_ID, ANY_ID)\<rparr>, w'))"

section \<open>The loops\<close>

definition v155_sync_recvfrom_ext ::
  "('w, 'ep) recv_os \<Rightarrow> nat option \<Rightarrow> state_type \<Rightarrow> nat list \<Rightarrow> message_flags \<Rightarrow> 'ep \<Rightarrow> ip_address \<Rightarrow> 'w \<Rightarrow>
     (byte_t list \<times> error_code \<times> 'ep \<times> ip_address \<times> 'w) option" where
  "v155_sync_recvfrom_ext R s st sizes flags addr da w =
     (if s = None then Some ([], bad_descriptor, addr, da, w)
      else sync_recvfrom_loop (v155_recvfrom_ext R s sizes flags) (ro_poll_read R s) st da w)"

definition v155_sync_recvfrom_local ::
  "('w, 'ep) recv_os \<Rightarrow> nat option \<Rightarrow> state_type \<Rightarrow> nat list \<Rightarrow> message_flags \<Rightarrow> 'ep \<Rightarrow> uint32_t \<times> uint32_t \<Rightarrow> 'w \<Rightarrow>
     (byte_t list \<times> error_code \<times> 'ep \<times> (uint32_t \<times> uint32_t) \<times> 'w) option" where
  "v155_sync_recvfrom_local R s st sizes flags addr ug w =
     (if s = None then Some ([], bad_descriptor, addr, ug, w)
      else sync_recvfrom_loop (v155_recvfrom_local R s sizes flags) (ro_poll_read R s) st ug w)"

definition v155_non_blocking_recvfrom_ext ::
  "('w, 'ep) recv_os \<Rightarrow> nat option \<Rightarrow> nat list \<Rightarrow> message_flags \<Rightarrow> ip_address \<Rightarrow> 'w \<Rightarrow>
     (('ep, ip_address) attempt \<times> 'w) option" where
  "v155_non_blocking_recvfrom_ext R s sizes flags da w =
     non_blocking_loop (v155_recvfrom_ext R s sizes flags) False da w"

definition v155_non_blocking_recv_local ::
  "('w, 'ep) recv_os \<Rightarrow> nat option \<Rightarrow> nat list \<Rightarrow> message_flags \<Rightarrow> bool \<Rightarrow> uint32_t \<times> uint32_t \<Rightarrow> 'w \<Rightarrow>
     (('ep, uint32_t \<times> uint32_t) attempt \<times> 'w) option" where
  "v155_non_blocking_recv_local R s sizes flags is_stream ug w =
     non_blocking_loop (v155_recv_local R s sizes flags) is_stream ug w"

definition v155_non_blocking_recvfrom_local ::
  "('w, 'ep) recv_os \<Rightarrow> nat option \<Rightarrow> nat list \<Rightarrow> message_flags \<Rightarrow> uint32_t \<times> uint32_t \<Rightarrow> 'w \<Rightarrow>
     (('ep, uint32_t \<times> uint32_t) attempt \<times> 'w) option" where
  "v155_non_blocking_recvfrom_local R s sizes flags ug w =
     non_blocking_loop (v155_recvfrom_local R s sizes flags) False ug w"

section \<open>Operations\<close>

definition v155_new_reactor_op_ext :: "ip_address \<Rightarrow> reactor_op_ext" where
  "v155_new_reactor_op_ext unset = \<lparr>ro_ec = no_error, ro_bytes = [], ro_da = unset\<rparr>"

definition v155_new_reactor_op_ext_local :: "uint32_t \<Rightarrow> uint32_t \<Rightarrow> reactor_op_ext_local" where
  "v155_new_reactor_op_ext_local uid gid = \<lparr>ro_ec = no_error, ro_bytes = [], ro_uid = uid, ro_gid = gid\<rparr>"

definition v155_recv_do_perform ::
  "'w boost_recv \<Rightarrow> recv_args \<Rightarrow> reactor_op_ext \<Rightarrow> 'w \<Rightarrow> bool \<times> reactor_op_ext \<times> 'w" where
  "v155_recv_do_perform B a p w =
     (case br_recv B (ra_socket a) (ra_sizes a) (ra_flags a) (stream_oriented \<in> ra_state a) w of
        (complete, ec, bs, w') \<Rightarrow>
          (complete, p\<lparr>ro_ec := ec, ro_bytes := (case bs of None \<Rightarrow> ro_bytes p | Some x \<Rightarrow> x)\<rparr>, w'))"

definition v155_recv_do_complete :: "reactor_op_ext \<Rightarrow> error_code \<times> nat \<times> ip_address" where
  "v155_recv_do_complete p = (ro_ec p, length (ro_bytes p), ro_da p)"

definition v155_local_recv_do_perform ::
  "('w, 'ep) recv_os \<Rightarrow> recv_args \<Rightarrow> reactor_op_ext_local \<Rightarrow> 'w \<Rightarrow> (bool \<times> reactor_op_ext_local \<times> 'w) option" where
  "v155_local_recv_do_perform R a p w =
     (case v155_non_blocking_recv_local R (ra_socket a) (ra_sizes a) (ra_flags a)
         (stream_oriented \<in> ra_state a) (ro_uid p, ro_gid p) w of
        None \<Rightarrow> None
      | Some (Again ec (uid, gid), w') \<Rightarrow> Some (False, p\<lparr>ro_ec := ec, ro_uid := uid, ro_gid := gid\<rparr>, w')
      | Some (Finished ec bs addr (uid, gid), w') \<Rightarrow>
          Some (True, p\<lparr>ro_ec := ec, ro_bytes := bs, ro_uid := uid, ro_gid := gid\<rparr>, w')
      | Some (End_of_stream (uid, gid), w') \<Rightarrow> Some (True, p\<lparr>ro_ec := eof, ro_uid := uid, ro_gid := gid\<rparr>, w'))"

definition v155_local_recv_do_complete :: "reactor_op_ext_local \<Rightarrow> error_code \<times> nat \<times> uint32_t \<times> uint32_t" where
  "v155_local_recv_do_complete p = (ro_ec p, length (ro_bytes p), ro_uid p, ro_gid p)"

text \<open>\<open>out_flags\<close> is the caller's variable.\<close>

definition v155_recvmsg_do_perform ::
  "'w boost_recv \<Rightarrow> recv_args \<Rightarrow> reactor_op_ext \<Rightarrow> 'w \<Rightarrow> bool \<times> reactor_op_ext \<times> message_flags \<times> 'w" where
  "v155_recvmsg_do_perform B a p w =
     (case br_recvmsg B (ra_socket a) (ra_sizes a) (ra_flags a) w of (complete, ec, bs, out_flags, w') \<Rightarrow>
        (complete, p\<lparr>ro_ec := ec, ro_bytes := bs\<rparr>, out_flags, w'))"

definition v155_recvmsg_do_complete :: "reactor_op_ext \<Rightarrow> error_code \<times> nat \<times> ip_address" where
  "v155_recvmsg_do_complete p = (ro_ec p, length (ro_bytes p), ro_da p)"

definition v155_local_recvmsg_do_perform ::
  "'w boost_recv \<Rightarrow> recv_args \<Rightarrow> reactor_op_ext_local \<Rightarrow> 'w \<Rightarrow> bool \<times> reactor_op_ext_local \<times> message_flags \<times> 'w" where
  "v155_local_recvmsg_do_perform B a p w =
     (case br_recvmsg B (ra_socket a) (ra_sizes a) (ra_flags a) w of (complete, ec, bs, out_flags, w') \<Rightarrow>
        (complete, p\<lparr>ro_ec := ec, ro_bytes := bs\<rparr>, out_flags, w'))"

definition v155_local_recvmsg_do_complete :: "reactor_op_ext_local \<Rightarrow> error_code \<times> nat \<times> uint32_t \<times> uint32_t" where
  "v155_local_recvmsg_do_complete p = (ro_ec p, length (ro_bytes p), ro_uid p, ro_gid p)"

definition v155_recvfrom_do_perform ::
  "('w, 'ep) recv_os \<Rightarrow> 'ep recvfrom_op \<Rightarrow> 'w \<Rightarrow> (bool \<times> 'ep recvfrom_op \<times> 'w) option" where
  "v155_recvfrom_do_perform R p w =
     (case v155_non_blocking_recvfrom_ext R (op_socket p) (op_sizes p) (op_flags p) (op_da p) w of
        None \<Rightarrow> None
      | Some (Again ec da, w') \<Rightarrow> Some (False, p\<lparr>op_ec := ec, op_da := da\<rparr>, w')
      | Some (Finished ec bs addr da, w') \<Rightarrow>
          Some (True, p\<lparr>op_ec := ec, op_bytes := bs,
                 op_sender := (if failed ec then op_sender p else addr), op_da := da\<rparr>, w')
      | Some (End_of_stream da, w') \<Rightarrow> Some (True, p\<lparr>op_ec := eof, op_da := da\<rparr>, w'))"

definition v155_recvfrom_do_complete :: "'ep recvfrom_op \<Rightarrow> error_code \<times> nat \<times> ip_address" where
  "v155_recvfrom_do_complete p = (op_ec p, length (op_bytes p), op_da p)"

definition v155_local_recvfrom_do_perform ::
  "('w, 'ep) recv_os \<Rightarrow> 'ep local_recvfrom_op \<Rightarrow> 'w \<Rightarrow> (bool \<times> 'ep local_recvfrom_op \<times> 'w) option" where
  "v155_local_recvfrom_do_perform R p w =
     (case v155_non_blocking_recvfrom_local R (lo_socket p) (lo_sizes p) (lo_flags p) (ro_uid p, ro_gid p) w of
        None \<Rightarrow> None
      | Some (Again ec (uid, gid), w') \<Rightarrow>
          Some (False, p\<lparr>ro_ec := ec, ro_uid := uid, ro_gid := gid\<rparr>, w')
      | Some (Finished ec bs addr (uid, gid), w') \<Rightarrow>
          Some (True, p\<lparr>ro_ec := ec, ro_bytes := bs, ro_uid := uid, ro_gid := gid,
                 lo_sender := (if failed ec then lo_sender p else addr)\<rparr>, w')
      | Some (End_of_stream (uid, gid), w') \<Rightarrow>
          Some (True, p\<lparr>ro_ec := eof, ro_uid := uid, ro_gid := gid\<rparr>, w'))"

definition v155_local_recvfrom_do_complete ::
  "'ep local_recvfrom_op \<Rightarrow> error_code \<times> nat \<times> uint32_t \<times> uint32_t" where
  "v155_local_recvfrom_do_complete p = (ro_ec p, length (ro_bytes p), ro_uid p, ro_gid p)"

section \<open>Properties\<close>

lemma v155_calls_same:
  "v155_recvfrom_ext = recvfrom_ext"
  "v155_recv_local = recv_local"
  "v155_recvfrom_local = recvfrom_local"
  by (simp_all add: fun_eq_iff v155_recvfrom_ext_def recvfrom_ext_def v155_recv_local_def recv_local_def
      v155_recvfrom_local_def recvfrom_local_def)

lemma v155_loops_same:
  "v155_sync_recvfrom_ext = sync_recvfrom_ext"
  "v155_sync_recvfrom_local = sync_recvfrom_local"
  "v155_non_blocking_recvfrom_ext = non_blocking_recvfrom_ext"
  "v155_non_blocking_recv_local = non_blocking_recv_local"
  "v155_non_blocking_recvfrom_local = non_blocking_recvfrom_local"
  by (simp_all add: fun_eq_iff v155_calls_same v155_sync_recvfrom_ext_def sync_recvfrom_ext_def
      v155_sync_recvfrom_local_def sync_recvfrom_local_def v155_non_blocking_recvfrom_ext_def
      non_blocking_recvfrom_ext_def v155_non_blocking_recv_local_def non_blocking_recv_local_def
      v155_non_blocking_recvfrom_local_def non_blocking_recvfrom_local_def)

text \<open>A receive-from is done exactly when that of 1.74 is.\<close>

lemma v155_recvfrom_same:
  "map_option (\<lambda>(s, p, w). (s = status_done, p, w)) (recvfrom_do_perform R p w) = v155_recvfrom_do_perform R p w"
  "map_option (\<lambda>(s, q, w). (s = status_done, q, w)) (local_recvfrom_do_perform R q w) =
     v155_local_recvfrom_do_perform R q w"
  by (auto simp: v155_recvfrom_do_perform_def recvfrom_do_perform_def v155_local_recvfrom_do_perform_def
      local_recvfrom_do_perform_def v155_loops_same split: option.splits prod.splits attempt.splits)

text \<open>
  The calls of a plain receive: after any number of interrupted calls the first one that succeeds
  decides.
\<close>

lemma local_recv_loop:
  assumes "\<forall>i<n. rc_error (fst (nth_call (recv_local R s sizes flags) ug w i)) = interrupted"
    and "snd (nth_call (recv_local R s sizes flags) ug w n) = w'"
    and "fst (nth_call (recv_local R s sizes flags) ug w n) =
      \<lparr>rc_bytes = Some bs, rc_error = no_error, rc_addr = addr, rc_extra = x\<rparr>"
  shows "non_blocking_recv_local R s sizes flags stream ug w =
    Some (classify stream \<lparr>rc_bytes = Some bs, rc_error = no_error, rc_addr = addr, rc_extra = x\<rparr>, w')"
proof -
  let ?recv = "recv_local R s sizes flags"
  have none: "rc_error (fst (?recv y v)) = interrupted \<Longrightarrow> rc_bytes (fst (?recv y v)) = None" for y v
    by (auto simp: recv_local_def split: prod.splits if_splits)
  have "rc_error (fst (nth_call ?recv y v i)) = interrupted \<Longrightarrow> rc_bytes (fst (nth_call ?recv y v i)) = None" for y v i
    by (induction i arbitrary: y v) (auto simp: none split: prod.splits)
  with assms(1) have "\<forall>i<n. retried stream (fst (nth_call ?recv ug w i))"
    by (auto simp: retried_def)
  moreover have "\<not> retried stream (fst (nth_call ?recv ug w n))"
    by (simp add: retried_def assms(3))
  ultimately show ?thesis
    unfolding non_blocking_recv_local_def by (subst non_blocking_loop_nth [where n = n]) (simp_all add: assms(2,3))
qed

text \<open>
  On local sockets of Boost 1.55 a plain receive tells its handler who sent the bytes: the last
  well-formed credentials message, or -1 for user and group when there is none; at the end of a stream
  the error is \<open>eof\<close>.
\<close>

lemma v155_local_receive_reports:
  assumes "\<forall>i<n. rc_error (fst (nth_call (recv_local R (ra_socket a) (ra_sizes a) (ra_flags a)) (ro_uid p, ro_gid p) w i)) = interrupted"
    and "snd (nth_call (recv_local R (ra_socket a) (ra_sizes a) (ra_flags a)) (ro_uid p, ro_gid p) w n) = w'"
    and "fst (nth_call (recv_local R (ra_socket a) (ra_sizes a) (ra_flags a)) (ro_uid p, ro_gid p) w n) =
      \<lparr>rc_bytes = Some bs, rc_error = no_error, rc_addr = addr, rc_extra = find_credentials ms\<rparr>"
  shows "\<exists>p'. v155_local_recv_do_perform R a p w = Some (True, p', w') \<and>
    ro_bytes p' = (if stream_oriented \<in> ra_state a \<and> bs = [] then ro_bytes p else bs) \<and>
    (if stream_oriented \<in> ra_state a \<and> bs = [] then ro_ec p' = eof
     else v155_local_recv_do_complete p' =
       (no_error, length bs, last ((ANY_ID, ANY_ID) # List.map_filter ucred ms)))"
proof -
  obtain uid gid where found: "find_credentials ms = (uid, gid)" by (rule prod.exhaust)
  show ?thesis
    unfolding find_credentials_last [symmetric]
    by (simp add: v155_local_recv_do_perform_def v155_loops_same local_recv_loop [OF assms] classify_def
        v155_local_recv_do_complete_def found)
qed

text \<open>One interrupted call, then two bytes from user 1000 of group 100.\<close>

definition ex_local_os :: "(nat, nat) recv_os" where
  "ex_local_os =
     \<lparr>ro_recvmsg = (\<lambda>s sizes flags w.
        (\<lparr>r_errno = (if w < 1 then 4 else 0), r_bytes = [1, 2], r_addr = 9, r_cmsgs = [ucred_cmsg 1 1000 100]\<rparr>, Suc w)),
      ro_poll_read = (\<lambda>s w. (0, w))\<rparr>"

definition ex_local_args :: recv_args where
  "ex_local_args = \<lparr>ra_socket = Some 3, ra_state = {stream_oriented}, ra_single = True, ra_sizes = [4], ra_flags = 0\<rparr>"

end
