(* ===== verification/Later_Ops.thy ===== *)
theory Later_Ops
  imports Boost155_Ops
begin

text \<open>
  The receive functions and operations of the helper for Boost 1.66
  (include/helper/1.66/boost/asio/detail: impl/socket_ops_ext.ipp, impl/socket_ops_ext_local.ipp and the
  reactive_socket_*_op_ext headers).  As in 1.55 the plain receive of local sockets calls the function
  that reads the sender's credentials; as in 1.74 a receive that empties a stream is exhausted.
\<close>

section \<open>One call\<close>

definition v166_recvfrom_ext ::
  "('w, 'ep) recv_os \<Rightarrow> nat option \<Rightarrow> nat list \<Rightarrow> message_flags \<Rightarrow> ip_address \<Rightarrow> 'w \<Rightarrow>
     ('ep, ip_address) received \<times> 'w" where
  "v166_recvfrom_ext R s sizes flags da w =
     (case ro_recvmsg R s sizes flags w of (r, w') \<Rightarrow>
        if r_errno r = 0 then
          (\<lparr>rc_bytes = Some (r_bytes r), rc_error = no_error, rc_addr = r_addr r,
            rc_extra = find_destination da (r_cmsgs r)\<rparr>, w')
        else
          (\<lparr>rc_bytes = None, rc_error = of_errno (r_errno r), rc_addr = r_addr r, rc_extra = da\<rparr>, w'))"

definition v166_recv_local ::
  "('w, 'ep) recv_os \<Rightarrow> nat option \<Rightarrow> nat list \<Rightarrow> message_flags \<Rightarrow> uint32_t \<times> uint32_t \<Rightarrow> 'w \<Rightarrow>
     ('ep, uint32_t \<times> uint32_t) received \<times> 'w" where
  "v166_recv_local R s sizes flags ug w =
     (case ro_recvmsg R s sizes flags w of (r, w') \<Rightarrow>
        if r_errno r = 0 then
          (\<lparr>rc_bytes = Some (r_bytes r), rc_error = no_error, rc_addr = r_addr r,
            rc_extra = find_credentials (r_cmsgs r)\<rparr>, w')
        else
          (\<lparr>rc_bytes = None, rc_error = of_errno (r_errno r), rc_addr = r_addr r, rc_extra = (ANY_ID, ANY_ID)\<rparr>, w'))"

definition v166_recvfrom_local ::
  "('w, 'ep) recv_os \<Rightarrow> nat option \<Rightarrow> nat list \<Rightarrow> message_flags \<Rightarrow> uint32_t \<times> uint32_t \<Rightarrow> 'w \<Rightarrow>
     ('ep, uint32_t \<times> uint32_t) received \<times> 'w" where
  "v166_recvfrom_local R s sizes flags ug w =
     (case ro_recvmsg R s sizes flags w of (r, w') \<Rightarrow>
        if r_errno r = 0 then
          (\<lparr>rc_bytes = Some (r_bytes r), rc_error = no_error, rc_addr = r_addr r,
            rc_extra = find_credentials (r_cmsgs r)\<rparr>, w')
        else
          (\<lparr>rc_bytes = None, rc_error = of_errno (r_errno r), rc_addr = r_addr r, rc_extra = (ANY_ID, ANY_ID)\<rparr>, w'))"

section \<open>The loops\<close>

definition v166_sync_recvfrom_ext ::
  "('w, 'ep) recv_os \<Rightarrow> nat option \<Rightarrow> state_type \<Rightarrow> nat list \<Rightarrow> message_flags \<Rightarrow> 'ep \<Rightarrow> ip_address \<Rightarrow> 'w \<Rightarrow>
     (byte_t list \<times> error_code \<times> 'ep \<times> ip_address \<times> 'w) option" where
  "v166_sync_recvfrom_ext R s st sizes flags addr da w =
     (if s = None then Some ([], bad_descriptor, addr, da, w)
      else sync_recvfrom_loop (v166_recvfrom_ext R s sizes flags) (ro_poll_read R s) st da w)"

definition v166_sync_recvfrom_local ::
  "('w, 'ep) recv_os \<Rightarrow> nat option \<Rightarrow> state_type \<Rightarrow> nat list \<Rightarrow> message_flags \<Rightarrow> 'ep \<Rightarrow> uint32_t \<times> uint32_t \<Rightarrow> 'w \<Rightarrow>
     (byte_t list \<times> error_code \<times> 'ep \<times> (uint32_t \<times> uint32_t) \<times> 'w) option" where
  "v166_sync_recvfrom_local R s st sizes flags addr ug w =
     (if s = None then Some ([], bad_descriptor, addr, ug, w)
      else sync_recvfrom_loop (v166_recvfrom_local R s sizes flags) (ro_poll_read R s) st ug w)"

definition v166_non_blocking_recvfrom_ext ::
  "('w, 'ep) recv_os \<Rightarrow> nat option \<Rightarrow> nat list \<Rightarrow> message_flags \<Rightarrow> ip_address \<Rightarrow> 'w \<Rightarrow>
     (('ep, ip_address) attempt \<times> 'w) option" where
  "v166_non_blocking_recvfrom_ext R s sizes flags da w =
     non_blocking_loop (v166_recvfrom_ext R s sizes flags) False da w"

definition v166_non_blocking_recv_local ::
  "('w, 'ep) recv_os \<Rightarrow> nat option \<Rightarrow> nat list \<Rightarrow> message_flags \<Rightarrow> bool \<Rightarrow> uint32_t \<times> uint32_t \<Rightarrow> 'w \<Rightarrow>
     (('ep, uint32_t \<times> uint32_t) attempt \<times> 'w) option" where
  "v166_non_blocking_recv_local R s sizes flags is_stream ug w =
     non_blocking_loop (v166_recv_local R s sizes flags) is_stream ug w"

definition v166_non_blocking_recvfrom_local ::
  "('w, 'ep) recv_os \<Rightarrow> nat option \<Rightarrow> nat list \<Rightarrow> message_flags \<Rightarrow> uint32_t \<times> uint32_t \<Rightarrow> 'w \<Rightarrow>
     (('ep, uint32_t \<times> uint32_t) attempt \<times> 'w) option" where
  "v166_non_blocking_recvfrom_local R s sizes flags ug w =
     non_blocking_loop (v166_recvfrom_local R s sizes flags) False ug w"

section \<open>Operations\<close>

definition v166_new_reactor_op_ext :: "ip_address \<Rightarrow> reactor_op_ext" where
  "v166_new_reactor_op_ext unset = \<lparr>ro_ec = no_error, ro_bytes = [], ro_da = unset\<rparr>"

definition v166_new_reactor_op_ext_local :: "uint32_t \<Rightarrow> uint32_t \<Rightarrow> reactor_op_ext_local" where
  "v166_new_reactor_op_ext_local uid gid = \<lparr>ro_ec = no_error, ro_bytes = [], ro_uid = uid, ro_gid = gid\<rparr>"

definition v166_recv_do_perform ::
  "'w boost_recv \<Rightarrow> recv_args \<Rightarrow> reactor_op_ext \<Rightarrow> 'w \<Rightarrow> status \<times> reactor_op_ext \<times> 'w" where
  "v166_recv_do_perform B a p w =
     (let stream = stream_oriented \<in> ra_state a
      in case br_recv B (ra_socket a) (ra_sizes a) (ra_flags a) stream w of
           (complete, ec, bs, w') \<Rightarrow>
             let p' = p\<lparr>ro_ec := ec, ro_bytes := (case bs of None \<Rightarrow> ro_bytes p | Some x \<Rightarrow> x)\<rparr>
             in (if complete then
                   (if stream \<and> ro_bytes p' = [] then status_done_and_exhausted else status_done)
                 else status_not_done, p', w'))"

definition v166_recv_do_complete :: "reactor_op_ext \<Rightarrow> error_code \<times> nat \<times> ip_address" where
  "v166_recv_do_complete p = (ro_ec p, length (ro_bytes p), ro_da p)"

text \<open>The status of a completed receive: a stream that gave no bytes is exhausted.\<close>

definition v166_finished :: "recv_args \<Rightarrow> reactor_op_ext_local \<Rightarrow> status" where
  "v166_finished a p =
     (if stream_oriented \<in> ra_state a \<and> ro_bytes p = [] then status_done_and_exhausted else status_done)"

definition v166_local_recv_do_perform ::
  "('w, 'ep) recv_os \<Rightarrow> recv_args \<Rightarrow> reactor_op_ext_local \<Rightarrow> 'w \<Rightarrow> (status \<times> reactor_op_ext_local \<times> 'w) option" where
  "v166_local_recv_do_perform R a p w =
     (case v166_non_blocking_recv_local R (ra_socket a) (ra_sizes a) (ra_flags a)
         (stream_oriented \<in> ra_state a) (ro_uid p, ro_gid p) w of
        None \<Rightarrow> None
      | Some (Again ec (uid, gid), w') \<Rightarrow> Some (status_not_done, p\<lparr>ro_ec := ec, ro_uid := uid, ro_gid := gid\<rparr>, w')
      | Some (Finished ec bs addr (uid, gid), w') \<Rightarrow>
          (let p' = p\<lparr>ro_ec := ec, ro_bytes := bs, ro_uid := uid, ro_gid := gid\<rparr>
           in Some (v166_finished a p', p', w'))
      | Some (End_of_stream (uid, gid), w') \<Rightarrow>
          (let p' = p\<lparr>ro_ec := eof, ro_uid := uid, ro_gid := gid\<rparr>
           in Some (v166_finished a p', p', w')))"

definition v166_local_recv_do_complete :: "reactor_op_ext_local \<Rightarrow> error_code \<times> nat \<times> uint32_t \<times> uint32_t" where
  "v166_local_recv_do_complete p = (ro_ec p, length (ro_bytes p), ro_uid p, ro_gid p)"

text \<open>\<open>out_flags\<close> is the caller's variable.\<close>

definition v166_recvmsg_do_perform ::
  "'w boost_recv \<Rightarrow> recv_args \<Rightarrow> reactor_op_ext \<Rightarrow> 'w \<Rightarrow> status \<times> reactor_op_ext \<times> message_flags \<times> 'w" where
  "v166_recvmsg_do_perform B a p w =
     (case br_recvmsg B (ra_socket a) (ra_sizes a) (ra_flags a) w of (complete, ec, bs, out_flags, w') \<Rightarrow>
        (if complete then status_done else status_not_done, p\<lparr>ro_ec := ec, ro_bytes := bs\<rparr>, out_flags, w'))"

definition v166_recvmsg_do_complete :: "reactor_op_ext \<Rightarrow> error_code \<times> nat \<times> ip_address" where
  "v166_recvmsg_do_complete p = (ro_ec p, length (ro_bytes p), ro_da p)"

definition v166_local_recvmsg_do_perform ::
  "'w boost_recv \<Rightarrow> recv_args \<Rightarrow> reactor_op_ext_local \<Rightarrow> 'w \<Rightarrow> status \<times> reactor_op_ext_local \<times> message_flags \<times> 'w" where
  "v166_local_recvmsg_do_perform B a p w =
     (case br_recvmsg B (ra_socket a) (ra_sizes a) (ra_flags a) w of (complete, ec, bs, out_flags, w') \<Rightarrow>
        (if complete then status_done else status_not_done, p\<lparr>ro_ec := ec, ro_bytes := bs\<rparr>, out_flags, w'))"

definition v166_local_recvmsg_do_complete :: "reactor_op_ext_local \<Rightarrow> error_code \<times> nat \<times> uint32_t \<times> uint32_t" where
  "v166_local_recvmsg_do_complete p = (ro_ec p, length (ro_bytes p), ro_uid p, ro_gid p)"

definition v166_recvfrom_do_perform ::
  "('w, 'ep) recv_os \<Rightarrow> 'ep recvfrom_op \<Rightarrow> 'w \<Rightarrow> (status \<times> 'ep recvfrom_op \<times> 'w) option" where
  "v166_recvfrom_do_perform R p w =
     (case v166_non_blocking_recvfrom_ext R (op_socket p) (op_sizes p) (op_flags p) (op_da p) w of
        None \<Rightarrow> None
      | Some (Again ec da, w') \<Rightarrow> Some (status_not_done, p\<lparr>op_ec := ec, op_da := da\<rparr>, w')
      | Some (Finished ec bs addr da, w') \<Rightarrow>
          Some (status_done, p\<lparr>op_ec := ec, op_bytes := bs,
                 op_sender := (if failed ec then op_sender p else addr), op_da := da\<rparr>, w')
      | Some (End_of_stream da, w') \<Rightarrow> Some (status_done, p\<lparr>op_ec := eof, op_da := da\<rparr>, w'))"

definition v166_recvfrom_do_complete :: "'ep recvfrom_op \<Rightarrow> error_code \<times> nat \<times> ip_address" where
  "v166_recvfrom_do_complete p = (op_ec p, length (op_bytes p), op_da p)"

definition v166_local_recvfrom_do_perform ::
  "('w, 'ep) recv_os \<Rightarrow> 'ep local_recvfrom_op \<Rightarrow> 'w \<Rightarrow> (status \<times> 'ep local_recvfrom_op \<times> 'w) option" where
  "v166_local_recvfrom_do_perform R p w =
     (case v166_non_blocking_recvfrom_local R (lo_socket p) (lo_sizes p) (lo_flags p) (ro_uid p, ro_gid p) w of
        None \<Rightarrow> None
      | Some (Again ec (uid, gid), w') \<Rightarrow>
          Some (status_not_done, p\<lparr>ro_ec := ec, ro_uid := uid, ro_gid := gid\<rparr>, w')
      | Some (Finished ec bs addr (uid, gid), w') \<Rightarrow>
          Some (status_done, p\<lparr>ro_ec := ec, ro_bytes := bs, ro_uid := uid, ro_gid := gid,
                 lo_sender := (if failed ec then lo_sender p else addr)\<rparr>, w')
      | Some (End_of_stream (uid, gid), w') \<Rightarrow>
          Some (status_done, p\<lparr>ro_ec := eof, ro_uid := uid, ro_gid := gid\<rparr>, w'))"

definition v166_local_recvfrom_do_complete ::
  "'ep local_recvfrom_op \<Rightarrow> error_code \<times> nat \<times> uint32_t \<times> uint32_t" where
  "v166_local_recvfrom_do_complete p = (ro_ec p, length (ro_bytes p), ro_uid p, ro_gid p)"

chapter \<open>The receive operations of Boost 1.70\<close>

text \<open>
  The receive functions and operations of the helper for Boost 1.70
  (include/helper/1.70/boost/asio/detail: impl/socket_ops_ext.ipp, impl/socket_ops_ext_local.ipp and the
  reactive_socket_*_op_ext headers).  As in 1.55 the plain receive of local sockets calls the function
  that reads the sender's credentials; as in 1.74 a receive that empties a stream is exhausted.
\<close>

section \<open>One call\<close>

definition v170_recvfrom_ext ::
  "('w, 'ep) recv_os \<Rightarrow> nat option \<Rightarrow> nat list \<Rightarrow> message_flags \<Rightarrow> ip_address \<Rightarrow> 'w \<Rightarrow>
     ('ep, ip_address) received \<times> 'w" where
  "v170_recvfrom_ext R s sizes flags da w =
     (case ro_recvmsg R s sizes flags w of (r, w') \<Rightarrow>
        if r_errno r = 0 then
          (\<lparr>rc_bytes = Some (r_bytes r), rc_error = no_error, rc_addr = r_addr r,
            rc_extra = find_destination da (r_cmsgs r)\<rparr>, w')
        else
          (\<lparr>rc_bytes = None, rc_error = of_errno (r_errno r), rc_addr = r_addr r, rc_extra = da\<rparr>, w'))"

definition v170_recv_local ::
  "('w, 'ep) recv_os \<Rightarrow> nat option \<Rightarrow> nat list \<Rightarrow> message_flags \<Rightarrow> uint32_t \<times> uint32_t \<Rightarrow> 'w \<Rightarrow>
     ('ep, uint32_t \<times> uint32_t) received \<times> 'w" where
  "v170_recv_local R s sizes flags ug w =
     (case ro_recvmsg R s sizes flags w of (r, w') \<Rightarrow>
        if r_errno r = 0 then
          (\<lparr>rc_bytes = Some (r_bytes r), rc_error = no_error, rc_addr = r_addr r,
            rc_extra = find_credentials (r_cmsgs r)\<rparr>, w')
        else
          (\<lparr>rc_bytes = None, rc_error = of_errno (r_errno r), rc_addr = r_addr r, rc_extra = (ANY_ID, ANY_ID)\<rparr>, w'))"

definition v170_recvfrom_local ::
  "('w, 'ep) recv_os \<Rightarrow> nat option \<Rightarrow> nat list \<Rightarrow> message_flags \<Rightarrow> uint32_t \<times> uint32_t \<Rightarrow> 'w \<Rightarrow>
     ('ep, uint32_t \<times> uint32_t) received \<times> 'w" where
  "v170_recvfrom_local R s sizes flags ug w =
     (case ro_recvmsg R s sizes flags w of (r, w') \<Rightarrow>
        if r_errno r = 0 then
          (\<lparr>rc_bytes = Some (r_bytes r), rc_error = no_error, rc_addr = r_addr r,
            rc_extra = find_credentials (r_cmsgs r)\<rparr>, w')
        else
          (\<lparr>rc_bytes = None, rc_error = of_errno (r_errno r), rc_addr = r_addr r, rc_extra = (ANY_ID, ANY_ID)\<rparr>, w'))"

section \<open>The loops\<close>

definition v170_sync_recvfrom_ext ::
  "('w, 'ep) recv_os \<Rightarrow> nat option \<Rightarrow> state_type \<Rightarrow> nat list \<Rightarrow> message_flags \<Rightarrow> 'ep \<Rightarrow> ip_address \<Rightarrow> 'w \<Rightarrow>
     (byte_t list \<times> error_code \<times> 'ep \<times> ip_address \<times> 'w) option" where
  "v170_sync_recvfrom_ext R s st sizes flags addr da w =
     (if s = None then Some ([], bad_descriptor, addr, da, w)
      else sync_recvfrom_loop (v170_recvfrom_ext R s sizes flags) (ro_poll_read R s) st da w)"

definition v170_sync_recvfrom_local ::
  "('w, 'ep) recv_os \<Rightarrow> nat option \<Rightarrow> state_type \<Rightarrow> nat list \<Rightarrow> message_flags \<Rightarrow> 'ep \<Rightarrow> uint32_t \<times> uint32_t \<Rightarrow> 'w \<Rightarrow>
     (byte_t list \<times> error_code \<times> 'ep \<times> (uint32_t \<times> uint32_t) \<times> 'w) option" where
  "v170_sync_recvfrom_local R s st sizes flags addr ug w =
     (if s = None then Some ([], bad_descriptor, addr, ug, w)
      else sync_recvfrom_loop (v170_recvfrom_local R s sizes flags) (ro_poll_read R s) st ug w)"

definition v170_non_blocking_recvfrom_ext ::
  "('w, 'ep) recv_os \<Rightarrow> nat option \<Rightarrow> nat list \<Rightarrow> message_flags \<Rightarrow> ip_address \<Rightarrow> 'w \<Rightarrow>
     (('ep, ip_address) attempt \<times> 'w) option" where
  "v170_non_blocking_recvfrom_ext R s sizes flags da w =
     non_blocking_loop (v170_recvfrom_ext R s sizes flags) False da w"

definition v170_non_blocking_recv_local ::
  "('w, 'ep) recv_os \<Rightarrow> nat option \<Rightarrow> nat list \<Rightarrow> message_flags \<Rightarrow> bool \<Rightarrow> uint32_t \<times> uint32_t \<Rightarrow> 'w \<Rightarrow>
     (('ep, uint32_t \<times> uint32_t) attempt \<times> 'w) option" where
  "v170_non_blocking_recv_local R s sizes flags is_stream ug w =
     non_blocking_loop (v170_recv_local R s sizes flags) is_stream ug w"

definition v170_non_blocking_recvfrom_local ::
  "('w, 'ep) recv_os \<Rightarrow> nat option \<Rightarrow> nat list \<Rightarrow> message_flags \<Rightarrow> uint32_t \<times> uint32_t \<Rightarrow> 'w \<Rightarrow>
     (('ep, uint32_t \<times> uint32_t) attempt \<times> 'w) option" where
  "v170_non_blocking_recvfrom_local R s sizes flags ug w =
     non_blocking_loop (v170_recvfrom_local R s sizes flags) False ug w"

section \<open>Operations\<close>

definition v170_new_reactor_op_ext :: "ip_address \<Rightarrow> reactor_op_ext" where
  "v170_new_reactor_op_ext unset = \<lparr>ro_ec = no_error, ro_bytes = [], ro_da = unset\<rparr>"

definition v170_new_reactor_op_ext_local :: "uint32_t \<Rightarrow> uint32_t \<Rightarrow> reactor_op_ext_local" where
  "v170_new_reactor_op_ext_local uid gid = \<lparr>ro_ec = no_error, ro_bytes = [], ro_uid = uid, ro_gid = gid\<rparr>"

definition v170_recv_do_perform ::
  "'w boost_recv \<Rightarrow> recv_args \<Rightarrow> reactor_op_ext \<Rightarrow> 'w \<Rightarrow> status \<times> reactor_op_ext \<times> 'w" where
  "v170_recv_do_perform B a p w =
     (let stream = stream_oriented \<in> ra_state a
      in case br_recv B (ra_socket a) (ra_sizes a) (ra_flags a) stream w of
           (complete, ec, bs, w') \<Rightarrow>
             let p' = p\<lparr>ro_ec := ec, ro_bytes := (case bs of None \<Rightarrow> ro_bytes p | Some x \<Rightarrow> x)\<rparr>
             in (if complete then
                   (if stream \<and> ro_bytes p' = [] then status_done_and_exhausted else status_done)
                 else status_not_done, p', w'))"

definition v170_recv_do_complete :: "reactor_op_ext \<Rightarrow> error_code \<times> nat \<times> ip_address" where
  "v170_recv_do_complete p = (ro_ec p, length (ro_bytes p), ro_da p)"

text \<open>The status of a completed receive: a stream that gave no bytes is exhausted.\<close>

definition v170_finished :: "recv_args \<Rightarrow> reactor_op_ext_local \<Rightarrow> status" where
  "v170_finished a p =
     (if stream_oriented \<in> ra_state a \<and> ro_bytes p = [] then status_done_and_exhausted else status_done)"

definition v170_local_recv_do_perform ::
  "('w, 'ep) recv_os \<Rightarrow> recv_args \<Rightarrow> reactor_op_ext_local \<Rightarrow> 'w \<Rightarrow> (status \<times> reactor_op_ext_local \<times> 'w) option" where
  "v170_local_recv_do_perform R a p w =
     (case v170_non_blocking_recv_local R (ra_socket a) (ra_sizes a) (ra_flags a)
         (stream_oriented \<in> ra_state a) (ro_uid p, ro_gid p) w of
        None \<Rightarrow> None
      | Some (Again ec (uid, gid), w') \<Rightarrow> Some (status_not_done, p\<lparr>ro_ec := ec, ro_uid := uid, ro_gid := gid\<rparr>, w')
      | Some (Finished ec bs addr (uid, gid), w') \<Rightarrow>
          (let p' = p\<lparr>ro_ec := ec, ro_bytes := bs, ro_uid := uid, ro_gid := gid\<rparr>
           in Some (v170_finished a p', p', w'))
      | Some (End_of_stream (uid, gid), w') \<Rightarrow>
          (let p' = p\<lparr>ro_ec := eof, ro_uid := uid, ro_gid := gid\<rparr>
           in Some (v170_finished a p', p', w')))"

definition v170_local_recv_do_complete :: "reactor_op_ext_local \<Rightarrow> error_code \<times> nat \<times> uint32_t \<times> uint32_t" where
  "v170_local_recv_do_complete p = (ro_ec p, length (ro_bytes p), ro_uid p, ro_gid p)"

text \<open>\<open>out_flags\<close> is the caller's variable.\<close>

definition v170_recvmsg_do_perform ::
  "'w boost_recv \<Rightarrow> recv_args \<Rightarrow> reactor_op_ext \<Rightarrow> 'w \<Rightarrow> status \<times> reactor_op_ext \<times> message_flags \<times> 'w" where
  "v170_recvmsg_do_perform B a p w =
     (case br_recvmsg B (ra_socket a) (ra_sizes a) (ra_flags a) w of (complete, ec, bs, out_flags, w') \<Rightarrow>
        (if complete then status_done else status_not_done, p\<lparr>ro_ec := ec, ro_bytes := bs\<rparr>, out_flags, w'))"

definition v170_recvmsg_do_complete :: "reactor_op_ext \<Rightarrow> error_code \<times> nat \<times> ip_address" where
  "v170_recvmsg_do_complete p = (ro_ec p, length (ro_bytes p), ro_da p)"

definition v170_local_recvmsg_do_perform ::
  "'w boost_recv \<Rightarrow> recv_args \<Rightarrow> reactor_op_ext_local \<Rightarrow> 'w \<Rightarrow> status \<times> reactor_op_ext_local \<times> message_flags \<times> 'w" where
  "v170_local_recvmsg_do_perform B a p w =
     (case br_recvmsg B (ra_socket a) (ra_sizes a) (ra_flags a) w of (complete, ec, bs, out_flags, w') \<Rightarrow>
        (if complete then status_done else status_not_done, p\<lparr>ro_ec := ec, ro_bytes := bs\<rparr>, out_flags, w'))"

definition v170_local_recvmsg_do_complete :: "reactor_op_ext_local \<Rightarrow> error_code \<times> nat \<times> uint32_t \<times> uint32_t" where
  "v170_local_recvmsg_do_complete p = (ro_ec p, length (ro_bytes p), ro_uid p, ro_gid p)"

definition v170_recvfrom_do_perform ::
  "('w, 'ep) recv_os \<Rightarrow> 'ep recvfrom_op \<Rightarrow> 'w \<Rightarrow> (status \<times> 'ep recvfrom_op \<times> 'w) option" where
  "v170_recvfrom_do_perform R p w =
     (case v170_non_blocking_recvfrom_ext R (op_socket p) (op_sizes p) (op_flags p) (op_da p) w of
        None \<Rightarrow> None
      | Some (Again ec da, w') \<Rightarrow> Some (status_not_done, p\<lparr>op_ec := ec, op_da := da\<rparr>, w')
      | Some (Finished ec bs addr da, w') \<Rightarrow>
          Some (status_done, p\<lparr>op_ec := ec, op_bytes := bs,
                 op_sender := (if failed ec then op_sender p else addr), op_da := da\<rparr>, w')
      | Some (End_of_stream da, w') \<Rightarrow> Some (status_done, p\<lparr>op_ec := eof, op_da := da\<rparr>, w'))"

definition v170_recvfrom_do_complete :: "'ep recvfrom_op \<Rightarrow> error_code \<times> nat \<times> ip_address" where
  "v170_recvfrom_do_complete p = (op_ec p, length (op_bytes p), op_da p)"

definition v170_local_recvfrom_do_perform ::
  "('w, 'ep) recv_os \<Rightarrow> 'ep local_recvfrom_op \<Rightarrow> 'w \<Rightarrow> (status \<times> 'ep local_recvfrom_op \<times> 'w) option" where
  "v170_local_recvfrom_do_perform R p w =
     (case v170_non_blocking_recvfrom_local R (lo_socket p) (lo_sizes p) (lo_flags p) (ro_uid p, ro_gid p) w of
        None \<Rightarrow> None
      | Some (Again ec (uid, gid), w') \<Rightarrow>
          Some (status_not_done, p\<lparr>ro_ec := ec, ro_uid := uid, ro_gid := gid\<rparr>, w')
      | Some (Finished ec bs addr (uid, gid), w') \<Rightarrow>
          Some (status_done, p\<lparr>ro_ec := ec, ro_bytes := bs, ro_uid := uid, ro_gid := gid,
                 lo_sender := (if failed ec then lo_sender p else addr)\<rparr>, w')
      | Some (End_of_stream (uid, gid), w') \<Rightarrow>
          Some (status_done, p\<lparr>ro_ec := eof, ro_uid := uid, ro_gid := gid\<rparr>, w'))"

definition v170_local_recvfrom_do_complete ::
  "'ep local_recvfrom_op \<Rightarrow> error_code \<times> nat \<times> uint32_t \<times> uint32_t" where
  "v170_local_recvfrom_do_complete p = (ro_ec p, length (ro_bytes p), ro_uid p, ro_gid p)"

end
