(* ===== verification/Boost170_Fronts.thy ===== *)
theory Boost170_Fronts imports Boost170_Basic begin

text \<open>
  The socket objects of the helper for Boost 1.70 (include/helper/1.70/boost/asio):
  basic_datagram_socket_ext.hpp, basic_stream_socket_ext.hpp and basic_socket_acceptor_ext.hpp.
\<close>

section \<open>Datagram sockets: Constructors\<close>

definition v170_ds_new ::
  "('w, 'ep, 'opt) os \<Rightarrow> ('w, 'ep) kernel \<Rightarrow> ('w, 'ep) sk" where
  "v170_ds_new Sys k = v170_bs_new Sys k"

definition v170_ds_new_context ::
  "('w, 'ep, 'opt) os \<Rightarrow> ('w, 'ep) kernel \<Rightarrow> ('w, 'ep) sk" where
  "v170_ds_new_context Sys k = v170_bs_new_context Sys k"

definition v170_ds_new_protocol ::
  "('w, 'ep, 'opt) os \<Rightarrow> protocol \<Rightarrow> ('w, 'ep) kernel \<Rightarrow> ((string \<times> error_code) \<times> ('w, 'ep) kernel) + ('w, 'ep) sk" where
  "v170_ds_new_protocol Sys p k = v170_bs_new_protocol Sys p k"

definition v170_ds_new_protocol_context ::
  "('w, 'ep, 'opt) os \<Rightarrow> protocol \<Rightarrow> ('w, 'ep) kernel \<Rightarrow> ((string \<times> error_code) \<times> ('w, 'ep) kernel) + ('w, 'ep) sk" where
  "v170_ds_new_protocol_context Sys p k = v170_bs_new_protocol_context Sys p k"

definition v170_ds_new_endpoint ::
  "('w, 'ep, 'opt) os \<Rightarrow> 'ep \<Rightarrow> ('w, 'ep) kernel \<Rightarrow> ((string \<times> error_code) \<times> ('w, 'ep) kernel) + ('w, 'ep) sk" where
  "v170_ds_new_endpoint Sys ep k = v170_bs_new_endpoint Sys ep k"

definition v170_ds_new_endpoint_context ::
  "('w, 'ep, 'opt) os \<Rightarrow> 'ep \<Rightarrow> ('w, 'ep) kernel \<Rightarrow> ((string \<times> error_code) \<times> ('w, 'ep) kernel) + ('w, 'ep) sk" where
  "v170_ds_new_endpoint_context Sys ep k = v170_bs_new_endpoint_context Sys ep k"

definition v170_ds_new_native ::
  "('w, 'ep, 'opt) os \<Rightarrow> protocol \<Rightarrow> nat \<Rightarrow> ('w, 'ep) kernel \<Rightarrow> ((string \<times> error_code) \<times> ('w, 'ep) kernel) + ('w, 'ep) sk" where
  "v170_ds_new_native Sys p native k = v170_bs_new_native Sys p native k"

definition v170_ds_new_native_context ::
  "('w, 'ep, 'opt) os \<Rightarrow> protocol \<Rightarrow> nat \<Rightarrow> ('w, 'ep) kernel \<Rightarrow> ((string \<times> error_code) \<times> ('w, 'ep) kernel) + ('w, 'ep) sk" where
  "v170_ds_new_native_context Sys p native k = v170_bs_new_native_context Sys p native k"

definition v170_ds_move_construct ::
  "('w, 'ep, 'opt) os \<Rightarrow> impl \<Rightarrow> impl \<times> impl" where
  "v170_ds_move_construct Sys other = v170_bs_move_construct Sys other"

definition v170_ds_move_assign ::
  "('w, 'ep, 'opt) os \<Rightarrow> impl \<Rightarrow> impl \<Rightarrow> ('w, 'ep) kernel \<Rightarrow> impl \<times> impl \<times> ('w, 'ep) kernel" where
  "v170_ds_move_assign Sys impl other k = v170_bs_move_assign Sys impl other k"

definition v170_ds_converting_move_construct ::
  "('w, 'ep, 'opt) os \<Rightarrow> (protocol \<Rightarrow> protocol) \<Rightarrow> protocol \<Rightarrow> impl \<Rightarrow> impl \<times> impl" where
  "v170_ds_converting_move_construct Sys convert other_default other =
     v170_bs_converting_move_construct Sys convert other_default other"

definition v170_ds_converting_move_assign ::
  "('w, 'ep, 'opt) os \<Rightarrow> (protocol \<Rightarrow> protocol) \<Rightarrow> protocol \<Rightarrow> impl \<Rightarrow> impl \<Rightarrow> ('w, 'ep) kernel \<Rightarrow>
     impl \<times> impl \<times> ('w, 'ep) kernel" where
  "v170_ds_converting_move_assign Sys convert other_default impl other k =
     v170_bs_converting_move_assign Sys convert other_default impl other k"

section \<open>Sending\<close>

definition v170_ds_send_throw ::
  "('w, 'ep, 'opt) os \<Rightarrow> byte_t list list \<Rightarrow> ('w, 'ep) sk \<Rightarrow> nat thrown \<times> ('w, 'ep) sk" where
  "v170_ds_send_throw Sys bufs st =
     (case v170_base_send Sys bufs 0 st of ((ec, s), st') \<Rightarrow> (throw_error ''send'' ec s, st'))"

definition v170_ds_send_flags_throw ::
  "('w, 'ep, 'opt) os \<Rightarrow> byte_t list list \<Rightarrow> message_flags \<Rightarrow> ('w, 'ep) sk \<Rightarrow> nat thrown \<times> ('w, 'ep) sk" where
  "v170_ds_send_flags_throw Sys bufs flags st =
     (case v170_base_send Sys bufs flags st of ((ec, s), st') \<Rightarrow> (throw_error ''send'' ec s, st'))"

definition v170_ds_send ::
  "('w, 'ep, 'opt) os \<Rightarrow> byte_t list list \<Rightarrow> message_flags \<Rightarrow> ('w, 'ep) sk \<Rightarrow> (error_code \<times> nat) \<times> ('w, 'ep) sk" where
  "v170_ds_send Sys bufs flags st = v170_base_send Sys bufs flags st"

definition v170_ds_initiate_async_send ::
  "('w, 'ep, 'opt) os \<Rightarrow> byte_t list list \<Rightarrow> message_flags \<Rightarrow> nat \<Rightarrow> bool \<Rightarrow> ('w, 'ep) sk \<Rightarrow> ('w, 'ep) sk" where
  "v170_ds_initiate_async_send Sys bufs flags handler cont st = v170_base_async_send Sys bufs flags handler cont st"

definition v170_ds_async_send ::
  "('w, 'ep, 'opt) os \<Rightarrow> byte_t list list \<Rightarrow> nat \<Rightarrow> bool \<Rightarrow> ('w, 'ep) sk \<Rightarrow> ('w, 'ep) sk" where
  "v170_ds_async_send Sys bufs handler cont st = v170_ds_initiate_async_send Sys bufs 0 handler cont st"

definition v170_ds_async_send_flags ::
  "('w, 'ep, 'opt) os \<Rightarrow> byte_t list list \<Rightarrow> message_flags \<Rightarrow> nat \<Rightarrow> bool \<Rightarrow> ('w, 'ep) sk \<Rightarrow> ('w, 'ep) sk" where
  "v170_ds_async_send_flags Sys bufs flags handler cont st =
     v170_ds_initiate_async_send Sys bufs flags handler cont st"

definition v170_ds_send_to_throw ::
  "('w, 'ep, 'opt) os \<Rightarrow> byte_t list list \<Rightarrow> 'ep \<Rightarrow> ('w, 'ep) sk \<Rightarrow> nat thrown \<times> ('w, 'ep) sk" where
  "v170_ds_send_to_throw Sys bufs destination st =
     (case v170_svc_send_to Sys bufs destination 0 st of ((ec, s), st') \<Rightarrow> (throw_error ''send_to'' ec s, st'))"

definition v170_ds_send_to_flags_throw ::
  "('w, 'ep, 'opt) os \<Rightarrow> byte_t list list \<Rightarrow> 'ep \<Rightarrow> message_flags \<Rightarrow> ('w, 'ep) sk \<Rightarrow> nat thrown \<times> ('w, 'ep) sk" where
  "v170_ds_send_to_flags_throw Sys bufs destination flags st =
     (case v170_svc_send_to Sys bufs destination flags st of ((ec, s), st') \<Rightarrow> (throw_error ''send_to'' ec s, st'))"

definition v170_ds_send_to ::
  "('w, 'ep, 'opt) os \<Rightarrow> byte_t list list \<Rightarrow> 'ep \<Rightarrow> message_flags \<Rightarrow> ('w, 'ep) sk \<Rightarrow> (error_code \<times> nat) \<times> ('w, 'ep) sk" where
  "v170_ds_send_to Sys bufs destination flags st = v170_svc_send_to Sys bufs destination flags st"

definition v170_ds_initiate_async_send_to ::
  "('w, 'ep, 'opt) os \<Rightarrow> byte_t list list \<Rightarrow> 'ep \<Rightarrow> message_flags \<Rightarrow> nat \<Rightarrow> bool \<Rightarrow> ('w, 'ep) sk \<Rightarrow> ('w, 'ep) sk" where
  "v170_ds_initiate_async_send_to Sys bufs destination flags handler cont st =
     v170_svc_async_send_to Sys bufs destination flags handler cont st"

definition v170_ds_async_send_to ::
  "('w, 'ep, 'opt) os \<Rightarrow> byte_t list list \<Rightarrow> 'ep \<Rightarrow> nat \<Rightarrow> bool \<Rightarrow> ('w, 'ep) sk \<Rightarrow> ('w, 'ep) sk" where
  "v170_ds_async_send_to Sys bufs destination handler cont st =
     v170_ds_initiate_async_send_to Sys bufs destination 0 handler cont st"

definition v170_ds_async_send_to_flags ::
  "('w, 'ep, 'opt) os \<Rightarrow> byte_t list list \<Rightarrow> 'ep \<Rightarrow> message_flags \<Rightarrow> nat \<Rightarrow> bool \<Rightarrow> ('w, 'ep) sk \<Rightarrow> ('w, 'ep) sk" where
  "v170_ds_async_send_to_flags Sys bufs destination flags handler cont st =
     v170_ds_initiate_async_send_to Sys bufs destination flags handler cont st"

section \<open>Receiving\<close>

definition v170_ds_receive_throw ::
  "('w, 'ep, 'opt) os \<Rightarrow> nat list \<Rightarrow> ('w, 'ep) sk \<Rightarrow> byte_t list thrown \<times> ('w, 'ep) sk" where
  "v170_ds_receive_throw Sys sizes st =
     (case v170_base_receive Sys sizes 0 st of ((ec, bs), st') \<Rightarrow> (throw_error ''receive'' ec bs, st'))"

definition v170_ds_receive_flags_throw ::
  "('w, 'ep, 'opt) os \<Rightarrow> nat list \<Rightarrow> message_flags \<Rightarrow> ('w, 'ep) sk \<Rightarrow> byte_t list thrown \<times> ('w, 'ep) sk" where
  "v170_ds_receive_flags_throw Sys sizes flags st =
     (case v170_base_receive Sys sizes flags st of ((ec, bs), st') \<Rightarrow> (throw_error ''receive'' ec bs, st'))"

definition v170_ds_receive ::
  "('w, 'ep, 'opt) os \<Rightarrow> nat list \<Rightarrow> message_flags \<Rightarrow> ('w, 'ep) sk \<Rightarrow> (error_code \<times> byte_t list) \<times> ('w, 'ep) sk" where
  "v170_ds_receive Sys sizes flags st = v170_base_receive Sys sizes flags st"

definition v170_ds_initiate_async_receive ::
  "('w, 'ep, 'opt) os \<Rightarrow> nat list \<Rightarrow> message_flags \<Rightarrow> nat \<Rightarrow> bool \<Rightarrow> ('w, 'ep) sk \<Rightarrow> ('w, 'ep) sk" where
  "v170_ds_initiate_async_receive Sys sizes flags handler cont st =
     v170_base_async_receive Sys sizes flags handler cont st"

definition v170_ds_async_receive ::
  "('w, 'ep, 'opt) os \<Rightarrow> nat list \<Rightarrow> nat \<Rightarrow> bool \<Rightarrow> ('w, 'ep) sk \<Rightarrow> ('w, 'ep) sk" where
  "v170_ds_async_receive Sys sizes handler cont st = v170_ds_initiate_async_receive Sys sizes 0 handler cont st"

definition v170_ds_async_receive_flags ::
  "('w, 'ep, 'opt) os \<Rightarrow> nat list \<Rightarrow> message_flags \<Rightarrow> nat \<Rightarrow> bool \<Rightarrow> ('w, 'ep) sk \<Rightarrow> ('w, 'ep) sk" where
  "v170_ds_async_receive_flags Sys sizes flags handler cont st =
     v170_ds_initiate_async_receive Sys sizes flags handler cont st"

text \<open>
  \<open>receive_from\<close> writes the sender into the caller's endpoint, also when it then throws; the endpoint
  after the call is part of the answer.
\<close>

definition v170_ds_receive_from_throw ::
  "('w, 'ep, 'opt) os \<Rightarrow> nat list \<Rightarrow> 'ep \<Rightarrow> ('w, 'ep) sk \<Rightarrow> byte_t list thrown \<times> 'ep \<times> ('w, 'ep) sk" where
  "v170_ds_receive_from_throw Sys sizes sender st =
     (case v170_svc_receive_from Sys sizes sender 0 st of ((ec, bs, sender'), st') \<Rightarrow>
        (throw_error ''receive_from'' ec bs, sender', st'))"

definition v170_ds_receive_from_flags_throw ::
  "('w, 'ep, 'opt) os \<Rightarrow> nat list \<Rightarrow> 'ep \<Rightarrow> message_flags \<Rightarrow> ('w, 'ep) sk \<Rightarrow> byte_t list thrown \<times> 'ep \<times> ('w, 'ep) sk" where
  "v170_ds_receive_from_flags_throw Sys sizes sender flags st =
     (case v170_svc_receive_from Sys sizes sender flags st of ((ec, bs, sender'), st') \<Rightarrow>
        (throw_error ''receive_from'' ec bs, sender', st'))"

definition v170_ds_receive_from ::
  "('w, 'ep, 'opt) os \<Rightarrow> nat list \<Rightarrow> 'ep \<Rightarrow> message_flags \<Rightarrow> ('w, 'ep) sk \<Rightarrow> (error_code \<times> byte_t list \<times> 'ep) \<times> ('w, 'ep) sk" where
  "v170_ds_receive_from Sys sizes sender flags st = v170_svc_receive_from Sys sizes sender flags st"

definition v170_ds_initiate_async_receive_from ::
  "('w, 'ep, 'opt) os \<Rightarrow> nat list \<Rightarrow> message_flags \<Rightarrow> nat \<Rightarrow> bool \<Rightarrow> ('w, 'ep) sk \<Rightarrow> ('w, 'ep) sk" where
  "v170_ds_initiate_async_receive_from Sys sizes flags handler cont st =
     v170_svc_async_receive_from Sys sizes flags handler cont st"

definition v170_ds_async_receive_from ::
  "('w, 'ep, 'opt) os \<Rightarrow> nat list \<Rightarrow> nat \<Rightarrow> bool \<Rightarrow> ('w, 'ep) sk \<Rightarrow> ('w, 'ep) sk" where
  "v170_ds_async_receive_from Sys sizes handler cont st = v170_ds_initiate_async_receive_from Sys sizes 0 handler cont st"

definition v170_ds_async_receive_from_flags ::
  "('w, 'ep, 'opt) os \<Rightarrow> nat list \<Rightarrow> message_flags \<Rightarrow> nat \<Rightarrow> bool \<Rightarrow> ('w, 'ep) sk \<Rightarrow> ('w, 'ep) sk" where
  "v170_ds_async_receive_from_flags Sys sizes flags handler cont st =
     v170_ds_initiate_async_receive_from Sys sizes flags handler cont st"

section \<open>Stream sockets: Constructors\<close>

definition v170_ss_new ::
  "('w, 'ep, 'opt) os \<Rightarrow> ('w, 'ep) kernel \<Rightarrow> ('w, 'ep) sk" where
  "v170_ss_new Sys k = v170_local_bs_new Sys k"

definition v170_ss_new_context ::
  "('w, 'ep, 'opt) os \<Rightarrow> ('w, 'ep) kernel \<Rightarrow> ('w, 'ep) sk" where
  "v170_ss_new_context Sys k = v170_local_bs_new_context Sys k"

definition v170_ss_new_protocol ::
  "('w, 'ep, 'opt) os \<Rightarrow> protocol \<Rightarrow> ('w, 'ep) kernel \<Rightarrow> ((string \<times> error_code) \<times> ('w, 'ep) kernel) + ('w, 'ep) sk" where
  "v170_ss_new_protocol Sys p k = v170_local_bs_new_protocol Sys p k"

definition v170_ss_new_protocol_context ::
  "('w, 'ep, 'opt) os \<Rightarrow> protocol \<Rightarrow> ('w, 'ep) kernel \<Rightarrow> ((string \<times> error_code) \<times> ('w, 'ep) kernel) + ('w, 'ep) sk" where
  "v170_ss_new_protocol_context Sys p k = v170_local_bs_new_protocol_context Sys p k"

definition v170_ss_new_endpoint ::
  "('w, 'ep, 'opt) os \<Rightarrow> 'ep \<Rightarrow> ('w, 'ep) kernel \<Rightarrow> ((string \<times> error_code) \<times> ('w, 'ep) kernel) + ('w, 'ep) sk" where
  "v170_ss_new_endpoint Sys ep k = v170_local_bs_new_endpoint Sys ep k"

definition v170_ss_new_endpoint_context ::
  "('w, 'ep, 'opt) os \<Rightarrow> 'ep \<Rightarrow> ('w, 'ep) kernel \<Rightarrow> ((string \<times> error_code) \<times> ('w, 'ep) kernel) + ('w, 'ep) sk" where
  "v170_ss_new_endpoint_context Sys ep k = v170_local_bs_new_endpoint_context Sys ep k"

definition v170_ss_new_native ::
  "('w, 'ep, 'opt) os \<Rightarrow> protocol \<Rightarrow> nat \<Rightarrow> ('w, 'ep) kernel \<Rightarrow> ((string \<times> error_code) \<times> ('w, 'ep) kernel) + ('w, 'ep) sk" where
  "v170_ss_new_native Sys p native k = v170_local_bs_new_native Sys p native k"

definition v170_ss_new_native_context ::
  "('w, 'ep, 'opt) os \<Rightarrow> protocol \<Rightarrow> nat \<Rightarrow> ('w, 'ep) kernel \<Rightarrow> ((string \<times> error_code) \<times> ('w, 'ep) kernel) + ('w, 'ep) sk" where
  "v170_ss_new_native_context Sys p native k = v170_local_bs_new_native_context Sys p native k"

definition v170_ss_move_construct ::
  "('w, 'ep, 'opt) os \<Rightarrow> impl \<Rightarrow> impl \<times> impl" where
  "v170_ss_move_construct Sys other = v170_local_bs_move_construct Sys other"

definition v170_ss_move_assign ::
  "('w, 'ep, 'opt) os \<Rightarrow> impl \<Rightarrow> impl \<Rightarrow> ('w, 'ep) kernel \<Rightarrow> impl \<times> impl \<times> ('w, 'ep) kernel" where
  "v170_ss_move_assign Sys impl other k = v170_local_bs_move_assign Sys impl other k"

definition v170_ss_converting_move_construct ::
  "('w, 'ep, 'opt) os \<Rightarrow> (protocol \<Rightarrow> protocol) \<Rightarrow> protocol \<Rightarrow> impl \<Rightarrow> impl \<times> impl" where
  "v170_ss_converting_move_construct Sys convert other_default other =
     v170_local_bs_converting_move_construct Sys convert other_default other"

definition v170_ss_converting_move_assign ::
  "('w, 'ep, 'opt) os \<Rightarrow> (protocol \<Rightarrow> protocol) \<Rightarrow> protocol \<Rightarrow> impl \<Rightarrow> impl \<Rightarrow> ('w, 'ep) kernel \<Rightarrow>
     impl \<times> impl \<times> ('w, 'ep) kernel" where
  "v170_ss_converting_move_assign Sys convert other_default impl other k =
     v170_local_bs_converting_move_assign Sys convert other_default impl other k"

section \<open>Sending and writing\<close>

definition v170_ss_send_throw ::
  "('w, 'ep, 'opt) os \<Rightarrow> byte_t list list \<Rightarrow> ('w, 'ep) sk \<Rightarrow> nat thrown \<times> ('w, 'ep) sk" where
  "v170_ss_send_throw Sys bufs st =
     (case v170_local_base_send Sys bufs 0 st of ((ec, s), st') \<Rightarrow> (throw_error ''send'' ec s, st'))"

definition v170_ss_send_flags_throw ::
  "('w, 'ep, 'opt) os \<Rightarrow> byte_t list list \<Rightarrow> message_flags \<Rightarrow> ('w, 'ep) sk \<Rightarrow> nat thrown \<times> ('w, 'ep) sk" where
  "v170_ss_send_flags_throw Sys bufs flags st =
     (case v170_local_base_send Sys bufs flags st of ((ec, s), st') \<Rightarrow> (throw_error ''send'' ec s, st'))"

definition v170_ss_send ::
  "('w, 'ep, 'opt) os \<Rightarrow> byte_t list list \<Rightarrow> message_flags \<Rightarrow> ('w, 'ep) sk \<Rightarrow> (error_code \<times> nat) \<times> ('w, 'ep) sk" where
  "v170_ss_send Sys bufs flags st = v170_local_base_send Sys bufs flags st"

definition v170_ss_initiate_async_send ::
  "('w, 'ep, 'opt) os \<Rightarrow> byte_t list list \<Rightarrow> message_flags \<Rightarrow> nat \<Rightarrow> bool \<Rightarrow> ('w, 'ep) sk \<Rightarrow> ('w, 'ep) sk" where
  "v170_ss_initiate_async_send Sys bufs flags handler cont st = v170_local_base_async_send Sys bufs flags handler cont st"

definition v170_ss_async_send ::
  "('w, 'ep, 'opt) os \<Rightarrow> byte_t list list \<Rightarrow> nat \<Rightarrow> bool \<Rightarrow> ('w, 'ep) sk \<Rightarrow> ('w, 'ep) sk" where
  "v170_ss_async_send Sys bufs handler cont st = v170_ss_initiate_async_send Sys bufs 0 handler cont st"

definition v170_ss_async_send_flags ::
  "('w, 'ep, 'opt) os \<Rightarrow> byte_t list list \<Rightarrow> message_flags \<Rightarrow> nat \<Rightarrow> bool \<Rightarrow> ('w, 'ep) sk \<Rightarrow> ('w, 'ep) sk" where
  "v170_ss_async_send_flags Sys bufs flags handler cont st =
     v170_ss_initiate_async_send Sys bufs flags handler cont st"

definition v170_ss_write_some_throw ::
  "('w, 'ep, 'opt) os \<Rightarrow> byte_t list list \<Rightarrow> ('w, 'ep) sk \<Rightarrow> nat thrown \<times> ('w, 'ep) sk" where
  "v170_ss_write_some_throw Sys bufs st =
     (case v170_local_base_send Sys bufs 0 st of ((ec, s), st') \<Rightarrow> (throw_error ''write_some'' ec s, st'))"

definition v170_ss_write_some ::
  "('w, 'ep, 'opt) os \<Rightarrow> byte_t list list \<Rightarrow> ('w, 'ep) sk \<Rightarrow> (error_code \<times> nat) \<times> ('w, 'ep) sk" where
  "v170_ss_write_some Sys bufs st = v170_local_base_send Sys bufs 0 st"

definition v170_ss_async_write_some ::
  "('w, 'ep, 'opt) os \<Rightarrow> byte_t list list \<Rightarrow> nat \<Rightarrow> bool \<Rightarrow> ('w, 'ep) sk \<Rightarrow> ('w, 'ep) sk" where
  "v170_ss_async_write_some Sys bufs handler cont st = v170_ss_initiate_async_send Sys bufs 0 handler cont st"

section \<open>Receiving and reading\<close>

definition v170_ss_receive_throw ::
  "('w, 'ep, 'opt) os \<Rightarrow> nat list \<Rightarrow> ('w, 'ep) sk \<Rightarrow> byte_t list thrown \<times> ('w, 'ep) sk" where
  "v170_ss_receive_throw Sys sizes st =
     (case v170_local_base_receive Sys sizes 0 st of ((ec, bs), st') \<Rightarrow> (throw_error ''receive'' ec bs, st'))"

definition v170_ss_receive_flags_throw ::
  "('w, 'ep, 'opt) os \<Rightarrow> nat list \<Rightarrow> message_flags \<Rightarrow> ('w, 'ep) sk \<Rightarrow> byte_t list thrown \<times> ('w, 'ep) sk" where
  "v170_ss_receive_flags_throw Sys sizes flags st =
     (case v170_local_base_receive Sys sizes flags st of ((ec, bs), st') \<Rightarrow> (throw_error ''receive'' ec bs, st'))"

definition v170_ss_receive ::
  "('w, 'ep, 'opt) os \<Rightarrow> nat list \<Rightarrow> message_flags \<Rightarrow> ('w, 'ep) sk \<Rightarrow> (error_code \<times> byte_t list) \<times> ('w, 'ep) sk" where
  "v170_ss_receive Sys sizes flags st = v170_local_base_receive Sys sizes flags st"

definition v170_ss_initiate_async_receive ::
  "('w, 'ep, 'opt) os \<Rightarrow> nat list \<Rightarrow> message_flags \<Rightarrow> nat \<Rightarrow> bool \<Rightarrow> ('w, 'ep) sk \<Rightarrow> ('w, 'ep) sk" where
  "v170_ss_initiate_async_receive Sys sizes flags handler cont st =
     v170_local_base_async_receive Sys sizes flags handler cont st"

definition v170_ss_async_receive ::
  "('w, 'ep, 'opt) os \<Rightarrow> nat list \<Rightarrow> nat \<Rightarrow> bool \<Rightarrow> ('w, 'ep) sk \<Rightarrow> ('w, 'ep) sk" where
  "v170_ss_async_receive Sys sizes handler cont st = v170_ss_initiate_async_receive Sys sizes 0 handler cont st"

definition v170_ss_async_receive_flags ::
  "('w, 'ep, 'opt) os \<Rightarrow> nat list \<Rightarrow> message_flags \<Rightarrow> nat \<Rightarrow> bool \<Rightarrow> ('w, 'ep) sk \<Rightarrow> ('w, 'ep) sk" where
  "v170_ss_async_receive_flags Sys sizes flags handler cont st =
     v170_ss_initiate_async_receive Sys sizes flags handler cont st"

definition v170_ss_read_some_throw ::
  "('w, 'ep, 'opt) os \<Rightarrow> nat list \<Rightarrow> ('w, 'ep) sk \<Rightarrow> byte_t list thrown \<times> ('w, 'ep) sk" where
  "v170_ss_read_some_throw Sys sizes st =
     (case v170_local_base_receive Sys sizes 0 st of ((ec, bs), st') \<Rightarrow> (throw_error ''read_some'' ec bs, st'))"

definition v170_ss_read_some ::
  "('w, 'ep, 'opt) os \<Rightarrow> nat list \<Rightarrow> ('w, 'ep) sk \<Rightarrow> (error_code \<times> byte_t list) \<times> ('w, 'ep) sk" where
  "v170_ss_read_some Sys sizes st = v170_local_base_receive Sys sizes 0 st"

definition v170_ss_async_read_some ::
  "('w, 'ep, 'opt) os \<Rightarrow> nat list \<Rightarrow> nat \<Rightarrow> bool \<Rightarrow> ('w, 'ep) sk \<Rightarrow> ('w, 'ep) sk" where
  "v170_ss_async_read_some Sys sizes handler cont st = v170_ss_initiate_async_receive Sys sizes 0 handler cont st"

section \<open>Acceptors: Constructors\<close>

text \<open>A call inside a constructor followed by \<open>throw_error\<close>: throwing destroys what was built.\<close>

definition v170_or_unwind ::
  "('w, 'ep, 'opt) os \<Rightarrow> string \<Rightarrow> error_code \<times> ('w, 'ep) sk \<Rightarrow> ('w, 'ep) constructed" where
  "v170_or_unwind Sys what r =
     (case r of (ec, st) \<Rightarrow> if failed ec then Inl ((what, ec), v170_local_unwind Sys st) else Inr st)"

definition v170_sa_new :: "('w, 'ep, 'opt) os \<Rightarrow> ('w, 'ep) kernel \<Rightarrow> ('w, 'ep) sk" where
  "v170_sa_new Sys k = (v170_local_construct (v170_local_new_impl Sys), k)"

definition v170_sa_new_context :: "('w, 'ep, 'opt) os \<Rightarrow> ('w, 'ep) kernel \<Rightarrow> ('w, 'ep) sk" where
  "v170_sa_new_context Sys k = (v170_local_construct (v170_local_new_impl Sys), k)"

definition v170_sa_new_protocol ::
  "('w, 'ep, 'opt) os \<Rightarrow> protocol \<Rightarrow> ('w, 'ep) kernel \<Rightarrow> ('w, 'ep) constructed" where
  "v170_sa_new_protocol Sys p k = v170_or_unwind Sys ''open'' (v170_local_svc_open Sys p (v170_sa_new Sys k))"

definition v170_sa_new_protocol_context ::
  "('w, 'ep, 'opt) os \<Rightarrow> protocol \<Rightarrow> ('w, 'ep) kernel \<Rightarrow> ('w, 'ep) constructed" where
  "v170_sa_new_protocol_context Sys p k = v170_or_unwind Sys ''open'' (v170_local_svc_open Sys p (v170_sa_new_context Sys k))"

text \<open>
  \<open>reuse\<close> is \<open>socket_base::reuse_address(true)\<close> and \<open>backlog\<close> Boost's \<open>max_listen_connections\<close>.
\<close>

definition v170_sa_new_endpoint ::
  "('w, 'ep, 'opt) os \<Rightarrow> 'opt \<Rightarrow> int \<Rightarrow> 'ep \<Rightarrow> bool \<Rightarrow> ('w, 'ep) kernel \<Rightarrow> ('w, 'ep) constructed" where
  "v170_sa_new_endpoint Sys reuse backlog ep reuse_addr k =
     and_then (v170_or_unwind Sys ''open'' (v170_local_svc_open Sys (os_ep_protocol Sys ep) (v170_sa_new Sys k))) (\<lambda>st1.
     and_then (if reuse_addr then v170_or_unwind Sys ''set_option'' (v170_local_svc_set_option Sys reuse st1) else Inr st1) (\<lambda>st2.
     and_then (v170_or_unwind Sys ''bind'' (v170_local_svc_bind Sys ep st2)) (\<lambda>st3.
     v170_or_unwind Sys ''listen'' (v170_local_base_listen Sys backlog st3))))"

definition v170_sa_new_endpoint_context ::
  "('w, 'ep, 'opt) os \<Rightarrow> 'opt \<Rightarrow> int \<Rightarrow> 'ep \<Rightarrow> bool \<Rightarrow> ('w, 'ep) kernel \<Rightarrow> ('w, 'ep) constructed" where
  "v170_sa_new_endpoint_context Sys reuse backlog ep reuse_addr k =
     and_then (v170_or_unwind Sys ''open'' (v170_local_svc_open Sys (os_ep_protocol Sys ep) (v170_sa_new_context Sys k))) (\<lambda>st1.
     and_then (if reuse_addr then v170_or_unwind Sys ''set_option'' (v170_local_svc_set_option Sys reuse st1) else Inr st1) (\<lambda>st2.
     and_then (v170_or_unwind Sys ''bind'' (v170_local_svc_bind Sys ep st2)) (\<lambda>st3.
     v170_or_unwind Sys ''listen'' (v170_local_base_listen Sys backlog st3))))"

definition v170_sa_new_native ::
  "('w, 'ep, 'opt) os \<Rightarrow> protocol \<Rightarrow> nat \<Rightarrow> ('w, 'ep) kernel \<Rightarrow> ('w, 'ep) constructed" where
  "v170_sa_new_native Sys p native k = v170_or_unwind Sys ''assign'' (v170_local_svc_assign Sys p native (v170_sa_new Sys k))"

definition v170_sa_new_native_context ::
  "('w, 'ep, 'opt) os \<Rightarrow> protocol \<Rightarrow> nat \<Rightarrow> ('w, 'ep) kernel \<Rightarrow> ('w, 'ep) constructed" where
  "v170_sa_new_native_context Sys p native k = v170_or_unwind Sys ''assign'' (v170_local_svc_assign Sys p native (v170_sa_new_context Sys k))"

definition v170_sa_move_construct :: "('w, 'ep, 'opt) os \<Rightarrow> impl \<Rightarrow> impl \<times> impl" where
  "v170_sa_move_construct Sys other = v170_local_move_construct Sys (v170_local_new_impl Sys) other"

definition v170_sa_move_assign ::
  "('w, 'ep, 'opt) os \<Rightarrow> impl \<Rightarrow> impl \<Rightarrow> ('w, 'ep) kernel \<Rightarrow> impl \<times> impl \<times> ('w, 'ep) kernel" where
  "v170_sa_move_assign Sys impl other k = v170_local_move_assign Sys impl other k"

definition v170_sa_converting_move_construct ::
  "('w, 'ep, 'opt) os \<Rightarrow> (protocol \<Rightarrow> protocol) \<Rightarrow> protocol \<Rightarrow> impl \<Rightarrow> impl \<times> impl" where
  "v170_sa_converting_move_construct Sys convert other_default other =
     v170_local_converting_move_construct Sys convert other_default (v170_local_new_impl Sys) other"

text \<open>The source is moved into a temporary, that into the target; then the temporary is destroyed.\<close>

definition v170_sa_converting_move_assign ::
  "('w, 'ep, 'opt) os \<Rightarrow> (protocol \<Rightarrow> protocol) \<Rightarrow> protocol \<Rightarrow> impl \<Rightarrow> impl \<Rightarrow> ('w, 'ep) kernel \<Rightarrow>
     impl \<times> impl \<times> ('w, 'ep) kernel" where
  "v170_sa_converting_move_assign Sys convert other_default impl other k =
     (case v170_sa_converting_move_construct Sys convert other_default other of (tmp, other') \<Rightarrow>
        case v170_local_move_assign Sys impl tmp k of (impl', tmp', k') \<Rightarrow>
          (impl', other', v170_local_destroy Sys tmp' k'))"

section \<open>Opening, listening, closing\<close>

definition v170_sa_open_throw :: "('w, 'ep, 'opt) os \<Rightarrow> protocol \<Rightarrow> ('w, 'ep) sk \<Rightarrow> unit thrown \<times> ('w, 'ep) sk" where
  "v170_sa_open_throw Sys p st = (case v170_local_svc_open Sys p st of (ec, st') \<Rightarrow> (throw_error ''open'' ec (), st'))"

definition v170_sa_open :: "('w, 'ep, 'opt) os \<Rightarrow> protocol \<Rightarrow> ('w, 'ep) sk \<Rightarrow> error_code \<times> ('w, 'ep) sk" where
  "v170_sa_open Sys p st = v170_local_svc_open Sys p st"

definition v170_sa_assign_throw ::
  "('w, 'ep, 'opt) os \<Rightarrow> protocol \<Rightarrow> nat \<Rightarrow> ('w, 'ep) sk \<Rightarrow> unit thrown \<times> ('w, 'ep) sk" where
  "v170_sa_assign_throw Sys p native st =
     (case v170_local_svc_assign Sys p native st of (ec, st') \<Rightarrow> (throw_error ''assign'' ec (), st'))"

definition v170_sa_assign :: "('w, 'ep, 'opt) os \<Rightarrow> protocol \<Rightarrow> nat \<Rightarrow> ('w, 'ep) sk \<Rightarrow> error_code \<times> ('w, 'ep) sk" where
  "v170_sa_assign Sys p native st = v170_local_svc_assign Sys p native st"

definition v170_sa_is_open :: "('w, 'ep) sk \<Rightarrow> bool" where
  "v170_sa_is_open st = v170_local_base_is_open (fst st)"

definition v170_sa_bind_throw :: "('w, 'ep, 'opt) os \<Rightarrow> 'ep \<Rightarrow> ('w, 'ep) sk \<Rightarrow> unit thrown \<times> ('w, 'ep) sk" where
  "v170_sa_bind_throw Sys ep st = (case v170_local_svc_bind Sys ep st of (ec, st') \<Rightarrow> (throw_error ''bind'' ec (), st'))"

definition v170_sa_bind :: "('w, 'ep, 'opt) os \<Rightarrow> 'ep \<Rightarrow> ('w, 'ep) sk \<Rightarrow> error_code \<times> ('w, 'ep) sk" where
  "v170_sa_bind Sys ep st = v170_local_svc_bind Sys ep st"

definition v170_sa_listen_throw :: "('w, 'ep, 'opt) os \<Rightarrow> int \<Rightarrow> ('w, 'ep) sk \<Rightarrow> unit thrown \<times> ('w, 'ep) sk" where
  "v170_sa_listen_throw Sys backlog st =
     (case v170_local_base_listen Sys backlog st of (ec, st') \<Rightarrow> (throw_error ''listen'' ec (), st'))"

definition v170_sa_listen :: "('w, 'ep, 'opt) os \<Rightarrow> int \<Rightarrow> ('w, 'ep) sk \<Rightarrow> error_code \<times> ('w, 'ep) sk" where
  "v170_sa_listen Sys backlog st = v170_local_base_listen Sys backlog st"

definition v170_sa_close_throw :: "('w, 'ep, 'opt) os \<Rightarrow> ('w, 'ep) sk \<Rightarrow> unit thrown \<times> ('w, 'ep) sk" where
  "v170_sa_close_throw Sys st = (case v170_local_base_close Sys st of (ec, st') \<Rightarrow> (throw_error ''close'' ec (), st'))"

definition v170_sa_close :: "('w, 'ep, 'opt) os \<Rightarrow> ('w, 'ep) sk \<Rightarrow> error_code \<times> ('w, 'ep) sk" where
  "v170_sa_close Sys st = v170_local_base_close Sys st"

definition v170_sa_release_throw ::
  "(('w, 'ep) sk \<Rightarrow> (error_code \<times> nat option) \<times> ('w, 'ep) sk) \<Rightarrow> ('w, 'ep) sk \<Rightarrow>
     nat option thrown \<times> ('w, 'ep) sk" where
  "v170_sa_release_throw release st = (case release st of ((ec, s), st') \<Rightarrow> (throw_error ''release'' ec s, st'))"

definition v170_sa_release ::
  "(('w, 'ep) sk \<Rightarrow> (error_code \<times> nat option) \<times> ('w, 'ep) sk) \<Rightarrow> ('w, 'ep) sk \<Rightarrow>
     (error_code \<times> nat option) \<times> ('w, 'ep) sk" where
  "v170_sa_release release st = release st"

definition v170_sa_native_handle :: "('w, 'ep) sk \<Rightarrow> nat option" where
  "v170_sa_native_handle st = v170_local_svc_native_handle (fst st)"

definition v170_sa_cancel_throw :: "('w, 'ep) sk \<Rightarrow> unit thrown \<times> ('w, 'ep) sk" where
  "v170_sa_cancel_throw st = (case v170_local_base_cancel st of (ec, st') \<Rightarrow> (throw_error ''cancel'' ec (), st'))"

definition v170_sa_cancel :: "('w, 'ep) sk \<Rightarrow> error_code \<times> ('w, 'ep) sk" where
  "v170_sa_cancel st = v170_local_base_cancel st"

section \<open>Options, modes, waiting\<close>

definition v170_sa_set_option_throw :: "('w, 'ep, 'opt) os \<Rightarrow> 'opt \<Rightarrow> ('w, 'ep) sk \<Rightarrow> unit thrown \<times> ('w, 'ep) sk" where
  "v170_sa_set_option_throw Sys opt st =
     (case v170_local_svc_set_option Sys opt st of (ec, st') \<Rightarrow> (throw_error ''set_option'' ec (), st'))"

definition v170_sa_set_option :: "('w, 'ep, 'opt) os \<Rightarrow> 'opt \<Rightarrow> ('w, 'ep) sk \<Rightarrow> error_code \<times> ('w, 'ep) sk" where
  "v170_sa_set_option Sys opt st = v170_local_svc_set_option Sys opt st"

definition v170_sa_get_option_throw ::
  "('w, 'ep, 'opt) os \<Rightarrow> 'opt \<Rightarrow> ('w, 'ep) sk \<Rightarrow> byte_t list option thrown \<times> ('w, 'ep) sk" where
  "v170_sa_get_option_throw Sys opt st =
     (case v170_local_svc_get_option Sys opt st of ((ec, v), st') \<Rightarrow> (throw_error ''get_option'' ec v, st'))"

definition v170_sa_get_option ::
  "('w, 'ep, 'opt) os \<Rightarrow> 'opt \<Rightarrow> ('w, 'ep) sk \<Rightarrow> (error_code \<times> byte_t list option) \<times> ('w, 'ep) sk" where
  "v170_sa_get_option Sys opt st = v170_local_svc_get_option Sys opt st"

definition v170_sa_io_control_throw ::
  "('w, 'ep, 'opt) os \<Rightarrow> int \<Rightarrow> byte_t list \<Rightarrow> ('w, 'ep) sk \<Rightarrow> byte_t list thrown \<times> ('w, 'ep) sk" where
  "v170_sa_io_control_throw Sys name data st =
     (case v170_local_base_io_control Sys name data st of ((ec, data'), st') \<Rightarrow> (throw_error ''io_control'' ec data', st'))"

definition v170_sa_io_control ::
  "('w, 'ep, 'opt) os \<Rightarrow> int \<Rightarrow> byte_t list \<Rightarrow> ('w, 'ep) sk \<Rightarrow> (error_code \<times> byte_t list) \<times> ('w, 'ep) sk" where
  "v170_sa_io_control Sys name data st = v170_local_base_io_control Sys name data st"

definition v170_sa_non_blocking :: "('w, 'ep) sk \<Rightarrow> bool" where
  "v170_sa_non_blocking st = v170_local_base_non_blocking (fst st)"

definition v170_sa_set_non_blocking_throw :: "('w, 'ep, 'opt) os \<Rightarrow> bool \<Rightarrow> ('w, 'ep) sk \<Rightarrow> unit thrown \<times> ('w, 'ep) sk" where
  "v170_sa_set_non_blocking_throw Sys mode st =
     (case v170_local_base_set_non_blocking Sys mode st of (ec, st') \<Rightarrow> (throw_error ''non_blocking'' ec (), st'))"

definition v170_sa_set_non_blocking :: "('w, 'ep, 'opt) os \<Rightarrow> bool \<Rightarrow> ('w, 'ep) sk \<Rightarrow> error_code \<times> ('w, 'ep) sk" where
  "v170_sa_set_non_blocking Sys mode st = v170_local_base_set_non_blocking Sys mode st"

definition v170_sa_native_non_blocking :: "('w, 'ep) sk \<Rightarrow> bool" where
  "v170_sa_native_non_blocking st = v170_local_base_native_non_blocking (fst st)"

definition v170_sa_set_native_non_blocking_throw ::
  "('w, 'ep, 'opt) os \<Rightarrow> bool \<Rightarrow> ('w, 'ep) sk \<Rightarrow> unit thrown \<times> ('w, 'ep) sk" where
  "v170_sa_set_native_non_blocking_throw Sys mode st =
     (case v170_local_base_set_native_non_blocking Sys mode st of (ec, st') \<Rightarrow> (throw_error ''native_non_blocking'' ec (), st'))"

definition v170_sa_set_native_non_blocking :: "('w, 'ep, 'opt) os \<Rightarrow> bool \<Rightarrow> ('w, 'ep) sk \<Rightarrow> error_code \<times> ('w, 'ep) sk" where
  "v170_sa_set_native_non_blocking Sys mode st = v170_local_base_set_native_non_blocking Sys mode st"

definition v170_sa_local_endpoint_throw :: "('w, 'ep, 'opt) os \<Rightarrow> ('w, 'ep) sk \<Rightarrow> 'ep thrown" where
  "v170_sa_local_endpoint_throw Sys st = (case v170_local_svc_local_endpoint Sys st of (ec, ep) \<Rightarrow> throw_error ''local_endpoint'' ec ep)"

definition v170_sa_local_endpoint :: "('w, 'ep, 'opt) os \<Rightarrow> ('w, 'ep) sk \<Rightarrow> error_code \<times> 'ep" where
  "v170_sa_local_endpoint Sys st = v170_local_svc_local_endpoint Sys st"

definition v170_sa_wait_throw :: "('w, 'ep, 'opt) os \<Rightarrow> wait_type \<Rightarrow> ('w, 'ep) sk \<Rightarrow> unit thrown \<times> ('w, 'ep) sk" where
  "v170_sa_wait_throw Sys w st = (case v170_local_base_wait Sys w st of (ec, st') \<Rightarrow> (throw_error ''wait'' ec (), st'))"

definition v170_sa_wait :: "('w, 'ep, 'opt) os \<Rightarrow> wait_type \<Rightarrow> ('w, 'ep) sk \<Rightarrow> error_code \<times> ('w, 'ep) sk" where
  "v170_sa_wait Sys w st = v170_local_base_wait Sys w st"

definition v170_sa_initiate_async_wait :: "('w, 'ep, 'opt) os \<Rightarrow> wait_type \<Rightarrow> nat \<Rightarrow> bool \<Rightarrow> ('w, 'ep) sk \<Rightarrow> ('w, 'ep) sk" where
  "v170_sa_initiate_async_wait Sys w handler cont st = v170_local_base_async_wait Sys w handler cont st"

definition v170_sa_async_wait :: "('w, 'ep, 'opt) os \<Rightarrow> wait_type \<Rightarrow> nat \<Rightarrow> bool \<Rightarrow> ('w, 'ep) sk \<Rightarrow> ('w, 'ep) sk" where
  "v170_sa_async_wait Sys w handler cont st = v170_sa_initiate_async_wait Sys w handler cont st"

section \<open>Accepting into a socket\<close>

text \<open>
  With a caller's endpoint, a null pointer or a reference to it; the peer's endpoint is part of the
  answer only for the forms that take one.
\<close>

definition v170_sa_accept_throw ::
  "('w, 'ep, 'opt) os \<Rightarrow> impl \<Rightarrow> impl \<Rightarrow> ('w, 'ep) kernel \<Rightarrow> unit thrown \<times> impl \<times> ('w, 'ep) kernel" where
  "v170_sa_accept_throw Sys impl peer k =
     (case v170_local_svc_accept Sys impl peer k of ((ec, ep), st') \<Rightarrow> (throw_error ''accept'' ec (), st'))"

definition v170_sa_accept ::
  "('w, 'ep, 'opt) os \<Rightarrow> impl \<Rightarrow> impl \<Rightarrow> ('w, 'ep) kernel \<Rightarrow> error_code \<times> impl \<times> ('w, 'ep) kernel" where
  "v170_sa_accept Sys impl peer k = (case v170_local_svc_accept Sys impl peer k of ((ec, ep), st') \<Rightarrow> (ec, st'))"

definition v170_sa_accept_endpoint_throw ::
  "('w, 'ep, 'opt) os \<Rightarrow> impl \<Rightarrow> impl \<Rightarrow> ('w, 'ep) kernel \<Rightarrow> unit thrown \<times> 'ep option \<times> impl \<times> ('w, 'ep) kernel" where
  "v170_sa_accept_endpoint_throw Sys impl peer k =
     (case v170_local_svc_accept Sys impl peer k of ((ec, ep), st') \<Rightarrow> (throw_error ''accept'' ec (), ep, st'))"

definition v170_sa_accept_endpoint ::
  "('w, 'ep, 'opt) os \<Rightarrow> impl \<Rightarrow> impl \<Rightarrow> ('w, 'ep) kernel \<Rightarrow> (error_code \<times> 'ep option) \<times> impl \<times> ('w, 'ep) kernel" where
  "v170_sa_accept_endpoint Sys impl peer k = v170_local_svc_accept Sys impl peer k"

definition v170_sa_initiate_async_accept ::
  "('w, 'ep, 'opt) os \<Rightarrow> bool \<Rightarrow> bool \<Rightarrow> nat \<Rightarrow> bool \<Rightarrow> ('w, 'ep) sk \<Rightarrow> ('w, 'ep) sk" where
  "v170_sa_initiate_async_accept Sys peer_is_open wants_endpoint handler cont st =
     v170_local_svc_async_accept Sys peer_is_open wants_endpoint handler cont st"

definition v170_sa_async_accept ::
  "('w, 'ep, 'opt) os \<Rightarrow> bool \<Rightarrow> nat \<Rightarrow> bool \<Rightarrow> ('w, 'ep) sk \<Rightarrow> ('w, 'ep) sk" where
  "v170_sa_async_accept Sys peer_is_open handler cont st =
     v170_sa_initiate_async_accept Sys peer_is_open False handler cont st"

definition v170_sa_async_accept_endpoint ::
  "('w, 'ep, 'opt) os \<Rightarrow> bool \<Rightarrow> nat \<Rightarrow> bool \<Rightarrow> ('w, 'ep) sk \<Rightarrow> ('w, 'ep) sk" where
  "v170_sa_async_accept_endpoint Sys peer_is_open handler cont st =
     v170_sa_initiate_async_accept Sys peer_is_open True handler cont st"

section \<open>Accepting a new socket\<close>

text \<open>
  The forms that return the socket: a local \<open>peer\<close> is constructed, accepted into and returned; when
  the call throws, \<open>peer\<close> is destroyed.  They differ in the peer's executor, which the model does not
  have, and in whether the peer's endpoint is wanted.
\<close>

definition v170_sa_accept_new_throw ::
  "('w, 'ep, 'opt) os \<Rightarrow> impl \<Rightarrow> ('w, 'ep) kernel \<Rightarrow> impl thrown \<times> ('w, 'ep) kernel" where
  "v170_sa_accept_new_throw Sys impl k =
     (case v170_local_svc_accept Sys impl (v170_local_construct (v170_local_new_impl Sys)) k of ((ec, ep), (peer, k')) \<Rightarrow>
        if failed ec then (Inl (''accept'', ec), v170_local_destroy Sys peer k') else (Inr peer, k'))"

definition v170_sa_accept_new ::
  "('w, 'ep, 'opt) os \<Rightarrow> impl \<Rightarrow> ('w, 'ep) kernel \<Rightarrow> error_code \<times> impl \<times> ('w, 'ep) kernel" where
  "v170_sa_accept_new Sys impl k =
     (case v170_local_svc_accept Sys impl (v170_local_construct (v170_local_new_impl Sys)) k of ((ec, ep), st') \<Rightarrow> (ec, st'))"

definition v170_sa_accept_new_endpoint_throw ::
  "('w, 'ep, 'opt) os \<Rightarrow> impl \<Rightarrow> ('w, 'ep) kernel \<Rightarrow> impl thrown \<times> 'ep option \<times> ('w, 'ep) kernel" where
  "v170_sa_accept_new_endpoint_throw Sys impl k =
     (case v170_local_svc_accept Sys impl (v170_local_construct (v170_local_new_impl Sys)) k of ((ec, ep), (peer, k')) \<Rightarrow>
        if failed ec then (Inl (''accept'', ec), ep, v170_local_destroy Sys peer k') else (Inr peer, ep, k'))"

definition v170_sa_accept_new_endpoint ::
  "('w, 'ep, 'opt) os \<Rightarrow> impl \<Rightarrow> ('w, 'ep) kernel \<Rightarrow> (error_code \<times> 'ep option) \<times> impl \<times> ('w, 'ep) kernel" where
  "v170_sa_accept_new_endpoint Sys impl k = v170_local_svc_accept Sys impl (v170_local_construct (v170_local_new_impl Sys)) k"

definition v170_sa_initiate_async_move_accept ::
  "('w, 'ep, 'opt) os \<Rightarrow> bool \<Rightarrow> nat \<Rightarrow> bool \<Rightarrow> ('w, 'ep) sk \<Rightarrow> ('w, 'ep) sk" where
  "v170_sa_initiate_async_move_accept Sys wants_endpoint handler cont st =
     v170_local_svc_async_move_accept Sys wants_endpoint handler cont st"

definition v170_sa_async_move_accept :: "('w, 'ep, 'opt) os \<Rightarrow> nat \<Rightarrow> bool \<Rightarrow> ('w, 'ep) sk \<Rightarrow> ('w, 'ep) sk" where
  "v170_sa_async_move_accept Sys handler cont st = v170_sa_initiate_async_move_accept Sys False handler cont st"

definition v170_sa_async_move_accept_endpoint :: "('w, 'ep, 'opt) os \<Rightarrow> nat \<Rightarrow> bool \<Rightarrow> ('w, 'ep) sk \<Rightarrow> ('w, 'ep) sk" where
  "v170_sa_async_move_accept_endpoint Sys handler cont st = v170_sa_initiate_async_move_accept Sys True handler cont st"

section \<open>Accepting a new socket with an executor\<close>

text \<open>
  The forms that take the executor, or the context whose executor it is, that the new socket gets
  instead of the acceptor's: a socket with its executor.
\<close>

definition v170_sa_accept_new_executor_throw ::
  "('w, 'ep, 'opt) os \<Rightarrow> impl \<Rightarrow> 'x \<Rightarrow> ('w, 'ep) kernel \<Rightarrow>
     'x placed_socket thrown \<times> ('w, 'ep) kernel" where
  "v170_sa_accept_new_executor_throw Sys impl ex k =
     (case v170_local_svc_accept Sys impl (v170_local_construct (v170_local_new_impl Sys)) k of ((ec, ep), (peer, k')) \<Rightarrow>
        if failed ec then (Inl (''accept'', ec), v170_local_destroy Sys peer k') else (Inr (peer, ex), k'))"

definition v170_sa_accept_new_context_throw ::
  "('w, 'ep, 'opt) os \<Rightarrow> impl \<Rightarrow> ('c \<Rightarrow> 'x) \<Rightarrow> 'c \<Rightarrow> ('w, 'ep) kernel \<Rightarrow>
     'x placed_socket thrown \<times> ('w, 'ep) kernel" where
  "v170_sa_accept_new_context_throw Sys impl executor_of context k =
     (case v170_local_svc_accept Sys impl (v170_local_construct (v170_local_new_impl Sys)) k of ((ec, ep), (peer, k')) \<Rightarrow>
        if failed ec then (Inl (''accept'', ec), v170_local_destroy Sys peer k') else (Inr (peer, executor_of context), k'))"

definition v170_sa_accept_new_executor ::
  "('w, 'ep, 'opt) os \<Rightarrow> impl \<Rightarrow> 'x \<Rightarrow> ('w, 'ep) kernel \<Rightarrow>
     error_code \<times> 'x placed_socket \<times> ('w, 'ep) kernel" where
  "v170_sa_accept_new_executor Sys impl ex k =
     (case v170_local_svc_accept Sys impl (v170_local_construct (v170_local_new_impl Sys)) k of ((ec, ep), (peer, k')) \<Rightarrow>
        (ec, (peer, ex), k'))"

definition v170_sa_accept_new_context ::
  "('w, 'ep, 'opt) os \<Rightarrow> impl \<Rightarrow> ('c \<Rightarrow> 'x) \<Rightarrow> 'c \<Rightarrow> ('w, 'ep) kernel \<Rightarrow>
     error_code \<times> 'x placed_socket \<times> ('w, 'ep) kernel" where
  "v170_sa_accept_new_context Sys impl executor_of context k =
     (case v170_local_svc_accept Sys impl (v170_local_construct (v170_local_new_impl Sys)) k of ((ec, ep), (peer, k')) \<Rightarrow>
        (ec, (peer, executor_of context), k'))"

definition v170_sa_accept_new_endpoint_executor_throw ::
  "('w, 'ep, 'opt) os \<Rightarrow> impl \<Rightarrow> 'x \<Rightarrow> ('w, 'ep) kernel \<Rightarrow>
     'x placed_socket thrown \<times> 'ep option \<times> ('w, 'ep) kernel" where
  "v170_sa_accept_new_endpoint_executor_throw Sys impl ex k =
     (case v170_local_svc_accept Sys impl (v170_local_construct (v170_local_new_impl Sys)) k of ((ec, ep), (peer, k')) \<Rightarrow>
        if failed ec then (Inl (''accept'', ec), ep, v170_local_destroy Sys peer k') else (Inr (peer, ex), ep, k'))"

definition v170_sa_accept_new_endpoint_context_throw ::
  "('w, 'ep, 'opt) os \<Rightarrow> impl \<Rightarrow> ('c \<Rightarrow> 'x) \<Rightarrow> 'c \<Rightarrow> ('w, 'ep) kernel \<Rightarrow>
     'x placed_socket thrown \<times> 'ep option \<times> ('w, 'ep) kernel" where
  "v170_sa_accept_new_endpoint_context_throw Sys impl executor_of context k =
     (case v170_local_svc_accept Sys impl (v170_local_construct (v170_local_new_impl Sys)) k of ((ec, ep), (peer, k')) \<Rightarrow>
        if failed ec then (Inl (''accept'', ec), ep, v170_local_destroy Sys peer k') else (Inr (peer, executor_of context), ep, k'))"

definition v170_sa_accept_new_endpoint_executor ::
  "('w, 'ep, 'opt) os \<Rightarrow> impl \<Rightarrow> 'x \<Rightarrow> ('w, 'ep) kernel \<Rightarrow>
     (error_code \<times> 'ep option) \<times> 'x placed_socket \<times> ('w, 'ep) kernel" where
  "v170_sa_accept_new_endpoint_executor Sys impl ex k =
     (case v170_local_svc_accept Sys impl (v170_local_construct (v170_local_new_impl Sys)) k of ((ec, ep), (peer, k')) \<Rightarrow>
        ((ec, ep), (peer, ex), k'))"

definition v170_sa_accept_new_endpoint_context ::
  "('w, 'ep, 'opt) os \<Rightarrow> impl \<Rightarrow> ('c \<Rightarrow> 'x) \<Rightarrow> 'c \<Rightarrow> ('w, 'ep) kernel \<Rightarrow>
     (error_code \<times> 'ep option) \<times> 'x placed_socket \<times> ('w, 'ep) kernel" where
  "v170_sa_accept_new_endpoint_context Sys impl executor_of context k =
     (case v170_local_svc_accept Sys impl (v170_local_construct (v170_local_new_impl Sys)) k of ((ec, ep), (peer, k')) \<Rightarrow>
        ((ec, ep), (peer, executor_of context), k'))"

text \<open>Asynchronously, the operation keeps the executor; the reactor sees the same operation.\<close>

definition v170_sa_async_move_accept_executor ::
  "('w, 'ep, 'opt) os \<Rightarrow> 'x \<Rightarrow> nat \<Rightarrow> bool \<Rightarrow> ('w, 'ep) sk \<Rightarrow> ('w, 'ep) sk" where
  "v170_sa_async_move_accept_executor Sys ex handler cont st =
     v170_sa_initiate_async_move_accept Sys False handler cont st"

definition v170_sa_async_move_accept_context ::
  "('w, 'ep, 'opt) os \<Rightarrow> 'x \<Rightarrow> nat \<Rightarrow> bool \<Rightarrow> ('w, 'ep) sk \<Rightarrow> ('w, 'ep) sk" where
  "v170_sa_async_move_accept_context Sys context handler cont st =
     v170_sa_initiate_async_move_accept Sys False handler cont st"

definition v170_sa_async_move_accept_endpoint_executor ::
  "('w, 'ep, 'opt) os \<Rightarrow> 'x \<Rightarrow> nat \<Rightarrow> bool \<Rightarrow> ('w, 'ep) sk \<Rightarrow> ('w, 'ep) sk" where
  "v170_sa_async_move_accept_endpoint_executor Sys ex handler cont st =
     v170_sa_initiate_async_move_accept Sys True handler cont st"

definition v170_sa_async_move_accept_endpoint_context ::
  "('w, 'ep, 'opt) os \<Rightarrow> 'x \<Rightarrow> nat \<Rightarrow> bool \<Rightarrow> ('w, 'ep) sk \<Rightarrow> ('w, 'ep) sk" where
  "v170_sa_async_move_accept_endpoint_context Sys context handler cont st =
     v170_sa_initiate_async_move_accept Sys True handler cont st"

end
