(* ===== verification/Later_Copies.thy ===== *)
theory Later_Copies
  imports Boost166_Fronts Boost166_Stream_Service Later_Ops Boost170_Fronts Datagram_Socket Stream_Socket Local_Copies
begin

text \<open>
  The helpers for Boost 1.66 and 1.70 against the one for 1.74: which functions are the same.
\<close>

section \<open>Boost 1.70\<close>

named_theorems v170_same \<open>functions of the helper for Boost 1.70 that equal those of the helper for 1.74\<close>

lemma v170_base_same [v170_same]:
  "v170_base_is_open = base_is_open"
  "v170_base_native_handle = base_native_handle"
  "v170_construct = construct"
  "v170_base_move_construct = base_move_construct"
  "v170_destroy = destroy"
  "v170_base_move_assign = base_move_assign"
  "v170_base_close = base_close"
  "v170_base_cancel = base_cancel"
  "v170_do_open = do_open"
  "v170_do_assign = do_assign"
  "v170_start_op = start_op"
  "v170_start_accept_op = start_accept_op"
  "v170_start_connect_op = start_connect_op"
  "v170_base_at_mark = base_at_mark"
  "v170_base_available = base_available"
  "v170_base_listen = base_listen"
  "v170_base_io_control = base_io_control"
  "v170_base_non_blocking = base_non_blocking"
  "v170_base_set_non_blocking = base_set_non_blocking"
  "v170_base_native_non_blocking = base_native_non_blocking"
  "v170_base_set_native_non_blocking = base_set_native_non_blocking"
  "v170_poll_until = poll_until"
  "v170_base_wait = base_wait"
  "v170_base_async_wait = base_async_wait"
  "v170_base_send = base_send"
  "v170_base_send_null = base_send_null"
  "v170_base_async_send = base_async_send"
  "v170_base_async_send_null = base_async_send_null"
  "v170_base_receive = base_receive"
  "v170_base_receive_null = base_receive_null"
  "v170_base_async_receive = base_async_receive"
  "v170_base_async_receive_null = base_async_receive_null"
  "v170_base_receive_with_flags = base_receive_with_flags"
  "v170_base_receive_with_flags_null = base_receive_with_flags_null"
  "v170_base_async_receive_with_flags_null = base_async_receive_with_flags_null"
  by (unfold v170_same
      v170_base_is_open_def base_is_open_def v170_base_native_handle_def base_native_handle_def
      v170_construct_def construct_def v170_base_move_construct_def base_move_construct_def
      v170_destroy_def destroy_def v170_base_move_assign_def base_move_assign_def v170_base_close_def
      base_close_def v170_base_cancel_def base_cancel_def v170_do_open_def do_open_def
      v170_do_assign_def do_assign_def v170_start_op_def start_op_def v170_start_accept_op_def
      start_accept_op_def v170_start_connect_op_def start_connect_op_def v170_base_at_mark_def
      base_at_mark_def v170_base_available_def base_available_def v170_base_listen_def base_listen_def
      v170_base_io_control_def base_io_control_def v170_base_non_blocking_def base_non_blocking_def
      v170_base_set_non_blocking_def base_set_non_blocking_def v170_base_native_non_blocking_def
      base_native_non_blocking_def v170_base_set_native_non_blocking_def
      base_set_native_non_blocking_def v170_poll_until_def poll_until_def v170_base_wait_def
      base_wait_def v170_base_async_wait_def base_async_wait_def v170_base_send_def base_send_def
      v170_base_send_null_def base_send_null_def v170_base_async_send_def base_async_send_def
      v170_base_async_send_null_def base_async_send_null_def v170_base_receive_def base_receive_def
      v170_base_receive_null_def base_receive_null_def v170_base_async_receive_def
      base_async_receive_def v170_base_async_receive_null_def base_async_receive_null_def
      v170_base_receive_with_flags_def base_receive_with_flags_def v170_base_receive_with_flags_null_def
      base_receive_with_flags_null_def
      v170_base_async_receive_with_flags_null_def
      base_async_receive_with_flags_null_def)
    (rule refl)+

lemma v170_service_same [v170_same]:
  "v170_new_impl = new_impl"
  "v170_move_construct = move_construct"
  "v170_move_assign = move_assign"
  "v170_converting_move_construct = converting_move_construct"
  "v170_svc_open = svc_open"
  "v170_svc_assign = svc_assign"
  "v170_svc_native_handle = svc_native_handle"
  "v170_svc_bind = svc_bind"
  "v170_svc_set_option = svc_set_option"
  "v170_svc_get_option = svc_get_option"
  "v170_svc_local_endpoint = svc_local_endpoint"
  "v170_svc_remote_endpoint = svc_remote_endpoint"
  "v170_svc_shutdown = svc_shutdown"
  "v170_svc_send_to = svc_send_to"
  "v170_svc_send_to_null = svc_send_to_null"
  "v170_svc_async_send_to = svc_async_send_to"
  "v170_svc_async_send_to_null = svc_async_send_to_null"
  "v170_svc_receive_from = svc_receive_from"
  "v170_svc_receive_from_null = svc_receive_from_null"
  "v170_svc_async_receive_from = svc_async_receive_from"
  "v170_svc_async_receive_from_null = svc_async_receive_from_null"
  "v170_svc_accept = svc_accept"
  "v170_svc_async_accept = svc_async_accept"
  "v170_svc_async_move_accept = svc_async_move_accept"
  "v170_svc_connect = svc_connect"
  "v170_svc_async_connect = svc_async_connect"
  by (unfold v170_same
      v170_new_impl_def new_impl_def v170_move_construct_def move_construct_def v170_move_assign_def
      move_assign_def v170_converting_move_construct_def converting_move_construct_def v170_svc_open_def
      svc_open_def v170_svc_assign_def svc_assign_def v170_svc_native_handle_def svc_native_handle_def
      v170_svc_bind_def svc_bind_def v170_svc_set_option_def svc_set_option_def v170_svc_get_option_def
      svc_get_option_def v170_svc_local_endpoint_def svc_local_endpoint_def v170_svc_remote_endpoint_def
      svc_remote_endpoint_def v170_svc_shutdown_def svc_shutdown_def v170_svc_send_to_def
      svc_send_to_def v170_svc_send_to_null_def svc_send_to_null_def v170_svc_async_send_to_def
      svc_async_send_to_def v170_svc_async_send_to_null_def svc_async_send_to_null_def
      v170_svc_receive_from_def svc_receive_from_def v170_svc_receive_from_null_def
      svc_receive_from_null_def v170_svc_async_receive_from_def svc_async_receive_from_def
      v170_svc_async_receive_from_null_def svc_async_receive_from_null_def v170_svc_accept_def
      svc_accept_def v170_svc_async_accept_def svc_async_accept_def v170_svc_async_move_accept_def
      svc_async_move_accept_def v170_svc_connect_def svc_connect_def v170_svc_async_connect_def
      svc_async_connect_def)
    (rule refl)+

lemma v170_local_base_same [v170_same]:
  "v170_local_base_is_open = local_base_is_open"
  "v170_local_base_native_handle = local_base_native_handle"
  "v170_local_construct = local_construct"
  "v170_local_base_move_construct = local_base_move_construct"
  "v170_local_destroy = local_destroy"
  "v170_local_base_move_assign = local_base_move_assign"
  "v170_local_base_close = local_base_close"
  "v170_local_base_cancel = local_base_cancel"
  "v170_local_do_open = local_do_open"
  "v170_local_do_assign = local_do_assign"
  "v170_local_start_op = local_start_op"
  "v170_local_start_accept_op = local_start_accept_op"
  "v170_local_start_connect_op = local_start_connect_op"
  "v170_local_base_at_mark = local_base_at_mark"
  "v170_local_base_available = local_base_available"
  "v170_local_base_listen = local_base_listen"
  "v170_local_base_io_control = local_base_io_control"
  "v170_local_base_non_blocking = local_base_non_blocking"
  "v170_local_base_set_non_blocking = local_base_set_non_blocking"
  "v170_local_base_native_non_blocking = local_base_native_non_blocking"
  "v170_local_base_set_native_non_blocking = local_base_set_native_non_blocking"
  "v170_local_poll_until = local_poll_until"
  "v170_local_base_wait = local_base_wait"
  "v170_local_base_async_wait = local_base_async_wait"
  "v170_local_base_send = local_base_send"
  "v170_local_base_send_null = local_base_send_null"
  "v170_local_base_async_send = local_base_async_send"
  "v170_local_base_async_send_null = local_base_async_send_null"
  "v170_local_base_receive = local_base_receive"
  "v170_local_base_receive_null = local_base_receive_null"
  "v170_local_base_async_receive = local_base_async_receive"
  "v170_local_base_async_receive_null = local_base_async_receive_null"
  "v170_local_base_receive_with_flags = local_base_receive_with_flags"
  "v170_local_base_receive_with_flags_null = local_base_receive_with_flags_null"
  "v170_local_base_async_receive_with_flags = local_base_async_receive_with_flags"
  "v170_local_base_async_receive_with_flags_null = local_base_async_receive_with_flags_null"
  by (unfold v170_same
      v170_local_base_is_open_def local_base_is_open_def v170_local_base_native_handle_def
      local_base_native_handle_def v170_local_construct_def local_construct_def
      v170_local_base_move_construct_def local_base_move_construct_def v170_local_destroy_def
      local_destroy_def v170_local_base_move_assign_def local_base_move_assign_def
      v170_local_base_close_def local_base_close_def v170_local_base_cancel_def local_base_cancel_def
      v170_local_do_open_def local_do_open_def v170_local_do_assign_def local_do_assign_def
      v170_local_start_op_def local_start_op_def v170_local_start_accept_op_def
      local_start_accept_op_def v170_local_start_connect_op_def local_start_connect_op_def
      v170_local_base_at_mark_def local_base_at_mark_def v170_local_base_available_def
      local_base_available_def v170_local_base_listen_def local_base_listen_def
      v170_local_base_io_control_def local_base_io_control_def v170_local_base_non_blocking_def
      local_base_non_blocking_def v170_local_base_set_non_blocking_def local_base_set_non_blocking_def
      v170_local_base_native_non_blocking_def local_base_native_non_blocking_def
      v170_local_base_set_native_non_blocking_def local_base_set_native_non_blocking_def
      v170_local_poll_until_def local_poll_until_def v170_local_base_wait_def local_base_wait_def
      v170_local_base_async_wait_def local_base_async_wait_def v170_local_base_send_def
      local_base_send_def v170_local_base_send_null_def local_base_send_null_def
      v170_local_base_async_send_def local_base_async_send_def v170_local_base_async_send_null_def
      local_base_async_send_null_def v170_local_base_receive_def local_base_receive_def
      v170_local_base_receive_null_def local_base_receive_null_def v170_local_base_async_receive_def
      local_base_async_receive_def v170_local_base_async_receive_null_def
      local_base_async_receive_null_def v170_local_base_receive_with_flags_def
      local_base_receive_with_flags_def v170_local_base_receive_with_flags_null_def
      local_base_receive_with_flags_null_def v170_local_base_async_receive_with_flags_def
      local_base_async_receive_with_flags_def v170_local_base_async_receive_with_flags_null_def
      local_base_async_receive_with_flags_null_def)
    (rule refl)+

lemma v170_local_service_same [v170_same]:
  "v170_local_new_impl = local_new_impl"
  "v170_local_move_construct = local_move_construct"
  "v170_local_move_assign = local_move_assign"
  "v170_local_converting_move_construct = local_converting_move_construct"
  "v170_local_svc_open = local_svc_open"
  "v170_local_svc_assign = local_svc_assign"
  "v170_local_svc_native_handle = local_svc_native_handle"
  "v170_local_svc_bind = local_svc_bind"
  "v170_local_svc_set_option = local_svc_set_option"
  "v170_local_svc_get_option = local_svc_get_option"
  "v170_local_svc_local_endpoint = local_svc_local_endpoint"
  "v170_local_svc_remote_endpoint = local_svc_remote_endpoint"
  "v170_local_svc_shutdown = local_svc_shutdown"
  "v170_local_svc_send_to = local_svc_send_to"
  "v170_local_svc_send_to_null = local_svc_send_to_null"
  "v170_local_svc_async_send_to = local_svc_async_send_to"
  "v170_local_svc_async_send_to_null = local_svc_async_send_to_null"
  "v170_local_svc_receive_from = local_svc_receive_from"
  "v170_local_svc_receive_from_null = local_svc_receive_from_null"
  "v170_local_svc_async_receive_from_null = local_svc_async_receive_from_null"
  "v170_local_svc_accept = local_svc_accept"
  "v170_local_svc_async_accept = local_svc_async_accept"
  "v170_local_svc_async_move_accept = local_svc_async_move_accept"
  "v170_local_svc_connect = local_svc_connect"
  "v170_local_svc_async_connect = local_svc_async_connect"
  by (unfold v170_same
      v170_local_new_impl_def local_new_impl_def v170_local_move_construct_def local_move_construct_def
      v170_local_move_assign_def local_move_assign_def v170_local_converting_move_construct_def
      local_converting_move_construct_def v170_local_svc_open_def local_svc_open_def
      v170_local_svc_assign_def local_svc_assign_def v170_local_svc_native_handle_def
      local_svc_native_handle_def v170_local_svc_bind_def local_svc_bind_def
      v170_local_svc_set_option_def local_svc_set_option_def v170_local_svc_get_option_def
      local_svc_get_option_def v170_local_svc_local_endpoint_def local_svc_local_endpoint_def
      v170_local_svc_remote_endpoint_def local_svc_remote_endpoint_def v170_local_svc_shutdown_def
      local_svc_shutdown_def v170_local_svc_send_to_def local_svc_send_to_def
      v170_local_svc_send_to_null_def local_svc_send_to_null_def v170_local_svc_async_send_to_def
      local_svc_async_send_to_def v170_local_svc_async_send_to_null_def local_svc_async_send_to_null_def
      v170_local_svc_receive_from_def local_svc_receive_from_def v170_local_svc_receive_from_null_def
      local_svc_receive_from_null_def
      v170_local_svc_async_receive_from_null_def
      local_svc_async_receive_from_null_def v170_local_svc_accept_def local_svc_accept_def
      v170_local_svc_async_accept_def local_svc_async_accept_def v170_local_svc_async_move_accept_def
      local_svc_async_move_accept_def v170_local_svc_connect_def local_svc_connect_def
      v170_local_svc_async_connect_def local_svc_async_connect_def)
    (rule refl)+

lemma v170_socket_same [v170_same]:
  "v170_bs_new = bs_new"
  "v170_bs_new_context = bs_new_context"
  "v170_unwind = unwind"
  "v170_bs_new_protocol = bs_new_protocol"
  "v170_bs_new_protocol_context = bs_new_protocol_context"
  "v170_bs_new_endpoint = bs_new_endpoint"
  "v170_bs_new_endpoint_context = bs_new_endpoint_context"
  "v170_bs_new_native = bs_new_native"
  "v170_bs_new_native_context = bs_new_native_context"
  "v170_bs_move_construct = bs_move_construct"
  "v170_bs_move_assign = bs_move_assign"
  "v170_bs_open_throw = bs_open_throw"
  "v170_bs_open = bs_open"
  "v170_bs_assign_throw = bs_assign_throw"
  "v170_bs_assign = bs_assign"
  "v170_bs_is_open = bs_is_open"
  "v170_bs_close_throw = bs_close_throw"
  "v170_bs_close = bs_close"
  "v170_bs_native_handle = bs_native_handle"
  "v170_bs_cancel_throw = bs_cancel_throw"
  "v170_bs_cancel = bs_cancel"
  "v170_bs_at_mark_throw = bs_at_mark_throw"
  "v170_bs_at_mark = bs_at_mark"
  "v170_bs_available_throw = bs_available_throw"
  "v170_bs_available = bs_available"
  "v170_bs_bind_throw = bs_bind_throw"
  "v170_bs_bind = bs_bind"
  "v170_bs_connect_throw = bs_connect_throw"
  "v170_bs_connect = bs_connect"
  "v170_bs_async_connect = bs_async_connect"
  "v170_bs_set_option_throw = bs_set_option_throw"
  "v170_bs_set_option = bs_set_option"
  "v170_bs_get_option_throw = bs_get_option_throw"
  "v170_bs_get_option = bs_get_option"
  "v170_bs_io_control_throw = bs_io_control_throw"
  "v170_bs_io_control = bs_io_control"
  "v170_bs_non_blocking = bs_non_blocking"
  "v170_bs_set_non_blocking_throw = bs_set_non_blocking_throw"
  "v170_bs_set_non_blocking = bs_set_non_blocking"
  "v170_bs_native_non_blocking = bs_native_non_blocking"
  "v170_bs_set_native_non_blocking_throw = bs_set_native_non_blocking_throw"
  "v170_bs_set_native_non_blocking = bs_set_native_non_blocking"
  "v170_bs_local_endpoint_throw = bs_local_endpoint_throw"
  "v170_bs_local_endpoint = bs_local_endpoint"
  "v170_bs_remote_endpoint_throw = bs_remote_endpoint_throw"
  "v170_bs_remote_endpoint = bs_remote_endpoint"
  "v170_bs_shutdown_throw = bs_shutdown_throw"
  "v170_bs_shutdown = bs_shutdown"
  "v170_bs_wait_throw = bs_wait_throw"
  "v170_bs_wait = bs_wait"
  "v170_bs_async_wait = bs_async_wait"
  by (unfold v170_same
      v170_bs_new_def bs_new_def v170_bs_new_context_def bs_new_context_def v170_unwind_def unwind_def
      v170_bs_new_protocol_def bs_new_protocol_def v170_bs_new_protocol_context_def
      bs_new_protocol_context_def v170_bs_new_endpoint_def bs_new_endpoint_def
      v170_bs_new_endpoint_context_def bs_new_endpoint_context_def v170_bs_new_native_def
      bs_new_native_def v170_bs_new_native_context_def bs_new_native_context_def
      v170_bs_move_construct_def bs_move_construct_def v170_bs_move_assign_def bs_move_assign_def
      v170_bs_open_throw_def bs_open_throw_def v170_bs_open_def bs_open_def v170_bs_assign_throw_def
      bs_assign_throw_def v170_bs_assign_def bs_assign_def v170_bs_is_open_def bs_is_open_def
      v170_bs_close_throw_def bs_close_throw_def v170_bs_close_def bs_close_def
      v170_bs_native_handle_def bs_native_handle_def v170_bs_cancel_throw_def bs_cancel_throw_def
      v170_bs_cancel_def bs_cancel_def v170_bs_at_mark_throw_def bs_at_mark_throw_def
      v170_bs_at_mark_def bs_at_mark_def v170_bs_available_throw_def bs_available_throw_def
      v170_bs_available_def bs_available_def v170_bs_bind_throw_def bs_bind_throw_def v170_bs_bind_def
      bs_bind_def v170_bs_connect_throw_def bs_connect_throw_def v170_bs_connect_def bs_connect_def
      v170_bs_async_connect_def v170_bs_initiate_async_connect_def bs_async_connect_def bs_initiate_async_connect_def v170_bs_set_option_throw_def
      bs_set_option_throw_def v170_bs_set_option_def bs_set_option_def v170_bs_get_option_throw_def
      bs_get_option_throw_def v170_bs_get_option_def bs_get_option_def v170_bs_io_control_throw_def
      bs_io_control_throw_def v170_bs_io_control_def bs_io_control_def v170_bs_non_blocking_def
      bs_non_blocking_def v170_bs_set_non_blocking_throw_def bs_set_non_blocking_throw_def
      v170_bs_set_non_blocking_def bs_set_non_blocking_def v170_bs_native_non_blocking_def
      bs_native_non_blocking_def v170_bs_set_native_non_blocking_throw_def
      bs_set_native_non_blocking_throw_def v170_bs_set_native_non_blocking_def
      bs_set_native_non_blocking_def v170_bs_local_endpoint_throw_def bs_local_endpoint_throw_def
      v170_bs_local_endpoint_def bs_local_endpoint_def v170_bs_remote_endpoint_throw_def
      bs_remote_endpoint_throw_def v170_bs_remote_endpoint_def bs_remote_endpoint_def
      v170_bs_shutdown_throw_def bs_shutdown_throw_def v170_bs_shutdown_def bs_shutdown_def
      v170_bs_wait_throw_def bs_wait_throw_def v170_bs_wait_def bs_wait_def v170_bs_async_wait_def v170_bs_initiate_async_wait_def
      bs_async_wait_def bs_initiate_async_wait_def)
    (rule refl)+

lemma v170_local_socket_same [v170_same]:
  "v170_local_bs_new = local_bs_new"
  "v170_local_bs_new_context = local_bs_new_context"
  "v170_local_unwind = local_unwind"
  "v170_local_bs_new_protocol = local_bs_new_protocol"
  "v170_local_bs_new_protocol_context = local_bs_new_protocol_context"
  "v170_local_bs_new_endpoint = local_bs_new_endpoint"
  "v170_local_bs_new_endpoint_context = local_bs_new_endpoint_context"
  "v170_local_bs_new_native = local_bs_new_native"
  "v170_local_bs_new_native_context = local_bs_new_native_context"
  "v170_local_bs_move_construct = local_bs_move_construct"
  "v170_local_bs_move_assign = local_bs_move_assign"
  "v170_local_bs_open_throw = local_bs_open_throw"
  "v170_local_bs_open = local_bs_open"
  "v170_local_bs_assign_throw = local_bs_assign_throw"
  "v170_local_bs_assign = local_bs_assign"
  "v170_local_bs_is_open = local_bs_is_open"
  "v170_local_bs_close_throw = local_bs_close_throw"
  "v170_local_bs_close = local_bs_close"
  "v170_local_bs_native_handle = local_bs_native_handle"
  "v170_local_bs_cancel_throw = local_bs_cancel_throw"
  "v170_local_bs_cancel = local_bs_cancel"
  "v170_local_bs_at_mark_throw = local_bs_at_mark_throw"
  "v170_local_bs_at_mark = local_bs_at_mark"
  "v170_local_bs_available_throw = local_bs_available_throw"
  "v170_local_bs_available = local_bs_available"
  "v170_local_bs_bind_throw = local_bs_bind_throw"
  "v170_local_bs_bind = local_bs_bind"
  "v170_local_bs_connect_throw = local_bs_connect_throw"
  "v170_local_bs_connect = local_bs_connect"
  "v170_local_bs_async_connect = local_bs_async_connect"
  "v170_local_bs_set_option_throw = local_bs_set_option_throw"
  "v170_local_bs_set_option = local_bs_set_option"
  "v170_local_bs_get_option_throw = local_bs_get_option_throw"
  "v170_local_bs_get_option = local_bs_get_option"
  "v170_local_bs_io_control_throw = local_bs_io_control_throw"
  "v170_local_bs_io_control = local_bs_io_control"
  "v170_local_bs_non_blocking = local_bs_non_blocking"
  "v170_local_bs_set_non_blocking_throw = local_bs_set_non_blocking_throw"
  "v170_local_bs_set_non_blocking = local_bs_set_non_blocking"
  "v170_local_bs_native_non_blocking = local_bs_native_non_blocking"
  "v170_local_bs_set_native_non_blocking_throw = local_bs_set_native_non_blocking_throw"
  "v170_local_bs_set_native_non_blocking = local_bs_set_native_non_blocking"
  "v170_local_bs_local_endpoint_throw = local_bs_local_endpoint_throw"
  "v170_local_bs_local_endpoint = local_bs_local_endpoint"
  "v170_local_bs_remote_endpoint_throw = local_bs_remote_endpoint_throw"
  "v170_local_bs_remote_endpoint = local_bs_remote_endpoint"
  "v170_local_bs_shutdown_throw = local_bs_shutdown_throw"
  "v170_local_bs_shutdown = local_bs_shutdown"
  "v170_local_bs_wait_throw = local_bs_wait_throw"
  "v170_local_bs_wait = local_bs_wait"
  "v170_local_bs_async_wait = local_bs_async_wait"
  by (unfold v170_same
      v170_local_bs_new_def local_bs_new_def v170_local_bs_new_context_def local_bs_new_context_def
      v170_local_unwind_def local_unwind_def v170_local_bs_new_protocol_def local_bs_new_protocol_def
      v170_local_bs_new_protocol_context_def local_bs_new_protocol_context_def
      v170_local_bs_new_endpoint_def local_bs_new_endpoint_def v170_local_bs_new_endpoint_context_def
      local_bs_new_endpoint_context_def v170_local_bs_new_native_def local_bs_new_native_def
      v170_local_bs_new_native_context_def local_bs_new_native_context_def
      v170_local_bs_move_construct_def local_bs_move_construct_def v170_local_bs_move_assign_def
      local_bs_move_assign_def v170_local_bs_open_throw_def local_bs_open_throw_def
      v170_local_bs_open_def local_bs_open_def v170_local_bs_assign_throw_def local_bs_assign_throw_def
      v170_local_bs_assign_def local_bs_assign_def v170_local_bs_is_open_def local_bs_is_open_def
      v170_local_bs_close_throw_def local_bs_close_throw_def v170_local_bs_close_def local_bs_close_def
      v170_local_bs_native_handle_def local_bs_native_handle_def v170_local_bs_cancel_throw_def
      local_bs_cancel_throw_def v170_local_bs_cancel_def local_bs_cancel_def
      v170_local_bs_at_mark_throw_def local_bs_at_mark_throw_def v170_local_bs_at_mark_def
      local_bs_at_mark_def v170_local_bs_available_throw_def local_bs_available_throw_def
      v170_local_bs_available_def local_bs_available_def v170_local_bs_bind_throw_def
      local_bs_bind_throw_def v170_local_bs_bind_def local_bs_bind_def v170_local_bs_connect_throw_def
      local_bs_connect_throw_def v170_local_bs_connect_def local_bs_connect_def
      v170_local_bs_async_connect_def v170_local_bs_initiate_async_connect_def local_bs_async_connect_def local_bs_initiate_async_connect_def v170_local_bs_set_option_throw_def
      local_bs_set_option_throw_def v170_local_bs_set_option_def local_bs_set_option_def
      v170_local_bs_get_option_throw_def local_bs_get_option_throw_def v170_local_bs_get_option_def
      local_bs_get_option_def v170_local_bs_io_control_throw_def local_bs_io_control_throw_def
      v170_local_bs_io_control_def local_bs_io_control_def v170_local_bs_non_blocking_def
      local_bs_non_blocking_def v170_local_bs_set_non_blocking_throw_def
      local_bs_set_non_blocking_throw_def v170_local_bs_set_non_blocking_def
      local_bs_set_non_blocking_def v170_local_bs_native_non_blocking_def
      local_bs_native_non_blocking_def v170_local_bs_set_native_non_blocking_throw_def
      local_bs_set_native_non_blocking_throw_def v170_local_bs_set_native_non_blocking_def
      local_bs_set_native_non_blocking_def v170_local_bs_local_endpoint_throw_def
      local_bs_local_endpoint_throw_def v170_local_bs_local_endpoint_def local_bs_local_endpoint_def
      v170_local_bs_remote_endpoint_throw_def local_bs_remote_endpoint_throw_def
      v170_local_bs_remote_endpoint_def local_bs_remote_endpoint_def v170_local_bs_shutdown_throw_def
      local_bs_shutdown_throw_def v170_local_bs_shutdown_def local_bs_shutdown_def
      v170_local_bs_wait_throw_def local_bs_wait_throw_def v170_local_bs_wait_def local_bs_wait_def
      v170_local_bs_async_wait_def v170_local_bs_initiate_async_wait_def local_bs_async_wait_def local_bs_initiate_async_wait_def)
    (rule refl)+

lemma v170_datagram_same [v170_same]:
  "v170_ds_new = ds_new"
  "v170_ds_new_context = ds_new_context"
  "v170_ds_new_protocol = ds_new_protocol"
  "v170_ds_new_protocol_context = ds_new_protocol_context"
  "v170_ds_new_endpoint = ds_new_endpoint"
  "v170_ds_new_endpoint_context = ds_new_endpoint_context"
  "v170_ds_new_native = ds_new_native"
  "v170_ds_new_native_context = ds_new_native_context"
  "v170_ds_move_construct = ds_move_construct"
  "v170_ds_move_assign = ds_move_assign"
  "v170_ds_send_throw = ds_send_throw"
  "v170_ds_send_flags_throw = ds_send_flags_throw"
  "v170_ds_send = ds_send"
  "v170_ds_initiate_async_send = ds_initiate_async_send"
  "v170_ds_async_send = ds_async_send"
  "v170_ds_async_send_flags = ds_async_send_flags"
  "v170_ds_send_to_throw = ds_send_to_throw"
  "v170_ds_send_to_flags_throw = ds_send_to_flags_throw"
  "v170_ds_send_to = ds_send_to"
  "v170_ds_initiate_async_send_to = ds_initiate_async_send_to"
  "v170_ds_async_send_to = ds_async_send_to"
  "v170_ds_async_send_to_flags = ds_async_send_to_flags"
  "v170_ds_receive_throw = ds_receive_throw"
  "v170_ds_receive_flags_throw = ds_receive_flags_throw"
  "v170_ds_receive = ds_receive"
  "v170_ds_initiate_async_receive = ds_initiate_async_receive"
  "v170_ds_async_receive = ds_async_receive"
  "v170_ds_async_receive_flags = ds_async_receive_flags"
  "v170_ds_receive_from_throw = ds_receive_from_throw"
  "v170_ds_receive_from_flags_throw = ds_receive_from_flags_throw"
  "v170_ds_receive_from = ds_receive_from"
  "v170_ds_initiate_async_receive_from = ds_initiate_async_receive_from"
  "v170_ds_async_receive_from = ds_async_receive_from"
  "v170_ds_async_receive_from_flags = ds_async_receive_from_flags"
  by (unfold v170_same
      v170_ds_new_def ds_new_def v170_ds_new_context_def ds_new_context_def v170_ds_new_protocol_def
      ds_new_protocol_def v170_ds_new_protocol_context_def ds_new_protocol_context_def
      v170_ds_new_endpoint_def ds_new_endpoint_def v170_ds_new_endpoint_context_def
      ds_new_endpoint_context_def v170_ds_new_native_def ds_new_native_def
      v170_ds_new_native_context_def ds_new_native_context_def v170_ds_move_construct_def
      ds_move_construct_def v170_ds_move_assign_def ds_move_assign_def v170_ds_send_throw_def
      ds_send_throw_def v170_ds_send_flags_throw_def ds_send_flags_throw_def v170_ds_send_def
      ds_send_def v170_ds_initiate_async_send_def ds_initiate_async_send_def v170_ds_async_send_def
      ds_async_send_def v170_ds_async_send_flags_def ds_async_send_flags_def v170_ds_send_to_throw_def
      ds_send_to_throw_def v170_ds_send_to_flags_throw_def ds_send_to_flags_throw_def
      v170_ds_send_to_def ds_send_to_def v170_ds_initiate_async_send_to_def
      ds_initiate_async_send_to_def v170_ds_async_send_to_def ds_async_send_to_def
      v170_ds_async_send_to_flags_def ds_async_send_to_flags_def v170_ds_receive_throw_def
      ds_receive_throw_def v170_ds_receive_flags_throw_def ds_receive_flags_throw_def
      v170_ds_receive_def ds_receive_def v170_ds_initiate_async_receive_def
      ds_initiate_async_receive_def v170_ds_async_receive_def ds_async_receive_def
      v170_ds_async_receive_flags_def ds_async_receive_flags_def v170_ds_receive_from_throw_def
      ds_receive_from_throw_def v170_ds_receive_from_flags_throw_def ds_receive_from_flags_throw_def
      v170_ds_receive_from_def ds_receive_from_def v170_ds_initiate_async_receive_from_def
      ds_initiate_async_receive_from_def v170_ds_async_receive_from_def ds_async_receive_from_def
      v170_ds_async_receive_from_flags_def ds_async_receive_from_flags_def)
    (rule refl)+

lemma v170_stream_same [v170_same]:
  "v170_ss_new = ss_new"
  "v170_ss_new_context = ss_new_context"
  "v170_ss_new_protocol = ss_new_protocol"
  "v170_ss_new_protocol_context = ss_new_protocol_context"
  "v170_ss_new_endpoint = ss_new_endpoint"
  "v170_ss_new_endpoint_context = ss_new_endpoint_context"
  "v170_ss_new_native = ss_new_native"
  "v170_ss_new_native_context = ss_new_native_context"
  "v170_ss_move_construct = ss_move_construct"
  "v170_ss_move_assign = ss_move_assign"
  "v170_ss_send_throw = ss_send_throw"
  "v170_ss_send_flags_throw = ss_send_flags_throw"
  "v170_ss_send = ss_send"
  "v170_ss_initiate_async_send = ss_initiate_async_send"
  "v170_ss_async_send = ss_async_send"
  "v170_ss_async_send_flags = ss_async_send_flags"
  "v170_ss_write_some_throw = ss_write_some_throw"
  "v170_ss_write_some = ss_write_some"
  "v170_ss_async_write_some = ss_async_write_some"
  "v170_ss_receive_throw = ss_receive_throw"
  "v170_ss_receive_flags_throw = ss_receive_flags_throw"
  "v170_ss_receive = ss_receive"
  "v170_ss_initiate_async_receive = ss_initiate_async_receive"
  "v170_ss_async_receive = ss_async_receive"
  "v170_ss_async_receive_flags = ss_async_receive_flags"
  "v170_ss_read_some_throw = ss_read_some_throw"
  "v170_ss_read_some = ss_read_some"
  "v170_ss_async_read_some = ss_async_read_some"
  by (unfold v170_same
      v170_ss_new_def ss_new_def v170_ss_new_context_def ss_new_context_def v170_ss_new_protocol_def
      ss_new_protocol_def v170_ss_new_protocol_context_def ss_new_protocol_context_def
      v170_ss_new_endpoint_def ss_new_endpoint_def v170_ss_new_endpoint_context_def
      ss_new_endpoint_context_def v170_ss_new_native_def ss_new_native_def
      v170_ss_new_native_context_def ss_new_native_context_def v170_ss_move_construct_def
      ss_move_construct_def v170_ss_move_assign_def ss_move_assign_def v170_ss_send_throw_def
      ss_send_throw_def v170_ss_send_flags_throw_def ss_send_flags_throw_def v170_ss_send_def
      ss_send_def v170_ss_initiate_async_send_def ss_initiate_async_send_def v170_ss_async_send_def
      ss_async_send_def v170_ss_async_send_flags_def ss_async_send_flags_def
      v170_ss_write_some_throw_def ss_write_some_throw_def v170_ss_write_some_def ss_write_some_def
      v170_ss_async_write_some_def ss_async_write_some_def v170_ss_receive_throw_def
      ss_receive_throw_def v170_ss_receive_flags_throw_def ss_receive_flags_throw_def
      v170_ss_receive_def ss_receive_def v170_ss_initiate_async_receive_def
      ss_initiate_async_receive_def v170_ss_async_receive_def ss_async_receive_def
      v170_ss_async_receive_flags_def ss_async_receive_flags_def v170_ss_read_some_throw_def
      ss_read_some_throw_def v170_ss_read_some_def ss_read_some_def v170_ss_async_read_some_def
      ss_async_read_some_def)
    (rule refl)+

lemma v170_acceptor_same_1 [v170_same]:
  "v170_or_unwind = or_unwind"
  "v170_sa_new = sa_new"
  "v170_sa_new_context = sa_new_context"
  "v170_sa_new_protocol = sa_new_protocol"
  "v170_sa_new_protocol_context = sa_new_protocol_context"
  "v170_sa_new_endpoint = sa_new_endpoint"
  "v170_sa_new_endpoint_context = sa_new_endpoint_context"
  "v170_sa_new_native = sa_new_native"
  "v170_sa_new_native_context = sa_new_native_context"
  "v170_sa_move_construct = sa_move_construct"
  "v170_sa_move_assign = sa_move_assign"
  "v170_sa_open_throw = sa_open_throw"
  "v170_sa_open = sa_open"
  "v170_sa_assign_throw = sa_assign_throw"
  "v170_sa_assign = sa_assign"
  "v170_sa_is_open = sa_is_open"
  "v170_sa_bind_throw = sa_bind_throw"
  "v170_sa_bind = sa_bind"
  "v170_sa_listen_throw = sa_listen_throw"
  "v170_sa_listen = sa_listen"
  "v170_sa_close_throw = sa_close_throw"
  "v170_sa_close = sa_close"
  "v170_sa_native_handle = sa_native_handle"
  "v170_sa_cancel_throw = sa_cancel_throw"
  "v170_sa_cancel = sa_cancel"
  "v170_sa_set_option_throw = sa_set_option_throw"
  "v170_sa_set_option = sa_set_option"
  "v170_sa_get_option_throw = sa_get_option_throw"
  "v170_sa_get_option = sa_get_option"
  "v170_sa_io_control_throw = sa_io_control_throw"
  "v170_sa_io_control = sa_io_control"
  "v170_sa_non_blocking = sa_non_blocking"
  "v170_sa_set_non_blocking_throw = sa_set_non_blocking_throw"
  "v170_sa_set_non_blocking = sa_set_non_blocking"
  "v170_sa_native_non_blocking = sa_native_non_blocking"
  "v170_sa_set_native_non_blocking_throw = sa_set_native_non_blocking_throw"
  "v170_sa_set_native_non_blocking = sa_set_native_non_blocking"
  "v170_sa_local_endpoint_throw = sa_local_endpoint_throw"
  "v170_sa_local_endpoint = sa_local_endpoint"
  "v170_sa_wait_throw = sa_wait_throw"
  "v170_sa_wait = sa_wait"
  "v170_sa_async_wait = sa_async_wait"
  "v170_sa_accept_throw = sa_accept_throw"
  "v170_sa_accept = sa_accept"
  "v170_sa_accept_endpoint_throw = sa_accept_endpoint_throw"
  "v170_sa_accept_endpoint = sa_accept_endpoint"
  "v170_sa_initiate_async_accept = sa_initiate_async_accept"
  "v170_sa_async_accept = sa_async_accept"
  "v170_sa_async_accept_endpoint = sa_async_accept_endpoint"
  "v170_sa_accept_new_throw = sa_accept_new_throw"
  "v170_sa_accept_new = sa_accept_new"
  "v170_sa_accept_new_endpoint_throw = sa_accept_new_endpoint_throw"
  "v170_sa_accept_new_endpoint = sa_accept_new_endpoint"
  "v170_sa_initiate_async_move_accept = sa_initiate_async_move_accept"
  "v170_sa_async_move_accept = sa_async_move_accept"
  "v170_sa_async_move_accept_endpoint = sa_async_move_accept_endpoint"
  "v170_sa_accept_new_executor_throw = sa_accept_new_executor_throw"
  "v170_sa_accept_new_context_throw = sa_accept_new_context_throw"
  "v170_sa_accept_new_executor = sa_accept_new_executor"
  "v170_sa_accept_new_context = sa_accept_new_context"
  by (unfold v170_same
      v170_or_unwind_def or_unwind_def v170_sa_new_def sa_new_def v170_sa_new_context_def
      sa_new_context_def v170_sa_new_protocol_def sa_new_protocol_def v170_sa_new_protocol_context_def
      sa_new_protocol_context_def v170_sa_new_endpoint_def sa_new_endpoint_def
      v170_sa_new_endpoint_context_def sa_new_endpoint_context_def v170_sa_new_native_def
      sa_new_native_def v170_sa_new_native_context_def sa_new_native_context_def
      v170_sa_move_construct_def sa_move_construct_def v170_sa_move_assign_def sa_move_assign_def
      v170_sa_open_throw_def sa_open_throw_def v170_sa_open_def sa_open_def v170_sa_assign_throw_def
      sa_assign_throw_def v170_sa_assign_def sa_assign_def v170_sa_is_open_def sa_is_open_def
      v170_sa_bind_throw_def sa_bind_throw_def v170_sa_bind_def sa_bind_def v170_sa_listen_throw_def
      sa_listen_throw_def v170_sa_listen_def sa_listen_def v170_sa_close_throw_def sa_close_throw_def
      v170_sa_close_def sa_close_def v170_sa_native_handle_def sa_native_handle_def
      v170_sa_cancel_throw_def sa_cancel_throw_def v170_sa_cancel_def sa_cancel_def
      v170_sa_set_option_throw_def sa_set_option_throw_def v170_sa_set_option_def sa_set_option_def
      v170_sa_get_option_throw_def sa_get_option_throw_def v170_sa_get_option_def sa_get_option_def
      v170_sa_io_control_throw_def sa_io_control_throw_def v170_sa_io_control_def sa_io_control_def
      v170_sa_non_blocking_def sa_non_blocking_def v170_sa_set_non_blocking_throw_def
      sa_set_non_blocking_throw_def v170_sa_set_non_blocking_def sa_set_non_blocking_def
      v170_sa_native_non_blocking_def sa_native_non_blocking_def
      v170_sa_set_native_non_blocking_throw_def sa_set_native_non_blocking_throw_def
      v170_sa_set_native_non_blocking_def sa_set_native_non_blocking_def
      v170_sa_local_endpoint_throw_def sa_local_endpoint_throw_def v170_sa_local_endpoint_def
      sa_local_endpoint_def v170_sa_wait_throw_def sa_wait_throw_def v170_sa_wait_def sa_wait_def
      v170_sa_async_wait_def v170_sa_initiate_async_wait_def sa_async_wait_def sa_initiate_async_wait_def v170_sa_accept_throw_def sa_accept_throw_def
      v170_sa_accept_def sa_accept_def v170_sa_accept_endpoint_throw_def sa_accept_endpoint_throw_def
      v170_sa_accept_endpoint_def sa_accept_endpoint_def v170_sa_initiate_async_accept_def
      sa_initiate_async_accept_def v170_sa_async_accept_def sa_async_accept_def
      v170_sa_async_accept_endpoint_def sa_async_accept_endpoint_def v170_sa_accept_new_throw_def
      sa_accept_new_throw_def v170_sa_accept_new_def sa_accept_new_def
      v170_sa_accept_new_endpoint_throw_def sa_accept_new_endpoint_throw_def
      v170_sa_accept_new_endpoint_def sa_accept_new_endpoint_def v170_sa_initiate_async_move_accept_def
      sa_initiate_async_move_accept_def v170_sa_async_move_accept_def sa_async_move_accept_def
      v170_sa_async_move_accept_endpoint_def sa_async_move_accept_endpoint_def
      v170_sa_accept_new_executor_throw_def sa_accept_new_executor_throw_def
      v170_sa_accept_new_context_throw_def sa_accept_new_context_throw_def
      v170_sa_accept_new_executor_def sa_accept_new_executor_def v170_sa_accept_new_context_def
      sa_accept_new_context_def)
    (rule refl)+

lemma v170_acceptor_same_2 [v170_same]:
  "v170_sa_accept_new_endpoint_executor_throw = sa_accept_new_endpoint_executor_throw"
  "v170_sa_accept_new_endpoint_context_throw = sa_accept_new_endpoint_context_throw"
  "v170_sa_accept_new_endpoint_executor = sa_accept_new_endpoint_executor"
  "v170_sa_accept_new_endpoint_context = sa_accept_new_endpoint_context"
  "v170_sa_async_move_accept_executor = sa_async_move_accept_executor"
  "v170_sa_async_move_accept_context = sa_async_move_accept_context"
  "v170_sa_async_move_accept_endpoint_executor = sa_async_move_accept_endpoint_executor"
  "v170_sa_async_move_accept_endpoint_context = sa_async_move_accept_endpoint_context"
  by (unfold v170_same
      v170_sa_accept_new_endpoint_executor_throw_def sa_accept_new_endpoint_executor_throw_def
      v170_sa_accept_new_endpoint_context_throw_def sa_accept_new_endpoint_context_throw_def
      v170_sa_accept_new_endpoint_executor_def sa_accept_new_endpoint_executor_def
      v170_sa_accept_new_endpoint_context_def sa_accept_new_endpoint_context_def
      v170_sa_async_move_accept_executor_def sa_async_move_accept_executor_def
      v170_sa_async_move_accept_context_def sa_async_move_accept_context_def
      v170_sa_async_move_accept_endpoint_executor_def sa_async_move_accept_endpoint_executor_def
      v170_sa_async_move_accept_endpoint_context_def sa_async_move_accept_endpoint_context_def)
    (rule refl)+

section \<open>Boost 1.66\<close>

named_theorems v166_same \<open>functions of the helper for Boost 1.66 that equal those of the helper for 1.74\<close>

lemma v166_base_same [v166_same]:
  "v166_base_is_open = base_is_open"
  "v166_base_native_handle = base_native_handle"
  "v166_construct = construct"
  "v166_base_move_construct = base_move_construct"
  "v166_destroy = destroy"
  "v166_base_move_assign = base_move_assign"
  "v166_base_close = base_close"
  "v166_base_cancel = base_cancel"
  "v166_do_open = do_open"
  "v166_do_assign = do_assign"
  "v166_start_op = start_op"
  "v166_start_accept_op = start_accept_op"
  "v166_start_connect_op = start_connect_op"
  "v166_base_at_mark = base_at_mark"
  "v166_base_available = base_available"
  "v166_base_listen = base_listen"
  "v166_base_io_control = base_io_control"
  "v166_base_non_blocking = base_non_blocking"
  "v166_base_set_non_blocking = base_set_non_blocking"
  "v166_base_native_non_blocking = base_native_non_blocking"
  "v166_base_set_native_non_blocking = base_set_native_non_blocking"
  "v166_poll_until = poll_until"
  "v166_base_wait = base_wait"
  "v166_base_async_wait = base_async_wait"
  "v166_base_send = base_send"
  "v166_base_send_null = base_send_null"
  "v166_base_async_send = base_async_send"
  "v166_base_async_send_null = base_async_send_null"
  "v166_base_receive = base_receive"
  "v166_base_receive_null = base_receive_null"
  "v166_base_async_receive = base_async_receive"
  "v166_base_async_receive_null = base_async_receive_null"
  "v166_base_receive_with_flags = base_receive_with_flags"
  "v166_base_receive_with_flags_null = base_receive_with_flags_null"
  "v166_base_async_receive_with_flags_null = base_async_receive_with_flags_null"
  by (unfold v166_same
      v166_base_is_open_def base_is_open_def v166_base_native_handle_def base_native_handle_def
      v166_construct_def construct_def v166_base_move_construct_def base_move_construct_def
      v166_destroy_def destroy_def v166_base_move_assign_def base_move_assign_def v166_base_close_def
      base_close_def v166_base_cancel_def base_cancel_def v166_do_open_def do_open_def
      v166_do_assign_def do_assign_def v166_start_op_def start_op_def v166_start_accept_op_def
      start_accept_op_def v166_start_connect_op_def start_connect_op_def v166_base_at_mark_def
      base_at_mark_def v166_base_available_def base_available_def v166_base_listen_def base_listen_def
      v166_base_io_control_def base_io_control_def v166_base_non_blocking_def base_non_blocking_def
      v166_base_set_non_blocking_def base_set_non_blocking_def v166_base_native_non_blocking_def
      base_native_non_blocking_def v166_base_set_native_non_blocking_def
      base_set_native_non_blocking_def v166_poll_until_def poll_until_def v166_base_wait_def
      base_wait_def v166_base_async_wait_def base_async_wait_def v166_base_send_def base_send_def
      v166_base_send_null_def base_send_null_def v166_base_async_send_def base_async_send_def
      v166_base_async_send_null_def base_async_send_null_def v166_base_receive_def base_receive_def
      v166_base_receive_null_def base_receive_null_def v166_base_async_receive_def
      base_async_receive_def v166_base_async_receive_null_def base_async_receive_null_def
      v166_base_receive_with_flags_def base_receive_with_flags_def v166_base_receive_with_flags_null_def
      base_receive_with_flags_null_def
      v166_base_async_receive_with_flags_null_def
      base_async_receive_with_flags_null_def)
    (rule refl)+

lemma v166_service_same [v166_same]:
  "v166_new_impl = new_impl"
  "v166_move_construct = move_construct"
  "v166_move_assign = move_assign"
  "v166_converting_move_construct = converting_move_construct"
  "v166_svc_open = svc_open"
  "v166_svc_assign = svc_assign"
  "v166_svc_native_handle = svc_native_handle"
  "v166_svc_bind = svc_bind"
  "v166_svc_set_option = svc_set_option"
  "v166_svc_get_option = svc_get_option"
  "v166_svc_local_endpoint = svc_local_endpoint"
  "v166_svc_remote_endpoint = svc_remote_endpoint"
  "v166_svc_shutdown = svc_shutdown"
  "v166_svc_send_to = svc_send_to"
  "v166_svc_send_to_null = svc_send_to_null"
  "v166_svc_async_send_to = svc_async_send_to"
  "v166_svc_async_send_to_null = svc_async_send_to_null"
  "v166_svc_receive_from = svc_receive_from"
  "v166_svc_receive_from_null = svc_receive_from_null"
  "v166_svc_async_receive_from = svc_async_receive_from"
  "v166_svc_async_receive_from_null = svc_async_receive_from_null"
  "v166_svc_accept = svc_accept"
  "v166_svc_async_accept = svc_async_accept"
  "v166_svc_async_move_accept = svc_async_move_accept"
  "v166_svc_connect = svc_connect"
  "v166_svc_async_connect = svc_async_connect"
  by (unfold v166_same
      v166_new_impl_def new_impl_def v166_move_construct_def move_construct_def v166_move_assign_def
      move_assign_def v166_converting_move_construct_def converting_move_construct_def v166_svc_open_def
      svc_open_def v166_svc_assign_def svc_assign_def v166_svc_native_handle_def svc_native_handle_def
      v166_svc_bind_def svc_bind_def v166_svc_set_option_def svc_set_option_def v166_svc_get_option_def
      svc_get_option_def v166_svc_local_endpoint_def svc_local_endpoint_def v166_svc_remote_endpoint_def
      svc_remote_endpoint_def v166_svc_shutdown_def svc_shutdown_def v166_svc_send_to_def
      svc_send_to_def v166_svc_send_to_null_def svc_send_to_null_def v166_svc_async_send_to_def
      svc_async_send_to_def v166_svc_async_send_to_null_def svc_async_send_to_null_def
      v166_svc_receive_from_def svc_receive_from_def v166_svc_receive_from_null_def
      svc_receive_from_null_def v166_svc_async_receive_from_def svc_async_receive_from_def
      v166_svc_async_receive_from_null_def svc_async_receive_from_null_def v166_svc_accept_def
      svc_accept_def v166_svc_async_accept_def svc_async_accept_def v166_svc_async_move_accept_def
      svc_async_move_accept_def v166_svc_connect_def svc_connect_def v166_svc_async_connect_def
      svc_async_connect_def)
    (rule refl)+

lemma v166_local_base_same [v166_same]:
  "v166_local_base_is_open = local_base_is_open"
  "v166_local_base_native_handle = local_base_native_handle"
  "v166_local_construct = local_construct"
  "v166_local_base_move_construct = local_base_move_construct"
  "v166_local_destroy = local_destroy"
  "v166_local_base_move_assign = local_base_move_assign"
  "v166_local_base_close = local_base_close"
  "v166_local_base_cancel = local_base_cancel"
  "v166_local_do_open = local_do_open"
  "v166_local_do_assign = local_do_assign"
  "v166_local_start_op = local_start_op"
  "v166_local_start_accept_op = local_start_accept_op"
  "v166_local_start_connect_op = local_start_connect_op"
  "v166_local_base_at_mark = local_base_at_mark"
  "v166_local_base_available = local_base_available"
  "v166_local_base_listen = local_base_listen"
  "v166_local_base_io_control = local_base_io_control"
  "v166_local_base_non_blocking = local_base_non_blocking"
  "v166_local_base_set_non_blocking = local_base_set_non_blocking"
  "v166_local_base_native_non_blocking = local_base_native_non_blocking"
  "v166_local_base_set_native_non_blocking = local_base_set_native_non_blocking"
  "v166_local_poll_until = local_poll_until"
  "v166_local_base_wait = local_base_wait"
  "v166_local_base_async_wait = local_base_async_wait"
  "v166_local_base_send = local_base_send"
  "v166_local_base_send_null = local_base_send_null"
  "v166_local_base_async_send = local_base_async_send"
  "v166_local_base_async_send_null = local_base_async_send_null"
  "v166_local_base_receive = local_base_receive"
  "v166_local_base_receive_null = local_base_receive_null"
  "v166_local_base_async_receive = local_base_async_receive"
  "v166_local_base_async_receive_null = local_base_async_receive_null"
  "v166_local_base_receive_with_flags = local_base_receive_with_flags"
  "v166_local_base_receive_with_flags_null = local_base_receive_with_flags_null"
  "v166_local_base_async_receive_with_flags = local_base_async_receive_with_flags"
  "v166_local_base_async_receive_with_flags_null = local_base_async_receive_with_flags_null"
  by (unfold v166_same
      v166_local_base_is_open_def local_base_is_open_def v166_local_base_native_handle_def
      local_base_native_handle_def v166_local_construct_def local_construct_def
      v166_local_base_move_construct_def local_base_move_construct_def v166_local_destroy_def
      local_destroy_def v166_local_base_move_assign_def local_base_move_assign_def
      v166_local_base_close_def local_base_close_def v166_local_base_cancel_def local_base_cancel_def
      v166_local_do_open_def local_do_open_def v166_local_do_assign_def local_do_assign_def
      v166_local_start_op_def local_start_op_def v166_local_start_accept_op_def
      local_start_accept_op_def v166_local_start_connect_op_def local_start_connect_op_def
      v166_local_base_at_mark_def local_base_at_mark_def v166_local_base_available_def
      local_base_available_def v166_local_base_listen_def local_base_listen_def
      v166_local_base_io_control_def local_base_io_control_def v166_local_base_non_blocking_def
      local_base_non_blocking_def v166_local_base_set_non_blocking_def local_base_set_non_blocking_def
      v166_local_base_native_non_blocking_def local_base_native_non_blocking_def
      v166_local_base_set_native_non_blocking_def local_base_set_native_non_blocking_def
      v166_local_poll_until_def local_poll_until_def v166_local_base_wait_def local_base_wait_def
      v166_local_base_async_wait_def local_base_async_wait_def v166_local_base_send_def
      local_base_send_def v166_local_base_send_null_def local_base_send_null_def
      v166_local_base_async_send_def local_base_async_send_def v166_local_base_async_send_null_def
      local_base_async_send_null_def v166_local_base_receive_def local_base_receive_def
      v166_local_base_receive_null_def local_base_receive_null_def v166_local_base_async_receive_def
      local_base_async_receive_def v166_local_base_async_receive_null_def
      local_base_async_receive_null_def v166_local_base_receive_with_flags_def
      local_base_receive_with_flags_def v166_local_base_receive_with_flags_null_def
      local_base_receive_with_flags_null_def v166_local_base_async_receive_with_flags_def
      local_base_async_receive_with_flags_def v166_local_base_async_receive_with_flags_null_def
      local_base_async_receive_with_flags_null_def)
    (rule refl)+

lemma v166_local_service_same [v166_same]:
  "v166_local_new_impl = local_new_impl"
  "v166_local_move_construct = local_move_construct"
  "v166_local_move_assign = local_move_assign"
  "v166_local_converting_move_construct = local_converting_move_construct"
  "v166_local_svc_open = local_svc_open"
  "v166_local_svc_assign = local_svc_assign"
  "v166_local_svc_native_handle = local_svc_native_handle"
  "v166_local_svc_bind = local_svc_bind"
  "v166_local_svc_set_option = local_svc_set_option"
  "v166_local_svc_get_option = local_svc_get_option"
  "v166_local_svc_local_endpoint = local_svc_local_endpoint"
  "v166_local_svc_remote_endpoint = local_svc_remote_endpoint"
  "v166_local_svc_shutdown = local_svc_shutdown"
  "v166_local_svc_send_to = local_svc_send_to"
  "v166_local_svc_send_to_null = local_svc_send_to_null"
  "v166_local_svc_async_send_to = local_svc_async_send_to"
  "v166_local_svc_async_send_to_null = local_svc_async_send_to_null"
  "v166_local_svc_receive_from = local_svc_receive_from"
  "v166_local_svc_receive_from_null = local_svc_receive_from_null"
  "v166_local_svc_async_receive_from_null = local_svc_async_receive_from_null"
  "v166_local_svc_accept = local_svc_accept"
  "v166_local_svc_async_accept = local_svc_async_accept"
  "v166_local_svc_async_move_accept = local_svc_async_move_accept"
  "v166_local_svc_connect = local_svc_connect"
  "v166_local_svc_async_connect = local_svc_async_connect"
  by (unfold v166_same
      v166_local_new_impl_def local_new_impl_def v166_local_move_construct_def local_move_construct_def
      v166_local_move_assign_def local_move_assign_def v166_local_converting_move_construct_def
      local_converting_move_construct_def v166_local_svc_open_def local_svc_open_def
      v166_local_svc_assign_def local_svc_assign_def v166_local_svc_native_handle_def
      local_svc_native_handle_def v166_local_svc_bind_def local_svc_bind_def
      v166_local_svc_set_option_def local_svc_set_option_def v166_local_svc_get_option_def
      local_svc_get_option_def v166_local_svc_local_endpoint_def local_svc_local_endpoint_def
      v166_local_svc_remote_endpoint_def local_svc_remote_endpoint_def v166_local_svc_shutdown_def
      local_svc_shutdown_def v166_local_svc_send_to_def local_svc_send_to_def
      v166_local_svc_send_to_null_def local_svc_send_to_null_def v166_local_svc_async_send_to_def
      local_svc_async_send_to_def v166_local_svc_async_send_to_null_def local_svc_async_send_to_null_def
      v166_local_svc_receive_from_def local_svc_receive_from_def v166_local_svc_receive_from_null_def
      local_svc_receive_from_null_def
      v166_local_svc_async_receive_from_null_def
      local_svc_async_receive_from_null_def v166_local_svc_accept_def local_svc_accept_def
      v166_local_svc_async_accept_def local_svc_async_accept_def v166_local_svc_async_move_accept_def
      local_svc_async_move_accept_def v166_local_svc_connect_def local_svc_connect_def
      v166_local_svc_async_connect_def local_svc_async_connect_def)
    (rule refl)+

text \<open>Accepting a new socket is accepting into one that was just constructed.\<close>

lemma v166_accept_new [v166_same]:
  "v166_svc_accept_new Sys impl k = svc_accept Sys impl (construct (new_impl Sys)) k"
  "v166_local_svc_accept_new Sys impl k = local_svc_accept Sys impl (local_construct (local_new_impl Sys)) k"
  unfolding v166_svc_accept_new_def v166_local_svc_accept_new_def v166_same local_copy svc_accept_def
  by (simp_all add: Let_def)

lemma v166_socket_same [v166_same]:
  "v166_bs_new = bs_new"
  "v166_unwind = unwind"
  "v166_bs_new_protocol = bs_new_protocol"
  "v166_bs_new_endpoint = bs_new_endpoint"
  "v166_bs_new_native = bs_new_native"
  "v166_bs_move_construct = bs_move_construct"
  "v166_bs_move_assign = bs_move_assign"
  "v166_bs_open_throw = bs_open_throw"
  "v166_bs_open = bs_open"
  "v166_bs_assign_throw = bs_assign_throw"
  "v166_bs_assign = bs_assign"
  "v166_bs_is_open = bs_is_open"
  "v166_bs_close_throw = bs_close_throw"
  "v166_bs_close = bs_close"
  "v166_bs_native_handle = bs_native_handle"
  "v166_bs_cancel_throw = bs_cancel_throw"
  "v166_bs_cancel = bs_cancel"
  "v166_bs_at_mark_throw = bs_at_mark_throw"
  "v166_bs_at_mark = bs_at_mark"
  "v166_bs_available_throw = bs_available_throw"
  "v166_bs_available = bs_available"
  "v166_bs_bind_throw = bs_bind_throw"
  "v166_bs_bind = bs_bind"
  "v166_bs_connect_throw = bs_connect_throw"
  "v166_bs_connect = bs_connect"
  "v166_bs_set_option_throw = bs_set_option_throw"
  "v166_bs_set_option = bs_set_option"
  "v166_bs_get_option_throw = bs_get_option_throw"
  "v166_bs_get_option = bs_get_option"
  "v166_bs_io_control_throw = bs_io_control_throw"
  "v166_bs_io_control = bs_io_control"
  "v166_bs_non_blocking = bs_non_blocking"
  "v166_bs_set_non_blocking_throw = bs_set_non_blocking_throw"
  "v166_bs_set_non_blocking = bs_set_non_blocking"
  "v166_bs_native_non_blocking = bs_native_non_blocking"
  "v166_bs_set_native_non_blocking_throw = bs_set_native_non_blocking_throw"
  "v166_bs_set_native_non_blocking = bs_set_native_non_blocking"
  "v166_bs_local_endpoint_throw = bs_local_endpoint_throw"
  "v166_bs_local_endpoint = bs_local_endpoint"
  "v166_bs_remote_endpoint_throw = bs_remote_endpoint_throw"
  "v166_bs_remote_endpoint = bs_remote_endpoint"
  "v166_bs_shutdown_throw = bs_shutdown_throw"
  "v166_bs_shutdown = bs_shutdown"
  "v166_bs_wait_throw = bs_wait_throw"
  "v166_bs_wait = bs_wait"
  "v166_bs_async_wait = bs_async_wait"
  by (unfold v166_same
      v166_bs_new_def bs_new_def v166_unwind_def unwind_def v166_bs_new_protocol_def bs_new_protocol_def
      v166_bs_new_endpoint_def bs_new_endpoint_def v166_bs_new_native_def bs_new_native_def
      v166_bs_move_construct_def bs_move_construct_def v166_bs_move_assign_def bs_move_assign_def
      v166_bs_open_throw_def bs_open_throw_def v166_bs_open_def bs_open_def v166_bs_assign_throw_def
      bs_assign_throw_def v166_bs_assign_def bs_assign_def v166_bs_is_open_def bs_is_open_def
      v166_bs_close_throw_def bs_close_throw_def v166_bs_close_def bs_close_def
      v166_bs_native_handle_def bs_native_handle_def v166_bs_cancel_throw_def bs_cancel_throw_def
      v166_bs_cancel_def bs_cancel_def v166_bs_at_mark_throw_def bs_at_mark_throw_def
      v166_bs_at_mark_def bs_at_mark_def v166_bs_available_throw_def bs_available_throw_def
      v166_bs_available_def bs_available_def v166_bs_bind_throw_def bs_bind_throw_def v166_bs_bind_def
      bs_bind_def v166_bs_connect_throw_def bs_connect_throw_def v166_bs_connect_def bs_connect_def
      v166_bs_set_option_throw_def bs_set_option_throw_def v166_bs_set_option_def bs_set_option_def
      v166_bs_get_option_throw_def bs_get_option_throw_def v166_bs_get_option_def bs_get_option_def
      v166_bs_io_control_throw_def bs_io_control_throw_def v166_bs_io_control_def bs_io_control_def
      v166_bs_non_blocking_def bs_non_blocking_def v166_bs_set_non_blocking_throw_def
      bs_set_non_blocking_throw_def v166_bs_set_non_blocking_def bs_set_non_blocking_def
      v166_bs_native_non_blocking_def bs_native_non_blocking_def
      v166_bs_set_native_non_blocking_throw_def bs_set_native_non_blocking_throw_def
      v166_bs_set_native_non_blocking_def bs_set_native_non_blocking_def
      v166_bs_local_endpoint_throw_def bs_local_endpoint_throw_def v166_bs_local_endpoint_def
      bs_local_endpoint_def v166_bs_remote_endpoint_throw_def bs_remote_endpoint_throw_def
      v166_bs_remote_endpoint_def bs_remote_endpoint_def v166_bs_shutdown_throw_def
      bs_shutdown_throw_def v166_bs_shutdown_def bs_shutdown_def v166_bs_wait_throw_def
      bs_wait_throw_def v166_bs_wait_def bs_wait_def v166_bs_async_wait_def bs_async_wait_def bs_initiate_async_wait_def)
    (rule refl)+

lemma v166_local_socket_same [v166_same]:
  "v166_local_bs_new = local_bs_new"
  "v166_local_unwind = local_unwind"
  "v166_local_bs_new_protocol = local_bs_new_protocol"
  "v166_local_bs_new_endpoint = local_bs_new_endpoint"
  "v166_local_bs_new_native = local_bs_new_native"
  "v166_local_bs_move_construct = local_bs_move_construct"
  "v166_local_bs_move_assign = local_bs_move_assign"
  "v166_local_bs_open_throw = local_bs_open_throw"
  "v166_local_bs_open = local_bs_open"
  "v166_local_bs_assign_throw = local_bs_assign_throw"
  "v166_local_bs_assign = local_bs_assign"
  "v166_local_bs_is_open = local_bs_is_open"
  "v166_local_bs_close_throw = local_bs_close_throw"
  "v166_local_bs_close = local_bs_close"
  "v166_local_bs_native_handle = local_bs_native_handle"
  "v166_local_bs_cancel_throw = local_bs_cancel_throw"
  "v166_local_bs_cancel = local_bs_cancel"
  "v166_local_bs_at_mark_throw = local_bs_at_mark_throw"
  "v166_local_bs_at_mark = local_bs_at_mark"
  "v166_local_bs_available_throw = local_bs_available_throw"
  "v166_local_bs_available = local_bs_available"
  "v166_local_bs_bind_throw = local_bs_bind_throw"
  "v166_local_bs_bind = local_bs_bind"
  "v166_local_bs_connect_throw = local_bs_connect_throw"
  "v166_local_bs_connect = local_bs_connect"
  "v166_local_bs_set_option_throw = local_bs_set_option_throw"
  "v166_local_bs_set_option = local_bs_set_option"
  "v166_local_bs_get_option_throw = local_bs_get_option_throw"
  "v166_local_bs_get_option = local_bs_get_option"
  "v166_local_bs_io_control_throw = local_bs_io_control_throw"
  "v166_local_bs_io_control = local_bs_io_control"
  "v166_local_bs_non_blocking = local_bs_non_blocking"
  "v166_local_bs_set_non_blocking_throw = local_bs_set_non_blocking_throw"
  "v166_local_bs_set_non_blocking = local_bs_set_non_blocking"
  "v166_local_bs_native_non_blocking = local_bs_native_non_blocking"
  "v166_local_bs_set_native_non_blocking_throw = local_bs_set_native_non_blocking_throw"
  "v166_local_bs_set_native_non_blocking = local_bs_set_native_non_blocking"
  "v166_local_bs_local_endpoint_throw = local_bs_local_endpoint_throw"
  "v166_local_bs_local_endpoint = local_bs_local_endpoint"
  "v166_local_bs_remote_endpoint_throw = local_bs_remote_endpoint_throw"
  "v166_local_bs_remote_endpoint = local_bs_remote_endpoint"
  "v166_local_bs_shutdown_throw = local_bs_shutdown_throw"
  "v166_local_bs_shutdown = local_bs_shutdown"
  "v166_local_bs_wait_throw = local_bs_wait_throw"
  "v166_local_bs_wait = local_bs_wait"
  "v166_local_bs_async_wait = local_bs_async_wait"
  by (unfold v166_same
      v166_local_bs_new_def local_bs_new_def v166_local_unwind_def local_unwind_def
      v166_local_bs_new_protocol_def local_bs_new_protocol_def v166_local_bs_new_endpoint_def
      local_bs_new_endpoint_def v166_local_bs_new_native_def local_bs_new_native_def
      v166_local_bs_move_construct_def local_bs_move_construct_def v166_local_bs_move_assign_def
      local_bs_move_assign_def v166_local_bs_open_throw_def local_bs_open_throw_def
      v166_local_bs_open_def local_bs_open_def v166_local_bs_assign_throw_def local_bs_assign_throw_def
      v166_local_bs_assign_def local_bs_assign_def v166_local_bs_is_open_def local_bs_is_open_def
      v166_local_bs_close_throw_def local_bs_close_throw_def v166_local_bs_close_def local_bs_close_def
      v166_local_bs_native_handle_def local_bs_native_handle_def v166_local_bs_cancel_throw_def
      local_bs_cancel_throw_def v166_local_bs_cancel_def local_bs_cancel_def
      v166_local_bs_at_mark_throw_def local_bs_at_mark_throw_def v166_local_bs_at_mark_def
      local_bs_at_mark_def v166_local_bs_available_throw_def local_bs_available_throw_def
      v166_local_bs_available_def local_bs_available_def v166_local_bs_bind_throw_def
      local_bs_bind_throw_def v166_local_bs_bind_def local_bs_bind_def v166_local_bs_connect_throw_def
      local_bs_connect_throw_def v166_local_bs_connect_def local_bs_connect_def
      v166_local_bs_set_option_throw_def local_bs_set_option_throw_def v166_local_bs_set_option_def
      local_bs_set_option_def v166_local_bs_get_option_throw_def local_bs_get_option_throw_def
      v166_local_bs_get_option_def local_bs_get_option_def v166_local_bs_io_control_throw_def
      local_bs_io_control_throw_def v166_local_bs_io_control_def local_bs_io_control_def
      v166_local_bs_non_blocking_def local_bs_non_blocking_def v166_local_bs_set_non_blocking_throw_def
      local_bs_set_non_blocking_throw_def v166_local_bs_set_non_blocking_def
      local_bs_set_non_blocking_def v166_local_bs_native_non_blocking_def
      local_bs_native_non_blocking_def v166_local_bs_set_native_non_blocking_throw_def
      local_bs_set_native_non_blocking_throw_def v166_local_bs_set_native_non_blocking_def
      local_bs_set_native_non_blocking_def v166_local_bs_local_endpoint_throw_def
      local_bs_local_endpoint_throw_def v166_local_bs_local_endpoint_def local_bs_local_endpoint_def
      v166_local_bs_remote_endpoint_throw_def local_bs_remote_endpoint_throw_def
      v166_local_bs_remote_endpoint_def local_bs_remote_endpoint_def v166_local_bs_shutdown_throw_def
      local_bs_shutdown_throw_def v166_local_bs_shutdown_def local_bs_shutdown_def
      v166_local_bs_wait_throw_def local_bs_wait_throw_def v166_local_bs_wait_def local_bs_wait_def
      v166_local_bs_async_wait_def local_bs_async_wait_def local_bs_initiate_async_wait_def)
    (rule refl)+

lemma v166_async_connect_same [v166_same]:
  "v166_bs_async_connect = bs_async_connect"
  "v166_local_bs_async_connect = local_bs_async_connect"
  by (simp_all add: fun_eq_iff v166_bs_async_connect_def bs_async_connect_def bs_initiate_async_connect_def v166_local_bs_async_connect_def
      local_copy v166_same split: prod.splits)

lemma v166_datagram_same [v166_same]:
  "v166_ds_new = ds_new"
  "v166_ds_new_protocol = ds_new_protocol"
  "v166_ds_new_endpoint = ds_new_endpoint"
  "v166_ds_new_native = ds_new_native"
  "v166_ds_move_construct = ds_move_construct"
  "v166_ds_move_assign = ds_move_assign"
  "v166_ds_send_throw = ds_send_throw"
  "v166_ds_send_flags_throw = ds_send_flags_throw"
  "v166_ds_send = ds_send"
  "v166_ds_async_send = ds_async_send"
  "v166_ds_async_send_flags = ds_async_send_flags"
  "v166_ds_send_to_throw = ds_send_to_throw"
  "v166_ds_send_to_flags_throw = ds_send_to_flags_throw"
  "v166_ds_send_to = ds_send_to"
  "v166_ds_async_send_to = ds_async_send_to"
  "v166_ds_async_send_to_flags = ds_async_send_to_flags"
  "v166_ds_receive_throw = ds_receive_throw"
  "v166_ds_receive_flags_throw = ds_receive_flags_throw"
  "v166_ds_receive = ds_receive"
  "v166_ds_async_receive = ds_async_receive"
  "v166_ds_async_receive_flags = ds_async_receive_flags"
  "v166_ds_receive_from_throw = ds_receive_from_throw"
  "v166_ds_receive_from_flags_throw = ds_receive_from_flags_throw"
  "v166_ds_receive_from = ds_receive_from"
  "v166_ds_async_receive_from = ds_async_receive_from"
  "v166_ds_async_receive_from_flags = ds_async_receive_from_flags"
  by (unfold v166_same
      ds_initiate_async_send_def ds_initiate_async_send_to_def ds_initiate_async_receive_def
      ds_initiate_async_receive_from_def v166_ds_new_def ds_new_def v166_ds_new_protocol_def
      ds_new_protocol_def v166_ds_new_endpoint_def ds_new_endpoint_def v166_ds_new_native_def
      ds_new_native_def v166_ds_move_construct_def ds_move_construct_def v166_ds_move_assign_def
      ds_move_assign_def v166_ds_send_throw_def ds_send_throw_def v166_ds_send_flags_throw_def
      ds_send_flags_throw_def v166_ds_send_def ds_send_def v166_ds_async_send_def ds_async_send_def
      v166_ds_async_send_flags_def ds_async_send_flags_def v166_ds_send_to_throw_def
      ds_send_to_throw_def v166_ds_send_to_flags_throw_def ds_send_to_flags_throw_def
      v166_ds_send_to_def ds_send_to_def v166_ds_async_send_to_def ds_async_send_to_def
      v166_ds_async_send_to_flags_def ds_async_send_to_flags_def v166_ds_receive_throw_def
      ds_receive_throw_def v166_ds_receive_flags_throw_def ds_receive_flags_throw_def
      v166_ds_receive_def ds_receive_def v166_ds_async_receive_def ds_async_receive_def
      v166_ds_async_receive_flags_def ds_async_receive_flags_def v166_ds_receive_from_throw_def
      ds_receive_from_throw_def v166_ds_receive_from_flags_throw_def ds_receive_from_flags_throw_def
      v166_ds_receive_from_def ds_receive_from_def v166_ds_async_receive_from_def
      ds_async_receive_from_def v166_ds_async_receive_from_flags_def ds_async_receive_from_flags_def)
    (rule refl)+

lemma v166_stream_same [v166_same]:
  "v166_ss_new = ss_new"
  "v166_ss_new_protocol = ss_new_protocol"
  "v166_ss_new_endpoint = ss_new_endpoint"
  "v166_ss_new_native = ss_new_native"
  "v166_ss_move_construct = ss_move_construct"
  "v166_ss_move_assign = ss_move_assign"
  "v166_ss_send_throw = ss_send_throw"
  "v166_ss_send_flags_throw = ss_send_flags_throw"
  "v166_ss_send = ss_send"
  "v166_ss_async_send = ss_async_send"
  "v166_ss_async_send_flags = ss_async_send_flags"
  "v166_ss_write_some_throw = ss_write_some_throw"
  "v166_ss_write_some = ss_write_some"
  "v166_ss_async_write_some = ss_async_write_some"
  "v166_ss_receive_throw = ss_receive_throw"
  "v166_ss_receive_flags_throw = ss_receive_flags_throw"
  "v166_ss_receive = ss_receive"
  "v166_ss_async_receive = ss_async_receive"
  "v166_ss_async_receive_flags = ss_async_receive_flags"
  "v166_ss_read_some_throw = ss_read_some_throw"
  "v166_ss_read_some = ss_read_some"
  "v166_ss_async_read_some = ss_async_read_some"
  by (unfold v166_same
      ss_initiate_async_send_def ss_initiate_async_receive_def v166_ss_new_def ss_new_def
      v166_ss_new_protocol_def ss_new_protocol_def v166_ss_new_endpoint_def ss_new_endpoint_def
      v166_ss_new_native_def ss_new_native_def v166_ss_move_construct_def ss_move_construct_def
      v166_ss_move_assign_def ss_move_assign_def v166_ss_send_throw_def ss_send_throw_def
      v166_ss_send_flags_throw_def ss_send_flags_throw_def v166_ss_send_def ss_send_def
      v166_ss_async_send_def ss_async_send_def v166_ss_async_send_flags_def ss_async_send_flags_def
      v166_ss_write_some_throw_def ss_write_some_throw_def v166_ss_write_some_def ss_write_some_def
      v166_ss_async_write_some_def ss_async_write_some_def v166_ss_receive_throw_def
      ss_receive_throw_def v166_ss_receive_flags_throw_def ss_receive_flags_throw_def
      v166_ss_receive_def ss_receive_def v166_ss_async_receive_def ss_async_receive_def
      v166_ss_async_receive_flags_def ss_async_receive_flags_def v166_ss_read_some_throw_def
      ss_read_some_throw_def v166_ss_read_some_def ss_read_some_def v166_ss_async_read_some_def
      ss_async_read_some_def)
    (rule refl)+

lemma v166_unwind_same [v166_same]:
  "v166_or_unwind = or_unwind"
  by (unfold v166_same
      v166_or_unwind_def or_unwind_def)
    (rule refl)+

lemma v166_acceptor_same [v166_same]:
  "v166_sa_new = sa_new"
  "v166_sa_new_protocol = sa_new_protocol"
  "v166_sa_new_endpoint = sa_new_endpoint"
  "v166_sa_new_native = sa_new_native"
  "v166_sa_move_construct = sa_move_construct"
  "v166_sa_move_assign = sa_move_assign"
  "v166_sa_open_throw = sa_open_throw"
  "v166_sa_open = sa_open"
  "v166_sa_assign_throw = sa_assign_throw"
  "v166_sa_assign = sa_assign"
  "v166_sa_is_open = sa_is_open"
  "v166_sa_bind_throw = sa_bind_throw"
  "v166_sa_bind = sa_bind"
  "v166_sa_listen_throw = sa_listen_throw"
  "v166_sa_listen = sa_listen"
  "v166_sa_close_throw = sa_close_throw"
  "v166_sa_close = sa_close"
  "v166_sa_native_handle = sa_native_handle"
  "v166_sa_cancel_throw = sa_cancel_throw"
  "v166_sa_cancel = sa_cancel"
  "v166_sa_set_option_throw = sa_set_option_throw"
  "v166_sa_set_option = sa_set_option"
  "v166_sa_get_option_throw = sa_get_option_throw"
  "v166_sa_get_option = sa_get_option"
  "v166_sa_io_control_throw = sa_io_control_throw"
  "v166_sa_io_control = sa_io_control"
  "v166_sa_non_blocking = sa_non_blocking"
  "v166_sa_set_non_blocking_throw = sa_set_non_blocking_throw"
  "v166_sa_set_non_blocking = sa_set_non_blocking"
  "v166_sa_native_non_blocking = sa_native_non_blocking"
  "v166_sa_set_native_non_blocking_throw = sa_set_native_non_blocking_throw"
  "v166_sa_set_native_non_blocking = sa_set_native_non_blocking"
  "v166_sa_local_endpoint_throw = sa_local_endpoint_throw"
  "v166_sa_local_endpoint = sa_local_endpoint"
  "v166_sa_wait_throw = sa_wait_throw"
  "v166_sa_wait = sa_wait"
  "v166_sa_async_wait = sa_async_wait"
  "v166_sa_accept_throw = sa_accept_throw"
  "v166_sa_accept = sa_accept"
  "v166_sa_accept_endpoint_throw = sa_accept_endpoint_throw"
  "v166_sa_accept_endpoint = sa_accept_endpoint"
  "v166_sa_async_accept = sa_async_accept"
  "v166_sa_async_accept_endpoint = sa_async_accept_endpoint"
  "v166_sa_accept_new_throw = sa_accept_new_throw"
  "v166_sa_accept_new = sa_accept_new"
  "v166_sa_accept_new_endpoint_throw = sa_accept_new_endpoint_throw"
  "v166_sa_accept_new_endpoint = sa_accept_new_endpoint"
  "v166_sa_async_move_accept = sa_async_move_accept"
  "v166_sa_async_move_accept_endpoint = sa_async_move_accept_endpoint"
  by (unfold v166_same
      sa_initiate_async_accept_def sa_initiate_async_move_accept_def v166_sa_new_def sa_new_def
      v166_sa_new_protocol_def sa_new_protocol_def v166_sa_new_endpoint_def sa_new_endpoint_def
      v166_sa_new_native_def sa_new_native_def v166_sa_move_construct_def sa_move_construct_def
      v166_sa_move_assign_def sa_move_assign_def v166_sa_open_throw_def sa_open_throw_def
      v166_sa_open_def sa_open_def v166_sa_assign_throw_def sa_assign_throw_def v166_sa_assign_def
      sa_assign_def v166_sa_is_open_def sa_is_open_def v166_sa_bind_throw_def sa_bind_throw_def
      v166_sa_bind_def sa_bind_def v166_sa_listen_throw_def sa_listen_throw_def v166_sa_listen_def
      sa_listen_def v166_sa_close_throw_def sa_close_throw_def v166_sa_close_def sa_close_def
      v166_sa_native_handle_def sa_native_handle_def v166_sa_cancel_throw_def sa_cancel_throw_def
      v166_sa_cancel_def sa_cancel_def v166_sa_set_option_throw_def sa_set_option_throw_def
      v166_sa_set_option_def sa_set_option_def v166_sa_get_option_throw_def sa_get_option_throw_def
      v166_sa_get_option_def sa_get_option_def v166_sa_io_control_throw_def sa_io_control_throw_def
      v166_sa_io_control_def sa_io_control_def v166_sa_non_blocking_def sa_non_blocking_def
      v166_sa_set_non_blocking_throw_def sa_set_non_blocking_throw_def v166_sa_set_non_blocking_def
      sa_set_non_blocking_def v166_sa_native_non_blocking_def sa_native_non_blocking_def
      v166_sa_set_native_non_blocking_throw_def sa_set_native_non_blocking_throw_def
      v166_sa_set_native_non_blocking_def sa_set_native_non_blocking_def
      v166_sa_local_endpoint_throw_def sa_local_endpoint_throw_def v166_sa_local_endpoint_def
      sa_local_endpoint_def v166_sa_wait_throw_def sa_wait_throw_def v166_sa_wait_def sa_wait_def
      v166_sa_async_wait_def sa_async_wait_def sa_initiate_async_wait_def v166_sa_accept_throw_def sa_accept_throw_def
      v166_sa_accept_def sa_accept_def v166_sa_accept_endpoint_throw_def sa_accept_endpoint_throw_def
      v166_sa_accept_endpoint_def sa_accept_endpoint_def v166_sa_async_accept_def sa_async_accept_def
      v166_sa_async_accept_endpoint_def sa_async_accept_endpoint_def v166_sa_accept_new_throw_def
      sa_accept_new_throw_def v166_sa_accept_new_def sa_accept_new_def
      v166_sa_accept_new_endpoint_throw_def sa_accept_new_endpoint_throw_def
      v166_sa_accept_new_endpoint_def sa_accept_new_endpoint_def v166_sa_async_move_accept_def
      sa_async_move_accept_def v166_sa_async_move_accept_endpoint_def sa_async_move_accept_endpoint_def)
    (rule refl)+

text \<open>A new socket that gets the \<open>io_context\<close> gets what 1.74 makes of that context.\<close>

lemma v166_context_same [v166_same]:
  "v166_sa_accept_new_context_throw Sys impl c k = sa_accept_new_context_throw Sys impl id c k"
  "v166_sa_accept_new_context Sys impl c k = sa_accept_new_context Sys impl id c k"
  "v166_sa_accept_new_endpoint_context_throw Sys impl c k = sa_accept_new_endpoint_context_throw Sys impl id c k"
  "v166_sa_accept_new_endpoint_context Sys impl c k = sa_accept_new_endpoint_context Sys impl id c k"
  "v166_sa_async_move_accept_context = sa_async_move_accept_context"
  "v166_sa_async_move_accept_endpoint_context = sa_async_move_accept_endpoint_context"
  by (unfold v166_same id_apply v166_sa_accept_new_context_throw_def sa_accept_new_context_throw_def
      v166_sa_accept_new_context_def sa_accept_new_context_def v166_sa_accept_new_endpoint_context_throw_def
      sa_accept_new_endpoint_context_throw_def v166_sa_accept_new_endpoint_context_def
      sa_accept_new_endpoint_context_def v166_sa_async_move_accept_context_def sa_async_move_accept_context_def
      v166_sa_async_move_accept_endpoint_context_def sa_async_move_accept_endpoint_context_def
      sa_initiate_async_move_accept_def)
    (rule refl)+

section \<open>Receive operations\<close>

lemma v166_calls_same [v166_same]:
  "v166_recvfrom_ext = recvfrom_ext"
  "v166_recv_local = recv_local"
  "v166_recvfrom_local = recvfrom_local"
  "v166_sync_recvfrom_ext = sync_recvfrom_ext"
  "v166_sync_recvfrom_local = sync_recvfrom_local"
  "v166_non_blocking_recvfrom_ext = non_blocking_recvfrom_ext"
  "v166_non_blocking_recv_local = non_blocking_recv_local"
  "v166_non_blocking_recvfrom_local = non_blocking_recvfrom_local"
  "v166_recvfrom_do_perform = recvfrom_do_perform"
  "v166_recvfrom_do_complete = recvfrom_do_complete"
  "v166_local_recvfrom_do_perform = local_recvfrom_do_perform"
  "v166_local_recvfrom_do_complete = local_recvfrom_do_complete"
  "v166_recv_do_complete = recv_do_complete"
  "v166_local_recv_do_complete = local_recv_do_complete"
  "v166_recvmsg_do_complete = recvmsg_do_complete"
  "v166_local_recvmsg_do_complete = local_recvmsg_do_complete"
  by (unfold v166_same
      v166_recvfrom_ext_def recvfrom_ext_def v166_recv_local_def recv_local_def v166_recvfrom_local_def
      recvfrom_local_def v166_sync_recvfrom_ext_def sync_recvfrom_ext_def v166_sync_recvfrom_local_def
      sync_recvfrom_local_def v166_non_blocking_recvfrom_ext_def non_blocking_recvfrom_ext_def
      v166_non_blocking_recv_local_def non_blocking_recv_local_def v166_non_blocking_recvfrom_local_def
      non_blocking_recvfrom_local_def v166_recvfrom_do_perform_def recvfrom_do_perform_def
      v166_recvfrom_do_complete_def recvfrom_do_complete_def v166_local_recvfrom_do_perform_def
      local_recvfrom_do_perform_def v166_local_recvfrom_do_complete_def local_recvfrom_do_complete_def
      v166_recv_do_complete_def recv_do_complete_def v166_local_recv_do_complete_def
      local_recv_do_complete_def v166_recvmsg_do_complete_def recvmsg_do_complete_def
      v166_local_recvmsg_do_complete_def local_recvmsg_do_complete_def)
    (rule refl)+

lemma v166_recvmsg_same [v166_same]:
  "v166_recvmsg_do_perform = recvmsg_do_perform"
  "v166_local_recvmsg_do_perform = local_recvmsg_do_perform"
  by (simp_all add: fun_eq_iff v166_recvmsg_do_perform_def recvmsg_do_perform_def perform_recvmsg_def
      v166_local_recvmsg_do_perform_def local_recvmsg_do_perform_def)

text \<open>A plain receive always passes an array of buffers, where 1.74 has a second call for a single one.\<close>

lemma v166_recv_same: "v166_recv_do_perform B a p w = recv_do_perform B (a\<lparr>ra_single := False\<rparr>) p w"
  by (simp add: v166_recv_do_perform_def recv_do_perform_def perform_recv_def)

text \<open>The plain receive of local sockets is that of 1.55, told apart only by the exhausted streams.\<close>

lemma v166_local_recv_by_v155:
  "v166_local_recv_do_perform R a p w =
     map_option (\<lambda>(done, p', w'). (if done then v166_finished a p' else status_not_done, p', w'))
       (v155_local_recv_do_perform R a p w)"
  by (auto simp: v166_local_recv_do_perform_def v155_local_recv_do_perform_def v166_same v155_loops_same Let_def
      split: option.splits prod.splits attempt.splits)

lemma v170_calls_same [v170_same]:
  "v170_recvfrom_ext = recvfrom_ext"
  "v170_recv_local = recv_local"
  "v170_recvfrom_local = recvfrom_local"
  "v170_sync_recvfrom_ext = sync_recvfrom_ext"
  "v170_sync_recvfrom_local = sync_recvfrom_local"
  "v170_non_blocking_recvfrom_ext = non_blocking_recvfrom_ext"
  "v170_non_blocking_recv_local = non_blocking_recv_local"
  "v170_non_blocking_recvfrom_local = non_blocking_recvfrom_local"
  "v170_recvfrom_do_perform = recvfrom_do_perform"
  "v170_recvfrom_do_complete = recvfrom_do_complete"
  "v170_local_recvfrom_do_perform = local_recvfrom_do_perform"
  "v170_local_recvfrom_do_complete = local_recvfrom_do_complete"
  "v170_recv_do_complete = recv_do_complete"
  "v170_local_recv_do_complete = local_recv_do_complete"
  "v170_recvmsg_do_complete = recvmsg_do_complete"
  "v170_local_recvmsg_do_complete = local_recvmsg_do_complete"
  by (unfold v170_same
      v170_recvfrom_ext_def recvfrom_ext_def v170_recv_local_def recv_local_def v170_recvfrom_local_def
      recvfrom_local_def v170_sync_recvfrom_ext_def sync_recvfrom_ext_def v170_sync_recvfrom_local_def
      sync_recvfrom_local_def v170_non_blocking_recvfrom_ext_def non_blocking_recvfrom_ext_def
      v170_non_blocking_recv_local_def non_blocking_recv_local_def v170_non_blocking_recvfrom_local_def
      non_blocking_recvfrom_local_def v170_recvfrom_do_perform_def recvfrom_do_perform_def
      v170_recvfrom_do_complete_def recvfrom_do_complete_def v170_local_recvfrom_do_perform_def
      local_recvfrom_do_perform_def v170_local_recvfrom_do_complete_def local_recvfrom_do_complete_def
      v170_recv_do_complete_def recv_do_complete_def v170_local_recv_do_complete_def
      local_recv_do_complete_def v170_recvmsg_do_complete_def recvmsg_do_complete_def
      v170_local_recvmsg_do_complete_def local_recvmsg_do_complete_def)
    (rule refl)+

lemma v170_recvmsg_same [v170_same]:
  "v170_recvmsg_do_perform = recvmsg_do_perform"
  "v170_local_recvmsg_do_perform = local_recvmsg_do_perform"
  by (simp_all add: fun_eq_iff v170_recvmsg_do_perform_def recvmsg_do_perform_def perform_recvmsg_def
      v170_local_recvmsg_do_perform_def local_recvmsg_do_perform_def)

text \<open>A plain receive always passes an array of buffers, where 1.74 has a second call for a single one.\<close>

lemma v170_recv_same: "v170_recv_do_perform B a p w = recv_do_perform B (a\<lparr>ra_single := False\<rparr>) p w"
  by (simp add: v170_recv_do_perform_def recv_do_perform_def perform_recv_def)

text \<open>The plain receive of local sockets is that of 1.55, told apart only by the exhausted streams.\<close>

lemma v170_local_recv_by_v155:
  "v170_local_recv_do_perform R a p w =
     map_option (\<lambda>(done, p', w'). (if done then v170_finished a p' else status_not_done, p', w'))
       (v155_local_recv_do_perform R a p w)"
  by (auto simp: v170_local_recv_do_perform_def v155_local_recv_do_perform_def v170_same v155_loops_same Let_def
      split: option.splits prod.splits attempt.splits)

section \<open>Converting moves\<close>

lemma v170_converting_moves_same [v170_same]:
  "v170_bs_converting_move_construct = bs_converting_move_construct"
  "v170_bs_converting_move_assign = bs_converting_move_assign"
  "v170_local_bs_converting_move_construct = local_bs_converting_move_construct"
  "v170_local_bs_converting_move_assign = local_bs_converting_move_assign"
  "v170_ds_converting_move_construct = ds_converting_move_construct"
  "v170_ds_converting_move_assign = ds_converting_move_assign"
  "v170_ss_converting_move_construct = ss_converting_move_construct"
  "v170_ss_converting_move_assign = ss_converting_move_assign"
  "v170_sa_converting_move_construct = sa_converting_move_construct"
  "v170_sa_converting_move_assign = sa_converting_move_assign"
  by (simp_all add: fun_eq_iff v170_same
      v170_bs_converting_move_construct_def bs_converting_move_construct_def
      v170_bs_converting_move_assign_def bs_converting_move_assign_def
      v170_local_bs_converting_move_construct_def local_bs_converting_move_construct_def
      v170_local_bs_converting_move_assign_def local_bs_converting_move_assign_def
      v170_ds_converting_move_construct_def ds_converting_move_construct_def
      v170_ds_converting_move_assign_def ds_converting_move_assign_def
      v170_ss_converting_move_construct_def ss_converting_move_construct_def
      v170_ss_converting_move_assign_def ss_converting_move_assign_def
      v170_sa_converting_move_construct_def sa_converting_move_construct_def
      v170_sa_converting_move_assign_def sa_converting_move_assign_def)

lemma v166_converting_moves_same [v166_same]:
  "v166_bs_converting_move_construct = bs_converting_move_construct"
  "v166_bs_converting_move_assign = bs_converting_move_assign"
  "v166_local_bs_converting_move_construct = local_bs_converting_move_construct"
  "v166_local_bs_converting_move_assign = local_bs_converting_move_assign"
  "v166_ds_converting_move_construct = ds_converting_move_construct"
  "v166_ds_converting_move_assign = ds_converting_move_assign"
  "v166_ss_converting_move_construct = ss_converting_move_construct"
  "v166_ss_converting_move_assign = ss_converting_move_assign"
  "v166_sa_converting_move_construct = sa_converting_move_construct"
  "v166_sa_converting_move_assign = sa_converting_move_assign"
  by (simp_all add: fun_eq_iff v166_same
      v166_bs_converting_move_construct_def bs_converting_move_construct_def
      v166_bs_converting_move_assign_def bs_converting_move_assign_def
      v166_local_bs_converting_move_construct_def local_bs_converting_move_construct_def
      v166_local_bs_converting_move_assign_def local_bs_converting_move_assign_def
      v166_ds_converting_move_construct_def ds_converting_move_construct_def
      v166_ds_converting_move_assign_def ds_converting_move_assign_def
      v166_ss_converting_move_construct_def ss_converting_move_construct_def
      v166_ss_converting_move_assign_def ss_converting_move_assign_def
      v166_sa_converting_move_construct_def sa_converting_move_construct_def
      v166_sa_converting_move_assign_def sa_converting_move_assign_def)

section \<open>Releasing\<close>

lemma releases_same:
  "local_bs_release_throw = bs_release_throw" "local_bs_release = bs_release"
  "v170_bs_release_throw = bs_release_throw" "v170_bs_release = bs_release"
  "v170_local_bs_release_throw = bs_release_throw" "v170_local_bs_release = bs_release"
  "v166_bs_release_throw = bs_release_throw" "v166_bs_release = bs_release"
  "v166_local_bs_release_throw = bs_release_throw" "v166_local_bs_release = bs_release"
  "sa_release_throw = bs_release_throw" "sa_release = bs_release"
  "v170_sa_release_throw = bs_release_throw" "v170_sa_release = bs_release"
  "v166_sa_release_throw = bs_release_throw" "v166_sa_release = bs_release"
  "v166_sss_release = bs_release"
  by (simp_all add: fun_eq_iff bs_release_throw_def bs_release_def local_bs_release_throw_def
      local_bs_release_def v170_bs_release_throw_def v170_bs_release_def
      v170_local_bs_release_throw_def v170_local_bs_release_def v166_bs_release_throw_def
      v166_bs_release_def v166_local_bs_release_throw_def v166_local_bs_release_def
      sa_release_throw_def sa_release_def v170_sa_release_throw_def v170_sa_release_def
      v166_sa_release_throw_def v166_sa_release_def v166_sss_release_def)

end
