(* ===== verification/Later_Requests.thy ===== *)
theory Later_Requests imports Later_Copies begin

text \<open>
  The services of the helpers for Boost 1.66 and 1.70 answer requests as those for 1.74 do, which have no
  call for two of them, and the credentials a plain receive of local sockets reports in each version.
\<close>

section \<open>Requests\<close>

fun v166_request ::
  "('w, 'ep, 'opt) os \<Rightarrow> ('ep, 'opt) request \<Rightarrow> ('w, 'ep) sk \<Rightarrow> 'ep answer \<times> ('w, 'ep) sk" where
  "v166_request Sys (Open p) st = map_prod Code id (v166_svc_open Sys p st)"
| "v166_request Sys (Assign p native) st = map_prod Code id (v166_svc_assign Sys p native st)"
| "v166_request Sys Close st = map_prod Code id (v166_base_close Sys st)"
| "v166_request Sys Cancel st = map_prod Code id (v166_base_cancel st)"
| "v166_request Sys (Bind ep) st = map_prod Code id (v166_svc_bind Sys ep st)"
| "v166_request Sys (Listen n) st = map_prod Code id (v166_base_listen Sys n st)"
| "v166_request Sys (Set_option opt) st = map_prod Code id (v166_svc_set_option Sys opt st)"
| "v166_request Sys (Io_control n bs) st = map_prod (\<lambda>(ec, bs). Data ec bs) id (v166_base_io_control Sys n bs st)"
| "v166_request Sys (Set_non_blocking m) st = map_prod Code id (v166_base_set_non_blocking Sys m st)"
| "v166_request Sys (Set_native_non_blocking m) st = map_prod Code id (v166_base_set_native_non_blocking Sys m st)"
| "v166_request Sys (Connect ep) st = map_prod Code id (v166_svc_connect Sys ep st)"
| "v166_request Sys (Async_connect ep h cont) st = (Started, v166_svc_async_connect Sys ep h cont st)"
| "v166_request Sys (Shutdown what) st = map_prod Code id (v166_svc_shutdown Sys what st)"
| "v166_request Sys (Wait w) st = map_prod Code id (v166_base_wait Sys w st)"
| "v166_request Sys (Async_wait w h cont) st = (Started, v166_base_async_wait Sys w h cont st)"
| "v166_request Sys (Send bufs flags) st = map_prod (\<lambda>(ec, n). Count ec n) id (v166_base_send Sys bufs flags st)"
| "v166_request Sys (Async_send bufs flags h cont) st = (Started, v166_base_async_send Sys bufs flags h cont st)"
| "v166_request Sys (Receive ns flags) st = map_prod (\<lambda>(ec, bs). Data ec bs) id (v166_base_receive Sys ns flags st)"
| "v166_request Sys (Async_receive ns flags h cont) st = (Started, v166_base_async_receive Sys ns flags h cont st)"
| "v166_request Sys (Async_receive_with_flags ns flags h cont) st =
     (Started, v166_base_async_receive_with_flags Sys ns flags h cont st)"
| "v166_request Sys (Send_datagram bufs ep flags) st =
     map_prod (\<lambda>(ec, n). Count ec n) id (v166_svc_send_to Sys bufs ep flags st)"
| "v166_request Sys (Async_send_datagram bufs ep flags h cont) st =
     (Started, v166_svc_async_send_to Sys bufs ep flags h cont st)"
| "v166_request Sys (Receive_datagram ns ep flags) st =
     map_prod (\<lambda>(ec, bs, ep). Datagram ec bs ep) id (v166_svc_receive_from Sys ns ep flags st)"
| "v166_request Sys (Async_receive_datagram ns flags h cont) st =
     (Started, v166_svc_async_receive_from Sys ns flags h cont st)"
| "v166_request Sys (Async_accept_into peer_open wants h cont) st =
     (Started, v166_svc_async_accept Sys peer_open wants h cont st)"
| "v166_request Sys (Async_accept_new wants h cont) st = (Started, v166_svc_async_move_accept Sys wants h cont st)"
| "v166_request Sys Renew st = (Started, (v166_construct (v166_new_impl Sys), v166_destroy Sys (fst st) (snd st)))"

fun v166_local_request ::
  "('w, 'ep, 'opt) os \<Rightarrow> ('ep, 'opt) request \<Rightarrow> ('w, 'ep) sk \<Rightarrow> 'ep answer \<times> ('w, 'ep) sk" where
  "v166_local_request Sys (Open p) st = map_prod Code id (v166_local_svc_open Sys p st)"
| "v166_local_request Sys (Assign p native) st = map_prod Code id (v166_local_svc_assign Sys p native st)"
| "v166_local_request Sys Close st = map_prod Code id (v166_local_base_close Sys st)"
| "v166_local_request Sys Cancel st = map_prod Code id (v166_local_base_cancel st)"
| "v166_local_request Sys (Bind ep) st = map_prod Code id (v166_local_svc_bind Sys ep st)"
| "v166_local_request Sys (Listen n) st = map_prod Code id (v166_local_base_listen Sys n st)"
| "v166_local_request Sys (Set_option opt) st = map_prod Code id (v166_local_svc_set_option Sys opt st)"
| "v166_local_request Sys (Io_control n bs) st = map_prod (\<lambda>(ec, bs). Data ec bs) id (v166_local_base_io_control Sys n bs st)"
| "v166_local_request Sys (Set_non_blocking m) st = map_prod Code id (v166_local_base_set_non_blocking Sys m st)"
| "v166_local_request Sys (Set_native_non_blocking m) st = map_prod Code id (v166_local_base_set_native_non_blocking Sys m st)"
| "v166_local_request Sys (Connect ep) st = map_prod Code id (v166_local_svc_connect Sys ep st)"
| "v166_local_request Sys (Async_connect ep h cont) st = (Started, v166_local_svc_async_connect Sys ep h cont st)"
| "v166_local_request Sys (Shutdown what) st = map_prod Code id (v166_local_svc_shutdown Sys what st)"
| "v166_local_request Sys (Wait w) st = map_prod Code id (v166_local_base_wait Sys w st)"
| "v166_local_request Sys (Async_wait w h cont) st = (Started, v166_local_base_async_wait Sys w h cont st)"
| "v166_local_request Sys (Send bufs flags) st = map_prod (\<lambda>(ec, n). Count ec n) id (v166_local_base_send Sys bufs flags st)"
| "v166_local_request Sys (Async_send bufs flags h cont) st = (Started, v166_local_base_async_send Sys bufs flags h cont st)"
| "v166_local_request Sys (Receive ns flags) st = map_prod (\<lambda>(ec, bs). Data ec bs) id (v166_local_base_receive Sys ns flags st)"
| "v166_local_request Sys (Async_receive ns flags h cont) st = (Started, v166_local_base_async_receive Sys ns flags h cont st)"
| "v166_local_request Sys (Async_receive_with_flags ns flags h cont) st =
     (Started, v166_local_base_async_receive_with_flags Sys ns flags h cont st)"
| "v166_local_request Sys (Send_datagram bufs ep flags) st =
     map_prod (\<lambda>(ec, n). Count ec n) id (v166_local_svc_send_to Sys bufs ep flags st)"
| "v166_local_request Sys (Async_send_datagram bufs ep flags h cont) st =
     (Started, v166_local_svc_async_send_to Sys bufs ep flags h cont st)"
| "v166_local_request Sys (Receive_datagram ns ep flags) st =
     map_prod (\<lambda>(ec, bs, ep). Datagram ec bs ep) id (v166_local_svc_receive_from Sys ns ep flags st)"
| "v166_local_request Sys (Async_receive_datagram ns flags h cont) st =
     (Started, v166_local_svc_async_receive_from Sys ns flags h cont st)"
| "v166_local_request Sys (Async_accept_into peer_open wants h cont) st =
     (Started, v166_local_svc_async_accept Sys peer_open wants h cont st)"
| "v166_local_request Sys (Async_accept_new wants h cont) st = (Started, v166_local_svc_async_move_accept Sys wants h cont st)"
| "v166_local_request Sys Renew st = (Started, (v166_local_construct (v166_local_new_impl Sys), v166_local_destroy Sys (fst st) (snd st)))"

fun v170_request ::
  "('w, 'ep, 'opt) os \<Rightarrow> ('ep, 'opt) request \<Rightarrow> ('w, 'ep) sk \<Rightarrow> 'ep answer \<times> ('w, 'ep) sk" where
  "v170_request Sys (Open p) st = map_prod Code id (v170_svc_open Sys p st)"
| "v170_request Sys (Assign p native) st = map_prod Code id (v170_svc_assign Sys p native st)"
| "v170_request Sys Close st = map_prod Code id (v170_base_close Sys st)"
| "v170_request Sys Cancel st = map_prod Code id (v170_base_cancel st)"
| "v170_request Sys (Bind ep) st = map_prod Code id (v170_svc_bind Sys ep st)"
| "v170_request Sys (Listen n) st = map_prod Code id (v170_base_listen Sys n st)"
| "v170_request Sys (Set_option opt) st = map_prod Code id (v170_svc_set_option Sys opt st)"
| "v170_request Sys (Io_control n bs) st = map_prod (\<lambda>(ec, bs). Data ec bs) id (v170_base_io_control Sys n bs st)"
| "v170_request Sys (Set_non_blocking m) st = map_prod Code id (v170_base_set_non_blocking Sys m st)"
| "v170_request Sys (Set_native_non_blocking m) st = map_prod Code id (v170_base_set_native_non_blocking Sys m st)"
| "v170_request Sys (Connect ep) st = map_prod Code id (v170_svc_connect Sys ep st)"
| "v170_request Sys (Async_connect ep h cont) st = (Started, v170_svc_async_connect Sys ep h cont st)"
| "v170_request Sys (Shutdown what) st = map_prod Code id (v170_svc_shutdown Sys what st)"
| "v170_request Sys (Wait w) st = map_prod Code id (v170_base_wait Sys w st)"
| "v170_request Sys (Async_wait w h cont) st = (Started, v170_base_async_wait Sys w h cont st)"
| "v170_request Sys (Send bufs flags) st = map_prod (\<lambda>(ec, n). Count ec n) id (v170_base_send Sys bufs flags st)"
| "v170_request Sys (Async_send bufs flags h cont) st = (Started, v170_base_async_send Sys bufs flags h cont st)"
| "v170_request Sys (Receive ns flags) st = map_prod (\<lambda>(ec, bs). Data ec bs) id (v170_base_receive Sys ns flags st)"
| "v170_request Sys (Async_receive ns flags h cont) st = (Started, v170_base_async_receive Sys ns flags h cont st)"
| "v170_request Sys (Async_receive_with_flags ns flags h cont) st =
     (Started, v170_base_async_receive_with_flags Sys ns flags h cont st)"
| "v170_request Sys (Send_datagram bufs ep flags) st =
     map_prod (\<lambda>(ec, n). Count ec n) id (v170_svc_send_to Sys bufs ep flags st)"
| "v170_request Sys (Async_send_datagram bufs ep flags h cont) st =
     (Started, v170_svc_async_send_to Sys bufs ep flags h cont st)"
| "v170_request Sys (Receive_datagram ns ep flags) st =
     map_prod (\<lambda>(ec, bs, ep). Datagram ec bs ep) id (v170_svc_receive_from Sys ns ep flags st)"
| "v170_request Sys (Async_receive_datagram ns flags h cont) st =
     (Started, v170_svc_async_receive_from Sys ns flags h cont st)"
| "v170_request Sys (Async_accept_into peer_open wants h cont) st =
     (Started, v170_svc_async_accept Sys peer_open wants h cont st)"
| "v170_request Sys (Async_accept_new wants h cont) st = (Started, v170_svc_async_move_accept Sys wants h cont st)"
| "v170_request Sys Renew st = (Started, (v170_construct (v170_new_impl Sys), v170_destroy Sys (fst st) (snd st)))"

fun v170_local_request ::
  "('w, 'ep, 'opt) os \<Rightarrow> ('ep, 'opt) request \<Rightarrow> ('w, 'ep) sk \<Rightarrow> 'ep answer \<times> ('w, 'ep) sk" where
  "v170_local_request Sys (Open p) st = map_prod Code id (v170_local_svc_open Sys p st)"
| "v170_local_request Sys (Assign p native) st = map_prod Code id (v170_local_svc_assign Sys p native st)"
| "v170_local_request Sys Close st = map_prod Code id (v170_local_base_close Sys st)"
| "v170_local_request Sys Cancel st = map_prod Code id (v170_local_base_cancel st)"
| "v170_local_request Sys (Bind ep) st = map_prod Code id (v170_local_svc_bind Sys ep st)"
| "v170_local_request Sys (Listen n) st = map_prod Code id (v170_local_base_listen Sys n st)"
| "v170_local_request Sys (Set_option opt) st = map_prod Code id (v170_local_svc_set_option Sys opt st)"
| "v170_local_request Sys (Io_control n bs) st = map_prod (\<lambda>(ec, bs). Data ec bs) id (v170_local_base_io_control Sys n bs st)"
| "v170_local_request Sys (Set_non_blocking m) st = map_prod Code id (v170_local_base_set_non_blocking Sys m st)"
| "v170_local_request Sys (Set_native_non_blocking m) st = map_prod Code id (v170_local_base_set_native_non_blocking Sys m st)"
| "v170_local_request Sys (Connect ep) st = map_prod Code id (v170_local_svc_connect Sys ep st)"
| "v170_local_request Sys (Async_connect ep h cont) st = (Started, v170_local_svc_async_connect Sys ep h cont st)"
| "v170_local_request Sys (Shutdown what) st = map_prod Code id (v170_local_svc_shutdown Sys what st)"
| "v170_local_request Sys (Wait w) st = map_prod Code id (v170_local_base_wait Sys w st)"
| "v170_local_request Sys (Async_wait w h cont) st = (Started, v170_local_base_async_wait Sys w h cont st)"
| "v170_local_request Sys (Send bufs flags) st = map_prod (\<lambda>(ec, n). Count ec n) id (v170_local_base_send Sys bufs flags st)"
| "v170_local_request Sys (Async_send bufs flags h cont) st = (Started, v170_local_base_async_send Sys bufs flags h cont st)"
| "v170_local_request Sys (Receive ns flags) st = map_prod (\<lambda>(ec, bs). Data ec bs) id (v170_local_base_receive Sys ns flags st)"
| "v170_local_request Sys (Async_receive ns flags h cont) st = (Started, v170_local_base_async_receive Sys ns flags h cont st)"
| "v170_local_request Sys (Async_receive_with_flags ns flags h cont) st =
     (Started, v170_local_base_async_receive_with_flags Sys ns flags h cont st)"
| "v170_local_request Sys (Send_datagram bufs ep flags) st =
     map_prod (\<lambda>(ec, n). Count ec n) id (v170_local_svc_send_to Sys bufs ep flags st)"
| "v170_local_request Sys (Async_send_datagram bufs ep flags h cont) st =
     (Started, v170_local_svc_async_send_to Sys bufs ep flags h cont st)"
| "v170_local_request Sys (Receive_datagram ns ep flags) st =
     map_prod (\<lambda>(ec, bs, ep). Datagram ec bs ep) id (v170_local_svc_receive_from Sys ns ep flags st)"
| "v170_local_request Sys (Async_receive_datagram ns flags h cont) st =
     (Started, v170_local_svc_async_receive_from Sys ns flags h cont st)"
| "v170_local_request Sys (Async_accept_into peer_open wants h cont) st =
     (Started, v170_local_svc_async_accept Sys peer_open wants h cont st)"
| "v170_local_request Sys (Async_accept_new wants h cont) st = (Started, v170_local_svc_async_move_accept Sys wants h cont st)"
| "v170_local_request Sys Renew st = (Started, (v170_local_construct (v170_local_new_impl Sys), v170_local_destroy Sys (fst st) (snd st)))"

text \<open>1.66 and 1.70 have a call for every request, and the local copies view the originals.\<close>

lemma with_flags_same: "v166_base_async_receive_with_flags = v170_base_async_receive_with_flags"
  by (simp add: fun_eq_iff v166_base_async_receive_with_flags_def v170_base_async_receive_with_flags_def
      v166_same v170_same)

lemma with_flags_localised:
  "local_base_async_receive_with_flags Sys ns flags h cont (localised st) =
     localised (v170_base_async_receive_with_flags Sys ns flags h cont st)"
  by (simp add: local_base_async_receive_with_flags_def v170_base_async_receive_with_flags_def v170_same local_copy
      start_localised)

lemma receive_from_localised:
  "v170_local_svc_async_receive_from Sys ns flags h cont (localised st) =
     localised (svc_async_receive_from Sys ns flags h cont st)"
  "v166_local_svc_async_receive_from = v170_local_svc_async_receive_from"
  by (simp_all add: fun_eq_iff v166_local_svc_async_receive_from_def v170_local_svc_async_receive_from_def
      svc_async_receive_from_def v166_same v170_same local_copy start_localised)

lemma v166_requests_same: "v166_request Sys = v170_request Sys" "v166_local_request Sys = v170_local_request Sys"
proof -
  have "v166_request Sys r st = v170_request Sys r st" for r st
    by (cases r) (simp_all only: v166_request.simps v170_request.simps v166_same v170_same with_flags_same)
  then show "v166_request Sys = v170_request Sys" by (intro ext)
  have "v166_local_request Sys r st = v170_local_request Sys r st" for r st
    by (cases r) (simp_all only: v166_local_request.simps v170_local_request.simps v166_same v170_same
        receive_from_localised)
  then show "v166_local_request Sys = v170_local_request Sys" by (intro ext)
qed

lemma request_v170: "ext_request Sys r (id st) = (if ext_has r then Some (map_prod id id (v170_request Sys r st)) else None)"
  by (cases r) (simp_all add: v170_same prod.map_id)

lemma v170_request_localised:
  "v170_local_request Sys r (localised st) = map_prod id localised (v170_request Sys r st)"
proof (cases r)
  case Renew
  then show ?thesis by (simp add: v170_same local_copy localised_def view_state_def local_view.close_viewed)
qed (simp_all add: v170_same local_copy state_localised map_prod_swap async_localised async_receive_localised
    receive_from_localised with_flags_localised)

lemma local_request_v170:
  "local_request Sys r (localised st) =
     (if local_has r then Some (map_prod id localised (v170_request Sys r st)) else None)"
  using v170_request_localised [of Sys r st] by (cases r) (simp_all add: v170_same)

lemma new_same:
  "v166_construct (v166_new_impl Sys) = construct (new_impl Sys)"
  "v166_local_construct (v166_local_new_impl Sys) = local_construct (local_new_impl Sys)"
  "v170_construct (v170_new_impl Sys) = construct (new_impl Sys)"
  "v170_local_construct (v170_local_new_impl Sys) = local_construct (local_new_impl Sys)"
  by (simp_all only: v166_same v170_same)

section \<open>Properties\<close>

lemma plain_receive_keeps: "local_recv_do_perform B a p v = (s, q, v') \<Longrightarrow> ro_uid q = ro_uid p \<and> ro_gid q = ro_gid p"
  by (auto simp: local_recv_do_perform_def perform_recv_def Let_def split: prod.splits)

text \<open>
  C15: the services of the helpers for Boost 1.66, 1.70 and 1.74, separate sources in each version,
  answer alike where they can be called.  Asked the same requests in any order, on any operating
  system, the extended services of 1.66 and 1.70 give the same answers and leave the same socket,
  descriptors and world, and the reactor holds operations of the same classes with the same arguments;
  their local services do the same with the receives of the local classes.  The extended service of 1.74
  answers exactly the conversations without an asynchronous receive with flags, its local service exactly
  those without an asynchronous receive with a sender, for which no call compiles in 1.74, and then as
  the others do.  What an operation does once the
  reactor performs it is not part of the comparison; for the local receives it differs.
\<close>

theorem later_helpers_equivalent:
  "conversation (v166_request Sys) rs (v166_construct (v166_new_impl Sys), kernel0 w) =
     conversation (v170_request Sys) rs (v170_construct (v170_new_impl Sys), kernel0 w) \<and>
   conversation (v166_local_request Sys) rs (v166_local_construct (v166_local_new_impl Sys), kernel0 w) =
     map_prod id localised (conversation (v170_request Sys) rs (v170_construct (v170_new_impl Sys), kernel0 w)) \<and>
   conversation (v170_local_request Sys) rs (v170_local_construct (v170_local_new_impl Sys), kernel0 w) =
     map_prod id localised (conversation (v170_request Sys) rs (v170_construct (v170_new_impl Sys), kernel0 w)) \<and>
   try_conversation (ext_request Sys) rs (construct (new_impl Sys), kernel0 w) =
     (if list_all ext_has rs
      then Some (conversation (v170_request Sys) rs (v170_construct (v170_new_impl Sys), kernel0 w)) else None) \<and>
   try_conversation (local_request Sys) rs (local_construct (local_new_impl Sys), kernel0 w) =
     (if list_all local_has rs
      then Some (map_prod id localised
        (conversation (v170_request Sys) rs (v170_construct (v170_new_impl Sys), kernel0 w))) else None)"
proof -
  let ?s = "(construct (new_impl Sys), kernel0 w)"
  have "conversation (v170_local_request Sys) rs (localised ?s) = map_prod id localised (conversation (v170_request Sys) rs ?s)"
    by (rule conversation_view, rule v170_request_localised)
  moreover have "try_conversation (ext_request Sys) rs (id ?s) =
      (if list_all ext_has rs then Some (map_prod id id (conversation (v170_request Sys) rs ?s)) else None)"
    by (rule try_conversation_total, rule request_v170)
  moreover have "try_conversation (local_request Sys) rs (localised ?s) =
      (if list_all local_has rs then Some (map_prod id localised (conversation (v170_request Sys) rs ?s)) else None)"
    by (rule try_conversation_total, rule local_request_v170)
  ultimately show ?thesis
    by (simp only: v166_requests_same new_same localised_new id_apply map_prod.id simp_thms)
qed

text \<open>
  C35: who sent the bytes, by version.  On local sockets of Boost 1.55, 1.66 and 1.70 a plain receive
  tells its handler the sender: whatever number of interrupted calls comes first, when the next call
  succeeds the operation is done and the handler gets the length with the user and group of the last
  well-formed credentials message, or -1 for both when there is none; at the end of a stream it gets
  \<open>eof\<close>.  On a stream, 1.66 and 1.70 also tell the reactor that no bytes are left.  The same receive of
  1.74 is told nothing: whatever Boost's receive answers, its handler gets the user and group the
  operation was created with, which no constructor sets.
\<close>

theorem local_receive_reports_by_version:
  assumes "\<forall>i<n. rc_error (fst (nth_call (recv_local R (ra_socket a) (ra_sizes a) (ra_flags a)) (ro_uid p, ro_gid p) w i)) = interrupted"
    and "snd (nth_call (recv_local R (ra_socket a) (ra_sizes a) (ra_flags a)) (ro_uid p, ro_gid p) w n) = w'"
    and "fst (nth_call (recv_local R (ra_socket a) (ra_sizes a) (ra_flags a)) (ro_uid p, ro_gid p) w n) =
      \<lparr>rc_bytes = Some bs, rc_error = no_error, rc_addr = addr, rc_extra = find_credentials ms\<rparr>"
    and "ro_bytes p = []"
  shows "\<exists>p' s. v155_local_recv_do_perform R a p w = Some (True, p', w') \<and>
    v166_local_recv_do_perform R a p w = Some (s, p', w') \<and>
    v170_local_recv_do_perform R a p w = Some (s, p', w') \<and>
    s = (if stream_oriented \<in> ra_state a \<and> bs = [] then status_done_and_exhausted else status_done) \<and>
    (if stream_oriented \<in> ra_state a \<and> bs = [] then ro_ec p' = eof
     else v155_local_recv_do_complete p' = (no_error, length bs, last ((ANY_ID, ANY_ID) # List.map_filter ucred ms)) \<and>
       v166_local_recv_do_complete p' = v155_local_recv_do_complete p' \<and>
       v170_local_recv_do_complete p' = v155_local_recv_do_complete p') \<and>
    (case local_recv_do_perform B a p v of (s74, p74, v') \<Rightarrow>
       snd (snd (local_recv_do_complete p74)) = (ro_uid p, ro_gid p))"
proof -
  obtain p' where p': "v155_local_recv_do_perform R a p w = Some (True, p', w')"
    "ro_bytes p' = (if stream_oriented \<in> ra_state a \<and> bs = [] then ro_bytes p else bs)"
    "if stream_oriented \<in> ra_state a \<and> bs = [] then ro_ec p' = eof
     else v155_local_recv_do_complete p' = (no_error, length bs, last ((ANY_ID, ANY_ID) # List.map_filter ucred ms))"
    using v155_local_receive_reports [OF assms(1-3)] by blast
  have "v166_local_recv_do_perform R a p w = Some (v166_finished a p', p', w')"
    "v170_local_recv_do_perform R a p w = Some (v170_finished a p', p', w')"
    using p'(1) by (auto simp: v166_local_recv_by_v155 v170_local_recv_by_v155)
  then show ?thesis using p' assms(4)
    by (auto simp: v166_finished_def v170_finished_def v155_local_recv_do_complete_def
        v166_local_recv_do_complete_def v170_local_recv_do_complete_def local_recv_do_complete_def
        split: prod.splits dest: plain_receive_keeps)
qed

text \<open>One interrupted call, then two bytes from user 1000 of group 100.\<close>

theorem local_receive_reports_by_version_witness:
  "\<exists>p' s. v155_local_recv_do_perform ex_local_os ex_local_args (v155_new_reactor_op_ext_local 77 88) 0 = Some (True, p', 2) \<and>
     v170_local_recv_do_perform ex_local_os ex_local_args (v155_new_reactor_op_ext_local 77 88) 0 = Some (s, p', 2) \<and>
     v170_local_recv_do_complete p' = (no_error, 2, 1000, 100)"
proof -
  let ?p = "v155_new_reactor_op_ext_local 77 88"
  let ?recv = "recv_local ex_local_os (ra_socket ex_local_args) (ra_sizes ex_local_args) (ra_flags ex_local_args)"
  have s0: "?recv (77, 88) 0 =
      (\<lparr>rc_bytes = None, rc_error = interrupted, rc_addr = 9, rc_extra = (ANY_ID, ANY_ID)\<rparr>, 1)"
    by code_simp
  have s1: "?recv (ANY_ID, ANY_ID) 1 =
      (\<lparr>rc_bytes = Some [1, 2], rc_error = no_error, rc_addr = 9, rc_extra = find_credentials [ucred_cmsg 1 1000 100]\<rparr>, 2)"
    by code_simp
  have p: "ro_uid ?p = 77" "ro_gid ?p = 88" "ro_bytes ?p = []" by (simp_all add: v155_new_reactor_op_ext_local_def)
  have "last ((ANY_ID, ANY_ID) # List.map_filter ucred [ucred_cmsg 1 1000 100]) = (1000, 100)" by code_simp
  then show ?thesis
    using local_receive_reports_by_version [where R = ex_local_os and a = ex_local_args and p = ?p and w = 0 and n = 1 and
        w' = 2 and bs = "[1, 2]" and addr = 9 and ms = "[ucred_cmsg 1 1000 100]" and B = ex_boost_recv and v = 0, unfolded p] s0 s1
    by (fastforce simp: numeral_2_eq_2)
qed

end
