(* ===== verification/Lock_Machine.thy ===== *)
theory Lock_Machine imports Main begin

text \<open>
  Threads that take and release mutexes.  A function of the sources is a \<^emph>\<open>script\<close>: the shared
  fields it touches, the scopes of its lock guards, its branches and its sequences of calls.  A thread
  is the list of what it has still to do, the unlocking of the guards it is inside of included, so the
  mutexes a thread holds can be read off that list.  The steps of the threads interleave freely.

  The locale \<open>lock_discipline\<close> is what a set of functions promises when they take mutexes in the order
  of a rank and touch each guarded field under its mutex; what follows, for any number of threads that
  call these functions in any order, is that no field is raced for and that the threads never block
  each other for ever.
\<close>

section \<open>Scripts\<close>

datatype ('m, 'r) script =
    Use 'r
  | Guarded 'm "('m, 'r) script"
  | Block "('m, 'r) script list"
  | Either "('m, 'r) script" "('m, 'r) script"

abbreviation Skip :: "('m, 'r) script" where "Skip \<equiv> Block []"

abbreviation Maybe :: "('m, 'r) script \<Rightarrow> ('m, 'r) script" where "Maybe p \<equiv> Either p Skip"

datatype ('m, 'r) item = Do "('m, 'r) script" | Unlock 'm

type_synonym ('m, 'r) thread = "('m, 'r) item list"

fun held :: "('m, 'r) thread \<Rightarrow> 'm list" where
  "held [] = []"
| "held (Do p # k) = held k"
| "held (Unlock m # k) = m # held k"

text \<open>One step of a thread, where \<open>free\<close> says which mutexes no thread holds.\<close>

inductive advance :: "('m \<Rightarrow> bool) \<Rightarrow> ('m, 'r) thread \<Rightarrow> ('m, 'r) thread \<Rightarrow> bool" for free where
  advance_use: "advance free (Do (Use r) # k) k"
| advance_lock: "free m \<Longrightarrow> advance free (Do (Guarded m p) # k) (Do p # Unlock m # k)"
| advance_unlock: "advance free (Unlock m # k) k"
| advance_done: "advance free (Do (Block []) # k) k"
| advance_block: "advance free (Do (Block (p # ps)) # k) (Do p # Do (Block ps) # k)"
| advance_left: "advance free (Do (Either p q) # k) (Do p # k)"
| advance_right: "advance free (Do (Either p q) # k) (Do q # k)"

inductive_cases advance_doE: "advance free (Do p # k) t"

inductive_simps advance_simps:
  "advance free [] t" "advance free (Do (Use r) # k) t" "advance free (Do (Guarded m p) # k) t"
  "advance free (Unlock m # k) t" "advance free (Do (Block []) # k) t"
  "advance free (Do (Block (p # ps)) # k) t" "advance free (Do (Either p q) # k) t"

section \<open>Systems of threads\<close>

type_synonym ('m, 'r) threads = "('m, 'r) thread list"

definition free_in :: "('m, 'r) threads \<Rightarrow> 'm \<Rightarrow> bool" where
  "free_in ts m \<longleftrightarrow> (\<forall>t\<in>set ts. m \<notin> set (held t))"

inductive progress :: "('m, 'r) threads \<Rightarrow> ('m, 'r) threads \<Rightarrow> bool" where
  progressI: "i < length ts \<Longrightarrow> advance (free_in ts) (ts ! i) t \<Longrightarrow> progress ts (ts[i := t])"

text \<open>A thread that has nothing left to do may start another call.\<close>

inductive system_step ::
  "(('m, 'r) script \<Rightarrow> bool) \<Rightarrow> ('m, 'r) threads \<Rightarrow> ('m, 'r) threads \<Rightarrow> bool" for calls where
  call: "i < length ts \<Longrightarrow> ts ! i = [] \<Longrightarrow> calls p \<Longrightarrow> system_step calls ts (ts[i := [Do p]])"
| work: "progress ts ts' \<Longrightarrow> system_step calls ts ts'"

definition idle :: "nat \<Rightarrow> ('m, 'r) threads" where
  "idle n = replicate n []"

definition reachable :: "(('m, 'r) script \<Rightarrow> bool) \<Rightarrow> nat \<Rightarrow> ('m, 'r) threads \<Rightarrow> bool" where
  "reachable calls n ts \<longleftrightarrow> (system_step calls)\<^sup>*\<^sup>* (idle n) ts"

definition deadlocked :: "('m, 'r) threads \<Rightarrow> bool" where
  "deadlocked ts \<longleftrightarrow> (\<exists>t\<in>set ts. t \<noteq> []) \<and> \<not> (\<exists>ts'. progress ts ts')"

fun touches :: "'r \<Rightarrow> ('m, 'r) thread \<Rightarrow> bool" where
  "touches r (Do (Use r') # k) = (r = r')"
| "touches r t = False"

definition raced :: "'r \<Rightarrow> ('m, 'r) threads \<Rightarrow> bool" where
  "raced r ts \<longleftrightarrow> (\<exists>i<length ts. \<exists>j<length ts. i \<noteq> j \<and> touches r (ts ! i) \<and> touches r (ts ! j))"

lemma touchesD: "touches r t \<Longrightarrow> \<exists>k. t = Do (Use r) # k"
  by (induction r t rule: touches.induct) auto

lemma reachable_invariant:
  assumes "reachable calls n ts" and "P (idle n)"
    and "\<And>ts ts'. P ts \<Longrightarrow> system_step calls ts ts' \<Longrightarrow> P ts'"
  shows "P ts"
  using assms(1) unfolding reachable_def
  by (induction rule: rtranclp_induct) (use assms(2,3) in auto)

lemma system_step_length: "system_step calls ts ts' \<Longrightarrow> length ts' = length ts"
  by (auto elim!: system_step.cases progress.cases)

lemma reachable_length: "reachable calls n ts \<Longrightarrow> length ts = n"
  by (erule reachable_invariant [where P = "\<lambda>ts. length ts = n"])
    (auto simp: idle_def system_step_length)

lemma progress_length: "progress ts ts' \<Longrightarrow> length ts' = length ts"
  by (auto elim!: progress.cases)

section \<open>Work ends\<close>

text \<open>
  Without new calls the threads run out of work, whatever the scripts are: a run ends with all of them
  finished or with a deadlock.
\<close>

fun weight :: "('m, 'r) script \<Rightarrow> nat" where
  "weight (Use r) = 1"
| "weight (Guarded m p) = weight p + 2"
| "weight (Block ps) = Suc (sum_list (map (\<lambda>p. Suc (weight p)) ps))"
| "weight (Either p q) = Suc (weight p + weight q)"

fun item_weight :: "('m, 'r) item \<Rightarrow> nat" where
  "item_weight (Do p) = weight p"
| "item_weight (Unlock m) = 1"

definition thread_weight :: "('m, 'r) thread \<Rightarrow> nat" where
  "thread_weight t = sum_list (map item_weight t)"

definition total_weight :: "('m, 'r) threads \<Rightarrow> nat" where
  "total_weight ts = sum_list (map thread_weight ts)"

lemma advance_weight: "advance free t t' \<Longrightarrow> thread_weight t' < thread_weight t"
  by (induction rule: advance.induct) (auto simp: thread_weight_def)

lemma sum_list_update_less:
  "i < length xs \<Longrightarrow> y < (xs ! i :: nat) \<Longrightarrow> sum_list (xs[i := y]) < sum_list xs"
proof (induction xs arbitrary: i)
  case (Cons x xs)
  then show ?case by (cases i) auto
qed simp

lemma progress_weight: "progress ts ts' \<Longrightarrow> total_weight ts' < total_weight ts"
proof (induction rule: progress.induct)
  case (progressI i ts t)
  then show ?case
    using sum_list_update_less [of i "map thread_weight ts"] advance_weight
    by (fastforce simp: total_weight_def map_update)
qed

lemma run_ends: "\<exists>ts'. progress\<^sup>*\<^sup>* ts ts' \<and> \<not> (\<exists>ts''. progress ts' ts'')"
proof (induction "total_weight ts" arbitrary: ts rule: less_induct)
  case less
  show ?case
  proof (cases "\<exists>ts''. progress ts ts''")
    case True
    then obtain ts'' where "progress ts ts''" by blast
    with less [of ts''] progress_weight show ?thesis
      by (meson converse_rtranclp_into_rtranclp)
  qed blast
qed

section \<open>Mutual exclusion\<close>

definition exclusive :: "('m, 'r) threads \<Rightarrow> bool" where
  "exclusive ts \<longleftrightarrow>
     (\<forall>i<length ts. \<forall>j<length ts. i \<noteq> j \<longrightarrow> set (held (ts ! i)) \<inter> set (held (ts ! j)) = {})"

lemma advance_held:
  "advance free t t' \<Longrightarrow> m \<in> set (held t') \<Longrightarrow> m \<in> set (held t) \<or> free m"
  by (induction rule: advance.induct) auto

lemma exclusive_update:
  assumes "exclusive ts" "i < length ts"
    and "\<And>m. m \<in> set (held t) \<Longrightarrow> m \<in> set (held (ts ! i)) \<or> free_in ts m"
  shows "exclusive (ts[i := t])"
proof -
  have "m \<notin> set (held (ts ! j))" if "j < length ts" "j \<noteq> i" "m \<in> set (held t)" for j m
    using assms(3) [OF that(3)] that(1,2) assms(1,2) by (auto simp: exclusive_def free_in_def)
  with assms(1,2) show ?thesis
    by (auto simp: exclusive_def nth_list_update)
qed

lemma exclusive_step: "exclusive ts \<Longrightarrow> system_step calls ts ts' \<Longrightarrow> exclusive ts'"
  by (auto elim!: system_step.cases progress.cases intro!: exclusive_update dest: advance_held)

lemma reachable_exclusive: "reachable calls n ts \<Longrightarrow> exclusive ts"
  by (erule reachable_invariant [where P = exclusive])
    (simp add: idle_def exclusive_def, erule (1) exclusive_step)

section \<open>Schedules\<close>

text \<open>
  Concrete runs are computed: an entry of a schedule names the thread that moves and, for a branch,
  the side it takes.
\<close>

fun act :: "('m \<Rightarrow> bool) \<Rightarrow> bool \<Rightarrow> ('m, 'r) thread \<Rightarrow> ('m, 'r) thread option" where
  "act free left [] = None"
| "act free left (Unlock m # k) = Some k"
| "act free left (Do (Use r) # k) = Some k"
| "act free left (Do (Guarded m p) # k) = (if free m then Some (Do p # Unlock m # k) else None)"
| "act free left (Do (Block []) # k) = Some k"
| "act free left (Do (Block (p # ps)) # k) = Some (Do p # Do (Block ps) # k)"
| "act free left (Do (Either p q) # k) = Some (Do (if left then p else q) # k)"

fun schedule :: "(nat \<times> bool) list \<Rightarrow> ('m, 'r) threads \<Rightarrow> ('m, 'r) threads option" where
  "schedule [] ts = Some ts"
| "schedule ((i, left) # es) ts =
     (if i < length ts then
        (case act (free_in ts) left (ts ! i) of None \<Rightarrow> None | Some t \<Rightarrow> schedule es (ts[i := t]))
      else None)"

lemma act_advance: "act free left t = Some t' \<Longrightarrow> advance free t t'"
  by (induction free left t rule: act.induct) (auto simp: advance_simps split: if_splits)

lemma schedule_progress: "schedule es ts = Some ts' \<Longrightarrow> progress\<^sup>*\<^sup>* ts ts'"
proof (induction es ts rule: schedule.induct)
  case (2 i left es ts)
  then obtain t where "i < length ts" "act (free_in ts) left (ts ! i) = Some t"
    "progress\<^sup>*\<^sup>* (ts[i := t]) ts'"
    by (auto split: if_splits option.splits)
  then show ?case
    by (meson act_advance progressI converse_rtranclp_into_rtranclp)
qed simp

lemma reachable_progress:
  assumes "reachable calls n ts" "progress\<^sup>*\<^sup>* ts ts'"
  shows "reachable calls n ts'"
  using assms(2)
proof (induction rule: rtranclp_induct)
  case (step ts' ts'')
  then show ?case unfolding reachable_def by (blast intro: rtranclp.rtrancl_into_rtrancl work)
qed (rule assms(1))

lemma reachable_idle: "reachable calls n (idle n)"
  by (simp add: reachable_def)

lemma reachable_call:
  "reachable calls n ts \<Longrightarrow> i < length ts \<Longrightarrow> ts ! i = [] \<Longrightarrow> calls p \<Longrightarrow> reachable calls n (ts[i := [Do p]])"
  unfolding reachable_def by (blast intro: rtranclp.rtrancl_into_rtrancl call)

text \<open>Two threads that each make one call.\<close>

lemma two_calls_reachable:
  assumes "calls p" "calls q" "schedule es [[Do p], [Do q]] = Some ts"
  shows "reachable calls 2 ts"
proof -
  have "idle 2 = [[], []]" by (simp add: idle_def numeral_2_eq_2)
  with reachable_idle [of calls 2] have "reachable calls 2 [[], []]" by metis
  from reachable_call [OF this, of 0 p] assms(1) have "reachable calls 2 [[Do p], []]" by simp
  from reachable_call [OF this, of 1 q] assms(2) have "reachable calls 2 [[Do p], [Do q]]" by simp
  then show ?thesis by (rule reachable_progress) (rule schedule_progress [OF assms(3)])
qed

section \<open>The discipline\<close>

text \<open>
  \<open>disciplined rank guard hs p\<close>: entered with the mutexes \<open>hs\<close>, the script \<open>p\<close> only ever takes a
  mutex of a higher rank than those it holds, and touches a guarded field only while it holds the
  mutex of that field.
\<close>

fun disciplined :: "('m \<Rightarrow> nat) \<Rightarrow> ('r \<Rightarrow> 'm option) \<Rightarrow> 'm list \<Rightarrow> ('m, 'r) script \<Rightarrow> bool" where
  "disciplined rank guard hs (Use r) = (case guard r of None \<Rightarrow> True | Some m \<Rightarrow> m \<in> set hs)"
| "disciplined rank guard hs (Guarded m p) =
     (list_all (\<lambda>h. rank h < rank m) hs \<and> disciplined rank guard (m # hs) p)"
| "disciplined rank guard hs (Block ps) = list_all (disciplined rank guard hs) ps"
| "disciplined rank guard hs (Either p q) = (disciplined rank guard hs p \<and> disciplined rank guard hs q)"

fun thread_ok :: "('m \<Rightarrow> nat) \<Rightarrow> ('r \<Rightarrow> 'm option) \<Rightarrow> ('m, 'r) thread \<Rightarrow> bool" where
  "thread_ok rank guard [] = True"
| "thread_ok rank guard (Do p # k) = (disciplined rank guard (held k) p \<and> thread_ok rank guard k)"
| "thread_ok rank guard (Unlock m # k) = (list_all (\<lambda>h. rank h < rank m) (held k) \<and> thread_ok rank guard k)"

lemma thread_ok_advance: "advance free t t' \<Longrightarrow> thread_ok rank guard t \<Longrightarrow> thread_ok rank guard t'"
  by (induction rule: advance.induct) auto

text \<open>The mutex a thread wants to take next.\<close>

fun wanted :: "('m, 'r) thread \<Rightarrow> 'm option" where
  "wanted (Do (Guarded m p) # k) = Some m"
| "wanted t = None"

lemma wanted_SomeD: "wanted t = Some m \<Longrightarrow> \<exists>p k. t = Do (Guarded m p) # k"
  by (induction t rule: wanted.induct) auto

lemma blocked_at_lock:
  assumes "t \<noteq> []" and "\<not> (\<exists>t'. advance free t t')"
  shows "\<exists>m. wanted t = Some m \<and> \<not> free m"
proof -
  from assms(1) obtain x k where t: "t = x # k" by (cases t) auto
  show ?thesis
  proof (cases x)
    case (Do p)
    with assms(2) t show ?thesis
    proof (cases p)
      case (Block ps)
      with assms(2) t Do show ?thesis by (cases ps) (auto simp: advance_simps)
    qed (auto simp: advance_simps)
  qed (use assms(2) t in \<open>auto simp: advance_simps\<close>)
qed

lemma deadlocked_iff:
  "deadlocked ts \<longleftrightarrow> (\<exists>t\<in>set ts. t \<noteq> []) \<and>
     (\<forall>t\<in>set ts. t = [] \<or> (case wanted t of None \<Rightarrow> False | Some m \<Rightarrow> \<not> free_in ts m))"
proof -
  have "(\<exists>ts'. progress ts ts') \<longleftrightarrow> (\<exists>t\<in>set ts. \<exists>t'. advance (free_in ts) t t')"
    by (metis in_set_conv_nth progress.cases progressI)
  moreover have "(\<exists>t'. advance free t t') \<longleftrightarrow>
      \<not> (t = [] \<or> (case wanted t of None \<Rightarrow> False | Some m \<Rightarrow> \<not> free m))"
    for free and t :: "('a, 'b) thread"
  proof (cases "\<exists>t'. advance free t t'")
    case True
    then show ?thesis by (auto simp: advance_simps split: option.splits dest!: wanted_SomeD)
  next
    case False
    then show ?thesis using blocked_at_lock [OF _ False] by (cases "t = []") auto
  qed
  ultimately show ?thesis by (auto simp: deadlocked_def)
qed

lemma wanted_above_held:
  "thread_ok rank guard t \<Longrightarrow> wanted t = Some m \<Longrightarrow> h \<in> set (held t) \<Longrightarrow> rank h < rank m"
  by (fastforce dest: wanted_SomeD simp: list_all_iff)

locale lock_discipline =
  fixes rank :: "'m \<Rightarrow> nat" and guard :: "'r \<Rightarrow> 'm option" and calls :: "('m, 'r) script \<Rightarrow> bool"
  assumes calls_disciplined: "calls p \<Longrightarrow> disciplined rank guard [] p"
begin

lemma threads_ok:
  assumes "reachable calls n ts"
  shows "\<forall>t\<in>set ts. thread_ok rank guard t"
  using assms
proof (rule reachable_invariant)
  show "\<forall>t\<in>set (idle n). thread_ok rank guard t" by (simp add: idle_def)
  fix ts ts' :: "('m, 'r) threads"
  assume *: "\<forall>t\<in>set ts. thread_ok rank guard t" and "system_step calls ts ts'"
  from this(2) show "\<forall>t\<in>set ts'. thread_ok rank guard t"
  proof cases
    case (call i p)
    with * show ?thesis
      using calls_disciplined set_update_subset_insert by fastforce
  next
    case work
    then obtain i t where "ts' = ts[i := t]" "i < length ts" "advance (free_in ts) (ts ! i) t"
      by (auto elim: progress.cases)
    with * show ?thesis
      using thread_ok_advance [of "free_in ts" "ts ! i" t] set_update_subset_insert by fastforce
  qed
qed

text \<open>No guarded field is touched by two threads at once.\<close>

lemma never_raced:
  assumes "reachable calls n ts" "guard r = Some m"
  shows "\<not> raced r ts"
proof
  assume "raced r ts"
  then obtain i j where ij: "i < length ts" "j < length ts" "i \<noteq> j"
    "touches r (ts ! i)" "touches r (ts ! j)" by (auto simp: raced_def)
  have "m \<in> set (held (ts ! l))" if "l < length ts" "touches r (ts ! l)" for l
  proof -
    from that threads_ok [OF assms(1)] have "thread_ok rank guard (ts ! l)" by simp
    with that assms(2) show ?thesis by (auto dest!: touchesD)
  qed
  with ij reachable_exclusive [OF assms(1)] show False by (auto simp: exclusive_def)
qed

text \<open>
  Of the threads that wait for a mutex, take one that waits for a mutex of the highest rank.  Whoever
  holds that mutex cannot be waiting, for it would wait for one of a still higher rank.
\<close>

lemma never_deadlocked:
  assumes "reachable calls n ts"
  shows "\<not> deadlocked ts"
proof
  assume d: "deadlocked ts"
  have blocked: "\<exists>m. wanted t = Some m \<and> \<not> free_in ts m" if "t \<in> set ts" "t \<noteq> []" for t
  proof -
    from that obtain i where i: "i < length ts" "t = ts ! i" by (auto simp: in_set_conv_nth)
    with d have "\<not> (\<exists>t'. advance (free_in ts) t t')" by (auto simp: deadlocked_def intro: progressI)
    with blocked_at_lock [OF that(2)] show ?thesis by blast
  qed
  define W where "W = (\<lambda>t. rank (the (wanted t))) ` {t \<in> set ts. wanted t \<noteq> None}"
  have "finite W" by (simp add: W_def)
  moreover have "W \<noteq> {}"
  proof -
    from d obtain t where "t \<in> set ts" "t \<noteq> []" by (auto simp: deadlocked_def)
    with blocked obtain m where "wanted t = Some m" by blast
    with \<open>t \<in> set ts\<close> show ?thesis by (auto simp: W_def)
  qed
  ultimately have "Max W \<in> W" and top: "\<And>w. w \<in> W \<Longrightarrow> w \<le> Max W" by simp_all
  then obtain m t where m: "rank m = Max W" "t \<in> set ts" "wanted t = Some m" by (auto simp: W_def)
  then have "t \<noteq> []" by auto
  with blocked m(2,3) obtain u where u: "u \<in> set ts" "m \<in> set (held u)"
    by (fastforce simp: free_in_def)
  then have "u \<noteq> []" by auto
  with blocked u(1) obtain m' where m': "wanted u = Some m'" by blast
  then have "rank m < rank m'"
    using threads_ok [OF assms] u by (blast intro: wanted_above_held)
  moreover have "rank m' \<in> W" using u(1) m' by (force simp: W_def)
  ultimately show False using top [of "rank m'"] m(1) by simp
qed

text \<open>So every call that was started can be finished, and is if the threads keep running.\<close>

lemma calls_finish:
  assumes "reachable calls n ts"
  shows "progress\<^sup>*\<^sup>* ts (idle n)"
proof -
  obtain ts' where run: "progress\<^sup>*\<^sup>* ts ts'" and stop: "\<not> (\<exists>ts''. progress ts' ts'')"
    using run_ends by blast
  have "reachable calls n ts'" using assms run by (rule reachable_progress)
  with stop never_deadlocked have "\<forall>t\<in>set ts'. t = []" and "length ts' = n"
    by (auto simp: deadlocked_def reachable_length)
  then have "ts' = idle n" unfolding idle_def by (intro replicate_eqI) auto
  with run show ?thesis by simp
qed

end

end
