(* ===== verification/Endpoint_Locks.thy ===== *)
theory Endpoint_Locks imports Lock_Machine Prelude begin

text \<open>
  The mutexes of the endpoints and of the manager, the fields shared between threads, and for every
  function of src/*_endpoint_impl.cpp and src/endpoint_manager_impl.cpp that takes a mutex, or touches
  a shared field, its script: guards, calls, branches and field accesses in the order of the source.
  Where a branch depends on an error code the script takes the code as an argument, otherwise both
  sides are possible.  Members declared \<open>const\<close> or \<open>std::atomic\<close> are not fields here: reading and writing them
  never races.  An exception that leaves a function early is not modelled; the one the code catches,
  from growing a receive buffer, is.

  A thread of the io_service touches fields outside the functions too, when it carries an operation out:
  it stores what a read received, gives an accepted connection its socket, and starts the next part of a
  composed \<open>async_write\<close> on the socket.  It holds no mutex of the endpoint then.  These accesses are in
  the scripts of the completions (\<open>udp_received_script\<close> and its like).

  Endpoints and connections are numbered.  \<open>server_endpoint_impl::stop\<close> and
  \<open>connection::wait_until_sent\<close> are not defined in the sources, so what they lock is unknown.  They are
  in no script: the script of a server's \<open>stop\<close> is what it does once the first has returned, and that
  of a connection's \<open>receive_cbk\<close> what it does until it calls the second.
\<close>

section \<open>Mutexes and shared fields\<close>

type_synonym endpoint_id = nat
type_synonym connection_id = nat

datatype mutex =
    Endpoint_mutex
  | Client_mutex endpoint_id
  | Client_socket_mutex endpoint_id
  | Connect_timer_mutex endpoint_id
  | Client_sent_mutex endpoint_id
  | Server_mutex endpoint_id
  | Server_sent_mutex endpoint_id
  | Acceptor_mutex endpoint_id
  | Connections_mutex endpoint_id
  | Connection_mutex connection_id
  | Unicast_mutex endpoint_id
  | Multicast_mutex endpoint_id

datatype transport = Over_tcp | Over_udp

datatype field =
    Client_socket transport endpoint_id
  | Client_remote endpoint_id
  | Client_connect_timer endpoint_id
  | Client_connect_timepoint endpoint_id
  | Client_shrink_count endpoint_id
  | Client_buffer_ptr endpoint_id
  | Client_buffer endpoint_id
  | Client_is_sending endpoint_id
  | Client_sent_timer endpoint_id
  | Client_sending_blocked endpoint_id
  | Server_is_sending endpoint_id
  | Server_sent_timer endpoint_id
  | Server_acceptor endpoint_id
  | Server_connections endpoint_id
  | Connection_socket connection_id
  | Connection_window connection_id
  | Connection_buffer connection_id
  | Connection_recv_size connection_id
  | Connection_remote connection_id
  | Unicast_socket endpoint_id
  | Unicast_remote endpoint_id
  | Unicast_buffer endpoint_id
  | Multicast_socket endpoint_id
  | Server_registry
  | Client_registry

type_synonym lock_script = "(mutex, field) script"

text \<open>
  The order in which the code nests its guards, and the mutex under which every access to a field is
  made.  Some accesses to the fields that have none are made without any mutex: to the socket of a TCP
  client and of a connection by the io_service, to \<open>sending_blocked_\<close> by the handlers of a client, to
  \<open>recv_buffer_size_\<close> by the read handler of a connection, to the buffers and peer addresses by the
  operations that fill them.
\<close>

fun mutex_rank :: "mutex \<Rightarrow> nat" where
  "mutex_rank Endpoint_mutex = 0"
| "mutex_rank (Client_mutex e) = 1"
| "mutex_rank (Acceptor_mutex e) = 1"
| "mutex_rank (Connections_mutex e) = 1"
| "mutex_rank (Unicast_mutex e) = 1"
| "mutex_rank (Multicast_mutex e) = 1"
| "mutex_rank (Client_socket_mutex e) = 2"
| "mutex_rank (Connection_mutex k) = 2"
| "mutex_rank (Connect_timer_mutex e) = 3"
| "mutex_rank (Client_sent_mutex e) = 3"
| "mutex_rank (Server_sent_mutex e) = 3"
| "mutex_rank (Server_mutex e) = 3"

fun field_guard :: "field \<Rightarrow> mutex option" where
  "field_guard (Client_socket v e) = (if v = Over_udp then Some (Client_socket_mutex e) else None)"
| "field_guard (Client_connect_timepoint e) = Some (Client_socket_mutex e)"
| "field_guard (Client_shrink_count e) = Some (Client_socket_mutex e)"
| "field_guard (Client_buffer_ptr e) = Some (Client_socket_mutex e)"
| "field_guard (Client_connect_timer e) = Some (Connect_timer_mutex e)"
| "field_guard (Client_is_sending e) = Some (Client_sent_mutex e)"
| "field_guard (Client_sent_timer e) = Some (Client_sent_mutex e)"
| "field_guard (Server_is_sending e) = Some (Server_sent_mutex e)"
| "field_guard (Server_sent_timer e) = Some (Server_sent_mutex e)"
| "field_guard (Server_acceptor e) = Some (Acceptor_mutex e)"
| "field_guard (Server_connections e) = Some (Connections_mutex e)"
| "field_guard (Connection_window k) = Some (Connection_mutex k)"
| "field_guard (Unicast_socket e) = Some (Unicast_mutex e)"
| "field_guard (Multicast_socket e) = Some (Multicast_mutex e)"
| "field_guard Server_registry = Some Endpoint_mutex"
| "field_guard Client_registry = Some Endpoint_mutex"
| "field_guard (Client_remote e) = None"
| "field_guard (Client_sending_blocked e) = None"
| "field_guard (Connection_socket k) = None"
| "field_guard (Connection_recv_size k) = None"
| "field_guard (Client_buffer e) = None"
| "field_guard (Connection_buffer k) = None"
| "field_guard (Connection_remote k) = None"
| "field_guard (Unicast_remote e) = None"
| "field_guard (Unicast_buffer e) = None"

named_theorems lock_scripts \<open>the scripts of the functions\<close>

section \<open>The TCP client\<close>

definition get_remote_information_script :: "endpoint_id \<Rightarrow> lock_script" where
  [lock_scripts]: "get_remote_information_script e = Use (Client_remote e)"

definition client_shutdown_unlocked_script ::
  "transport \<Rightarrow> endpoint_id \<Rightarrow> bool \<Rightarrow> lock_script" where
  [lock_scripts]: "client_shutdown_unlocked_script v e recreate =
     Block [Use (Client_socket v e),
       Maybe (Block [Use (Client_socket v e), Maybe (get_remote_information_script e),
         Use (Client_socket v e), Use (Client_socket v e)]),
       if recreate then Use (Client_socket v e) else Skip]"

definition client_shutdown_script ::
  "transport \<Rightarrow> endpoint_id \<Rightarrow> bool \<Rightarrow> lock_script" where
  [lock_scripts]: "client_shutdown_script v e recreate =
     Guarded (Client_socket_mutex e) (client_shutdown_unlocked_script v e recreate)"

definition tcp_connect_script :: "endpoint_id \<Rightarrow> lock_script" where
  [lock_scripts]: "tcp_connect_script e =
     Guarded (Client_socket_mutex e) (Block [Use (Client_remote e), Use (Client_socket Over_tcp e),
       Maybe (Block [Use (Client_socket Over_tcp e), Use (Client_socket Over_tcp e), Use (Client_socket Over_tcp e), Use (Client_socket Over_tcp e),
         Use (Client_socket Over_tcp e),
         Maybe (Block [Use (Client_connect_timepoint e), Use (Client_remote e), Use (Client_socket Over_tcp e)])])])"

definition tcp_handle_recv_buffer_exception_script :: "endpoint_id \<Rightarrow> lock_script" where
  [lock_scripts]: "tcp_handle_recv_buffer_exception_script e =
     Block [Use (Client_socket Over_tcp e), Use (Client_buffer e),
       Guarded (Connect_timer_mutex e) (Use (Client_connect_timer e)),
       Use (Client_socket Over_tcp e), Maybe (Block [Use (Client_socket Over_tcp e), Use (Client_socket Over_tcp e)])]"

definition tcp_receive_window_script :: "endpoint_id \<Rightarrow> lock_script" where
  [lock_scripts]: "tcp_receive_window_script e =
     Guarded (Client_socket_mutex e) (Block [Use (Client_socket Over_tcp e),
       Maybe (Block [Use (Client_buffer e),
         Maybe (Block [
           Either (Maybe (Block [Use (Client_buffer e), Maybe (Use (Client_socket Over_tcp e))]))
             (Block [Use (Client_shrink_count e), Maybe (Block [Use (Client_buffer e), Use (Client_shrink_count e)])]),
           Either (tcp_handle_recv_buffer_exception_script e)
             (Block [Use (Client_buffer e), Use (Client_socket Over_tcp e)])])])])"

definition tcp_receive_script :: "endpoint_id \<Rightarrow> lock_script" where
  [lock_scripts]: "tcp_receive_script e =
     Block [Guarded (Client_socket_mutex e) (Use (Client_buffer_ptr e)), tcp_receive_window_script e]"

definition tcp_send_data_script :: "endpoint_id \<Rightarrow> lock_script" where
  [lock_scripts]: "tcp_send_data_script e =
     Block [Use (Client_remote e),
       Guarded (Client_socket_mutex e) (Block [Use (Client_socket Over_tcp e),
         Maybe (Block [Guarded (Client_sent_mutex e) (Use (Client_is_sending e)), Use (Client_socket Over_tcp e)])])]"

definition tcp_set_local_port_script :: "endpoint_id \<Rightarrow> lock_script" where
  [lock_scripts]: "tcp_set_local_port_script e =
     Guarded (Client_socket_mutex e) (Block [Use (Client_socket Over_tcp e), Maybe (Use (Client_socket Over_tcp e))])"

definition tcp_receive_cbk_script :: "endpoint_id \<Rightarrow> error_code \<Rightarrow> lock_script" where
  [lock_scripts]: "tcp_receive_cbk_script e ec = (if ec = operation_aborted then Skip else Use (Client_buffer e))"

text \<open>A read stores what arrived before its handler runs.\<close>

definition tcp_received_script :: "endpoint_id \<Rightarrow> error_code \<Rightarrow> lock_script" where
  [lock_scripts]: "tcp_received_script e ec = Block [Use (Client_buffer e), tcp_receive_cbk_script e ec]"

text \<open>
  \<open>async_write\<close> is a composed operation: after a partial write the thread that runs its intermediate
  handler, which is not wrapped in the strand, writes again to \<open>*socket_\<close>.
\<close>

definition tcp_write_continues_script :: "endpoint_id \<Rightarrow> lock_script" where
  [lock_scripts]: "tcp_write_continues_script e = Use (Client_socket Over_tcp e)"

definition tcp_send_cbk_script :: "endpoint_id \<Rightarrow> error_code \<Rightarrow> lock_script" where
  [lock_scripts]: "tcp_send_cbk_script e ec =
     Block [Guarded (Client_sent_mutex e) (Block [Use (Client_is_sending e), Use (Client_sent_timer e)]),
       if ec = destination_address_required then get_remote_information_script e
       else if ec = operation_aborted then client_shutdown_script Over_tcp e False
       else Block [Either (get_remote_information_script e) (client_shutdown_script Over_tcp e False),
              get_remote_information_script e]]"

definition tcp_wait_until_sent_script :: "endpoint_id \<Rightarrow> error_code \<Rightarrow> lock_script" where
  [lock_scripts]: "tcp_wait_until_sent_script e ec =
     Guarded (Client_sent_mutex e) (Block [Use (Client_is_sending e),
       if failed ec then Maybe (Use (Client_sent_timer e)) else Skip])"

section \<open>The UDP client\<close>

definition udp_connect_script :: "endpoint_id \<Rightarrow> lock_script" where
  [lock_scripts]: "udp_connect_script e =
     Guarded (Client_socket_mutex e) (Block [Use (Client_remote e), Use (Client_socket Over_udp e),
       Maybe (Block [Use (Client_socket Over_udp e), Use (Client_socket Over_udp e), Maybe (Use (Client_socket Over_udp e)),
         Use (Client_socket Over_udp e), Maybe (Block [Use (Client_remote e), Use (Client_socket Over_udp e)])])])"

definition udp_send_data_script :: "endpoint_id \<Rightarrow> lock_script" where
  [lock_scripts]: "udp_send_data_script e =
     Block [Use (Client_remote e), Guarded (Client_socket_mutex e) (Use (Client_socket Over_udp e))]"

definition udp_receive_script :: "endpoint_id \<Rightarrow> lock_script" where
  [lock_scripts]: "udp_receive_script e =
     Guarded (Client_socket_mutex e) (Block [Use (Client_socket Over_udp e), Maybe (Use (Client_socket Over_udp e))])"

definition udp_set_local_port_script :: "endpoint_id \<Rightarrow> lock_script" where
  [lock_scripts]: "udp_set_local_port_script e =
     Guarded (Client_socket_mutex e) (Block [Use (Client_socket Over_udp e), Maybe (Use (Client_socket Over_udp e))])"

definition udp_receive_cbk_script :: "endpoint_id \<Rightarrow> error_code \<Rightarrow> lock_script" where
  [lock_scripts]: "udp_receive_cbk_script e ec =
     (if ec = operation_aborted then Skip
      else Block [Use (Client_buffer e),
        if failed ec \<and> ec = connection_refused then client_shutdown_script Over_udp e False else udp_receive_script e])"

text \<open>
  The operation started by \<open>receive\<close> was given \<open>remote_\<close> for the sender: the thread that completes it
  stores the sender there before it runs the handler.
\<close>

definition udp_received_script :: "endpoint_id \<Rightarrow> error_code \<Rightarrow> lock_script" where
  [lock_scripts]: "udp_received_script e ec =
     Block [Use (Client_buffer e), Use (Client_remote e), udp_receive_cbk_script e ec]"

section \<open>The client base class\<close>

fun connect_script :: "transport \<Rightarrow> endpoint_id \<Rightarrow> lock_script" where
  "connect_script Over_tcp e = tcp_connect_script e"
| "connect_script Over_udp e = udp_connect_script e"

fun receive_script :: "transport \<Rightarrow> endpoint_id \<Rightarrow> lock_script" where
  "receive_script Over_tcp e = tcp_receive_script e"
| "receive_script Over_udp e = udp_receive_script e"

fun send_data_script :: "transport \<Rightarrow> endpoint_id \<Rightarrow> lock_script" where
  "send_data_script Over_tcp e = tcp_send_data_script e"
| "send_data_script Over_udp e = udp_send_data_script e"

fun set_local_port_script :: "transport \<Rightarrow> endpoint_id \<Rightarrow> lock_script" where
  "set_local_port_script Over_tcp e = tcp_set_local_port_script e"
| "set_local_port_script Over_udp e = udp_set_local_port_script e"

definition client_set_established_script :: "transport \<Rightarrow> endpoint_id \<Rightarrow> bool \<Rightarrow> lock_script" where
  [lock_scripts]: "client_set_established_script v e established =
     (if established then Maybe (Guarded (Client_socket_mutex e) (Use (Client_socket v e))) else Skip)"

definition client_set_connected_script :: "transport \<Rightarrow> endpoint_id \<Rightarrow> bool \<Rightarrow> lock_script" where
  [lock_scripts]: "client_set_connected_script v e connected =
     (if connected then Guarded (Client_socket_mutex e) (Use (Client_socket v e)) else Skip)"

definition client_stop_script :: "transport \<Rightarrow> endpoint_id \<Rightarrow> lock_script" where
  [lock_scripts]: "client_stop_script v e =
     Block [Guarded (Connect_timer_mutex e) (Use (Client_connect_timer e)), client_shutdown_script v e False]"

definition client_send_script :: "transport \<Rightarrow> endpoint_id \<Rightarrow> lock_script" where
  [lock_scripts]: "client_send_script v e = Guarded (Client_mutex e) (send_data_script v e)"

definition client_connect_cbk_script :: "transport \<Rightarrow> endpoint_id \<Rightarrow> error_code \<Rightarrow> lock_script" where
  [lock_scripts]: "client_connect_cbk_script v e ec =
     (let stopped = client_shutdown_script v e False
      in if ec = operation_aborted then stopped
         else Block [Use (Client_sending_blocked e), Either stopped
           (Block [Guarded (Connect_timer_mutex e) (Use (Client_connect_timer e)),
              set_local_port_script v e, receive_script v e])])"

definition client_wait_connect_cbk_script :: "transport \<Rightarrow> endpoint_id \<Rightarrow> error_code \<Rightarrow> lock_script" where
  [lock_scripts]: "client_wait_connect_cbk_script v e ec =
     (if \<not> failed ec then Block [Use (Client_sending_blocked e), Maybe (connect_script v e)] else Skip)"

definition client_send_cbk_script :: "transport \<Rightarrow> endpoint_id \<Rightarrow> error_code \<Rightarrow> lock_script" where
  [lock_scripts]: "client_send_cbk_script v e ec =
     (if ec = broken_pipe then
        Block [Guarded (Client_mutex e) (get_remote_information_script e),
          client_shutdown_script v e True, connect_script v e]
      else if ec = not_connected \<or> ec = bad_descriptor \<or> ec = no_permission then
        Block [if ec = no_permission then
                 Block [get_remote_information_script e, Guarded (Client_mutex e) Skip]
               else Skip,
          client_shutdown_script v e True, connect_script v e]
      else if ec = operation_aborted then
        Block [Use (Client_sending_blocked e), client_shutdown_script v e False]
      else get_remote_information_script e)"

definition client_start_connect_timer_script :: "endpoint_id \<Rightarrow> lock_script" where
  [lock_scripts]: "client_start_connect_timer_script e =
     Guarded (Connect_timer_mutex e) (Block [Use (Client_connect_timer e), Use (Client_connect_timer e)])"

end
