(* ===== verification/Server_Locks.thy ===== *)
theory Server_Locks imports Endpoint_Locks begin

text \<open>
  The scripts of the servers and of the manager, what threads can call, and the interpretation that
  shows these calls disciplined.
\<close>

section \<open>The server base class and the UDP server\<close>

definition server_send_cbk_script :: "endpoint_id \<Rightarrow> lock_script" where
  [lock_scripts]: "server_send_cbk_script s =
     Block [Guarded (Server_sent_mutex s) (Block [Use (Server_is_sending s), Use (Server_sent_timer s)]),
       Guarded (Server_mutex s) Skip]"

definition udp_server_stop_script :: "endpoint_id \<Rightarrow> lock_script" where
  [lock_scripts]: "udp_server_stop_script s =
     Block [
       Guarded (Unicast_mutex s) (Block [Use (Unicast_socket s),
         Maybe (Block [Use (Unicast_socket s), Use (Unicast_socket s)])]),
       Guarded (Multicast_mutex s) (Block [Use (Multicast_socket s),
         Maybe (Block [Use (Multicast_socket s), Use (Multicast_socket s)])])]"

definition receive_unicast_script :: "endpoint_id \<Rightarrow> lock_script" where
  [lock_scripts]: "receive_unicast_script s =
     Guarded (Unicast_mutex s) (Block [Use (Unicast_socket s), Maybe (Use (Unicast_socket s))])"

definition udp_server_receive_script :: "endpoint_id \<Rightarrow> lock_script" where
  [lock_scripts]: "udp_server_receive_script s = receive_unicast_script s"

definition udp_server_start_script :: "endpoint_id \<Rightarrow> lock_script" where
  [lock_scripts]: "udp_server_start_script s = udp_server_receive_script s"

definition on_message_received_script :: "endpoint_id \<Rightarrow> lock_script" where
  [lock_scripts]: "on_message_received_script s = Use (Unicast_buffer s)"

definition on_unicast_received_script :: "endpoint_id \<Rightarrow> error_code \<Rightarrow> lock_script" where
  [lock_scripts]: "on_unicast_received_script s ec =
     (if ec \<noteq> operation_aborted then
        Block [Guarded (Multicast_mutex s) (on_message_received_script s), receive_unicast_script s]
      else Skip)"

definition unicast_received_script :: "endpoint_id \<Rightarrow> error_code \<Rightarrow> lock_script" where
  [lock_scripts]: "unicast_received_script s ec =
     Block [Use (Unicast_buffer s), Use (Unicast_remote s), on_unicast_received_script s ec]"

definition udp_server_send_data_script :: "endpoint_id \<Rightarrow> lock_script" where
  [lock_scripts]: "udp_server_send_data_script s = Guarded (Unicast_mutex s) (Use (Unicast_socket s))"

section \<open>The TCP server\<close>

text \<open>\<open>start\<close> makes the connection \<open>new\<close> and accepts into its socket.\<close>

definition tcp_server_start_script :: "endpoint_id \<Rightarrow> connection_id \<Rightarrow> lock_script" where
  [lock_scripts]: "tcp_server_start_script s new =
     Guarded (Acceptor_mutex s) (Block [Use (Server_acceptor s),
       Maybe (Guarded (Connection_mutex new)
         (Block [Use (Connection_socket new), Use (Server_acceptor s)]))])"

definition connection_stop_script :: "connection_id \<Rightarrow> lock_script" where
  [lock_scripts]: "connection_stop_script k =
     Guarded (Connection_mutex k) (Block [Use (Connection_socket k),
       Maybe (Block [Use (Connection_socket k), Use (Connection_socket k)])])"

definition tcp_server_stop_script ::
  "endpoint_id \<Rightarrow> connection_id list \<Rightarrow> lock_script" where
  [lock_scripts]: "tcp_server_stop_script s ks =
     Block [
       Guarded (Acceptor_mutex s) (Block [Use (Server_acceptor s), Maybe (Use (Server_acceptor s))]),
       Guarded (Connections_mutex s)
         (Block (Use (Server_connections s) # map connection_stop_script ks @ [Use (Server_connections s)]))]"

definition remove_connection_script :: "endpoint_id \<Rightarrow> lock_script" where
  [lock_scripts]: "remove_connection_script s =
     Guarded (Connections_mutex s) (Block [Use (Server_connections s), Maybe (Use (Server_connections s))])"

definition connection_exception_script :: "endpoint_id \<Rightarrow> connection_id \<Rightarrow> lock_script" where
  [lock_scripts]: "connection_exception_script s k =
     Block [Use (Connection_socket k), Use (Connection_remote k), Use (Connection_recv_size k),
       Use (Connection_buffer k), Use (Connection_buffer k), Use (Connection_socket k),
       Maybe (Block [Use (Connection_socket k), Use (Connection_socket k)]),
       Maybe (remove_connection_script s)]"

text \<open>\<open>throws\<close> says whether growing or shrinking the buffer may throw.\<close>

definition connection_receive_script :: "bool \<Rightarrow> endpoint_id \<Rightarrow> connection_id \<Rightarrow> lock_script" where
  [lock_scripts]: "connection_receive_script throws s k =
     Guarded (Connection_mutex k) (Block [Use (Connection_socket k),
       Maybe (Block [Use (Connection_buffer k), Use (Connection_recv_size k), Use (Connection_window k),
         Maybe (Block [
           Maybe (Block [Use (Connection_buffer k),
             Maybe (Block [Use (Connection_socket k), Use (Connection_remote k)]), Use (Connection_window k)]),
           (let read = Block [Use (Connection_buffer k), Use (Connection_recv_size k), Use (Connection_socket k)]
            in if throws then Either (connection_exception_script s k) read else read)])])])"

definition connection_start_script :: "bool \<Rightarrow> endpoint_id \<Rightarrow> connection_id \<Rightarrow> lock_script" where
  [lock_scripts]: "connection_start_script throws s k = connection_receive_script throws s k"

definition connection_send_data_script :: "endpoint_id \<Rightarrow> connection_id \<Rightarrow> lock_script" where
  [lock_scripts]: "connection_send_data_script s k =
     Maybe (Guarded (Connection_mutex k) (Block [
       Guarded (Server_sent_mutex s) (Use (Server_is_sending s)), Use (Connection_socket k)]))"

definition stop_and_remove_connection_script :: "endpoint_id \<Rightarrow> connection_id \<Rightarrow> lock_script" where
  [lock_scripts]: "stop_and_remove_connection_script s k =
     Maybe (Block [Guarded (Connections_mutex s) (connection_stop_script k), remove_connection_script s])"

definition connection_write_completion_condition_script ::
  "endpoint_id \<Rightarrow> connection_id \<Rightarrow> error_code \<Rightarrow> lock_script" where
  [lock_scripts]: "connection_write_completion_condition_script s k ec =
     (if failed ec then Block [Use (Connection_remote k), stop_and_remove_connection_script s k] else Skip)"

definition connection_write_continues_script ::
  "endpoint_id \<Rightarrow> connection_id \<Rightarrow> error_code \<Rightarrow> lock_script" where
  [lock_scripts]: "connection_write_continues_script s k ec =
     Block [connection_write_completion_condition_script s k ec,
       if failed ec then Skip else Maybe (Use (Connection_socket k))]"

definition connection_receive_cbk_script :: "connection_id \<Rightarrow> error_code \<Rightarrow> lock_script" where
  [lock_scripts]: "connection_receive_cbk_script k ec =
     (if ec = operation_aborted then Skip
      else Maybe (Block [Use (Connection_recv_size k), Use (Connection_buffer k),
        if ec = timed_out then
          Guarded (Connection_mutex k) (Block [Use (Connection_socket k), Use (Connection_remote k)])
        else Skip]))"

definition connection_received_script :: "connection_id \<Rightarrow> error_code \<Rightarrow> lock_script" where
  [lock_scripts]: "connection_received_script k ec =
     Block [Use (Connection_buffer k), connection_receive_cbk_script k ec]"

definition accept_cbk_script ::
  "bool \<Rightarrow> endpoint_id \<Rightarrow> connection_id \<Rightarrow> connection_id \<Rightarrow> error_code \<Rightarrow> lock_script" where
  [lock_scripts]: "accept_cbk_script throws s k new ec =
     Block [
       if \<not> failed ec then
         Block [
           Guarded (Connection_mutex k) (Block [Use (Connection_socket k), Use (Connection_remote k),
             Use (Connection_socket k), Use (Connection_socket k)]),
           Maybe (Block [
             Guarded (Connections_mutex s) (Use (Server_connections s)),
             connection_start_script throws s k])]
       else Skip,
       if ec \<noteq> bad_descriptor \<and> ec \<noteq> operation_aborted \<and> ec \<noteq> no_descriptors then
         tcp_server_start_script s new
       else Skip]"

text \<open>An accept that succeeds gives the connection its socket before the handler runs.\<close>

definition accepted_script ::
  "bool \<Rightarrow> endpoint_id \<Rightarrow> connection_id \<Rightarrow> connection_id \<Rightarrow> error_code \<Rightarrow> lock_script" where
  [lock_scripts]: "accepted_script throws s k new ec =
     Block [if \<not> failed ec then Use (Connection_socket k) else Skip, accept_cbk_script throws s k new ec]"

definition accept_retry_script :: "endpoint_id \<Rightarrow> connection_id \<Rightarrow> error_code \<Rightarrow> lock_script" where
  [lock_scripts]: "accept_retry_script s new ec = (if \<not> failed ec then tcp_server_start_script s new else Skip)"

section \<open>The manager\<close>

text \<open>
  The manager registers an endpoint and starts it under its mutex; \<open>start\<close> is the script of the
  endpoint's \<open>start\<close>.
\<close>

definition create_server_endpoint_script :: "bool \<Rightarrow> endpoint_id \<Rightarrow> connection_id \<Rightarrow> lock_script" where
  [lock_scripts]: "create_server_endpoint_script reliable s new =
     Guarded Endpoint_mutex (Maybe (Block [Use Server_registry,
       if reliable then tcp_server_start_script s new else udp_server_start_script s]))"

definition find_server_endpoint_script :: lock_script where
  [lock_scripts]: "find_server_endpoint_script = Guarded Endpoint_mutex (Use Server_registry)"

definition remove_server_endpoint_script :: lock_script where
  [lock_scripts]: "remove_server_endpoint_script =
     Guarded Endpoint_mutex (Block [Use Server_registry, Maybe (Use Server_registry)])"

definition create_client_endpoint_script :: "bool \<Rightarrow> endpoint_id \<Rightarrow> lock_script" where
  [lock_scripts]: "create_client_endpoint_script reliable e =
     Guarded Endpoint_mutex
       (if reliable then Maybe (Block [Use Client_registry, tcp_connect_script e]) else Skip)"

definition find_client_endpoint_script :: lock_script where
  [lock_scripts]: "find_client_endpoint_script = Guarded Endpoint_mutex (Use Client_registry)"

definition remove_client_endpoint_script :: lock_script where
  [lock_scripts]: "remove_client_endpoint_script =
     Guarded Endpoint_mutex (Block [Use Client_registry, Maybe (Use Client_registry)])"

section \<open>What a thread can run\<close>

text \<open>
  The calls of an owner and what the io_service runs, for any endpoints and connections.  \<open>throws\<close> says
  whether a connection's buffer management may throw.
\<close>

inductive thread_call :: "bool \<Rightarrow> lock_script \<Rightarrow> bool" for throws where
  client_start: "thread_call throws (connect_script v e)"
| client_stop: "thread_call throws (client_stop_script v e)"
| client_send: "thread_call throws (client_send_script v e)"
| client_established: "thread_call throws (client_set_established_script v e b)"
| client_connected: "thread_call throws (client_set_connected_script v e b)"
| client_connect_cbk: "thread_call throws (client_connect_cbk_script v e ec)"
| client_wait_connect_cbk: "thread_call throws (client_wait_connect_cbk_script v e ec)"
| client_send_cbk: "thread_call throws (client_send_cbk_script v e ec)"
| client_start_connect_timer: "thread_call throws (client_start_connect_timer_script e)"
| tcp_received: "thread_call throws (tcp_received_script e ec)"
| tcp_write_continues: "thread_call throws (tcp_write_continues_script e)"
| tcp_send_cbk: "thread_call throws (tcp_send_cbk_script e ec)"
| tcp_wait_until_sent: "thread_call throws (tcp_wait_until_sent_script e ec)"
| udp_received: "thread_call throws (udp_received_script e ec)"
| server_send_cbk: "thread_call throws (server_send_cbk_script s)"
| udp_server_start: "thread_call throws (udp_server_start_script s)"
| udp_server_stop: "thread_call throws (udp_server_stop_script s)"
| udp_server_received: "thread_call throws (unicast_received_script s ec)"
| udp_server_send_data: "thread_call throws (udp_server_send_data_script s)"
| tcp_server_start: "thread_call throws (tcp_server_start_script s new)"
| tcp_server_stop: "thread_call throws (tcp_server_stop_script s ks)"
| tcp_server_accepted: "thread_call throws (accepted_script throws s k new ec)"
| tcp_server_accept_retry: "thread_call throws (accept_retry_script s new ec)"
| connection_send: "thread_call throws (connection_send_data_script s k)"
| connection_write_continues: "thread_call throws (connection_write_continues_script s k ec)"
| connection_received: "thread_call throws (connection_received_script k ec)"
| create_server: "thread_call throws (create_server_endpoint_script reliable s new)"
| find_server: "thread_call throws find_server_endpoint_script"
| remove_server: "thread_call throws remove_server_endpoint_script"
| create_client: "thread_call throws (create_client_endpoint_script reliable e)"
| find_client: "thread_call throws find_client_endpoint_script"
| remove_client: "thread_call throws remove_client_endpoint_script"

lemma disciplined_Skip [simp]: "disciplined rank guard hs Skip"
  by simp

text \<open>With the exception left out every call is disciplined.\<close>

lemma thread_call_disciplined:
  assumes "thread_call False p"
  shows "disciplined mutex_rank field_guard [] p"
  using assms
proof cases
  case (client_start v e)
  then show ?thesis by (cases v) (simp_all add: lock_scripts)
next
  case (client_send v e)
  then show ?thesis by (cases v) (simp_all add: lock_scripts)
next
  case (client_connect_cbk v e ec)
  then show ?thesis by (cases v) (simp_all add: lock_scripts Let_def)
next
  case (client_wait_connect_cbk v e ec)
  then show ?thesis by (cases v) (simp_all add: lock_scripts)
next
  case (client_send_cbk v e ec)
  then show ?thesis by (cases v) (simp_all add: lock_scripts)
next
  case (tcp_server_stop s ks)
  then show ?thesis by (simp add: lock_scripts list_all_iff)
qed (simp_all add: lock_scripts Let_def)

interpretation threads: lock_discipline mutex_rank field_guard "thread_call False"
  by unfold_locales (rule thread_call_disciplined)

end
