(* ===== verification/Use_Count_Threads.thy ===== *)
theory Use_Count_Threads imports Client_Events begin

text \<open>
  The use count of an endpoint under threads (src/endpoint_impl.cpp).  \<open>use_count_\<close> is atomic, so each
  access is one step, but \<open>decrement_use_count\<close> makes two: it looks whether the count is positive and
  then decrements.  A user is a thread with the number of references it holds and whether it has passed
  that test.
\<close>

type_synonym user = "nat \<times> bool"
type_synonym counted = "uint32_t \<times> user list"

datatype count_access =
    Increments nat
  | Tests nat
  | Decrements nat

text \<open>\<open>balanced\<close> says whether a user only ever gives back a reference it holds.\<close>

inductive count_event :: "bool \<Rightarrow> count_access \<Rightarrow> counted \<Rightarrow> counted \<Rightarrow> bool" for balanced where
  increments: "i < length us \<Longrightarrow> us ! i = (n, False) \<Longrightarrow>
     count_event balanced (Increments i) (c, us) (c + 1, us[i := (Suc n, False)])"
| tests_positive: "i < length us \<Longrightarrow> us ! i = (n, False) \<Longrightarrow> (balanced \<longrightarrow> 0 < n) \<Longrightarrow> c > 0 \<Longrightarrow>
     count_event balanced (Tests i) (c, us) (c, us[i := (n, True)])"
| tests_zero: "i < length us \<Longrightarrow> us ! i = (n, False) \<Longrightarrow> (balanced \<longrightarrow> 0 < n) \<Longrightarrow> \<not> c > 0 \<Longrightarrow>
     count_event balanced (Tests i) (c, us) (c, us[i := (n - 1, False)])"
| decrements: "i < length us \<Longrightarrow> us ! i = (n, True) \<Longrightarrow>
     count_event balanced (Decrements i) (c, us) (c - 1, us[i := (n - 1, False)])"

definition references :: "user list \<Rightarrow> nat" where
  "references us = sum_list (map fst us)"

definition increments_in :: "count_access list \<Rightarrow> nat" where
  "increments_in ls = length (filter (\<lambda>l. case l of Increments i \<Rightarrow> True | _ \<Rightarrow> False) ls)"

lemma increments_in_simps [simp]:
  "increments_in [] = 0"
  "increments_in (ls @ [Increments i]) = Suc (increments_in ls)"
  "increments_in (ls @ [Tests i]) = increments_in ls"
  "increments_in (ls @ [Decrements i]) = increments_in ls"
  by (simp_all add: increments_in_def)

lemma references_update:
  "i < length us \<Longrightarrow> us ! i = (n, b) \<Longrightarrow> references (us[i := (m, b')]) + n = references us + m"
proof (induction us arbitrary: i)
  case (Cons u us)
  then show ?case by (cases i) (auto simp: references_def)
qed simp

lemma references_ge: "i < length us \<Longrightarrow> us ! i = (n, b) \<Longrightarrow> n \<le> references us"
  using references_update [of i us n b 0 False] by simp

text \<open>Run without interruption, the two steps are the \<open>decrement_use_count\<close> of one thread.\<close>

lemma tests_decrements:
  assumes "0 < n"
  shows "run (count_event True) (use_count e, [(n, False)])
     (if use_count e > 0 then [Tests 0, Decrements 0] else [Tests 0])
     (use_count (decrement_use_count e), [(n - 1, False)])"
proof (cases "use_count e > 0")
  case True
  have "run (count_event True) (use_count e, [(n, False)]) [Tests 0] (use_count e, [(n, True)])"
    by (rule run_stepI) (use tests_positive [of 0 "[(n, False)]" n True "use_count e"] assms True in simp)
  moreover have "count_event True (Decrements 0) (use_count e, [(n, True)]) (use_count e - 1, [(n - 1, False)])"
    using decrements [of 0 "[(n, True)]" n True "use_count e"] by simp
  ultimately show ?thesis using True run_snoc by (fastforce simp: decrement_use_count_def)
next
  case False
  then show ?thesis
    using tests_zero [of 0 "[(n, False)]" n True "use_count e"] assms
    by (simp add: decrement_use_count_def run_stepI)
qed

section \<open>Balanced users\<close>

definition testers_hold :: "user list \<Rightarrow> bool" where
  "testers_hold us \<longleftrightarrow> (\<forall>(n, b)\<in>set us. b \<longrightarrow> 0 < n)"

definition count_inv :: "uint32_t \<Rightarrow> nat \<Rightarrow> counted \<Rightarrow> bool" where
  "count_inv g k s \<longleftrightarrow> (case s of (c, us) \<Rightarrow>
     unat c = unat g + references us \<and> references us \<le> k \<and> testers_hold us)"

lemma testers_hold_update: "testers_hold us \<Longrightarrow> (b \<longrightarrow> 0 < m) \<Longrightarrow> testers_hold (us[i := (m, b)])"
  using set_update_subset_insert [of us i "(m, b)"] by (fastforce simp: testers_hold_def)

lemma testers_hold_nth: "testers_hold us \<Longrightarrow> i < length us \<Longrightarrow> us ! i = (n, True) \<Longrightarrow> 0 < n"
  by (fastforce simp: testers_hold_def dest: nth_mem)

lemma count_inv_step:
  assumes "count_inv g k s" "count_event True l s s'"
    and "unat g + k + (case l of Increments i \<Rightarrow> 1 | _ \<Rightarrow> 0) < 2 ^ 32"
  shows "count_inv g (k + (case l of Increments i \<Rightarrow> 1 | _ \<Rightarrow> 0)) s'"
  using assms(2,1,3)
proof cases
  case (increments i us n c)
  with assms references_update [of i us n False "Suc n" False] show ?thesis
    by (auto simp: count_inv_def unat_word_ariths intro!: testers_hold_update)
next
  case (tests_positive i us n c)
  with assms references_update [of i us n False n True] show ?thesis
    by (auto simp: count_inv_def intro!: testers_hold_update)
next
  case (tests_zero i us n c)
  with assms references_ge [of i us n False] show ?thesis
    by (auto simp: count_inv_def word_less_nat_alt)
next
  case (decrements i us n c)
  with assms have "0 < n" by (auto simp: count_inv_def intro: testers_hold_nth)
  moreover have "0 < unat c"
    using decrements assms references_ge [of i us n True] \<open>0 < n\<close> by (auto simp: count_inv_def)
  then have "unat (c - 1) = unat c - 1"
    by (simp add: unat_sub word_le_nat_alt Suc_le_eq)
  ultimately show ?thesis
    using decrements assms references_update [of i us n True "n - 1" False]
    by (auto simp: count_inv_def intro!: testers_hold_update)
qed

lemma count_inv_run:
  assumes "run (count_event True) (g, replicate k (0, False)) ls s" and "unat g + increments_in ls < 2 ^ 32"
  shows "count_inv g (increments_in ls) s"
  using assms
proof (induction "(g, replicate k (0 :: nat, False))" ls s)
  case run_Nil
  then show ?case by (simp add: count_inv_def references_def testers_hold_def)
next
  case (run_snoc ls s l s')
  then have "unat g + increments_in ls < 2 ^ 32" by (cases l) auto
  with run_snoc have "count_inv g (increments_in ls) s" by blast
  with run_snoc show ?case using count_inv_step [of g "increments_in ls" s l s'] by (cases l) auto
qed

end
