(* ===== verification/Lock_Props.thy ===== *)
theory Lock_Props imports Server_Locks Tcp_Server_Props Use_Count_Threads begin

text \<open>
  What the mutexes achieve: no deadlock and no race on the guarded fields, as long as no connection
  fails to resize its buffer, which no run does; and where they fall short.
\<close>

text \<open>
  C3: the code's own mutexes cannot block its threads for ever.  Let any number of threads start, stop and
  send on any clients and servers, use the manager, and carry out and handle the outstanding operations,
  the continuations of a composed write included, in any order and with any interleaving of their single
  steps, where resizing the buffer of a server's connection does not throw.  There is never a deadlock,
  and at any moment the calls that have begun can all be brought to their end.  What is not in the
  sources takes no mutex here: a server's \<open>stop\<close> is the code after its call of
  \<open>server_endpoint_impl::stop\<close>, and a connection's \<open>receive_cbk\<close> the code before its call of
  \<open>connection::wait_until_sent\<close>; neither function has a definition.
\<close>

theorem endpoint_threads_never_deadlock:
  assumes "reachable (thread_call False) n ts"
  shows "\<not> deadlocked ts \<and> progress\<^sup>*\<^sup>* ts (idle n)"
  using threads.never_deadlocked [OF assms] threads.calls_finish [OF assms] by blast

text \<open>
  While one thread accepts connection 1 and registers it, another has begun to stop the server: it has
  closed the acceptor and waits for the table.
\<close>

definition ex_accept_and_stop :: "(mutex, field) threads" where
  "ex_accept_and_stop = the (schedule (replicate 20 (0, True) @ replicate 10 (1, True))
     [[Do (accepted_script False 0 1 2 no_error)], [Do (tcp_server_stop_script 0 [1])]])"

lemma ex_accept_and_stop_reachable: "reachable (thread_call False) 2 ex_accept_and_stop"
  and ex_accept_and_stop_waits: "wanted (ex_accept_and_stop ! 1) = Some (Connections_mutex 0) \<and>
    \<not> free_in ex_accept_and_stop (Connections_mutex 0)"
proof -
  have "schedule (replicate 20 (0, True) @ replicate 10 (1, True))
     [[Do (accepted_script False 0 1 2 no_error)], [Do (tcp_server_stop_script 0 [1])]] =
     Some ex_accept_and_stop"
    unfolding ex_accept_and_stop_def
    by (simp add: lock_scripts free_in_def numeral_eq_Suc Let_def)
  then show "reachable (thread_call False) 2 ex_accept_and_stop"
    by (rule two_calls_reachable [rotated 2]) (simp_all add: tcp_server_accepted tcp_server_stop)
  show "wanted (ex_accept_and_stop ! 1) = Some (Connections_mutex 0) \<and>
    \<not> free_in ex_accept_and_stop (Connections_mutex 0)"
    unfolding ex_accept_and_stop_def
    by (simp add: lock_scripts free_in_def numeral_eq_Suc Let_def)
qed

theorem endpoint_threads_never_deadlock_witness:
  "\<not> free_in ex_accept_and_stop (Connections_mutex 0) \<and> progress\<^sup>*\<^sup>* ex_accept_and_stop (idle 2)"
  using endpoint_threads_never_deadlock [OF ex_accept_and_stop_reachable] ex_accept_and_stop_waits
  by blast

text \<open>
  C5: no two threads touch the same guarded field at the same time, whatever the threads run, where
  resizing the buffer of a server's connection does not throw.  The guarded fields are those that are
  only touched under their mutex: the socket of a UDP client, the connect timer, connect time, shrink
  count, buffer pointer, sending flag and sent timer of a client, the sending flag and sent timer, the
  acceptor, the table of connections and the sockets of a UDP server, a connection's missing capacity
  and shrink count, and the registries of the manager.  Not among them are the socket of a TCP client
  and of a connection, which the continuation of a composed write and the completion of an accept touch
  without a mutex, \<open>recv_buffer_size_\<close> of a connection, which its read handler reads without one,
  \<open>sending_blocked_\<close>, the buffers and the peer addresses.  As before, what the two functions without a
  definition would do is not in the model.
\<close>

theorem guarded_fields_never_raced:
  assumes "reachable (thread_call False) n ts"
    and "f \<in> {Client_socket Over_udp e, Client_connect_timer e, Client_connect_timepoint e,
      Client_shrink_count e, Client_buffer_ptr e, Client_is_sending e, Client_sent_timer e,
      Server_is_sending e, Server_sent_timer e, Server_acceptor e, Server_connections e,
      Unicast_socket e, Multicast_socket e, Connection_window k, Server_registry, Client_registry}"
  shows "\<not> raced f ts"
proof -
  from assms(2) have "\<exists>m. field_guard f = Some m" by auto
  with threads.never_raced [OF assms(1)] show ?thesis by blast
qed

theorem guarded_fields_never_raced_witness:
  "touches (Server_connections 0) (ex_accept_and_stop ! 0) \<and> \<not> raced (Server_connections 0) ex_accept_and_stop"
proof
  show "touches (Server_connections 0) (ex_accept_and_stop ! 0)"
    unfolding ex_accept_and_stop_def
    by (simp add: lock_scripts free_in_def numeral_eq_Suc Let_def)
  show "\<not> raced (Server_connections 0) ex_accept_and_stop"
    by (rule guarded_fields_never_raced [OF ex_accept_and_stop_reachable]) simp
qed

text \<open>
  C20: the exception path would deadlock.  If the buffer of a connection could fail to be resized, the
  thread that handles the failure, which holds the connection's mutex, would wait for the table, while
  a thread that stops the server holds the table and waits for the connection; for every server and
  every connection there is a run that ends so.
\<close>

theorem buffer_exception_deadlocks:
  "\<exists>ts. reachable (thread_call True) 2 ts \<and> deadlocked ts \<and>
     wanted (ts ! 0) = Some (Connections_mutex s) \<and> wanted (ts ! 1) = Some (Connection_mutex k)"
proof -
  let ?start = "[[Do (accepted_script True s k new no_error)], [Do (tcp_server_stop_script s [k])]]"
  let ?es = "replicate 73 (0, True) @ replicate 14 (1, True)"
  define ts where "ts = the (schedule ?es ?start)"
  have sched: "schedule ?es ?start = Some ts"
    and waits: "map wanted ts = [Some (Connections_mutex s), Some (Connection_mutex k)]"
    and taken: "\<not> free_in ts (Connections_mutex s)" "\<not> free_in ts (Connection_mutex k)"
    unfolding ts_def by (simp_all add: lock_scripts free_in_def numeral_eq_Suc Let_def)
  have "reachable (thread_call True) 2 ts"
    using sched by (rule two_calls_reachable [rotated 2]) (simp_all add: tcp_server_accepted tcp_server_stop)
  moreover from waits obtain t u where "ts = [t, u]" "wanted t = Some (Connections_mutex s)"
    "wanted u = Some (Connection_mutex k)" by (auto simp: map_eq_Cons_conv)
  moreover then have "deadlocked ts" using taken by (auto simp: deadlocked_iff)
  ultimately show ?thesis by auto
qed

section \<open>Why the exception path stays dead\<close>

text \<open>Whether \<open>connection::receive\<close>, called in a state of the server, reaches the handler of an exception.\<close>

definition conn_receive_throws ::
  "('s, 'ep, 'addr) asio_env \<Rightarrow> nat \<Rightarrow> ('s, 'ep, 'addr) tcp_server \<Rightarrow> bool" where
  "conn_receive_throws E i c =
     (let k = conn c i
      in sk_is_open E (cn_socket k) \<and>
         (case prepare_receive (mem_available E) (cn_recv_buffer_size_initial k) (cn_buffer_shrink_threshold k)
                 (cn_shrink_count k) (cn_recv_buffer k) (cn_recv_buffer_size k) (ucast (cn_missing_capacity k)) of
            Threw e b \<Rightarrow> True
          | _ \<Rightarrow> False))"

lemma connection_receive_disciplined_iff:
  "disciplined mutex_rank field_guard [] (connection_receive_script throws s k) \<longleftrightarrow> \<not> throws"
  by (simp add: lock_scripts Let_def)

text \<open>
  C19: connections keep the lock order.  In every state a server reaches in a run that stays in the code
  there is (no \<open>stop\<close> and no read that ends with \<open>eof\<close>, \<open>connection_reset\<close> or \<open>timed_out\<close>: those call
  functions without a definition), with any failures of the system and any amount of memory, starting a
  read on any of its connections does not throw, so what it locks is in order, whichever server and
  connection it belongs to.  It would not be in order if it could throw.
\<close>

theorem connection_reads_keep_lock_order:
  assumes "new_tcp_server E garbage lcl s0 = Inr c0"
    and "run (ts_step E base_stop wait) c0 ls c" and "\<forall>l\<in>set ls. in_sources l"
    and "i < length (conn_heap c)"
  shows "\<not> conn_receive_throws E i c \<and>
    disciplined mutex_rank field_guard [] (connection_receive_script (conn_receive_throws E i c) s k) \<and>
    \<not> disciplined mutex_rank field_guard [] (connection_receive_script True s k)"
proof -
  have "ts_inv c" by (rule ts_inv_run [OF assms(2,3) new_tcp_server_Inr(6) [OF assms(1)]])
  with assms(4) have "conn_ok (conn c i)" by (simp add: ts_inv_alt heap_ok_conn)
  then have "\<not> conn_receive_throws E i c"
    by (simp add: conn_receive_throws_def conn_ok_def prepare_receive_plain Let_def)
  then show ?thesis by (simp add: connection_receive_disciplined_iff)
qed

theorem connection_reads_keep_lock_order_witness:
  "\<not> conn_receive_throws quiet_env 0 ex_ts2"
proof -
  have "ts_inv ex_ts2" by (rule ts_inv_run [OF ex_ts_run _ new_tcp_server_Inr(6) [OF new_ts_quiet]]) simp
  then have "0 < length (conn_heap ex_ts2)"
    using ex_ts2_io by (auto simp: ts_inv_def work_ok_def claims_def)
  from connection_reads_keep_lock_order [OF new_ts_quiet ex_ts_run _ this, of 0 0]
  show ?thesis by simp
qed

section \<open>What no mutex guards\<close>

text \<open>
  The peer's address of a UDP client is raced for.  A receive stores the sender in \<open>remote_\<close> when it
  completes, in the thread that runs its handler, while \<open>send_data\<close> prints \<open>remote_\<close> before it takes any
  mutex but the one of \<open>send\<close>; so there is a run in which one thread writes the address while another
  reads it.
\<close>

theorem udp_remote_raced:
  "\<exists>ts. reachable (thread_call False) 2 ts \<and> raced (Client_remote e) ts"
proof -
  let ?start = "[[Do (udp_received_script e no_error)], [Do (client_send_script Over_udp e)]]"
  let ?es = "replicate 3 (0, True) @ replicate 2 (1, True)"
  define ts where "ts = the (schedule ?es ?start)"
  have sched: "schedule ?es ?start = Some ts" and race: "map (touches (Client_remote e)) ts = [True, True]"
    unfolding ts_def by (simp_all add: lock_scripts free_in_def numeral_eq_Suc)
  have "reachable (thread_call False) 2 ts"
    using sched by (rule two_calls_reachable [rotated 2]) (simp_all add: udp_received client_send)
  moreover have "raced (Client_remote e) ts"
    using race unfolding raced_def by (intro exI [of _ 0] exI [of _ 1]) (auto simp: map_eq_Cons_conv)
  ultimately show ?thesis by blast
qed


text \<open>A send handler that was aborted writes \<open>sending_blocked_\<close> while a connect handler reads it.\<close>

theorem sending_blocked_raced:
  "\<exists>ts. reachable (thread_call False) 2 ts \<and> raced (Client_sending_blocked e) ts"
proof -
  let ?start = "[[Do (client_send_cbk_script v e operation_aborted)], [Do (client_connect_cbk_script v e no_error)]]"
  let ?es = "[(0, True), (1, True)]"
  define ts where "ts = the (schedule ?es ?start)"
  have sched: "schedule ?es ?start = Some ts"
    and race: "map (touches (Client_sending_blocked e)) ts = [True, True]"
    unfolding ts_def by (simp_all add: lock_scripts free_in_def numeral_eq_Suc Let_def)
  have "reachable (thread_call False) 2 ts"
    using sched by (rule two_calls_reachable [rotated 2]) (simp_all add: client_send_cbk client_connect_cbk)
  moreover have "raced (Client_sending_blocked e) ts"
    using race unfolding raced_def by (intro exI [of _ 0] exI [of _ 1]) (auto simp: map_eq_Cons_conv)
  ultimately show ?thesis by blast
qed

section \<open>The use count\<close>

text \<open>
  C24: the use count of an endpoint counts its references.  Let any number of threads take and give back
  references, each giving back only what it took, with the two steps of \<open>decrement_use_count\<close>
  interleaved in any way.  The count is the number of references held plus what it was at the
  beginning, as long as that and the references ever taken stay below 2^32.
\<close>

theorem balanced_use_count:
  assumes "run (count_event True) (g, replicate k (0, False)) ls (c, us)"
    and "unat g + increments_in ls < 2 ^ 32"
  shows "unat c = unat g + references us"
  using count_inv_run [OF assms] by (simp add: count_inv_def)

lemma ex_count_run:
  "run (count_event True) (5, replicate 2 (0, False)) [Increments 0, Increments 1, Tests 0, Tests 1, Decrements 1]
     (6, [(1, True), (0, False)])"
proof -
  let ?R = "run (count_event True) (5, replicate 2 (0, False))"
  have 1: "?R [Increments 0] (6, [(1, False), (0, False)])"
    using run_stepI [of "count_event True", OF increments [of 0 "[(0, False), (0, False)]" 0 True 5]]
    by (simp add: numeral_2_eq_2)
  have 2: "?R [Increments 0, Increments 1] (7, [(1, False), (1, False)])"
    using run_snoc [OF 1 increments [of 1 "[(1, False), (0, False)]" 0 True 6]] by simp
  have 3: "?R [Increments 0, Increments 1, Tests 0] (7, [(1, True), (1, False)])"
    using run_snoc [OF 2 tests_positive [of 0 "[(1, False), (1, False)]" 1 True 7]] by simp
  have 4: "?R [Increments 0, Increments 1, Tests 0, Tests 1] (7, [(1, True), (1, True)])"
    using run_snoc [OF 3 tests_positive [of 1 "[(1, True), (1, False)]" 1 True 7]] by simp
  show ?thesis
    using run_snoc [OF 4 decrements [of 1 "[(1, True), (1, True)]" 1 True 7]] by simp
qed

theorem balanced_use_count_witness:
  "unat (6 :: uint32_t) = unat (5 :: uint32_t) + references [(1, True), (0, False)]"
  by (rule balanced_use_count [OF ex_count_run]) (simp add: increments_in_def)


end
