(* ===== verification/Socket_Ops_Windows.thy ===== *)
theory Socket_Ops_Windows
  imports Socket_Ops_Ext
begin

text \<open>
  The Windows branches of socket_ops_ext and socket_ops_ext_local
  (include/helper/<version>/boost/asio/detail/impl/socket_ops_ext.ipp and socket_ops_ext_local.ipp) in all
  four versions.  Winsock is a parameter, the record \<open>wsa\<close>: a call gives 0 or an error, which becomes the
  thread's last error; a call that succeeds leaves the last error alone, as documented.  The width of
  \<open>signed_size_type\<close>, which Boost chooses, is the type variable \<open>'n\<close>; a \<open>DWORD\<close> has 32 bits.
\<close>

type_synonym dword = "32 word"

record 'w win_state =
  last_error :: int
  win_world :: 'w

record 'ep wsa_received =
  wsa_error :: int
  wsa_bytes :: "byte_t list"
  wsa_addr :: 'ep
  wsa_cmsgs :: "cmsg list"

record ('w, 'ep) wsa =
  wsa_ioctl :: "nat option \<Rightarrow> 'w \<Rightarrow> int \<times> 'w"
  wsa_recvmsg :: "nat option \<Rightarrow> nat list \<Rightarrow> message_flags \<Rightarrow> 'w \<Rightarrow> 'ep wsa_received \<times> 'w"
  wsa_recv :: "nat option \<Rightarrow> nat list \<Rightarrow> message_flags \<Rightarrow> 'w \<Rightarrow> 'ep wsa_received \<times> 'w"
  wsa_recvfrom :: "nat option \<Rightarrow> nat list \<Rightarrow> message_flags \<Rightarrow> 'w \<Rightarrow> 'ep wsa_received \<times> 'w"

text \<open>The number of bytes received is stored in a \<open>DWORD\<close>.\<close>

definition wsa_count :: "'ep wsa_received \<Rightarrow> dword" where
  "wsa_count r = of_nat (length (wsa_bytes r))"

definition after_call :: "int \<Rightarrow> 'w \<Rightarrow> 'w win_state \<Rightarrow> 'w win_state" where
  "after_call e w \<sigma> = (if e = 0 then \<sigma>\<lparr>win_world := w\<rparr> else \<sigma>\<lparr>last_error := e, win_world := w\<rparr>)"

definition clear_last_error :: "'w win_state \<Rightarrow> 'w win_state" where
  "clear_last_error \<sigma> = \<sigma>\<lparr>last_error := 0\<rparr>"

text \<open>The numbers of the Windows headers; \<open>boost::asio::error\<close> names the portable ones.\<close>

definition SOCKET_ERROR :: int where "SOCKET_ERROR = - 1"
definition ERROR_NETNAME_DELETED :: int where "ERROR_NETNAME_DELETED = 64"
definition ERROR_OPERATION_ABORTED :: int where "ERROR_OPERATION_ABORTED = 995"
definition ERROR_PORT_UNREACHABLE :: int where "ERROR_PORT_UNREACHABLE = 1234"
definition ERROR_RETRY :: int where "ERROR_RETRY = 1237"
definition WSAEWOULDBLOCK :: int where "WSAEWOULDBLOCK = 10035"
definition WSAECONNRESET :: int where "WSAECONNRESET = 10054"
definition WSAECONNREFUSED :: int where "WSAECONNREFUSED = 10061"
definition WSAEBADF :: int where "WSAEBADF = 10009"

lemmas windows_errors = SOCKET_ERROR_def ERROR_NETNAME_DELETED_def ERROR_OPERATION_ABORTED_def
  ERROR_PORT_UNREACHABLE_def ERROR_RETRY_def WSAEWOULDBLOCK_def WSAECONNRESET_def WSAECONNREFUSED_def
  WSAEBADF_def

text \<open>
  What a receive function gives back: the number it returns, the bytes it stored, the error, the
  sender, the destination or the credentials.  \<open>Calls_unset_pointer\<close>: the lookup of \<open>WSARecvMsg\<close> failed
  and the pointer, which was never set, is called.
\<close>

datatype ('r, 'ep, 'x) win_return =
    Calls_unset_pointer
  | Returned 'r "byte_t list" int 'ep 'x

definition portable_error :: "int \<Rightarrow> int" where
  "portable_error ec =
     (if ec = ERROR_NETNAME_DELETED then WSAECONNRESET
      else if ec = ERROR_PORT_UNREACHABLE then WSAECONNREFUSED else ec)"

text \<open>The \<open>in_pktinfo\<close> of Windows starts with the destination address.\<close>

fun win_destination_step :: "ip_address \<Rightarrow> cmsg \<Rightarrow> ip_address" where
  "win_destination_step da m =
     (if cmsg_level m = IPPROTO_IP \<and> cmsg_type m = IP_PKTINFO then
        Address_v4 (ntohl (take 4 (cmsg_data m)))
      else if cmsg_level m = IPPROTO_IPV6 \<and> cmsg_type m = IPV6_PKTINFO then
        Address_v6 (take 16 (cmsg_data m))
      else da)"

definition win_find_destination :: "ip_address \<Rightarrow> cmsg list \<Rightarrow> ip_address" where
  "win_find_destination da ms = foldl win_destination_step da ms"

section \<open>Boost 1.74\<close>

text \<open>
  \<open>recvfrom\<close>: the check after the lookup compares the error number with \<open>SOCKET_ERROR\<close>, and the count of
  a failed receive is a \<open>DWORD\<close> set to -1.
\<close>

definition win_recvfrom ::
  "('w, 'ep) wsa \<Rightarrow> nat option \<Rightarrow> nat list \<Rightarrow> message_flags \<Rightarrow> 'ep \<Rightarrow> ip_address \<Rightarrow> 'w win_state \<Rightarrow>
     ('n :: len word, 'ep, ip_address) win_return \<times> 'w win_state" where
  "win_recvfrom W s sizes flags addr da \<sigma> =
     (case wsa_ioctl W s (win_world (\<sigma>)) of (e, w1) \<Rightarrow>
        let \<sigma>1 = after_call e w1 (\<sigma>)
        in if last_error \<sigma>1 = SOCKET_ERROR then (Returned 0 [] (last_error \<sigma>1) addr da, \<sigma>1)
           else if e \<noteq> 0 then (Calls_unset_pointer, \<sigma>1)
           else
             (case wsa_recvmsg W s sizes flags (win_world \<sigma>1) of (r, w2) \<Rightarrow>
                let \<sigma>2 = after_call (wsa_error r) w2 \<sigma>1
                in if wsa_error r = 0 then
                     (Returned (ucast (wsa_count r)) (wsa_bytes r) 0 (wsa_addr r)
                        (win_find_destination da (wsa_cmsgs r)), \<sigma>2)
                   else (Returned (ucast (- 1 :: dword)) [] (last_error \<sigma>2) addr da, \<sigma>2)))"

definition win_recv_local ::
  "('w, 'ep) wsa \<Rightarrow> nat option \<Rightarrow> nat list \<Rightarrow> message_flags \<Rightarrow> 'ep \<Rightarrow> 'w win_state \<Rightarrow>
     ('n :: len word, 'ep, uint32_t \<times> uint32_t) win_return \<times> 'w win_state" where
  "win_recv_local W s sizes flags addr \<sigma> =
     (case wsa_recv W s sizes flags (win_world (\<sigma>)) of (r, w1) \<Rightarrow>
        let \<sigma>1 = after_call (wsa_error r) w1 (\<sigma>)
        in if wsa_error r \<noteq> 0 then
             (Returned (- 1) [] (portable_error (last_error \<sigma>1)) addr (ANY_ID, ANY_ID), \<sigma>1)
           else (Returned (ucast (wsa_count r)) (wsa_bytes r) 0 addr (ANY_ID, ANY_ID), \<sigma>1))"

definition win_recvfrom_local ::
  "('w, 'ep) wsa \<Rightarrow> nat option \<Rightarrow> nat list \<Rightarrow> message_flags \<Rightarrow> 'ep \<Rightarrow> 'w win_state \<Rightarrow>
     ('n :: len word, 'ep, uint32_t \<times> uint32_t) win_return \<times> 'w win_state" where
  "win_recvfrom_local W s sizes flags addr \<sigma> =
     (case wsa_recvfrom W s sizes flags (win_world (clear_last_error \<sigma>)) of (r, w1) \<Rightarrow>
        let \<sigma>1 = after_call (wsa_error r) w1 (clear_last_error \<sigma>)
        in if wsa_error r \<noteq> 0 then
             (Returned (- 1) [] (portable_error (last_error \<sigma>1)) (wsa_addr r) (ANY_ID, ANY_ID), \<sigma>1)
           else (Returned (ucast (wsa_count r)) (wsa_bytes r) 0 (wsa_addr r) (ANY_ID, ANY_ID), \<sigma>1))"

definition complete_iocp_recvfrom :: "bool \<Rightarrow> int \<Rightarrow> int" where
  "complete_iocp_recvfrom expired ec =
     (if ec = ERROR_NETNAME_DELETED then
        (if expired then ERROR_OPERATION_ABORTED else WSAECONNRESET)
      else if ec = ERROR_PORT_UNREACHABLE then WSAECONNREFUSED
      else ec)"

definition complete_iocp_recvfrom_local :: "bool \<Rightarrow> int \<Rightarrow> int \<times> uint32_t \<times> uint32_t" where
  "complete_iocp_recvfrom_local expired ec =
     (if ec = ERROR_NETNAME_DELETED then
        (if expired then ERROR_OPERATION_ABORTED else WSAECONNRESET)
      else if ec = ERROR_PORT_UNREACHABLE then WSAECONNREFUSED
      else ec, ANY_ID, ANY_ID)"

text \<open>
  \<open>sync_recvfrom\<close> on Windows: its test whether the call succeeded looks at the sign of the count.  The
  inner \<open>None\<close> is the call of the unset pointer, the outer one a loop that never ends.
\<close>

partial_function (option) win_sync_loop ::
  "('x \<Rightarrow> 's \<Rightarrow> ('n :: len word, 'ep, 'x) win_return \<times> 's) \<Rightarrow> ('s \<Rightarrow> int \<times> 's) \<Rightarrow> state_type \<Rightarrow> 'x \<Rightarrow> 's \<Rightarrow>
     ((size_t \<times> byte_t list \<times> int \<times> 'x) option \<times> 's) option" where
  "win_sync_loop recv poll st x \<sigma> =
     (case recv x \<sigma> of (res, \<sigma>1) \<Rightarrow>
        (case res of
           Calls_unset_pointer \<Rightarrow> Some (None, \<sigma>1)
         | Returned n bs ec addr x' \<Rightarrow>
             if 0 \<le> sint n then Some (Some (scast n, bs, ec, x'), \<sigma>1)
             else if user_set_non_blocking \<in> st \<or> (ec \<noteq> WSAEWOULDBLOCK \<and> ec \<noteq> ERROR_RETRY) then
               Some (Some (0, [], ec, x'), \<sigma>1)
             else
               (case poll \<sigma>1 of (err, \<sigma>2) \<Rightarrow>
                  if err \<noteq> 0 then Some (Some (0, [], err, x'), \<sigma>2)
                  else win_sync_loop recv poll st x' \<sigma>2)))"

definition win_sync_recvfrom ::
  "'n :: len itself \<Rightarrow> ('w, 'ep) wsa \<Rightarrow> ('w win_state \<Rightarrow> int \<times> 'w win_state) \<Rightarrow> nat option \<Rightarrow> state_type \<Rightarrow>
     nat list \<Rightarrow> message_flags \<Rightarrow> 'ep \<Rightarrow> ip_address \<Rightarrow> 'w win_state \<Rightarrow>
     ((size_t \<times> byte_t list \<times> int \<times> ip_address) option \<times> 'w win_state) option" where
  "win_sync_recvfrom TYPE('n) W poll s st sizes flags addr da \<sigma> =
     (if s = None then Some (Some (0, [], WSAEBADF, da), \<sigma>)
      else win_sync_loop
        (\<lambda>da \<sigma>. (win_recvfrom W s sizes flags addr da \<sigma> :: ('n word, 'ep, ip_address) win_return \<times> 'w win_state))
        poll st da \<sigma>)"

section \<open>Boost 1.70, 1.66 and 1.55\<close>

text \<open>
  The older versions clear the last error first and read it through \<open>error_wrapper\<close>.
\<close>

definition v170_win_recvfrom ::
  "('w, 'ep) wsa \<Rightarrow> nat option \<Rightarrow> nat list \<Rightarrow> message_flags \<Rightarrow> 'ep \<Rightarrow> ip_address \<Rightarrow> 'w win_state \<Rightarrow>
     ('n :: len word, 'ep, ip_address) win_return \<times> 'w win_state" where
  "v170_win_recvfrom W s sizes flags addr da \<sigma> =
     (case wsa_ioctl W s (win_world (clear_last_error \<sigma>)) of (e, w1) \<Rightarrow>
        let \<sigma>1 = after_call e w1 (clear_last_error \<sigma>)
        in if last_error \<sigma>1 = SOCKET_ERROR then (Returned 0 [] (last_error \<sigma>1) addr da, \<sigma>1)
           else if e \<noteq> 0 then (Calls_unset_pointer, \<sigma>1)
           else
             (case wsa_recvmsg W s sizes flags (win_world \<sigma>1) of (r, w2) \<Rightarrow>
                let \<sigma>2 = after_call (wsa_error r) w2 \<sigma>1
                in if wsa_error r = 0 then
                     (Returned (ucast (wsa_count r)) (wsa_bytes r) 0 (wsa_addr r)
                        (win_find_destination da (wsa_cmsgs r)), \<sigma>2)
                   else (Returned (ucast (- 1 :: dword)) [] (last_error \<sigma>2) addr da, \<sigma>2)))"

definition v170_win_recv_local ::
  "('w, 'ep) wsa \<Rightarrow> nat option \<Rightarrow> nat list \<Rightarrow> message_flags \<Rightarrow> 'ep \<Rightarrow> 'w win_state \<Rightarrow>
     ('n :: len word, 'ep, uint32_t \<times> uint32_t) win_return \<times> 'w win_state" where
  "v170_win_recv_local W s sizes flags addr \<sigma> =
     (case wsa_recv W s sizes flags (win_world (clear_last_error \<sigma>)) of (r, w1) \<Rightarrow>
        let \<sigma>1 = after_call (wsa_error r) w1 (clear_last_error \<sigma>)
        in if wsa_error r \<noteq> 0 then
             (Returned (- 1) [] (portable_error (last_error \<sigma>1)) addr (ANY_ID, ANY_ID), \<sigma>1)
           else (Returned (ucast (wsa_count r)) (wsa_bytes r) 0 addr (ANY_ID, ANY_ID), \<sigma>1))"

definition v170_win_recvfrom_local ::
  "('w, 'ep) wsa \<Rightarrow> nat option \<Rightarrow> nat list \<Rightarrow> message_flags \<Rightarrow> 'ep \<Rightarrow> 'w win_state \<Rightarrow>
     ('n :: len word, 'ep, uint32_t \<times> uint32_t) win_return \<times> 'w win_state" where
  "v170_win_recvfrom_local W s sizes flags addr \<sigma> =
     (case wsa_recvfrom W s sizes flags (win_world (clear_last_error \<sigma>)) of (r, w1) \<Rightarrow>
        let \<sigma>1 = after_call (wsa_error r) w1 (clear_last_error \<sigma>)
        in if wsa_error r \<noteq> 0 then
             (Returned (- 1) [] (portable_error (last_error \<sigma>1)) (wsa_addr r) (ANY_ID, ANY_ID), \<sigma>1)
           else (Returned (ucast (wsa_count r)) (wsa_bytes r) 0 (wsa_addr r) (ANY_ID, ANY_ID), \<sigma>1))"

definition v170_complete_iocp_recvfrom :: "bool \<Rightarrow> int \<Rightarrow> int" where
  "v170_complete_iocp_recvfrom expired ec =
     (if ec = ERROR_NETNAME_DELETED then
        (if expired then ERROR_OPERATION_ABORTED else WSAECONNRESET)
      else if ec = ERROR_PORT_UNREACHABLE then WSAECONNREFUSED
      else ec)"

definition v170_complete_iocp_recvfrom_local :: "bool \<Rightarrow> int \<Rightarrow> int \<times> uint32_t \<times> uint32_t" where
  "v170_complete_iocp_recvfrom_local expired ec =
     (if ec = ERROR_NETNAME_DELETED then
        (if expired then ERROR_OPERATION_ABORTED else WSAECONNRESET)
      else if ec = ERROR_PORT_UNREACHABLE then WSAECONNREFUSED
      else ec, ANY_ID, ANY_ID)"

definition v166_win_recvfrom ::
  "('w, 'ep) wsa \<Rightarrow> nat option \<Rightarrow> nat list \<Rightarrow> message_flags \<Rightarrow> 'ep \<Rightarrow> ip_address \<Rightarrow> 'w win_state \<Rightarrow>
     ('n :: len word, 'ep, ip_address) win_return \<times> 'w win_state" where
  "v166_win_recvfrom W s sizes flags addr da \<sigma> =
     (case wsa_ioctl W s (win_world (clear_last_error \<sigma>)) of (e, w1) \<Rightarrow>
        let \<sigma>1 = after_call e w1 (clear_last_error \<sigma>)
        in if last_error \<sigma>1 = SOCKET_ERROR then (Returned 0 [] (last_error \<sigma>1) addr da, \<sigma>1)
           else if e \<noteq> 0 then (Calls_unset_pointer, \<sigma>1)
           else
             (case wsa_recvmsg W s sizes flags (win_world \<sigma>1) of (r, w2) \<Rightarrow>
                let \<sigma>2 = after_call (wsa_error r) w2 \<sigma>1
                in if wsa_error r = 0 then
                     (Returned (ucast (wsa_count r)) (wsa_bytes r) 0 (wsa_addr r)
                        (win_find_destination da (wsa_cmsgs r)), \<sigma>2)
                   else (Returned (ucast (- 1 :: dword)) [] (last_error \<sigma>2) addr da, \<sigma>2)))"

definition v166_win_recv_local ::
  "('w, 'ep) wsa \<Rightarrow> nat option \<Rightarrow> nat list \<Rightarrow> message_flags \<Rightarrow> 'ep \<Rightarrow> 'w win_state \<Rightarrow>
     ('n :: len word, 'ep, uint32_t \<times> uint32_t) win_return \<times> 'w win_state" where
  "v166_win_recv_local W s sizes flags addr \<sigma> =
     (case wsa_recv W s sizes flags (win_world (clear_last_error \<sigma>)) of (r, w1) \<Rightarrow>
        let \<sigma>1 = after_call (wsa_error r) w1 (clear_last_error \<sigma>)
        in if wsa_error r \<noteq> 0 then
             (Returned (- 1) [] (portable_error (last_error \<sigma>1)) addr (ANY_ID, ANY_ID), \<sigma>1)
           else (Returned (ucast (wsa_count r)) (wsa_bytes r) 0 addr (ANY_ID, ANY_ID), \<sigma>1))"

definition v166_win_recvfrom_local ::
  "('w, 'ep) wsa \<Rightarrow> nat option \<Rightarrow> nat list \<Rightarrow> message_flags \<Rightarrow> 'ep \<Rightarrow> 'w win_state \<Rightarrow>
     ('n :: len word, 'ep, uint32_t \<times> uint32_t) win_return \<times> 'w win_state" where
  "v166_win_recvfrom_local W s sizes flags addr \<sigma> =
     (case wsa_recvfrom W s sizes flags (win_world (clear_last_error \<sigma>)) of (r, w1) \<Rightarrow>
        let \<sigma>1 = after_call (wsa_error r) w1 (clear_last_error \<sigma>)
        in if wsa_error r \<noteq> 0 then
             (Returned (- 1) [] (portable_error (last_error \<sigma>1)) (wsa_addr r) (ANY_ID, ANY_ID), \<sigma>1)
           else (Returned (ucast (wsa_count r)) (wsa_bytes r) 0 (wsa_addr r) (ANY_ID, ANY_ID), \<sigma>1))"

definition v166_complete_iocp_recvfrom :: "bool \<Rightarrow> int \<Rightarrow> int" where
  "v166_complete_iocp_recvfrom expired ec =
     (if ec = ERROR_NETNAME_DELETED then
        (if expired then ERROR_OPERATION_ABORTED else WSAECONNRESET)
      else if ec = ERROR_PORT_UNREACHABLE then WSAECONNREFUSED
      else ec)"

definition v166_complete_iocp_recvfrom_local :: "bool \<Rightarrow> int \<Rightarrow> int \<times> uint32_t \<times> uint32_t" where
  "v166_complete_iocp_recvfrom_local expired ec =
     (if ec = ERROR_NETNAME_DELETED then
        (if expired then ERROR_OPERATION_ABORTED else WSAECONNRESET)
      else if ec = ERROR_PORT_UNREACHABLE then WSAECONNREFUSED
      else ec, ANY_ID, ANY_ID)"

definition v155_win_recvfrom ::
  "('w, 'ep) wsa \<Rightarrow> nat option \<Rightarrow> nat list \<Rightarrow> message_flags \<Rightarrow> 'ep \<Rightarrow> ip_address \<Rightarrow> 'w win_state \<Rightarrow>
     ('n :: len word, 'ep, ip_address) win_return \<times> 'w win_state" where
  "v155_win_recvfrom W s sizes flags addr da \<sigma> =
     (case wsa_ioctl W s (win_world (clear_last_error \<sigma>)) of (e, w1) \<Rightarrow>
        let \<sigma>1 = after_call e w1 (clear_last_error \<sigma>)
        in if last_error \<sigma>1 = SOCKET_ERROR then (Returned 0 [] (last_error \<sigma>1) addr da, \<sigma>1)
           else if e \<noteq> 0 then (Calls_unset_pointer, \<sigma>1)
           else
             (case wsa_recvmsg W s sizes flags (win_world \<sigma>1) of (r, w2) \<Rightarrow>
                let \<sigma>2 = after_call (wsa_error r) w2 \<sigma>1
                in if wsa_error r = 0 then
                     (Returned (ucast (wsa_count r)) (wsa_bytes r) 0 (wsa_addr r)
                        (win_find_destination da (wsa_cmsgs r)), \<sigma>2)
                   else (Returned (ucast (- 1 :: dword)) [] (last_error \<sigma>2) addr da, \<sigma>2)))"

definition v155_win_recv_local ::
  "('w, 'ep) wsa \<Rightarrow> nat option \<Rightarrow> nat list \<Rightarrow> message_flags \<Rightarrow> 'ep \<Rightarrow> 'w win_state \<Rightarrow>
     ('n :: len word, 'ep, uint32_t \<times> uint32_t) win_return \<times> 'w win_state" where
  "v155_win_recv_local W s sizes flags addr \<sigma> =
     (case wsa_recv W s sizes flags (win_world (clear_last_error \<sigma>)) of (r, w1) \<Rightarrow>
        let \<sigma>1 = after_call (wsa_error r) w1 (clear_last_error \<sigma>)
        in if wsa_error r \<noteq> 0 then
             (Returned (- 1) [] (portable_error (last_error \<sigma>1)) addr (ANY_ID, ANY_ID), \<sigma>1)
           else (Returned (ucast (wsa_count r)) (wsa_bytes r) 0 addr (ANY_ID, ANY_ID), \<sigma>1))"

definition v155_win_recvfrom_local ::
  "('w, 'ep) wsa \<Rightarrow> nat option \<Rightarrow> nat list \<Rightarrow> message_flags \<Rightarrow> 'ep \<Rightarrow> 'w win_state \<Rightarrow>
     ('n :: len word, 'ep, uint32_t \<times> uint32_t) win_return \<times> 'w win_state" where
  "v155_win_recvfrom_local W s sizes flags addr \<sigma> =
     (case wsa_recvfrom W s sizes flags (win_world (clear_last_error \<sigma>)) of (r, w1) \<Rightarrow>
        let \<sigma>1 = after_call (wsa_error r) w1 (clear_last_error \<sigma>)
        in if wsa_error r \<noteq> 0 then
             (Returned (- 1) [] (portable_error (last_error \<sigma>1)) (wsa_addr r) (ANY_ID, ANY_ID), \<sigma>1)
           else (Returned (ucast (wsa_count r)) (wsa_bytes r) 0 (wsa_addr r) (ANY_ID, ANY_ID), \<sigma>1))"

definition v155_complete_iocp_recvfrom :: "bool \<Rightarrow> int \<Rightarrow> int" where
  "v155_complete_iocp_recvfrom expired ec =
     (if ec = ERROR_NETNAME_DELETED then
        (if expired then ERROR_OPERATION_ABORTED else WSAECONNRESET)
      else if ec = ERROR_PORT_UNREACHABLE then WSAECONNREFUSED
      else ec)"

definition v155_complete_iocp_recvfrom_local :: "bool \<Rightarrow> int \<Rightarrow> int \<times> uint32_t \<times> uint32_t" where
  "v155_complete_iocp_recvfrom_local expired ec =
     (if ec = ERROR_NETNAME_DELETED then
        (if expired then ERROR_OPERATION_ABORTED else WSAECONNRESET)
      else if ec = ERROR_PORT_UNREACHABLE then WSAECONNREFUSED
      else ec, ANY_ID, ANY_ID)"

chapter \<open>Properties of the Windows branches\<close>

text \<open>
  How the Windows branches report a failed receive, and that the versions agree.
\<close>

lemma failure_count_sint:
  assumes "32 < LENGTH('n :: len)"
  shows "sint (ucast (- 1 :: dword) :: 'n word) = 4294967295"
proof -
  have big: "(2 :: int) ^ 32 \<le> 2 ^ (LENGTH('n) - 1)" "(2 :: int) ^ 32 < 2 ^ LENGTH('n)"
    using assms power_increasing [of 32 "LENGTH('n) - 1" "2 :: int"]
      power_strict_increasing [of 32 "LENGTH('n)" "2 :: int"] by simp_all
  then have "uint (ucast (- 1 :: dword) :: 'n word) = 4294967295"
    by (simp add: unsigned_ucast_eq unsigned_minus_1_eq_mask mask_eq_exp_minus_1 take_bit_int_eq_self)
  with big(1) show ?thesis
    by (simp add: sint_uint signed_take_bit_int_eq_self)
qed

lemma failure_count_sign:
  "0 \<le> sint (ucast (- 1 :: dword) :: 'n :: len word) \<longleftrightarrow> 32 < LENGTH('n)"
proof (cases "32 < LENGTH('n)")
  case True
  then show ?thesis by (simp add: failure_count_sint)
next
  case False
  then have "(ucast (- 1 :: dword) :: 'n word) = - 1"
    by (intro bit_word_eqI) (simp add: bit_simps)
  with False show ?thesis by simp
qed

lemma win_recvfrom_failed:
  assumes "wsa_ioctl W s (win_world \<sigma>) = (0, w1)" and "wsa_recvmsg W s sizes flags w1 = (r, w2)"
    and "wsa_error r \<noteq> 0" and "last_error \<sigma> \<noteq> SOCKET_ERROR"
  shows "win_recvfrom W s sizes flags addr da \<sigma> =
    (Returned (ucast (- 1 :: dword) :: 'n :: len word) [] (wsa_error r) addr da,
     \<sigma>\<lparr>last_error := wsa_error r, win_world := w2\<rparr>)"
  using assms by (simp add: win_recvfrom_def after_call_def Let_def)

text \<open>
  C39: on Windows a failed receive is recognised only where \<open>signed_size_type\<close> has at most 32 bits.  When
  \<open>WSARecvMsg\<close> fails, \<open>recvfrom\<close> returns the \<open>DWORD\<close> -1.  In at most 32 bits that is negative, and
  \<open>sync_recvfrom\<close> returns no bytes and the error, or waits and tries again.  In more bits it is 2^32 - 1:
  \<open>sync_recvfrom\<close> reports that many bytes beside the error, and it never waits for a socket that would
  block.
\<close>

theorem windows_failed_receive:
  assumes "wsa_ioctl W (Some d) (win_world \<sigma>) = (0, w1)" and "wsa_recvmsg W (Some d) sizes flags w1 = (r, w2)"
    and "wsa_error r \<noteq> 0" and "last_error \<sigma> \<noteq> SOCKET_ERROR"
  shows "win_sync_recvfrom TYPE('n :: len) W poll (Some d) st sizes flags addr da \<sigma> =
    (let e = wsa_error r; \<sigma>' = \<sigma>\<lparr>last_error := e, win_world := w2\<rparr>
     in if 32 < LENGTH('n) then Some (Some (4294967295, [], e, da), \<sigma>')
        else if user_set_non_blocking \<in> st \<or> (e \<noteq> WSAEWOULDBLOCK \<and> e \<noteq> ERROR_RETRY) then
          Some (Some (0, [], e, da), \<sigma>')
        else
          (case poll \<sigma>' of (err, \<sigma>'') \<Rightarrow>
             if err \<noteq> 0 then Some (Some (0, [], err, da), \<sigma>'')
             else win_sync_recvfrom TYPE('n) W poll (Some d) st sizes flags addr da \<sigma>''))"
proof (cases "32 < LENGTH('n)")
  case True
  have "scast (ucast (- 1 :: dword) :: 'n word) = (4294967295 :: size_t)"
    using failure_count_sint [OF True] by (simp add: scast_eq)
  with True show ?thesis
    using failure_count_sign [where 'n = 'n]
    by (simp add: win_sync_recvfrom_def win_sync_loop.simps win_recvfrom_failed [OF assms] Let_def)
next
  case False
  then show ?thesis
    using failure_count_sign [where 'n = 'n]
    unfolding win_sync_recvfrom_def
    by (subst win_sync_loop.simps) (simp add: win_recvfrom_failed [OF assms] Let_def split: prod.split)
qed

text \<open>A Winsock whose receives fail with connection_reset, and one whose lookup fails.\<close>

definition ex_wsa :: "int \<Rightarrow> (nat, nat) wsa" where
  "ex_wsa e = \<lparr>wsa_ioctl = \<lambda>s w. (e, w),
     wsa_recvmsg = \<lambda>s sizes flags w.
       (\<lparr>wsa_error = WSAECONNRESET, wsa_bytes = [], wsa_addr = 0, wsa_cmsgs = []\<rparr>, Suc w),
     wsa_recv = \<lambda>s sizes flags w. (\<lparr>wsa_error = ERROR_NETNAME_DELETED, wsa_bytes = [], wsa_addr = 0, wsa_cmsgs = []\<rparr>, w),
     wsa_recvfrom = \<lambda>s sizes flags w. (\<lparr>wsa_error = ERROR_NETNAME_DELETED, wsa_bytes = [], wsa_addr = 0, wsa_cmsgs = []\<rparr>, w)\<rparr>"

theorem windows_failed_receive_witness:
  "map_option fst (win_sync_recvfrom TYPE(64) (ex_wsa 0) (\<lambda>\<sigma>. (0, \<sigma>)) (Some 3) {} [10] 0 0 (Address_v4 0)
      \<lparr>last_error = 0, win_world = 0\<rparr>) = Some (Some (4294967295, [], WSAECONNRESET, Address_v4 0)) \<and>
   map_option fst (win_sync_recvfrom TYPE(32) (ex_wsa 0) (\<lambda>\<sigma>. (0, \<sigma>)) (Some 3) {} [10] 0 0 (Address_v4 0)
      \<lparr>last_error = 0, win_world = 0\<rparr>) = Some (Some (0, [], WSAECONNRESET, Address_v4 0))"
proof -
  have called: "wsa_ioctl (ex_wsa 0) (Some 3) (win_world \<lparr>last_error = 0, win_world = 0\<rparr>) = (0, 0)"
    "wsa_recvmsg (ex_wsa 0) (Some 3) [10] 0 0 =
      (\<lparr>wsa_error = WSAECONNRESET, wsa_bytes = [], wsa_addr = 0, wsa_cmsgs = []\<rparr>, Suc 0)"
    by (simp_all add: ex_wsa_def)
  show ?thesis
    by (subst (1 2) windows_failed_receive [OF called]) (simp_all add: windows_errors Let_def)
qed

text \<open>
  The lookup of \<open>WSARecvMsg\<close> is never noticed to have failed: no error number equals \<open>SOCKET_ERROR\<close>, and
  the pointer that was not set is called.
\<close>

lemma windows_failed_lookup:
  assumes "wsa_ioctl W s (win_world \<sigma>) = (e, w1)" and "e \<noteq> 0" and "e \<noteq> SOCKET_ERROR"
  shows "fst (win_recvfrom W s sizes flags addr da \<sigma> :: ('n :: len word, _, _) win_return \<times> _) = Calls_unset_pointer"
  using assms by (simp add: win_recvfrom_def after_call_def Let_def)

section \<open>The versions agree\<close>

text \<open>
  What 1.70, 1.66 and 1.55 return is what 1.74 returns, as long as the operating system cannot tell
  whether the last error was cleared and no last error is \<open>SOCKET_ERROR\<close>.
\<close>

lemma older_windows_same:
  "v166_win_recvfrom = v170_win_recvfrom" "v155_win_recvfrom = v170_win_recvfrom"
  "v166_win_recv_local = v170_win_recv_local" "v155_win_recv_local = v170_win_recv_local"
  "v166_win_recvfrom_local = v170_win_recvfrom_local" "v155_win_recvfrom_local = v170_win_recvfrom_local"
  "v170_win_recvfrom_local = win_recvfrom_local"
  "v170_complete_iocp_recvfrom = complete_iocp_recvfrom" "v166_complete_iocp_recvfrom = complete_iocp_recvfrom"
  "v155_complete_iocp_recvfrom = complete_iocp_recvfrom"
  "v170_complete_iocp_recvfrom_local = complete_iocp_recvfrom_local"
  "v166_complete_iocp_recvfrom_local = complete_iocp_recvfrom_local"
  "v155_complete_iocp_recvfrom_local = complete_iocp_recvfrom_local"
  by (simp_all add: fun_eq_iff v166_win_recvfrom_def v155_win_recvfrom_def v170_win_recvfrom_def
      v166_win_recv_local_def v155_win_recv_local_def v170_win_recv_local_def
      v166_win_recvfrom_local_def v155_win_recvfrom_local_def v170_win_recvfrom_local_def win_recvfrom_local_def
      v166_complete_iocp_recvfrom_def v155_complete_iocp_recvfrom_def v170_complete_iocp_recvfrom_def
      complete_iocp_recvfrom_def v166_complete_iocp_recvfrom_local_def v155_complete_iocp_recvfrom_local_def
      v170_complete_iocp_recvfrom_local_def complete_iocp_recvfrom_local_def)

lemma windows_recvfrom_versions:
  assumes "last_error \<sigma> \<noteq> SOCKET_ERROR"
  shows "fst (v170_win_recvfrom W s sizes flags addr da \<sigma> :: ('n :: len word, _, _) win_return \<times> _) =
    fst (win_recvfrom W s sizes flags addr da \<sigma>)"
  using assms
  by (auto simp: v170_win_recvfrom_def win_recvfrom_def after_call_def clear_last_error_def SOCKET_ERROR_def Let_def
      split: prod.splits)

lemma windows_recv_local_versions:
  "fst (v170_win_recv_local W s sizes flags addr \<sigma> :: ('n :: len word, _, _) win_return \<times> _) =
    fst (win_recv_local W s sizes flags addr \<sigma>)"
  by (auto simp: v170_win_recv_local_def win_recv_local_def after_call_def clear_last_error_def Let_def
      split: prod.splits)

text \<open>
  On local sockets a failure is recognised at any width, is reported with a portable error, and comes
  with no credentials; but neither does a success.
\<close>

lemma windows_recv_local_failed:
  assumes "wsa_recv W s sizes flags (win_world \<sigma>) = (r, w1)" and "wsa_error r \<noteq> 0"
  shows "\<exists>n :: 'n :: len word. \<exists>ec. fst (win_recv_local W s sizes flags addr \<sigma>) = Returned n [] ec addr (ANY_ID, ANY_ID) \<and>
    sint n < 0 \<and> ec \<noteq> ERROR_NETNAME_DELETED \<and> ec \<noteq> ERROR_PORT_UNREACHABLE"
  using assms
  by (auto simp: win_recv_local_def after_call_def portable_error_def windows_errors Let_def)

end
