(* ===== verification/Handler_Checks.thy ===== *)
theory Handler_Checks imports Prelude begin

text \<open>
  The compile-time checks of completion handlers
  (include/helper/<version>/boost/asio/detail/handler_type_requirements_ext.hpp and
  handler_type_requirements_ext_local.hpp) in all four versions.  What the checks look at is a C++ type:
  whether it can be copied, whether it can be moved, and with which arguments an object of it can be
  called.  A check holds when the code that contains it compiles.  A test function is overloaded, and
  the check compares the size of what overload resolution selects, 1 or 2, with 1.
\<close>

text \<open>The types handlers are called with, and how an argument is passed.\<close>

datatype arg_type =
    Error_code
  | Size
  | Address
  | Uint32
  | C_int
  | Peer_socket
  | Peer_endpoint
  | Endpoint_iterator

datatype argument = Lvalue arg_type | Moved arg_type

record handler =
  h_copyable :: bool
  h_movable :: bool
  h_call :: "argument list \<Rightarrow> bool"

text \<open>
  The macros that select what is compiled: \<open>BOOST_ASIO_ENABLE_HANDLER_TYPE_REQUIREMENTS\<close>,
  \<open>BOOST_ASIO_ENABLE_HANDLER_TYPE_REQUIREMENTS_ASSERT\<close> and \<open>BOOST_ASIO_HAS_MOVE\<close>.  Without the first the
  checks are empty, except that the one for reads is then not defined under the name it is used by.
\<close>

record compiler =
  requirements :: bool
  requirements_assert :: bool
  has_move :: bool

text \<open>\<open>rvref<H>()\<close> and \<open>clvref<H>()\<close>, bound to a parameter that is passed by value.\<close>

datatype handler_ref = Rvref | Clvref

definition constructs_copied :: "handler \<Rightarrow> bool" where
  "constructs_copied h \<longleftrightarrow> h_copyable h"

definition constructs_moved :: "compiler \<Rightarrow> handler \<Rightarrow> bool" where
  "constructs_moved C h \<longleftrightarrow> (if has_move C then h_movable h else h_copyable h)"

definition binds :: "compiler \<Rightarrow> handler_ref \<Rightarrow> handler \<Rightarrow> bool" where
  "binds C r h \<longleftrightarrow> (case r of Rvref \<Rightarrow> constructs_moved C h | Clvref \<Rightarrow> constructs_copied h)"

definition moved :: "compiler \<Rightarrow> arg_type \<Rightarrow> argument" where
  "moved C t = (if has_move C then Moved t else Lvalue t)"

named_theorems handler_tests \<open>test functions and checks\<close>

declare constructs_copied_def [handler_tests] constructs_moved_def [handler_tests] binds_def [handler_tests]

section \<open>Boost 1.74: handler_type_requirements_ext\<close>

definition zero_arg_copyable_handler_test :: "compiler \<Rightarrow> handler \<Rightarrow> nat" where
  [handler_tests]: "zero_arg_copyable_handler_test C h =
     (if constructs_copied h \<and> h_call h [] then 1 else 2)"

definition one_arg_handler_test :: "compiler \<Rightarrow> handler \<Rightarrow> arg_type \<Rightarrow> nat" where
  [handler_tests]: "one_arg_handler_test C h a1 =
     (if constructs_moved C h \<and> h_call h [Lvalue a1] then 1 else 2)"

definition two_arg_handler_test :: "compiler \<Rightarrow> handler \<Rightarrow> arg_type \<Rightarrow> arg_type \<Rightarrow> nat" where
  [handler_tests]: "two_arg_handler_test C h a1 a2 =
     (if constructs_moved C h \<and> h_call h [Lvalue a1, Lvalue a2] then 1 else 2)"

definition two_arg_move_handler_test :: "compiler \<Rightarrow> handler \<Rightarrow> arg_type \<Rightarrow> arg_type \<Rightarrow> nat" where
  [handler_tests]: "two_arg_move_handler_test C h a1 a2 =
     (if constructs_moved C h \<and> h_call h [Lvalue a1, moved C a2] then 1 else 2)"

definition three_arg_handler_test :: "compiler \<Rightarrow> handler \<Rightarrow> arg_type \<Rightarrow> arg_type \<Rightarrow> arg_type \<Rightarrow> nat" where
  [handler_tests]: "three_arg_handler_test C h a1 a2 a3 =
     (if constructs_moved C h \<and> h_call h [Lvalue a1, Lvalue a2, Lvalue a3] then 1 else 2)"

definition three_arg_move_handler_test :: "compiler \<Rightarrow> handler \<Rightarrow> arg_type \<Rightarrow> arg_type \<Rightarrow> arg_type \<Rightarrow> nat" where
  [handler_tests]: "three_arg_move_handler_test C h a1 a2 a3 =
     (if constructs_moved C h \<and> h_call h [Lvalue a1, moved C a2, moved C a3] then 1 else 2)"

definition legacy_completion_handler_check :: "compiler \<Rightarrow> handler \<Rightarrow> bool" where
  [handler_tests]: "legacy_completion_handler_check C h \<longleftrightarrow>
     (requirements C \<longrightarrow>
        (requirements_assert C \<longrightarrow> binds C Clvref h \<and> zero_arg_copyable_handler_test C h = 1) \<and>
        binds C Clvref h \<and> h_call h [])"

definition read_handler_check_ext :: "compiler \<Rightarrow> handler \<Rightarrow> bool" where
  [handler_tests]: "read_handler_check_ext C h \<longleftrightarrow>
     (requirements C \<and>
        (requirements_assert C \<longrightarrow> binds C Rvref h \<and> three_arg_handler_test C h Error_code Size Address = 1) \<and>
        binds C Rvref h \<and> h_call h [Lvalue Error_code, Lvalue Size, Lvalue Address])"

definition write_handler_check :: "compiler \<Rightarrow> handler \<Rightarrow> bool" where
  [handler_tests]: "write_handler_check C h \<longleftrightarrow>
     (requirements C \<longrightarrow>
        (requirements_assert C \<longrightarrow> binds C Rvref h \<and> two_arg_handler_test C h Error_code Size = 1) \<and>
        binds C Rvref h \<and> h_call h [Lvalue Error_code, Lvalue Size])"

definition connect_handler_check :: "compiler \<Rightarrow> handler \<Rightarrow> bool" where
  [handler_tests]: "connect_handler_check C h \<longleftrightarrow>
     (requirements C \<longrightarrow>
        (requirements_assert C \<longrightarrow> binds C Rvref h \<and> one_arg_handler_test C h Error_code = 1) \<and>
        binds C Rvref h \<and> h_call h [Lvalue Error_code])"

definition range_connect_handler_check :: "compiler \<Rightarrow> arg_type \<Rightarrow> handler \<Rightarrow> bool" where
  [handler_tests]: "range_connect_handler_check C t h \<longleftrightarrow>
     (requirements C \<longrightarrow>
        (requirements_assert C \<longrightarrow> binds C Rvref h \<and> two_arg_handler_test C h Error_code t = 1) \<and>
        binds C Rvref h \<and> h_call h [Lvalue Error_code, Lvalue t])"

definition iterator_connect_handler_check :: "compiler \<Rightarrow> arg_type \<Rightarrow> handler \<Rightarrow> bool" where
  [handler_tests]: "iterator_connect_handler_check C t h \<longleftrightarrow>
     (requirements C \<longrightarrow>
        (requirements_assert C \<longrightarrow> binds C Rvref h \<and> two_arg_handler_test C h Error_code t = 1) \<and>
        binds C Rvref h \<and> h_call h [Lvalue Error_code, Lvalue t])"

definition resolve_handler_check :: "compiler \<Rightarrow> arg_type \<Rightarrow> handler \<Rightarrow> bool" where
  [handler_tests]: "resolve_handler_check C t h \<longleftrightarrow>
     (requirements C \<longrightarrow>
        (requirements_assert C \<longrightarrow> binds C Rvref h \<and> two_arg_handler_test C h Error_code t = 1) \<and>
        binds C Rvref h \<and> h_call h [Lvalue Error_code, Lvalue t])"

definition wait_handler_check :: "compiler \<Rightarrow> handler \<Rightarrow> bool" where
  [handler_tests]: "wait_handler_check C h \<longleftrightarrow>
     (requirements C \<longrightarrow>
        (requirements_assert C \<longrightarrow> binds C Rvref h \<and> one_arg_handler_test C h Error_code = 1) \<and>
        binds C Rvref h \<and> h_call h [Lvalue Error_code])"

definition signal_handler_check :: "compiler \<Rightarrow> handler \<Rightarrow> bool" where
  [handler_tests]: "signal_handler_check C h \<longleftrightarrow>
     (requirements C \<longrightarrow>
        (requirements_assert C \<longrightarrow> binds C Rvref h \<and> two_arg_handler_test C h Error_code C_int = 1) \<and>
        binds C Rvref h \<and> h_call h [Lvalue Error_code, Lvalue C_int])"

definition handshake_handler_check :: "compiler \<Rightarrow> handler \<Rightarrow> bool" where
  [handler_tests]: "handshake_handler_check C h \<longleftrightarrow>
     (requirements C \<longrightarrow>
        (requirements_assert C \<longrightarrow> binds C Rvref h \<and> one_arg_handler_test C h Error_code = 1) \<and>
        binds C Rvref h \<and> h_call h [Lvalue Error_code])"

definition buffered_handshake_handler_check :: "compiler \<Rightarrow> handler \<Rightarrow> bool" where
  [handler_tests]: "buffered_handshake_handler_check C h \<longleftrightarrow>
     (requirements C \<longrightarrow>
        (requirements_assert C \<longrightarrow> binds C Rvref h \<and> two_arg_handler_test C h Error_code Size = 1) \<and>
        binds C Rvref h \<and> h_call h [Lvalue Error_code, Lvalue Size])"

definition shutdown_handler_check :: "compiler \<Rightarrow> handler \<Rightarrow> bool" where
  [handler_tests]: "shutdown_handler_check C h \<longleftrightarrow>
     (requirements C \<longrightarrow>
        (requirements_assert C \<longrightarrow> binds C Rvref h \<and> one_arg_handler_test C h Error_code = 1) \<and>
        binds C Rvref h \<and> h_call h [Lvalue Error_code])"

section \<open>Boost 1.74: handler_type_requirements_ext_local\<close>

definition local_zero_arg_copyable_handler_test :: "compiler \<Rightarrow> handler \<Rightarrow> nat" where
  [handler_tests]: "local_zero_arg_copyable_handler_test C h =
     (if constructs_copied h \<and> h_call h [] then 1 else 2)"

definition local_one_arg_handler_test :: "compiler \<Rightarrow> handler \<Rightarrow> arg_type \<Rightarrow> nat" where
  [handler_tests]: "local_one_arg_handler_test C h a1 =
     (if constructs_moved C h \<and> h_call h [Lvalue a1] then 1 else 2)"

definition local_two_arg_handler_test :: "compiler \<Rightarrow> handler \<Rightarrow> arg_type \<Rightarrow> arg_type \<Rightarrow> nat" where
  [handler_tests]: "local_two_arg_handler_test C h a1 a2 =
     (if constructs_moved C h \<and> h_call h [Lvalue a1, Lvalue a2] then 1 else 2)"

definition local_two_arg_move_handler_test :: "compiler \<Rightarrow> handler \<Rightarrow> arg_type \<Rightarrow> arg_type \<Rightarrow> nat" where
  [handler_tests]: "local_two_arg_move_handler_test C h a1 a2 =
     (if constructs_moved C h \<and> h_call h [Lvalue a1, moved C a2] then 1 else 2)"

definition local_four_arg_handler_test :: "compiler \<Rightarrow> handler \<Rightarrow> arg_type \<Rightarrow> arg_type \<Rightarrow> arg_type \<Rightarrow> arg_type \<Rightarrow> nat" where
  [handler_tests]: "local_four_arg_handler_test C h a1 a2 a3 a4 =
     (if constructs_moved C h \<and> h_call h [Lvalue a1, Lvalue a2, Lvalue a3, Lvalue a4] then 1 else 2)"

definition local_four_arg_move_handler_test :: "compiler \<Rightarrow> handler \<Rightarrow> arg_type \<Rightarrow> arg_type \<Rightarrow> arg_type \<Rightarrow> arg_type \<Rightarrow> nat" where
  [handler_tests]: "local_four_arg_move_handler_test C h a1 a2 a3 a4 =
     (if constructs_moved C h \<and> h_call h [Lvalue a1, moved C a2, moved C a3, moved C a4] then 1 else 2)"

definition local_legacy_completion_handler_check :: "compiler \<Rightarrow> handler \<Rightarrow> bool" where
  [handler_tests]: "local_legacy_completion_handler_check C h \<longleftrightarrow>
     (requirements C \<longrightarrow>
        (requirements_assert C \<longrightarrow> binds C Clvref h \<and> local_zero_arg_copyable_handler_test C h = 1) \<and>
        binds C Clvref h \<and> h_call h [])"

definition local_read_handler_check_ext_local :: "compiler \<Rightarrow> handler \<Rightarrow> bool" where
  [handler_tests]: "local_read_handler_check_ext_local C h \<longleftrightarrow>
     (requirements C \<and>
        (requirements_assert C \<longrightarrow> binds C Clvref h \<and> local_four_arg_handler_test C h Error_code Size Uint32 Uint32 = 1) \<and>
        binds C Clvref h \<and> h_call h [Lvalue Error_code, Lvalue Size, Lvalue Uint32, Lvalue Uint32])"

definition local_write_handler_check :: "compiler \<Rightarrow> handler \<Rightarrow> bool" where
  [handler_tests]: "local_write_handler_check C h \<longleftrightarrow>
     (requirements C \<longrightarrow>
        (requirements_assert C \<longrightarrow> binds C Rvref h \<and> local_two_arg_handler_test C h Error_code Size = 1) \<and>
        binds C Rvref h \<and> h_call h [Lvalue Error_code, Lvalue Size])"

definition local_connect_handler_check :: "compiler \<Rightarrow> handler \<Rightarrow> bool" where
  [handler_tests]: "local_connect_handler_check C h \<longleftrightarrow>
     (requirements C \<longrightarrow>
        (requirements_assert C \<longrightarrow> binds C Rvref h \<and> local_one_arg_handler_test C h Error_code = 1) \<and>
        binds C Rvref h \<and> h_call h [Lvalue Error_code])"

definition local_range_connect_handler_check :: "compiler \<Rightarrow> arg_type \<Rightarrow> handler \<Rightarrow> bool" where
  [handler_tests]: "local_range_connect_handler_check C t h \<longleftrightarrow>
     (requirements C \<longrightarrow>
        (requirements_assert C \<longrightarrow> binds C Rvref h \<and> local_two_arg_handler_test C h Error_code t = 1) \<and>
        binds C Rvref h \<and> h_call h [Lvalue Error_code, Lvalue t])"

definition local_iterator_connect_handler_check :: "compiler \<Rightarrow> arg_type \<Rightarrow> handler \<Rightarrow> bool" where
  [handler_tests]: "local_iterator_connect_handler_check C t h \<longleftrightarrow>
     (requirements C \<longrightarrow>
        (requirements_assert C \<longrightarrow> binds C Rvref h \<and> local_two_arg_handler_test C h Error_code t = 1) \<and>
        binds C Rvref h \<and> h_call h [Lvalue Error_code, Lvalue t])"

definition local_resolve_handler_check :: "compiler \<Rightarrow> arg_type \<Rightarrow> handler \<Rightarrow> bool" where
  [handler_tests]: "local_resolve_handler_check C t h \<longleftrightarrow>
     (requirements C \<longrightarrow>
        (requirements_assert C \<longrightarrow> binds C Rvref h \<and> local_two_arg_handler_test C h Error_code t = 1) \<and>
        binds C Rvref h \<and> h_call h [Lvalue Error_code, Lvalue t])"

definition local_wait_handler_check :: "compiler \<Rightarrow> handler \<Rightarrow> bool" where
  [handler_tests]: "local_wait_handler_check C h \<longleftrightarrow>
     (requirements C \<longrightarrow>
        (requirements_assert C \<longrightarrow> binds C Rvref h \<and> local_one_arg_handler_test C h Error_code = 1) \<and>
        binds C Rvref h \<and> h_call h [Lvalue Error_code])"

definition local_signal_handler_check :: "compiler \<Rightarrow> handler \<Rightarrow> bool" where
  [handler_tests]: "local_signal_handler_check C h \<longleftrightarrow>
     (requirements C \<longrightarrow>
        (requirements_assert C \<longrightarrow> binds C Rvref h \<and> local_two_arg_handler_test C h Error_code C_int = 1) \<and>
        binds C Rvref h \<and> h_call h [Lvalue Error_code, Lvalue C_int])"

definition local_handshake_handler_check :: "compiler \<Rightarrow> handler \<Rightarrow> bool" where
  [handler_tests]: "local_handshake_handler_check C h \<longleftrightarrow>
     (requirements C \<longrightarrow>
        (requirements_assert C \<longrightarrow> binds C Rvref h \<and> local_one_arg_handler_test C h Error_code = 1) \<and>
        binds C Rvref h \<and> h_call h [Lvalue Error_code])"

definition local_buffered_handshake_handler_check :: "compiler \<Rightarrow> handler \<Rightarrow> bool" where
  [handler_tests]: "local_buffered_handshake_handler_check C h \<longleftrightarrow>
     (requirements C \<longrightarrow>
        (requirements_assert C \<longrightarrow> binds C Rvref h \<and> local_two_arg_handler_test C h Error_code Size = 1) \<and>
        binds C Rvref h \<and> h_call h [Lvalue Error_code, Lvalue Size])"

definition local_shutdown_handler_check :: "compiler \<Rightarrow> handler \<Rightarrow> bool" where
  [handler_tests]: "local_shutdown_handler_check C h \<longleftrightarrow>
     (requirements C \<longrightarrow>
        (requirements_assert C \<longrightarrow> binds C Rvref h \<and> local_one_arg_handler_test C h Error_code = 1) \<and>
        binds C Rvref h \<and> h_call h [Lvalue Error_code])"

section \<open>Boost 1.70: handler_type_requirements_ext\<close>

definition v170_zero_arg_copyable_handler_test :: "compiler \<Rightarrow> handler \<Rightarrow> nat" where
  [handler_tests]: "v170_zero_arg_copyable_handler_test C h =
     (if constructs_copied h \<and> h_call h [] then 1 else 2)"

definition v170_one_arg_handler_test :: "compiler \<Rightarrow> handler \<Rightarrow> arg_type \<Rightarrow> nat" where
  [handler_tests]: "v170_one_arg_handler_test C h a1 =
     (if constructs_moved C h \<and> h_call h [Lvalue a1] then 1 else 2)"

definition v170_two_arg_handler_test :: "compiler \<Rightarrow> handler \<Rightarrow> arg_type \<Rightarrow> arg_type \<Rightarrow> nat" where
  [handler_tests]: "v170_two_arg_handler_test C h a1 a2 =
     (if constructs_moved C h \<and> h_call h [Lvalue a1, Lvalue a2] then 1 else 2)"

definition v170_two_arg_move_handler_test :: "compiler \<Rightarrow> handler \<Rightarrow> arg_type \<Rightarrow> arg_type \<Rightarrow> nat" where
  [handler_tests]: "v170_two_arg_move_handler_test C h a1 a2 =
     (if constructs_moved C h \<and> h_call h [Lvalue a1, moved C a2] then 1 else 2)"

definition v170_three_arg_handler_test :: "compiler \<Rightarrow> handler \<Rightarrow> arg_type \<Rightarrow> arg_type \<Rightarrow> arg_type \<Rightarrow> nat" where
  [handler_tests]: "v170_three_arg_handler_test C h a1 a2 a3 =
     (if constructs_moved C h \<and> h_call h [Lvalue a1, Lvalue a2, Lvalue a3] then 1 else 2)"

definition v170_three_arg_move_handler_test :: "compiler \<Rightarrow> handler \<Rightarrow> arg_type \<Rightarrow> arg_type \<Rightarrow> arg_type \<Rightarrow> nat" where
  [handler_tests]: "v170_three_arg_move_handler_test C h a1 a2 a3 =
     (if constructs_moved C h \<and> h_call h [Lvalue a1, moved C a2, moved C a3] then 1 else 2)"

definition v170_legacy_completion_handler_check :: "compiler \<Rightarrow> handler \<Rightarrow> bool" where
  [handler_tests]: "v170_legacy_completion_handler_check C h \<longleftrightarrow>
     (requirements C \<longrightarrow>
        (requirements_assert C \<longrightarrow> binds C Clvref h \<and> v170_zero_arg_copyable_handler_test C h = 1) \<and>
        binds C Clvref h \<and> h_call h [])"

definition v170_read_handler_check_ext :: "compiler \<Rightarrow> handler \<Rightarrow> bool" where
  [handler_tests]: "v170_read_handler_check_ext C h \<longleftrightarrow>
     (requirements C \<and>
        (requirements_assert C \<longrightarrow> binds C Rvref h \<and> v170_three_arg_handler_test C h Error_code Size Address = 1) \<and>
        binds C Rvref h \<and> h_call h [Lvalue Error_code, Lvalue Size, Lvalue Address])"

definition v170_write_handler_check :: "compiler \<Rightarrow> handler \<Rightarrow> bool" where
  [handler_tests]: "v170_write_handler_check C h \<longleftrightarrow>
     (requirements C \<longrightarrow>
        (requirements_assert C \<longrightarrow> binds C Rvref h \<and> v170_two_arg_handler_test C h Error_code Size = 1) \<and>
        binds C Rvref h \<and> h_call h [Lvalue Error_code, Lvalue Size])"

definition v170_connect_handler_check :: "compiler \<Rightarrow> handler \<Rightarrow> bool" where
  [handler_tests]: "v170_connect_handler_check C h \<longleftrightarrow>
     (requirements C \<longrightarrow>
        (requirements_assert C \<longrightarrow> binds C Rvref h \<and> v170_one_arg_handler_test C h Error_code = 1) \<and>
        binds C Rvref h \<and> h_call h [Lvalue Error_code])"

definition v170_range_connect_handler_check :: "compiler \<Rightarrow> arg_type \<Rightarrow> handler \<Rightarrow> bool" where
  [handler_tests]: "v170_range_connect_handler_check C t h \<longleftrightarrow>
     (requirements C \<longrightarrow>
        (requirements_assert C \<longrightarrow> binds C Rvref h \<and> v170_two_arg_handler_test C h Error_code t = 1) \<and>
        binds C Rvref h \<and> h_call h [Lvalue Error_code, Lvalue t])"

definition v170_iterator_connect_handler_check :: "compiler \<Rightarrow> arg_type \<Rightarrow> handler \<Rightarrow> bool" where
  [handler_tests]: "v170_iterator_connect_handler_check C t h \<longleftrightarrow>
     (requirements C \<longrightarrow>
        (requirements_assert C \<longrightarrow> binds C Rvref h \<and> v170_two_arg_handler_test C h Error_code t = 1) \<and>
        binds C Rvref h \<and> h_call h [Lvalue Error_code, Lvalue t])"

definition v170_resolve_handler_check :: "compiler \<Rightarrow> arg_type \<Rightarrow> handler \<Rightarrow> bool" where
  [handler_tests]: "v170_resolve_handler_check C t h \<longleftrightarrow>
     (requirements C \<longrightarrow>
        (requirements_assert C \<longrightarrow> binds C Rvref h \<and> v170_two_arg_handler_test C h Error_code t = 1) \<and>
        binds C Rvref h \<and> h_call h [Lvalue Error_code, Lvalue t])"

definition v170_wait_handler_check :: "compiler \<Rightarrow> handler \<Rightarrow> bool" where
  [handler_tests]: "v170_wait_handler_check C h \<longleftrightarrow>
     (requirements C \<longrightarrow>
        (requirements_assert C \<longrightarrow> binds C Rvref h \<and> v170_one_arg_handler_test C h Error_code = 1) \<and>
        binds C Rvref h \<and> h_call h [Lvalue Error_code])"

definition v170_signal_handler_check :: "compiler \<Rightarrow> handler \<Rightarrow> bool" where
  [handler_tests]: "v170_signal_handler_check C h \<longleftrightarrow>
     (requirements C \<longrightarrow>
        (requirements_assert C \<longrightarrow> binds C Rvref h \<and> v170_two_arg_handler_test C h Error_code C_int = 1) \<and>
        binds C Rvref h \<and> h_call h [Lvalue Error_code, Lvalue C_int])"

definition v170_handshake_handler_check :: "compiler \<Rightarrow> handler \<Rightarrow> bool" where
  [handler_tests]: "v170_handshake_handler_check C h \<longleftrightarrow>
     (requirements C \<longrightarrow>
        (requirements_assert C \<longrightarrow> binds C Rvref h \<and> v170_one_arg_handler_test C h Error_code = 1) \<and>
        binds C Rvref h \<and> h_call h [Lvalue Error_code])"

definition v170_buffered_handshake_handler_check :: "compiler \<Rightarrow> handler \<Rightarrow> bool" where
  [handler_tests]: "v170_buffered_handshake_handler_check C h \<longleftrightarrow>
     (requirements C \<longrightarrow>
        (requirements_assert C \<longrightarrow> binds C Rvref h \<and> v170_two_arg_handler_test C h Error_code Size = 1) \<and>
        binds C Rvref h \<and> h_call h [Lvalue Error_code, Lvalue Size])"

definition v170_shutdown_handler_check :: "compiler \<Rightarrow> handler \<Rightarrow> bool" where
  [handler_tests]: "v170_shutdown_handler_check C h \<longleftrightarrow>
     (requirements C \<longrightarrow>
        (requirements_assert C \<longrightarrow> binds C Rvref h \<and> v170_one_arg_handler_test C h Error_code = 1) \<and>
        binds C Rvref h \<and> h_call h [Lvalue Error_code])"

section \<open>Boost 1.70: handler_type_requirements_ext_local\<close>

definition v170_local_zero_arg_copyable_handler_test :: "compiler \<Rightarrow> handler \<Rightarrow> nat" where
  [handler_tests]: "v170_local_zero_arg_copyable_handler_test C h =
     (if constructs_copied h \<and> h_call h [] then 1 else 2)"

definition v170_local_one_arg_handler_test :: "compiler \<Rightarrow> handler \<Rightarrow> arg_type \<Rightarrow> nat" where
  [handler_tests]: "v170_local_one_arg_handler_test C h a1 =
     (if constructs_moved C h \<and> h_call h [Lvalue a1] then 1 else 2)"

definition v170_local_two_arg_handler_test :: "compiler \<Rightarrow> handler \<Rightarrow> arg_type \<Rightarrow> arg_type \<Rightarrow> nat" where
  [handler_tests]: "v170_local_two_arg_handler_test C h a1 a2 =
     (if constructs_moved C h \<and> h_call h [Lvalue a1, Lvalue a2] then 1 else 2)"

definition v170_local_two_arg_move_handler_test :: "compiler \<Rightarrow> handler \<Rightarrow> arg_type \<Rightarrow> arg_type \<Rightarrow> nat" where
  [handler_tests]: "v170_local_two_arg_move_handler_test C h a1 a2 =
     (if constructs_moved C h \<and> h_call h [Lvalue a1, moved C a2] then 1 else 2)"

definition v170_local_four_arg_handler_test :: "compiler \<Rightarrow> handler \<Rightarrow> arg_type \<Rightarrow> arg_type \<Rightarrow> arg_type \<Rightarrow> arg_type \<Rightarrow> nat" where
  [handler_tests]: "v170_local_four_arg_handler_test C h a1 a2 a3 a4 =
     (if constructs_moved C h \<and> h_call h [Lvalue a1, Lvalue a2, Lvalue a3, Lvalue a4] then 1 else 2)"

definition v170_local_four_arg_move_handler_test :: "compiler \<Rightarrow> handler \<Rightarrow> arg_type \<Rightarrow> arg_type \<Rightarrow> arg_type \<Rightarrow> arg_type \<Rightarrow> nat" where
  [handler_tests]: "v170_local_four_arg_move_handler_test C h a1 a2 a3 a4 =
     (if constructs_moved C h \<and> h_call h [Lvalue a1, moved C a2, moved C a3, moved C a4] then 1 else 2)"

definition v170_local_legacy_completion_handler_check :: "compiler \<Rightarrow> handler \<Rightarrow> bool" where
  [handler_tests]: "v170_local_legacy_completion_handler_check C h \<longleftrightarrow>
     (requirements C \<longrightarrow>
        (requirements_assert C \<longrightarrow> binds C Clvref h \<and> v170_local_zero_arg_copyable_handler_test C h = 1) \<and>
        binds C Clvref h \<and> h_call h [])"

definition v170_local_read_handler_check_ext_local :: "compiler \<Rightarrow> handler \<Rightarrow> bool" where
  [handler_tests]: "v170_local_read_handler_check_ext_local C h \<longleftrightarrow>
     (requirements C \<and>
        (requirements_assert C \<longrightarrow> binds C Clvref h \<and> v170_local_four_arg_handler_test C h Error_code Size Uint32 Uint32 = 1) \<and>
        binds C Clvref h \<and> h_call h [Lvalue Error_code, Lvalue Size, Lvalue Uint32, Lvalue Uint32])"

definition v170_local_write_handler_check :: "compiler \<Rightarrow> handler \<Rightarrow> bool" where
  [handler_tests]: "v170_local_write_handler_check C h \<longleftrightarrow>
     (requirements C \<longrightarrow>
        (requirements_assert C \<longrightarrow> binds C Rvref h \<and> v170_local_two_arg_handler_test C h Error_code Size = 1) \<and>
        binds C Rvref h \<and> h_call h [Lvalue Error_code, Lvalue Size])"

definition v170_local_connect_handler_check :: "compiler \<Rightarrow> handler \<Rightarrow> bool" where
  [handler_tests]: "v170_local_connect_handler_check C h \<longleftrightarrow>
     (requirements C \<longrightarrow>
        (requirements_assert C \<longrightarrow> binds C Rvref h \<and> v170_local_one_arg_handler_test C h Error_code = 1) \<and>
        binds C Rvref h \<and> h_call h [Lvalue Error_code])"

definition v170_local_range_connect_handler_check :: "compiler \<Rightarrow> arg_type \<Rightarrow> handler \<Rightarrow> bool" where
  [handler_tests]: "v170_local_range_connect_handler_check C t h \<longleftrightarrow>
     (requirements C \<longrightarrow>
        (requirements_assert C \<longrightarrow> binds C Rvref h \<and> v170_local_two_arg_handler_test C h Error_code t = 1) \<and>
        binds C Rvref h \<and> h_call h [Lvalue Error_code, Lvalue t])"

definition v170_local_iterator_connect_handler_check :: "compiler \<Rightarrow> arg_type \<Rightarrow> handler \<Rightarrow> bool" where
  [handler_tests]: "v170_local_iterator_connect_handler_check C t h \<longleftrightarrow>
     (requirements C \<longrightarrow>
        (requirements_assert C \<longrightarrow> binds C Rvref h \<and> v170_local_two_arg_handler_test C h Error_code t = 1) \<and>
        binds C Rvref h \<and> h_call h [Lvalue Error_code, Lvalue t])"

definition v170_local_resolve_handler_check :: "compiler \<Rightarrow> arg_type \<Rightarrow> handler \<Rightarrow> bool" where
  [handler_tests]: "v170_local_resolve_handler_check C t h \<longleftrightarrow>
     (requirements C \<longrightarrow>
        (requirements_assert C \<longrightarrow> binds C Rvref h \<and> v170_local_two_arg_handler_test C h Error_code t = 1) \<and>
        binds C Rvref h \<and> h_call h [Lvalue Error_code, Lvalue t])"

definition v170_local_wait_handler_check :: "compiler \<Rightarrow> handler \<Rightarrow> bool" where
  [handler_tests]: "v170_local_wait_handler_check C h \<longleftrightarrow>
     (requirements C \<longrightarrow>
        (requirements_assert C \<longrightarrow> binds C Rvref h \<and> v170_local_one_arg_handler_test C h Error_code = 1) \<and>
        binds C Rvref h \<and> h_call h [Lvalue Error_code])"

definition v170_local_signal_handler_check :: "compiler \<Rightarrow> handler \<Rightarrow> bool" where
  [handler_tests]: "v170_local_signal_handler_check C h \<longleftrightarrow>
     (requirements C \<longrightarrow>
        (requirements_assert C \<longrightarrow> binds C Rvref h \<and> v170_local_two_arg_handler_test C h Error_code C_int = 1) \<and>
        binds C Rvref h \<and> h_call h [Lvalue Error_code, Lvalue C_int])"

definition v170_local_handshake_handler_check :: "compiler \<Rightarrow> handler \<Rightarrow> bool" where
  [handler_tests]: "v170_local_handshake_handler_check C h \<longleftrightarrow>
     (requirements C \<longrightarrow>
        (requirements_assert C \<longrightarrow> binds C Rvref h \<and> v170_local_one_arg_handler_test C h Error_code = 1) \<and>
        binds C Rvref h \<and> h_call h [Lvalue Error_code])"

definition v170_local_buffered_handshake_handler_check :: "compiler \<Rightarrow> handler \<Rightarrow> bool" where
  [handler_tests]: "v170_local_buffered_handshake_handler_check C h \<longleftrightarrow>
     (requirements C \<longrightarrow>
        (requirements_assert C \<longrightarrow> binds C Rvref h \<and> v170_local_two_arg_handler_test C h Error_code Size = 1) \<and>
        binds C Rvref h \<and> h_call h [Lvalue Error_code, Lvalue Size])"

definition v170_local_shutdown_handler_check :: "compiler \<Rightarrow> handler \<Rightarrow> bool" where
  [handler_tests]: "v170_local_shutdown_handler_check C h \<longleftrightarrow>
     (requirements C \<longrightarrow>
        (requirements_assert C \<longrightarrow> binds C Rvref h \<and> v170_local_one_arg_handler_test C h Error_code = 1) \<and>
        binds C Rvref h \<and> h_call h [Lvalue Error_code])"

section \<open>Boost 1.66: handler_type_requirements_ext\<close>

definition v166_zero_arg_copyable_handler_test :: "compiler \<Rightarrow> handler \<Rightarrow> nat" where
  [handler_tests]: "v166_zero_arg_copyable_handler_test C h =
     (if constructs_copied h \<and> h_call h [] then 1 else 2)"

definition v166_one_arg_handler_test :: "compiler \<Rightarrow> handler \<Rightarrow> arg_type \<Rightarrow> nat" where
  [handler_tests]: "v166_one_arg_handler_test C h a1 =
     (if constructs_moved C h \<and> h_call h [Lvalue a1] then 1 else 2)"

definition v166_two_arg_handler_test :: "compiler \<Rightarrow> handler \<Rightarrow> arg_type \<Rightarrow> arg_type \<Rightarrow> nat" where
  [handler_tests]: "v166_two_arg_handler_test C h a1 a2 =
     (if constructs_moved C h \<and> h_call h [Lvalue a1, Lvalue a2] then 1 else 2)"

definition v166_two_arg_move_handler_test :: "compiler \<Rightarrow> handler \<Rightarrow> arg_type \<Rightarrow> arg_type \<Rightarrow> nat" where
  [handler_tests]: "v166_two_arg_move_handler_test C h a1 a2 =
     (if constructs_moved C h \<and> h_call h [Lvalue a1, moved C a2] then 1 else 2)"

definition v166_three_arg_handler_test :: "compiler \<Rightarrow> handler \<Rightarrow> arg_type \<Rightarrow> arg_type \<Rightarrow> arg_type \<Rightarrow> nat" where
  [handler_tests]: "v166_three_arg_handler_test C h a1 a2 a3 =
     (if constructs_moved C h \<and> h_call h [Lvalue a1, Lvalue a2, Lvalue a3] then 1 else 2)"

definition v166_three_arg_move_handler_test :: "compiler \<Rightarrow> handler \<Rightarrow> arg_type \<Rightarrow> arg_type \<Rightarrow> arg_type \<Rightarrow> nat" where
  [handler_tests]: "v166_three_arg_move_handler_test C h a1 a2 a3 =
     (if constructs_moved C h \<and> h_call h [Lvalue a1, moved C a2, moved C a3] then 1 else 2)"

definition v166_completion_handler_check :: "compiler \<Rightarrow> handler \<Rightarrow> bool" where
  [handler_tests]: "v166_completion_handler_check C h \<longleftrightarrow>
     (requirements C \<longrightarrow>
        (requirements_assert C \<longrightarrow> binds C Clvref h \<and> v166_zero_arg_copyable_handler_test C h = 1) \<and>
        binds C Clvref h \<and> h_call h [])"

definition v166_read_handler_check_ext :: "compiler \<Rightarrow> handler \<Rightarrow> bool" where
  [handler_tests]: "v166_read_handler_check_ext C h \<longleftrightarrow>
     (requirements C \<and>
        (requirements_assert C \<longrightarrow> binds C Rvref h \<and> v166_three_arg_handler_test C h Error_code Size Address = 1) \<and>
        binds C Rvref h \<and> h_call h [Lvalue Error_code, Lvalue Size, Lvalue Address])"

definition v166_write_handler_check :: "compiler \<Rightarrow> handler \<Rightarrow> bool" where
  [handler_tests]: "v166_write_handler_check C h \<longleftrightarrow>
     (requirements C \<longrightarrow>
        (requirements_assert C \<longrightarrow> binds C Rvref h \<and> v166_two_arg_handler_test C h Error_code Size = 1) \<and>
        binds C Rvref h \<and> h_call h [Lvalue Error_code, Lvalue Size])"

definition v166_connect_handler_check :: "compiler \<Rightarrow> handler \<Rightarrow> bool" where
  [handler_tests]: "v166_connect_handler_check C h \<longleftrightarrow>
     (requirements C \<longrightarrow>
        (requirements_assert C \<longrightarrow> binds C Rvref h \<and> v166_one_arg_handler_test C h Error_code = 1) \<and>
        binds C Rvref h \<and> h_call h [Lvalue Error_code])"

definition v166_range_connect_handler_check :: "compiler \<Rightarrow> arg_type \<Rightarrow> handler \<Rightarrow> bool" where
  [handler_tests]: "v166_range_connect_handler_check C t h \<longleftrightarrow>
     (requirements C \<longrightarrow>
        (requirements_assert C \<longrightarrow> binds C Rvref h \<and> v166_two_arg_handler_test C h Error_code t = 1) \<and>
        binds C Rvref h \<and> h_call h [Lvalue Error_code, Lvalue t])"

definition v166_iterator_connect_handler_check :: "compiler \<Rightarrow> arg_type \<Rightarrow> handler \<Rightarrow> bool" where
  [handler_tests]: "v166_iterator_connect_handler_check C t h \<longleftrightarrow>
     (requirements C \<longrightarrow>
        (requirements_assert C \<longrightarrow> binds C Rvref h \<and> v166_two_arg_handler_test C h Error_code t = 1) \<and>
        binds C Rvref h \<and> h_call h [Lvalue Error_code, Lvalue t])"

definition v166_resolve_handler_check :: "compiler \<Rightarrow> arg_type \<Rightarrow> handler \<Rightarrow> bool" where
  [handler_tests]: "v166_resolve_handler_check C t h \<longleftrightarrow>
     (requirements C \<longrightarrow>
        (requirements_assert C \<longrightarrow> binds C Rvref h \<and> v166_two_arg_handler_test C h Error_code t = 1) \<and>
        binds C Rvref h \<and> h_call h [Lvalue Error_code, Lvalue t])"

definition v166_wait_handler_check :: "compiler \<Rightarrow> handler \<Rightarrow> bool" where
  [handler_tests]: "v166_wait_handler_check C h \<longleftrightarrow>
     (requirements C \<longrightarrow>
        (requirements_assert C \<longrightarrow> binds C Rvref h \<and> v166_one_arg_handler_test C h Error_code = 1) \<and>
        binds C Rvref h \<and> h_call h [Lvalue Error_code])"

definition v166_signal_handler_check :: "compiler \<Rightarrow> handler \<Rightarrow> bool" where
  [handler_tests]: "v166_signal_handler_check C h \<longleftrightarrow>
     (requirements C \<longrightarrow>
        (requirements_assert C \<longrightarrow> binds C Rvref h \<and> v166_two_arg_handler_test C h Error_code C_int = 1) \<and>
        binds C Rvref h \<and> h_call h [Lvalue Error_code, Lvalue C_int])"

definition v166_handshake_handler_check :: "compiler \<Rightarrow> handler \<Rightarrow> bool" where
  [handler_tests]: "v166_handshake_handler_check C h \<longleftrightarrow>
     (requirements C \<longrightarrow>
        (requirements_assert C \<longrightarrow> binds C Rvref h \<and> v166_one_arg_handler_test C h Error_code = 1) \<and>
        binds C Rvref h \<and> h_call h [Lvalue Error_code])"

definition v166_shutdown_handler_check :: "compiler \<Rightarrow> handler \<Rightarrow> bool" where
  [handler_tests]: "v166_shutdown_handler_check C h \<longleftrightarrow>
     (requirements C \<longrightarrow>
        (requirements_assert C \<longrightarrow> binds C Rvref h \<and> v166_one_arg_handler_test C h Error_code = 1) \<and>
        binds C Rvref h \<and> h_call h [Lvalue Error_code])"

section \<open>Boost 1.66: handler_type_requirements_ext_local\<close>

definition v166_local_zero_arg_copyable_handler_test :: "compiler \<Rightarrow> handler \<Rightarrow> nat" where
  [handler_tests]: "v166_local_zero_arg_copyable_handler_test C h =
     (if constructs_copied h \<and> h_call h [] then 1 else 2)"

definition v166_local_one_arg_handler_test :: "compiler \<Rightarrow> handler \<Rightarrow> arg_type \<Rightarrow> nat" where
  [handler_tests]: "v166_local_one_arg_handler_test C h a1 =
     (if constructs_moved C h \<and> h_call h [Lvalue a1] then 1 else 2)"

definition v166_local_two_arg_handler_test :: "compiler \<Rightarrow> handler \<Rightarrow> arg_type \<Rightarrow> arg_type \<Rightarrow> nat" where
  [handler_tests]: "v166_local_two_arg_handler_test C h a1 a2 =
     (if constructs_moved C h \<and> h_call h [Lvalue a1, Lvalue a2] then 1 else 2)"

definition v166_local_two_arg_move_handler_test :: "compiler \<Rightarrow> handler \<Rightarrow> arg_type \<Rightarrow> arg_type \<Rightarrow> nat" where
  [handler_tests]: "v166_local_two_arg_move_handler_test C h a1 a2 =
     (if constructs_moved C h \<and> h_call h [Lvalue a1, moved C a2] then 1 else 2)"

definition v166_local_four_arg_handler_test :: "compiler \<Rightarrow> handler \<Rightarrow> arg_type \<Rightarrow> arg_type \<Rightarrow> arg_type \<Rightarrow> arg_type \<Rightarrow> nat" where
  [handler_tests]: "v166_local_four_arg_handler_test C h a1 a2 a3 a4 =
     (if constructs_moved C h \<and> h_call h [Lvalue a1, Lvalue a2, Lvalue a3, Lvalue a4] then 1 else 2)"

definition v166_local_four_arg_move_handler_test :: "compiler \<Rightarrow> handler \<Rightarrow> arg_type \<Rightarrow> arg_type \<Rightarrow> arg_type \<Rightarrow> arg_type \<Rightarrow> nat" where
  [handler_tests]: "v166_local_four_arg_move_handler_test C h a1 a2 a3 a4 =
     (if constructs_moved C h \<and> h_call h [Lvalue a1, moved C a2, moved C a3, moved C a4] then 1 else 2)"

definition v166_local_completion_handler_check :: "compiler \<Rightarrow> handler \<Rightarrow> bool" where
  [handler_tests]: "v166_local_completion_handler_check C h \<longleftrightarrow>
     (requirements C \<longrightarrow>
        (requirements_assert C \<longrightarrow> binds C Clvref h \<and> v166_local_zero_arg_copyable_handler_test C h = 1) \<and>
        binds C Clvref h \<and> h_call h [])"

definition v166_local_read_handler_check_ext_local :: "compiler \<Rightarrow> handler \<Rightarrow> bool" where
  [handler_tests]: "v166_local_read_handler_check_ext_local C h \<longleftrightarrow>
     (requirements C \<and>
        (requirements_assert C \<longrightarrow> binds C Clvref h \<and> v166_local_four_arg_handler_test C h Error_code Size Uint32 Uint32 = 1) \<and>
        binds C Clvref h \<and> h_call h [Lvalue Error_code, Lvalue Size, Lvalue Uint32, Lvalue Uint32])"

definition v166_local_write_handler_check :: "compiler \<Rightarrow> handler \<Rightarrow> bool" where
  [handler_tests]: "v166_local_write_handler_check C h \<longleftrightarrow>
     (requirements C \<longrightarrow>
        (requirements_assert C \<longrightarrow> binds C Rvref h \<and> v166_local_two_arg_handler_test C h Error_code Size = 1) \<and>
        binds C Rvref h \<and> h_call h [Lvalue Error_code, Lvalue Size])"

definition v166_local_accept_handler_check :: "compiler \<Rightarrow> handler \<Rightarrow> bool" where
  [handler_tests]: "v166_local_accept_handler_check C h \<longleftrightarrow>
     (requirements C \<longrightarrow>
        (requirements_assert C \<longrightarrow> binds C Rvref h \<and> v166_local_one_arg_handler_test C h Error_code = 1) \<and>
        binds C Rvref h \<and> h_call h [Lvalue Error_code])"

definition v166_local_move_accept_handler_check :: "compiler \<Rightarrow> arg_type \<Rightarrow> handler \<Rightarrow> bool" where
  [handler_tests]: "v166_local_move_accept_handler_check C t h \<longleftrightarrow>
     (requirements C \<longrightarrow>
        (requirements_assert C \<longrightarrow> binds C Rvref h \<and> v166_local_two_arg_move_handler_test C h Error_code t = 1) \<and>
        binds C Rvref h \<and> h_call h [Lvalue Error_code, moved C t])"

definition v166_local_connect_handler_check :: "compiler \<Rightarrow> handler \<Rightarrow> bool" where
  [handler_tests]: "v166_local_connect_handler_check C h \<longleftrightarrow>
     (requirements C \<longrightarrow>
        (requirements_assert C \<longrightarrow> binds C Rvref h \<and> v166_local_one_arg_handler_test C h Error_code = 1) \<and>
        binds C Rvref h \<and> h_call h [Lvalue Error_code])"

definition v166_local_range_connect_handler_check :: "compiler \<Rightarrow> arg_type \<Rightarrow> handler \<Rightarrow> bool" where
  [handler_tests]: "v166_local_range_connect_handler_check C t h \<longleftrightarrow>
     (requirements C \<longrightarrow>
        (requirements_assert C \<longrightarrow> binds C Rvref h \<and> v166_local_two_arg_handler_test C h Error_code t = 1) \<and>
        binds C Rvref h \<and> h_call h [Lvalue Error_code, Lvalue t])"

definition v166_local_iterator_connect_handler_check :: "compiler \<Rightarrow> arg_type \<Rightarrow> handler \<Rightarrow> bool" where
  [handler_tests]: "v166_local_iterator_connect_handler_check C t h \<longleftrightarrow>
     (requirements C \<longrightarrow>
        (requirements_assert C \<longrightarrow> binds C Rvref h \<and> v166_local_two_arg_handler_test C h Error_code t = 1) \<and>
        binds C Rvref h \<and> h_call h [Lvalue Error_code, Lvalue t])"

definition v166_local_resolve_handler_check :: "compiler \<Rightarrow> arg_type \<Rightarrow> handler \<Rightarrow> bool" where
  [handler_tests]: "v166_local_resolve_handler_check C t h \<longleftrightarrow>
     (requirements C \<longrightarrow>
        (requirements_assert C \<longrightarrow> binds C Rvref h \<and> v166_local_two_arg_handler_test C h Error_code t = 1) \<and>
        binds C Rvref h \<and> h_call h [Lvalue Error_code, Lvalue t])"

definition v166_local_wait_handler_check :: "compiler \<Rightarrow> handler \<Rightarrow> bool" where
  [handler_tests]: "v166_local_wait_handler_check C h \<longleftrightarrow>
     (requirements C \<longrightarrow>
        (requirements_assert C \<longrightarrow> binds C Rvref h \<and> v166_local_one_arg_handler_test C h Error_code = 1) \<and>
        binds C Rvref h \<and> h_call h [Lvalue Error_code])"

definition v166_local_signal_handler_check :: "compiler \<Rightarrow> handler \<Rightarrow> bool" where
  [handler_tests]: "v166_local_signal_handler_check C h \<longleftrightarrow>
     (requirements C \<longrightarrow>
        (requirements_assert C \<longrightarrow> binds C Rvref h \<and> v166_local_two_arg_handler_test C h Error_code C_int = 1) \<and>
        binds C Rvref h \<and> h_call h [Lvalue Error_code, Lvalue C_int])"

definition v166_local_handshake_handler_check :: "compiler \<Rightarrow> handler \<Rightarrow> bool" where
  [handler_tests]: "v166_local_handshake_handler_check C h \<longleftrightarrow>
     (requirements C \<longrightarrow>
        (requirements_assert C \<longrightarrow> binds C Rvref h \<and> v166_local_one_arg_handler_test C h Error_code = 1) \<and>
        binds C Rvref h \<and> h_call h [Lvalue Error_code])"

definition v166_local_buffered_handshake_handler_check :: "compiler \<Rightarrow> handler \<Rightarrow> bool" where
  [handler_tests]: "v166_local_buffered_handshake_handler_check C h \<longleftrightarrow>
     (requirements C \<longrightarrow>
        (requirements_assert C \<longrightarrow> binds C Rvref h \<and> v166_local_two_arg_handler_test C h Error_code Size = 1) \<and>
        binds C Rvref h \<and> h_call h [Lvalue Error_code, Lvalue Size])"

definition v166_local_shutdown_handler_check :: "compiler \<Rightarrow> handler \<Rightarrow> bool" where
  [handler_tests]: "v166_local_shutdown_handler_check C h \<longleftrightarrow>
     (requirements C \<longrightarrow>
        (requirements_assert C \<longrightarrow> binds C Rvref h \<and> v166_local_one_arg_handler_test C h Error_code = 1) \<and>
        binds C Rvref h \<and> h_call h [Lvalue Error_code])"

section \<open>Boost 1.55: handler_type_requirements_ext\<close>

definition v155_zero_arg_handler_test :: "compiler \<Rightarrow> handler \<Rightarrow> nat" where
  [handler_tests]: "v155_zero_arg_handler_test C h =
     (if constructs_copied h \<and> h_call h [] then 1 else 2)"

definition v155_one_arg_handler_test :: "compiler \<Rightarrow> handler \<Rightarrow> arg_type \<Rightarrow> nat" where
  [handler_tests]: "v155_one_arg_handler_test C h a1 =
     (if constructs_copied h \<and> h_call h [Lvalue a1] then 1 else 2)"

definition v155_two_arg_handler_test :: "compiler \<Rightarrow> handler \<Rightarrow> arg_type \<Rightarrow> arg_type \<Rightarrow> nat" where
  [handler_tests]: "v155_two_arg_handler_test C h a1 a2 =
     (if constructs_copied h \<and> h_call h [Lvalue a1, Lvalue a2] then 1 else 2)"

definition v155_three_arg_handler_test :: "compiler \<Rightarrow> handler \<Rightarrow> arg_type \<Rightarrow> arg_type \<Rightarrow> arg_type \<Rightarrow> nat" where
  [handler_tests]: "v155_three_arg_handler_test C h a1 a2 a3 =
     (if constructs_copied h \<and> h_call h [Lvalue a1, Lvalue a2, Lvalue a3] then 1 else 2)"

definition v155_completion_handler_check :: "compiler \<Rightarrow> handler \<Rightarrow> bool" where
  [handler_tests]: "v155_completion_handler_check C h \<longleftrightarrow>
     (requirements C \<longrightarrow>
        (requirements_assert C \<longrightarrow> binds C Clvref h \<and> v155_zero_arg_handler_test C h = 1) \<and>
        binds C Clvref h \<and> h_call h [])"

definition v155_read_handler_check_ext :: "compiler \<Rightarrow> handler \<Rightarrow> bool" where
  [handler_tests]: "v155_read_handler_check_ext C h \<longleftrightarrow>
     (requirements C \<and>
        (requirements_assert C \<longrightarrow> binds C Clvref h \<and> v155_three_arg_handler_test C h Error_code Size Address = 1) \<and>
        binds C Clvref h \<and> h_call h [Lvalue Error_code, Lvalue Size, Lvalue Address])"

definition v155_write_handler_check :: "compiler \<Rightarrow> handler \<Rightarrow> bool" where
  [handler_tests]: "v155_write_handler_check C h \<longleftrightarrow>
     (requirements C \<longrightarrow>
        (requirements_assert C \<longrightarrow> binds C Clvref h \<and> v155_two_arg_handler_test C h Error_code Size = 1) \<and>
        binds C Clvref h \<and> h_call h [Lvalue Error_code, Lvalue Size])"

definition v155_accept_handler_check :: "compiler \<Rightarrow> handler \<Rightarrow> bool" where
  [handler_tests]: "v155_accept_handler_check C h \<longleftrightarrow>
     (requirements C \<longrightarrow>
        (requirements_assert C \<longrightarrow> binds C Clvref h \<and> v155_one_arg_handler_test C h Error_code = 1) \<and>
        binds C Clvref h \<and> h_call h [Lvalue Error_code])"

definition v155_connect_handler_check :: "compiler \<Rightarrow> handler \<Rightarrow> bool" where
  [handler_tests]: "v155_connect_handler_check C h \<longleftrightarrow>
     (requirements C \<longrightarrow>
        (requirements_assert C \<longrightarrow> binds C Clvref h \<and> v155_one_arg_handler_test C h Error_code = 1) \<and>
        binds C Clvref h \<and> h_call h [Lvalue Error_code])"

definition v155_composed_connect_handler_check :: "compiler \<Rightarrow> arg_type \<Rightarrow> handler \<Rightarrow> bool" where
  [handler_tests]: "v155_composed_connect_handler_check C t h \<longleftrightarrow>
     (requirements C \<longrightarrow>
        (requirements_assert C \<longrightarrow> binds C Clvref h \<and> v155_two_arg_handler_test C h Error_code t = 1) \<and>
        binds C Clvref h \<and> h_call h [Lvalue Error_code, Lvalue t])"

definition v155_resolve_handler_check :: "compiler \<Rightarrow> arg_type \<Rightarrow> handler \<Rightarrow> bool" where
  [handler_tests]: "v155_resolve_handler_check C t h \<longleftrightarrow>
     (requirements C \<longrightarrow>
        (requirements_assert C \<longrightarrow> binds C Clvref h \<and> v155_two_arg_handler_test C h Error_code t = 1) \<and>
        binds C Clvref h \<and> h_call h [Lvalue Error_code, Lvalue t])"

definition v155_wait_handler_check :: "compiler \<Rightarrow> handler \<Rightarrow> bool" where
  [handler_tests]: "v155_wait_handler_check C h \<longleftrightarrow>
     (requirements C \<longrightarrow>
        (requirements_assert C \<longrightarrow> binds C Clvref h \<and> v155_one_arg_handler_test C h Error_code = 1) \<and>
        binds C Clvref h \<and> h_call h [Lvalue Error_code])"

definition v155_signal_handler_check :: "compiler \<Rightarrow> handler \<Rightarrow> bool" where
  [handler_tests]: "v155_signal_handler_check C h \<longleftrightarrow>
     (requirements C \<longrightarrow>
        (requirements_assert C \<longrightarrow> binds C Clvref h \<and> v155_two_arg_handler_test C h Error_code C_int = 1) \<and>
        binds C Clvref h \<and> h_call h [Lvalue Error_code, Lvalue C_int])"

definition v155_handshake_handler_check :: "compiler \<Rightarrow> handler \<Rightarrow> bool" where
  [handler_tests]: "v155_handshake_handler_check C h \<longleftrightarrow>
     (requirements C \<longrightarrow>
        (requirements_assert C \<longrightarrow> binds C Clvref h \<and> v155_one_arg_handler_test C h Error_code = 1) \<and>
        binds C Clvref h \<and> h_call h [Lvalue Error_code])"

definition v155_buffered_handshake_handler_check :: "compiler \<Rightarrow> handler \<Rightarrow> bool" where
  [handler_tests]: "v155_buffered_handshake_handler_check C h \<longleftrightarrow>
     (requirements C \<longrightarrow>
        (requirements_assert C \<longrightarrow> binds C Clvref h \<and> v155_two_arg_handler_test C h Error_code Size = 1) \<and>
        binds C Clvref h \<and> h_call h [Lvalue Error_code, Lvalue Size])"

definition v155_shutdown_handler_check :: "compiler \<Rightarrow> handler \<Rightarrow> bool" where
  [handler_tests]: "v155_shutdown_handler_check C h \<longleftrightarrow>
     (requirements C \<longrightarrow>
        (requirements_assert C \<longrightarrow> binds C Clvref h \<and> v155_one_arg_handler_test C h Error_code = 1) \<and>
        binds C Clvref h \<and> h_call h [Lvalue Error_code])"

section \<open>Boost 1.55: handler_type_requirements_ext_local\<close>

definition v155_local_zero_arg_handler_test :: "compiler \<Rightarrow> handler \<Rightarrow> nat" where
  [handler_tests]: "v155_local_zero_arg_handler_test C h =
     (if constructs_copied h \<and> h_call h [] then 1 else 2)"

definition v155_local_one_arg_handler_test :: "compiler \<Rightarrow> handler \<Rightarrow> arg_type \<Rightarrow> nat" where
  [handler_tests]: "v155_local_one_arg_handler_test C h a1 =
     (if constructs_copied h \<and> h_call h [Lvalue a1] then 1 else 2)"

definition v155_local_two_arg_handler_test :: "compiler \<Rightarrow> handler \<Rightarrow> arg_type \<Rightarrow> arg_type \<Rightarrow> nat" where
  [handler_tests]: "v155_local_two_arg_handler_test C h a1 a2 =
     (if constructs_copied h \<and> h_call h [Lvalue a1, Lvalue a2] then 1 else 2)"

definition v155_local_three_arg_handler_test :: "compiler \<Rightarrow> handler \<Rightarrow> arg_type \<Rightarrow> arg_type \<Rightarrow> arg_type \<Rightarrow> nat" where
  [handler_tests]: "v155_local_three_arg_handler_test C h a1 a2 a3 =
     (if constructs_copied h \<and> h_call h [Lvalue a1, Lvalue a2, Lvalue a3] then 1 else 2)"

definition v155_local_four_arg_handler_test :: "compiler \<Rightarrow> handler \<Rightarrow> arg_type \<Rightarrow> arg_type \<Rightarrow> arg_type \<Rightarrow> arg_type \<Rightarrow> nat" where
  [handler_tests]: "v155_local_four_arg_handler_test C h a1 a2 a3 a4 =
     (if constructs_copied h \<and> h_call h [Lvalue a1, Lvalue a2, Lvalue a3, Lvalue a4] then 1 else 2)"

definition v155_local_completion_handler_check :: "compiler \<Rightarrow> handler \<Rightarrow> bool" where
  [handler_tests]: "v155_local_completion_handler_check C h \<longleftrightarrow>
     (requirements C \<longrightarrow>
        (requirements_assert C \<longrightarrow> binds C Clvref h \<and> v155_local_zero_arg_handler_test C h = 1) \<and>
        binds C Clvref h \<and> h_call h [])"

definition v155_local_read_handler_check_ext_local :: "compiler \<Rightarrow> handler \<Rightarrow> bool" where
  [handler_tests]: "v155_local_read_handler_check_ext_local C h \<longleftrightarrow>
     (requirements C \<and>
        (requirements_assert C \<longrightarrow> binds C Clvref h \<and> v155_local_four_arg_handler_test C h Error_code Size Uint32 Uint32 = 1) \<and>
        binds C Clvref h \<and> h_call h [Lvalue Error_code, Lvalue Size, Lvalue Uint32, Lvalue Uint32])"

definition v155_local_write_handler_check :: "compiler \<Rightarrow> handler \<Rightarrow> bool" where
  [handler_tests]: "v155_local_write_handler_check C h \<longleftrightarrow>
     (requirements C \<longrightarrow>
        (requirements_assert C \<longrightarrow> binds C Clvref h \<and> v155_local_two_arg_handler_test C h Error_code Size = 1) \<and>
        binds C Clvref h \<and> h_call h [Lvalue Error_code, Lvalue Size])"

definition v155_local_accept_handler_check :: "compiler \<Rightarrow> handler \<Rightarrow> bool" where
  [handler_tests]: "v155_local_accept_handler_check C h \<longleftrightarrow>
     (requirements C \<longrightarrow>
        (requirements_assert C \<longrightarrow> binds C Clvref h \<and> v155_local_one_arg_handler_test C h Error_code = 1) \<and>
        binds C Clvref h \<and> h_call h [Lvalue Error_code])"

definition v155_local_connect_handler_check :: "compiler \<Rightarrow> handler \<Rightarrow> bool" where
  [handler_tests]: "v155_local_connect_handler_check C h \<longleftrightarrow>
     (requirements C \<longrightarrow>
        (requirements_assert C \<longrightarrow> binds C Clvref h \<and> v155_local_one_arg_handler_test C h Error_code = 1) \<and>
        binds C Clvref h \<and> h_call h [Lvalue Error_code])"

definition v155_local_composed_connect_handler_check :: "compiler \<Rightarrow> arg_type \<Rightarrow> handler \<Rightarrow> bool" where
  [handler_tests]: "v155_local_composed_connect_handler_check C t h \<longleftrightarrow>
     (requirements C \<longrightarrow>
        (requirements_assert C \<longrightarrow> binds C Clvref h \<and> v155_local_two_arg_handler_test C h Error_code t = 1) \<and>
        binds C Clvref h \<and> h_call h [Lvalue Error_code, Lvalue t])"

definition v155_local_resolve_handler_check :: "compiler \<Rightarrow> arg_type \<Rightarrow> handler \<Rightarrow> bool" where
  [handler_tests]: "v155_local_resolve_handler_check C t h \<longleftrightarrow>
     (requirements C \<longrightarrow>
        (requirements_assert C \<longrightarrow> binds C Clvref h \<and> v155_local_two_arg_handler_test C h Error_code t = 1) \<and>
        binds C Clvref h \<and> h_call h [Lvalue Error_code, Lvalue t])"

definition v155_local_wait_handler_check :: "compiler \<Rightarrow> handler \<Rightarrow> bool" where
  [handler_tests]: "v155_local_wait_handler_check C h \<longleftrightarrow>
     (requirements C \<longrightarrow>
        (requirements_assert C \<longrightarrow> binds C Clvref h \<and> v155_local_one_arg_handler_test C h Error_code = 1) \<and>
        binds C Clvref h \<and> h_call h [Lvalue Error_code])"

definition v155_local_signal_handler_check :: "compiler \<Rightarrow> handler \<Rightarrow> bool" where
  [handler_tests]: "v155_local_signal_handler_check C h \<longleftrightarrow>
     (requirements C \<longrightarrow>
        (requirements_assert C \<longrightarrow> binds C Clvref h \<and> v155_local_two_arg_handler_test C h Error_code C_int = 1) \<and>
        binds C Clvref h \<and> h_call h [Lvalue Error_code, Lvalue C_int])"

definition v155_local_handshake_handler_check :: "compiler \<Rightarrow> handler \<Rightarrow> bool" where
  [handler_tests]: "v155_local_handshake_handler_check C h \<longleftrightarrow>
     (requirements C \<longrightarrow>
        (requirements_assert C \<longrightarrow> binds C Clvref h \<and> v155_local_one_arg_handler_test C h Error_code = 1) \<and>
        binds C Clvref h \<and> h_call h [Lvalue Error_code])"

definition v155_local_buffered_handshake_handler_check :: "compiler \<Rightarrow> handler \<Rightarrow> bool" where
  [handler_tests]: "v155_local_buffered_handshake_handler_check C h \<longleftrightarrow>
     (requirements C \<longrightarrow>
        (requirements_assert C \<longrightarrow> binds C Clvref h \<and> v155_local_two_arg_handler_test C h Error_code Size = 1) \<and>
        binds C Clvref h \<and> h_call h [Lvalue Error_code, Lvalue Size])"

definition v155_local_shutdown_handler_check :: "compiler \<Rightarrow> handler \<Rightarrow> bool" where
  [handler_tests]: "v155_local_shutdown_handler_check C h \<longleftrightarrow>
     (requirements C \<longrightarrow>
        (requirements_assert C \<longrightarrow> binds C Clvref h \<and> v155_local_one_arg_handler_test C h Error_code = 1) \<and>
        binds C Clvref h \<and> h_call h [Lvalue Error_code])"

end
