(* ===== verification/Handler_Interfaces.thy ===== *)
theory Handler_Interfaces imports Handler_Checks begin

text \<open>
  The asynchronous functions of the socket front ends, in all four versions, as far as the types of
  their handlers go: which signature a function announces in its return type, which signature the result
  is initialised with, how it checks the handler, and with which arguments the operation it starts calls
  the handler.  These are the functions that transfer data, of datagram and stream sockets, with those
  that differ in a flags argument only, and the connect and the wait of local sockets in 1.70 and 1.74.
  Not listed are the functions of the acceptors, and every connect and wait that is checked by Boost's own
  header: those of \<open>basic_socket_ext\<close>, and in 1.66 also those of local sockets.
\<close>

text \<open>
  Boost's own operations, for sending, connecting and waiting, and its operation for \<open>null_buffers\<close>, are
  not part of the repository.
\<close>

record boost_calls =
  send_call :: "argument list"
  connect_call :: "argument list"
  wait_call :: "argument list"
  null_buffers_call :: "argument list"

record async_interface =
  announces :: "arg_type list"
  completes :: "arg_type list"
  checks :: "compiler \<Rightarrow> handler \<Rightarrow> bool"
  calls_with :: "argument list"

named_theorems async_interfaces \<open>signatures of the asynchronous functions\<close>

text \<open>
  Every function that transfers data can also be given \<open>null_buffers\<close>.  The front end announces and
  checks the same, but the service has an overload that starts Boost's operation for \<open>null_buffers\<close>.
\<close>

definition with_null_buffers :: "boost_calls \<Rightarrow> async_interface \<Rightarrow> async_interface" where
  [async_interfaces]: "with_null_buffers Boost f = f\<lparr>calls_with := null_buffers_call Boost\<rparr>"

section \<open>Boost 1.74\<close>

definition recv_call :: "argument list" where
  [async_interfaces]: "recv_call = [Lvalue Error_code, Lvalue Size, Lvalue Address]"

definition recvfrom_call :: "argument list" where
  [async_interfaces]: "recvfrom_call = [Lvalue Error_code, Lvalue Size, Lvalue Address]"

definition local_recv_call :: "argument list" where
  [async_interfaces]: "local_recv_call = [Lvalue Error_code, Lvalue Size, Lvalue Uint32, Lvalue Uint32]"

definition ds_initiate_async_send_check :: "compiler \<Rightarrow> handler \<Rightarrow> bool" where
  [async_interfaces]: "ds_initiate_async_send_check C h = write_handler_check C h"

definition ds_async_send_interface :: "boost_calls \<Rightarrow> async_interface" where
  [async_interfaces]: "ds_async_send_interface Boost =
     \<lparr>announces = [Error_code, Size], completes = [Error_code, Size],
      checks = ds_initiate_async_send_check, calls_with = send_call Boost\<rparr>"

definition ds_async_send_flags_interface :: "boost_calls \<Rightarrow> async_interface" where
  [async_interfaces]: "ds_async_send_flags_interface Boost =
     \<lparr>announces = [Error_code, Size], completes = [Error_code, Size],
      checks = ds_initiate_async_send_check, calls_with = send_call Boost\<rparr>"

definition ds_initiate_async_send_to_check :: "compiler \<Rightarrow> handler \<Rightarrow> bool" where
  [async_interfaces]: "ds_initiate_async_send_to_check C h = write_handler_check C h"

definition ds_async_send_to_interface :: "boost_calls \<Rightarrow> async_interface" where
  [async_interfaces]: "ds_async_send_to_interface Boost =
     \<lparr>announces = [Error_code, Size], completes = [Error_code, Size],
      checks = ds_initiate_async_send_to_check, calls_with = send_call Boost\<rparr>"

definition ds_async_send_to_flags_interface :: "boost_calls \<Rightarrow> async_interface" where
  [async_interfaces]: "ds_async_send_to_flags_interface Boost =
     \<lparr>announces = [Error_code, Size], completes = [Error_code, Size],
      checks = ds_initiate_async_send_to_check, calls_with = send_call Boost\<rparr>"

definition ds_initiate_async_receive_check :: "compiler \<Rightarrow> handler \<Rightarrow> bool" where
  [async_interfaces]: "ds_initiate_async_receive_check C h = read_handler_check_ext C h"

definition ds_async_receive_interface :: "boost_calls \<Rightarrow> async_interface" where
  [async_interfaces]: "ds_async_receive_interface Boost =
     \<lparr>announces = [Error_code, Size, Address], completes = [Error_code, Size, Address],
      checks = ds_initiate_async_receive_check, calls_with = recv_call\<rparr>"

definition ds_async_receive_flags_interface :: "boost_calls \<Rightarrow> async_interface" where
  [async_interfaces]: "ds_async_receive_flags_interface Boost =
     \<lparr>announces = [Error_code, Size, Address], completes = [Error_code, Size, Address],
      checks = ds_initiate_async_receive_check, calls_with = recv_call\<rparr>"

definition ds_initiate_async_receive_from_check :: "compiler \<Rightarrow> handler \<Rightarrow> bool" where
  [async_interfaces]: "ds_initiate_async_receive_from_check C h = read_handler_check_ext C h"

definition ds_async_receive_from_interface :: "boost_calls \<Rightarrow> async_interface" where
  [async_interfaces]: "ds_async_receive_from_interface Boost =
     \<lparr>announces = [Error_code, Size, Address], completes = [Error_code, Size, Address],
      checks = ds_initiate_async_receive_from_check, calls_with = recvfrom_call\<rparr>"

definition ds_async_receive_from_flags_interface :: "boost_calls \<Rightarrow> async_interface" where
  [async_interfaces]: "ds_async_receive_from_flags_interface Boost =
     \<lparr>announces = [Error_code, Size, Address], completes = [Error_code, Size, Address],
      checks = ds_initiate_async_receive_from_check, calls_with = recvfrom_call\<rparr>"

definition ss_initiate_async_send_check :: "compiler \<Rightarrow> handler \<Rightarrow> bool" where
  [async_interfaces]: "ss_initiate_async_send_check C h = local_write_handler_check C h"

definition ss_async_send_interface :: "boost_calls \<Rightarrow> async_interface" where
  [async_interfaces]: "ss_async_send_interface Boost =
     \<lparr>announces = [Error_code, Size], completes = [Error_code, Size],
      checks = ss_initiate_async_send_check, calls_with = send_call Boost\<rparr>"

definition ss_async_send_flags_interface :: "boost_calls \<Rightarrow> async_interface" where
  [async_interfaces]: "ss_async_send_flags_interface Boost =
     \<lparr>announces = [Error_code, Size], completes = [Error_code, Size],
      checks = ss_initiate_async_send_check, calls_with = send_call Boost\<rparr>"

definition ss_initiate_async_receive_check :: "compiler \<Rightarrow> handler \<Rightarrow> bool" where
  [async_interfaces]: "ss_initiate_async_receive_check C h = local_read_handler_check_ext_local C h"

definition ss_async_receive_interface :: "boost_calls \<Rightarrow> async_interface" where
  [async_interfaces]: "ss_async_receive_interface Boost =
     \<lparr>announces = [Error_code, Size, Uint32, Uint32], completes = [Error_code, Size, Uint32, Uint32],
      checks = ss_initiate_async_receive_check, calls_with = local_recv_call\<rparr>"

definition ss_async_receive_flags_interface :: "boost_calls \<Rightarrow> async_interface" where
  [async_interfaces]: "ss_async_receive_flags_interface Boost =
     \<lparr>announces = [Error_code, Size, Uint32, Uint32], completes = [Error_code, Size, Uint32, Uint32],
      checks = ss_initiate_async_receive_check, calls_with = local_recv_call\<rparr>"

definition ss_async_write_some_interface :: "boost_calls \<Rightarrow> async_interface" where
  [async_interfaces]: "ss_async_write_some_interface Boost =
     \<lparr>announces = [Error_code, Size, Uint32, Uint32], completes = [Error_code, Size, Uint32, Uint32],
      checks = ss_initiate_async_send_check, calls_with = send_call Boost\<rparr>"

definition ss_async_read_some_interface :: "boost_calls \<Rightarrow> async_interface" where
  [async_interfaces]: "ss_async_read_some_interface Boost =
     \<lparr>announces = [Error_code, Size, Uint32, Uint32], completes = [Error_code, Size, Uint32, Uint32],
      checks = ss_initiate_async_receive_check, calls_with = local_recv_call\<rparr>"

definition local_bs_initiate_async_connect_check :: "compiler \<Rightarrow> handler \<Rightarrow> bool" where
  [async_interfaces]: "local_bs_initiate_async_connect_check C h = connect_handler_check C h"

definition local_bs_async_connect_interface :: "boost_calls \<Rightarrow> async_interface" where
  [async_interfaces]: "local_bs_async_connect_interface Boost =
     \<lparr>announces = [Error_code], completes = [Error_code],
      checks = local_bs_initiate_async_connect_check, calls_with = connect_call Boost\<rparr>"

definition local_bs_initiate_async_wait_check :: "compiler \<Rightarrow> handler \<Rightarrow> bool" where
  [async_interfaces]: "local_bs_initiate_async_wait_check C h = wait_handler_check C h"

definition local_bs_async_wait_interface :: "boost_calls \<Rightarrow> async_interface" where
  [async_interfaces]: "local_bs_async_wait_interface Boost =
     \<lparr>announces = [Error_code], completes = [Error_code],
      checks = local_bs_initiate_async_wait_check, calls_with = wait_call Boost\<rparr>"

definition transfer_functions :: "boost_calls \<Rightarrow> async_interface list" where
  [async_interfaces]: "transfer_functions Boost =
     [ds_async_send_interface Boost,
      ds_async_send_flags_interface Boost,
      ds_async_send_to_interface Boost,
      ds_async_send_to_flags_interface Boost,
      ds_async_receive_interface Boost,
      ds_async_receive_flags_interface Boost,
      ds_async_receive_from_interface Boost,
      ds_async_receive_from_flags_interface Boost,
      ss_async_send_interface Boost,
      ss_async_send_flags_interface Boost,
      ss_async_receive_interface Boost,
      ss_async_receive_flags_interface Boost,
      ss_async_write_some_interface Boost,
      ss_async_read_some_interface Boost]"

definition async_functions :: "boost_calls \<Rightarrow> async_interface list" where
  [async_interfaces]: "async_functions Boost = transfer_functions Boost @
     [local_bs_async_connect_interface Boost, local_bs_async_wait_interface Boost]"

section \<open>Boost 1.70\<close>

definition v170_recv_call :: "argument list" where
  [async_interfaces]: "v170_recv_call = [Lvalue Error_code, Lvalue Size, Lvalue Address]"

definition v170_recvfrom_call :: "argument list" where
  [async_interfaces]: "v170_recvfrom_call = [Lvalue Error_code, Lvalue Size, Lvalue Address]"

definition v170_local_recv_call :: "argument list" where
  [async_interfaces]: "v170_local_recv_call = [Lvalue Error_code, Lvalue Size, Lvalue Uint32, Lvalue Uint32]"

definition v170_ds_initiate_async_send_check :: "compiler \<Rightarrow> handler \<Rightarrow> bool" where
  [async_interfaces]: "v170_ds_initiate_async_send_check C h = v170_write_handler_check C h"

definition v170_ds_async_send_interface :: "boost_calls \<Rightarrow> async_interface" where
  [async_interfaces]: "v170_ds_async_send_interface Boost =
     \<lparr>announces = [Error_code, Size], completes = [Error_code, Size],
      checks = v170_ds_initiate_async_send_check, calls_with = send_call Boost\<rparr>"

definition v170_ds_async_send_flags_interface :: "boost_calls \<Rightarrow> async_interface" where
  [async_interfaces]: "v170_ds_async_send_flags_interface Boost =
     \<lparr>announces = [Error_code, Size], completes = [Error_code, Size],
      checks = v170_ds_initiate_async_send_check, calls_with = send_call Boost\<rparr>"

definition v170_ds_initiate_async_send_to_check :: "compiler \<Rightarrow> handler \<Rightarrow> bool" where
  [async_interfaces]: "v170_ds_initiate_async_send_to_check C h = v170_write_handler_check C h"

definition v170_ds_async_send_to_interface :: "boost_calls \<Rightarrow> async_interface" where
  [async_interfaces]: "v170_ds_async_send_to_interface Boost =
     \<lparr>announces = [Error_code, Size], completes = [Error_code, Size],
      checks = v170_ds_initiate_async_send_to_check, calls_with = send_call Boost\<rparr>"

definition v170_ds_async_send_to_flags_interface :: "boost_calls \<Rightarrow> async_interface" where
  [async_interfaces]: "v170_ds_async_send_to_flags_interface Boost =
     \<lparr>announces = [Error_code, Size], completes = [Error_code, Size],
      checks = v170_ds_initiate_async_send_to_check, calls_with = send_call Boost\<rparr>"

definition v170_ds_initiate_async_receive_check :: "compiler \<Rightarrow> handler \<Rightarrow> bool" where
  [async_interfaces]: "v170_ds_initiate_async_receive_check C h = v170_read_handler_check_ext C h"

definition v170_ds_async_receive_interface :: "boost_calls \<Rightarrow> async_interface" where
  [async_interfaces]: "v170_ds_async_receive_interface Boost =
     \<lparr>announces = [Error_code, Size, Address], completes = [Error_code, Size, Address],
      checks = v170_ds_initiate_async_receive_check, calls_with = v170_recv_call\<rparr>"

definition v170_ds_async_receive_flags_interface :: "boost_calls \<Rightarrow> async_interface" where
  [async_interfaces]: "v170_ds_async_receive_flags_interface Boost =
     \<lparr>announces = [Error_code, Size, Address], completes = [Error_code, Size, Address],
      checks = v170_ds_initiate_async_receive_check, calls_with = v170_recv_call\<rparr>"

definition v170_ds_initiate_async_receive_from_check :: "compiler \<Rightarrow> handler \<Rightarrow> bool" where
  [async_interfaces]: "v170_ds_initiate_async_receive_from_check C h = v170_read_handler_check_ext C h"

definition v170_ds_async_receive_from_interface :: "boost_calls \<Rightarrow> async_interface" where
  [async_interfaces]: "v170_ds_async_receive_from_interface Boost =
     \<lparr>announces = [Error_code, Size, Address], completes = [Error_code, Size, Address],
      checks = v170_ds_initiate_async_receive_from_check, calls_with = v170_recvfrom_call\<rparr>"

definition v170_ds_async_receive_from_flags_interface :: "boost_calls \<Rightarrow> async_interface" where
  [async_interfaces]: "v170_ds_async_receive_from_flags_interface Boost =
     \<lparr>announces = [Error_code, Size, Address], completes = [Error_code, Size, Address],
      checks = v170_ds_initiate_async_receive_from_check, calls_with = v170_recvfrom_call\<rparr>"

definition v170_ss_initiate_async_send_check :: "compiler \<Rightarrow> handler \<Rightarrow> bool" where
  [async_interfaces]: "v170_ss_initiate_async_send_check C h = v170_local_write_handler_check C h"

definition v170_ss_async_send_interface :: "boost_calls \<Rightarrow> async_interface" where
  [async_interfaces]: "v170_ss_async_send_interface Boost =
     \<lparr>announces = [Error_code, Size], completes = [Error_code, Size],
      checks = v170_ss_initiate_async_send_check, calls_with = send_call Boost\<rparr>"

definition v170_ss_async_send_flags_interface :: "boost_calls \<Rightarrow> async_interface" where
  [async_interfaces]: "v170_ss_async_send_flags_interface Boost =
     \<lparr>announces = [Error_code, Size], completes = [Error_code, Size],
      checks = v170_ss_initiate_async_send_check, calls_with = send_call Boost\<rparr>"

definition v170_ss_initiate_async_receive_check :: "compiler \<Rightarrow> handler \<Rightarrow> bool" where
  [async_interfaces]: "v170_ss_initiate_async_receive_check C h = v170_local_read_handler_check_ext_local C h"

definition v170_ss_async_receive_interface :: "boost_calls \<Rightarrow> async_interface" where
  [async_interfaces]: "v170_ss_async_receive_interface Boost =
     \<lparr>announces = [Error_code, Size, Uint32, Uint32], completes = [Error_code, Size, Uint32, Uint32],
      checks = v170_ss_initiate_async_receive_check, calls_with = v170_local_recv_call\<rparr>"

definition v170_ss_async_receive_flags_interface :: "boost_calls \<Rightarrow> async_interface" where
  [async_interfaces]: "v170_ss_async_receive_flags_interface Boost =
     \<lparr>announces = [Error_code, Size, Uint32, Uint32], completes = [Error_code, Size, Uint32, Uint32],
      checks = v170_ss_initiate_async_receive_check, calls_with = v170_local_recv_call\<rparr>"

definition v170_ss_async_write_some_interface :: "boost_calls \<Rightarrow> async_interface" where
  [async_interfaces]: "v170_ss_async_write_some_interface Boost =
     \<lparr>announces = [Error_code, Size, Uint32, Uint32], completes = [Error_code, Size, Uint32, Uint32],
      checks = v170_ss_initiate_async_send_check, calls_with = send_call Boost\<rparr>"

definition v170_ss_async_read_some_interface :: "boost_calls \<Rightarrow> async_interface" where
  [async_interfaces]: "v170_ss_async_read_some_interface Boost =
     \<lparr>announces = [Error_code, Size, Uint32, Uint32], completes = [Error_code, Size, Uint32, Uint32],
      checks = v170_ss_initiate_async_receive_check, calls_with = v170_local_recv_call\<rparr>"

definition v170_local_bs_initiate_async_connect_check :: "compiler \<Rightarrow> handler \<Rightarrow> bool" where
  [async_interfaces]: "v170_local_bs_initiate_async_connect_check C h = v170_connect_handler_check C h"

definition v170_local_bs_async_connect_interface :: "boost_calls \<Rightarrow> async_interface" where
  [async_interfaces]: "v170_local_bs_async_connect_interface Boost =
     \<lparr>announces = [Error_code], completes = [Error_code],
      checks = v170_local_bs_initiate_async_connect_check, calls_with = connect_call Boost\<rparr>"

definition v170_local_bs_initiate_async_wait_check :: "compiler \<Rightarrow> handler \<Rightarrow> bool" where
  [async_interfaces]: "v170_local_bs_initiate_async_wait_check C h = v170_wait_handler_check C h"

definition v170_local_bs_async_wait_interface :: "boost_calls \<Rightarrow> async_interface" where
  [async_interfaces]: "v170_local_bs_async_wait_interface Boost =
     \<lparr>announces = [Error_code], completes = [Error_code],
      checks = v170_local_bs_initiate_async_wait_check, calls_with = wait_call Boost\<rparr>"

definition v170_transfer_functions :: "boost_calls \<Rightarrow> async_interface list" where
  [async_interfaces]: "v170_transfer_functions Boost =
     [v170_ds_async_send_interface Boost,
      v170_ds_async_send_flags_interface Boost,
      v170_ds_async_send_to_interface Boost,
      v170_ds_async_send_to_flags_interface Boost,
      v170_ds_async_receive_interface Boost,
      v170_ds_async_receive_flags_interface Boost,
      v170_ds_async_receive_from_interface Boost,
      v170_ds_async_receive_from_flags_interface Boost,
      v170_ss_async_send_interface Boost,
      v170_ss_async_send_flags_interface Boost,
      v170_ss_async_receive_interface Boost,
      v170_ss_async_receive_flags_interface Boost,
      v170_ss_async_write_some_interface Boost,
      v170_ss_async_read_some_interface Boost]"

definition v170_async_functions :: "boost_calls \<Rightarrow> async_interface list" where
  [async_interfaces]: "v170_async_functions Boost = v170_transfer_functions Boost @
     [v170_local_bs_async_connect_interface Boost, v170_local_bs_async_wait_interface Boost]"

section \<open>Boost 1.66\<close>

definition v166_recv_call :: "argument list" where
  [async_interfaces]: "v166_recv_call = [Lvalue Error_code, Lvalue Size, Lvalue Address]"

definition v166_recvfrom_call :: "argument list" where
  [async_interfaces]: "v166_recvfrom_call = [Lvalue Error_code, Lvalue Size, Lvalue Address]"

definition v166_local_recv_call :: "argument list" where
  [async_interfaces]: "v166_local_recv_call = [Lvalue Error_code, Lvalue Size, Lvalue Uint32, Lvalue Uint32]"

definition v166_ss_service_async_send_completes :: "arg_type list" where
  [async_interfaces]: "v166_ss_service_async_send_completes = [Error_code, Size]"

definition v166_ss_service_async_receive_completes :: "arg_type list" where
  [async_interfaces]: "v166_ss_service_async_receive_completes = [Error_code, Size]"

definition v166_ds_async_send_interface :: "boost_calls \<Rightarrow> async_interface" where
  [async_interfaces]: "v166_ds_async_send_interface Boost =
     \<lparr>announces = [Error_code, Size], completes = [Error_code, Size],
      checks = v166_write_handler_check, calls_with = send_call Boost\<rparr>"

definition v166_ds_async_send_flags_interface :: "boost_calls \<Rightarrow> async_interface" where
  [async_interfaces]: "v166_ds_async_send_flags_interface Boost =
     \<lparr>announces = [Error_code, Size], completes = [Error_code, Size],
      checks = v166_write_handler_check, calls_with = send_call Boost\<rparr>"

definition v166_ds_async_send_to_interface :: "boost_calls \<Rightarrow> async_interface" where
  [async_interfaces]: "v166_ds_async_send_to_interface Boost =
     \<lparr>announces = [Error_code, Size], completes = [Error_code, Size],
      checks = v166_write_handler_check, calls_with = send_call Boost\<rparr>"

definition v166_ds_async_send_to_flags_interface :: "boost_calls \<Rightarrow> async_interface" where
  [async_interfaces]: "v166_ds_async_send_to_flags_interface Boost =
     \<lparr>announces = [Error_code, Size], completes = [Error_code, Size],
      checks = v166_write_handler_check, calls_with = send_call Boost\<rparr>"

definition v166_ds_async_receive_interface :: "boost_calls \<Rightarrow> async_interface" where
  [async_interfaces]: "v166_ds_async_receive_interface Boost =
     \<lparr>announces = [Error_code, Size, Address], completes = [Error_code, Size, Address],
      checks = v166_read_handler_check_ext, calls_with = v166_recv_call\<rparr>"

definition v166_ds_async_receive_flags_interface :: "boost_calls \<Rightarrow> async_interface" where
  [async_interfaces]: "v166_ds_async_receive_flags_interface Boost =
     \<lparr>announces = [Error_code, Size, Address], completes = [Error_code, Size, Address],
      checks = v166_read_handler_check_ext, calls_with = v166_recv_call\<rparr>"

definition v166_ds_async_receive_from_interface :: "boost_calls \<Rightarrow> async_interface" where
  [async_interfaces]: "v166_ds_async_receive_from_interface Boost =
     \<lparr>announces = [Error_code, Size, Address], completes = [Error_code, Size, Address],
      checks = v166_read_handler_check_ext, calls_with = v166_recvfrom_call\<rparr>"

definition v166_ds_async_receive_from_flags_interface :: "boost_calls \<Rightarrow> async_interface" where
  [async_interfaces]: "v166_ds_async_receive_from_flags_interface Boost =
     \<lparr>announces = [Error_code, Size, Address], completes = [Error_code, Size, Address],
      checks = v166_read_handler_check_ext, calls_with = v166_recvfrom_call\<rparr>"

definition v166_ss_async_send_interface :: "boost_calls \<Rightarrow> async_interface" where
  [async_interfaces]: "v166_ss_async_send_interface Boost =
     \<lparr>announces = [Error_code, Size], completes = [Error_code, Size],
      checks = v166_local_write_handler_check, calls_with = send_call Boost\<rparr>"

definition v166_ss_async_send_flags_interface :: "boost_calls \<Rightarrow> async_interface" where
  [async_interfaces]: "v166_ss_async_send_flags_interface Boost =
     \<lparr>announces = [Error_code, Size], completes = [Error_code, Size],
      checks = v166_local_write_handler_check, calls_with = send_call Boost\<rparr>"

definition v166_ss_async_receive_interface :: "boost_calls \<Rightarrow> async_interface" where
  [async_interfaces]: "v166_ss_async_receive_interface Boost =
     \<lparr>announces = [Error_code, Size, Uint32, Uint32], completes = [Error_code, Size, Uint32, Uint32],
      checks = v166_local_read_handler_check_ext_local, calls_with = v166_local_recv_call\<rparr>"

definition v166_ss_async_receive_flags_interface :: "boost_calls \<Rightarrow> async_interface" where
  [async_interfaces]: "v166_ss_async_receive_flags_interface Boost =
     \<lparr>announces = [Error_code, Size, Uint32, Uint32], completes = [Error_code, Size, Uint32, Uint32],
      checks = v166_local_read_handler_check_ext_local, calls_with = v166_local_recv_call\<rparr>"

definition v166_ss_async_write_some_interface :: "boost_calls \<Rightarrow> async_interface" where
  [async_interfaces]: "v166_ss_async_write_some_interface Boost =
     \<lparr>announces = [Error_code, Size], completes = [Error_code, Size],
      checks = v166_local_write_handler_check, calls_with = send_call Boost\<rparr>"

definition v166_ss_async_read_some_interface :: "boost_calls \<Rightarrow> async_interface" where
  [async_interfaces]: "v166_ss_async_read_some_interface Boost =
     \<lparr>announces = [Error_code, Size, Uint32, Uint32], completes = [Error_code, Size, Uint32, Uint32],
      checks = v166_local_read_handler_check_ext_local, calls_with = v166_local_recv_call\<rparr>"

definition v166_old_ss_async_send_interface :: "boost_calls \<Rightarrow> async_interface" where
  [async_interfaces]: "v166_old_ss_async_send_interface Boost =
     (v166_ss_async_send_interface Boost)\<lparr>completes := v166_ss_service_async_send_completes\<rparr>"

definition v166_old_ss_async_send_flags_interface :: "boost_calls \<Rightarrow> async_interface" where
  [async_interfaces]: "v166_old_ss_async_send_flags_interface Boost =
     (v166_ss_async_send_flags_interface Boost)\<lparr>completes := v166_ss_service_async_send_completes\<rparr>"

definition v166_old_ss_async_receive_interface :: "boost_calls \<Rightarrow> async_interface" where
  [async_interfaces]: "v166_old_ss_async_receive_interface Boost =
     (v166_ss_async_receive_interface Boost)\<lparr>completes := v166_ss_service_async_receive_completes\<rparr>"

definition v166_old_ss_async_receive_flags_interface :: "boost_calls \<Rightarrow> async_interface" where
  [async_interfaces]: "v166_old_ss_async_receive_flags_interface Boost =
     (v166_ss_async_receive_flags_interface Boost)\<lparr>completes := v166_ss_service_async_receive_completes\<rparr>"

definition v166_old_ss_async_write_some_interface :: "boost_calls \<Rightarrow> async_interface" where
  [async_interfaces]: "v166_old_ss_async_write_some_interface Boost =
     (v166_ss_async_write_some_interface Boost)\<lparr>completes := v166_ss_service_async_send_completes\<rparr>"

definition v166_old_ss_async_read_some_interface :: "boost_calls \<Rightarrow> async_interface" where
  [async_interfaces]: "v166_old_ss_async_read_some_interface Boost =
     (v166_ss_async_read_some_interface Boost)\<lparr>completes := v166_ss_service_async_receive_completes\<rparr>"

definition v166_async_functions :: "boost_calls \<Rightarrow> async_interface list" where
  [async_interfaces]: "v166_async_functions Boost =
     [v166_ds_async_send_interface Boost,
      v166_ds_async_send_flags_interface Boost,
      v166_ds_async_send_to_interface Boost,
      v166_ds_async_send_to_flags_interface Boost,
      v166_ds_async_receive_interface Boost,
      v166_ds_async_receive_flags_interface Boost,
      v166_ds_async_receive_from_interface Boost,
      v166_ds_async_receive_from_flags_interface Boost,
      v166_ss_async_send_interface Boost,
      v166_ss_async_send_flags_interface Boost,
      v166_ss_async_receive_interface Boost,
      v166_ss_async_receive_flags_interface Boost,
      v166_ss_async_write_some_interface Boost,
      v166_ss_async_read_some_interface Boost,
      v166_old_ss_async_send_interface Boost,
      v166_old_ss_async_send_flags_interface Boost,
      v166_old_ss_async_receive_interface Boost,
      v166_old_ss_async_receive_flags_interface Boost,
      v166_old_ss_async_write_some_interface Boost,
      v166_old_ss_async_read_some_interface Boost]"

section \<open>Boost 1.55\<close>

definition v155_recv_call :: "argument list" where
  [async_interfaces]: "v155_recv_call = [Lvalue Error_code, Lvalue Size, Lvalue Address]"

definition v155_recvfrom_call :: "argument list" where
  [async_interfaces]: "v155_recvfrom_call = [Lvalue Error_code, Lvalue Size, Lvalue Address]"

definition v155_local_recv_call :: "argument list" where
  [async_interfaces]: "v155_local_recv_call = [Lvalue Error_code, Lvalue Size, Lvalue Uint32, Lvalue Uint32]"

definition v155_ds_service_async_send_completes :: "arg_type list" where
  [async_interfaces]: "v155_ds_service_async_send_completes = [Error_code, Size]"

definition v155_ds_service_async_send_to_completes :: "arg_type list" where
  [async_interfaces]: "v155_ds_service_async_send_to_completes = [Error_code, Size]"

definition v155_ds_service_async_receive_completes :: "arg_type list" where
  [async_interfaces]: "v155_ds_service_async_receive_completes = [Error_code, Size]"

definition v155_ds_service_async_receive_from_completes :: "arg_type list" where
  [async_interfaces]: "v155_ds_service_async_receive_from_completes = [Error_code, Size]"

definition v155_ss_service_async_send_completes :: "arg_type list" where
  [async_interfaces]: "v155_ss_service_async_send_completes = [Error_code, Size]"

definition v155_ss_service_async_receive_completes :: "arg_type list" where
  [async_interfaces]: "v155_ss_service_async_receive_completes = [Error_code, Size]"

definition v155_ds_async_send_interface :: "boost_calls \<Rightarrow> async_interface" where
  [async_interfaces]: "v155_ds_async_send_interface Boost =
     \<lparr>announces = [Error_code, Size], completes = v155_ds_service_async_send_completes,
      checks = v155_write_handler_check, calls_with = send_call Boost\<rparr>"

definition v155_ds_async_send_flags_interface :: "boost_calls \<Rightarrow> async_interface" where
  [async_interfaces]: "v155_ds_async_send_flags_interface Boost =
     \<lparr>announces = [Error_code, Size], completes = v155_ds_service_async_send_completes,
      checks = v155_write_handler_check, calls_with = send_call Boost\<rparr>"

definition v155_ds_async_send_to_interface :: "boost_calls \<Rightarrow> async_interface" where
  [async_interfaces]: "v155_ds_async_send_to_interface Boost =
     \<lparr>announces = [Error_code, Size], completes = v155_ds_service_async_send_to_completes,
      checks = v155_write_handler_check, calls_with = send_call Boost\<rparr>"

definition v155_ds_async_send_to_flags_interface :: "boost_calls \<Rightarrow> async_interface" where
  [async_interfaces]: "v155_ds_async_send_to_flags_interface Boost =
     \<lparr>announces = [Error_code, Size], completes = v155_ds_service_async_send_to_completes,
      checks = v155_write_handler_check, calls_with = send_call Boost\<rparr>"

definition v155_ds_async_receive_interface :: "boost_calls \<Rightarrow> async_interface" where
  [async_interfaces]: "v155_ds_async_receive_interface Boost =
     \<lparr>announces = [Error_code, Size], completes = v155_ds_service_async_receive_completes,
      checks = v155_read_handler_check_ext, calls_with = v155_recv_call\<rparr>"

definition v155_ds_async_receive_flags_interface :: "boost_calls \<Rightarrow> async_interface" where
  [async_interfaces]: "v155_ds_async_receive_flags_interface Boost =
     \<lparr>announces = [Error_code, Size], completes = v155_ds_service_async_receive_completes,
      checks = v155_read_handler_check_ext, calls_with = v155_recv_call\<rparr>"

definition v155_ds_async_receive_from_interface :: "boost_calls \<Rightarrow> async_interface" where
  [async_interfaces]: "v155_ds_async_receive_from_interface Boost =
     \<lparr>announces = [Error_code, Size, Address], completes = v155_ds_service_async_receive_from_completes,
      checks = v155_read_handler_check_ext, calls_with = v155_recvfrom_call\<rparr>"

definition v155_ds_async_receive_from_flags_interface :: "boost_calls \<Rightarrow> async_interface" where
  [async_interfaces]: "v155_ds_async_receive_from_flags_interface Boost =
     \<lparr>announces = [Error_code, Size, Address], completes = v155_ds_service_async_receive_from_completes,
      checks = v155_read_handler_check_ext, calls_with = v155_recvfrom_call\<rparr>"

definition v155_ss_async_send_interface :: "boost_calls \<Rightarrow> async_interface" where
  [async_interfaces]: "v155_ss_async_send_interface Boost =
     \<lparr>announces = [Error_code, Size], completes = v155_ss_service_async_send_completes,
      checks = v155_local_write_handler_check, calls_with = send_call Boost\<rparr>"

definition v155_ss_async_send_flags_interface :: "boost_calls \<Rightarrow> async_interface" where
  [async_interfaces]: "v155_ss_async_send_flags_interface Boost =
     \<lparr>announces = [Error_code, Size], completes = v155_ss_service_async_send_completes,
      checks = v155_local_write_handler_check, calls_with = send_call Boost\<rparr>"

definition v155_ss_async_receive_interface :: "boost_calls \<Rightarrow> async_interface" where
  [async_interfaces]: "v155_ss_async_receive_interface Boost =
     \<lparr>announces = [Error_code, Size, Uint32, Uint32], completes = v155_ss_service_async_receive_completes,
      checks = v155_local_read_handler_check_ext_local, calls_with = v155_local_recv_call\<rparr>"

definition v155_ss_async_receive_flags_interface :: "boost_calls \<Rightarrow> async_interface" where
  [async_interfaces]: "v155_ss_async_receive_flags_interface Boost =
     \<lparr>announces = [Error_code, Size, Uint32, Uint32], completes = v155_ss_service_async_receive_completes,
      checks = v155_local_read_handler_check_ext_local, calls_with = v155_local_recv_call\<rparr>"

definition v155_ss_async_write_some_interface :: "boost_calls \<Rightarrow> async_interface" where
  [async_interfaces]: "v155_ss_async_write_some_interface Boost =
     \<lparr>announces = [Error_code, Size], completes = v155_ss_service_async_send_completes,
      checks = v155_local_write_handler_check, calls_with = send_call Boost\<rparr>"

definition v155_ss_async_read_some_interface :: "boost_calls \<Rightarrow> async_interface" where
  [async_interfaces]: "v155_ss_async_read_some_interface Boost =
     \<lparr>announces = [Error_code, Size, Uint32, Uint32], completes = v155_ss_service_async_receive_completes,
      checks = v155_local_read_handler_check_ext_local, calls_with = v155_local_recv_call\<rparr>"

definition v155_async_functions :: "boost_calls \<Rightarrow> async_interface list" where
  [async_interfaces]: "v155_async_functions Boost =
     [v155_ds_async_send_interface Boost,
      v155_ds_async_send_flags_interface Boost,
      v155_ds_async_send_to_interface Boost,
      v155_ds_async_send_to_flags_interface Boost,
      v155_ds_async_receive_interface Boost,
      v155_ds_async_receive_flags_interface Boost,
      v155_ds_async_receive_from_interface Boost,
      v155_ds_async_receive_from_flags_interface Boost,
      v155_ss_async_send_interface Boost,
      v155_ss_async_send_flags_interface Boost,
      v155_ss_async_receive_interface Boost,
      v155_ss_async_receive_flags_interface Boost,
      v155_ss_async_write_some_interface Boost,
      v155_ss_async_read_some_interface Boost]"

end
