(* ===== verification/Handler_Props.thy ===== *)
theory Handler_Props imports Handler_Interfaces begin

text \<open>
  What the checks of completion handlers guarantee: an accepted handler can be stored in an operation and
  called by it.  And what they do not: which handlers written to the announced signature are rejected.
\<close>

lemmas handler_interface_defs = async_interfaces handler_tests

section \<open>Handlers and their arguments\<close>

fun argument_type :: "argument \<Rightarrow> arg_type" where
  "argument_type (Lvalue t) = t"
| "argument_type (Moved t) = t"

text \<open>A handler written to a signature: it can be called with exactly these types, passed in any way.\<close>

definition written_to :: "bool \<Rightarrow> arg_type list \<Rightarrow> handler" where
  "written_to copyable sig =
     \<lparr>h_copyable = copyable, h_movable = True, h_call = (\<lambda>as. map argument_type as = sig)\<rparr>"

text \<open>
  Boost's own operations call the handler as their documentation says, with constant references to what
  they hold (documented signatures of WriteHandler, ConnectHandler, WaitHandler, and ReadHandler for
  \<open>null_buffers\<close>).
\<close>

definition documented_calls :: "boost_calls \<Rightarrow> bool" where
  "documented_calls Boost \<longleftrightarrow>
     send_call Boost = [Lvalue Error_code, Lvalue Size] \<and> connect_call Boost = [Lvalue Error_code] \<and>
     wait_call Boost = [Lvalue Error_code] \<and> null_buffers_call Boost = [Lvalue Error_code, Lvalue Size]"

definition plain_boost :: boost_calls where
  "plain_boost =
     \<lparr>send_call = [Lvalue Error_code, Lvalue Size], connect_call = [Lvalue Error_code],
      wait_call = [Lvalue Error_code], null_buffers_call = [Lvalue Error_code, Lvalue Size]\<rparr>"

lemma plain_boost_documented: "documented_calls plain_boost"
  by (simp add: documented_calls_def plain_boost_def)

definition modern_compiler :: compiler where
  "modern_compiler = \<lparr>requirements = True, requirements_assert = True, has_move = True\<rparr>"

text \<open>The functions of all four versions that \<open>Handler_Interfaces\<close> lists.\<close>

definition checked_functions :: "boost_calls \<Rightarrow> async_interface list" where
  "checked_functions Boost =
     async_functions Boost @ v170_async_functions Boost @ v166_async_functions Boost @ v155_async_functions Boost"

definition checked_transfers :: "boost_calls \<Rightarrow> async_interface list" where
  "checked_transfers Boost =
     transfer_functions Boost @ v170_transfer_functions Boost @ v166_async_functions Boost @ v155_async_functions Boost"

lemma checked_functionsE:
  assumes "f \<in> set (checked_functions Boost)"
  obtains "f \<in> set (async_functions Boost)" | "f \<in> set (v170_async_functions Boost)"
  | "f \<in> set (v166_async_functions Boost)" | "f \<in> set (v155_async_functions Boost)"
  using assms by (auto simp: checked_functions_def)

section \<open>Accepted handlers\<close>

lemma accepted_174:
  assumes "documented_calls Boost" "requirements C" "h_copyable h \<longrightarrow> h_movable h"
    "f \<in> set (async_functions Boost)" "checks f C h"
  shows "constructs_moved C h \<and> h_call h (calls_with f)"
  using assms by (auto simp: handler_interface_defs documented_calls_def split: if_splits)

lemma accepted_170:
  assumes "documented_calls Boost" "requirements C" "h_copyable h \<longrightarrow> h_movable h"
    "f \<in> set (v170_async_functions Boost)" "checks f C h"
  shows "constructs_moved C h \<and> h_call h (calls_with f)"
  using assms by (auto simp: handler_interface_defs documented_calls_def split: if_splits)

lemma accepted_166:
  assumes "documented_calls Boost" "requirements C" "h_copyable h \<longrightarrow> h_movable h"
    "f \<in> set (v166_async_functions Boost)" "checks f C h"
  shows "constructs_moved C h \<and> h_call h (calls_with f)"
  using assms by (auto simp: handler_interface_defs documented_calls_def split: if_splits)

lemma accepted_155:
  assumes "documented_calls Boost" "requirements C" "h_copyable h \<longrightarrow> h_movable h"
    "f \<in> set (v155_async_functions Boost)" "checks f C h"
  shows "constructs_moved C h \<and> h_call h (calls_with f)"
  using assms by (auto simp: handler_interface_defs documented_calls_def split: if_splits)

text \<open>
  \<open>null_buffers\<close>: Boost's operation passes two arguments, as a send does and no receive of this repository.
\<close>

definition writes :: "async_interface \<Rightarrow> bool" where
  "writes f \<longleftrightarrow> length (calls_with f) = 2"

definition handler_for_buffers :: "async_interface \<Rightarrow> handler" where
  "handler_for_buffers f = written_to True (map argument_type (calls_with f))"

lemma null_buffers_174:
  assumes "documented_calls Boost" "requirements C" "f \<in> set (transfer_functions Boost)"
  shows "if writes f then calls_with f = null_buffers_call Boost
    else checks f C (handler_for_buffers f) \<and> \<not> h_call (handler_for_buffers f) (null_buffers_call Boost)"
  using assms by (auto simp: handler_interface_defs documented_calls_def writes_def handler_for_buffers_def written_to_def)

lemma null_buffers_170:
  assumes "documented_calls Boost" "requirements C" "f \<in> set (v170_transfer_functions Boost)"
  shows "if writes f then calls_with f = null_buffers_call Boost
    else checks f C (handler_for_buffers f) \<and> \<not> h_call (handler_for_buffers f) (null_buffers_call Boost)"
  using assms by (auto simp: handler_interface_defs documented_calls_def writes_def handler_for_buffers_def written_to_def)

lemma null_buffers_166:
  assumes "documented_calls Boost" "requirements C" "f \<in> set (v166_async_functions Boost)"
  shows "if writes f then calls_with f = null_buffers_call Boost
    else checks f C (handler_for_buffers f) \<and> \<not> h_call (handler_for_buffers f) (null_buffers_call Boost)"
  using assms by (auto simp: handler_interface_defs documented_calls_def writes_def handler_for_buffers_def written_to_def)

lemma null_buffers_155:
  assumes "documented_calls Boost" "requirements C" "f \<in> set (v155_async_functions Boost)"
  shows "if writes f then calls_with f = null_buffers_call Boost
    else checks f C (handler_for_buffers f) \<and> \<not> h_call (handler_for_buffers f) (null_buffers_call Boost)"
  using assms by (auto simp: handler_interface_defs documented_calls_def writes_def handler_for_buffers_def written_to_def)

lemma null_buffers_transfers:
  assumes "documented_calls Boost" "requirements C" "f \<in> set (checked_transfers Boost)"
  shows "if writes f then calls_with f = null_buffers_call Boost
    else checks f C (handler_for_buffers f) \<and> \<not> h_call (handler_for_buffers f) (null_buffers_call Boost)"
  using assms(3) null_buffers_174 [OF assms(1,2)] null_buffers_170 [OF assms(1,2)] null_buffers_166 [OF assms(1,2)]
    null_buffers_155 [OF assms(1,2)]
  unfolding checked_transfers_def by (simp only: set_append Un_iff) blast

text \<open>
  C36: with the compile-time checks switched on, handlers are called as they were checked, except by
  reads of \<open>null_buffers\<close>.  Take any function that transfers data on a datagram or stream socket, in any
  of the four versions, or the connect or wait of local sockets in 1.70 and 1.74, and any handler type
  its check accepts (if it can be copied it can be moved).  Then the operation the function starts with
  buffers can store the handler, and the call it makes on completion, with error code, size and, for the
  receives, the destination address or the peer's user and group, is one the handler accepts.  A write of
  \<open>null_buffers\<close> makes the same call.  A read of \<open>null_buffers\<close> does not: the handler written for what the
  read calls with buffers is accepted by its check, and cannot be called with the two arguments of
  Boost's \<open>null_buffers\<close> operation.
\<close>

theorem handlers_called_as_checked:
  assumes "documented_calls Boost" "requirements C" "h_copyable h \<longrightarrow> h_movable h"
    "f \<in> set (checked_functions Boost)" "checks f C h"
  shows "constructs_moved C h \<and> h_call h (calls_with f) \<and>
    (f \<in> set (checked_transfers Boost) \<longrightarrow>
      (if writes f then h_call h (calls_with (with_null_buffers Boost f))
       else checks (with_null_buffers Boost f) C (handler_for_buffers f) \<and>
         \<not> h_call (handler_for_buffers f) (calls_with (with_null_buffers Boost f))))"
proof -
  have "constructs_moved C h \<and> h_call h (calls_with f)"
    using assms(4)
    by (rule checked_functionsE) (metis accepted_174 accepted_170 accepted_166 accepted_155 assms)+
  then show ?thesis
    using null_buffers_transfers [OF assms(1,2), of f] by (auto simp: with_null_buffers_def split: if_splits)
qed

theorem handlers_called_as_checked_witness:
  "constructs_moved modern_compiler (written_to True [Error_code, Size, Address]) \<and>
   h_call (written_to True [Error_code, Size, Address]) (calls_with (ds_async_receive_interface plain_boost)) \<and>
   \<not> h_call (written_to True [Error_code, Size, Address])
     (calls_with (with_null_buffers plain_boost (ds_async_receive_interface plain_boost)))"
proof -
  let ?f = "ds_async_receive_interface plain_boost" and ?h = "written_to True [Error_code, Size, Address]"
  have f: "?f \<in> set (checked_functions plain_boost)" "?f \<in> set (checked_transfers plain_boost)"
    by (simp_all add: checked_functions_def checked_transfers_def async_functions_def transfer_functions_def)
  have "h_copyable ?h \<longrightarrow> h_movable ?h" "checks ?f modern_compiler ?h" "\<not> writes ?f" "handler_for_buffers ?f = ?h"
    by (simp_all add: written_to_def modern_compiler_def handler_interface_defs writes_def handler_for_buffers_def)
  then show ?thesis
    using handlers_called_as_checked [OF plain_boost_documented _ _ f(1), of modern_compiler ?h] f(2)
    by (simp add: modern_compiler_def)
qed

section \<open>Handlers written to the announced signature\<close>

definition rejects :: "compiler \<Rightarrow> bool \<Rightarrow> async_interface \<Rightarrow> bool" where
  "rejects C copyable f \<longleftrightarrow> \<not> checks f C (written_to copyable (announces f))"

lemma rejects_174:
  assumes "requirements C" "has_move C"
  shows "filter (rejects C True) (async_functions Boost) = [ss_async_write_some_interface Boost]"
    and "filter (rejects C False) (async_functions Boost) =
      [ss_async_receive_interface Boost, ss_async_receive_flags_interface Boost,
       ss_async_write_some_interface Boost, ss_async_read_some_interface Boost]"
  using assms by (simp_all add: rejects_def written_to_def handler_interface_defs)

lemma rejects_170:
  assumes "requirements C" "has_move C"
  shows "filter (rejects C True) (v170_async_functions Boost) = [v170_ss_async_write_some_interface Boost]"
    and "filter (rejects C False) (v170_async_functions Boost) =
      [v170_ss_async_receive_interface Boost, v170_ss_async_receive_flags_interface Boost,
       v170_ss_async_write_some_interface Boost, v170_ss_async_read_some_interface Boost]"
  using assms by (simp_all add: rejects_def written_to_def handler_interface_defs)

lemma rejects_166:
  assumes "requirements C" "has_move C"
  shows "filter (rejects C True) (v166_async_functions Boost) = []"
    and "filter (rejects C False) (v166_async_functions Boost) =
      [v166_ss_async_receive_interface Boost, v166_ss_async_receive_flags_interface Boost,
       v166_ss_async_read_some_interface Boost, v166_old_ss_async_receive_interface Boost,
       v166_old_ss_async_receive_flags_interface Boost, v166_old_ss_async_read_some_interface Boost]"
  using assms by (simp_all add: rejects_def written_to_def handler_interface_defs)

lemma rejects_155:
  assumes "requirements C" "has_move C"
  shows "filter (rejects C True) (v155_async_functions Boost) =
      [v155_ds_async_receive_interface Boost, v155_ds_async_receive_flags_interface Boost]"
    and "filter (rejects C False) (v155_async_functions Boost) = v155_async_functions Boost"
  using assms by (simp_all add: rejects_def written_to_def handler_interface_defs)



section \<open>One more mismatch\<close>

text \<open>
  The signature that the result is initialised with is the announced one, except for the reads that go
  through the services of 1.55 and the deprecated ones of 1.66.
\<close>

lemma results_initialised_differently:
  "filter (\<lambda>f. completes f \<noteq> announces f) (checked_functions Boost) =
     [v166_old_ss_async_receive_interface Boost, v166_old_ss_async_receive_flags_interface Boost,
      v166_old_ss_async_read_some_interface Boost, v155_ds_async_receive_from_interface Boost,
      v155_ds_async_receive_from_flags_interface Boost, v155_ss_async_receive_interface Boost,
      v155_ss_async_receive_flags_interface Boost, v155_ss_async_read_some_interface Boost]"
  by (simp add: checked_functions_def handler_interface_defs)

end
