(* ===== verification/Operation_Memory.thy ===== *)
theory Operation_Memory imports Later_Ops Boost155_Ops begin

text \<open>
  The memory of the asynchronous receive operations (include/helper/<version>/boost/asio/detail,
  the reactive_socket_*_op_ext headers): how the services allocate an operation through its handler
  and construct it there, and how \<open>do_complete\<close> takes it apart, frees the memory and only then calls
  the handler.  The count of outstanding work, Boost's \<open>handler_work\<close>, is left out.  Undefined behaviour (an access to freed memory, a cast to a class the object does not
  have, memory freed twice) is \<open>None\<close>.
\<close>

section \<open>Storage\<close>

text \<open>
  A block is allocated and raw, or holds an object.  \<open>op::ptr\<close> has three pointers: to the handler
  through which memory is freed, to the block, and to the object in it.  The handler is part of an
  object in storage or a local variable of the function that owns the \<open>ptr\<close>.
\<close>

datatype 'o block = Raw | Object 'o

type_synonym 'o storage = "nat \<rightharpoonup> 'o block"

datatype handler_place = Handler_in nat | Handler_local

record op_ptr =
  p_h :: handler_place
  p_v :: "nat option"
  p_p :: "nat option"

text \<open>
  \<open>op::ptr\<close> itself is Boost's (\<open>BOOST_ASIO_DEFINE_HANDLER_PTR\<close>).  \<open>hp_allocate\<close> is
  \<open>ptr::allocate(handler)\<close>, \<open>None\<close> when it throws; \<open>hp_reset\<close> is \<open>ptr::reset\<close>, also called by the
  destructor.
\<close>

record ('h, 'o) handler_ptr =
  hp_allocate :: "'h \<Rightarrow> 'o storage \<Rightarrow> (nat \<times> 'o storage) option"
  hp_reset :: "op_ptr \<Rightarrow> 'o storage \<Rightarrow> (op_ptr \<times> 'o storage) option"

definition null_ptr :: "handler_place \<Rightarrow> op_ptr" where
  "null_ptr h = \<lparr>p_h = h, p_v = None, p_p = None\<rparr>"

section \<open>Objects\<close>

text \<open>
  The six classes of operations, the members each has besides its handler, and the two function
  pointers every operation carries, named by the class whose static member they point to.
\<close>

datatype op_class =
  Recv_class | Recvmsg_class | Recvfrom_class | Local_recv_class | Local_recvmsg_class | Local_recvfrom_class

datatype 'ep op_data =
    Recv_data recv_args reactor_op_ext
  | Recvmsg_data recv_args reactor_op_ext
  | Recvfrom_data "'ep recvfrom_op"
  | Local_recv_data recv_args reactor_op_ext_local
  | Local_recvmsg_data recv_args reactor_op_ext_local
  | Local_recvfrom_data "'ep local_recvfrom_op"

record 'ep op_base =
  ob_perform :: op_class
  ob_complete :: op_class
  ob_data :: "'ep op_data"

record ('ep, 'h) operation = "'ep op_base" +
  op_handler :: 'h

definition with_handler :: "'ep op_base \<Rightarrow> 'h \<Rightarrow> ('ep, 'h) operation" where
  "with_handler b h =
     \<lparr>ob_perform = ob_perform b, ob_complete = ob_complete b, ob_data = ob_data b, op_handler = h\<rparr>"

text \<open>Receive with flags keeps neither the socket's state nor the type of its buffers.\<close>

definition msg_args :: "nat option \<Rightarrow> nat list \<Rightarrow> message_flags \<Rightarrow> recv_args" where
  "msg_args s sizes flags =
     \<lparr>ra_socket = s, ra_state = {}, ra_single = False, ra_sizes = sizes, ra_flags = flags\<rparr>"

definition new_local_recvfrom_op ::
  "reactor_op_ext_local \<Rightarrow> nat option \<Rightarrow> nat list \<Rightarrow> message_flags \<Rightarrow> 'ep \<Rightarrow> 'ep local_recvfrom_op" where
  "new_local_recvfrom_op r s sizes flags sender =
     \<lparr>ro_ec = ro_ec r, ro_bytes = ro_bytes r, ro_uid = ro_uid r, ro_gid = ro_gid r,
      lo_socket = s, lo_sizes = sizes, lo_flags = flags, lo_sender = sender\<rparr>"

text \<open>The receive-from operations also keep the protocol's type, which nothing reads.\<close>

section \<open>Calling the handler\<close>

datatype completion_args =
    With_destination error_code nat ip_address
  | With_credentials error_code nat uint32_t uint32_t

fun destination_args :: "error_code \<times> nat \<times> ip_address \<Rightarrow> completion_args" where
  "destination_args (ec, n, da) = With_destination ec n da"

fun credentials_args :: "error_code \<times> nat \<times> uint32_t \<times> uint32_t \<Rightarrow> completion_args" where
  "credentials_args (ec, n, uid, gid) = With_credentials ec n uid gid"

text \<open>
  What completing an operation can change: the storage, and the calls made so far.  The handler's
  body is an argument: it may start further operations, in the memory that has just been freed.
\<close>

record ('ep, 'h) op_world =
  storage :: "('ep, 'h) operation storage"
  called :: "('h \<times> completion_args) list"

type_synonym ('ep, 'h) upcall =
  "'h \<Rightarrow> completion_args \<Rightarrow> ('ep, 'h) op_world \<Rightarrow> ('ep, 'h) op_world option"

type_synonym ('ep, 'h) complete_func =
  "('h, ('ep, 'h) operation) handler_ptr \<Rightarrow> ('ep, 'h) upcall \<Rightarrow> bool \<Rightarrow> nat \<Rightarrow> ('ep, 'h) op_world \<Rightarrow>
     ('ep, 'h) op_world option"

definition log_call :: "('ep, 'h) upcall" where
  "log_call h args W = Some (W\<lparr>called := called W @ [(h, args)]\<rparr>)"

text \<open>
  The common part of the \<open>do_complete\<close> functions: \<open>p\<close> owns the block; \<open>h\<close> and \<open>args\<close> are the local
  copy (the \<open>binder3\<close> or \<open>binder4\<close>), to whose handler \<open>p.h\<close> is turned before \<open>p.reset()\<close>; the upcall is
  made if there is an owner, and \<open>p\<close> is destroyed at the end.
\<close>

definition finish_operation ::
  "('h, ('ep, 'h) operation) handler_ptr \<Rightarrow> ('ep, 'h) upcall \<Rightarrow> bool \<Rightarrow> nat \<Rightarrow> 'h \<Rightarrow> completion_args \<Rightarrow>
     ('ep, 'h) op_world \<Rightarrow> ('ep, 'h) op_world option" where
  "finish_operation P upcall owner base h args W =
     (let p = \<lparr>p_h = Handler_in base, p_v = Some base, p_p = Some base\<rparr>;
          p = p\<lparr>p_h := Handler_local\<rparr>
      in case hp_reset P p (storage W) of
           None \<Rightarrow> None
         | Some (p', m) \<Rightarrow>
             (case (if owner then upcall h args (W\<lparr>storage := m\<rparr>) else Some (W\<lparr>storage := m\<rparr>)) of
                None \<Rightarrow> None
              | Some W' \<Rightarrow>
                  (case hp_reset P p' (storage W') of
                     None \<Rightarrow> None
                   | Some (p'', m') \<Rightarrow> Some (W'\<lparr>storage := m'\<rparr>))))"

text \<open>\<open>bind\<close> casts \<open>base\<close> to the class and copies what the handler is called with.\<close>

definition complete_as :: "('ep op_data \<Rightarrow> completion_args option) \<Rightarrow> ('ep, 'h) complete_func" where
  "complete_as bind P upcall owner base W =
     (case storage W base of
        Some (Object ob) \<Rightarrow>
          (case bind (ob_data ob) of
             None \<Rightarrow> None
           | Some args \<Rightarrow> finish_operation P upcall owner base (op_handler ob) args W)
      | _ \<Rightarrow> None)"

fun as_recv :: "(reactor_op_ext \<Rightarrow> error_code \<times> nat \<times> ip_address) \<Rightarrow> 'ep op_data \<Rightarrow> completion_args option" where
  "as_recv f (Recv_data a p) = Some (destination_args (f p))"
| "as_recv f _ = None"

fun as_recvmsg :: "(reactor_op_ext \<Rightarrow> error_code \<times> nat \<times> ip_address) \<Rightarrow> 'ep op_data \<Rightarrow> completion_args option" where
  "as_recvmsg f (Recvmsg_data a p) = Some (destination_args (f p))"
| "as_recvmsg f _ = None"

fun as_recvfrom :: "('ep recvfrom_op \<Rightarrow> error_code \<times> nat \<times> ip_address) \<Rightarrow> 'ep op_data \<Rightarrow> completion_args option" where
  "as_recvfrom f (Recvfrom_data p) = Some (destination_args (f p))"
| "as_recvfrom f _ = None"

fun as_local_recv ::
  "(reactor_op_ext_local \<Rightarrow> error_code \<times> nat \<times> uint32_t \<times> uint32_t) \<Rightarrow> 'ep op_data \<Rightarrow> completion_args option" where
  "as_local_recv f (Local_recv_data a p) = Some (credentials_args (f p))"
| "as_local_recv f _ = None"

fun as_local_recvmsg ::
  "(reactor_op_ext_local \<Rightarrow> error_code \<times> nat \<times> uint32_t \<times> uint32_t) \<Rightarrow> 'ep op_data \<Rightarrow> completion_args option" where
  "as_local_recvmsg f (Local_recvmsg_data a p) = Some (credentials_args (f p))"
| "as_local_recvmsg f _ = None"

fun as_local_recvfrom ::
  "('ep local_recvfrom_op \<Rightarrow> error_code \<times> nat \<times> uint32_t \<times> uint32_t) \<Rightarrow> 'ep op_data \<Rightarrow> completion_args option" where
  "as_local_recvfrom f (Local_recvfrom_data p) = Some (credentials_args (f p))"
| "as_local_recvfrom f _ = None"

section \<open>A helper's operations\<close>

text \<open>
  What one version of the helper provides: the objects its constructors make, one try (the outer
  \<open>None\<close> is a wrong cast, the inner one a loop that does not end; the flags a receive with flags
  writes go to the caller's variable and are left out) and completion.
\<close>

record ('w, 'ep, 'h) helper =
  hv_constructs :: "('ep, 'h) operation \<Rightarrow> bool"
  hv_perform ::
    "'w boost_recv \<Rightarrow> ('w, 'ep) recv_os \<Rightarrow> op_class \<Rightarrow> 'ep op_data \<Rightarrow> 'w \<Rightarrow> (bool \<times> 'ep op_data \<times> 'w) option option"
  hv_complete :: "op_class \<Rightarrow> ('ep, 'h) complete_func"

section \<open>Boost 1.74\<close>

text \<open>
  The constructors of the receive with flags and of the local receive-from do not compile in 1.74: they call
  a base constructor with an argument missing.  They are left out; nothing of these two classes can be
  constructed.
\<close>

definition new_recv_op_base ::
  "ip_address \<Rightarrow> error_code \<Rightarrow> nat option \<Rightarrow> state_type \<Rightarrow> bool \<Rightarrow> nat list \<Rightarrow> message_flags \<Rightarrow> op_class \<Rightarrow> 'ep op_base" where
  "new_recv_op_base unset success_ec s st single sizes flags complete_func =
     \<lparr>ob_perform = Recv_class, ob_complete = complete_func,
      ob_data = Recv_data \<lparr>ra_socket = s, ra_state = st, ra_single = single, ra_sizes = sizes, ra_flags = flags\<rparr>
        (new_reactor_op_ext unset success_ec)\<rparr>"

definition new_recv_obj ::
  "ip_address \<Rightarrow> error_code \<Rightarrow> nat option \<Rightarrow> state_type \<Rightarrow> bool \<Rightarrow> nat list \<Rightarrow> message_flags \<Rightarrow> 'h \<Rightarrow> ('ep, 'h) operation" where
  "new_recv_obj unset success_ec s st single sizes flags handler =
     with_handler (new_recv_op_base unset success_ec s st single sizes flags Recv_class) handler"

definition new_recvfrom_op_base ::
  "ip_address \<Rightarrow> error_code \<Rightarrow> nat option \<Rightarrow> nat list \<Rightarrow> 'ep \<Rightarrow> message_flags \<Rightarrow> op_class \<Rightarrow> 'ep op_base" where
  "new_recvfrom_op_base unset success_ec s sizes sender flags complete_func =
     \<lparr>ob_perform = Recvfrom_class, ob_complete = complete_func,
      ob_data = Recvfrom_data ((new_recvfrom_op unset s sizes flags sender)\<lparr>op_ec := success_ec\<rparr>)\<rparr>"

definition new_recvfrom_obj ::
  "ip_address \<Rightarrow> error_code \<Rightarrow> nat option \<Rightarrow> nat list \<Rightarrow> 'ep \<Rightarrow> message_flags \<Rightarrow> 'h \<Rightarrow> ('ep, 'h) operation" where
  "new_recvfrom_obj unset success_ec s sizes sender flags handler =
     with_handler (new_recvfrom_op_base unset success_ec s sizes sender flags Recvfrom_class) handler"

definition new_local_recv_op_base ::
  "uint32_t \<Rightarrow> uint32_t \<Rightarrow> error_code \<Rightarrow> nat option \<Rightarrow> state_type \<Rightarrow> bool \<Rightarrow> nat list \<Rightarrow> message_flags \<Rightarrow> op_class \<Rightarrow> 'ep op_base" where
  "new_local_recv_op_base uid gid success_ec s st single sizes flags complete_func =
     \<lparr>ob_perform = Local_recv_class, ob_complete = complete_func,
      ob_data = Local_recv_data \<lparr>ra_socket = s, ra_state = st, ra_single = single, ra_sizes = sizes, ra_flags = flags\<rparr>
        (new_reactor_op_ext_local uid gid success_ec)\<rparr>"

definition new_local_recv_obj ::
  "uint32_t \<Rightarrow> uint32_t \<Rightarrow> error_code \<Rightarrow> nat option \<Rightarrow> state_type \<Rightarrow> bool \<Rightarrow> nat list \<Rightarrow> message_flags \<Rightarrow> 'h \<Rightarrow> ('ep, 'h) operation" where
  "new_local_recv_obj uid gid success_ec s st single sizes flags handler =
     with_handler (new_local_recv_op_base uid gid success_ec s st single sizes flags Local_recv_class) handler"

definition new_local_recvmsg_op_base ::
  "uint32_t \<Rightarrow> uint32_t \<Rightarrow> error_code \<Rightarrow> nat option \<Rightarrow> nat list \<Rightarrow> message_flags \<Rightarrow> op_class \<Rightarrow> 'ep op_base" where
  "new_local_recvmsg_op_base uid gid success_ec s sizes in_flags complete_func =
     \<lparr>ob_perform = Local_recvmsg_class, ob_complete = complete_func,
      ob_data = Local_recvmsg_data (msg_args s sizes in_flags) (new_reactor_op_ext_local uid gid success_ec)\<rparr>"

definition new_local_recvmsg_obj ::
  "uint32_t \<Rightarrow> uint32_t \<Rightarrow> error_code \<Rightarrow> nat option \<Rightarrow> nat list \<Rightarrow> message_flags \<Rightarrow> 'h \<Rightarrow> ('ep, 'h) operation" where
  "new_local_recvmsg_obj uid gid success_ec s sizes in_flags handler =
     with_handler (new_local_recvmsg_op_base uid gid success_ec s sizes in_flags Local_recvmsg_class) handler"

definition recv_complete :: "('ep, 'h) complete_func" where
  "recv_complete = complete_as (as_recv recv_do_complete)"

definition recvmsg_complete :: "('ep, 'h) complete_func" where
  "recvmsg_complete = complete_as (as_recvmsg recvmsg_do_complete)"

definition recvfrom_complete :: "('ep, 'h) complete_func" where
  "recvfrom_complete = complete_as (as_recvfrom recvfrom_do_complete)"

definition local_recv_complete :: "('ep, 'h) complete_func" where
  "local_recv_complete = complete_as (as_local_recv local_recv_do_complete)"

definition local_recvmsg_complete :: "('ep, 'h) complete_func" where
  "local_recvmsg_complete = complete_as (as_local_recvmsg local_recvmsg_do_complete)"

definition local_recvfrom_complete :: "('ep, 'h) complete_func" where
  "local_recvfrom_complete = complete_as (as_local_recvfrom local_recvfrom_do_complete)"

inductive ops_constructs :: "('ep, 'h) operation \<Rightarrow> bool" where
  makes_recv: "ops_constructs (new_recv_obj unset success_ec s st single sizes flags handler)"
| makes_recvfrom: "ops_constructs (new_recvfrom_obj unset success_ec s sizes sender flags handler)"
| makes_local_recv: "ops_constructs (new_local_recv_obj uid gid success_ec s st single sizes flags handler)"
| makes_local_recvmsg: "ops_constructs (new_local_recvmsg_obj uid gid success_ec s sizes in_flags handler)"

definition ops_perform ::
  "'w boost_recv \<Rightarrow> ('w, 'ep) recv_os \<Rightarrow> op_class \<Rightarrow> 'ep op_data \<Rightarrow> 'w \<Rightarrow> (bool \<times> 'ep op_data \<times> 'w) option option" where
  "ops_perform B R c d w =
     (case d of
        Recv_data a p \<Rightarrow>
           if c \<noteq> Recv_class then None
           else Some (Some ((\<lambda>(s, p', w'). (s \<noteq> status_not_done, Recv_data a p', w'))
             (recv_do_perform B a p w)))
      | Recvmsg_data a p \<Rightarrow>
           if c \<noteq> Recvmsg_class then None
           else Some (Some ((\<lambda>(s, p', fl, w'). (s \<noteq> status_not_done, Recvmsg_data a p', w'))
             (recvmsg_do_perform B a p w)))
      | Recvfrom_data p \<Rightarrow>
           if c \<noteq> Recvfrom_class then None
           else Some (map_option (\<lambda>(s, p', w'). (s \<noteq> status_not_done, Recvfrom_data p', w'))
             (recvfrom_do_perform R p w))
      | Local_recv_data a p \<Rightarrow>
           if c \<noteq> Local_recv_class then None
           else Some (Some ((\<lambda>(s, p', w'). (s \<noteq> status_not_done, Local_recv_data a p', w'))
             (local_recv_do_perform B a p w)))
      | Local_recvmsg_data a p \<Rightarrow>
           if c \<noteq> Local_recvmsg_class then None
           else Some (Some ((\<lambda>(s, p', fl, w'). (s \<noteq> status_not_done, Local_recvmsg_data a p', w'))
             (local_recvmsg_do_perform B a p w)))
      | Local_recvfrom_data p \<Rightarrow>
           if c \<noteq> Local_recvfrom_class then None
           else Some (map_option (\<lambda>(s, p', w'). (s \<noteq> status_not_done, Local_recvfrom_data p', w'))
             (local_recvfrom_do_perform R p w)))"

fun ops_complete :: "op_class \<Rightarrow> ('ep, 'h) complete_func" where
  "ops_complete Recv_class = recv_complete"
| "ops_complete Recvmsg_class = recvmsg_complete"
| "ops_complete Recvfrom_class = recvfrom_complete"
| "ops_complete Local_recv_class = local_recv_complete"
| "ops_complete Local_recvmsg_class = local_recvmsg_complete"
| "ops_complete Local_recvfrom_class = local_recvfrom_complete"

definition ops_helper :: "('w, 'ep, 'h) helper" where
  "ops_helper = \<lparr>hv_constructs = ops_constructs, hv_perform = ops_perform, hv_complete = ops_complete\<rparr>"

section \<open>Boost 1.70\<close>

text \<open>
  In 1.70 the error code starts as success.
\<close>

definition v170_new_recv_op_base ::
  "ip_address \<Rightarrow> nat option \<Rightarrow> state_type \<Rightarrow> nat list \<Rightarrow> message_flags \<Rightarrow> op_class \<Rightarrow> 'ep op_base" where
  "v170_new_recv_op_base unset s st sizes flags complete_func =
     \<lparr>ob_perform = Recv_class, ob_complete = complete_func,
      ob_data = Recv_data \<lparr>ra_socket = s, ra_state = st, ra_single = False, ra_sizes = sizes, ra_flags = flags\<rparr>
        (v170_new_reactor_op_ext unset)\<rparr>"

definition v170_new_recv_obj ::
  "ip_address \<Rightarrow> nat option \<Rightarrow> state_type \<Rightarrow> nat list \<Rightarrow> message_flags \<Rightarrow> 'h \<Rightarrow> ('ep, 'h) operation" where
  "v170_new_recv_obj unset s st sizes flags handler =
     with_handler (v170_new_recv_op_base unset s st sizes flags Recv_class) handler"

definition v170_new_recvmsg_op_base ::
  "ip_address \<Rightarrow> nat option \<Rightarrow> nat list \<Rightarrow> message_flags \<Rightarrow> op_class \<Rightarrow> 'ep op_base" where
  "v170_new_recvmsg_op_base unset s sizes in_flags complete_func =
     \<lparr>ob_perform = Recvmsg_class, ob_complete = complete_func,
      ob_data = Recvmsg_data (msg_args s sizes in_flags) (v170_new_reactor_op_ext unset)\<rparr>"

definition v170_new_recvmsg_obj ::
  "ip_address \<Rightarrow> nat option \<Rightarrow> nat list \<Rightarrow> message_flags \<Rightarrow> 'h \<Rightarrow> ('ep, 'h) operation" where
  "v170_new_recvmsg_obj unset s sizes in_flags handler =
     with_handler (v170_new_recvmsg_op_base unset s sizes in_flags Recvmsg_class) handler"

definition v170_new_recvfrom_op_base ::
  "ip_address \<Rightarrow> nat option \<Rightarrow> nat list \<Rightarrow> 'ep \<Rightarrow> message_flags \<Rightarrow> op_class \<Rightarrow> 'ep op_base" where
  "v170_new_recvfrom_op_base unset s sizes sender flags complete_func =
     \<lparr>ob_perform = Recvfrom_class, ob_complete = complete_func,
      ob_data = Recvfrom_data (new_recvfrom_op unset s sizes flags sender)\<rparr>"

definition v170_new_recvfrom_obj ::
  "ip_address \<Rightarrow> nat option \<Rightarrow> nat list \<Rightarrow> 'ep \<Rightarrow> message_flags \<Rightarrow> 'h \<Rightarrow> ('ep, 'h) operation" where
  "v170_new_recvfrom_obj unset s sizes sender flags handler =
     with_handler (v170_new_recvfrom_op_base unset s sizes sender flags Recvfrom_class) handler"

definition v170_new_local_recv_op_base ::
  "uint32_t \<Rightarrow> uint32_t \<Rightarrow> nat option \<Rightarrow> state_type \<Rightarrow> nat list \<Rightarrow> message_flags \<Rightarrow> op_class \<Rightarrow> 'ep op_base" where
  "v170_new_local_recv_op_base uid gid s st sizes flags complete_func =
     \<lparr>ob_perform = Local_recv_class, ob_complete = complete_func,
      ob_data = Local_recv_data \<lparr>ra_socket = s, ra_state = st, ra_single = False, ra_sizes = sizes, ra_flags = flags\<rparr>
        (v170_new_reactor_op_ext_local uid gid)\<rparr>"

definition v170_new_local_recv_obj ::
  "uint32_t \<Rightarrow> uint32_t \<Rightarrow> nat option \<Rightarrow> state_type \<Rightarrow> nat list \<Rightarrow> message_flags \<Rightarrow> 'h \<Rightarrow> ('ep, 'h) operation" where
  "v170_new_local_recv_obj uid gid s st sizes flags handler =
     with_handler (v170_new_local_recv_op_base uid gid s st sizes flags Local_recv_class) handler"

definition v170_new_local_recvmsg_op_base ::
  "uint32_t \<Rightarrow> uint32_t \<Rightarrow> nat option \<Rightarrow> nat list \<Rightarrow> message_flags \<Rightarrow> op_class \<Rightarrow> 'ep op_base" where
  "v170_new_local_recvmsg_op_base uid gid s sizes in_flags complete_func =
     \<lparr>ob_perform = Local_recvmsg_class, ob_complete = complete_func,
      ob_data = Local_recvmsg_data (msg_args s sizes in_flags) (v170_new_reactor_op_ext_local uid gid)\<rparr>"

definition v170_new_local_recvmsg_obj ::
  "uint32_t \<Rightarrow> uint32_t \<Rightarrow> nat option \<Rightarrow> nat list \<Rightarrow> message_flags \<Rightarrow> 'h \<Rightarrow> ('ep, 'h) operation" where
  "v170_new_local_recvmsg_obj uid gid s sizes in_flags handler =
     with_handler (v170_new_local_recvmsg_op_base uid gid s sizes in_flags Local_recvmsg_class) handler"

definition v170_new_local_recvfrom_op_base ::
  "uint32_t \<Rightarrow> uint32_t \<Rightarrow> nat option \<Rightarrow> nat list \<Rightarrow> 'ep \<Rightarrow> message_flags \<Rightarrow> op_class \<Rightarrow> 'ep op_base" where
  "v170_new_local_recvfrom_op_base uid gid s sizes sender flags complete_func =
     \<lparr>ob_perform = Local_recvfrom_class, ob_complete = complete_func,
      ob_data = Local_recvfrom_data (new_local_recvfrom_op (v170_new_reactor_op_ext_local uid gid) s sizes flags sender)\<rparr>"

definition v170_new_local_recvfrom_obj ::
  "uint32_t \<Rightarrow> uint32_t \<Rightarrow> nat option \<Rightarrow> nat list \<Rightarrow> 'ep \<Rightarrow> message_flags \<Rightarrow> 'h \<Rightarrow> ('ep, 'h) operation" where
  "v170_new_local_recvfrom_obj uid gid s sizes sender flags handler =
     with_handler (v170_new_local_recvfrom_op_base uid gid s sizes sender flags Local_recvfrom_class) handler"

definition v170_recv_complete :: "('ep, 'h) complete_func" where
  "v170_recv_complete = complete_as (as_recv v170_recv_do_complete)"

definition v170_recvmsg_complete :: "('ep, 'h) complete_func" where
  "v170_recvmsg_complete = complete_as (as_recvmsg v170_recvmsg_do_complete)"

definition v170_recvfrom_complete :: "('ep, 'h) complete_func" where
  "v170_recvfrom_complete = complete_as (as_recvfrom v170_recvfrom_do_complete)"

definition v170_local_recv_complete :: "('ep, 'h) complete_func" where
  "v170_local_recv_complete = complete_as (as_local_recv v170_local_recv_do_complete)"

definition v170_local_recvmsg_complete :: "('ep, 'h) complete_func" where
  "v170_local_recvmsg_complete = complete_as (as_local_recvmsg v170_local_recvmsg_do_complete)"

definition v170_local_recvfrom_complete :: "('ep, 'h) complete_func" where
  "v170_local_recvfrom_complete = complete_as (as_local_recvfrom v170_local_recvfrom_do_complete)"

inductive v170_ops_constructs :: "('ep, 'h) operation \<Rightarrow> bool" where
  v170_makes_recv: "v170_ops_constructs (v170_new_recv_obj unset s st sizes flags handler)"
| v170_makes_recvmsg: "v170_ops_constructs (v170_new_recvmsg_obj unset s sizes in_flags handler)"
| v170_makes_recvfrom: "v170_ops_constructs (v170_new_recvfrom_obj unset s sizes sender flags handler)"
| v170_makes_local_recv: "v170_ops_constructs (v170_new_local_recv_obj uid gid s st sizes flags handler)"
| v170_makes_local_recvmsg: "v170_ops_constructs (v170_new_local_recvmsg_obj uid gid s sizes in_flags handler)"
| v170_makes_local_recvfrom: "v170_ops_constructs (v170_new_local_recvfrom_obj uid gid s sizes sender flags handler)"

definition v170_ops_perform ::
  "'w boost_recv \<Rightarrow> ('w, 'ep) recv_os \<Rightarrow> op_class \<Rightarrow> 'ep op_data \<Rightarrow> 'w \<Rightarrow> (bool \<times> 'ep op_data \<times> 'w) option option" where
  "v170_ops_perform B R c d w =
     (case d of
        Recv_data a p \<Rightarrow>
           if c \<noteq> Recv_class then None
           else Some (Some ((\<lambda>(s, p', w'). (s \<noteq> status_not_done, Recv_data a p', w'))
             (v170_recv_do_perform B a p w)))
      | Recvmsg_data a p \<Rightarrow>
           if c \<noteq> Recvmsg_class then None
           else Some (Some ((\<lambda>(s, p', fl, w'). (s \<noteq> status_not_done, Recvmsg_data a p', w'))
             (v170_recvmsg_do_perform B a p w)))
      | Recvfrom_data p \<Rightarrow>
           if c \<noteq> Recvfrom_class then None
           else Some (map_option (\<lambda>(s, p', w'). (s \<noteq> status_not_done, Recvfrom_data p', w'))
             (v170_recvfrom_do_perform R p w))
      | Local_recv_data a p \<Rightarrow>
           if c \<noteq> Local_recv_class then None
           else Some (map_option (\<lambda>(s, p', w'). (s \<noteq> status_not_done, Local_recv_data a p', w'))
             (v170_local_recv_do_perform R a p w))
      | Local_recvmsg_data a p \<Rightarrow>
           if c \<noteq> Local_recvmsg_class then None
           else Some (Some ((\<lambda>(s, p', fl, w'). (s \<noteq> status_not_done, Local_recvmsg_data a p', w'))
             (v170_local_recvmsg_do_perform B a p w)))
      | Local_recvfrom_data p \<Rightarrow>
           if c \<noteq> Local_recvfrom_class then None
           else Some (map_option (\<lambda>(s, p', w'). (s \<noteq> status_not_done, Local_recvfrom_data p', w'))
             (v170_local_recvfrom_do_perform R p w)))"

fun v170_ops_complete :: "op_class \<Rightarrow> ('ep, 'h) complete_func" where
  "v170_ops_complete Recv_class = v170_recv_complete"
| "v170_ops_complete Recvmsg_class = v170_recvmsg_complete"
| "v170_ops_complete Recvfrom_class = v170_recvfrom_complete"
| "v170_ops_complete Local_recv_class = v170_local_recv_complete"
| "v170_ops_complete Local_recvmsg_class = v170_local_recvmsg_complete"
| "v170_ops_complete Local_recvfrom_class = v170_local_recvfrom_complete"

definition v170_ops_helper :: "('w, 'ep, 'h) helper" where
  "v170_ops_helper = \<lparr>hv_constructs = v170_ops_constructs, hv_perform = v170_ops_perform, hv_complete = v170_ops_complete\<rparr>"

section \<open>Boost 1.66\<close>

text \<open>
  In 1.66 operations are constructed without an executor; otherwise they are those of 1.70.
\<close>

definition v166_new_recv_op_base ::
  "ip_address \<Rightarrow> nat option \<Rightarrow> state_type \<Rightarrow> nat list \<Rightarrow> message_flags \<Rightarrow> op_class \<Rightarrow> 'ep op_base" where
  "v166_new_recv_op_base unset s st sizes flags complete_func =
     \<lparr>ob_perform = Recv_class, ob_complete = complete_func,
      ob_data = Recv_data \<lparr>ra_socket = s, ra_state = st, ra_single = False, ra_sizes = sizes, ra_flags = flags\<rparr>
        (v166_new_reactor_op_ext unset)\<rparr>"

definition v166_new_recv_obj ::
  "ip_address \<Rightarrow> nat option \<Rightarrow> state_type \<Rightarrow> nat list \<Rightarrow> message_flags \<Rightarrow> 'h \<Rightarrow> ('ep, 'h) operation" where
  "v166_new_recv_obj unset s st sizes flags handler =
     with_handler (v166_new_recv_op_base unset s st sizes flags Recv_class) handler"

definition v166_new_recvmsg_op_base ::
  "ip_address \<Rightarrow> nat option \<Rightarrow> nat list \<Rightarrow> message_flags \<Rightarrow> op_class \<Rightarrow> 'ep op_base" where
  "v166_new_recvmsg_op_base unset s sizes in_flags complete_func =
     \<lparr>ob_perform = Recvmsg_class, ob_complete = complete_func,
      ob_data = Recvmsg_data (msg_args s sizes in_flags) (v166_new_reactor_op_ext unset)\<rparr>"

definition v166_new_recvmsg_obj ::
  "ip_address \<Rightarrow> nat option \<Rightarrow> nat list \<Rightarrow> message_flags \<Rightarrow> 'h \<Rightarrow> ('ep, 'h) operation" where
  "v166_new_recvmsg_obj unset s sizes in_flags handler =
     with_handler (v166_new_recvmsg_op_base unset s sizes in_flags Recvmsg_class) handler"

definition v166_new_recvfrom_op_base ::
  "ip_address \<Rightarrow> nat option \<Rightarrow> nat list \<Rightarrow> 'ep \<Rightarrow> message_flags \<Rightarrow> op_class \<Rightarrow> 'ep op_base" where
  "v166_new_recvfrom_op_base unset s sizes sender flags complete_func =
     \<lparr>ob_perform = Recvfrom_class, ob_complete = complete_func,
      ob_data = Recvfrom_data (new_recvfrom_op unset s sizes flags sender)\<rparr>"

definition v166_new_recvfrom_obj ::
  "ip_address \<Rightarrow> nat option \<Rightarrow> nat list \<Rightarrow> 'ep \<Rightarrow> message_flags \<Rightarrow> 'h \<Rightarrow> ('ep, 'h) operation" where
  "v166_new_recvfrom_obj unset s sizes sender flags handler =
     with_handler (v166_new_recvfrom_op_base unset s sizes sender flags Recvfrom_class) handler"

definition v166_new_local_recv_op_base ::
  "uint32_t \<Rightarrow> uint32_t \<Rightarrow> nat option \<Rightarrow> state_type \<Rightarrow> nat list \<Rightarrow> message_flags \<Rightarrow> op_class \<Rightarrow> 'ep op_base" where
  "v166_new_local_recv_op_base uid gid s st sizes flags complete_func =
     \<lparr>ob_perform = Local_recv_class, ob_complete = complete_func,
      ob_data = Local_recv_data \<lparr>ra_socket = s, ra_state = st, ra_single = False, ra_sizes = sizes, ra_flags = flags\<rparr>
        (v166_new_reactor_op_ext_local uid gid)\<rparr>"

definition v166_new_local_recv_obj ::
  "uint32_t \<Rightarrow> uint32_t \<Rightarrow> nat option \<Rightarrow> state_type \<Rightarrow> nat list \<Rightarrow> message_flags \<Rightarrow> 'h \<Rightarrow> ('ep, 'h) operation" where
  "v166_new_local_recv_obj uid gid s st sizes flags handler =
     with_handler (v166_new_local_recv_op_base uid gid s st sizes flags Local_recv_class) handler"

definition v166_new_local_recvmsg_op_base ::
  "uint32_t \<Rightarrow> uint32_t \<Rightarrow> nat option \<Rightarrow> nat list \<Rightarrow> message_flags \<Rightarrow> op_class \<Rightarrow> 'ep op_base" where
  "v166_new_local_recvmsg_op_base uid gid s sizes in_flags complete_func =
     \<lparr>ob_perform = Local_recvmsg_class, ob_complete = complete_func,
      ob_data = Local_recvmsg_data (msg_args s sizes in_flags) (v166_new_reactor_op_ext_local uid gid)\<rparr>"

definition v166_new_local_recvmsg_obj ::
  "uint32_t \<Rightarrow> uint32_t \<Rightarrow> nat option \<Rightarrow> nat list \<Rightarrow> message_flags \<Rightarrow> 'h \<Rightarrow> ('ep, 'h) operation" where
  "v166_new_local_recvmsg_obj uid gid s sizes in_flags handler =
     with_handler (v166_new_local_recvmsg_op_base uid gid s sizes in_flags Local_recvmsg_class) handler"

definition v166_new_local_recvfrom_op_base ::
  "uint32_t \<Rightarrow> uint32_t \<Rightarrow> nat option \<Rightarrow> nat list \<Rightarrow> 'ep \<Rightarrow> message_flags \<Rightarrow> op_class \<Rightarrow> 'ep op_base" where
  "v166_new_local_recvfrom_op_base uid gid s sizes sender flags complete_func =
     \<lparr>ob_perform = Local_recvfrom_class, ob_complete = complete_func,
      ob_data = Local_recvfrom_data (new_local_recvfrom_op (v166_new_reactor_op_ext_local uid gid) s sizes flags sender)\<rparr>"

definition v166_new_local_recvfrom_obj ::
  "uint32_t \<Rightarrow> uint32_t \<Rightarrow> nat option \<Rightarrow> nat list \<Rightarrow> 'ep \<Rightarrow> message_flags \<Rightarrow> 'h \<Rightarrow> ('ep, 'h) operation" where
  "v166_new_local_recvfrom_obj uid gid s sizes sender flags handler =
     with_handler (v166_new_local_recvfrom_op_base uid gid s sizes sender flags Local_recvfrom_class) handler"

definition v166_recv_complete :: "('ep, 'h) complete_func" where
  "v166_recv_complete = complete_as (as_recv v166_recv_do_complete)"

definition v166_recvmsg_complete :: "('ep, 'h) complete_func" where
  "v166_recvmsg_complete = complete_as (as_recvmsg v166_recvmsg_do_complete)"

definition v166_recvfrom_complete :: "('ep, 'h) complete_func" where
  "v166_recvfrom_complete = complete_as (as_recvfrom v166_recvfrom_do_complete)"

definition v166_local_recv_complete :: "('ep, 'h) complete_func" where
  "v166_local_recv_complete = complete_as (as_local_recv v166_local_recv_do_complete)"

definition v166_local_recvmsg_complete :: "('ep, 'h) complete_func" where
  "v166_local_recvmsg_complete = complete_as (as_local_recvmsg v166_local_recvmsg_do_complete)"

definition v166_local_recvfrom_complete :: "('ep, 'h) complete_func" where
  "v166_local_recvfrom_complete = complete_as (as_local_recvfrom v166_local_recvfrom_do_complete)"

inductive v166_ops_constructs :: "('ep, 'h) operation \<Rightarrow> bool" where
  v166_makes_recv: "v166_ops_constructs (v166_new_recv_obj unset s st sizes flags handler)"
| v166_makes_recvmsg: "v166_ops_constructs (v166_new_recvmsg_obj unset s sizes in_flags handler)"
| v166_makes_recvfrom: "v166_ops_constructs (v166_new_recvfrom_obj unset s sizes sender flags handler)"
| v166_makes_local_recv: "v166_ops_constructs (v166_new_local_recv_obj uid gid s st sizes flags handler)"
| v166_makes_local_recvmsg: "v166_ops_constructs (v166_new_local_recvmsg_obj uid gid s sizes in_flags handler)"
| v166_makes_local_recvfrom: "v166_ops_constructs (v166_new_local_recvfrom_obj uid gid s sizes sender flags handler)"

definition v166_ops_perform ::
  "'w boost_recv \<Rightarrow> ('w, 'ep) recv_os \<Rightarrow> op_class \<Rightarrow> 'ep op_data \<Rightarrow> 'w \<Rightarrow> (bool \<times> 'ep op_data \<times> 'w) option option" where
  "v166_ops_perform B R c d w =
     (case d of
        Recv_data a p \<Rightarrow>
           if c \<noteq> Recv_class then None
           else Some (Some ((\<lambda>(s, p', w'). (s \<noteq> status_not_done, Recv_data a p', w'))
             (v166_recv_do_perform B a p w)))
      | Recvmsg_data a p \<Rightarrow>
           if c \<noteq> Recvmsg_class then None
           else Some (Some ((\<lambda>(s, p', fl, w'). (s \<noteq> status_not_done, Recvmsg_data a p', w'))
             (v166_recvmsg_do_perform B a p w)))
      | Recvfrom_data p \<Rightarrow>
           if c \<noteq> Recvfrom_class then None
           else Some (map_option (\<lambda>(s, p', w'). (s \<noteq> status_not_done, Recvfrom_data p', w'))
             (v166_recvfrom_do_perform R p w))
      | Local_recv_data a p \<Rightarrow>
           if c \<noteq> Local_recv_class then None
           else Some (map_option (\<lambda>(s, p', w'). (s \<noteq> status_not_done, Local_recv_data a p', w'))
             (v166_local_recv_do_perform R a p w))
      | Local_recvmsg_data a p \<Rightarrow>
           if c \<noteq> Local_recvmsg_class then None
           else Some (Some ((\<lambda>(s, p', fl, w'). (s \<noteq> status_not_done, Local_recvmsg_data a p', w'))
             (v166_local_recvmsg_do_perform B a p w)))
      | Local_recvfrom_data p \<Rightarrow>
           if c \<noteq> Local_recvfrom_class then None
           else Some (map_option (\<lambda>(s, p', w'). (s \<noteq> status_not_done, Local_recvfrom_data p', w'))
             (v166_local_recvfrom_do_perform R p w)))"

fun v166_ops_complete :: "op_class \<Rightarrow> ('ep, 'h) complete_func" where
  "v166_ops_complete Recv_class = v166_recv_complete"
| "v166_ops_complete Recvmsg_class = v166_recvmsg_complete"
| "v166_ops_complete Recvfrom_class = v166_recvfrom_complete"
| "v166_ops_complete Local_recv_class = v166_local_recv_complete"
| "v166_ops_complete Local_recvmsg_class = v166_local_recvmsg_complete"
| "v166_ops_complete Local_recvfrom_class = v166_local_recvfrom_complete"

definition v166_ops_helper :: "('w, 'ep, 'h) helper" where
  "v166_ops_helper = \<lparr>hv_constructs = v166_ops_constructs, hv_perform = v166_ops_perform, hv_complete = v166_ops_complete\<rparr>"

section \<open>Boost 1.55\<close>

text \<open>
  In 1.55 \<open>do_perform\<close> answers whether the operation is done.
\<close>

definition v155_new_recv_op_base ::
  "ip_address \<Rightarrow> nat option \<Rightarrow> state_type \<Rightarrow> nat list \<Rightarrow> message_flags \<Rightarrow> op_class \<Rightarrow> 'ep op_base" where
  "v155_new_recv_op_base unset s st sizes flags complete_func =
     \<lparr>ob_perform = Recv_class, ob_complete = complete_func,
      ob_data = Recv_data \<lparr>ra_socket = s, ra_state = st, ra_single = False, ra_sizes = sizes, ra_flags = flags\<rparr>
        (v155_new_reactor_op_ext unset)\<rparr>"

definition v155_new_recv_obj ::
  "ip_address \<Rightarrow> nat option \<Rightarrow> state_type \<Rightarrow> nat list \<Rightarrow> message_flags \<Rightarrow> 'h \<Rightarrow> ('ep, 'h) operation" where
  "v155_new_recv_obj unset s st sizes flags handler =
     with_handler (v155_new_recv_op_base unset s st sizes flags Recv_class) handler"

definition v155_new_recvmsg_op_base ::
  "ip_address \<Rightarrow> nat option \<Rightarrow> nat list \<Rightarrow> message_flags \<Rightarrow> op_class \<Rightarrow> 'ep op_base" where
  "v155_new_recvmsg_op_base unset s sizes in_flags complete_func =
     \<lparr>ob_perform = Recvmsg_class, ob_complete = complete_func,
      ob_data = Recvmsg_data (msg_args s sizes in_flags) (v155_new_reactor_op_ext unset)\<rparr>"

definition v155_new_recvmsg_obj ::
  "ip_address \<Rightarrow> nat option \<Rightarrow> nat list \<Rightarrow> message_flags \<Rightarrow> 'h \<Rightarrow> ('ep, 'h) operation" where
  "v155_new_recvmsg_obj unset s sizes in_flags handler =
     with_handler (v155_new_recvmsg_op_base unset s sizes in_flags Recvmsg_class) handler"

definition v155_new_recvfrom_op_base ::
  "ip_address \<Rightarrow> nat option \<Rightarrow> nat list \<Rightarrow> 'ep \<Rightarrow> message_flags \<Rightarrow> op_class \<Rightarrow> 'ep op_base" where
  "v155_new_recvfrom_op_base unset s sizes sender flags complete_func =
     \<lparr>ob_perform = Recvfrom_class, ob_complete = complete_func,
      ob_data = Recvfrom_data (new_recvfrom_op unset s sizes flags sender)\<rparr>"

definition v155_new_recvfrom_obj ::
  "ip_address \<Rightarrow> nat option \<Rightarrow> nat list \<Rightarrow> 'ep \<Rightarrow> message_flags \<Rightarrow> 'h \<Rightarrow> ('ep, 'h) operation" where
  "v155_new_recvfrom_obj unset s sizes sender flags handler =
     with_handler (v155_new_recvfrom_op_base unset s sizes sender flags Recvfrom_class) handler"

definition v155_new_local_recv_op_base ::
  "uint32_t \<Rightarrow> uint32_t \<Rightarrow> nat option \<Rightarrow> state_type \<Rightarrow> nat list \<Rightarrow> message_flags \<Rightarrow> op_class \<Rightarrow> 'ep op_base" where
  "v155_new_local_recv_op_base uid gid s st sizes flags complete_func =
     \<lparr>ob_perform = Local_recv_class, ob_complete = complete_func,
      ob_data = Local_recv_data \<lparr>ra_socket = s, ra_state = st, ra_single = False, ra_sizes = sizes, ra_flags = flags\<rparr>
        (v155_new_reactor_op_ext_local uid gid)\<rparr>"

definition v155_new_local_recv_obj ::
  "uint32_t \<Rightarrow> uint32_t \<Rightarrow> nat option \<Rightarrow> state_type \<Rightarrow> nat list \<Rightarrow> message_flags \<Rightarrow> 'h \<Rightarrow> ('ep, 'h) operation" where
  "v155_new_local_recv_obj uid gid s st sizes flags handler =
     with_handler (v155_new_local_recv_op_base uid gid s st sizes flags Local_recv_class) handler"

definition v155_new_local_recvmsg_op_base ::
  "uint32_t \<Rightarrow> uint32_t \<Rightarrow> nat option \<Rightarrow> nat list \<Rightarrow> message_flags \<Rightarrow> op_class \<Rightarrow> 'ep op_base" where
  "v155_new_local_recvmsg_op_base uid gid s sizes in_flags complete_func =
     \<lparr>ob_perform = Local_recvmsg_class, ob_complete = complete_func,
      ob_data = Local_recvmsg_data (msg_args s sizes in_flags) (v155_new_reactor_op_ext_local uid gid)\<rparr>"

definition v155_new_local_recvmsg_obj ::
  "uint32_t \<Rightarrow> uint32_t \<Rightarrow> nat option \<Rightarrow> nat list \<Rightarrow> message_flags \<Rightarrow> 'h \<Rightarrow> ('ep, 'h) operation" where
  "v155_new_local_recvmsg_obj uid gid s sizes in_flags handler =
     with_handler (v155_new_local_recvmsg_op_base uid gid s sizes in_flags Local_recvmsg_class) handler"

definition v155_new_local_recvfrom_op_base ::
  "uint32_t \<Rightarrow> uint32_t \<Rightarrow> nat option \<Rightarrow> nat list \<Rightarrow> 'ep \<Rightarrow> message_flags \<Rightarrow> op_class \<Rightarrow> 'ep op_base" where
  "v155_new_local_recvfrom_op_base uid gid s sizes sender flags complete_func =
     \<lparr>ob_perform = Local_recvfrom_class, ob_complete = complete_func,
      ob_data = Local_recvfrom_data (new_local_recvfrom_op (v155_new_reactor_op_ext_local uid gid) s sizes flags sender)\<rparr>"

definition v155_new_local_recvfrom_obj ::
  "uint32_t \<Rightarrow> uint32_t \<Rightarrow> nat option \<Rightarrow> nat list \<Rightarrow> 'ep \<Rightarrow> message_flags \<Rightarrow> 'h \<Rightarrow> ('ep, 'h) operation" where
  "v155_new_local_recvfrom_obj uid gid s sizes sender flags handler =
     with_handler (v155_new_local_recvfrom_op_base uid gid s sizes sender flags Local_recvfrom_class) handler"

definition v155_recv_complete :: "('ep, 'h) complete_func" where
  "v155_recv_complete = complete_as (as_recv v155_recv_do_complete)"

definition v155_recvmsg_complete :: "('ep, 'h) complete_func" where
  "v155_recvmsg_complete = complete_as (as_recvmsg v155_recvmsg_do_complete)"

definition v155_recvfrom_complete :: "('ep, 'h) complete_func" where
  "v155_recvfrom_complete = complete_as (as_recvfrom v155_recvfrom_do_complete)"

definition v155_local_recv_complete :: "('ep, 'h) complete_func" where
  "v155_local_recv_complete = complete_as (as_local_recv v155_local_recv_do_complete)"

definition v155_local_recvmsg_complete :: "('ep, 'h) complete_func" where
  "v155_local_recvmsg_complete = complete_as (as_local_recvmsg v155_local_recvmsg_do_complete)"

definition v155_local_recvfrom_complete :: "('ep, 'h) complete_func" where
  "v155_local_recvfrom_complete = complete_as (as_local_recvfrom v155_local_recvfrom_do_complete)"

inductive v155_ops_constructs :: "('ep, 'h) operation \<Rightarrow> bool" where
  v155_makes_recv: "v155_ops_constructs (v155_new_recv_obj unset s st sizes flags handler)"
| v155_makes_recvmsg: "v155_ops_constructs (v155_new_recvmsg_obj unset s sizes in_flags handler)"
| v155_makes_recvfrom: "v155_ops_constructs (v155_new_recvfrom_obj unset s sizes sender flags handler)"
| v155_makes_local_recv: "v155_ops_constructs (v155_new_local_recv_obj uid gid s st sizes flags handler)"
| v155_makes_local_recvmsg: "v155_ops_constructs (v155_new_local_recvmsg_obj uid gid s sizes in_flags handler)"
| v155_makes_local_recvfrom: "v155_ops_constructs (v155_new_local_recvfrom_obj uid gid s sizes sender flags handler)"

definition v155_ops_perform ::
  "'w boost_recv \<Rightarrow> ('w, 'ep) recv_os \<Rightarrow> op_class \<Rightarrow> 'ep op_data \<Rightarrow> 'w \<Rightarrow> (bool \<times> 'ep op_data \<times> 'w) option option" where
  "v155_ops_perform B R c d w =
     (case d of
        Recv_data a p \<Rightarrow>
           if c \<noteq> Recv_class then None
           else Some (Some ((\<lambda>(s, p', w'). (s, Recv_data a p', w'))
             (v155_recv_do_perform B a p w)))
      | Recvmsg_data a p \<Rightarrow>
           if c \<noteq> Recvmsg_class then None
           else Some (Some ((\<lambda>(s, p', fl, w'). (s, Recvmsg_data a p', w'))
             (v155_recvmsg_do_perform B a p w)))
      | Recvfrom_data p \<Rightarrow>
           if c \<noteq> Recvfrom_class then None
           else Some (map_option (\<lambda>(s, p', w'). (s, Recvfrom_data p', w'))
             (v155_recvfrom_do_perform R p w))
      | Local_recv_data a p \<Rightarrow>
           if c \<noteq> Local_recv_class then None
           else Some (map_option (\<lambda>(s, p', w'). (s, Local_recv_data a p', w'))
             (v155_local_recv_do_perform R a p w))
      | Local_recvmsg_data a p \<Rightarrow>
           if c \<noteq> Local_recvmsg_class then None
           else Some (Some ((\<lambda>(s, p', fl, w'). (s, Local_recvmsg_data a p', w'))
             (v155_local_recvmsg_do_perform B a p w)))
      | Local_recvfrom_data p \<Rightarrow>
           if c \<noteq> Local_recvfrom_class then None
           else Some (map_option (\<lambda>(s, p', w'). (s, Local_recvfrom_data p', w'))
             (v155_local_recvfrom_do_perform R p w)))"

fun v155_ops_complete :: "op_class \<Rightarrow> ('ep, 'h) complete_func" where
  "v155_ops_complete Recv_class = v155_recv_complete"
| "v155_ops_complete Recvmsg_class = v155_recvmsg_complete"
| "v155_ops_complete Recvfrom_class = v155_recvfrom_complete"
| "v155_ops_complete Local_recv_class = v155_local_recv_complete"
| "v155_ops_complete Local_recvmsg_class = v155_local_recvmsg_complete"
| "v155_ops_complete Local_recvfrom_class = v155_local_recvfrom_complete"

definition v155_ops_helper :: "('w, 'ep, 'h) helper" where
  "v155_ops_helper = \<lparr>hv_constructs = v155_ops_constructs, hv_perform = v155_ops_perform, hv_complete = v155_ops_complete\<rparr>"

section \<open>Starting and completing\<close>

text \<open>
  The memory part of the services' asynchronous receives: allocate through the handler, construct
  (\<open>None\<close>: a copy of an argument throws), hand the object to the reactor, disarm \<open>p\<close>.  The result is
  the operation handed over, if any.
\<close>

definition start_operation ::
  "('h, ('ep, 'h) operation) handler_ptr \<Rightarrow> ('h \<Rightarrow> ('ep, 'h) operation option) \<Rightarrow> 'h \<Rightarrow>
     ('ep, 'h) operation storage \<Rightarrow> (nat option \<times> ('ep, 'h) operation storage) option" where
  "start_operation P build handler m =
     (case hp_allocate P handler m of
        None \<Rightarrow> Some (None, m)
      | Some (v, m1) \<Rightarrow>
          (let p = \<lparr>p_h = Handler_local, p_v = Some v, p_p = None\<rparr>
           in case build handler of
                None \<Rightarrow> map_option (\<lambda>(_, m2). (None, m2)) (hp_reset P p m1)
              | Some ob \<Rightarrow>
                  (let p = p\<lparr>p_p := Some v\<rparr>; m2 = m1(v \<mapsto> Object ob); p = p\<lparr>p_v := None, p_p := None\<rparr>
                   in map_option (\<lambda>(_, m3). (Some v, m3)) (hp_reset P p m2))))"

text \<open>The scheduler completes an operation through the function pointer it was constructed with.\<close>

definition call_complete ::
  "('w, 'ep, 'h) helper \<Rightarrow> ('ep, 'h) complete_func" where
  "call_complete V P upcall owner base W =
     (case storage W base of
        Some (Object ob) \<Rightarrow> hv_complete V (ob_complete ob) P upcall owner base W
      | _ \<Rightarrow> None)"

end
