(* ===== verification/Operation_Props.thy ===== *)
theory Operation_Props imports Operation_Memory Client_Events "HOL-Library.Multiset" begin

text \<open>
  Asynchronous receive operations from start to completion: the contract of the storage and of a
  helper's classes, the operations as a transition system driven by the reactor and the scheduler,
  and what holds in all its runs.
\<close>

section \<open>Contracts\<close>

text \<open>
  What the operations rely on of \<open>op::ptr\<close>: allocation gives a block nobody has, or throws; \<open>reset\<close>
  destroys the object if there is one, frees the block through a handler that is still alive, and
  clears both pointers; with both cleared it does nothing.
\<close>

locale operation_storage =
  fixes P :: "('h, ('ep, 'h) operation) handler_ptr"
  assumes allocate_fresh: "hp_allocate P h m = Some (a, m') \<Longrightarrow> m a = None \<and> m' = m(a \<mapsto> Raw)"
    and reset_object: "m a = Some (Object ob) \<Longrightarrow>
      hp_reset P \<lparr>p_h = Handler_local, p_v = Some a, p_p = Some a\<rparr> m = Some (null_ptr Handler_local, m(a := None))"
    and reset_raw: "m a = Some Raw \<Longrightarrow>
      hp_reset P \<lparr>p_h = Handler_local, p_v = Some a, p_p = None\<rparr> m = Some (null_ptr Handler_local, m(a := None))"
    and reset_null: "hp_reset P (null_ptr Handler_local) m = Some (null_ptr Handler_local, m)"

text \<open>Specification of a class: its tag, and what its handler is to be told.\<close>

fun class_of :: "'ep op_data \<Rightarrow> op_class" where
  "class_of (Recv_data a p) = Recv_class"
| "class_of (Recvmsg_data a p) = Recvmsg_class"
| "class_of (Recvfrom_data q) = Recvfrom_class"
| "class_of (Local_recv_data a l) = Local_recv_class"
| "class_of (Local_recvmsg_data a l) = Local_recvmsg_class"
| "class_of (Local_recvfrom_data r) = Local_recvfrom_class"

fun delivered :: "'ep op_data \<Rightarrow> completion_args" where
  "delivered (Recv_data a p) = With_destination (ro_ec p) (length (ro_bytes p)) (ro_da p)"
| "delivered (Recvmsg_data a p) = With_destination (ro_ec p) (length (ro_bytes p)) (ro_da p)"
| "delivered (Recvfrom_data q) = With_destination (op_ec q) (length (op_bytes q)) (op_da q)"
| "delivered (Local_recv_data a l) = With_credentials (ro_ec l) (length (ro_bytes l)) (ro_uid l) (ro_gid l)"
| "delivered (Local_recvmsg_data a l) = With_credentials (ro_ec l) (length (ro_bytes l)) (ro_uid l) (ro_gid l)"
| "delivered (Local_recvfrom_data r) = With_credentials (ro_ec r) (length (ro_bytes r)) (ro_uid r) (ro_gid r)"

definition well_typed :: "('ep, 'h) operation \<Rightarrow> bool" where
  "well_typed ob \<longleftrightarrow> ob_perform ob = class_of (ob_data ob) \<and> ob_complete ob = class_of (ob_data ob)"

locale operation_classes =
  fixes V :: "('w, 'ep, 'h) helper"
  assumes constructs_typed: "hv_constructs V ob \<Longrightarrow> well_typed ob"
    and perform_defined: "hv_perform V B R (class_of d) d w \<noteq> None"
    and perform_class: "hv_perform V B R (class_of d) d w = Some (Some (fin, d', w')) \<Longrightarrow> class_of d' = class_of d"
    and complete_casts: "hv_complete V (class_of d) P upcall owner base W =
      complete_as (\<lambda>d'. if class_of d' = class_of d then Some (delivered d') else None) P upcall owner base W"

section \<open>The helpers meet the contract\<close>

lemma as_class:
  "as_recv (\<lambda>p. (ro_ec p, length (ro_bytes p), ro_da p)) =
     (\<lambda>d. if class_of d = Recv_class then Some (delivered d) else None)"
  "as_recvmsg (\<lambda>p. (ro_ec p, length (ro_bytes p), ro_da p)) =
     (\<lambda>d. if class_of d = Recvmsg_class then Some (delivered d) else None)"
  "as_recvfrom (\<lambda>q. (op_ec q, length (op_bytes q), op_da q)) =
     (\<lambda>d. if class_of d = Recvfrom_class then Some (delivered d) else None)"
  "as_local_recv (\<lambda>l. (ro_ec l, length (ro_bytes l), ro_uid l, ro_gid l)) =
     (\<lambda>d. if class_of d = Local_recv_class then Some (delivered d) else None)"
  "as_local_recvmsg (\<lambda>l. (ro_ec l, length (ro_bytes l), ro_uid l, ro_gid l)) =
     (\<lambda>d. if class_of d = Local_recvmsg_class then Some (delivered d) else None)"
  "as_local_recvfrom (\<lambda>r. (ro_ec r, length (ro_bytes r), ro_uid r, ro_gid r)) =
     (\<lambda>d. if class_of d = Local_recvfrom_class then Some (delivered d) else None)"
  by (rule ext, rename_tac d, case_tac d; simp)+

text \<open>What a completion tells the handler is the same in every version.\<close>

lemma told:
  "recv_do_complete = (\<lambda>p. (ro_ec p, length (ro_bytes p), ro_da p))"
  "recvmsg_do_complete = (\<lambda>p. (ro_ec p, length (ro_bytes p), ro_da p))"
  "recvfrom_do_complete = (\<lambda>q. (op_ec q, length (op_bytes q), op_da q))"
  "local_recv_do_complete = (\<lambda>l. (ro_ec l, length (ro_bytes l), ro_uid l, ro_gid l))"
  "local_recvmsg_do_complete = (\<lambda>l. (ro_ec l, length (ro_bytes l), ro_uid l, ro_gid l))"
  "local_recvfrom_do_complete = (\<lambda>r. (ro_ec r, length (ro_bytes r), ro_uid r, ro_gid r))"
  by (simp_all add: fun_eq_iff recv_do_complete_def recvmsg_do_complete_def recvfrom_do_complete_def
      local_recv_do_complete_def local_recvmsg_do_complete_def local_recvfrom_do_complete_def)

lemma v170_told:
  "v170_recv_do_complete = (\<lambda>p. (ro_ec p, length (ro_bytes p), ro_da p))"
  "v170_recvmsg_do_complete = (\<lambda>p. (ro_ec p, length (ro_bytes p), ro_da p))"
  "v170_recvfrom_do_complete = (\<lambda>q. (op_ec q, length (op_bytes q), op_da q))"
  "v170_local_recv_do_complete = (\<lambda>l. (ro_ec l, length (ro_bytes l), ro_uid l, ro_gid l))"
  "v170_local_recvmsg_do_complete = (\<lambda>l. (ro_ec l, length (ro_bytes l), ro_uid l, ro_gid l))"
  "v170_local_recvfrom_do_complete = (\<lambda>r. (ro_ec r, length (ro_bytes r), ro_uid r, ro_gid r))"
  by (simp_all add: fun_eq_iff v170_recv_do_complete_def v170_recvmsg_do_complete_def v170_recvfrom_do_complete_def
      v170_local_recv_do_complete_def v170_local_recvmsg_do_complete_def v170_local_recvfrom_do_complete_def)

lemma v166_told:
  "v166_recv_do_complete = (\<lambda>p. (ro_ec p, length (ro_bytes p), ro_da p))"
  "v166_recvmsg_do_complete = (\<lambda>p. (ro_ec p, length (ro_bytes p), ro_da p))"
  "v166_recvfrom_do_complete = (\<lambda>q. (op_ec q, length (op_bytes q), op_da q))"
  "v166_local_recv_do_complete = (\<lambda>l. (ro_ec l, length (ro_bytes l), ro_uid l, ro_gid l))"
  "v166_local_recvmsg_do_complete = (\<lambda>l. (ro_ec l, length (ro_bytes l), ro_uid l, ro_gid l))"
  "v166_local_recvfrom_do_complete = (\<lambda>r. (ro_ec r, length (ro_bytes r), ro_uid r, ro_gid r))"
  by (simp_all add: fun_eq_iff v166_recv_do_complete_def v166_recvmsg_do_complete_def v166_recvfrom_do_complete_def
      v166_local_recv_do_complete_def v166_local_recvmsg_do_complete_def v166_local_recvfrom_do_complete_def)

lemma v155_told:
  "v155_recv_do_complete = (\<lambda>p. (ro_ec p, length (ro_bytes p), ro_da p))"
  "v155_recvmsg_do_complete = (\<lambda>p. (ro_ec p, length (ro_bytes p), ro_da p))"
  "v155_recvfrom_do_complete = (\<lambda>q. (op_ec q, length (op_bytes q), op_da q))"
  "v155_local_recv_do_complete = (\<lambda>l. (ro_ec l, length (ro_bytes l), ro_uid l, ro_gid l))"
  "v155_local_recvmsg_do_complete = (\<lambda>l. (ro_ec l, length (ro_bytes l), ro_uid l, ro_gid l))"
  "v155_local_recvfrom_do_complete = (\<lambda>r. (ro_ec r, length (ro_bytes r), ro_uid r, ro_gid r))"
  by (simp_all add: fun_eq_iff v155_recv_do_complete_def v155_recvmsg_do_complete_def v155_recvfrom_do_complete_def
      v155_local_recv_do_complete_def v155_local_recvmsg_do_complete_def v155_local_recvfrom_do_complete_def)

lemma well_typed_with_handler [simp]:
  "well_typed (with_handler b h) \<longleftrightarrow> ob_perform b = class_of (ob_data b) \<and> ob_complete b = class_of (ob_data b)"
  by (simp add: well_typed_def with_handler_def)

interpretation classes: operation_classes ops_helper
proof unfold_locales
  show "well_typed ob" if "hv_constructs ops_helper ob" for ob :: "('b, 'c) operation"
    using that by (cases rule: ops_constructs.cases [OF that [unfolded ops_helper_def, simplified]])
      (simp_all add: new_recv_obj_def new_recv_op_base_def new_recvfrom_obj_def new_recvfrom_op_base_def new_local_recv_obj_def new_local_recv_op_base_def new_local_recvmsg_obj_def new_local_recvmsg_op_base_def)
  show "hv_perform ops_helper B R (class_of d) d w \<noteq> None" for B R d w
    by (cases d) (simp_all add: ops_helper_def ops_perform_def)
  show "class_of d' = class_of d"
    if "hv_perform ops_helper B R (class_of d) d w = Some (Some (fin, d', w'))" for B R d w fin d' w'
    using that by (cases d) (auto simp: ops_helper_def ops_perform_def split: prod.splits)
  show "hv_complete ops_helper (class_of d) P upcall owner base W =
      complete_as (\<lambda>d'. if class_of d' = class_of d then Some (delivered d') else None) P upcall owner base W"
    for d P upcall owner base W
    by (cases d) (simp_all add: ops_helper_def told as_class recv_complete_def recvmsg_complete_def recvfrom_complete_def local_recv_complete_def local_recvmsg_complete_def local_recvfrom_complete_def)
qed

interpretation v170_classes: operation_classes v170_ops_helper
proof unfold_locales
  show "well_typed ob" if "hv_constructs v170_ops_helper ob" for ob :: "('b, 'c) operation"
    using that by (cases rule: v170_ops_constructs.cases [OF that [unfolded v170_ops_helper_def, simplified]])
      (simp_all add: v170_new_recv_obj_def v170_new_recv_op_base_def v170_new_recvmsg_obj_def v170_new_recvmsg_op_base_def v170_new_recvfrom_obj_def v170_new_recvfrom_op_base_def v170_new_local_recv_obj_def v170_new_local_recv_op_base_def v170_new_local_recvmsg_obj_def v170_new_local_recvmsg_op_base_def v170_new_local_recvfrom_obj_def v170_new_local_recvfrom_op_base_def)
  show "hv_perform v170_ops_helper B R (class_of d) d w \<noteq> None" for B R d w
    by (cases d) (simp_all add: v170_ops_helper_def v170_ops_perform_def)
  show "class_of d' = class_of d"
    if "hv_perform v170_ops_helper B R (class_of d) d w = Some (Some (fin, d', w'))" for B R d w fin d' w'
    using that by (cases d) (auto simp: v170_ops_helper_def v170_ops_perform_def split: prod.splits)
  show "hv_complete v170_ops_helper (class_of d) P upcall owner base W =
      complete_as (\<lambda>d'. if class_of d' = class_of d then Some (delivered d') else None) P upcall owner base W"
    for d P upcall owner base W
    by (cases d) (simp_all add: v170_ops_helper_def v170_told as_class v170_recv_complete_def v170_recvmsg_complete_def v170_recvfrom_complete_def v170_local_recv_complete_def v170_local_recvmsg_complete_def v170_local_recvfrom_complete_def)
qed

interpretation v166_classes: operation_classes v166_ops_helper
proof unfold_locales
  show "well_typed ob" if "hv_constructs v166_ops_helper ob" for ob :: "('b, 'c) operation"
    using that by (cases rule: v166_ops_constructs.cases [OF that [unfolded v166_ops_helper_def, simplified]])
      (simp_all add: v166_new_recv_obj_def v166_new_recv_op_base_def v166_new_recvmsg_obj_def v166_new_recvmsg_op_base_def v166_new_recvfrom_obj_def v166_new_recvfrom_op_base_def v166_new_local_recv_obj_def v166_new_local_recv_op_base_def v166_new_local_recvmsg_obj_def v166_new_local_recvmsg_op_base_def v166_new_local_recvfrom_obj_def v166_new_local_recvfrom_op_base_def)
  show "hv_perform v166_ops_helper B R (class_of d) d w \<noteq> None" for B R d w
    by (cases d) (simp_all add: v166_ops_helper_def v166_ops_perform_def)
  show "class_of d' = class_of d"
    if "hv_perform v166_ops_helper B R (class_of d) d w = Some (Some (fin, d', w'))" for B R d w fin d' w'
    using that by (cases d) (auto simp: v166_ops_helper_def v166_ops_perform_def split: prod.splits)
  show "hv_complete v166_ops_helper (class_of d) P upcall owner base W =
      complete_as (\<lambda>d'. if class_of d' = class_of d then Some (delivered d') else None) P upcall owner base W"
    for d P upcall owner base W
    by (cases d) (simp_all add: v166_ops_helper_def v166_told as_class v166_recv_complete_def v166_recvmsg_complete_def v166_recvfrom_complete_def v166_local_recv_complete_def v166_local_recvmsg_complete_def v166_local_recvfrom_complete_def)
qed

interpretation v155_classes: operation_classes v155_ops_helper
proof unfold_locales
  show "well_typed ob" if "hv_constructs v155_ops_helper ob" for ob :: "('b, 'c) operation"
    using that by (cases rule: v155_ops_constructs.cases [OF that [unfolded v155_ops_helper_def, simplified]])
      (simp_all add: v155_new_recv_obj_def v155_new_recv_op_base_def v155_new_recvmsg_obj_def v155_new_recvmsg_op_base_def v155_new_recvfrom_obj_def v155_new_recvfrom_op_base_def v155_new_local_recv_obj_def v155_new_local_recv_op_base_def v155_new_local_recvmsg_obj_def v155_new_local_recvmsg_op_base_def v155_new_local_recvfrom_obj_def v155_new_local_recvfrom_op_base_def)
  show "hv_perform v155_ops_helper B R (class_of d) d w \<noteq> None" for B R d w
    by (cases d) (simp_all add: v155_ops_helper_def v155_ops_perform_def)
  show "class_of d' = class_of d"
    if "hv_perform v155_ops_helper B R (class_of d) d w = Some (Some (fin, d', w'))" for B R d w fin d' w'
    using that by (cases d) (auto simp: v155_ops_helper_def v155_ops_perform_def split: prod.splits)
  show "hv_complete v155_ops_helper (class_of d) P upcall owner base W =
      complete_as (\<lambda>d'. if class_of d' = class_of d then Some (delivered d') else None) P upcall owner base W"
    for d P upcall owner base W
    by (cases d) (simp_all add: v155_ops_helper_def v155_told as_class v155_recv_complete_def v155_recvmsg_complete_def v155_recvfrom_complete_def v155_local_recv_complete_def v155_local_recvmsg_complete_def v155_local_recvfrom_complete_def)
qed

section \<open>Operations from start to completion\<close>

text \<open>
  Operations are started into the reactor's queue or straight into the scheduler's, tried by the
  reactor when the descriptor is ready, cancelled, and completed by the scheduler; when it shuts down
  it completes what is left without an owner.  \<open>outside\<close> is the world of the operating system.
\<close>

record ('w, 'ep, 'h) op_state =
  op_world :: "('ep, 'h) op_world"
  waiting :: "nat list"
  ready :: "nat list"
  outside :: 'w

datatype 'h op_label = Started 'h | Refused 'h | Tried nat | Cancelled nat | Completed nat | Dropped 'h

definition idle :: "'w \<Rightarrow> ('w, 'ep, 'h) op_state" where
  "idle w = \<lparr>op_world = \<lparr>storage = Map.empty, called = []\<rparr>, waiting = [], ready = [], outside = w\<rparr>"

definition store :: "('ep, 'h) operation storage \<Rightarrow> ('w, 'ep, 'h) op_state \<Rightarrow> ('w, 'ep, 'h) op_state" where
  "store m s = s\<lparr>op_world := (op_world s)\<lparr>storage := m\<rparr>\<rparr>"

abbreviation storage_of :: "('w, 'ep, 'h) op_state \<Rightarrow> ('ep, 'h) operation storage" where
  "storage_of s \<equiv> storage (op_world s)"

text \<open>A reactor that cancels an operation writes the error code into it.\<close>

fun set_ec :: "error_code \<Rightarrow> 'ep op_data \<Rightarrow> 'ep op_data" where
  "set_ec ec (Recv_data a p) = Recv_data a (p\<lparr>ro_ec := ec\<rparr>)"
| "set_ec ec (Recvmsg_data a p) = Recvmsg_data a (p\<lparr>ro_ec := ec\<rparr>)"
| "set_ec ec (Recvfrom_data q) = Recvfrom_data (q\<lparr>op_ec := ec\<rparr>)"
| "set_ec ec (Local_recv_data a l) = Local_recv_data a (l\<lparr>ro_ec := ec\<rparr>)"
| "set_ec ec (Local_recvmsg_data a l) = Local_recvmsg_data a (l\<lparr>ro_ec := ec\<rparr>)"
| "set_ec ec (Local_recvfrom_data r) = Local_recvfrom_data (r\<lparr>ro_ec := ec\<rparr>)"

lemma set_ec_class [simp]: "class_of (set_ec ec d) = class_of d"
  by (cases d) simp_all

inductive op_step ::
  "('w, 'ep, 'h) helper \<Rightarrow> ('h, ('ep, 'h) operation) handler_ptr \<Rightarrow> 'w boost_recv \<Rightarrow> ('w, 'ep) recv_os \<Rightarrow>
     'h op_label \<Rightarrow> ('w, 'ep, 'h) op_state \<Rightarrow> ('w, 'ep, 'h) op_state \<Rightarrow> bool"
  for V P B R where
  step_queued:
    "hv_constructs V ob \<Longrightarrow> start_operation P (\<lambda>_. Some ob) (op_handler ob) (storage_of s) = Some (Some a, m) \<Longrightarrow>
     op_step V P B R (Started (op_handler ob)) s ((store m s)\<lparr>waiting := waiting s @ [a]\<rparr>)"
| step_posted:
    "hv_constructs V ob \<Longrightarrow> start_operation P (\<lambda>_. Some ob) (op_handler ob) (storage_of s) = Some (Some a, m) \<Longrightarrow>
     op_step V P B R (Started (op_handler ob)) s ((store m s)\<lparr>ready := ready s @ [a]\<rparr>)"
| step_refused:
    "start_operation P build h (storage_of s) = Some (None, m) \<Longrightarrow> op_step V P B R (Refused h) s (store m s)"
| step_tried:
    "a \<in> set (waiting s) \<Longrightarrow> storage_of s a = Some (Object ob) \<Longrightarrow>
     hv_perform V B R (ob_perform ob) (ob_data ob) (outside s) = Some (Some (False, d, w)) \<Longrightarrow>
     op_step V P B R (Tried a) s
       ((store ((storage_of s)(a \<mapsto> Object (ob\<lparr>ob_data := d\<rparr>))) s)\<lparr>outside := w\<rparr>)"
| step_done:
    "a \<in> set (waiting s) \<Longrightarrow> storage_of s a = Some (Object ob) \<Longrightarrow>
     hv_perform V B R (ob_perform ob) (ob_data ob) (outside s) = Some (Some (True, d, w)) \<Longrightarrow>
     op_step V P B R (Tried a) s
       ((store ((storage_of s)(a \<mapsto> Object (ob\<lparr>ob_data := d\<rparr>))) s)
          \<lparr>outside := w, waiting := remove1 a (waiting s), ready := ready s @ [a]\<rparr>)"
| step_cancelled:
    "a \<in> set (waiting s) \<Longrightarrow> storage_of s a = Some (Object ob) \<Longrightarrow>
     op_step V P B R (Cancelled a) s
       ((store ((storage_of s)(a \<mapsto> Object (ob\<lparr>ob_data := set_ec operation_aborted (ob_data ob)\<rparr>))) s)
          \<lparr>waiting := remove1 a (waiting s), ready := ready s @ [a]\<rparr>)"
| step_completed:
    "a \<in> set (ready s) \<Longrightarrow> call_complete V P log_call True a (op_world s) = Some W \<Longrightarrow>
     op_step V P B R (Completed a) s (s\<lparr>op_world := W, ready := remove1 a (ready s)\<rparr>)"
| step_dropped:
    "a \<in> set (waiting s) \<union> set (ready s) \<Longrightarrow> storage_of s a = Some (Object ob) \<Longrightarrow>
     call_complete V P log_call False a (op_world s) = Some W \<Longrightarrow>
     op_step V P B R (Dropped (op_handler ob)) s
       (s\<lparr>op_world := W, waiting := remove1 a (waiting s), ready := remove1 a (ready s)\<rparr>)"

inductive_cases op_stepE: "op_step V P B R l s s'"

section \<open>Who owns which block\<close>

definition pending :: "('w, 'ep, 'h) op_state \<Rightarrow> nat list" where
  "pending s = waiting s @ ready s"

text \<open>The blocks are the pending operations', each with an object whose function pointers fit its class.\<close>

definition accounted :: "('ep, 'h) operation storage \<Rightarrow> nat list \<Rightarrow> bool" where
  "accounted m xs \<longleftrightarrow> distinct xs \<and> dom m = set xs \<and> (\<forall>a\<in>set xs. \<exists>ob. m a = Some (Object ob) \<and> well_typed ob)"

definition handler_at :: "('ep, 'h) operation storage \<Rightarrow> nat \<Rightarrow> 'h option" where
  "handler_at m a = (case m a of Some (Object ob) \<Rightarrow> Some (op_handler ob) | _ \<Rightarrow> None)"

definition held :: "('ep, 'h) operation storage \<Rightarrow> nat list \<Rightarrow> 'h option multiset" where
  "held m xs = image_mset (handler_at m) (mset xs)"

text \<open>The handlers given to operations that were started, and those dropped at shutdown.\<close>

definition started_handlers :: "'h op_label list \<Rightarrow> 'h multiset" where
  "started_handlers ls = mset (concat (map (\<lambda>l. case l of Started h \<Rightarrow> [h] | _ \<Rightarrow> []) ls))"

definition dropped_handlers :: "'h op_label list \<Rightarrow> 'h multiset" where
  "dropped_handlers ls = mset (concat (map (\<lambda>l. case l of Dropped h \<Rightarrow> [h] | _ \<Rightarrow> []) ls))"

definition called_handlers :: "('w, 'ep, 'h) op_state \<Rightarrow> 'h multiset" where
  "called_handlers s = mset (map fst (called (op_world s)))"

lemma label_handlers [simp]:
  "started_handlers [] = {#}"
  "started_handlers (ls @ [l]) = started_handlers ls + (case l of Started h \<Rightarrow> {#h#} | _ \<Rightarrow> {#})"
  "dropped_handlers [] = {#}"
  "dropped_handlers (ls @ [l]) = dropped_handlers ls + (case l of Dropped h \<Rightarrow> {#h#} | _ \<Rightarrow> {#})"
  by (simp_all add: started_handlers_def dropped_handlers_def split: op_label.splits)

lemma handler_at_update [simp]:
  "handler_at (m(a \<mapsto> Object ob)) = (handler_at m)(a := Some (op_handler ob))"
  "m a = Some (Object ob) \<Longrightarrow> handler_at m a = Some (op_handler ob)"
  by (auto simp: handler_at_def fun_eq_iff)

lemma image_mset_update: "a \<notin># M \<Longrightarrow> image_mset (f(a := x)) M = image_mset f M"
  by (rule image_mset_cong) auto

lemma accounted_perm: "accounted m xs \<Longrightarrow> mset ys = mset xs \<Longrightarrow> accounted m ys \<and> held m ys = held m xs"
  using mset_eq_imp_distinct_iff [of ys xs] mset_eq_setD [of ys xs] by (simp add: accounted_def held_def)

lemma accounted_start:
  assumes "accounted m xs" and "m a = None" and "well_typed ob"
  shows "accounted (m(a \<mapsto> Object ob)) (a # xs) \<and>
    held (m(a \<mapsto> Object ob)) (a # xs) = add_mset (Some (op_handler ob)) (held m xs)"
proof -
  have "a \<notin> set xs" using assms(1,2) by (auto simp: accounted_def dom_def)
  then show ?thesis using assms by (auto simp: accounted_def held_def image_mset_update)
qed

lemma accounted_update:
  assumes "accounted m xs" and "m a = Some (Object ob)" and "well_typed ob'" and "op_handler ob' = op_handler ob"
  shows "accounted (m(a \<mapsto> Object ob')) xs \<and> held (m(a \<mapsto> Object ob')) xs = held m xs"
proof -
  have "a \<in> set xs" using assms(1,2) by (auto simp: accounted_def dom_def)
  moreover have "(handler_at m)(a := Some (op_handler ob)) = handler_at m"
    using assms(2) by (simp add: fun_upd_idem)
  ultimately show ?thesis using assms by (auto simp: accounted_def held_def)
qed

lemma accounted_finish:
  assumes "accounted m (a # xs)" and "m a = Some (Object ob)"
  shows "accounted (m(a := None)) xs \<and> held m (a # xs) = add_mset (Some (op_handler ob)) (held (m(a := None)) xs)"
proof -
  have "a \<notin> set xs" using assms(1) by (simp add: accounted_def)
  moreover have "handler_at (m(a := None)) = (handler_at m)(a := None)"
    by (auto simp: handler_at_def fun_eq_iff)
  ultimately show ?thesis using assms by (auto simp: accounted_def held_def image_mset_update)
qed

section \<open>Every run is in order\<close>

text \<open>Every handler that was given to an operation is with a pending one, called or dropped.\<close>

definition in_order :: "'h op_label list \<Rightarrow> ('w, 'ep, 'h) op_state \<Rightarrow> bool" where
  "in_order ls s \<longleftrightarrow> accounted (storage_of s) (pending s) \<and>
     image_mset Some (started_handlers ls) =
       image_mset Some (called_handlers s + dropped_handlers ls) + held (storage_of s) (pending s)"

lemma in_orderI:
  assumes "accounted m xs \<and> held m xs = H" and "storage_of s = m" and "mset (pending s) = mset xs"
    and "image_mset Some (started_handlers ls) = image_mset Some (called_handlers s + dropped_handlers ls) + H"
  shows "in_order ls s"
  using accounted_perm [of m xs "pending s"] assms by (simp add: in_order_def)

context operation_storage
begin

lemma finish:
  assumes "storage W a = Some (Object ob)"
  shows "finish_operation P upcall owner a h args W =
    (let W' = W\<lparr>storage := (storage W)(a := None)\<rparr> in if owner then upcall h args W' else Some W')"
  using assms by (simp add: finish_operation_def Let_def reset_object reset_null split: option.split)

lemma start_result:
  "start_operation P (\<lambda>_. Some ob) h m = Some (Some a, m') \<Longrightarrow> m a = None \<and> m' = m(a \<mapsto> Object ob)"
  by (auto simp: start_operation_def Let_def reset_null [unfolded null_ptr_def] dest!: allocate_fresh
      split: option.splits)

text \<open>A start that fails leaves the storage as it was, and none is undefined.\<close>

lemma start_refused: "start_operation P build h m = Some (None, m') \<Longrightarrow> m' = m"
  by (auto simp: start_operation_def Let_def reset_raw fun_upd_idem dest!: allocate_fresh split: option.splits)

lemma start_defined: "start_operation P build h m \<noteq> None"
  by (auto simp: start_operation_def Let_def reset_raw reset_null [unfolded null_ptr_def]
      dest!: allocate_fresh split: option.splits)

end

locale operation_machine = operation_classes V + operation_storage P
  for V :: "('w, 'ep, 'h) helper" and P :: "('h, ('ep, 'h) operation) handler_ptr"
begin

lemma complete_pending:
  assumes "storage W a = Some (Object ob)" and "well_typed ob"
  shows "call_complete V P upcall owner a W =
    (let W' = W\<lparr>storage := (storage W)(a := None)\<rparr>
     in if owner then upcall (op_handler ob) (delivered (ob_data ob)) W' else Some W')"
  using assms by (simp add: call_complete_def well_typed_def complete_casts complete_as_def finish)

lemma in_order_start:
  assumes "in_order ls s" and "hv_constructs V ob"
    and "start_operation P (\<lambda>_. Some ob) (op_handler ob) (storage_of s) = Some (Some a, m)"
    and "storage_of s' = m" and "called_handlers s' = called_handlers s"
    and "mset (pending s') = add_mset a (mset (pending s))"
  shows "in_order (ls @ [Started (op_handler ob)]) s'"
  using assms(1,4,5,6) constructs_typed [OF assms(2)] start_result [OF assms(3)]
  by (intro in_orderI [OF accounted_start [of "storage_of s" "pending s" a ob]]) (auto simp: in_order_def)

lemma in_order_update:
  assumes "in_order ls s" and "storage_of s a = Some (Object ob)" and "class_of d = class_of (ob_data ob)"
    and "storage_of s' = (storage_of s)(a \<mapsto> Object (ob\<lparr>ob_data := d\<rparr>))"
    and "called_handlers s' = called_handlers s" and "mset (pending s') = mset (pending s)"
    and "started_handlers [l] = {#}" and "dropped_handlers [l] = {#}"
  shows "in_order (ls @ [l]) s'"
proof -
  have "well_typed ob"
    using assms(1,2) by (force simp: in_order_def accounted_def dom_def)
  then have "well_typed (ob\<lparr>ob_data := d\<rparr>)" using assms(3) by (simp add: well_typed_def)
  then show ?thesis using assms(1,2,4-8)
    by (intro in_orderI [OF accounted_update [of "storage_of s" "pending s" a ob "ob\<lparr>ob_data := d\<rparr>"]])
      (auto simp: in_order_def started_handlers_def dropped_handlers_def)
qed

lemma pending_object:
  assumes "in_order ls s" and "a \<in> set (pending s)"
  obtains ob where "storage_of s a = Some (Object ob)" and "well_typed ob"
  using assms by (auto simp: in_order_def accounted_def)

lemma in_order_finish:
  assumes "in_order ls s" and "storage_of s a = Some (Object ob)"
    and "mset (pending s) = add_mset a (mset (pending s'))" and "storage_of s' = (storage_of s)(a := None)"
    and "image_mset Some (called_handlers s' + dropped_handlers (ls @ [l])) =
      add_mset (Some (op_handler ob)) (image_mset Some (called_handlers s + dropped_handlers ls))"
    and "started_handlers [l] = {#}"
  shows "in_order (ls @ [l]) s'"
proof -
  have o: "accounted (storage_of s) (a # pending s') \<and> held (storage_of s) (a # pending s') = held (storage_of s) (pending s)"
    using accounted_perm [of "storage_of s" "pending s" "a # pending s'"] assms(1,3) by (simp add: in_order_def)
  have "started_handlers (ls @ [l]) = started_handlers ls"
    using assms(6) by (simp add: started_handlers_def)
  then show ?thesis
    using accounted_finish [OF conjunct1 [OF o] assms(2)] o assms(1,4,5) by (simp add: in_order_def)
qed

lemma op_step_in_order: "op_step V P B R l s s' \<Longrightarrow> in_order ls s \<Longrightarrow> in_order (ls @ [l]) s'"
proof (induction rule: op_step.induct)
  case (step_queued ob s a m)
  then show ?case
    by (intro in_order_start [of ls s]) (simp_all add: store_def called_handlers_def pending_def)
next
  case (step_posted ob s a m)
  then show ?case
    by (intro in_order_start [of ls s]) (simp_all add: store_def called_handlers_def pending_def)
next
  case (step_refused build h s m)
  then show ?case
    using start_refused by (fastforce simp: in_order_def store_def called_handlers_def pending_def)
next
  case (step_tried a s ob d w)
  then obtain "ob_perform ob = class_of (ob_data ob)"
    by (auto simp: pending_def well_typed_def elim: pending_object [of ls s a])
  then show ?case using step_tried perform_class [of B R "ob_data ob"]
    by (intro in_order_update [of ls s a ob d])
      (simp_all add: store_def called_handlers_def pending_def started_handlers_def dropped_handlers_def)
next
  case (step_done a s ob d w)
  then obtain "ob_perform ob = class_of (ob_data ob)"
    by (auto simp: pending_def well_typed_def elim: pending_object [of ls s a])
  then show ?case using step_done perform_class [of B R "ob_data ob"]
    by (intro in_order_update [of ls s a ob d])
      (simp_all add: store_def called_handlers_def pending_def started_handlers_def dropped_handlers_def)
next
  case (step_cancelled a s ob)
  then show ?case
    by (intro in_order_update [of ls s a ob "set_ec operation_aborted (ob_data ob)"])
      (simp_all add: store_def called_handlers_def pending_def started_handlers_def dropped_handlers_def)
next
  case (step_completed a s W)
  obtain ob where ob: "storage_of s a = Some (Object ob)" "well_typed ob"
    using pending_object [OF step_completed(3), of a] step_completed(1) by (auto simp: pending_def)
  show ?case using step_completed complete_pending [OF ob, of log_call True]
    by (intro in_order_finish [OF step_completed(3) ob(1)])
      (auto simp: log_call_def Let_def pending_def called_handlers_def started_handlers_def)
next
  case (step_dropped a s ob W)
  obtain "well_typed ob"
    using pending_object [OF step_dropped(4), of a] step_dropped(1,2) by (auto simp: pending_def)
  then have W: "W = (op_world s)\<lparr>storage := (storage_of s)(a := None)\<rparr>"
    using step_dropped(3) complete_pending [OF step_dropped(2), of log_call False] by simp
  have "distinct (pending s)" using step_dropped(4) by (simp add: in_order_def accounted_def)
  then have "mset (pending s) = add_mset a (mset (remove1 a (waiting s) @ remove1 a (ready s)))"
    using step_dropped(1) by (force simp: pending_def disjoint_iff diff_single_trivial)
  then show ?case
    by (intro in_order_finish [OF step_dropped(4,2)])
      (simp_all add: W pending_def called_handlers_def started_handlers_def)
qed

lemma runs_in_order:
  assumes "run (op_step V P B R) (idle w) ls s"
  shows "in_order ls s"
proof -
  have "in_order ls c'" if "run (op_step V P B R) c ls c'" and "in_order [] c" for c ls c'
    using that by (induction rule: run.induct) (auto intro: op_step_in_order)
  from this [OF assms] show ?thesis
    by (simp add: in_order_def accounted_def held_def idle_def pending_def called_handlers_def)
qed

lemma shutdown_step:
  assumes "in_order ls s" and "pending s \<noteq> []"
  obtains h s' where "op_step V P B R (Dropped h) s s'" and "length (pending s') < length (pending s)"
    and "called (op_world s') = called (op_world s)"
proof -
  obtain a where a: "a \<in> set (pending s)" using assms(2) by (cases "pending s") auto
  obtain ob where ob: "storage_of s a = Some (Object ob)" "well_typed ob"
    by (rule pending_object [OF assms(1) a])
  let ?s' = "s\<lparr>op_world := (op_world s)\<lparr>storage := (storage_of s)(a := None)\<rparr>,
    waiting := remove1 a (waiting s), ready := remove1 a (ready s)\<rparr>"
  have "op_step V P B R (Dropped (op_handler ob)) s ?s'"
    using a ob by (intro step_dropped) (auto simp: pending_def complete_pending)
  moreover have "length (pending ?s') < length (pending s)"
    using a length_pos_if_in_set [of a "waiting s"] length_pos_if_in_set [of a "ready s"]
    by (auto simp: pending_def length_remove1 simp del: length_greater_0_conv)
  ultimately show thesis by (rule that) simp
qed

lemma shutdown:
  "in_order ls s \<Longrightarrow> \<exists>ls' s'. run (op_step V P B R) s ls' s' \<and> set ls' \<subseteq> range Dropped \<and>
     in_order (ls @ ls') s' \<and> pending s' = [] \<and> called (op_world s') = called (op_world s)"
proof (induction "length (pending s)" arbitrary: s ls rule: less_induct)
  case less
  show ?case
  proof (cases "pending s = []")
    case True
    then show ?thesis using less.prems by (auto intro!: exI [of _ "[]"] run_Nil)
  next
    case False
    obtain h s1 where s1: "op_step V P B R (Dropped h) s s1" "length (pending s1) < length (pending s)"
        "called (op_world s1) = called (op_world s)"
      by (rule shutdown_step [OF less.prems False])
    have "run (op_step V P B R) s [Dropped h] s1" by (rule run_stepI) (rule s1(1))
    moreover obtain ls' s' where "run (op_step V P B R) s1 ls' s'" "set ls' \<subseteq> range Dropped"
        "in_order ((ls @ [Dropped h]) @ ls') s'" "pending s' = []"
        "called (op_world s') = called (op_world s1)"
      using less.hyps [OF s1(2) op_step_in_order [OF s1(1) less.prems]] by blast
    ultimately show ?thesis using s1(3)
      by (intro exI [of _ "Dropped h # ls'"] exI [of _ s']) (auto dest: run_append)
  qed
qed

end

section \<open>An allocator\<close>

text \<open>
  \<open>n\<close> blocks, the first free one is allocated; freeing through a handler that no longer exists, or what
  is not allocated, is undefined.
\<close>

fun handler_alive :: "handler_place \<Rightarrow> 'o storage \<Rightarrow> bool" where
  "handler_alive Handler_local m = True"
| "handler_alive (Handler_in a) m = (case m a of Some (Object ob) \<Rightarrow> True | _ \<Rightarrow> False)"

definition block_ptr :: "nat \<Rightarrow> ('h, 'o) handler_ptr" where
  "block_ptr n =
     \<lparr>hp_allocate = (\<lambda>h m. map_option (\<lambda>a. (a, m(a \<mapsto> Raw))) (find (\<lambda>a. m a = None) [0..<n])),
      hp_reset = (\<lambda>p m.
        case p_v p of
          None \<Rightarrow> if p_p p = None then Some (p, m) else None
        | Some v \<Rightarrow>
            if (case m v of None \<Rightarrow> False | Some Raw \<Rightarrow> p_p p = None | Some (Object ob) \<Rightarrow> p_p p = Some v) \<and>
               handler_alive (p_h p) (m(v := None))
            then Some (null_ptr (p_h p), m(v := None)) else None)\<rparr>"

interpretation blocks: operation_storage "block_ptr n"
  by unfold_locales (auto simp: block_ptr_def null_ptr_def find_Some_iff)

interpretation machine: operation_machine ops_helper "block_ptr n" ..

interpretation v170_machine: operation_machine v170_ops_helper "block_ptr n" ..

interpretation v166_machine: operation_machine v166_ops_helper "block_ptr n" ..

interpretation v155_machine: operation_machine v155_ops_helper "block_ptr n" ..

lemma helper_machine:
  assumes "V = ops_helper \<or> V = v170_ops_helper \<or> V = v166_ops_helper \<or> V = v155_ops_helper"
    and "operation_storage P"
  shows "operation_machine V P"
  using assms classes.operation_classes_axioms v170_classes.operation_classes_axioms
    v166_classes.operation_classes_axioms v155_classes.operation_classes_axioms
  by (auto intro: operation_machine.intro)

section \<open>Examples\<close>

definition ex_operation :: "(nat, nat) operation" where
  "ex_operation = new_recv_obj (Address_v4 0) no_error (Some 3) {} True [4] 0 7"

definition ex_waiting :: "(nat, nat, nat) op_state" where
  "ex_waiting = (store [0 \<mapsto> Object ex_operation] (idle 0))\<lparr>waiting := [0]\<rparr>"

abbreviation ex_helper :: "(nat, nat, nat) helper" where
  "ex_helper \<equiv> ops_helper"

abbreviation ex_op_step :: "nat op_label \<Rightarrow> (nat, nat, nat) op_state \<Rightarrow> (nat, nat, nat) op_state \<Rightarrow> bool" where
  "ex_op_step \<equiv> op_step ex_helper (block_ptr 4) ex_boost_recv ex_recv_os"

lemma ex_operation_simps [simp]:
  "op_handler ex_operation = 7"
  "delivered (ob_data ex_operation) = With_destination no_error 0 (Address_v4 0)"
  by (simp_all add: ex_operation_def new_recv_obj_def new_recv_op_base_def with_handler_def new_reactor_op_ext_def)

lemma ex_waiting_simps [simp]:
  "storage_of ex_waiting = [0 \<mapsto> Object ex_operation]"
  "pending ex_waiting = [0]"
  "called (op_world ex_waiting) = []"
  by (simp_all add: ex_waiting_def store_def idle_def pending_def)

lemma ex_world: "op_world ex_waiting = \<lparr>storage = [0 \<mapsto> Object ex_operation], called = []\<rparr>"
  by (simp add: ex_waiting_def store_def idle_def)

lemma ex_op_run: "run ex_op_step (idle 0) [Started 7] ex_waiting"
proof (rule run_stepI)
  have "start_operation (block_ptr 4) (\<lambda>_. Some ex_operation) (op_handler ex_operation) (storage_of (idle 0)) =
      Some (Some 0, [0 \<mapsto> Object ex_operation])"
    by (simp add: start_operation_def block_ptr_def idle_def Let_def upt_rec)
  moreover have "hv_constructs ops_helper ex_operation"
    by (simp add: ops_helper_def ex_operation_def makes_recv)
  ultimately have "ex_op_step (Started (op_handler ex_operation)) (idle 0)
      ((store [0 \<mapsto> Object ex_operation] (idle 0))\<lparr>waiting := waiting (idle 0 :: (nat, nat, nat) op_state) @ [0]\<rparr>)"
    by (intro step_queued)
  then show "ex_op_step (Started 7) (idle 0) ex_waiting" by (simp add: ex_waiting_def idle_def)
qed

section \<open>Properties\<close>

text \<open>
  C11: completing a pending receive operation is never undefined, in any version and whatever happened
  before: \<open>do_complete\<close> finds an object of its own class, frees exactly its block, through a handler that
  still exists, and then calls the handler with the operation's error code, byte count and
  destination or credentials, if there is an owner.  Nothing of the operation is touched after the
  call: the outcome is the handler's, even if it starts operations in the memory just freed.
\<close>

theorem pending_operation_completes:
  assumes "V = ops_helper \<or> V = v170_ops_helper \<or> V = v166_ops_helper \<or> V = v155_ops_helper"
    and "operation_storage P" and "run (op_step V P B R) (idle w) ls s" and "a \<in> set (pending s)"
  shows "\<exists>ob. storage_of s a = Some (Object ob) \<and>
    (\<forall>upcall owner. call_complete V P upcall owner a (op_world s) =
      (let W = (op_world s)\<lparr>storage := (storage_of s)(a := None)\<rparr>
       in if owner then upcall (op_handler ob) (delivered (ob_data ob)) W else Some W))"
proof -
  note m = helper_machine [OF assms(1,2)]
  obtain ob where "storage_of s a = Some (Object ob)" "well_typed ob"
    by (rule operation_machine.pending_object [OF m operation_machine.runs_in_order [OF m assms(3)] assms(4)])
  with operation_machine.complete_pending [OF m this] show ?thesis by blast
qed

theorem pending_operation_completes_witness:
  "call_complete ex_helper (block_ptr 4) log_call True 0 (op_world ex_waiting) =
    Some \<lparr>storage = Map.empty, called = [(7, With_destination no_error 0 (Address_v4 0))]\<rparr>"
proof -
  have "0 \<in> set (pending ex_waiting)" by simp
  from pending_operation_completes [OF disjI1 [OF refl] blocks.operation_storage_axioms ex_op_run this]
  show ?thesis
  proof (elim exE conjE)
    fix ob
    assume "storage_of ex_waiting 0 = Some (Object ob)"
      and eq: "\<forall>upcall owner. call_complete ex_helper (block_ptr 4) upcall owner 0 (op_world ex_waiting) =
        (let W = (op_world ex_waiting)\<lparr>storage := (storage_of ex_waiting)(0 := None)\<rparr>
         in if owner then upcall (op_handler ob) (delivered (ob_data ob)) W else Some W)"
    then show ?thesis using spec [OF spec [OF eq, of log_call], of True] by (simp add: log_call_def ex_world)
  qed
qed

text \<open>
  C12: however operations are started, tried, cancelled, completed and dropped, the allocated blocks are
  at every moment exactly those of the pending operations, none of which is pending twice, and every
  handler given to an operation is with one pending operation, was called once, or was dropped once:
  no memory and no handler is lost, and none is used twice.
\<close>

theorem operation_memory_accounted:
  assumes "V = ops_helper \<or> V = v170_ops_helper \<or> V = v166_ops_helper \<or> V = v155_ops_helper"
    and "operation_storage P" and "run (op_step V P B R) (idle w) ls s"
  shows "distinct (pending s) \<and> dom (storage_of s) = set (pending s) \<and>
    image_mset Some (started_handlers ls) =
      image_mset Some (called_handlers s + dropped_handlers ls) + image_mset (handler_at (storage_of s)) (mset (pending s))"
  using operation_machine.runs_in_order [OF helper_machine [OF assms(1,2)] assms(3)]
  by (simp add: in_order_def accounted_def held_def)

theorem operation_memory_accounted_witness:
  "dom (storage_of ex_waiting) = {0} \<and> image_mset Some (started_handlers [Started (7::nat)]) = {#Some 7#}"
  using operation_memory_accounted [OF disjI1 [OF refl] blocks.operation_storage_axioms ex_op_run]
  by (simp add: called_handlers_def dropped_handlers_def)

text \<open>
  C34: shutting down releases everything: from every state the operations that are left can be completed
  without an owner, after which no block is allocated, no handler has been called by it, and every
  handler ever given to an operation was either called or dropped.
\<close>

theorem shutdown_releases_operations:
  assumes "V = ops_helper \<or> V = v170_ops_helper \<or> V = v166_ops_helper \<or> V = v155_ops_helper"
    and "operation_storage P" and "run (op_step V P B R) (idle w) ls s"
  shows "\<exists>ls' s'. run (op_step V P B R) s ls' s' \<and> set ls' \<subseteq> range Dropped \<and> storage_of s' = Map.empty \<and>
    called (op_world s') = called (op_world s) \<and>
    started_handlers (ls @ ls') = called_handlers s' + dropped_handlers (ls @ ls')"
proof -
  note m = helper_machine [OF assms(1,2)]
  obtain ls' s' where run: "run (op_step V P B R) s ls' s'" and sub: "set ls' \<subseteq> range Dropped"
    and ord: "in_order (ls @ ls') s'" and nil: "pending s' = []" and same: "called (op_world s') = called (op_world s)"
    using operation_machine.shutdown [OF m operation_machine.runs_in_order [OF m assms(3)]] by blast
  have empty: "storage_of s' = Map.empty" and
    eq: "image_mset Some (started_handlers (ls @ ls')) = image_mset Some (called_handlers s' + dropped_handlers (ls @ ls'))"
    using ord nil by (simp_all add: in_order_def accounted_def held_def)
  have "started_handlers (ls @ ls') = called_handlers s' + dropped_handlers (ls @ ls')"
    by (rule injD [OF multiset.inj_map [OF inj_Some] eq])
  with run sub empty same show ?thesis by (intro exI [of _ ls'] exI [of _ s']) simp
qed

theorem shutdown_releases_operations_witness:
  "\<exists>ls' s'. run ex_op_step ex_waiting ls' s' \<and> storage_of s' = Map.empty"
  using shutdown_releases_operations [OF disjI1 [OF refl] blocks.operation_storage_axioms ex_op_run] by blast

end
