(* ===== verification/Spec2Isabelle.thy ===== *)
theory Spec2Isabelle
  imports Base_Props Tcp_Client_Props Udp_Client_Props Udp_Server_Props Tcp_Server_Props Manager_Typing
    Server_Stack Protocols_Ext Local_Copies Socket_Front_Props Socket_Ops_Props
    Boost155_Props Later_Requests Lock_Props Socket_Ops_Windows Handler_Props
    Operation_Props
begin

text \<open>
  \<^bold>\<open>The program.\<close>  The repository is the transport layer of a DoIP stack: endpoints that send and
  receive byte messages over TCP and UDP with Boost.Asio, and a manager that creates and shares them.
  A client endpoint (src/client_endpoint_impl.cpp with the derived tcp_client_endpoint_impl.cpp and
  udp_client_endpoint_impl.cpp) owns one socket, connects it, reads from it and writes to it.  A
  server endpoint (src/server_endpoint_impl.cpp with udp_server_endpoint_impl.cpp and
  tcp_server_endpoint_impl.cpp) owns a datagram socket or an acceptor with a table of connections.
  endpoint_manager_impl.cpp keeps two registries of shared endpoints, keyed by address text, port and
  reliability.  The directories include/helper/<version> extend Boost.Asio's socket classes with the
  destination address and the peer's credentials of a received message; the build picks one by the
  version of Boost.  The newest, 1.74, is modelled, and the older ones, 1.55, 1.66 and 1.70, are modelled and
  compared with it.

  \<^bold>\<open>How the parts interact.\<close>  The owner of an endpoint calls \<open>start\<close>, \<open>send\<close> and \<open>stop\<close>.  These start
  asynchronous operations, whose handlers the io_service runs later, one at a time in this model: a
  call or a handler is one step, and no lock is part of the state.  Work that was started and has not
  completed is a list in the state (\<open>io\<close> of a client, \<open>srv_io\<close> of a server), and a completion takes one
  element out of it and runs its handler, with any error code and any data that operation can
  deliver.  So the theorems about runs quantify over every order in which operations complete.
  A second model looks inside a call: there the functions are scripts of guards and accesses to shared
  fields, and threads run them step by step (\<open>Lock_Machine\<close>).

  \<^bold>\<open>What is a parameter.\<close>  Boost.Asio and the operating system are arguments of the model: the record
  \<open>asio_env\<close> (theory \<open>Asio_Env\<close>) for the endpoints, \<open>os\<close> (theory \<open>Socket_Kernel\<close>) for the extended
  sockets, \<open>recv_os\<close> (theory \<open>Socket_Ops_Ext\<close>) for \<open>recvmsg\<close> and \<open>poll\<close>, \<open>boost_recv\<close> (theory
  \<open>Socket_Ops_Ext\<close>) for Boost's own non-blocking receives.  The documented behaviour the
  theorems rely on is stated by the locale \<open>asio_socket\<close> and the predicates \<open>posix_descriptors\<close>,
  \<open>posix_sockets\<close> and \<open>posix_acceptors\<close>, each of which holds of an executable instance (\<open>quiet_env\<close>, \<open>list_os\<close>);
  Winsock is the record \<open>wsa\<close> (theory \<open>Socket_Ops_Windows\<close>), and what Boost's own operations call handlers
  with is \<open>boost_calls\<close> (theory \<open>Handler_Interfaces\<close>); the memory of operations is managed by Boost's
  \<open>op::ptr\<close>, the record \<open>handler_ptr\<close> with the contract \<open>operation_storage\<close> (theory \<open>Operation_Props\<close>, instance
  \<open>block_ptr\<close>), and the base class of the 1.55 sockets is \<open>boost_socket\<close> (theory \<open>Boost155_Fronts\<close>);
  \<open>asio_socket\<close> moreover holds of the repository's own sockets, whatever the operating system does
  (interpretation \<open>ext\<close>).  Values the constructors leave uninitialised (the use count,
  \<open>sending_blocked_\<close>, \<open>is_sending_\<close>) are arguments too.  Two functions are declared and called but not
  defined in the sources, \<open>server_endpoint_impl::stop\<close> and \<open>connection::wait_until_sent\<close>: they are
  arguments \<open>base_stop\<close> and \<open>wait\<close> of the definitions that call them, and nothing is assumed of them.  The
  theorems are about any such functions, or about the code before or after the call, or about runs in
  which no function is called that needs them (\<open>in_sources\<close>); their scripts are the code around the call.
  \<open>release\<close> of the socket services is declared too, and its definition commented out: an argument of the
  functions that call it.

  \<^bold>\<open>The theories.\<close>
  \<^item> \<open>Prelude\<close>: integer types, error codes, rule collections.  \<open>Stream_Format\<close>: the text the
    endpoints print.  \<open>Std_Map\<close>: \<open>std::map\<close> as a sorted association list, with the locale
    \<open>dictionary\<close>.  \<open>Message_Buffer\<close>: \<open>message_buffer_t\<close> of include/buffer.h, with size, capacity and
    allocation that can fail.
  \<^item> \<open>Endpoint_Impl\<close>: the use count (src/endpoint_impl.cpp).  \<open>Receive_Window\<close>: the buffer management
    that TCP client and server connection both do before each read.  \<open>Base_Props\<close>: properties of these.
  \<^item> \<open>Client_Endpoint\<close>: state, transitions and handlers of src/client_endpoint_impl.cpp; the virtual
    functions are a record of functions, their contract is the locale \<open>client_vtable\<close>.  \<open>Client_Events\<close>: labels,
    completions and runs.  \<open>Tcp_Client\<close>, \<open>Tcp_Client_Runs\<close>, \<open>Tcp_Client_Laws\<close>, \<open>Tcp_Client_Props\<close>: the TCP client, its transition relation,
    its invariant \<open>tcp_inv\<close>, its properties.  \<open>Udp_Client\<close>, \<open>Udp_Client_Props\<close>: the UDP client.
  \<^item> \<open>Server_Endpoint\<close>: src/server_endpoint_impl.cpp.  \<open>Udp_Server\<close>, \<open>Udp_Server_Props\<close>: the UDP server.
    \<open>Tcp_Server\<close>, \<open>Tcp_Server_Runs\<close>, \<open>Tcp_Server_Laws\<close>, \<open>Tcp_Server_Props\<close>: the TCP server with its
    connections, which live in a heap and are named by index, its transition relation and its
    invariant \<open>ts_inv\<close>.
  \<^item> \<open>Endpoint_Manager\<close>: src/endpoint_manager_impl.cpp.  \<open>Manager_Laws\<close>: the nested maps implement one
    flat table (locale \<open>endpoint_registry\<close>).  \<open>Manager_Props\<close>: the refinement of the whole manager.
    \<open>Manager_Typing\<close>: the dynamic types of what the registries hand out.
  \<^item> \<open>Socket_Kernel\<close>: reactor queues and descriptors.  \<open>Socket_Service_Base\<close>, \<open>Socket_Service\<close>,
    \<open>Basic_Socket\<close>: reactive_socket_service_base_ext, reactive_socket_service_ext and
    basic_socket_ext, function by function.  \<open>Socket_Laws\<close>: which calls keep a socket open, that
    operations are handed over once, and the endpoints' environment on these sockets (\<open>ext_env\<close>).
    \<open>Socket_Ownership\<close>, \<open>Socket_Props\<close>: who owns which descriptor.
  \<^item> \<open>Local_Service_Base\<close>, \<open>Local_Service\<close>, \<open>Basic_Socket_Local\<close>: the copies of these three for local
    protocols, again function by function (every name has the prefix \<open>local_\<close>).  \<open>Service_Requests\<close>:
    a service as a machine that answers requests, and the locale \<open>kernel_view\<close> for comparing two of
    them; \<open>Local_Copies\<close> shows with it that the copies have not drifted from the originals.
  \<^item> \<open>Datagram_Socket\<close> (prefix \<open>ds_\<close>), \<open>Stream_Socket\<close> (\<open>ss_\<close>), \<open>Socket_Acceptor\<close> (\<open>sa_\<close>): the front
    ends basic_datagram_socket_ext on the extended service, basic_stream_socket_ext and
    basic_socket_acceptor_ext on the local one.  \<open>Protocols_Ext\<close>: \<open>udp_ext\<close> and \<open>stream_protocol_ext\<close>,
    in all versions.
    \<open>Socket_Front_Props\<close>: their properties.
  \<^item> \<open>Socket_Ops_Ext\<close>: receiving with destination address or credentials, the loops of
    socket_ops_ext, and the receive operations; \<open>Socket_Ops_Props\<close>: when the loops end and what
    handlers are told.
  \<^item> \<open>Boost155_Base\<close>, \<open>Boost155_Local\<close>, \<open>Boost155_Wrappers\<close>, \<open>Boost155_Fronts\<close>,
    \<open>Boost155_Ops\<close>: the helper for Boost 1.55 (prefix \<open>v155_\<close>): its services and their local copies, the
    services of the socket objects (\<open>v155_dss_\<close>, \<open>v155_sss_\<close>, \<open>v155_ass_\<close>), the socket objects and the
    receive operations.  \<open>Boost155_Copies\<close>, \<open>Boost155_Requests\<close> and \<open>Boost155_Props\<close> compare it with the
    helper for 1.74.
  \<^item> \<open>Boost166_Service\<close>, \<open>Boost166_Local\<close>, \<open>Boost166_Stream_Service\<close>, \<open>Boost166_Basic\<close>, \<open>Boost166_Fronts\<close>
    (prefix \<open>v166_\<close>) and \<open>Boost170_Service\<close>, \<open>Boost170_Local\<close>, \<open>Boost170_Basic\<close>,
    \<open>Boost170_Fronts\<close> (prefix \<open>v170_\<close>) and \<open>Later_Ops\<close> (both): the helpers for Boost 1.66 and 1.70, function by
    function.  \<open>Later_Copies\<close> shows which functions equal those for 1.74, \<open>Later_Requests\<close> that the
    services answer alike and where the receives differ.
  \<^item> \<open>Socket_Ops_Windows\<close>: the Windows branches of the receive functions in all four versions, and
    what a failed receive or lookup becomes there.
  \<^item> \<open>Operation_Memory\<close>: the memory of the asynchronous receive operations of all versions: constructors,
    starting (\<open>start_operation\<close>) and \<open>do_complete\<close> (\<open>finish_operation\<close>), with undefined behaviour as
    \<open>None\<close>.  \<open>Operation_Props\<close>: operations as a transition system (\<open>op_step\<close>), the contract of a version's
    classes (locale \<open>operation_classes\<close>, interpreted by each version), and who owns which block.
  \<^item> \<open>Handler_Checks\<close>: the compile-time checks of handlers (handler_type_requirements_ext and
    handler_type_requirements_ext_local, all versions), as predicates on what a handler type can do.
    \<open>Handler_Interfaces\<close>: what each asynchronous function announces, checks and calls.  \<open>Handler_Props\<close>:
    which handlers are accepted, and that an accepted one can be called.
  \<^item> \<open>Lock_Machine\<close>: threads that run scripts of guards, and the locale \<open>lock_discipline\<close>, whose calls
    neither deadlock nor race.  \<open>Endpoint_Locks\<close>, \<open>Server_Locks\<close>: the scripts of the functions of the
    endpoints and of the manager (suffix \<open>_script\<close>), and the interpretation of the locale by everything
    a thread can call.  \<open>Use_Count_Threads\<close>: the use count under threads.  \<open>Lock_Props\<close>: their properties.
  \<^item> \<open>Extended_Sockets\<close>, \<open>Server_Stack\<close> and this theory: the UDP server running on the extended
    sockets it is built on (the clients and the TCP server use Boost's own sockets).

  \<^bold>\<open>What is shown.\<close>  The clients: which operation a connection attempt starts and what a failed write
  does; that reads stay within the buffer and how many there can be; that an aborted write blocks the
  client; that the UDP client overwrites its constant peer address.  The servers: that they keep listening
  and accepting until stopped, that stopping closes everything they hold, that a connection is in the table at most once, and that the UDP server on the extended
  sockets holds one descriptor until it is stopped and none afterwards.  The manager: it is a
  refinement of two flat tables, with removal guarded by the use count, and the tables are typed by
  their keys.  The sockets: descriptors are owned by exactly one socket, also when a constructor or
  an accept fails half way; on the requests for which calls compile, the local copies are equivalent to
  the originals, the 1.66 and 1.70 helpers to the 1.74 one, and the 1.55 helper up to differences that
  are spelled out, among them the exchanged flags of an accept; which versions report the credentials of
  a plain receive; empty transfers on streams never reach the reactor.  Receiving:
  the exact condition under which each receive loop returns, that a waiting operation completes with
  the datagram that arrived, and that control messages are read back as they were written; what a
  failed receive on Windows returns at each width of the result.  Operations: completing one is never
  undefined, frees its memory before the handler is called and touches nothing afterwards, and no block
  and no handler is ever lost or used twice.  Threads: whatever scripts the threads run,
  they never block each other and never race for a field that is always accessed under its mutex (the
  sockets of TCP clients and connections, the blocking flag and the sizes of the connections' buffers are
  not; races for the TCP client's socket and flag are exhibited); the path on which the lock
  order is broken, a failure to resize the buffer of a connection, would deadlock, and no run of the
  server reaches it; the use count counts references as long as every thread gives back only what it
  took, and wraps otherwise.  Handlers: an accepted handler can be stored and called by the operation,
  except by reads of \<open>null_buffers\<close>, and which handlers written to the announced signature are rejected.  Some
  theorems state what the code does although it can hardly be intended (a use count that is never
  initialised, a sending flag that is never cleared, connect errors taken for success, handlers told
  credentials nobody received); their texts say so.

  \<^bold>\<open>Bounds and loops.\<close>  Every definition is total except the receive loops of \<open>Socket_Ops_Ext\<close>,
  which are partial functions because a socket can be interrupted for ever, or be reported ready
  for ever without having data; \<open>receive_loops_terminate_iff\<close> says exactly when they return.  \<open>tries\<close>
  runs a waiting operation at most a given number of times; \<open>receive_from_operation_completes\<close> says
  how many are enough.  No other fuel is used.  Sizes and counts have the width of the C++ types and
  wrap; a \<open>std::vector\<close> holds at most \<open>max_size\<close> = 2^63 - 1 bytes.

  \<^bold>\<open>Not modelled.\<close>  In the scripts, exceptions other than the one the code catches from resizing a buffer,
  and the io_service's own locking.  The virtual destructors; the code disabled by the preprocessor
  (\<open>#if 0\<close>, the \<open>#else\<close> branch of the connection's \<open>receive_cbk\<close>); executors, beyond handing a given one to
  an accepted socket, and the accessors that return them; of the branches of
  \<open>BOOST_ASIO_ENABLE_OLD_SERVICES\<close> in 1.66 all but the stream socket service and the signatures of the
  stream socket; in 1.74 the asynchronous receive with flags and the local receive with a sender, with
  the constructors of their operations, which leave out an argument of their base or do not take one they
  are given, so that calls do not compile (what these operations do when they are performed and completed
  is modelled as written; the converting moves of the 1.66 sockets,
  which name the wrong class as their friend, are modelled by what their bodies say); the counting of
  outstanding work by Boost's \<open>handler_work\<close>; handlers whose copies throw;
  what the acceptors' asynchronous functions ask of their handlers, and the functions whose handlers
  Boost's own header checks.
\<close>

section \<open>Properties that span components\<close>

text \<open>
  C23: the UDP server on the extended sockets it is built on holds one descriptor for as long as it
  lives.  From a successful construction, whatever is then received, sent or fails and in whatever order,
  there is one descriptor that its socket holds, that is the only one open in the operating system and
  the only one registered with the reactor.  Once the part of \<open>stop\<close> that has a definition has run (the
  rest is the missing \<open>server_endpoint_impl::stop\<close>, for which nothing is run here) the socket holds none,
  and none is open or registered, then and in every state the server reaches afterwards.
\<close>

theorem udp_server_descriptors:
  assumes "posix_sockets Sys open_in" and "open_in w = {}" and "E = ext_env Sys enc rcvbuf rd backlog B"
    and "new_udp_server E garbage lcl (bs_new Sys (kernel0 w)) = Inr c0"
    and "run (us_step E base_stop) c0 ls c" and "Us_stop \<notin> set ls"
    and "run (us_step E base_stop) (us_stop E (\<lambda>c. c) c) ls' c'" and "Us_stop \<notin> set ls'"
  shows "(\<exists>fd. b_socket (fst (unicast_socket c)) = Some fd \<and>
      open_in (world (snd (unicast_socket c))) = {fd} \<and> registered (snd (unicast_socket c)) = {fd}) \<and>
    b_socket (fst (unicast_socket c')) = None \<and>
    open_in (world (snd (unicast_socket c'))) = {} \<and> registered (snd (unicast_socket c')) = {}"
proof -
  note E = ext.asio_socket_axioms [of Sys enc rcvbuf rd backlog B]
  have "owns open_in (bs_new Sys (kernel0 w))" using assms(2) by (rule owns_new)
  with own.new_udp_server_keeps [where open_in = open_in, OF assms(4) [unfolded assms(3)]]
  have "posix_sockets Sys open_in \<longrightarrow> owns open_in (unicast_socket c0)" by simp
  then have c: "posix_sockets Sys open_in \<longrightarrow> owns open_in (unicast_socket c)"
    by (rule own.us_run_keeps [OF assms(5) [unfolded assms(3)] assms(6)])
  from own.us_stop_keeps [OF c] have s: "owns open_in (unicast_socket (us_stop E (\<lambda>c. c) c))"
    using assms(1) by (simp add: assms(3))
  have "sk_is_open E (unicast_socket c0)"
    using new_udp_server_open [OF E] assms(4) by (simp add: assms(3))
  then have "bs_is_open (unicast_socket c)"
    using us_run_socket [OF assms(5,6)] by (simp add: assms(3))
  moreover have "\<not> bs_is_open (unicast_socket (us_stop E (\<lambda>c. c) c))"
    using us_stop_closed [OF E, of "\<lambda>c. c" c] by (simp add: assms(3))
  ultimately show ?thesis
    using owns_open_socket [of open_in "unicast_socket c"] owns_closed_socket [OF s] c assms(1)
      us_run_socket [OF assms(7,8)] by simp
qed

theorem udp_server_descriptors_witness:
  "\<exists>fd. b_socket (fst (unicast_socket (us_start ex_ext_env ex_udp_server))) = Some fd \<and>
     world (snd (unicast_socket (us_stop ex_ext_env (\<lambda>c. c) (us_start ex_ext_env ex_udp_server)))) = []"
  using udp_server_descriptors [OF list_os_sockets _ ex_ext_env_def new_udp_server_ex
      run_stepI [of "us_step ex_ext_env id", OF us_step.us_start] _ run_Nil]
  by auto

end
